(* ===== verification/Prelude.thy ===== *)
theory Prelude
  imports Complex_Main
begin

text \<open>
  Shared base of the development: the result type of the request handlers, the two
  combinators their bodies are written with, tables of keyed rows (what the DAOs read and
  write), and two interfaces stated as locales: \<open>keyed_table\<close>, the laws a table gives to
  the code that uses it, and \<open>lifecycle\<close>, the contract of every entity with a status.

  A handler that raises leaves nothing behind: the routers commit only after the controller
  returned (\<^verbatim>\<open>await session.commit()\<close>), and an exception closes the session. So a handler is a
  function from the committed state to either an error or the new state with its output.
\<close>

section \<open>Identifiers, time and errors\<close>

type_synonym uuid = nat
type_synonym datetime = int \<comment> \<open>naive UTC, in microseconds since 1970-01-01\<close>

text \<open>
  The exceptions of \<^verbatim>\<open>core/exceptions.py\<close> with their message, then the exceptions of the
  libraries that the code can let escape: a violated database constraint (with the name the
  model gives it), a Python \<^verbatim>\<open>ValueError\<close> and \<^verbatim>\<open>AssertionError\<close>, the
  \<^verbatim>\<open>MultipleResultsFound\<close> of \<^verbatim>\<open>scalar_one_or_none\<close>, a number too large for its column
  (\<^verbatim>\<open>DataError\<close>), a quantized decimal of more than 28 digits (\<^verbatim>\<open>InvalidOperation\<close>) and a
  statement on a session whose savepoint a failed flush has rolled back
  (\<^verbatim>\<open>PendingRollbackError\<close>), an attribute of an expired object read outside the
  database driver (\<^verbatim>\<open>MissingGreenlet\<close>), a failed authenticated decryption
  (\<^verbatim>\<open>InvalidTag\<close>), a Python \<^verbatim>\<open>RuntimeError\<close>, \<^verbatim>\<open>KeyError\<close> and
  \<^verbatim>\<open>OSError\<close>; last the \<^verbatim>\<open>HTTPException\<close> that the
  dependencies of a route raise, with its status, and the one of the consent gate with the
  identifier, version and body of the text to accept.
\<close>

datatype app_error =
    AppError string
  | NotFound string
  | Unauthorized string
  | Forbidden string
  | Conflict string
  | BadRequest string
  | PayloadTooLarge string
  | UnsupportedMediaType string
  | Validation string
  | IllegalTransition string string "string list"
  | IntegrityError string
  | ValueError string
  | AssertionError string
  | MultipleResultsFound
  | DataError string
  | InvalidOperation
  | PendingRollback
  | MissingGreenlet
  | InvalidTag
  | RuntimeError string
  | KeyError string
  | OSError string
  | HTTPException int string
  | ConsentRequired "(uuid \<times> int \<times> string) option"

fun status_code :: "app_error \<Rightarrow> int" where
  "status_code (NotFound _) = 404"
| "status_code (Unauthorized _) = 401"
| "status_code (Forbidden _) = 403"
| "status_code (Conflict _) = 409"
| "status_code (BadRequest _) = 400"
| "status_code (PayloadTooLarge _) = 413"
| "status_code (UnsupportedMediaType _) = 415"
| "status_code (Validation _) = 422"
| "status_code (IllegalTransition _ _ _) = 422"
| "status_code (HTTPException n _) = n"
| "status_code (ConsentRequired _) = 428"
| "status_code _ = 500"

type_synonym 'a res = "app_error + 'a"

section \<open>Handler combinators\<close>

named_theorems res_simps \<open>inversion of handler bodies that returned or raised\<close>

text \<open>
  \<open>attempt m f\<close> is \<^verbatim>\<open>x = await m\<close> followed by \<open>f x\<close>; an exception of \<open>m\<close> ends the
  handler. \<open>raise_if c e k\<close> is \<^verbatim>\<open>if c: raise e\<close> followed by \<open>k\<close>.
\<close>

definition attempt :: "'a res \<Rightarrow> ('a \<Rightarrow> 'b res) \<Rightarrow> 'b res" where
  "attempt m f = (case m of Inl e \<Rightarrow> Inl e | Inr x \<Rightarrow> f x)"

definition raise_if :: "bool \<Rightarrow> app_error \<Rightarrow> 'a res \<Rightarrow> 'a res" where
  "raise_if c e k = (if c then Inl e else k)"

text \<open>\<open>require x e f\<close> is \<^verbatim>\<open>if x is None: raise e\<close> followed by \<open>f\<close> of the value.\<close>

definition require :: "'a option \<Rightarrow> app_error \<Rightarrow> ('a \<Rightarrow> 'b res) \<Rightarrow> 'b res" where
  "require x e f = (case x of None \<Rightarrow> Inl e | Some y \<Rightarrow> f y)"

lemma attempt_simps [simp]:
  "attempt (Inl e) f = Inl e" "attempt (Inr x) f = f x"
  by (simp_all add: attempt_def)

lemma raise_if_simps [simp]:
  "raise_if True e k = Inl e" "raise_if False e k = k"
  by (simp_all add: raise_if_def)

lemma require_simps [simp]:
  "require None e f = Inl e" "require (Some x) e f = f x"
  by (simp_all add: require_def)

lemma attempt_eq_Inr [res_simps]:
  "attempt m f = Inr y \<longleftrightarrow> (\<exists>x. m = Inr x \<and> f x = Inr y)"
  by (auto simp: attempt_def split: sum.splits)

lemma attempt_eq_Inl [res_simps]:
  "attempt m f = Inl e \<longleftrightarrow> m = Inl e \<or> (\<exists>x. m = Inr x \<and> f x = Inl e)"
  by (auto simp: attempt_def split: sum.splits)

lemma raise_if_eq_Inr [res_simps]:
  "raise_if c e k = Inr y \<longleftrightarrow> \<not> c \<and> k = Inr y"
  by (simp add: raise_if_def)

lemma raise_if_eq_Inl [res_simps]:
  "raise_if c e k = Inl e' \<longleftrightarrow> (c \<and> e = e') \<or> (\<not> c \<and> k = Inl e')"
  by (simp add: raise_if_def)

lemma require_eq_Inr [res_simps]:
  "require x e f = Inr y \<longleftrightarrow> (\<exists>v. x = Some v \<and> f v = Inr y)"
  by (auto simp: require_def split: option.splits)

lemma require_eq_Inl [res_simps]:
  "require x e f = Inl e' \<longleftrightarrow> (x = None \<and> e = e') \<or> (\<exists>v. x = Some v \<and> f v = Inl e')"
  by (auto simp: require_def split: option.splits)

text \<open>
  \<^verbatim>\<open>result.scalar_one_or_none()\<close> on the rows a query returned: no row is \<open>None\<close>, two rows
  raise.
\<close>

fun scalar_one_or_none :: "'a list \<Rightarrow> 'a option res" where
  "scalar_one_or_none [] = Inr None"
| "scalar_one_or_none [x] = Inr (Some x)"
| "scalar_one_or_none (x # y # zs) = Inl MultipleResultsFound"

lemma scalar_one_or_none_Some:
  "scalar_one_or_none xs = Inr (Some x) \<longleftrightarrow> xs = [x]"
  by (cases xs rule: scalar_one_or_none.cases) auto

lemma scalar_one_or_none_None:
  "scalar_one_or_none xs = Inr None \<longleftrightarrow> xs = []"
  by (cases xs rule: scalar_one_or_none.cases) auto

section \<open>Tables of keyed rows\<close>

text \<open>
  A table is the list of its rows in insertion order. \<open>fetch\<close> is a lookup by primary key,
  \<open>modify\<close> is the mutation of a row object followed by a flush (a row object is the row of
  the session's identity map, so every holder of it sees the change), a new row is appended.
\<close>

definition fetch :: "('r \<Rightarrow> 'k) \<Rightarrow> 'k \<Rightarrow> 'r list \<Rightarrow> 'r option" where
  "fetch key k t = find (\<lambda>r. key r = k) t"

definition modify :: "('r \<Rightarrow> 'k) \<Rightarrow> 'k \<Rightarrow> ('r \<Rightarrow> 'r) \<Rightarrow> 'r list \<Rightarrow> 'r list" where
  "modify key k f t = map (\<lambda>r. if key r = k then f r else r) t"

definition insert_row :: "'r \<Rightarrow> 'r list \<Rightarrow> 'r list" where
  "insert_row r t = t @ [r]"

lemma fetch_simps [simp]:
  "fetch key k [] = None"
  "fetch key k (r # t) = (if key r = k then Some r else fetch key k t)"
  by (simp_all add: fetch_def)

lemma modify_simps [simp]:
  "modify key k f [] = []"
  "modify key k f (r # t) = (if key r = k then f r else r) # modify key k f t"
  by (simp_all add: modify_def)

lemma fetch_SomeD: "fetch key k t = Some r \<Longrightarrow> key r = k \<and> r \<in> set t"
  by (induction t) (auto split: if_splits)

lemma fetch_None_iff: "fetch key k t = None \<longleftrightarrow> (\<forall>r \<in> set t. key r \<noteq> k)"
  by (induction t) auto

lemma fetch_append:
  "fetch key k (t @ u) = (case fetch key k t of None \<Rightarrow> fetch key k u | Some r \<Rightarrow> Some r)"
  by (induction t) auto

lemma fetch_modify:
  assumes "\<And>r. key (f r) = key r"
  shows "fetch key k (modify key k' f t) =
    (if k = k' then map_option f (fetch key k t) else fetch key k t)"
  by (induction t) (auto simp: assms)

lemma fetch_map: "(\<And>r. key (g r) = key r) \<Longrightarrow> fetch key k (map g t) = map_option g (fetch key k t)"
  by (induction t) auto

lemma fetch_distinct:
  "distinct (map key t) \<Longrightarrow> r \<in> set t \<Longrightarrow> fetch key (key r) t = Some r"
  by (induction t) (auto simp: image_iff)

lemma map_key_modify:
  "(\<And>r. key (f r) = key r) \<Longrightarrow> map key (modify key k f t) = map key t"
  by (induction t) auto

lemma set_modify: "set (modify key k f t) = (\<lambda>r. if key r = k then f r else r) ` set t"
  by (simp add: modify_def)

lemma modify_modify:
  "(\<And>r. key (f r) = key r) \<Longrightarrow>
   modify key k g (modify key k f t) = modify key k (g \<circ> f) t"
  by (induction t) auto

subsection \<open>The interface of a table\<close>

text \<open>
  What the controllers rely on: a lookup finds the row of that key, a new row with a fresh
  key is found again and hides no other, a mutation that keeps the key changes that row only.
\<close>

locale keyed_table =
  fixes key :: "'r \<Rightarrow> 'k"
    and get :: "'k \<Rightarrow> 't \<Rightarrow> 'r option"
    and add :: "'r \<Rightarrow> 't \<Rightarrow> 't"
    and upd :: "'k \<Rightarrow> ('r \<Rightarrow> 'r) \<Rightarrow> 't \<Rightarrow> 't"
  assumes get_key: "get k t = Some r \<Longrightarrow> key r = k"
    and get_add: "get (key r) t = None \<Longrightarrow>
      get k (add r t) = (if k = key r then Some r else get k t)"
    and get_upd: "(\<And>r. key (f r) = key r) \<Longrightarrow>
      get k (upd k' f t) = (if k = k' then map_option f (get k t) else get k t)"
begin

lemma get_add_same: "get (key r) t = None \<Longrightarrow> get (key r) (add r t) = Some r"
  by (simp add: get_add)

lemma get_add_old: "get (key r) t = None \<Longrightarrow> get k t = Some x \<Longrightarrow> get k (add r t) = Some x"
  by (auto simp: get_add)

lemma get_upd_other:
  "(\<And>r. key (f r) = key r) \<Longrightarrow> k \<noteq> k' \<Longrightarrow> get k (upd k' f t) = get k t"
  by (simp add: get_upd)

lemma get_upd_cases:
  assumes "\<And>r. key (f r) = key r" and "get k (upd k' f t) = Some y"
  obtains x where "get k t = Some x" "y = (if k = k' then f x else x)"
  using assms by (auto simp: get_upd split: if_splits)

lemma get_upd_Some:
  assumes "\<And>r. key (f r) = key r" and "get k t = Some x"
  shows "get k (upd k' f t) = Some (if k = k' then f x else x)"
  using assms by (auto simp: get_upd)

lemma get_upd_None:
  "(\<And>r. key (f r) = key r) \<Longrightarrow> get k (upd k' f t) = None \<longleftrightarrow> get k t = None"
  by (simp add: get_upd)

end

lemma list_table: "keyed_table key (fetch key) insert_row (modify key)"
proof
  show "\<And>k t r. fetch key k t = Some r \<Longrightarrow> key r = k"
    by (auto dest: fetch_SomeD)
  show "\<And>r t k. fetch key (key r) t = None \<Longrightarrow>
      fetch key k (insert_row r t) = (if k = key r then Some r else fetch key k t)"
    by (auto simp: insert_row_def fetch_append split: option.splits)
  show "\<And>f k k' t. (\<And>r. key (f r) = key r) \<Longrightarrow>
      fetch key k (modify key k' f t) =
        (if k = k' then map_option f (fetch key k t) else fetch key k t)"
    by (rule fetch_modify)
qed

section \<open>The interface of an entity with a status\<close>

text \<open>
  Every entity with a status (contracts, payment declarations, tasks, ritual occurrences,
  adjustments) promises the same: a step never loses the entity and moves its status along
  an edge of the declared transition relation, or not at all. From that alone: a run moves
  along a path, and a terminal status is kept for good.
\<close>

locale lifecycle =
  fixes step :: "'s \<Rightarrow> 's \<Rightarrow> bool"
    and st :: "'s \<Rightarrow> 'k \<Rightarrow> 'q option"
    and edge :: "'q \<Rightarrow> 'q \<Rightarrow> bool"
  assumes step_edge:
    "step s s' \<Longrightarrow> st s k = Some x \<Longrightarrow> \<exists>y. st s' k = Some y \<and> (y = x \<or> edge x y)"
begin

lemma run_path:
  assumes "step\<^sup>*\<^sup>* s s'" and "st s k = Some x"
  shows "\<exists>y. st s' k = Some y \<and> edge\<^sup>*\<^sup>* x y"
  using assms
proof (induction rule: rtranclp_induct)
  case base
  then show ?case by auto
next
  case (step t u)
  then obtain y where "st t k = Some y" "edge\<^sup>*\<^sup>* x y" by blast
  with step_edge [OF step.hyps(2)] show ?case
    by (metis rtranclp.rtrancl_into_rtrancl)
qed

lemma run_keeps_closed:
  assumes closed: "\<And>x y. P x \<Longrightarrow> edge x y \<Longrightarrow> P y"
    and "step\<^sup>*\<^sup>* s s'" and "st s k = Some x" and "P x"
  shows "\<exists>y. st s' k = Some y \<and> P y"
proof -
  obtain y where y: "st s' k = Some y" "edge\<^sup>*\<^sup>* x y"
    using run_path [OF assms(2,3)] by blast
  from y(2) \<open>P x\<close> have "P y"
    by (induction rule: rtranclp_induct) (auto intro: closed)
  with y(1) show ?thesis by blast
qed

lemma terminal_kept:
  assumes "\<And>y. \<not> edge x y" and "step\<^sup>*\<^sup>* s s'" and "st s k = Some x"
  shows "st s' k = Some x"
  using run_keeps_closed [where P = "\<lambda>z. z = x", OF _ assms(2,3)] assms(1) by blast

end

section \<open>Small list facts\<close>

text \<open>\<^verbatim>\<open>next((v for v in xs if p(v)), None)\<close> is the library's \<open>find\<close>.\<close>

lemma find_Some_iff_mem: "find p xs = Some x \<Longrightarrow> p x \<and> x \<in> set xs"
  by (induction xs) (auto split: if_splits)

lemma find_append:
  "find p (xs @ ys) = (case find p xs of None \<Rightarrow> find p ys | Some x \<Rightarrow> Some x)"
  by (induction xs) auto

lemma set_map_filter_iff: "x \<in> set (List.map_filter f xs) \<longleftrightarrow> (\<exists>y \<in> set xs. f y = Some x)"
  by (induction xs) (auto simp: List.map_filter_simps split: option.splits)

text \<open>\<^verbatim>\<open>ORDER BY key ASC\<close>: a stable insertion sort by the key.\<close>

lemma insort_key_snoc:
  "k x \<le> k y \<Longrightarrow> insort_key k x (zs @ [y]) = insort_key k x zs @ [y]"
  by (induction zs) auto

lemma sort_key_snoc:
  "(\<And>x. x \<in> set xs \<Longrightarrow> k x \<le> k y) \<Longrightarrow> sort_key k (xs @ [y]) = sort_key k xs @ [y]"
  by (induction xs) (auto simp: insort_key_snoc)

end
