(* ===== verification/Decimals.thy ===== *)
theory Decimals
  imports Prelude
begin

text \<open>
  Python's \<^verbatim>\<open>decimal.Decimal\<close> with the default context, as exact rationals: every arithmetic
  operation of the code is the rational one followed by \<open>ctx\<close>, the rounding to 28 significant
  digits (half to even) of the default context; \<^verbatim>\<open>quantize\<close> keeps a number of decimal places,
  with half to even where the code gives no rounding and half away from zero where it gives
  \<^verbatim>\<open>ROUND_HALF_UP\<close>. The column type \<^verbatim>\<open>Numeric(p, s)\<close> of the database rounds a stored value
  to \<open>s\<close> places, half away from zero. Shown here: \<open>ctx\<close> is the identity on money amounts, is
  monotone, and errs by at most 5 units in the 28th digit.
\<close>

section \<open>Rounding to an integer\<close>

definition round_half_even :: "rat \<Rightarrow> int" where
  "round_half_even x =
     (let f = \<lfloor>x\<rfloor>; d = x - of_int f
      in if d < 1 / 2 then f
         else if d > 1 / 2 then f + 1
         else if even f then f else f + 1)"

definition round_half_up :: "rat \<Rightarrow> int" where
  "round_half_up x = (if x \<ge> 0 then \<lfloor>x + 1 / 2\<rfloor> else - \<lfloor>- x + 1 / 2\<rfloor>)"

lemma round_half_even_bounds: "\<lfloor>x\<rfloor> \<le> round_half_even x \<and> round_half_even x \<le> \<lfloor>x\<rfloor> + 1"
  by (simp add: round_half_even_def Let_def)

lemma round_half_even_err: "\<bar>of_int (round_half_even x) - x\<bar> \<le> 1 / 2"
proof -
  have "of_int \<lfloor>x\<rfloor> \<le> x" "x < of_int \<lfloor>x\<rfloor> + 1" by linarith+
  then show ?thesis by (auto simp: round_half_even_def Let_def abs_le_iff)
qed

lemma round_half_even_of_int [simp]: "round_half_even (of_int n) = n"
  by (simp add: round_half_even_def)

lemma round_half_even_mono: "x \<le> y \<Longrightarrow> round_half_even x \<le> round_half_even y"
proof (cases "\<lfloor>x\<rfloor> = \<lfloor>y\<rfloor>")
  case True
  assume "x \<le> y"
  with True show ?thesis by (auto simp: round_half_even_def Let_def)
next
  case False
  assume "x \<le> y"
  with False have "\<lfloor>x\<rfloor> + 1 \<le> \<lfloor>y\<rfloor>" using floor_mono [of x y] by linarith
  with round_half_even_bounds [of x] round_half_even_bounds [of y] show ?thesis by linarith
qed

lemma round_half_up_of_int [simp]: "round_half_up (of_int n) = n"
proof -
  have "\<lfloor>of_int k + 1 / 2 :: rat\<rfloor> = k" for k
    by (rule floor_unique) auto
  from this [of n] this [of "- n"] show ?thesis by (auto simp: round_half_up_def)
qed

lemma round_half_up_err: "\<bar>of_int (round_half_up x) - x\<bar> \<le> 1 / 2"
proof (cases "0 \<le> x")
  case True
  then have r: "round_half_up x = \<lfloor>x + 1 / 2\<rfloor>" by (simp add: round_half_up_def)
  have "of_int \<lfloor>x + 1 / 2\<rfloor> \<le> x + 1 / 2" "x + 1 / 2 < of_int \<lfloor>x + 1 / 2\<rfloor> + 1" by linarith+
  then show ?thesis unfolding r abs_le_iff by linarith
next
  case False
  then have r: "round_half_up x = - \<lfloor>- x + 1 / 2\<rfloor>" by (simp add: round_half_up_def)
  have "of_int \<lfloor>- x + 1 / 2\<rfloor> \<le> - x + 1 / 2" "- x + 1 / 2 < of_int \<lfloor>- x + 1 / 2\<rfloor> + 1"
    by linarith+
  then show ?thesis unfolding r abs_le_iff of_int_minus by linarith
qed

lemma round_half_up_mono:
  assumes "x \<le> y"
  shows "round_half_up x \<le> round_half_up y"
proof -
  have pos: "0 \<le> \<lfloor>z + 1 / 2\<rfloor>" if "0 \<le> z" for z :: rat using that by simp
  consider "0 \<le> x" | "x < 0" "0 \<le> y" | "x < 0" "y < 0" by linarith
  then show ?thesis
  proof cases
    case 1
    with assms show ?thesis by (simp add: round_half_up_def floor_mono)
  next
    case 2
    then have "round_half_up x = - \<lfloor>- x + 1 / 2\<rfloor>" "round_half_up y = \<lfloor>y + 1 / 2\<rfloor>"
      by (simp_all add: round_half_up_def)
    with pos [of y] pos [of "- x"] 2 show ?thesis by linarith
  next
    case 3
    with assms have "\<lfloor>- y + 1 / 2\<rfloor> \<le> \<lfloor>- x + 1 / 2\<rfloor>" by (intro floor_mono) simp
    with 3 show ?thesis by (simp add: round_half_up_def)
  qed
qed

section \<open>Powers of ten and the number of digits\<close>

definition pow10 :: "int \<Rightarrow> rat" where
  "pow10 e = (if 0 \<le> e then 10 ^ nat e else 1 / 10 ^ nat (- e))"

lemma pow10_powi: "pow10 e = 10 powi e"
  by (simp add: pow10_def power_int_def inverse_eq_divide power_divide)

lemma pow10_pos [simp]: "0 < pow10 e"
  by (simp add: pow10_powi)

lemma pow10_nonzero [simp]: "pow10 e \<noteq> 0"
  by (simp add: pow10_powi)

lemma pow10_add: "pow10 (a + b) = pow10 a * pow10 b"
  by (simp add: pow10_powi power_int_add)

lemma pow10_nat [simp]: "pow10 (int n) = 10 ^ n"
  by (simp add: pow10_def)

lemma pow10_strict_mono: "a < b \<Longrightarrow> pow10 a < pow10 b"
  by (simp add: pow10_powi power_int_strict_increasing)

lemma pow10_less_iff: "pow10 a < pow10 b \<longleftrightarrow> a < b"
  by (metis linorder_neqE_linordered_idom order_less_asym order_less_irrefl pow10_strict_mono)

lemma pow10_le_iff: "pow10 a \<le> pow10 b \<longleftrightarrow> a \<le> b"
  by (metis linorder_not_le pow10_less_iff)

fun ndigits :: "nat \<Rightarrow> nat" where
  "ndigits n = (if n = 0 then 0 else Suc (ndigits (n div 10)))"

declare ndigits.simps [simp del]

lemma ndigits_upper: "n < 10 ^ ndigits n"
proof (induction n rule: ndigits.induct)
  case (1 n)
  show ?case
  proof (cases "n = 0")
    case True
    then show ?thesis by simp
  next
    case False
    with 1 have "n div 10 < 10 ^ ndigits (n div 10)" by blast
    then have "n < 10 * 10 ^ ndigits (n div 10)" by (simp add: div_less_iff_less_mult mult.commute)
    with False show ?thesis by (simp add: ndigits.simps [of n])
  qed
qed

lemma ndigits_lower: "0 < n \<Longrightarrow> 10 ^ (ndigits n - 1) \<le> n"
proof (induction n rule: ndigits.induct)
  case (1 n)
  then have unf: "ndigits n = Suc (ndigits (n div 10))" by (simp add: ndigits.simps [of n])
  show ?case
  proof (cases "n div 10 = 0")
    case True
    then have "ndigits (n div 10) = 0" by (simp add: ndigits.simps)
    with unf "1.prems" show ?thesis by simp
  next
    case False
    with "1.IH" "1.prems" have ih: "10 ^ (ndigits (n div 10) - 1) \<le> n div 10" by simp
    from False have "0 < ndigits (n div 10)" by (simp add: ndigits.simps [of "n div 10"])
    then have "(10 :: nat) ^ ndigits (n div 10) = 10 * 10 ^ (ndigits (n div 10) - 1)"
      by (simp add: power_eq_if)
    also have "\<dots> \<le> 10 * (n div 10)" using ih by simp
    also have "\<dots> \<le> n" by simp
    finally show ?thesis using unf by simp
  qed
qed

text \<open>\<^verbatim>\<open>Decimal.adjusted()\<close>: the exponent of the most significant digit.\<close>

definition adjusted :: "rat \<Rightarrow> int" where
  "adjusted x =
     (if 1 \<le> \<bar>x\<bar> then int (ndigits (nat \<lfloor>\<bar>x\<bar>\<rfloor>)) - 1
      else - int (ndigits (nat (\<lceil>1 / \<bar>x\<bar>\<rceil> - 1))))"

lemma adjusted_bounds:
  assumes "x \<noteq> 0"
  shows "pow10 (adjusted x) \<le> \<bar>x\<bar> \<and> \<bar>x\<bar> < pow10 (adjusted x + 1)"
proof (cases "1 \<le> \<bar>x\<bar>")
  case True
  define n where "n = nat \<lfloor>\<bar>x\<bar>\<rfloor>"
  from True have fl: "1 \<le> \<lfloor>\<bar>x\<bar>\<rfloor>" by simp
  then have n: "0 < n" "of_nat n \<le> \<bar>x\<bar>" "\<bar>x\<bar> < of_nat n + 1"
    unfolding n_def by (simp_all, linarith)
  have d: "1 \<le> ndigits n" using n(1) by (simp add: ndigits.simps [of n])
  have "(10::rat) ^ (ndigits n - 1) \<le> of_nat n"
    using ndigits_lower [OF n(1)] by (metis of_nat_le_iff of_nat_numeral of_nat_power)
  moreover have "of_nat n + 1 \<le> (10::rat) ^ ndigits n"
    using ndigits_upper [of n] by (metis Suc_leI of_nat_Suc of_nat_le_iff of_nat_numeral of_nat_power add.commute)
  moreover have "adjusted x = int (ndigits n - 1)" "adjusted x + 1 = int (ndigits n)"
    using True d by (simp_all add: adjusted_def n_def)
  ultimately show ?thesis using n by (metis dual_order.trans order_less_le_trans pow10_nat)
next
  case False
  define m where "m = nat (\<lceil>1 / \<bar>x\<bar>\<rceil> - 1)"
  have "0 < \<bar>x\<bar>" using assms by simp
  with False have inv: "1 < 1 / \<bar>x\<bar>" by (simp add: field_simps)
  then have "1 < \<lceil>1 / \<bar>x\<bar>\<rceil>" by simp
  then have m: "0 < m" "of_nat m < 1 / \<bar>x\<bar>" "1 / \<bar>x\<bar> \<le> of_nat m + 1"
    unfolding m_def by (simp_all, linarith+)
  have d: "1 \<le> ndigits m" using m(1) by (simp add: ndigits.simps [of m])
  have lo: "(10::rat) ^ (ndigits m - 1) \<le> of_nat m"
    using ndigits_lower [OF m(1)] by (metis of_nat_le_iff of_nat_numeral of_nat_power)
  have up: "of_nat m + 1 \<le> (10::rat) ^ ndigits m"
    using ndigits_upper [of m] by (metis Suc_leI of_nat_Suc of_nat_le_iff of_nat_numeral of_nat_power add.commute)
  have adj: "adjusted x = - int (ndigits m)" using False by (simp add: adjusted_def m_def)
  have "1 / \<bar>x\<bar> \<le> 10 ^ ndigits m" using m up by linarith
  then have "1 / 10 ^ ndigits m \<le> \<bar>x\<bar>" using \<open>0 < \<bar>x\<bar>\<close> by (simp add: field_simps)
  then have 1: "pow10 (adjusted x) \<le> \<bar>x\<bar>" by (simp add: adj pow10_powi power_int_minus field_simps)
  have "10 ^ (ndigits m - 1) < 1 / \<bar>x\<bar>" using m lo by linarith
  then have "\<bar>x\<bar> < 1 / 10 ^ (ndigits m - 1)" using \<open>0 < \<bar>x\<bar>\<close> by (simp add: field_simps)
  moreover have "pow10 (adjusted x + 1) = 1 / 10 ^ (ndigits m - 1)"
  proof -
    have "adjusted x + 1 = - int (ndigits m - 1)" using d adj by simp
    then show ?thesis by (simp add: pow10_powi power_int_minus field_simps)
  qed
  ultimately show ?thesis using 1 by simp
qed

section \<open>The default context: 28 significant digits\<close>

definition ctx :: "rat \<Rightarrow> rat" where
  "ctx x =
     (if x = 0 then 0
      else let e = adjusted x - 27 in of_int (round_half_even (x / pow10 e)) * pow10 e)"

lemma ctx_0 [simp]: "ctx 0 = 0"
  by (simp add: ctx_def)

lemma ctx_exact:
  assumes "x * 10 ^ n \<in> \<int>" and "\<bar>x\<bar> < pow10 (28 - int n)"
  shows "ctx x = x"
proof (cases "x = 0")
  case False
  define e where "e = adjusted x - 27"
  have "pow10 (adjusted x) < pow10 (28 - int n)"
    using adjusted_bounds [OF False] assms(2) by linarith
  then have e: "e \<le> - int n" by (simp add: pow10_less_iff e_def)
  then have "- e = int n + int (nat (- e - int n))" by simp
  then have "pow10 (- e) = 10 ^ n * 10 ^ nat (- e - int n)"
    by (metis pow10_add pow10_nat)
  moreover have "x / pow10 e = x * pow10 (- e)"
    by (simp add: pow10_powi power_int_minus field_simps)
  ultimately have "x / pow10 e = x * 10 ^ n * 10 ^ nat (- e - int n)" by simp
  moreover have "x * 10 ^ n * 10 ^ nat (- e - int n) \<in> \<int>" 
    by (rule Ints_mult [OF assms(1)]) (rule Ints_power [OF Ints_numeral])
  ultimately obtain k where "x / pow10 e = of_int k" by (metis Ints_cases)
  then have "ctx x = x / pow10 e * pow10 e" using False by (simp add: ctx_def e_def [symmetric])
  then show ?thesis by simp
qed simp

lemma ctx_err: "\<bar>ctx x - x\<bar> \<le> \<bar>x\<bar> * 5 / 10 ^ 28"
proof (cases "x = 0")
  case False
  define e where "e = adjusted x - 27"
  have "ctx x - x = (of_int (round_half_even (x / pow10 e)) - x / pow10 e) * pow10 e"
    using False by (simp add: ctx_def e_def [symmetric] left_diff_distrib)
  then have "\<bar>ctx x - x\<bar> = \<bar>of_int (round_half_even (x / pow10 e)) - x / pow10 e\<bar> * pow10 e"
    by (simp add: abs_mult abs_of_pos)
  also have "\<dots> \<le> 1 / 2 * pow10 e"
    by (rule mult_right_mono [OF round_half_even_err]) (simp add: less_imp_le)
  also have "pow10 e = pow10 (adjusted x) / 10 ^ 27"
    by (simp add: e_def pow10_powi power_int_diff)
  also have "1 / 2 * (pow10 (adjusted x) / 10 ^ 27) \<le> 1 / 2 * (\<bar>x\<bar> / 10 ^ 27)"
    using adjusted_bounds [OF False] by (simp add: divide_right_mono)
  finally show ?thesis by simp
qed simp

lemma ctx_nonneg: "0 \<le> x \<Longrightarrow> 0 \<le> ctx x"
proof -
  assume "0 \<le> x"
  then have "\<bar>x\<bar> * 5 / 10 ^ 28 \<le> x" by simp
  with ctx_err [of x] show ?thesis by linarith
qed

lemma ctx_le_pow10: "0 < x \<Longrightarrow> ctx x \<le> pow10 (adjusted x + 1) \<and> pow10 (adjusted x) \<le> ctx x"
proof -
  assume x: "0 < x"
  define e where "e = adjusted x - 27"
  have b: "pow10 (adjusted x) \<le> x" "x \<le> pow10 (adjusted x + 1)"
    using adjusted_bounds [of x] x by auto
  have p: "pow10 (adjusted x) = of_int (10 ^ 27) * pow10 e"
    "pow10 (adjusted x + 1) = of_int (10 ^ 28) * pow10 e"
  proof -
    have "adjusted x = int 27 + e" "adjusted x + 1 = int 28 + e" by (simp_all add: e_def)
    then show "pow10 (adjusted x) = of_int (10 ^ 27) * pow10 e"
      "pow10 (adjusted x + 1) = of_int (10 ^ 28) * pow10 e"
      by (simp_all only: pow10_add pow10_nat of_int_power of_int_numeral)
  qed
  have 1: "of_int (10 ^ 27) \<le> x / pow10 e" using b(1) by (simp add: p(1) le_divide_eq)
  have 2: "x / pow10 e \<le> of_int (10 ^ 28)" using b(2) by (simp add: p(2) divide_le_eq)
  have 3: "10 ^ 27 \<le> round_half_even (x / pow10 e)"
    using round_half_even_mono [OF 1] round_half_even_of_int by metis
  have 4: "round_half_even (x / pow10 e) \<le> 10 ^ 28"
    using round_half_even_mono [OF 2] round_half_even_of_int by metis
  have c: "ctx x = of_int (round_half_even (x / pow10 e)) * pow10 e"
    using x by (simp add: ctx_def e_def [symmetric])
  have 5: "(of_int (10 ^ 27) :: rat) \<le> of_int (round_half_even (x / pow10 e))"
    using 3 of_int_le_iff by blast
  have 6: "(of_int (round_half_even (x / pow10 e)) :: rat) \<le> of_int (10 ^ 28)"
    using 4 of_int_le_iff by blast
  show ?thesis unfolding c p
    using mult_right_mono [OF 5, of "pow10 e"] mult_right_mono [OF 6, of "pow10 e"] less_imp_le [OF pow10_pos [of e]] by blast
qed

lemma adjusted_mono: "0 < x \<Longrightarrow> x \<le> y \<Longrightarrow> adjusted x \<le> adjusted y"
proof -
  assume "0 < x" "x \<le> y"
  then have "pow10 (adjusted x) < pow10 (adjusted y + 1)"
    using adjusted_bounds [of x] adjusted_bounds [of y] by simp
  then show ?thesis by (simp add: pow10_less_iff)
qed

lemma ctx_mono:
  assumes "0 \<le> x" and "x \<le> y"
  shows "ctx x \<le> ctx y"
proof (cases "x = 0")
  case True
  with assms show ?thesis using ctx_nonneg [of y] by simp
next
  case False
  with assms have x: "0 < x" "0 < y" by simp_all
  show ?thesis
  proof (cases "adjusted x = adjusted y")
    case True
    have "round_half_even (x / pow10 (adjusted x - 27)) \<le> round_half_even (y / pow10 (adjusted x - 27))"
      by (intro round_half_even_mono divide_right_mono) (simp_all add: assms less_imp_le)
    then show ?thesis using x True by (simp add: ctx_def Let_def mult_right_mono less_imp_le)
  next
    case False
    then have "adjusted x + 1 \<le> adjusted y" using adjusted_mono [OF x(1) assms(2)] by simp
    then have "pow10 (adjusted x + 1) \<le> pow10 (adjusted y)" by (simp add: pow10_le_iff)
    with ctx_le_pow10 [OF x(1)] ctx_le_pow10 [OF x(2)] show ?thesis by linarith
  qed
qed

section \<open>Fixed places: quantize and Numeric columns\<close>

definition quantize_even :: "nat \<Rightarrow> rat \<Rightarrow> rat" where
  "quantize_even n x = of_int (round_half_even (x * 10 ^ n)) / 10 ^ n"

definition quantize_up :: "nat \<Rightarrow> rat \<Rightarrow> rat" where
  "quantize_up n x = of_int (round_half_up (x * 10 ^ n)) / 10 ^ n"

text \<open>A column of type \<^verbatim>\<open>Numeric(p, s)\<close> stores \<open>s\<close> places.\<close>

definition numeric_column :: "nat \<Rightarrow> rat \<Rightarrow> rat" where
  "numeric_column s x = quantize_up s x"

definition places :: "nat \<Rightarrow> rat \<Rightarrow> bool" where
  "places n x \<longleftrightarrow> x * 10 ^ n \<in> \<int>"

text \<open>A money amount: pence, and far below the 28 digits of the context.\<close>

definition money :: "rat \<Rightarrow> bool" where
  "money x \<longleftrightarrow> places 2 x \<and> \<bar>x\<bar> < 10 ^ 12"

lemma places_quantize [simp]: "places n (quantize_even n x)" "places n (quantize_up n x)"
  by (simp_all add: places_def quantize_even_def quantize_up_def)

lemma quantize_id [simp]:
  "places n x \<Longrightarrow> quantize_even n x = x" "places n x \<Longrightarrow> quantize_up n x = x"
  by (auto simp: places_def quantize_even_def quantize_up_def field_simps elim!: Ints_cases)

lemma places_add [intro]: "places n x \<Longrightarrow> places n y \<Longrightarrow> places n (x + y)"
  by (simp add: places_def distrib_right Ints_add)

lemma places_diff [intro]: "places n x \<Longrightarrow> places n y \<Longrightarrow> places n (x - y)"
  by (simp add: places_def left_diff_distrib Ints_diff)

lemma places_0 [simp]: "places n 0"
  by (simp add: places_def)

lemma places_min: "places n x \<Longrightarrow> places n y \<Longrightarrow> places n (min x y)"
  by (simp add: min_def)

lemma places_mono:
  assumes "places m x" and "m \<le> n"
  shows "places n x"
proof -
  from assms(2) have "x * 10 ^ n = x * 10 ^ m * 10 ^ (n - m)" by (simp add: power_add [symmetric])
  with assms(1) show ?thesis unfolding places_def by (metis Ints_mult Ints_numeral Ints_power)
qed

lemma ctx_places:
  assumes "places n x" "n \<le> 8" "\<bar>x\<bar> < 10 ^ 20"
  shows "ctx x = x"
proof (rule ctx_exact [of _ n])
  show "x * 10 ^ n \<in> \<int>" using assms(1) by (simp add: places_def)
  have "pow10 20 \<le> pow10 (28 - int n)" using assms(2) by (simp add: pow10_le_iff)
  with assms(3) pow10_nat [of 20] show "\<bar>x\<bar> < pow10 (28 - int n)" by simp
qed

lemma quantize_up_mono: "x \<le> y \<Longrightarrow> quantize_up n x \<le> quantize_up n y"
  by (simp add: quantize_up_def divide_right_mono round_half_up_mono mult_right_mono)

lemma quantize_even_mono: "x \<le> y \<Longrightarrow> quantize_even n x \<le> quantize_even n y"
  by (simp add: quantize_even_def divide_right_mono round_half_even_mono mult_right_mono)

lemma quantize_up_nonneg: "0 \<le> x \<Longrightarrow> 0 \<le> quantize_up n x"
  using quantize_up_mono [of 0 x n] by simp

lemma quantize_up_le: "places n y \<Longrightarrow> x \<le> y \<Longrightarrow> quantize_up n x \<le> y"
  using quantize_up_mono [of x y n] by simp

text \<open>A value less than half a unit above a representable one rounds to at most it.\<close>

lemma quantize_up_less:
  assumes "places n y" and "x < y + 1 / (2 * 10 ^ n)"
  shows "quantize_up n x \<le> y"
proof -
  obtain k where k: "y * 10 ^ n = of_int k" using assms(1) by (auto simp: places_def elim: Ints_cases)
  have "x * 10 ^ n < (y + 1 / (2 * 10 ^ n)) * 10 ^ n" using assms(2) by simp
  also have "\<dots> = of_int k + 1 / 2" by (simp add: distrib_right k)
  finally have "x * 10 ^ n < of_int k + 1 / 2" .
  with round_half_up_err [of "x * 10 ^ n"]
  have "of_int (round_half_up (x * 10 ^ n)) < (of_int (k + 1) :: rat)"
    unfolding abs_le_iff of_int_add of_int_1 by linarith
  then have "round_half_up (x * 10 ^ n) \<le> k" by (simp only: of_int_less_iff)
  then have "of_int (round_half_up (x * 10 ^ n)) \<le> y * 10 ^ n" by (simp add: k)
  then show ?thesis by (simp add: quantize_up_def divide_le_eq)
qed

lemma numeric_column_id [simp]: "places n x \<Longrightarrow> numeric_column n x = x"
  by (simp add: numeric_column_def)

lemma places_numeric_column [simp]: "places n (numeric_column n x)"
  by (simp add: numeric_column_def)

text \<open>Closed values: \<open>floor\<close> of a rational literal, for the simplifier.\<close>

lemma floor_rat_literal [simp]:
  "\<lfloor>numeral a / numeral b :: rat\<rfloor> = numeral a div numeral b"
  "\<lfloor>- (numeral a / numeral b) :: rat\<rfloor> = - numeral a div numeral b"
  "\<lfloor>1 / numeral b :: rat\<rfloor> = 1 div numeral b"
  "\<lfloor>- (1 / numeral b) :: rat\<rfloor> = - 1 div numeral b"
  using floor_divide_of_int_eq [of "numeral a" "numeral b", where ?'a = rat]
    floor_divide_of_int_eq [of "- numeral a" "numeral b", where ?'a = rat]
    floor_divide_of_int_eq [of 1 "numeral b", where ?'a = rat]
    floor_divide_of_int_eq [of "- 1" "numeral b", where ?'a = rat]
  by simp_all

end
