(* ===== verification/Calendar.thy ===== *)
theory Calendar
  imports Prelude
begin

text \<open>
  What the code uses of Python's \<^verbatim>\<open>datetime\<close>: microsecond arithmetic, calendar dates as day
  numbers (day 0 is 1970-01-01) with their year, month and day, weekdays (Monday is 0), and the
  wall clock of Europe/London. The zone data is not part of the repository, so a zone is a
  parameter: its offset at a UTC instant and its offset for a wall-clock reading
  (\<^verbatim>\<open>zoneinfo.ZoneInfo\<close>, with \<^verbatim>\<open>fold = 0\<close>).
\<close>

definition us_per_hour :: int where "us_per_hour = 3600000000"

definition us_per_day :: int where "us_per_day = 86400000000"

definition days :: "int \<Rightarrow> int" where
  "days n = n * us_per_day"

lemma us_per_day_pos [simp]: "0 < us_per_day"
  by (simp add: us_per_day_def)

record zone =
  utc_off :: "datetime \<Rightarrow> int"
  wall_off :: "int \<Rightarrow> int"

definition to_wall :: "zone \<Rightarrow> datetime \<Rightarrow> int" where
  "to_wall z t = t + utc_off z t"

definition from_wall :: "zone \<Rightarrow> int \<Rightarrow> datetime" where
  "from_wall z w = w - wall_off z w"

definition date_of :: "int \<Rightarrow> int" where
  "date_of w = w div us_per_day"

definition weekday :: "int \<Rightarrow> int" where
  "weekday d = (d + 3) mod 7"

text \<open>Zones for closed examples: Greenwich all year, and one hour ahead.\<close>

definition gmt :: zone where
  "gmt = \<lparr>utc_off = (\<lambda>_. 0), wall_off = (\<lambda>_. 0)\<rparr>"

definition bst :: zone where
  "bst = \<lparr>utc_off = (\<lambda>_. us_per_hour), wall_off = (\<lambda>_. us_per_hour)\<rparr>"

section \<open>Year, month and day\<close>

text \<open>
  The algorithm of CPython's \<^verbatim>\<open>_ord2ymd\<close>, on day numbers counted from 1970-01-01, which is
  proleptic ordinal 719163.
\<close>

definition days_in_month :: "int \<Rightarrow> int" where
  "days_in_month m = [31, 28, 31, 30, 31, 30, 31, 31, 30, 31, 30, 31] ! nat (m - 1)"

definition days_before_month :: "int \<Rightarrow> int" where
  "days_before_month m = [0, 31, 59, 90, 120, 151, 181, 212, 243, 273, 304, 334] ! nat (m - 1)"

definition ymd :: "int \<Rightarrow> int \<times> int \<times> int" where
  "ymd d =
     (let n0 = d + 719162;
          n400 = n0 div 146097; r400 = n0 mod 146097;
          n100 = r400 div 36524; r100 = r400 mod 36524;
          n4 = r100 div 1461; r4 = r100 mod 1461;
          n1 = r4 div 365; n = r4 mod 365;
          year = n400 * 400 + 1 + n100 * 100 + n4 * 4 + n1
      in if n1 = 4 \<or> n100 = 4 then (year - 1, 12, 31)
         else
           let leap = n1 = 3 \<and> (n4 \<noteq> 24 \<or> n100 = 3);
               month = (n + 50) div 32;
               preceding = days_before_month month + (if month > 2 \<and> leap then 1 else 0)
           in if preceding > n
              then (year, month - 1,
                    n - (preceding - (days_in_month (month - 1) +
                                      (if month - 1 = 2 \<and> leap then 1 else 0))) + 1)
              else (year, month, n - preceding + 1))"

definition year_of :: "int \<Rightarrow> int" where "year_of d = fst (ymd d)"

definition month_of :: "int \<Rightarrow> int" where "month_of d = fst (snd (ymd d))"

definition day_of :: "int \<Rightarrow> int" where "day_of d = snd (snd (ymd d))"

text \<open>The inverse, CPython's \<^verbatim>\<open>_ymd2ord\<close>.\<close>

definition is_leap :: "int \<Rightarrow> bool" where
  "is_leap y \<longleftrightarrow> y mod 4 = 0 \<and> (y mod 100 \<noteq> 0 \<or> y mod 400 = 0)"

definition date_number :: "int \<Rightarrow> int \<Rightarrow> int \<Rightarrow> int" where
  "date_number y m d =
     (let b = y - 1
      in b * 365 + b div 4 - b div 100 + b div 400 +
         days_before_month m + (if m > 2 \<and> is_leap y then 1 else 0) + d - 719163)"

lemma ymd_examples:
  "ymd 0 = (1970, 1, 1)" "ymd 59 = (1970, 3, 1)" "ymd 19782 = (2024, 2, 29)"
  "ymd 20557 = (2026, 4, 14)" "ymd 11016 = (2000, 2, 29)" "ymd 20453 = (2025, 12, 31)"
  by code_simp+

lemma date_number_examples:
  "date_number 1970 1 1 = 0" "date_number 2024 2 29 = 19782" "date_number 2026 4 14 = 20557"
  by code_simp+

lemma weekday_range: "0 \<le> weekday d \<and> weekday d < 7"
  by (simp add: weekday_def)

lemma weekday_epoch: "weekday 0 = 3"
  by (simp add: weekday_def)

lemma weekday_add_week [simp]: "weekday (d + 7) = weekday d"
proof -
  have "weekday (d + 7) = (d + 3 + 7) mod 7" by (simp add: weekday_def algebra_simps)
  then show ?thesis by (simp only: mod_add_self2 weekday_def)
qed

lemma date_of_add_days: "date_of (w + days n) = date_of w + n"
  by (simp add: date_of_def days_def us_per_day_def)

lemma date_of_mono: "v \<le> w \<Longrightarrow> date_of v \<le> date_of w"
  by (simp add: date_of_def zdiv_mono1)

lemma date_of_combine: "0 \<le> t \<Longrightarrow> t < us_per_day \<Longrightarrow> date_of (days d + t) = d"
  by (simp add: date_of_def days_def)

end
