(* ===== verification/Schema.thy ===== *)
theory Schema
  imports Decimals Calendar "HOL-Library.Product_Lexorder"
begin

text \<open>
  The rows of the database, after \<^verbatim>\<open>server/models\<close> (for the debt contracts after the Alembic
  revisions that create their tables, because \<^verbatim>\<open>models/debt.py\<close> no longer declares them), the
  database state, and the two side channels a handler writes: the notification table and the
  messages handed to the publisher. A record has the columns the modelled code reads or
  writes; text bodies and links of notifications are presentation and left out.
\<close>

section \<open>Users\<close>

datatype user_role = R_admin | R_goddess | R_sub

datatype user_status = US_pending_entry_tribute | US_active | US_blacklisted | US_deleted

datatype avatar_key =
    AK_default | AK_pink_1 | AK_pink_2 | AK_pink_3 | AK_pink_4
  | AK_dark_1 | AK_dark_2 | AK_dark_3 | AK_accent_1 | AK_accent_2

record goddess =
  g_id :: uuid
  g_display_name :: string

record user =
  u_id :: uuid
  u_goddess_id :: "uuid option"
  u_username :: string
  u_email :: string
  u_password_hash :: string
  u_role :: user_role
  u_status :: user_status
  u_first_name :: "string option"
  u_last_name :: "string option"
  u_avatar_key :: avatar_key
  u_payment_handle :: "string option"
  u_bio :: "string option"
  u_theme_preference :: string
  u_last_login_at :: "datetime option"
  u_gender :: "string option"
  u_pronouns :: "string option"
  u_location :: "string option"
  u_timezone :: "string option"
  u_date_of_birth :: "int option"
  u_real_name :: "string option"

record refresh_token =
  rt_user_id :: uuid
  rt_token_hash :: string
  rt_expires_at :: datetime
  rt_revoked_at :: "datetime option"

record password_reset_token =
  pr_user_id :: uuid
  pr_token_hash :: string
  pr_expires_at :: datetime
  pr_used_at :: "datetime option"

record sub_safeword =
  sw_sub_id :: uuid
  sw_goddess_id :: uuid
  sw_word :: string
  sw_signal :: "string option"
  sw_contact_name :: "string option"
  sw_contact_phone :: "string option"
  sw_created_at :: datetime
  sw_updated_at :: datetime

section \<open>Debt contracts\<close>

datatype interest_period = IP_monthly | IP_yearly

datatype payment_frequency = PF_weekly | PF_biweekly | PF_monthly

datatype late_penalty_severity = LP_light | LP_medium | LP_severe

datatype mid_contract_addition_mode = MM_disabled | MM_dom_controlled | MM_sub_approval_required

datatype contract_status =
    CS_pending_sub | CS_pending_dom | CS_pending_dom_counter | CS_pending_sub_signature
  | CS_active | CS_closed | CS_breached | CS_completed | CS_cancelled_by_dom

datatype renewal_policy = RP_none | RP_auto_extend

text \<open>
  The eleven negotiated fields. They are columns of \<^verbatim>\<open>debt_contract\<close> and of
  \<^verbatim>\<open>debt_contract_version\<close>, and the body of a proposal, so the two row types extend this
  record and a proposal is a value of it.
\<close>

record terms =
  principal :: rat
  interest_rate :: rat
  interest_period :: interest_period
  duration_periods :: int
  payment_frequency :: payment_frequency
  minimum_payment :: rat
  late_penalty_severity :: late_penalty_severity
  late_penalty_percent :: rat
  dom_can_add_surprise_penalty :: bool
  mid_contract_addition_mode :: mid_contract_addition_mode
  exit_amount :: rat

text \<open>
  A value of the \<^verbatim>\<open>clauses_json\<close> blob, as far as the code distinguishes them. \<open>JId u\<close> is
  the string form of the UUID \<open>u\<close>, \<open>JStr\<close> any string that is not the form of a UUID, and a
  Python bool is an int.
\<close>

datatype json = JId uuid | JStr string | JInt int | JBool bool | JNull | JOther

type_synonym clause_json = "(string \<times> json) list"

record debt_contract = terms +
  c_id :: uuid
  c_slug :: string
  c_sub_id :: uuid
  c_goddess_id :: uuid
  c_sub_initiated :: bool
  c_status :: contract_status
  c_current_version_id :: "uuid option"
  c_signature_b64 :: "string option"
  c_signed_at :: "datetime option"
  c_balance :: rat
  c_clauses_json :: "clause_json list"
  c_review_at :: "datetime option"
  c_renewal_policy :: renewal_policy
  c_created_at :: datetime
  c_updated_at :: datetime

record contract_version = terms +
  v_id :: uuid
  v_contract_id :: uuid
  v_round_no :: int
  v_proposed_by :: uuid
  v_proposed_at :: datetime

datatype audit_event =
    AE_proposed | AE_countered | AE_accepted_counter | AE_rejected_counter | AE_signed
  | AE_cancelled | AE_closed | AE_breached | AE_completed | AE_clauses_changed
  | AE_contract_renewed | AE_surprise_penalty

text \<open>
  The note of an audit row: free text, or the string \<^verbatim>\<open>source_contract_id:<id>\<close> by which a
  renewal is found again.
\<close>

datatype audit_note = NoteText string | NoteSourceContract uuid

record contract_audit =
  a_contract_id :: uuid
  a_event_type :: audit_event
  a_actor_id :: uuid
  a_from_status :: "contract_status option"
  a_to_status :: "contract_status option"
  a_note :: "audit_note option"
  a_created_at :: datetime

section \<open>Ledger events and adjustments\<close>

datatype event_type =
    ET_period_interest | ET_late_penalty | ET_payment_applied | ET_adjustment
  | ET_surprise_penalty | ET_buyout_paid

record debt_event =
  e_id :: uuid
  e_contract_id :: uuid
  e_type :: event_type
  e_amount :: rat
  e_period_index :: "int option"
  e_note :: "string option"
  e_created_at :: datetime

datatype adjustment_status = AS_applied | AS_pending_sub_approval | AS_accepted | AS_refused

datatype adjustment_kind = AK_surprise_penalty | AK_adjustment

record contract_adjustment =
  j_id :: uuid
  j_contract_id :: uuid
  j_proposed_by :: uuid
  j_kind :: "adjustment_kind option"
  j_amount :: rat
  j_reason :: "string option"
  j_status :: adjustment_status
  j_created_at :: datetime
  j_updated_at :: datetime
  j_resolved_at :: "datetime option"

section \<open>Payments\<close>

datatype declaration_source = DS_sub_declared | DS_goddess_recorded | DS_ingested

datatype payment_category =
    PC_entry | PC_rolling | PC_weekly_debt | PC_debt_payment | PC_buyout | PC_tribute
  | PC_profile_change_fee | PC_wishlist

datatype payment_status = PS_pending | PS_validated | PS_rejected | PS_cancelled

datatype allocation_target =
    AT_entry | AT_rolling_cycle | AT_contract_debt | AT_contract_buyout | AT_tribute
  | AT_wishlist_goal

record payment_declaration =
  d_id :: uuid
  d_sub_id :: uuid
  d_goddess_id :: uuid
  d_method_id :: uuid
  d_amount :: rat
  d_external_timestamp :: "datetime option"
  d_note :: "string option"
  d_category :: payment_category
  d_status :: payment_status
  d_target_id :: "uuid option"
  d_created_by :: uuid
  d_declared_at :: datetime
  d_validated_at :: "datetime option"
  d_validated_by :: "uuid option"
  d_rejection_reason :: "string option"
  d_source :: declaration_source
  d_proof_key :: "string option"

record payment_allocation =
  l_declaration_id :: uuid
  l_target_type :: allocation_target
  l_target_id :: "uuid option"
  l_amount :: rat
  l_allocated_at :: datetime

datatype payment_method_type =
    PM_throne | PM_paypal | PM_cashapp | PM_venmo | PM_revolut | PM_amazon | PM_wishtender
  | PM_tipfunder | PM_onlyfans | PM_loyalfans | PM_premium_chat | PM_sentbio | PM_sumeria
  | PM_btc | PM_eth | PM_bank | PM_other

record payment_method =
  m_id :: uuid
  m_goddess_id :: uuid
  m_name :: string
  m_type :: payment_method_type
  m_handle_or_link :: string
  m_note :: "string option"
  m_enabled :: bool
  m_sort_order :: int
  m_created_at :: datetime
  m_updated_at :: datetime

datatype deadline_day = DD_mon | DD_tue | DD_wed | DD_thu | DD_fri | DD_sat | DD_sun

record rolling_tribute =
  r_id :: uuid
  r_sub_id :: uuid
  r_goddess_id :: uuid
  r_amount :: rat
  r_deadline_day :: deadline_day
  r_deadline_time :: int
  r_late_multiplier_per_day :: int
  r_paused :: bool
  r_notes :: "string option"
  r_last_paid_at :: "datetime option"
  r_created_at :: datetime
  r_updated_at :: datetime

section \<open>Sanctions: blacklist, penalty rules and merit points\<close>

record blacklist_entry =
  b_id :: uuid
  b_goddess_id :: uuid
  b_sub_id :: uuid
  b_reason :: "string option"
  b_balance_snapshot :: rat
  b_reinstatement_fee_paid :: "rat option"
  b_breached_at :: datetime
  b_forgiven_at :: "datetime option"

datatype penalty_trigger = PT_contract_missed | PT_ritual_missed | PT_rolling_late | PT_task_missed

datatype penalty_action = PA_notify_only | PA_apply_points | PA_apply_fee

record penalty_rule =
  p_id :: uuid
  p_goddess_id :: uuid
  p_sub_id :: "uuid option"
  p_trigger :: penalty_trigger
  p_action :: penalty_action
  p_points_delta :: int
  p_fee_amount :: "rat option"
  p_name :: "string option"
  p_fee_percent :: "rat option"
  p_min_days_late :: "int option"
  p_cooldown_hours :: int
  p_active :: bool
  p_created_at :: datetime
  p_updated_at :: datetime

record penalty_event =
  pe_rule_id :: uuid
  pe_sub_id :: uuid
  pe_goddess_id :: uuid
  pe_trigger :: penalty_trigger
  pe_action :: penalty_action
  pe_points_delta :: int
  pe_source_kind :: string
  pe_source_id :: "uuid option"
  pe_created_at :: datetime

datatype merit_source_kind =
    MS_ritual_complete | MS_ritual_miss | MS_task_complete | MS_task_miss | MS_manual
  | MS_reward_redeem | MS_punishment_invoke | MS_contract_miss | MS_rolling_late

record merit_event =
  me_sub_id :: uuid
  me_goddess_id :: uuid
  me_source_kind :: merit_source_kind
  me_source_id :: "uuid option"
  me_delta :: int
  me_created_at :: datetime

record reward_tier =
  w_id :: uuid
  w_goddess_id :: uuid
  w_name :: string
  w_description :: "string option"
  w_cost :: int
  w_active :: bool
  w_created_at :: datetime
  w_updated_at :: datetime

record punishment_tier =
  q_id :: uuid
  q_goddess_id :: uuid
  q_name :: string
  q_description :: "string option"
  q_default_points_penalty :: int
  q_active :: bool
  q_created_at :: datetime
  q_updated_at :: datetime

record reward_redemption =
  x_id :: uuid
  x_sub_id :: uuid
  x_goddess_id :: uuid
  x_reward_id :: uuid
  x_cost_snapshot :: int
  x_created_at :: datetime

section \<open>Tasks and rituals\<close>

datatype task_status = TS_open | TS_submitted | TS_approved | TS_rejected | TS_cancelled

record task =
  k_id :: uuid
  k_sub_id :: uuid
  k_goddess_id :: uuid
  k_title :: string
  k_description :: "string option"
  k_due_at :: "datetime option"
  k_points_on_complete :: int
  k_points_on_miss :: int
  k_status :: task_status
  k_evidence_r2_key :: "string option"
  k_note :: "string option"
  k_rejection_reason :: "string option"
  k_submitted_at :: "datetime option"
  k_reviewed_at :: "datetime option"
  k_reviewed_by :: "uuid option"
  k_created_at :: datetime
  k_updated_at :: datetime

datatype ritual_frequency = RF_daily | RF_weekly | RF_custom

record ritual =
  i_id :: uuid
  i_sub_id :: uuid
  i_goddess_id :: uuid
  i_title :: string
  i_description :: "string option"
  i_frequency :: ritual_frequency
  i_custom_days_bitmask :: "int option"
  i_deadline_time :: "int option"
  i_points_on_complete :: int
  i_points_on_miss :: int
  i_requires_proof :: bool
  i_paused :: bool
  i_created_at :: datetime
  i_updated_at :: datetime

datatype occurrence_status = OS_pending | OS_completed | OS_missed | OS_rejected | OS_submitted

record ritual_occurrence =
  o_id :: uuid
  o_ritual_id :: uuid
  o_sub_id :: uuid
  o_goddess_id :: uuid
  o_date :: int
  o_status :: occurrence_status
  o_note :: "string option"
  o_evidence_r2_key :: "string option"
  o_completed_at :: "datetime option"
  o_reviewed_at :: "datetime option"
  o_reviewed_by :: "uuid option"
  o_created_at :: datetime

section \<open>Invitations, tribute minima and cron runs\<close>

record invitation =
  n_id :: uuid
  n_token :: string
  n_goddess_id :: uuid
  n_entry_tribute_amount :: rat
  n_note :: "string option"
  n_expires_at :: datetime
  n_used_at :: "datetime option"
  n_used_by_user_id :: "uuid option"
  n_created_at :: datetime

datatype tribute_period = TP_weekly | TP_monthly

record tribute_minimum =
  tm_sub_id :: uuid
  tm_goddess_id :: uuid
  tm_amount :: rat
  tm_period :: tribute_period
  tm_grace_below_percent :: rat
  tm_created_at :: datetime
  tm_updated_at :: datetime

record cron_run =
  cr_id :: uuid
  cr_started_at :: datetime
  cr_finished_at :: "datetime option"
  cr_dry_run :: bool
  cr_summary :: "(string \<times> int) list"
  cr_n_errors :: nat
  cr_triggered_by_user_id :: "uuid option"
  cr_duration_ms :: "int option"

section \<open>Notifications and published messages\<close>

datatype notification_type =
    NT_payment_pending | NT_payment_validated | NT_payment_rejected | NT_rolling_late
  | NT_contract_proposed | NT_contract_countered | NT_contract_counter_accepted
  | NT_contract_counter_rejected | NT_contract_signed | NT_contract_needs_resignature
  | NT_contract_period_interest | NT_contract_late_penalty | NT_contract_surprise_penalty
  | NT_contract_adjustment_proposed | NT_contract_adjustment_accepted
  | NT_contract_adjustment_refused | NT_contract_buyout_paid | NT_contract_breached
  | NT_contract_forgiven | NT_journal_comment | NT_sub_panic | NT_review_reminder
  | NT_contract_renewed | NT_goddess_message

text \<open>
  \<open>nt_ref\<close> is the id the payload carries (a contract, a declaration, a blacklist entry) and
  \<open>nt_num\<close> its number (a period index, the days late).
\<close>

record notification =
  nt_user_id :: uuid
  nt_type :: notification_type
  nt_ref :: "uuid option"
  nt_num :: "int option"

text \<open>A message for the websocket publisher: receiver, event name and the id in its data.\<close>

type_synonym message = "uuid \<times> string \<times> uuid option"

section \<open>The database\<close>

record db =
  t_goddesses :: "goddess list"
  t_users :: "user list"
  t_refresh_tokens :: "refresh_token list"
  t_reset_tokens :: "password_reset_token list"
  t_safewords :: "sub_safeword list"
  t_contracts :: "debt_contract list"
  t_versions :: "contract_version list"
  t_audits :: "contract_audit list"
  t_events :: "debt_event list"
  t_adjustments :: "contract_adjustment list"
  t_declarations :: "payment_declaration list"
  t_allocations :: "payment_allocation list"
  t_methods :: "payment_method list"
  t_rollings :: "rolling_tribute list"
  t_blacklist :: "blacklist_entry list"
  t_rules :: "penalty_rule list"
  t_penalty_log :: "penalty_event list"
  t_merits :: "merit_event list"
  t_rewards :: "reward_tier list"
  t_punishments :: "punishment_tier list"
  t_redemptions :: "reward_redemption list"
  t_tasks :: "task list"
  t_rituals :: "ritual list"
  t_occurrences :: "ritual_occurrence list"
  t_invitations :: "invitation list"
  t_tribute_minima :: "tribute_minimum list"
  t_cron_runs :: "cron_run list"
  t_notifications :: "notification list"
  t_published :: "message list"

definition empty_db :: db where
  "empty_db = \<lparr>t_goddesses = [], t_users = [], t_refresh_tokens = [], t_reset_tokens = [],
     t_safewords = [], t_contracts = [], t_versions = [], t_audits = [], t_events = [],
     t_adjustments = [], t_declarations = [], t_allocations = [], t_methods = [],
     t_rollings = [], t_blacklist = [], t_rules = [], t_penalty_log = [], t_merits = [],
     t_rewards = [], t_punishments = [], t_redemptions = [], t_tasks = [], t_rituals = [],
     t_occurrences = [], t_invitations = [], t_tribute_minima = [], t_cron_runs = [],
     t_notifications = [], t_published = []\<rparr>"

text \<open>\<^verbatim>\<open>services/notifications/notify.py\<close>: a notification row and a message to its receiver.\<close>

definition publish_event :: "uuid \<Rightarrow> string \<Rightarrow> uuid option \<Rightarrow> db \<Rightarrow> db" where
  "publish_event uid topic ref s = s\<lparr>t_published := t_published s @ [(uid, topic, ref)]\<rparr>"

definition notify :: "uuid \<Rightarrow> notification_type \<Rightarrow> uuid option \<Rightarrow> int option \<Rightarrow> db \<Rightarrow> db" where
  "notify uid ty ref num s =
     publish_event uid ''notification'' ref
       (s\<lparr>t_notifications := t_notifications s @
          [\<lparr>nt_user_id = uid, nt_type = ty, nt_ref = ref, nt_num = num\<rparr>]\<rparr>)"

text \<open>\<^verbatim>\<open>if uid is not None: await notify(...)\<close>\<close>

definition notify_opt ::
  "uuid option \<Rightarrow> notification_type \<Rightarrow> uuid option \<Rightarrow> int option \<Rightarrow> db \<Rightarrow> db" where
  "notify_opt uid ty ref num s = (case uid of None \<Rightarrow> s | Some u \<Rightarrow> notify u ty ref num s)"

definition publish_opt :: "uuid option \<Rightarrow> string \<Rightarrow> uuid option \<Rightarrow> db \<Rightarrow> db" where
  "publish_opt uid topic ref s = (case uid of None \<Rightarrow> s | Some u \<Rightarrow> publish_event u topic ref s)"

text \<open>Both side channels leave every other table alone.\<close>

lemma publish_event_frame [simp]:
  "t_goddesses (publish_event u topic r s) = t_goddesses s"
  "t_users (publish_event u topic r s) = t_users s"
  "t_refresh_tokens (publish_event u topic r s) = t_refresh_tokens s"
  "t_reset_tokens (publish_event u topic r s) = t_reset_tokens s"
  "t_safewords (publish_event u topic r s) = t_safewords s"
  "t_contracts (publish_event u topic r s) = t_contracts s"
  "t_versions (publish_event u topic r s) = t_versions s"
  "t_audits (publish_event u topic r s) = t_audits s"
  "t_events (publish_event u topic r s) = t_events s"
  "t_adjustments (publish_event u topic r s) = t_adjustments s"
  "t_declarations (publish_event u topic r s) = t_declarations s"
  "t_allocations (publish_event u topic r s) = t_allocations s"
  "t_methods (publish_event u topic r s) = t_methods s"
  "t_rollings (publish_event u topic r s) = t_rollings s"
  "t_blacklist (publish_event u topic r s) = t_blacklist s"
  "t_rules (publish_event u topic r s) = t_rules s"
  "t_penalty_log (publish_event u topic r s) = t_penalty_log s"
  "t_merits (publish_event u topic r s) = t_merits s"
  "t_rewards (publish_event u topic r s) = t_rewards s"
  "t_punishments (publish_event u topic r s) = t_punishments s"
  "t_redemptions (publish_event u topic r s) = t_redemptions s"
  "t_tasks (publish_event u topic r s) = t_tasks s"
  "t_rituals (publish_event u topic r s) = t_rituals s"
  "t_occurrences (publish_event u topic r s) = t_occurrences s"
  "t_invitations (publish_event u topic r s) = t_invitations s"
  "t_tribute_minima (publish_event u topic r s) = t_tribute_minima s"
  "t_cron_runs (publish_event u topic r s) = t_cron_runs s"
  by (simp_all add: publish_event_def)

lemma notify_frame [simp]:
  "t_goddesses (notify u ty r n s) = t_goddesses s"
  "t_users (notify u ty r n s) = t_users s"
  "t_refresh_tokens (notify u ty r n s) = t_refresh_tokens s"
  "t_reset_tokens (notify u ty r n s) = t_reset_tokens s"
  "t_safewords (notify u ty r n s) = t_safewords s"
  "t_contracts (notify u ty r n s) = t_contracts s"
  "t_versions (notify u ty r n s) = t_versions s"
  "t_audits (notify u ty r n s) = t_audits s"
  "t_events (notify u ty r n s) = t_events s"
  "t_adjustments (notify u ty r n s) = t_adjustments s"
  "t_declarations (notify u ty r n s) = t_declarations s"
  "t_allocations (notify u ty r n s) = t_allocations s"
  "t_methods (notify u ty r n s) = t_methods s"
  "t_rollings (notify u ty r n s) = t_rollings s"
  "t_blacklist (notify u ty r n s) = t_blacklist s"
  "t_rules (notify u ty r n s) = t_rules s"
  "t_penalty_log (notify u ty r n s) = t_penalty_log s"
  "t_merits (notify u ty r n s) = t_merits s"
  "t_rewards (notify u ty r n s) = t_rewards s"
  "t_punishments (notify u ty r n s) = t_punishments s"
  "t_redemptions (notify u ty r n s) = t_redemptions s"
  "t_tasks (notify u ty r n s) = t_tasks s"
  "t_rituals (notify u ty r n s) = t_rituals s"
  "t_occurrences (notify u ty r n s) = t_occurrences s"
  "t_invitations (notify u ty r n s) = t_invitations s"
  "t_tribute_minima (notify u ty r n s) = t_tribute_minima s"
  "t_cron_runs (notify u ty r n s) = t_cron_runs s"
  by (simp_all add: notify_def)

lemma notify_opt_frame [simp]:
  "t_goddesses (notify_opt v ty r n s) = t_goddesses s"
  "t_users (notify_opt v ty r n s) = t_users s"
  "t_refresh_tokens (notify_opt v ty r n s) = t_refresh_tokens s"
  "t_reset_tokens (notify_opt v ty r n s) = t_reset_tokens s"
  "t_safewords (notify_opt v ty r n s) = t_safewords s"
  "t_contracts (notify_opt v ty r n s) = t_contracts s"
  "t_versions (notify_opt v ty r n s) = t_versions s"
  "t_audits (notify_opt v ty r n s) = t_audits s"
  "t_events (notify_opt v ty r n s) = t_events s"
  "t_adjustments (notify_opt v ty r n s) = t_adjustments s"
  "t_declarations (notify_opt v ty r n s) = t_declarations s"
  "t_allocations (notify_opt v ty r n s) = t_allocations s"
  "t_methods (notify_opt v ty r n s) = t_methods s"
  "t_rollings (notify_opt v ty r n s) = t_rollings s"
  "t_blacklist (notify_opt v ty r n s) = t_blacklist s"
  "t_rules (notify_opt v ty r n s) = t_rules s"
  "t_penalty_log (notify_opt v ty r n s) = t_penalty_log s"
  "t_merits (notify_opt v ty r n s) = t_merits s"
  "t_rewards (notify_opt v ty r n s) = t_rewards s"
  "t_punishments (notify_opt v ty r n s) = t_punishments s"
  "t_redemptions (notify_opt v ty r n s) = t_redemptions s"
  "t_tasks (notify_opt v ty r n s) = t_tasks s"
  "t_rituals (notify_opt v ty r n s) = t_rituals s"
  "t_occurrences (notify_opt v ty r n s) = t_occurrences s"
  "t_invitations (notify_opt v ty r n s) = t_invitations s"
  "t_tribute_minima (notify_opt v ty r n s) = t_tribute_minima s"
  "t_cron_runs (notify_opt v ty r n s) = t_cron_runs s"
  by (simp_all add: notify_opt_def split: option.splits)

lemma publish_opt_frame [simp]:
  "t_goddesses (publish_opt v topic r s) = t_goddesses s"
  "t_users (publish_opt v topic r s) = t_users s"
  "t_refresh_tokens (publish_opt v topic r s) = t_refresh_tokens s"
  "t_reset_tokens (publish_opt v topic r s) = t_reset_tokens s"
  "t_safewords (publish_opt v topic r s) = t_safewords s"
  "t_contracts (publish_opt v topic r s) = t_contracts s"
  "t_versions (publish_opt v topic r s) = t_versions s"
  "t_audits (publish_opt v topic r s) = t_audits s"
  "t_events (publish_opt v topic r s) = t_events s"
  "t_adjustments (publish_opt v topic r s) = t_adjustments s"
  "t_declarations (publish_opt v topic r s) = t_declarations s"
  "t_allocations (publish_opt v topic r s) = t_allocations s"
  "t_methods (publish_opt v topic r s) = t_methods s"
  "t_rollings (publish_opt v topic r s) = t_rollings s"
  "t_blacklist (publish_opt v topic r s) = t_blacklist s"
  "t_rules (publish_opt v topic r s) = t_rules s"
  "t_penalty_log (publish_opt v topic r s) = t_penalty_log s"
  "t_merits (publish_opt v topic r s) = t_merits s"
  "t_rewards (publish_opt v topic r s) = t_rewards s"
  "t_punishments (publish_opt v topic r s) = t_punishments s"
  "t_redemptions (publish_opt v topic r s) = t_redemptions s"
  "t_tasks (publish_opt v topic r s) = t_tasks s"
  "t_rituals (publish_opt v topic r s) = t_rituals s"
  "t_occurrences (publish_opt v topic r s) = t_occurrences s"
  "t_invitations (publish_opt v topic r s) = t_invitations s"
  "t_tribute_minima (publish_opt v topic r s) = t_tribute_minima s"
  "t_cron_runs (publish_opt v topic r s) = t_cron_runs s"
  by (simp_all add: publish_opt_def split: option.splits)

end
