(* ===== verification/Ledger.thy ===== *)
theory Ledger
  imports Schema
begin

text \<open>
  The ledger of a debt contract (\<^verbatim>\<open>utils/ledger.py\<close>, \<^verbatim>\<open>daos/debt_event_dao.py\<close>): the balance is
  recomputed from the principal and every event of the contract whenever an event is posted.
  The event row keeps 4 decimal places (\<^verbatim>\<open>Numeric(12, 4)\<close>) while the session that posts it
  still sees the amount it was given: the sessions do not expire or refresh the pending row
  before the balance is recomputed, and every later request reads the stored row.
\<close>

section \<open>Replaying events\<close>

datatype ledger_op = Op_multiplicative | Op_subtract | Op_add | Op_close

fun op_of :: "event_type \<Rightarrow> ledger_op" where
  "op_of ET_period_interest = Op_multiplicative"
| "op_of ET_late_penalty = Op_multiplicative"
| "op_of ET_payment_applied = Op_subtract"
| "op_of ET_adjustment = Op_add"
| "op_of ET_surprise_penalty = Op_add"
| "op_of ET_buyout_paid = Op_close"

definition replay_step :: "rat \<Rightarrow> debt_event \<Rightarrow> rat" where
  "replay_step balance ev =
     (case op_of (e_type ev) of
        Op_multiplicative \<Rightarrow> quantize_even 2 (ctx (balance * ctx (1 + e_amount ev)))
      | Op_subtract \<Rightarrow> quantize_even 2 (ctx (balance - e_amount ev))
      | Op_add \<Rightarrow> quantize_even 2 (ctx (balance + e_amount ev))
      | Op_close \<Rightarrow> 0)"

definition replay_events :: "rat \<Rightarrow> debt_event list \<Rightarrow> rat" where
  "replay_events opening evs = foldl replay_step opening evs"

text \<open>
  The interface of a ledger: a posting function and the replay of a list of entries that is
  its fold. What holds of the opening value and is kept by every posting holds of the replay.
\<close>

locale ledger_fold =
  fixes post :: "'b \<Rightarrow> 'ev \<Rightarrow> 'b"
    and replay :: "'b \<Rightarrow> 'ev list \<Rightarrow> 'b"
    and sound :: "'b \<Rightarrow> bool"
  assumes replay_Nil: "replay b [] = b"
    and replay_snoc: "replay b (evs @ [ev]) = post (replay b evs) ev"
    and post_sound: "sound b \<Longrightarrow> sound (post b ev)"
begin

lemma replay_append: "replay b (evs @ evs') = replay (replay b evs) evs'"
proof (induction evs' rule: rev_induct)
  case Nil
  then show ?case by (simp add: replay_Nil)
next
  case (snoc ev evs')
  have "replay b (evs @ evs' @ [ev]) = post (replay b (evs @ evs')) ev"
    by (metis append_assoc replay_snoc)
  with snoc show ?case by (simp add: replay_snoc)
qed

lemma replay_sound: "sound b \<Longrightarrow> sound (replay b evs)"
  by (induction evs rule: rev_induct) (simp_all add: replay_Nil replay_snoc post_sound)

lemma replay_after_reset:
  assumes "\<And>b. post b ev = c"
  shows "replay b (evs @ [ev] @ evs') = replay c evs'"
proof -
  have "replay b ((evs @ [ev]) @ evs') = replay (replay b (evs @ [ev])) evs'"
    by (rule replay_append)
  then show ?thesis by (simp add: replay_snoc assms)
qed

end

interpretation ledger: ledger_fold replay_step replay_events "places 2"
proof
  show "replay_events b [] = b" for b
    by (simp add: replay_events_def)
  show "replay_events b (evs @ [ev]) = replay_step (replay_events b evs) ev" for b evs ev
    by (simp add: replay_events_def)
  show "places 2 (replay_step b ev)" for b ev
    by (simp add: replay_step_def split: ledger_op.splits)
qed

lemmas replay_simps = ledger.replay_Nil ledger.replay_snoc

lemma replay_step_payment:
  assumes "op_of (e_type ev) = Op_subtract" "places 2 b" "places 2 (e_amount ev)"
    "\<bar>b - e_amount ev\<bar> < 10 ^ 20"
  shows "replay_step b ev = b - e_amount ev"
  using assms by (simp add: replay_step_def ctx_places [of 2] places_diff)

lemma replay_step_add:
  assumes "op_of (e_type ev) = Op_add" "places 2 b" "places 2 (e_amount ev)"
    "\<bar>b + e_amount ev\<bar> < 10 ^ 20"
  shows "replay_step b ev = b + e_amount ev"
  using assms by (simp add: replay_step_def ctx_places [of 2] places_add)

lemma replay_step_close: "op_of (e_type ev) = Op_close \<Longrightarrow> replay_step b ev = 0"
  by (simp add: replay_step_def)

section \<open>The event table\<close>

definition ledger_of :: "uuid \<Rightarrow> debt_event list \<Rightarrow> debt_event list" where
  "ledger_of cid evs =
     sort_key (\<lambda>e. (e_created_at e, e_id e)) (filter (\<lambda>e. e_contract_id e = cid) evs)"

definition exists_for_period :: "uuid \<Rightarrow> int \<Rightarrow> event_type \<Rightarrow> db \<Rightarrow> bool" where
  "exists_for_period cid p ty s =
     list_ex (\<lambda>e. e_contract_id e = cid \<and> e_period_index e = Some p \<and> e_type e = ty) (t_events s)"

definition paid_period_indices :: "uuid list \<Rightarrow> db \<Rightarrow> uuid \<Rightarrow> int list" where
  "paid_period_indices cids s cid =
     (if cid \<in> set cids
      then remdups (List.map_filter
             (\<lambda>e. if e_contract_id e = cid \<and> e_type e = ET_payment_applied
                  then e_period_index e else None) (t_events s))
      else [])"

definition last_applied :: "uuid \<Rightarrow> db \<Rightarrow> datetime option" where
  "last_applied cid s =
     (let ts = map e_created_at
        (filter (\<lambda>e. e_contract_id e = cid \<and> e_type e = ET_payment_applied) (t_events s))
      in if ts = [] then None else Some (foldr max ts (hd ts)))"

text \<open>The unique constraint \<^verbatim>\<open>uq_debt_event_period_bound\<close>: null periods never collide.\<close>

definition period_bound_clash :: "debt_event \<Rightarrow> debt_event list \<Rightarrow> bool" where
  "period_bound_clash ev evs =
     (e_period_index ev \<noteq> None \<and>
      list_ex (\<lambda>e. e_contract_id e = e_contract_id ev \<and> e_period_index e = e_period_index ev \<and>
                   e_type e = e_type ev) evs)"

definition stored_event :: "debt_event \<Rightarrow> debt_event" where
  "stored_event ev = ev\<lparr>e_amount := numeric_column 4 (e_amount ev)\<rparr>"

definition add_event :: "debt_event \<Rightarrow> db \<Rightarrow> db res" where
  "add_event ev s =
     raise_if (\<bar>numeric_column 4 (e_amount ev)\<bar> \<ge> 10 ^ 8) (DataError ''debt_event.amount'') (
     raise_if (period_bound_clash ev (t_events s)) (IntegrityError ''uq_debt_event_period_bound'') (
     Inr (s\<lparr>t_events := t_events s @ [stored_event ev]\<rparr>)))"

section \<open>Recomputing the balance\<close>

text \<open>\<open>evs\<close> are the event rows as the session sees them.\<close>

definition recompute_balance :: "uuid \<Rightarrow> debt_event list \<Rightarrow> db \<Rightarrow> rat res" where
  "recompute_balance cid evs s =
     require (fetch c_id cid (t_contracts s)) (ValueError ''contract not found'') (\<lambda>c.
     Inr (replay_events (principal c) (ledger_of cid evs)))"

definition set_balance :: "uuid \<Rightarrow> rat \<Rightarrow> db \<Rightarrow> db" where
  "set_balance cid b s =
     s\<lparr>t_contracts := modify c_id cid (\<lambda>c. c\<lparr>c_balance := b\<rparr>) (t_contracts s)\<rparr>"

definition apply_event_and_recompute :: "debt_event \<Rightarrow> db \<Rightarrow> (db \<times> rat) res" where
  "apply_event_and_recompute ev s =
     attempt (add_event ev s) (\<lambda>s1.
     attempt (recompute_balance (e_contract_id ev) (t_events s @ [ev]) s1) (\<lambda>new_balance.
     raise_if (\<bar>new_balance\<bar> \<ge> 10 ^ 10) (DataError ''debt_contract.balance'') (
     Inr (set_balance (e_contract_id ev) new_balance s1, new_balance))))"

definition new_event ::
  "uuid \<Rightarrow> datetime \<Rightarrow> uuid \<Rightarrow> event_type \<Rightarrow> rat \<Rightarrow> int option \<Rightarrow> string option \<Rightarrow> debt_event" where
  "new_event eid now cid ty amt p note =
     \<lparr>e_id = eid, e_contract_id = cid, e_type = ty, e_amount = amt, e_period_index = p,
      e_note = note, e_created_at = now\<rparr>"

lemma new_event_simps [simp]:
  "e_id (new_event i t c ty a p n) = i"
  "e_contract_id (new_event i t c ty a p n) = c"
  "e_type (new_event i t c ty a p n) = ty"
  "e_amount (new_event i t c ty a p n) = a"
  "e_period_index (new_event i t c ty a p n) = p"
  "e_created_at (new_event i t c ty a p n) = t"
  by (simp_all add: new_event_def)

lemma stored_event_simps [simp]:
  "e_id (stored_event ev) = e_id ev"
  "e_contract_id (stored_event ev) = e_contract_id ev"
  "e_type (stored_event ev) = e_type ev"
  "e_amount (stored_event ev) = numeric_column 4 (e_amount ev)"
  "e_period_index (stored_event ev) = e_period_index ev"
  "e_created_at (stored_event ev) = e_created_at ev"
  by (simp_all add: stored_event_def)

lemma stored_event_exact: "places 4 (e_amount ev) \<Longrightarrow> stored_event ev = ev"
  by (simp add: stored_event_def)

interpretation contracts: keyed_table c_id "fetch c_id" insert_row "modify c_id"
  by (rule list_table)

lemma set_balance_simps [simp]:
  "t_events (set_balance cid b s) = t_events s"
  "t_versions (set_balance cid b s) = t_versions s"
  "t_audits (set_balance cid b s) = t_audits s"
  "t_users (set_balance cid b s) = t_users s"
  "t_goddesses (set_balance cid b s) = t_goddesses s"
  "t_adjustments (set_balance cid b s) = t_adjustments s"
  "t_declarations (set_balance cid b s) = t_declarations s"
  "t_allocations (set_balance cid b s) = t_allocations s"
  "t_contracts (set_balance cid b s) = modify c_id cid (\<lambda>c. c\<lparr>c_balance := b\<rparr>) (t_contracts s)"
  by (simp_all add: set_balance_def)

text \<open>The one inversion lemma of a posting that every client uses.\<close>

lemma apply_event_eq_Inr [res_simps]:
  "apply_event_and_recompute ev s = Inr (s', b) \<longleftrightarrow>
     (\<exists>c. fetch c_id (e_contract_id ev) (t_contracts s) = Some c \<and>
          \<bar>numeric_column 4 (e_amount ev)\<bar> < 10 ^ 8 \<and>
          \<not> period_bound_clash ev (t_events s) \<and>
          b = replay_events (principal c) (ledger_of (e_contract_id ev) (t_events s @ [ev])) \<and>
          \<bar>b\<bar> < 10 ^ 10 \<and>
          s' = set_balance (e_contract_id ev) b (s\<lparr>t_events := t_events s @ [stored_event ev]\<rparr>))"
  by (auto simp: apply_event_and_recompute_def add_event_def recompute_balance_def res_simps not_le)

lemma ledger_of_snoc_other: "e_contract_id ev \<noteq> cid \<Longrightarrow> ledger_of cid (evs @ [ev]) = ledger_of cid evs"
  by (simp add: ledger_of_def)

text \<open>
  An event that is not older than the events of its contract goes to the end of the ledger.
\<close>

definition latest_event :: "debt_event \<Rightarrow> debt_event list \<Rightarrow> bool" where
  "latest_event ev evs =
     list_all (\<lambda>e. e_contract_id e = e_contract_id ev \<longrightarrow>
       (e_created_at e, e_id e) \<le> (e_created_at ev, e_id ev)) evs"

lemma ledger_of_snoc:
  assumes "latest_event ev evs" and "e_contract_id ev = cid"
  shows "ledger_of cid (evs @ [ev]) = ledger_of cid evs @ [ev]"
proof -
  have "sort_key (\<lambda>e. (e_created_at e, e_id e)) (filter (\<lambda>e. e_contract_id e = cid) evs @ [ev]) =
      sort_key (\<lambda>e. (e_created_at e, e_id e)) (filter (\<lambda>e. e_contract_id e = cid) evs) @ [ev]"
    using assms by (intro sort_key_snoc) (auto simp: latest_event_def list_all_iff)
  then show ?thesis using assms(2) by (simp add: ledger_of_def)
qed

lemma latest_event_stored: "latest_event (stored_event ev) evs = latest_event ev evs"
  by (simp add: latest_event_def)

section \<open>The balance agrees with the ledger\<close>

text \<open>
  What a posting leaves behind: the balance is the replay of the stored ledger, except that
  the last event counts with the amount it was posted with, before the column rounded it. A
  contract without events stands at its principal.
\<close>

definition balance_agrees :: "debt_contract \<Rightarrow> debt_event list \<Rightarrow> bool" where
  "balance_agrees c evs \<longleftrightarrow>
     (ledger_of (c_id c) evs = [] \<and> c_balance c = principal c) \<or>
     (\<exists>pre ev. ledger_of (c_id c) evs = pre @ [stored_event ev] \<and>
               c_balance c = replay_events (principal c) (pre @ [ev]))"

lemma balance_agrees_other:
  "e_contract_id ev \<noteq> c_id c \<Longrightarrow> balance_agrees c (evs @ [ev]) = balance_agrees c evs"
  by (simp add: balance_agrees_def ledger_of_snoc_other)

lemma balance_agrees_posted:
  assumes "latest_event ev evs" and "c_id c = e_contract_id ev"
    and "c_balance c = replay_events (principal c) (ledger_of (c_id c) (evs @ [ev]))"
  shows "balance_agrees c (evs @ [stored_event ev])"
proof -
  have "ledger_of (c_id c) (evs @ [stored_event ev]) = ledger_of (c_id c) evs @ [stored_event ev]"
    using assms(1,2) by (intro ledger_of_snoc) (simp_all add: latest_event_stored)
  moreover have "c_balance c = replay_events (principal c) (ledger_of (c_id c) evs @ [ev])"
    using assms ledger_of_snoc [of ev evs "c_id c"] by simp
  ultimately show ?thesis unfolding balance_agrees_def by blast
qed

lemma balance_agrees_cong:
  "c_id c = c_id c' \<Longrightarrow> c_balance c = c_balance c' \<Longrightarrow> principal c = principal c' \<Longrightarrow>
   balance_agrees c evs = balance_agrees c' evs"
  by (simp add: balance_agrees_def)

end
