(* ===== verification/Finance.thy ===== *)
theory Finance
  imports Schema
begin

text \<open>
  The projections of \<^verbatim>\<open>utils/finance.py\<close>: the rate of one payment period, the balance table
  shown before signing, the prorated buyout amount and the severe-debt warning. The twelfth
  root of a yearly rate is taken in floating point, which the model does not compute:
  \<open>aer r\<close> stands for \<^verbatim>\<open>Decimal(str((1.0 + float(r)) ** (1.0 / 12.0) - 1.0))\<close>.
\<close>

definition period_factor :: "payment_frequency \<Rightarrow> rat" where
  "period_factor f = (case f of
      PF_weekly \<Rightarrow> ctx (12 / 52)
    | PF_biweekly \<Rightarrow> ctx (12 / 26)
    | PF_monthly \<Rightarrow> 1)"

definition monthly_rate :: "(rat \<Rightarrow> rat) \<Rightarrow> 'a terms_scheme \<Rightarrow> rat" where
  "monthly_rate aer c =
     (if interest_period c = IP_monthly then interest_rate c
      else quantize_up 10 (aer (interest_rate c)))"

definition period_rate :: "(rat \<Rightarrow> rat) \<Rightarrow> 'a terms_scheme \<Rightarrow> rat" where
  "period_rate aer c = ctx (monthly_rate aer c * period_factor (payment_frequency c))"

section \<open>The projection\<close>

text \<open>
  \<^verbatim>\<open>quantize\<close> raises when the result needs more than the 28 digits of the context.
\<close>

definition quantize_money :: "rat \<Rightarrow> rat res" where
  "quantize_money x =
     (let q = quantize_up 2 x in raise_if (\<bar>q\<bar> \<ge> 10 ^ 26) InvalidOperation (Inr q))"

record sim_row =
  row_period :: int
  row_before :: rat
  row_payment :: rat
  row_end :: rat

definition max_iterations :: int where "max_iterations = 520"

fun simulate_loop :: "rat \<Rightarrow> rat \<Rightarrow> int \<Rightarrow> nat \<Rightarrow> rat \<Rightarrow> sim_row list res" where
  "simulate_loop r min_payment i 0 balance = Inr []"
| "simulate_loop r min_payment i (Suc n) balance =
     attempt (quantize_money (ctx (balance * ctx (1 + r)))) (\<lambda>balance_after_interest.
     let payment = min min_payment balance_after_interest in
     attempt (quantize_money (ctx (balance_after_interest - payment))) (\<lambda>balance_end.
     let row = \<lparr>row_period = i, row_before = balance_after_interest, row_payment = payment,
                row_end = balance_end\<rparr>
     in if balance_end \<le> 0 then Inr [row]
        else attempt (simulate_loop r min_payment (i + 1) n balance_end) (\<lambda>rows.
             Inr (row # rows))))"

definition simulate :: "(rat \<Rightarrow> rat) \<Rightarrow> 'a terms_scheme \<Rightarrow> sim_row list res" where
  "simulate aer c =
     simulate_loop (period_rate aer c) (minimum_payment c) 1
       (nat (min (duration_periods c) max_iterations)) (principal c)"

section \<open>Buyout and warning\<close>

definition exit_due :: "'a terms_scheme \<Rightarrow> int \<Rightarrow> rat" where
  "exit_due c elapsed_periods =
     (if duration_periods c = 0 then 0
      else if elapsed_periods \<le> 0 then 0
      else if elapsed_periods \<ge> duration_periods c then quantize_up 2 (exit_amount c)
      else quantize_up 2
             (ctx (ctx (exit_amount c * of_int elapsed_periods) / of_int (duration_periods c))))"

definition severe_warning :: "(rat \<Rightarrow> rat) \<Rightarrow> 'a terms_scheme \<Rightarrow> bool" where
  "severe_warning aer c \<longleftrightarrow> ctx (period_rate aer c * principal c) > minimum_payment c"

section \<open>Facts about the projection\<close>

lemma period_factor_range: "0 \<le> period_factor f \<and> period_factor f \<le> 1"
proof -
  have "ctx (12 / 52) \<le> ctx 1" "ctx (12 / 26) \<le> ctx 1" by (rule ctx_mono; simp)+
  moreover have "ctx 1 = 1"
    using ctx_places [of 2 1] by (simp add: places_def)
  ultimately show ?thesis
    by (simp add: period_factor_def ctx_nonneg split: payment_frequency.splits)
qed

lemma quantize_money_Inr [res_simps]:
  "quantize_money x = Inr q \<longleftrightarrow> q = quantize_up 2 x \<and> \<bar>q\<bar> < 10 ^ 26"
  by (auto simp: quantize_money_def Let_def res_simps)

text \<open>The arithmetic of one row, whenever the projection returns.\<close>

definition row_ok :: "rat \<Rightarrow> sim_row \<Rightarrow> bool" where
  "row_ok min_payment row \<longleftrightarrow>
     places 2 (row_before row) \<and> row_payment row = min min_payment (row_before row) \<and>
     row_before row = row_payment row + row_end row \<and> 0 \<le> row_end row"

lemma diff_min_exact:
  assumes "places 2 x" "places 2 m" "\<bar>x\<bar> < 10 ^ 26"  "0 \<le> m"
  shows "quantize_up 2 (ctx (x - min m x)) = x - min m x"
proof -
  have p: "places 2 (x - min m x)" using assms by (intro places_diff places_min)
  have "\<bar>x - min m x\<bar> < 10 ^ 26" using assms(3,4) by (auto simp: min_def abs_less_iff)
  moreover have "(10 :: rat) ^ 26 = pow10 (28 - int 2)" by (simp add: pow10_def)
  ultimately have "ctx (x - min m x) = x - min m x"
    using p by (intro ctx_exact [of _ 2]) (auto simp: places_def)
  with p show ?thesis by simp
qed

lemma simulate_loop_rows:
  assumes "simulate_loop r m i n b = Inr rows" "places 2 m" "0 \<le> m"
  shows "list_all (row_ok m) rows \<and> length rows \<le> n \<and>
    map row_period rows = [i .. i + int (length rows) - 1] \<and>
    (\<forall>row \<in> set (butlast rows). 0 < row_end row) \<and>
    (length rows < n \<longrightarrow> rows \<noteq> [] \<and> row_end (last rows) = 0)"
  using assms(1)
proof (induction n arbitrary: i b rows)
  case 0
  then show ?case by simp
next
  case (Suc n)
  define x where "x = quantize_up 2 (ctx (b * ctx (1 + r)))"
  define e where "e = x - min m x"
  define row where "row = \<lparr>row_period = i, row_before = x, row_payment = min m x, row_end = e\<rparr>"
  from Suc.prems have bx: "\<bar>x\<bar> < 10 ^ 26"
    by (auto simp: Let_def res_simps x_def)
  have ex: "quantize_up 2 (ctx (x - min m x)) = e"
    unfolding e_def by (rule diff_min_exact) (use assms bx in \<open>simp_all add: x_def\<close>)
  have ok: "row_ok m row" by (simp add: row_ok_def row_def e_def x_def)
  from Suc.prems ex have "(e \<le> 0 \<and> rows = [row]) \<or>
      (0 < e \<and> (\<exists>rs. simulate_loop r m (i + 1) n e = Inr rs \<and> rows = row # rs))"
    by (auto simp: Let_def res_simps x_def [symmetric] row_def split: if_splits)
  then show ?case
  proof (elim disjE conjE exE)
    assume "e \<le> 0" and r1: "rows = [row]"
    moreover have "0 \<le> e" by (simp add: e_def)
    ultimately have "e = 0" by simp
    with ok r1 show ?thesis by (simp add: row_def)
  next
    fix rs assume e: "0 < e" and rs: "simulate_loop r m (i + 1) n e = Inr rs" "rows = row # rs"
    show ?thesis using Suc.IH [OF rs(1)] rs(2) ok e upto_rec1 [of i "i + int (length rs)"]
      by (auto simp: row_def algebra_simps)
  qed
qed

text \<open>
  Without the warning, the minimum payment covers the interest: the projection returns and
  no balance exceeds the principal. The slack is the rounding of a row to pence.
\<close>

lemma interest_covered:
  assumes r: "0 \<le> r" and b: "0 \<le> b" "b \<le> p" and m: "0 \<le> m" "m < 10 ^ 10" "p < 10 ^ 10"
    and cover: "ctx (r * p) \<le> m"
  shows "ctx (b * ctx (1 + r)) < p + m + 1 / 200"
proof -
  define d :: rat where "d = 5 / 10 ^ 28"
  have err: "\<bar>ctx x - x\<bar> \<le> x * d" if "0 \<le> x" for x
    using ctx_err [of x] that by (simp add: d_def)
  have up: "ctx x \<le> x * (1 + d)" if "0 \<le> x" for x
    using err [OF that] unfolding abs_le_iff distrib_left by linarith
  have "0 \<le> r * p" using r b by simp
  from err [OF this] have "r * p * (1 - d) \<le> ctx (r * p)"
    unfolding abs_le_iff right_diff_distrib by linarith
  with cover have "r * p * (1 - d) \<le> m" by linarith
  moreover have "1 \<le> (1 - d) * (1 + 2 * d)" by (simp add: d_def)
  ultimately have rp: "r * p \<le> m * (1 + 2 * d)"
  proof -
    have "r * p \<le> r * p * ((1 - d) * (1 + 2 * d))"
      using \<open>1 \<le> (1 - d) * (1 + 2 * d)\<close> r b mult_left_mono [of 1 _ "r * p"] by auto
    also have "\<dots> = r * p * (1 - d) * (1 + 2 * d)" by simp
    also have "\<dots> \<le> m * (1 + 2 * d)"
      using \<open>r * p * (1 - d) \<le> m\<close> by (intro mult_right_mono) (simp_all add: d_def)
    finally show ?thesis .
  qed
  have "ctx (b * ctx (1 + r)) \<le> b * ctx (1 + r) * (1 + d)"
    using b r by (intro up) (simp add: ctx_nonneg)
  also have "\<dots> \<le> p * ((1 + r) * (1 + d)) * (1 + d)"
    using b r up [of "1 + r"] by (intro mult_mono mult_nonneg_nonneg) (simp_all add: ctx_nonneg d_def)
  also have "\<dots> = (p + r * p) * ((1 + d) * (1 + d))" by (simp add: algebra_simps)
  also have "\<dots> \<le> (p + m * (1 + 2 * d)) * ((1 + d) * (1 + d))"
    using rp by (intro mult_right_mono) (simp_all add: d_def)
  also have "\<dots> < p + m + 1 / 200"
    using m by (simp add: d_def)
  finally show ?thesis .
qed

lemma simulate_loop_covered:
  assumes r: "0 \<le> r" and m: "0 \<le> m" "m < 10 ^ 10" "p < 10 ^ 10" "places 2 m" "places 2 p"
    and cover: "ctx (r * p) \<le> m" and b: "0 \<le> b" "b \<le> p"
  shows "\<exists>rows. simulate_loop r m i n b = Inr rows \<and>
           list_all (\<lambda>row. row_before row \<le> p + m \<and> row_end row \<le> p) rows"
  using b
proof (induction n arbitrary: i b)
  case 0
  then show ?case by simp
next
  case (Suc n)
  define x where "x = quantize_up 2 (ctx (b * ctx (1 + r)))"
  have x: "0 \<le> x" "places 2 x" "x \<le> p + m"
    using interest_covered [OF r Suc.prems m(1-3) cover] Suc.prems r m(4,5)
    by (auto simp: x_def ctx_nonneg intro!: quantize_up_nonneg quantize_up_less)
  with m have bx: "\<bar>x\<bar> < 10 ^ 26" by simp
  have ex: "quantize_up 2 (ctx (x - min m x)) = x - min m x"
    by (rule diff_min_exact) (use m x bx in auto)
  have e: "0 \<le> x - min m x" "x - min m x \<le> p" using x m Suc.prems by (auto simp: min_def)
  then obtain rs where "simulate_loop r m (i + 1) n (x - min m x) = Inr rs"
      "list_all (\<lambda>row. row_before row \<le> p + m \<and> row_end row \<le> p) rs"
    using Suc.IH by blast
  with bx ex e x(3) m show ?case
    by (auto simp: quantize_money_def Let_def x_def [symmetric])
qed

lemma exit_due_between:
  assumes "0 \<le> exit_amount c" "places 2 (exit_amount c)" "exit_amount c < 10 ^ 10"
    and "0 < e" "e < duration_periods c" "duration_periods c \<le> 10 ^ 6"
  shows "ctx (ctx (exit_amount c * of_int e) / of_int (duration_periods c)) \<le> exit_amount c"
proof -
  let ?d = "duration_periods c" and ?x = "exit_amount c"
  have "?x * of_int e \<le> ?x * of_int ?d" using assms by (intro mult_left_mono) simp_all
  then have "ctx (?x * of_int e) \<le> ctx (?x * of_int ?d)" using assms by (intro ctx_mono) simp_all
  also have "\<dots> = ?x * of_int ?d"
  proof (rule ctx_places [of 2])
    show "places 2 (?x * of_int ?d)"
      using assms(2) Ints_mult [OF _ Ints_of_int, of "?x * 10 ^ 2" ?d]
      by (simp add: places_def mult_ac)
    have "(of_int ?d :: rat) \<le> of_int (10 ^ 6)" using assms(6) of_int_le_iff by blast
    then have "?x * of_int ?d < 10 ^ 10 * 10 ^ 7"
      using assms by (intro mult_strict_mono') simp_all
    then show "\<bar>?x * of_int ?d\<bar> < 10 ^ 20" using assms by (simp add: abs_mult)
  qed simp
  finally have "ctx (?x * of_int e) / of_int ?d \<le> ?x" using assms by (simp add: divide_le_eq)
  moreover have "0 \<le> ctx (?x * of_int e) / of_int ?d" using assms by (simp add: ctx_nonneg)
  ultimately have "ctx (ctx (?x * of_int e) / of_int ?d) \<le> ctx ?x" by (intro ctx_mono)
  also have "ctx ?x = ?x" using assms by (intro ctx_places [of 2]) simp_all
  finally show ?thesis .
qed

text \<open>A contract for closed examples: 1000 at 1% a month, 12 months, minimum 100.\<close>

definition sample_terms :: terms where
  "sample_terms = \<lparr>principal = 1000, interest_rate = 1 / 100, interest_period = IP_monthly,
     duration_periods = 12, payment_frequency = PF_monthly, minimum_payment = 100,
     late_penalty_severity = LP_light, late_penalty_percent = 1 / 20,
     dom_can_add_surprise_penalty = True, mid_contract_addition_mode = MM_dom_controlled,
     exit_amount = 500\<rparr>"

section \<open>Properties\<close>

text \<open>
  A projection that returns has at most 520 rows and at most one per period, numbered from
  1; every row splits the balance after interest into the payment, which is the minimum
  payment or the whole balance, and a non-negative rest; it stops early only when the rest
  is 0, and only the last row can have rest 0.
\<close>

theorem simulate_rows:
  assumes "simulate aer c = Inr rows"
    and "places 2 (minimum_payment c)" "0 \<le> minimum_payment c"
  shows "length rows \<le> nat (min (duration_periods c) 520) \<and>
    map row_period rows = [1 .. int (length rows)] \<and>
    (\<forall>row \<in> set rows.
       row_payment row = min (minimum_payment c) (row_before row) \<and>
       row_before row = row_payment row + row_end row \<and> 0 \<le> row_end row) \<and>
    (\<forall>row \<in> set (butlast rows). 0 < row_end row) \<and>
    (length rows < nat (min (duration_periods c) 520) \<longrightarrow> rows \<noteq> [] \<and> row_end (last rows) = 0)"
proof -
  have "[1 .. 1 + int n - 1] = [1 .. int n]" for n by simp
  then show ?thesis using simulate_loop_rows [OF assms(1) [unfolded simulate_def] assms(2,3)]
    unfolding list_all_iff row_ok_def max_iterations_def by metis
qed

text \<open>
  C8: When the severe-debt warning is off, the projection always returns and no balance it
  shows ends above the principal (money within the columns, a non-negative rate).
\<close>

theorem simulate_without_warning:
  assumes "\<not> severe_warning aer c" "0 \<le> period_rate aer c"
    and "money (principal c)" "0 \<le> principal c" "principal c < 10 ^ 10"
    and "money (minimum_payment c)" "0 \<le> minimum_payment c" "minimum_payment c < 10 ^ 10"
  shows "\<exists>rows. simulate aer c = Inr rows \<and>
    (\<forall>row \<in> set rows. row_before row \<le> principal c + minimum_payment c \<and>
                       row_end row \<le> principal c)"
proof -
  have "ctx (period_rate aer c * principal c) \<le> minimum_payment c"
    using assms(1) by (simp add: severe_warning_def not_less)
  moreover have "places 2 (minimum_payment c)" "places 2 (principal c)"
    using assms(3,6) by (simp_all add: money_def)
  ultimately show ?thesis
    using simulate_loop_covered [OF assms(2,7,8,5) _ _ _ assms(4) order_refl,
        of 1 "nat (min (duration_periods c) max_iterations)"]
    unfolding simulate_def list_all_iff by blast
qed

text \<open>
  The buyout amount lies between 0 and the agreed exit amount and never falls as periods
  elapse.
\<close>

theorem exit_due_prorated:
  assumes "money (exit_amount c)" "0 \<le> exit_amount c" "exit_amount c < 10 ^ 10"
    and "duration_periods c \<le> 10 ^ 6" and "e \<le> e'"
  shows "0 \<le> exit_due c e \<and> exit_due c e \<le> exit_due c e' \<and> exit_due c e' \<le> exit_amount c"
proof -
  let ?d = "duration_periods c" and ?x = "exit_amount c"
  let ?q = "\<lambda>k. ctx (ctx (?x * of_int k) / of_int ?d)"
  have p: "places 2 ?x" using assms(1) by (simp add: money_def)
  have nonneg: "0 \<le> ?q k" if "0 < k" "k < ?d" for k
    using that assms(2) by (simp add: ctx_nonneg)
  have upper: "quantize_up 2 (?q k) \<le> ?x" if "0 < k" "k < ?d" for k
    using exit_due_between [of c k] that assms p by (intro quantize_up_le) simp_all
  have mono: "?q e \<le> ?q e'" if "0 < e" "e < ?d"
  proof -
    have "ctx (?x * of_int e) \<le> ctx (?x * of_int e')"
      using assms(2) that of_int_le_iff [THEN iffD2, OF assms(5)]
      by (intro ctx_mono mult_left_mono) simp_all
    then show ?thesis using assms(2) that
      by (intro ctx_mono [of "_ / _"] divide_right_mono) (simp_all add: ctx_nonneg)
  qed
  show ?thesis
    using assms p upper nonneg mono by (auto simp: exit_due_def quantize_up_nonneg quantize_up_mono)
qed

lemma simulate_rows_witness:
  "\<exists>rows. simulate (\<lambda>r. r) (sample_terms\<lparr>principal := 1, duration_periods := 12\<rparr>) = Inr rows \<and>
    length rows \<le> 12 \<and> rows \<noteq> [] \<and> row_end (last rows) = 0"
proof -
  let ?c = "sample_terms\<lparr>principal := 1, duration_periods := 12\<rparr>"
  have "simulate (\<lambda>r. r) ?c = Inr [\<lparr>row_period = 1, row_before = 101 / 100,
      row_payment = 101 / 100, row_end = 0\<rparr>]"
    by code_simp
  with simulate_rows [OF this] show ?thesis
    by (simp add: sample_terms_def places_def)
qed

lemma simulate_without_warning_witness:
  "\<exists>rows. simulate (\<lambda>r. r) sample_terms = Inr rows \<and>
    (\<forall>row \<in> set rows. row_before row \<le> 1100 \<and> row_end row \<le> 1000)"
proof -
  have "\<not> severe_warning (\<lambda>r. r) sample_terms" "0 \<le> period_rate (\<lambda>r. r) sample_terms"
    by code_simp+
  moreover have "money (principal sample_terms)" "money (minimum_payment sample_terms)"
    by (simp_all add: sample_terms_def money_def places_def)
  ultimately show ?thesis
    using simulate_without_warning [of "\<lambda>r. r" sample_terms] by (simp add: sample_terms_def)
qed

lemma exit_due_prorated_witness:
  "0 \<le> exit_due sample_terms 5 \<and> exit_due sample_terms 5 \<le> exit_due sample_terms 7 \<and>
   exit_due sample_terms 7 \<le> 500"
  using exit_due_prorated [of sample_terms 5 7]
  by (simp add: sample_terms_def money_def places_def)

end
