(* ===== verification/Periods.thy ===== *)
theory Periods
  imports Schema
begin

text \<open>
  Periods of a contract (\<^verbatim>\<open>utils/periods.py\<close>), the weekly cycle of a rolling tribute
  (\<^verbatim>\<open>utils/rolling.py\<close>) and the period arithmetic of the dashboards
  (\<^verbatim>\<open>controllers/dashboard/helpers.py\<close>). Comparisons of two datetimes that carry the same
  zone object compare their wall clocks, as Python does.
\<close>

section \<open>Contract periods\<close>

definition as_london_date :: "zone \<Rightarrow> datetime \<Rightarrow> int" where
  "as_london_date z t = date_of (to_wall z t)"

definition current_period_index :: "zone \<Rightarrow> debt_contract \<Rightarrow> datetime \<Rightarrow> int" where
  "current_period_index z c now =
     (case c_signed_at c of
        None \<Rightarrow> 0
      | Some signed \<Rightarrow>
          (let start = as_london_date z signed; current = as_london_date z now in
           if current \<le> start then 0
           else let delta_days = current - start in
             (case payment_frequency c of
                PF_weekly \<Rightarrow> delta_days div 7
              | PF_biweekly \<Rightarrow> delta_days div 14
              | PF_monthly \<Rightarrow>
                  (let months = (year_of current - year_of start) * 12 + (month_of current - month_of start);
                       months = (if day_of current < day_of start then months - 1 else months)
                   in max 0 months))))"

definition period_length_days :: "payment_frequency \<Rightarrow> int" where
  "period_length_days f = (if f = PF_weekly then 7 else if f = PF_biweekly then 14 else 30)"

definition period_start :: "zone \<Rightarrow> debt_contract \<Rightarrow> datetime \<Rightarrow> datetime option" where
  "period_start z c now =
     (case c_signed_at c of
        None \<Rightarrow> None
      | Some signed \<Rightarrow>
          Some (signed + days (current_period_index z c now * period_length_days (payment_frequency c))))"

definition next_period_due :: "zone \<Rightarrow> debt_contract \<Rightarrow> datetime \<Rightarrow> datetime option" where
  "next_period_due z c now =
     (case c_signed_at c of
        None \<Rightarrow> None
      | Some _ \<Rightarrow>
          (case period_start z c now of
             None \<Rightarrow> None
           | Some start \<Rightarrow> Some (start + days (period_length_days (payment_frequency c)))))"

definition progress_percent :: "rat \<Rightarrow> rat \<Rightarrow> rat" where
  "progress_percent opening balance =
     (if opening \<le> 0 then 0
      else let paid = ctx (opening - balance);
               pct = ctx (ctx (paid / opening) * 100);
               pct = (if pct < 0 then 0 else pct);
               pct = (if pct > 100 then 100 else pct)
           in quantize_even 2 pct)"

section \<open>The rolling cycle\<close>

definition day_index :: "deadline_day \<Rightarrow> int" where
  "day_index d = (case d of DD_mon \<Rightarrow> 0 | DD_tue \<Rightarrow> 1 | DD_wed \<Rightarrow> 2 | DD_thu \<Rightarrow> 3
     | DD_fri \<Rightarrow> 4 | DD_sat \<Rightarrow> 5 | DD_sun \<Rightarrow> 6)"

definition current_cycle_deadline :: "zone \<Rightarrow> rolling_tribute \<Rightarrow> datetime \<Rightarrow> datetime" where
  "current_cycle_deadline z r now =
     (let now_uk = to_wall z now;
          days_until = (day_index (r_deadline_day r) - weekday (date_of now_uk)) mod 7;
          candidate = days (date_of now_uk + days_until) + r_deadline_time r;
          candidate = (if candidate \<le> now_uk then candidate + days 7 else candidate)
      in from_wall z candidate)"

definition days_late :: "zone \<Rightarrow> rolling_tribute \<Rightarrow> datetime \<Rightarrow> int" where
  "days_late z r now =
     (let baseline = (case r_last_paid_at r of Some t \<Rightarrow> t | None \<Rightarrow> r_created_at r);
          last_deadline = current_cycle_deadline z r now - days 7
      in if last_deadline \<le> baseline then 0
         else let last_deadline_uk = to_wall z last_deadline; now_uk = to_wall z now
              in if now_uk \<le> last_deadline_uk then 0
                 else date_of now_uk - date_of last_deadline_uk)"

definition amount_due :: "zone \<Rightarrow> rolling_tribute \<Rightarrow> datetime \<Rightarrow> rat" where
  "amount_due z r now =
     (if r_paused r \<or> r_amount r = 0 then 0
      else ctx (r_amount r * of_int (1 + days_late z r now * r_late_multiplier_per_day r)))"

section \<open>Facts\<close>

lemma current_period_index_nonneg: "0 \<le> current_period_index z c now"
  by (auto simp: current_period_index_def Let_def pos_imp_zdiv_nonneg_iff
      split: option.splits payment_frequency.splits)

text \<open>For a fixed period length, the index counts the whole periods since the signature.\<close>

lemma current_period_index_days:
  assumes "c_signed_at c = Some t" "payment_frequency c \<noteq> PF_monthly"
    and "as_london_date z t \<le> as_london_date z now"
  shows "current_period_index z c now =
    (as_london_date z now - as_london_date z t) div period_length_days (payment_frequency c)"
  using assms by (cases "payment_frequency c")
    (auto simp: current_period_index_def Let_def period_length_days_def)

text \<open>The wall-clock deadline chosen from the wall clock \<open>w\<close>.\<close>

definition deadline_wall :: "rolling_tribute \<Rightarrow> int \<Rightarrow> int" where
  "deadline_wall r w =
     (let c = days (date_of w + (day_index (r_deadline_day r) - weekday (date_of w)) mod 7)
              + r_deadline_time r
      in if c \<le> w then c + days 7 else c)"

lemma current_cycle_deadline_wall:
  "current_cycle_deadline z r now = from_wall z (deadline_wall r (to_wall z now))"
  by (simp add: current_cycle_deadline_def deadline_wall_def Let_def)

lemma deadline_wall_window:
  assumes "0 \<le> r_deadline_time r" "r_deadline_time r < us_per_day"
  shows "w < deadline_wall r w \<and> deadline_wall r w \<le> w + days 7"
proof -
  define k where "k = (day_index (r_deadline_day r) - weekday (date_of w)) mod 7"
  have k: "0 \<le> k" "k \<le> 6" by (simp_all add: k_def)
  have w: "date_of w * us_per_day \<le> w" "w < date_of w * us_per_day + us_per_day"
    using div_mult_mod_eq [of w us_per_day] pos_mod_bound [OF us_per_day_pos, of w] pos_mod_sign [OF us_per_day_pos, of w]
      us_per_day_pos unfolding date_of_def by linarith+
  have "deadline_wall r w = (let c = date_of w * us_per_day + k * us_per_day + r_deadline_time r
      in if c \<le> w then c + 7 * us_per_day else c)"
    by (simp only: deadline_wall_def k_def days_def distrib_right)
  then show ?thesis using k w assms unfolding days_def Let_def us_per_day_def
    by (auto split: if_splits)
qed

lemma deadline_wall_weekday:
  assumes "0 \<le> r_deadline_time r" "r_deadline_time r < us_per_day"
  shows "weekday (date_of (deadline_wall r w)) = day_index (r_deadline_day r)"
proof -
  define k where "k = (day_index (r_deadline_day r) - weekday (date_of w)) mod 7"
  have "date_of (deadline_wall r w) = date_of w + k \<or> date_of (deadline_wall r w) = date_of w + k + 7"
    using date_of_combine [OF assms, of "date_of w + k"]
    by (auto simp: deadline_wall_def Let_def k_def [symmetric] date_of_add_days)
  moreover have "weekday (date_of w + k) = day_index (r_deadline_day r)"
  proof -
    have "weekday (date_of w + k) = (date_of w + 3 + k) mod 7" by (simp add: weekday_def algebra_simps)
    also have "\<dots> = (weekday (date_of w) + k) mod 7" by (simp add: weekday_def mod_simps)
    also have "\<dots> = day_index (r_deadline_day r) mod 7" by (simp add: k_def mod_simps)
    also have "\<dots> = day_index (r_deadline_day r)" by (simp add: day_index_def split: deadline_day.splits)
    finally show ?thesis .
  qed
  ultimately show ?thesis by auto
qed

lemma deadline_wall_time:
  assumes "0 \<le> r_deadline_time r" "r_deadline_time r < us_per_day"
  shows "deadline_wall r w mod us_per_day = r_deadline_time r"
  using assms by (simp add: deadline_wall_def Let_def days_def)

text \<open>A zone whose offset is always between Greenwich and one hour ahead, as in London.\<close>

definition london_like :: "zone \<Rightarrow> bool" where
  "london_like z \<longleftrightarrow> (\<forall>t. 0 \<le> utc_off z t \<and> utc_off z t \<le> us_per_hour \<and>
                           0 \<le> wall_off z t \<and> wall_off z t \<le> us_per_hour)"

lemma london_like_examples [simp]: "london_like gmt" "london_like bst"
  by (simp_all add: london_like_def gmt_def bst_def us_per_hour_def)

lemma days_late_range:
  assumes z: "london_like z" and t: "0 \<le> r_deadline_time r" "r_deadline_time r < us_per_day"
  shows "0 \<le> days_late z r now \<and> days_late z r now \<le> 8"
proof -
  define w where "w = to_wall z now"
  define l where "l = to_wall z (from_wall z (deadline_wall r w) - days 7)"
  have *: "days_late z r now = 0 \<or> (l < w \<and> days_late z r now = date_of w - date_of l)"
    by (auto simp: days_late_def Let_def current_cycle_deadline_wall w_def [symmetric]
        l_def [symmetric] not_le)
  have "w < l + days 7 + us_per_hour"
    using deadline_wall_window [OF t, of w] z
    by (simp add: l_def to_wall_def from_wall_def london_like_def) (smt (verit))
  then have "date_of w \<le> date_of (l + days 8)"
    by (intro date_of_mono) (simp add: days_def us_per_day_def us_per_hour_def)
  then have "date_of w \<le> date_of l + 8" by (simp add: date_of_add_days)
  with * show ?thesis using date_of_mono [of l w] by auto
qed

section \<open>Properties\<close>

text \<open>
  The deadline of the current cycle is, on the London wall clock, the next reading of the
  configured weekday and time of day strictly after now, at most a week away.
\<close>

theorem cycle_deadline_next:
  assumes "0 \<le> r_deadline_time r" "r_deadline_time r < us_per_day"
  shows "\<exists>w. current_cycle_deadline z r now = from_wall z w \<and>
    to_wall z now < w \<and> w \<le> to_wall z now + days 7 \<and>
    weekday (date_of w) = day_index (r_deadline_day r) \<and> w mod us_per_day = r_deadline_time r"
  using current_cycle_deadline_wall deadline_wall_window [OF assms]
    deadline_wall_weekday [OF assms] deadline_wall_time [OF assms] by blast

text \<open>
  Lateness of a rolling tribute is counted against the last deadline only: it is never
  negative, never more than 8 days however long nothing was paid, and the amount due lies
  between the weekly amount and that amount times one plus eight times the daily multiplier.
\<close>

theorem rolling_lateness_bounded:
  assumes "london_like z" "0 \<le> r_deadline_time r" "r_deadline_time r < us_per_day"
    and "money (r_amount r)" "0 < r_amount r" "\<not> r_paused r"
    and "0 \<le> r_late_multiplier_per_day r" "r_late_multiplier_per_day r \<le> 30"
  shows "0 \<le> days_late z r now \<and> days_late z r now \<le> 8 \<and>
    r_amount r \<le> amount_due z r now \<and>
    amount_due z r now \<le> r_amount r * of_int (1 + 8 * r_late_multiplier_per_day r)"
proof -
  let ?n = "1 + days_late z r now * r_late_multiplier_per_day r"
  have d: "0 \<le> days_late z r now" "days_late z r now \<le> 8"
    using days_late_range [OF assms(1-3)] by auto
  have n: "1 \<le> ?n" "?n \<le> 1 + 8 * r_late_multiplier_per_day r" "?n \<le> 241"
    using d assms(7,8) mult_mono [of "days_late z r now" 8 "r_late_multiplier_per_day r" 30]
    by (simp_all add: mult_right_mono)
  have n': "(1 :: rat) \<le> of_int ?n" "(of_int ?n :: rat) \<le> of_int (1 + 8 * r_late_multiplier_per_day r)"
      "(of_int ?n :: rat) \<le> 241"
    using n by (simp_all only: of_int_1_le_iff of_int_le_iff of_int_le_numeral_iff)
  have "r_amount r * of_int ?n < 10 ^ 12 * 10 ^ 3"
  proof (rule mult_strict_mono')
    show "(of_int ?n :: rat) < 10 ^ 3" using n'(3) by simp
    show "(0 :: rat) \<le> of_int ?n" using n(1) by (simp only: of_int_0_le_iff)
  qed (use assms in \<open>simp_all add: money_def\<close>)
  moreover have "0 \<le> r_amount r * of_int ?n"
    using assms(5) n(1) by (simp only: zero_le_mult_iff of_int_0_le_iff) simp
  moreover have "places 2 (r_amount r * of_int ?n)"
    using assms(4) Ints_mult [OF _ Ints_of_int, of "r_amount r * 10 ^ 2" ?n]
    by (simp only: money_def places_def mult_ac)
  ultimately have "amount_due z r now = r_amount r * of_int ?n"
    using assms(5,6) by (simp only: amount_due_def) (simp add: ctx_places [of 2])
  moreover have "r_amount r * 1 \<le> r_amount r * of_int ?n"
    using assms(5) n(1) n'(1)
    by (intro mult_left_mono) simp_all
  moreover have "r_amount r * of_int ?n \<le> r_amount r * of_int (1 + 8 * r_late_multiplier_per_day r)"
    using assms(5) n'(2)
    by (intro mult_left_mono) simp_all
  ultimately show ?thesis using d by simp
qed

definition sample_rolling :: rolling_tribute where
  "sample_rolling = \<lparr>r_id = 1, r_sub_id = 2, r_goddess_id = 3, r_amount = 50, r_deadline_day = DD_fri,
     r_deadline_time = 18 * us_per_hour, r_late_multiplier_per_day = 1, r_paused = False,
     r_notes = None, r_last_paid_at = None, r_created_at = 0, r_updated_at = 0\<rparr>"

lemma cycle_deadline_next_witness:
  "\<exists>w. current_cycle_deadline gmt sample_rolling 0 = from_wall gmt w \<and> weekday (date_of w) = 4"
  using cycle_deadline_next [of sample_rolling gmt 0]
  by (auto simp: sample_rolling_def us_per_hour_def us_per_day_def day_index_def)

lemma rolling_lateness_bounded_witness:
  "0 \<le> days_late bst sample_rolling (days 100) \<and> days_late bst sample_rolling (days 100) \<le> 8 \<and>
   amount_due bst sample_rolling (days 100) \<le> 450"
  using rolling_lateness_bounded [of bst sample_rolling "days 100"]
  by (simp add: sample_rolling_def us_per_hour_def us_per_day_def money_def places_def)

end
