(* ===== verification/Users.thy ===== *)
theory Users
  imports Schema
begin

text \<open>
  Who is who: \<^verbatim>\<open>controllers/_goddess.py\<close>, \<^verbatim>\<open>daos/user_dao.py\<close>, the safeword record
  (\<^verbatim>\<open>daos/sub_safeword_dao.py\<close>) and the ownership check of the rolling controller.
\<close>

interpretation users: keyed_table u_id "fetch u_id" insert_row "modify u_id"
  by (rule list_table)

definition resolve_goddess_id :: "uuid \<Rightarrow> db \<Rightarrow> uuid res" where
  "resolve_goddess_id uid s =
     attempt (scalar_one_or_none
        [g. u \<leftarrow> t_users s, u_id u = uid, g \<leftarrow> t_goddesses s, u_goddess_id u = Some (g_id g)])
       (\<lambda>r. require r (Forbidden ''goddess profile not found for this user'') (\<lambda>g. Inr (g_id g)))"

definition resolve_goddess_user_id :: "uuid \<Rightarrow> db \<Rightarrow> uuid option res" where
  "resolve_goddess_user_id gid s =
     scalar_one_or_none
       (map u_id (filter (\<lambda>u. u_goddess_id u = Some gid \<and> u_role u = R_goddess) (t_users s)))"

definition user_by_id :: "uuid \<Rightarrow> db \<Rightarrow> user option" where
  "user_by_id uid s = fetch u_id uid (t_users s)"

definition user_by_email :: "string \<Rightarrow> db \<Rightarrow> user option res" where
  "user_by_email email s = scalar_one_or_none (filter (\<lambda>u. u_email u = email) (t_users s))"

definition user_by_username :: "string \<Rightarrow> db \<Rightarrow> user option res" where
  "user_by_username name s = scalar_one_or_none (filter (\<lambda>u. u_username u = name) (t_users s))"

definition list_active_subs :: "uuid \<Rightarrow> db \<Rightarrow> user list" where
  "list_active_subs gid s =
     filter (\<lambda>u. u_goddess_id u = Some gid \<and> u_role u = R_sub \<and> u_status u = US_active) (t_users s)"

definition count_subs_by_status :: "uuid \<Rightarrow> user_status \<Rightarrow> db \<Rightarrow> nat" where
  "count_subs_by_status gid st s =
     length (filter (\<lambda>u. u_goddess_id u = Some gid \<and> u_role u = R_sub \<and> u_status u = st) (t_users s))"

definition update_user :: "uuid \<Rightarrow> (user \<Rightarrow> user) \<Rightarrow> db \<Rightarrow> db" where
  "update_user uid f s = s\<lparr>t_users := modify u_id uid f (t_users s)\<rparr>"

definition set_user_status :: "uuid \<Rightarrow> user_status \<Rightarrow> db \<Rightarrow> db" where
  "set_user_status uid st s = update_user uid (\<lambda>u. u\<lparr>u_status := st\<rparr>) s"

definition assert_sub_belongs_to_goddess :: "uuid \<Rightarrow> uuid \<Rightarrow> db \<Rightarrow> user res" where
  "assert_sub_belongs_to_goddess gid sid s =
     attempt (scalar_one_or_none
        (filter (\<lambda>u. u_id u = sid \<and> u_goddess_id u = Some gid) (t_users s)))
       (\<lambda>r. require r (NotFound ''sub not found or not linked to this goddess'') Inr)"

definition safeword_for_sub :: "uuid \<Rightarrow> db \<Rightarrow> sub_safeword option" where
  "safeword_for_sub sid s = fetch sw_sub_id sid (t_safewords s)"

record safeword_in =
  sf_word :: string
  sf_signal :: "string option"
  sf_contact_name :: "string option"
  sf_contact_phone :: "string option"

definition upsert_safeword :: "datetime \<Rightarrow> uuid \<Rightarrow> uuid \<Rightarrow> safeword_in \<Rightarrow> db \<Rightarrow> db" where
  "upsert_safeword now sid gid p s =
     (case safeword_for_sub sid s of
        Some _ \<Rightarrow> s\<lparr>t_safewords := modify sw_sub_id sid
           (\<lambda>w. w\<lparr>sw_goddess_id := gid, sw_word := sf_word p, sw_signal := sf_signal p,
                  sw_contact_name := sf_contact_name p, sw_contact_phone := sf_contact_phone p,
                  sw_updated_at := now\<rparr>) (t_safewords s)\<rparr>
      | None \<Rightarrow> s\<lparr>t_safewords := insert_row
           \<lparr>sw_sub_id = sid, sw_goddess_id = gid, sw_word = sf_word p, sw_signal = sf_signal p,
            sw_contact_name = sf_contact_name p, sw_contact_phone = sf_contact_phone p,
            sw_created_at = now, sw_updated_at = now\<rparr> (t_safewords s)\<rparr>)"

interpretation safewords: keyed_table sw_sub_id "fetch sw_sub_id" insert_row "modify sw_sub_id"
  by (rule list_table)

lemma resolve_goddess_id_cong:
  "t_users s' = t_users s \<Longrightarrow> t_goddesses s' = t_goddesses s \<Longrightarrow>
   resolve_goddess_id u s' = resolve_goddess_id u s"
  by (simp add: resolve_goddess_id_def cong: if_cong)

lemma resolve_goddess_id_user:
  assumes "resolve_goddess_id uid s = Inr gid"
  shows "\<exists>u \<in> set (t_users s). u_id u = uid \<and> u_goddess_id u = Some gid"
proof -
  obtain g where "[g. u \<leftarrow> t_users s, u_id u = uid, g \<leftarrow> t_goddesses s, u_goddess_id u = Some (g_id g)] = [g]"
      "gid = g_id g"
    using assms by (auto simp: resolve_goddess_id_def res_simps scalar_one_or_none_Some)
  then have "g \<in> set [g. u \<leftarrow> t_users s, u_id u = uid, g \<leftarrow> t_goddesses s, u_goddess_id u = Some (g_id g)]"
    by simp
  with \<open>gid = g_id g\<close> show ?thesis by (auto split: if_splits)
qed

lemma assert_sub_belongs_Inr:
  assumes "assert_sub_belongs_to_goddess gid sid s = Inr u"
  shows "u \<in> set (t_users s) \<and> u_id u = sid \<and> u_goddess_id u = Some gid"
proof -
  from assms have "filter (\<lambda>u. u_id u = sid \<and> u_goddess_id u = Some gid) (t_users s) = [u]"
    by (auto simp: assert_sub_belongs_to_goddess_def res_simps scalar_one_or_none_Some)
  then have "u \<in> set (filter (\<lambda>u. u_id u = sid \<and> u_goddess_id u = Some gid) (t_users s))" by simp
  then show ?thesis by simp
qed

lemma safeword_after_upsert:
  "map_option sw_word (safeword_for_sub sid (upsert_safeword now sid gid p s)) = Some (sf_word p)"
  using safewords.get_key [of sid "t_safewords s"]
  by (auto simp: upsert_safeword_def safeword_for_sub_def safewords.get_add safewords.get_upd
      split: option.splits)

end
