(* ===== verification/Methods.thy ===== *)
theory Methods
  imports Users
begin

text \<open>
  Payment methods (\<^verbatim>\<open>daos/payment_method_dao.py\<close>, \<^verbatim>\<open>controllers/payment_method_controller.py\<close>)
  and the allocation rows of validated payments (\<^verbatim>\<open>daos/allocation_dao.py\<close>).
\<close>

section \<open>Payment methods\<close>

record method_create =
  mc_name :: string
  mc_type :: payment_method_type
  mc_handle_or_link :: string
  mc_note :: "string option"
  mc_enabled :: bool

text \<open>A field of the patch is \<open>Some v\<close> when the client sent it (\<^verbatim>\<open>exclude_unset\<close>).\<close>

record method_update =
  mu_name :: "string option"
  mu_type :: "payment_method_type option"
  mu_handle_or_link :: "string option"
  mu_note :: "string option option"
  mu_enabled :: "bool option"

definition method_create_valid :: "method_create \<Rightarrow> bool" where
  "method_create_valid p \<longleftrightarrow>
     1 \<le> length (mc_name p) \<and> length (mc_name p) \<le> 200 \<and>
     1 \<le> length (mc_handle_or_link p) \<and> length (mc_handle_or_link p) \<le> 500"

definition max_sort_order :: "uuid \<Rightarrow> db \<Rightarrow> int option" where
  "max_sort_order gid s =
     (let os = map m_sort_order (filter (\<lambda>m. m_goddess_id m = gid) (t_methods s))
      in if os = [] then None else Some (foldr max os (hd os)))"

definition create_method :: "uuid \<Rightarrow> datetime \<Rightarrow> uuid \<Rightarrow> method_create \<Rightarrow> db \<Rightarrow> db \<times> payment_method" where
  "create_method mid now gid p s =
     (let m = \<lparr>m_id = mid, m_goddess_id = gid, m_name = mc_name p, m_type = mc_type p,
               m_handle_or_link = mc_handle_or_link p, m_note = mc_note p,
               m_enabled = mc_enabled p,
               m_sort_order = (case max_sort_order gid s of None \<Rightarrow> 0 | Some k \<Rightarrow> k + 1),
               m_created_at = now, m_updated_at = now\<rparr>
      in (s\<lparr>t_methods := insert_row m (t_methods s)\<rparr>, m))"

definition methods_by_goddess :: "uuid \<Rightarrow> bool \<Rightarrow> db \<Rightarrow> payment_method list" where
  "methods_by_goddess gid enabled_only s =
     sort_key m_sort_order
       (filter (\<lambda>m. m_goddess_id m = gid \<and> (enabled_only \<longrightarrow> m_enabled m)) (t_methods s))"

definition method_by_id :: "uuid \<Rightarrow> uuid \<Rightarrow> db \<Rightarrow> payment_method option res" where
  "method_by_id mid gid s =
     scalar_one_or_none (filter (\<lambda>m. m_id m = mid \<and> m_goddess_id m = gid) (t_methods s))"

definition patch_method :: "method_update \<Rightarrow> datetime \<Rightarrow> payment_method \<Rightarrow> payment_method" where
  "patch_method p now m =
     m\<lparr>m_name := (case mu_name p of Some v \<Rightarrow> v | None \<Rightarrow> m_name m),
       m_type := (case mu_type p of Some v \<Rightarrow> v | None \<Rightarrow> m_type m),
       m_handle_or_link := (case mu_handle_or_link p of Some v \<Rightarrow> v | None \<Rightarrow> m_handle_or_link m),
       m_note := (case mu_note p of Some v \<Rightarrow> v | None \<Rightarrow> m_note m),
       m_enabled := (case mu_enabled p of Some v \<Rightarrow> v | None \<Rightarrow> m_enabled m),
       m_updated_at := now\<rparr>"

definition update_method :: "uuid \<Rightarrow> (payment_method \<Rightarrow> payment_method) \<Rightarrow> db \<Rightarrow> db" where
  "update_method mid f s = s\<lparr>t_methods := modify m_id mid f (t_methods s)\<rparr>"

fun set_positions :: "int \<Rightarrow> datetime \<Rightarrow> uuid list \<Rightarrow> db \<Rightarrow> db" where
  "set_positions position now [] s = s"
| "set_positions position now (mid # ids) s =
     set_positions (position + 1) now ids
       (update_method mid (\<lambda>m. m\<lparr>m_sort_order := position, m_updated_at := now\<rparr>) s)"

definition set_sort_orders :: "uuid \<Rightarrow> datetime \<Rightarrow> uuid list \<Rightarrow> db \<Rightarrow> db res" where
  "set_sort_orders gid now ids s =
     (let owned = map m_id (filter (\<lambda>m. m_goddess_id m = gid) (t_methods s));
          unknown = filter (\<lambda>i. i \<notin> set owned) ids
      in raise_if (unknown \<noteq> []) (BadRequest ''method id(s) not owned by this goddess'')
           (Inr (set_positions 0 now ids s)))"

definition get_method_or_404 :: "uuid \<Rightarrow> uuid \<Rightarrow> db \<Rightarrow> payment_method res" where
  "get_method_or_404 gid mid s =
     attempt (method_by_id mid gid s) (\<lambda>r. require r (NotFound ''payment method not found'') Inr)"

definition list_methods :: "uuid \<Rightarrow> bool \<Rightarrow> db \<Rightarrow> payment_method list res" where
  "list_methods uid enabled_only s =
     attempt (resolve_goddess_id uid s) (\<lambda>gid. Inr (methods_by_goddess gid enabled_only s))"

definition method_create_handler ::
  "uuid \<Rightarrow> datetime \<Rightarrow> uuid \<Rightarrow> method_create \<Rightarrow> db \<Rightarrow> (db \<times> payment_method) res" where
  "method_create_handler mid now uid p s =
     attempt (resolve_goddess_id uid s) (\<lambda>gid. Inr (create_method mid now gid p s))"

definition method_update_handler ::
  "datetime \<Rightarrow> uuid \<Rightarrow> uuid \<Rightarrow> method_update \<Rightarrow> db \<Rightarrow> (db \<times> payment_method) res" where
  "method_update_handler now uid mid p s =
     attempt (resolve_goddess_id uid s) (\<lambda>gid.
     attempt (get_method_or_404 gid mid s) (\<lambda>m.
     Inr (update_method mid (patch_method p now) s, patch_method p now m)))"

definition method_delete_handler :: "datetime \<Rightarrow> uuid \<Rightarrow> uuid \<Rightarrow> db \<Rightarrow> db res" where
  "method_delete_handler now uid mid s =
     attempt (resolve_goddess_id uid s) (\<lambda>gid.
     attempt (get_method_or_404 gid mid s) (\<lambda>m.
     Inr (update_method mid (\<lambda>m. m\<lparr>m_enabled := False, m_updated_at := now\<rparr>) s)))"

definition method_reorder_handler ::
  "datetime \<Rightarrow> uuid \<Rightarrow> uuid list \<Rightarrow> db \<Rightarrow> (db \<times> payment_method list) res" where
  "method_reorder_handler now uid ids s =
     attempt (resolve_goddess_id uid s) (\<lambda>gid.
     attempt (set_sort_orders gid now ids s) (\<lambda>s1.
     Inr (s1, methods_by_goddess gid False s1)))"

interpretation methods: keyed_table m_id "fetch m_id" insert_row "modify m_id"
  by (rule list_table)

text \<open>Reordering changes orders and timestamps only, of the listed methods only.\<close>

lemma set_positions_key:
  "map m_id (t_methods (set_positions p now ids s)) = map m_id (t_methods s)"
  by (induction p now ids s rule: set_positions.induct) (simp_all add: update_method_def map_key_modify)

lemma set_positions_fetch:
  assumes "distinct ids" and "fetch m_id i (t_methods s) = Some m"
  shows "fetch m_id i (t_methods (set_positions p now ids s)) =
    Some (if i \<in> set ids
          then m\<lparr>m_sort_order := p + int (length (takeWhile (\<lambda>j. j \<noteq> i) ids)), m_updated_at := now\<rparr>
          else m)"
  using assms
proof (induction p now ids s arbitrary: m rule: set_positions.induct)
  case (1 p now s)
  then show ?case by simp
next
  case (2 p now j ids s)
  let ?f = "\<lambda>m :: payment_method. m\<lparr>m_sort_order := p, m_updated_at := now\<rparr>"
  let ?s = "update_method j ?f s"
  have "fetch m_id i (t_methods ?s) = Some (if i = j then ?f m else m)"
    using 2 by (simp add: update_method_def methods.get_upd_Some)
  from "2.IH" [OF _ this] "2.prems" show ?case by (auto simp: algebra_simps)
qed

section \<open>Allocations\<close>

definition create_allocation ::
  "datetime \<Rightarrow> payment_declaration \<Rightarrow> allocation_target \<Rightarrow> uuid option \<Rightarrow> db \<Rightarrow> db res" where
  "create_allocation now d ty target s =
     raise_if (list_ex (\<lambda>l. l_declaration_id l = d_id d) (t_allocations s))
       (IntegrityError ''uq_payment_allocation_declaration'')
       (Inr (s\<lparr>t_allocations := insert_row
          \<lparr>l_declaration_id = d_id d, l_target_type = ty, l_target_id = target,
           l_amount = numeric_column 2 (d_amount d), l_allocated_at = now\<rparr> (t_allocations s)\<rparr>))"

definition allocations_for_target :: "allocation_target \<Rightarrow> uuid \<Rightarrow> db \<Rightarrow> payment_allocation list" where
  "allocations_for_target ty target s =
     filter (\<lambda>l. l_target_type l = ty \<and> l_target_id l = Some target) (t_allocations s)"

definition sum_for_sub :: "uuid \<Rightarrow> db \<Rightarrow> rat" where
  "sum_for_sub sid s =
     sum_list (map d_amount (filter (\<lambda>d. d_sub_id d = sid \<and> d_status d = PS_validated) (t_declarations s)))"

definition sum_for_goddess :: "uuid \<Rightarrow> db \<Rightarrow> rat" where
  "sum_for_goddess gid s =
     sum_list (map d_amount (filter (\<lambda>d. d_goddess_id d = gid \<and> d_status d = PS_validated) (t_declarations s)))"

record contract_payment_stats =
  st_total_paid :: rat
  st_payment_count :: nat
  st_last_payment_at :: "datetime option"
  st_first_payment_at :: "datetime option"

definition max_datetime :: "datetime list \<Rightarrow> datetime option" where
  "max_datetime ts = (if ts = [] then None else Some (foldr max ts (hd ts)))"

definition min_datetime :: "datetime list \<Rightarrow> datetime option" where
  "min_datetime ts = (if ts = [] then None else Some (foldr min ts (hd ts)))"

definition contract_allocations :: "uuid \<Rightarrow> db \<Rightarrow> (payment_allocation \<times> payment_declaration) list" where
  "contract_allocations cid s =
     [(l, d). l \<leftarrow> t_allocations s, l_target_type l = AT_contract_debt \<and> l_target_id l = Some cid,
              d \<leftarrow> t_declarations s, l_declaration_id l = d_id d \<and> d_status d = PS_validated]"

definition stats_for_contract :: "uuid \<Rightarrow> db \<Rightarrow> contract_payment_stats" where
  "stats_for_contract cid s =
     (let rows = contract_allocations cid s;
          ts = List.map_filter (\<lambda>(l, d). d_validated_at d) rows
      in \<lparr>st_total_paid = sum_list (map (\<lambda>(l, d). l_amount l) rows),
          st_payment_count = length rows,
          st_last_payment_at = max_datetime ts,
          st_first_payment_at = min_datetime ts\<rparr>)"

lemma create_allocation_Inr [res_simps]:
  "create_allocation now d ty target s = Inr s' \<longleftrightarrow>
     (\<forall>l \<in> set (t_allocations s). l_declaration_id l \<noteq> d_id d) \<and>
     s' = s\<lparr>t_allocations := t_allocations s @
        [\<lparr>l_declaration_id = d_id d, l_target_type = ty, l_target_id = target,
          l_amount = numeric_column 2 (d_amount d), l_allocated_at = now\<rparr>]\<rparr>"
  by (auto simp: create_allocation_def res_simps list_ex_iff insert_row_def)

section \<open>Properties\<close>

text \<open>
  Reordering all methods of a goddess gives each listed method its position in the list
  as its new order, and is refused when a listed method is not hers.
\<close>

theorem reorder_sets_positions:
  assumes "distinct ids" "fetch m_id i (t_methods s) = Some m" "i \<in> set ids"
    and "set_sort_orders gid now ids s = Inr s'"
  shows "\<exists>m'. fetch m_id i (t_methods s') = Some m' \<and> m_goddess_id m' = m_goddess_id m \<and>
    m_sort_order m' = int (length (takeWhile (\<lambda>j. j \<noteq> i) ids)) \<and>
    i \<in> m_id ` {m \<in> set (t_methods s). m_goddess_id m = gid}"
proof -
  have s': "s' = set_positions 0 now ids s" and "\<forall>j \<in> set ids. \<exists>m \<in> set (t_methods s). m_goddess_id m = gid \<and> j = m_id m"
    using assms(4) by (auto simp: set_sort_orders_def res_simps Let_def filter_empty_conv image_iff)
  with set_positions_fetch [OF assms(1,2), of 0 now] assms(3) show ?thesis
    by (simp add: image_iff) blast
qed

definition sample_method :: "uuid \<Rightarrow> payment_method" where
  "sample_method i = \<lparr>m_id = i, m_goddess_id = 1, m_name = ''bank'', m_type = PM_bank,
     m_handle_or_link = ''x'', m_note = None, m_enabled = True, m_sort_order = 0,
     m_created_at = 0, m_updated_at = 0\<rparr>"

lemma reorder_sets_positions_witness:
  "\<exists>s' m'. set_sort_orders 1 9 [5, 4] (empty_db\<lparr>t_methods := [sample_method 4, sample_method 5]\<rparr>) = Inr s' \<and>
     fetch m_id 4 (t_methods s') = Some m' \<and> m_sort_order m' = 1"
proof -
  let ?s = "empty_db\<lparr>t_methods := [sample_method 4, sample_method 5]\<rparr>"
  have ok: "set_sort_orders 1 9 [5, 4] ?s = Inr (set_positions 0 9 [5, 4] ?s)"
    by (simp add: set_sort_orders_def sample_method_def empty_db_def)
  show ?thesis using reorder_sets_positions [OF _ _ _ ok, of 4 "sample_method 4"] ok
    by (auto simp: sample_method_def empty_db_def)
qed

end
