(* ===== verification/Clauses.thy ===== *)
theory Clauses
  imports Schema
begin

text \<open>
  The clauses of a contract: the JSON blob of the \<^verbatim>\<open>clauses_json\<close> column, its parsing for the
  client (\<^verbatim>\<open>clauses_out\<close>) and the content signatures by which \<^verbatim>\<open>update_clauses\<close> decides
  whether the sub has to sign again.
\<close>

section \<open>UUID strings\<close>

definition hex_digit :: "nat \<Rightarrow> char" where
  "hex_digit n = ''0123456789abcdef'' ! (n mod 16)"

fun hex :: "nat \<Rightarrow> nat \<Rightarrow> string" where
  "hex 0 n = []"
| "hex (Suc k) n = hex k (n div 16) @ [hex_digit n]"

text \<open>\<^verbatim>\<open>str(uuid)\<close>: 32 lower-case hexadecimal digits in groups of 8, 4, 4, 4 and 12.\<close>

definition uuid_text :: "uuid \<Rightarrow> string" where
  "uuid_text u =
     (let h = hex 32 u in
      take 8 h @ ''-'' @ take 4 (drop 8 h) @ ''-'' @ take 4 (drop 12 h) @ ''-'' @
      take 4 (drop 16 h) @ ''-'' @ drop 20 h)"

section \<open>Reading a stored clause\<close>

definition json_string :: "json option \<Rightarrow> string option" where
  "json_string v = (case v of
      Some (JStr t) \<Rightarrow> Some t
    | Some (JId u) \<Rightarrow> Some (uuid_text u)
    | _ \<Rightarrow> None)"

definition json_int :: "json option \<Rightarrow> int option" where
  "json_int v = (case v of
      Some (JInt i) \<Rightarrow> Some i
    | Some (JBool b) \<Rightarrow> Some (if b then 1 else 0)
    | _ \<Rightarrow> None)"

definition json_uuid :: "json option \<Rightarrow> uuid option" where
  "json_uuid v = (case v of Some (JId u) \<Rightarrow> Some u | _ \<Rightarrow> None)"

record clause =
  co_id :: uuid
  co_label :: string
  co_body :: string
  co_sort_order :: int

definition parse_clause :: "clause_json \<Rightarrow> clause option" where
  "parse_clause entry =
     (case (json_uuid (map_of entry ''id''), json_string (map_of entry ''label''),
            json_string (map_of entry ''body''), json_int (map_of entry ''sort_order'')) of
        (Some i, Some label, Some body, Some so) \<Rightarrow>
          Some \<lparr>co_id = i, co_label = label, co_body = body, co_sort_order = so\<rparr>
      | _ \<Rightarrow> None)"

definition clauses_out :: "clause_json list \<Rightarrow> clause list" where
  "clauses_out raw = sort_key co_sort_order (List.map_filter parse_clause raw)"

section \<open>Writing clauses\<close>

record clause_in =
  ci_id :: "uuid option"
  ci_label :: string
  ci_body :: string

text \<open>\<open>fresh i\<close> is the id drawn by \<^verbatim>\<open>uuid4()\<close> for the clause at index \<open>i\<close>.\<close>

fun normalize_from :: "int \<Rightarrow> (int \<Rightarrow> uuid) \<Rightarrow> clause_in list \<Rightarrow> clause list" where
  "normalize_from i fresh [] = []"
| "normalize_from i fresh (c # cs) =
     \<lparr>co_id = (case ci_id c of Some u \<Rightarrow> u | None \<Rightarrow> fresh i), co_label = ci_label c,
      co_body = ci_body c, co_sort_order = i\<rparr> # normalize_from (i + 1) fresh cs"

definition normalize_clauses :: "(int \<Rightarrow> uuid) \<Rightarrow> clause_in list \<Rightarrow> clause list" where
  "normalize_clauses fresh cs = normalize_from 0 fresh cs"

definition store_clause :: "clause \<Rightarrow> clause_json" where
  "store_clause c = [(''id'', JId (co_id c)), (''label'', JStr (co_label c)),
     (''body'', JStr (co_body c)), (''sort_order'', JInt (co_sort_order c))]"

type_synonym clause_signature = "(string \<times> string \<times> int) list"

definition normalized_clauses_signature :: "clause list \<Rightarrow> clause_signature" where
  "normalized_clauses_signature cs =
     sort_key (\<lambda>t. snd (snd t)) (map (\<lambda>c. (co_label c, co_body c, co_sort_order c)) cs)"

definition signature_entry :: "clause_json \<Rightarrow> (string \<times> string \<times> int) option" where
  "signature_entry entry =
     (case (json_string (map_of entry ''label''), json_string (map_of entry ''body''),
            json_int (map_of entry ''sort_order'')) of
        (Some label, Some body, Some so) \<Rightarrow> Some (label, body, so)
      | _ \<Rightarrow> None)"

definition stored_clauses_signature :: "clause_json list \<Rightarrow> clause_signature" where
  "stored_clauses_signature raw =
     sort_key (\<lambda>t. snd (snd t)) (List.map_filter signature_entry raw)"

section \<open>Facts\<close>

lemma parse_store [simp]: "parse_clause (store_clause c) = Some c"
  by (simp add: parse_clause_def store_clause_def json_uuid_def json_string_def json_int_def)

lemma signature_store [simp]:
  "signature_entry (store_clause c) = Some (co_label c, co_body c, co_sort_order c)"
  by (simp add: signature_entry_def store_clause_def json_string_def json_int_def)

lemma map_filter_all:
  "(\<And>x. f (g x) = Some (h x)) \<Longrightarrow> List.map_filter f (map g xs) = map h xs"
  by (induction xs) (simp_all add: List.map_filter_simps)

lemma normalize_from_sorted:
  "sorted (map co_sort_order (normalize_from i fresh cs)) \<and>
   (\<forall>c \<in> set (normalize_from i fresh cs). i \<le> co_sort_order c)"
proof (induction cs arbitrary: i)
  case Nil
  then show ?case by simp
next
  case (Cons c cs)
  from Cons [of "i + 1"] show ?case by auto
qed

lemma normalize_from_content:
  "map co_label (normalize_from i fresh cs) = map ci_label cs"
  "map co_body (normalize_from i fresh cs) = map ci_body cs"
  "map co_sort_order (normalize_from i fresh cs) = [i .. i + int (length cs) - 1]"
proof -
  show "map co_label (normalize_from i fresh cs) = map ci_label cs"
    "map co_body (normalize_from i fresh cs) = map ci_body cs"
    by (induction cs arbitrary: i) simp_all
  show "map co_sort_order (normalize_from i fresh cs) = [i .. i + int (length cs) - 1]"
    by (induction cs arbitrary: i) (simp_all add: upto_rec1 algebra_simps)
qed

lemma clauses_out_stored:
  "clauses_out (map store_clause (normalize_clauses fresh cs)) = normalize_clauses fresh cs"
  using normalize_from_sorted [of 0 fresh cs]
  by (simp add: clauses_out_def normalize_clauses_def sort_key_id_if_sorted
      map_filter_all [where g = store_clause and h = "\<lambda>c. c"])

lemma signature_stored:
  "stored_clauses_signature (map store_clause cs) = normalized_clauses_signature cs"
  by (simp add: stored_clauses_signature_def normalized_clauses_signature_def
      map_filter_all [where h = "\<lambda>c. (co_label c, co_body c, co_sort_order c)"])

lemma signature_content:
  "normalized_clauses_signature (normalize_from i fresh cs) =
     normalized_clauses_signature (normalize_from i fresh' cs')
   \<longleftrightarrow> map (\<lambda>c. (ci_label c, ci_body c)) cs = map (\<lambda>c. (ci_label c, ci_body c)) cs'"
proof -
  have *: "normalized_clauses_signature (normalize_from i fresh cs) =
      map (\<lambda>c. (co_label c, co_body c, co_sort_order c)) (normalize_from i fresh cs)" for i fresh cs
    using normalize_from_sorted [of i fresh cs]
    by (simp add: normalized_clauses_signature_def sort_key_id_if_sorted comp_def)
  show ?thesis unfolding *
  proof (induction cs arbitrary: i cs')
    case Nil
    then show ?case by (cases cs') simp_all
  next
    case (Cons c cs)
    then show ?case by (cases cs') auto
  qed
qed

lemma normalize_from_ids:
  "map co_id (normalize_from i fresh cs) =
     map (\<lambda>(n, c). case ci_id c of Some u \<Rightarrow> u | None \<Rightarrow> fresh n) (zip [i .. i + int (length cs) - 1] cs)"
  by (induction cs arbitrary: i) (simp_all add: upto_rec1 algebra_simps)

text \<open>What a client sends back of a clause it read.\<close>

definition sent_back :: "clause \<Rightarrow> clause_in" where
  "sent_back c = \<lparr>ci_id = Some (co_id c), ci_label = co_label c, ci_body = co_body c\<rparr>"

lemma normalize_sent_back:
  "normalize_from i fresh' (map sent_back (normalize_from i fresh cs)) = normalize_from i fresh cs"
  by (induction cs arbitrary: i) (simp_all add: sent_back_def)

section \<open>Properties\<close>

text \<open>
  C9: Clauses survive the round trip: what the client reads back after an update is the list
  it sent, in order, with dense sort orders from 0. A clause keeps the identifier it was sent
  with, and only a clause without one gets the identifier drawn for its position; so sending
  back what was read changes nothing, whatever identifiers are drawn.
\<close>

theorem clauses_roundtrip:
  "clauses_out (map store_clause (normalize_clauses fresh cs)) = normalize_clauses fresh cs \<and>
   map co_label (normalize_clauses fresh cs) = map ci_label cs \<and>
   map co_body (normalize_clauses fresh cs) = map ci_body cs \<and>
   map co_sort_order (normalize_clauses fresh cs) = [0 .. int (length cs) - 1] \<and>
   map co_id (normalize_clauses fresh cs) =
     map (\<lambda>(n, c). case ci_id c of Some u \<Rightarrow> u | None \<Rightarrow> fresh n) (zip [0 .. int (length cs) - 1] cs) \<and>
   normalize_clauses fresh' (map sent_back (clauses_out (map store_clause (normalize_clauses fresh cs)))) =
     normalize_clauses fresh cs"
  using clauses_out_stored normalize_from_content [of 0 fresh cs] normalize_from_ids [of 0 fresh cs]
    normalize_sent_back [of 0 fresh' fresh cs]
  by (simp add: normalize_clauses_def)

end
