(* ===== verification/Contracts.thy ===== *)
theory Contracts
  imports Ledger Finance Periods Methods Clauses
begin

text \<open>
  Negotiation, signature and closing of debt contracts, their clauses and the reads:
  \<^verbatim>\<open>controllers/debt/controller.py\<close> and \<^verbatim>\<open>helpers.py\<close>, \<^verbatim>\<open>daos/debt_dao.py\<close>. A handler takes
  what the code draws from outside (fresh ids, the contract slug, the clock \<open>now\<close>, the zone
  \<open>z\<close>) as arguments and returns the new database with the response. The columns of the
  contract and version tables round the amounts of a proposal; the response of the same
  request still shows the amounts it was given.
\<close>

section \<open>Rows of the contract tables\<close>

definition store_terms :: "'a terms_scheme \<Rightarrow> 'a terms_scheme" where
  "store_terms t = t\<lparr>principal := numeric_column 2 (principal t),
     interest_rate := numeric_column 6 (interest_rate t),
     minimum_payment := numeric_column 2 (minimum_payment t),
     late_penalty_percent := numeric_column 4 (late_penalty_percent t),
     exit_amount := numeric_column 2 (exit_amount t)\<rparr>"

definition terms_fit :: "'a terms_scheme \<Rightarrow> bool" where
  "terms_fit t \<longleftrightarrow> \<bar>numeric_column 2 (principal t)\<bar> < 10 ^ 10 \<and>
     \<bar>numeric_column 6 (interest_rate t)\<bar> < 10 ^ 2 \<and>
     \<bar>numeric_column 2 (minimum_payment t)\<bar> < 10 ^ 10 \<and>
     \<bar>numeric_column 4 (late_penalty_percent t)\<bar> < 10 \<and>
     \<bar>numeric_column 2 (exit_amount t)\<bar> < 10 ^ 10"

definition store_contract :: "debt_contract \<Rightarrow> debt_contract" where
  "store_contract c = (store_terms c)\<lparr>c_balance := numeric_column 2 (c_balance c)\<rparr>"

definition create_contract :: "debt_contract \<Rightarrow> db \<Rightarrow> db res" where
  "create_contract c s =
     raise_if (\<not> terms_fit c) (DataError ''debt_contract'') (
     raise_if (list_ex (\<lambda>c'. c_slug c' = c_slug c) (t_contracts s))
       (IntegrityError ''uq_debt_contract_slug'') (
     Inr (s\<lparr>t_contracts := insert_row (store_contract c) (t_contracts s)\<rparr>)))"

definition create_version :: "contract_version \<Rightarrow> db \<Rightarrow> db res" where
  "create_version v s =
     raise_if (\<not> terms_fit v) (DataError ''debt_contract_version'') (
     raise_if (list_ex (\<lambda>v'. v_contract_id v' = v_contract_id v \<and> v_round_no v' = v_round_no v) (t_versions s))
       (IntegrityError ''uq_debt_contract_version_round'') (
     Inr (s\<lparr>t_versions := insert_row (store_terms v) (t_versions s)\<rparr>)))"

text \<open>A mutation of the row object and the flush of \<^verbatim>\<open>DebtContractDao.save\<close>.\<close>

definition save_contract :: "uuid \<Rightarrow> (debt_contract \<Rightarrow> debt_contract) \<Rightarrow> db \<Rightarrow> db" where
  "save_contract cid f s = s\<lparr>t_contracts := modify c_id cid f (t_contracts s)\<rparr>"

definition append_audit :: "contract_audit \<Rightarrow> db \<Rightarrow> db" where
  "append_audit a s = s\<lparr>t_audits := t_audits s @ [a]\<rparr>"

definition audit_row ::
  "datetime \<Rightarrow> uuid \<Rightarrow> audit_event \<Rightarrow> uuid \<Rightarrow> contract_status option \<Rightarrow> contract_status option \<Rightarrow>
   audit_note option \<Rightarrow> contract_audit" where
  "audit_row now cid ev actor from to note =
     \<lparr>a_contract_id = cid, a_event_type = ev, a_actor_id = actor, a_from_status = from,
      a_to_status = to, a_note = note, a_created_at = now\<rparr>"

definition contract_by_slug :: "string \<Rightarrow> db \<Rightarrow> debt_contract option res" where
  "contract_by_slug slug s = scalar_one_or_none (filter (\<lambda>c. c_slug c = slug) (t_contracts s))"

definition newest_first :: "debt_contract list \<Rightarrow> debt_contract list" where
  "newest_first cs = sort_key (\<lambda>c. - c_created_at c) cs"

definition contracts_for_sub :: "uuid \<Rightarrow> db \<Rightarrow> debt_contract list" where
  "contracts_for_sub sid s = newest_first (filter (\<lambda>c. c_sub_id c = sid) (t_contracts s))"

definition contracts_for_goddess :: "uuid \<Rightarrow> db \<Rightarrow> debt_contract list" where
  "contracts_for_goddess gid s = newest_first (filter (\<lambda>c. c_goddess_id c = gid) (t_contracts s))"

definition contracts_for_goddess_filtered ::
  "uuid \<Rightarrow> contract_status list option \<Rightarrow> uuid option \<Rightarrow> rat option \<Rightarrow> rat option \<Rightarrow> db \<Rightarrow>
   debt_contract list" where
  "contracts_for_goddess_filtered gid statuses sid min_amount max_amount s =
     newest_first (filter (\<lambda>c. c_goddess_id c = gid \<and>
       (case statuses of None \<Rightarrow> True | Some ss \<Rightarrow> c_status c \<in> set ss) \<and>
       (case sid of None \<Rightarrow> True | Some i \<Rightarrow> c_sub_id c = i) \<and>
       (case min_amount of None \<Rightarrow> True | Some a \<Rightarrow> a \<le> principal c) \<and>
       (case max_amount of None \<Rightarrow> True | Some a \<Rightarrow> principal c \<le> a)) (t_contracts s))"

definition active_contracts_for_sub :: "uuid \<Rightarrow> db \<Rightarrow> debt_contract list" where
  "active_contracts_for_sub sid s =
     newest_first (filter (\<lambda>c. c_sub_id c = sid \<and> c_status c = CS_active) (t_contracts s))"

definition active_contracts_for_goddess :: "uuid \<Rightarrow> db \<Rightarrow> debt_contract list" where
  "active_contracts_for_goddess gid s =
     filter (\<lambda>c. c_goddess_id c = gid \<and> c_status c = CS_active) (t_contracts s)"

definition count_contracts_by_status :: "uuid \<Rightarrow> contract_status \<Rightarrow> db \<Rightarrow> nat" where
  "count_contracts_by_status gid st s =
     length (filter (\<lambda>c. c_goddess_id c = gid \<and> c_status c = st) (t_contracts s))"

definition versions_for_contract :: "uuid \<Rightarrow> db \<Rightarrow> contract_version list" where
  "versions_for_contract cid s = sort_key v_round_no (filter (\<lambda>v. v_contract_id v = cid) (t_versions s))"

definition audits_for_contract :: "uuid \<Rightarrow> db \<Rightarrow> contract_audit list" where
  "audits_for_contract cid s =
     sort_key a_created_at (filter (\<lambda>a. a_contract_id a = cid) (t_audits s))"

section \<open>The response\<close>

definition compute_payment_stats ::
  "zone \<Rightarrow> datetime \<Rightarrow> debt_contract \<Rightarrow> contract_payment_stats \<Rightarrow> rat \<times> rat \<times> rat \<times> rat \<times> bool" where
  "compute_payment_stats z now c st =
     (let total_paid = st_total_paid st;
          total_due = quantize_even 2 (ctx (minimum_payment c * of_int (duration_periods c)));
          remaining = quantize_even 2 (max 0 (ctx (total_due - total_paid)));
          progress_pct =
            (if total_due > 0
             then let raw_pct = quantize_even 1 (ctx (ctx (total_paid / total_due) * 100))
                  in min 100 (max 0 raw_pct)
             else 100);
          elapsed = current_period_index z c now;
          expected = quantize_even 2 (ctx (minimum_payment c * of_int elapsed));
          on_track = (c_signed_at c = None \<or> total_paid \<ge> expected)
      in (total_paid, total_due, remaining, progress_pct, on_track))"

text \<open>
  The response: the contract's columns, the terms of its current version, the payment
  statistics and the parsed clauses.
\<close>

record contract_view =
  vw_contract :: debt_contract
  vw_version :: "contract_version option"
  vw_total_paid :: rat
  vw_total_due :: rat
  vw_remaining :: rat
  vw_progress_pct :: rat
  vw_payment_count :: nat
  vw_last_payment_at :: "datetime option"
  vw_first_payment_at :: "datetime option"
  vw_on_track :: bool
  vw_clauses :: "clause list"

definition contract_out ::
  "zone \<Rightarrow> datetime \<Rightarrow> debt_contract \<Rightarrow> contract_version option \<Rightarrow> contract_payment_stats \<Rightarrow>
   contract_view" where
  "contract_out z now c ver st =
     (let (total_paid, total_due, remaining, progress_pct, on_track) = compute_payment_stats z now c st
      in \<lparr>vw_contract = c, vw_version = ver, vw_total_paid = total_paid, vw_total_due = total_due,
          vw_remaining = remaining, vw_progress_pct = progress_pct,
          vw_payment_count = st_payment_count st, vw_last_payment_at = st_last_payment_at st,
          vw_first_payment_at = st_first_payment_at st, vw_on_track = on_track,
          vw_clauses = clauses_out (c_clauses_json c)\<rparr>)"

definition load_current_version :: "debt_contract \<Rightarrow> db \<Rightarrow> contract_version option" where
  "load_current_version c s =
     (case c_current_version_id c of None \<Rightarrow> None | Some v \<Rightarrow> fetch v_id v (t_versions s))"

definition contract_reply ::
  "zone \<Rightarrow> datetime \<Rightarrow> debt_contract \<Rightarrow> contract_version option \<Rightarrow> db \<Rightarrow> contract_view" where
  "contract_reply z now c ver s = contract_out z now c ver (stats_for_contract (c_id c) s)"

definition contract_or_404 :: "uuid \<Rightarrow> db \<Rightarrow> debt_contract res" where
  "contract_or_404 cid s =
     require (fetch c_id cid (t_contracts s)) (NotFound ''debt contract not found'') Inr"

section \<open>Applying terms\<close>

definition apply_payload_to_contract :: "terms \<Rightarrow> debt_contract \<Rightarrow> debt_contract" where
  "apply_payload_to_contract p c = c\<lparr>principal := principal p, interest_rate := interest_rate p,
     interest_period := interest_period p, duration_periods := duration_periods p,
     payment_frequency := payment_frequency p, minimum_payment := minimum_payment p,
     late_penalty_severity := late_penalty_severity p,
     late_penalty_percent := late_penalty_percent p,
     dom_can_add_surprise_penalty := dom_can_add_surprise_penalty p,
     mid_contract_addition_mode := mid_contract_addition_mode p, exit_amount := exit_amount p\<rparr>"

definition apply_version_to_contract :: "contract_version \<Rightarrow> debt_contract \<Rightarrow> debt_contract" where
  "apply_version_to_contract v c = c\<lparr>principal := principal v, interest_rate := interest_rate v,
     interest_period := interest_period v, duration_periods := duration_periods v,
     payment_frequency := payment_frequency v, minimum_payment := minimum_payment v,
     late_penalty_severity := late_penalty_severity v,
     late_penalty_percent := late_penalty_percent v,
     dom_can_add_surprise_penalty := dom_can_add_surprise_penalty v,
     mid_contract_addition_mode := mid_contract_addition_mode v, exit_amount := exit_amount v\<rparr>"

definition new_contract ::
  "uuid \<Rightarrow> string \<Rightarrow> datetime \<Rightarrow> uuid \<Rightarrow> uuid \<Rightarrow> bool \<Rightarrow> contract_status \<Rightarrow> terms \<Rightarrow> debt_contract" where
  "new_contract cid slug now sid gid sub_initiated st p =
     terms.extend p
       \<lparr>c_id = cid, c_slug = slug, c_sub_id = sid, c_goddess_id = gid,
        c_sub_initiated = sub_initiated, c_status = st, c_current_version_id = None,
        c_signature_b64 = None, c_signed_at = None, c_balance = principal p,
        c_clauses_json = [], c_review_at = None, c_renewal_policy = RP_none,
        c_created_at = now, c_updated_at = now\<rparr>"

definition new_version :: "uuid \<Rightarrow> datetime \<Rightarrow> uuid \<Rightarrow> int \<Rightarrow> uuid \<Rightarrow> terms \<Rightarrow> contract_version" where
  "new_version vid now cid round_no by_user p =
     terms.extend p
       \<lparr>v_id = vid, v_contract_id = cid, v_round_no = round_no, v_proposed_by = by_user,
        v_proposed_at = now\<rparr>"

lemma new_contract_simps [simp]:
  "c_id (new_contract i sl t u g b st p) = i"
  "c_slug (new_contract i sl t u g b st p) = sl"
  "c_sub_id (new_contract i sl t u g b st p) = u"
  "c_goddess_id (new_contract i sl t u g b st p) = g"
  "c_status (new_contract i sl t u g b st p) = st"
  "c_signed_at (new_contract i sl t u g b st p) = None"
  "c_balance (new_contract i sl t u g b st p) = principal p"
  "principal (new_contract i sl t u g b st p) = principal p"
  "c_current_version_id (new_contract i sl t u g b st p) = None"
  "c_clauses_json (new_contract i sl t u g b st p) = []"
  by (simp_all add: new_contract_def terms.defs)

lemma new_version_simps [simp]:
  "v_id (new_version i t c n u p) = i"
  "v_contract_id (new_version i t c n u p) = c"
  "v_round_no (new_version i t c n u p) = n"
  "v_proposed_by (new_version i t c n u p) = u"
  "principal (new_version i t c n u p) = principal p"
  by (simp_all add: new_version_def terms.defs)

end
