(* ===== verification/Negotiation.thy ===== *)
theory Negotiation
  imports Contracts
begin

text \<open>
  The life of a contract up to its signature (\<^verbatim>\<open>controllers/debt/controller.py\<close>): proposal by
  either side, one counter-proposal, its acceptance or rejection, the signature, cancellation,
  and the change of clauses, which asks an active contract to be signed again.
\<close>

definition pending_statuses :: "contract_status list" where
  "pending_statuses = [CS_pending_sub, CS_pending_dom, CS_pending_dom_counter, CS_pending_sub_signature]"

definition terminal_statuses :: "contract_status list" where
  "terminal_statuses = [CS_closed, CS_breached, CS_completed, CS_cancelled_by_dom]"

section \<open>Proposals\<close>

definition propose_as_goddess ::
  "zone \<Rightarrow> datetime \<Rightarrow> uuid \<Rightarrow> uuid \<Rightarrow> string \<Rightarrow> user \<Rightarrow> uuid \<Rightarrow> terms \<Rightarrow> db \<Rightarrow> (db \<times> contract_view) res" where
  "propose_as_goddess z now cid vid slug goddess_user sub_id payload s =
     attempt (resolve_goddess_id (u_id goddess_user) s) (\<lambda>goddess_id.
     attempt (assert_sub_belongs_to_goddess goddess_id sub_id s) (\<lambda>_.
     let contract = new_contract cid slug now sub_id goddess_id False CS_pending_sub payload in
     attempt (create_contract contract s) (\<lambda>s1.
     let version = new_version vid now cid 0 (u_id goddess_user) payload in
     attempt (create_version version s1) (\<lambda>s2.
     let s3 = save_contract cid (\<lambda>c. c\<lparr>c_current_version_id := Some vid, c_updated_at := now\<rparr>) s2;
         s4 = append_audit (audit_row now cid AE_proposed (u_id goddess_user) None (Some CS_pending_sub) None) s3;
         s5 = notify sub_id NT_contract_proposed (Some cid) None s4
     in Inr (s5, contract_reply z now (contract\<lparr>c_current_version_id := Some vid\<rparr>) (Some version) s5)))))"

definition propose_as_sub ::
  "zone \<Rightarrow> datetime \<Rightarrow> uuid \<Rightarrow> uuid \<Rightarrow> string \<Rightarrow> user \<Rightarrow> terms \<Rightarrow> db \<Rightarrow> (db \<times> contract_view) res" where
  "propose_as_sub z now cid vid slug sub_user payload s =
     require (u_goddess_id sub_user) (BadRequest ''sub is not linked to a goddess'') (\<lambda>goddess_id.
     let contract = new_contract cid slug now (u_id sub_user) goddess_id True CS_pending_dom payload in
     attempt (create_contract contract s) (\<lambda>s1.
     let version = new_version vid now cid 0 (u_id sub_user) payload in
     attempt (create_version version s1) (\<lambda>s2.
     let s3 = save_contract cid (\<lambda>c. c\<lparr>c_current_version_id := Some vid, c_updated_at := now\<rparr>) s2;
         s4 = append_audit (audit_row now cid AE_proposed (u_id sub_user) None (Some CS_pending_dom) None) s3
     in attempt (resolve_goddess_user_id goddess_id s4) (\<lambda>goddess_user_id.
     let s5 = notify_opt goddess_user_id NT_contract_proposed (Some cid) None s4
     in Inr (s5, contract_reply z now (contract\<lparr>c_current_version_id := Some vid\<rparr>) (Some version) s5)))))"

text \<open>Who may counter, in which status, and the status it leads to.\<close>

definition counter_target :: "user \<Rightarrow> debt_contract \<Rightarrow> db \<Rightarrow> contract_status res" where
  "counter_target actor c s =
     (case u_role actor of
        R_sub \<Rightarrow>
          raise_if (c_sub_id c \<noteq> u_id actor) (Forbidden ''contract does not belong to this sub'') (
          raise_if (c_status c \<noteq> CS_pending_sub)
            (Conflict ''sub can only counter-propose when status is pending_sub'') (
          Inr CS_pending_dom_counter))
      | R_goddess \<Rightarrow>
          attempt (resolve_goddess_id (u_id actor) s) (\<lambda>goddess_id.
          raise_if (c_goddess_id c \<noteq> goddess_id) (Forbidden ''contract does not belong to this goddess'') (
          raise_if (c_status c \<noteq> CS_pending_dom)
            (Conflict ''goddess can only counter-propose when status is pending_dom'') (
          Inr CS_pending_sub_signature)))
      | _ \<Rightarrow> Inl (Forbidden ''only sub or goddess users may counter-propose''))"

definition countered ::
  "datetime \<Rightarrow> uuid \<Rightarrow> contract_status \<Rightarrow> terms \<Rightarrow> debt_contract \<Rightarrow> debt_contract" where
  "countered now vid to_status payload c =
     (apply_payload_to_contract payload c)\<lparr>c_balance := principal payload,
        c_current_version_id := Some vid, c_status := to_status, c_updated_at := now\<rparr>"

definition counter_propose ::
  "zone \<Rightarrow> datetime \<Rightarrow> uuid \<Rightarrow> user \<Rightarrow> uuid \<Rightarrow> terms \<Rightarrow> db \<Rightarrow> (db \<times> contract_view) res" where
  "counter_propose z now vid actor cid payload s =
     attempt (contract_or_404 cid s) (\<lambda>contract.
     raise_if (list_ex (\<lambda>v. v_round_no v \<ge> 1) (versions_for_contract cid s))
       (Conflict ''negotiation limit reached - one counter per side'') (
     attempt (counter_target actor contract s) (\<lambda>to_status.
     let version = new_version vid now cid 1 (u_id actor) payload in
     attempt (create_version version s) (\<lambda>s1.
     let contract' = countered now vid to_status payload contract;
         s2 = save_contract cid (\<lambda>c. store_contract (countered now vid to_status payload c)) s1;
         s3 = append_audit (audit_row now cid AE_countered (u_id actor) (Some (c_status contract)) (Some to_status) None) s2
     in attempt (if u_role actor = R_sub then resolve_goddess_user_id (c_goddess_id contract) s3
                 else Inr (Some (c_sub_id contract))) (\<lambda>counter_party_id.
     let s4 = notify_opt counter_party_id NT_contract_countered (Some cid) None s3
     in Inr (s4, contract_reply z now contract' (Some version) s4))))))"

definition owned_contract :: "user \<Rightarrow> uuid \<Rightarrow> db \<Rightarrow> debt_contract res" where
  "owned_contract goddess_user cid s =
     attempt (contract_or_404 cid s) (\<lambda>contract.
     attempt (resolve_goddess_id (u_id goddess_user) s) (\<lambda>goddess_id.
     raise_if (c_goddess_id contract \<noteq> goddess_id) (Forbidden ''contract does not belong to this goddess'')
       (Inr contract)))"

definition accept_counter ::
  "zone \<Rightarrow> datetime \<Rightarrow> user \<Rightarrow> uuid \<Rightarrow> db \<Rightarrow> (db \<times> contract_view) res" where
  "accept_counter z now goddess_user cid s =
     attempt (owned_contract goddess_user cid s) (\<lambda>contract.
     raise_if (c_status contract \<noteq> CS_pending_dom_counter)
       (Conflict ''accept_counter only valid when status is pending_dom_counter'') (
     let f = (\<lambda>c. c\<lparr>c_status := CS_pending_sub_signature, c_updated_at := now\<rparr>);
         s1 = save_contract cid f s;
         current_version = load_current_version contract s1;
         s2 = append_audit (audit_row now cid AE_accepted_counter (u_id goddess_user)
                (Some (c_status contract)) (Some CS_pending_sub_signature) None) s1;
         s3 = notify (c_sub_id contract) NT_contract_counter_accepted (Some cid) None s2
     in Inr (s3, contract_reply z now (f contract) current_version s3)))"

definition restored :: "datetime \<Rightarrow> contract_version \<Rightarrow> debt_contract \<Rightarrow> debt_contract" where
  "restored now original c =
     (apply_version_to_contract original c)\<lparr>c_balance := principal original,
        c_current_version_id := Some (v_id original), c_status := CS_pending_sub_signature,
        c_updated_at := now\<rparr>"

definition reject_counter ::
  "zone \<Rightarrow> datetime \<Rightarrow> user \<Rightarrow> uuid \<Rightarrow> db \<Rightarrow> (db \<times> contract_view) res" where
  "reject_counter z now goddess_user cid s =
     attempt (owned_contract goddess_user cid s) (\<lambda>contract.
     raise_if (c_status contract \<noteq> CS_pending_dom_counter)
       (Conflict ''reject_counter only valid when status is pending_dom_counter'') (
     require (find (\<lambda>v. v_round_no v = 0) (versions_for_contract cid s))
       (NotFound ''original version (round 0) not found'') (\<lambda>original.
     let s1 = save_contract cid (restored now original) s;
         s2 = append_audit (audit_row now cid AE_rejected_counter (u_id goddess_user)
                (Some (c_status contract)) (Some CS_pending_sub_signature) None) s1;
         s3 = notify (c_sub_id contract) NT_contract_counter_rejected (Some cid) None s2
     in Inr (s3, contract_reply z now (restored now original contract) (Some original) s3))))"

section \<open>Signature and cancellation\<close>

definition sign_as_sub ::
  "zone \<Rightarrow> datetime \<Rightarrow> user \<Rightarrow> uuid \<Rightarrow> string \<Rightarrow> db \<Rightarrow> (db \<times> contract_view) res" where
  "sign_as_sub z now sub_user cid signature_b64 s =
     attempt (contract_or_404 cid s) (\<lambda>contract.
     raise_if (c_sub_id contract \<noteq> u_id sub_user) (Forbidden ''contract does not belong to this sub'') (
     raise_if (c_status contract \<notin> {CS_pending_sub, CS_pending_sub_signature})
       (Conflict ''contract is not in a signable state'') (
     let f = (\<lambda>c. c\<lparr>c_status := CS_active, c_signed_at := Some now,
                      c_signature_b64 := Some signature_b64, c_updated_at := now\<rparr>);
         s1 = save_contract cid f s;
         current_version = load_current_version contract s1;
         s2 = append_audit (audit_row now cid AE_signed (u_id sub_user) (Some (c_status contract)) (Some CS_active) None) s1
     in attempt (resolve_goddess_user_id (c_goddess_id contract) s2) (\<lambda>goddess_user_id.
     let s3 = notify_opt goddess_user_id NT_contract_signed (Some cid) None s2;
         s4 = publish_opt goddess_user_id ''contract_state_change'' (Some cid) s3;
         s5 = publish_event (u_id sub_user) ''contract_state_change'' (Some cid) s4
     in Inr (s5, contract_reply z now (f contract) current_version s5)))))"

definition close_as_goddess ::
  "zone \<Rightarrow> datetime \<Rightarrow> user \<Rightarrow> uuid \<Rightarrow> db \<Rightarrow> (db \<times> contract_view) res" where
  "close_as_goddess z now goddess_user cid s =
     attempt (owned_contract goddess_user cid s) (\<lambda>contract.
     raise_if (c_status contract \<notin> set pending_statuses)
       (Conflict ''only pending contracts can be closed by the goddess'') (
     let f = (\<lambda>c. c\<lparr>c_status := CS_cancelled_by_dom, c_updated_at := now\<rparr>);
         s1 = save_contract cid f s;
         s2 = append_audit (audit_row now cid AE_cancelled (u_id goddess_user)
                (Some (c_status contract)) (Some CS_cancelled_by_dom) None) s1
     in Inr (s2, contract_reply z now (f contract) (load_current_version contract s1) s2)))"

section \<open>Clauses\<close>

definition with_clauses :: "datetime \<Rightarrow> clause list \<Rightarrow> bool \<Rightarrow> debt_contract \<Rightarrow> debt_contract" where
  "with_clauses now normalized trigger_resign c =
     (let c1 = c\<lparr>c_clauses_json := map store_clause normalized, c_updated_at := now\<rparr>
      in if trigger_resign
         then c1\<lparr>c_status := CS_pending_sub_signature, c_signed_at := None, c_signature_b64 := None\<rparr>
         else c1)"

definition update_clauses ::
  "zone \<Rightarrow> datetime \<Rightarrow> (int \<Rightarrow> uuid) \<Rightarrow> user \<Rightarrow> uuid \<Rightarrow> clause_in list \<Rightarrow> db \<Rightarrow> (db \<times> contract_view) res" where
  "update_clauses z now fresh goddess_user cid clauses s =
     attempt (owned_contract goddess_user cid s) (\<lambda>contract.
     raise_if (c_status contract \<in> set terminal_statuses)
       (Conflict ''clauses cannot be edited on a terminal contract'') (
     let normalized = normalize_clauses fresh clauses;
         existing = stored_clauses_signature (c_clauses_json contract);
         incoming = normalized_clauses_signature normalized;
         clauses_changed = (existing \<noteq> incoming);
         trigger_resign = (clauses_changed \<and> c_status contract = CS_active);
         f = with_clauses now normalized trigger_resign;
         s1 = save_contract cid f s;
         s2 = (if clauses_changed
               then append_audit (audit_row now cid AE_clauses_changed (u_id goddess_user)
                      (Some (c_status contract)) (Some (c_status (f contract))) None) s1
               else s1);
         s3 = (if trigger_resign
               then notify (c_sub_id contract) NT_contract_needs_resignature (Some cid) None s2 else s2)
     in Inr (s3, contract_reply z now (f contract) (load_current_version contract s3) s3)))"

section \<open>Reads\<close>

definition assert_viewer_can_see :: "user \<Rightarrow> debt_contract \<Rightarrow> db \<Rightarrow> unit res" where
  "assert_viewer_can_see viewer c s =
     (case u_role viewer of
        R_sub \<Rightarrow> raise_if (c_sub_id c \<noteq> u_id viewer) (Forbidden ''contract does not belong to this sub'') (Inr ())
      | R_goddess \<Rightarrow>
          attempt (resolve_goddess_id (u_id viewer) s) (\<lambda>goddess_id.
          raise_if (c_goddess_id c \<noteq> goddess_id) (Forbidden ''contract does not belong to this goddess'') (Inr ()))
      | R_admin \<Rightarrow> Inl (Forbidden ''only sub or goddess users may view contracts''))"

definition get_contract :: "zone \<Rightarrow> datetime \<Rightarrow> user \<Rightarrow> uuid \<Rightarrow> db \<Rightarrow> contract_view res" where
  "get_contract z now viewer cid s =
     attempt (contract_or_404 cid s) (\<lambda>contract.
     attempt (assert_viewer_can_see viewer contract s) (\<lambda>_.
     Inr (contract_reply z now contract (load_current_version contract s) s)))"

definition owned_contract_by_slug :: "user \<Rightarrow> string \<Rightarrow> db \<Rightarrow> debt_contract res" where
  "owned_contract_by_slug goddess_user slug s =
     attempt (contract_by_slug slug s) (\<lambda>r.
     require r (NotFound ''debt contract not found'') (\<lambda>contract.
     attempt (resolve_goddess_id (u_id goddess_user) s) (\<lambda>goddess_id.
     raise_if (c_goddess_id contract \<noteq> goddess_id) (Forbidden ''contract does not belong to this goddess'')
       (Inr contract))))"

definition get_by_slug_as_goddess :: "zone \<Rightarrow> datetime \<Rightarrow> user \<Rightarrow> string \<Rightarrow> db \<Rightarrow> contract_view res" where
  "get_by_slug_as_goddess z now goddess_user slug s =
     attempt (owned_contract_by_slug goddess_user slug s) (\<lambda>contract.
     Inr (contract_reply z now contract (load_current_version contract s) s))"

definition get_by_slug_as_sub :: "zone \<Rightarrow> datetime \<Rightarrow> user \<Rightarrow> string \<Rightarrow> db \<Rightarrow> contract_view res" where
  "get_by_slug_as_sub z now sub_user slug s =
     attempt (contract_by_slug slug s) (\<lambda>r.
     require r (NotFound ''debt contract not found'') (\<lambda>contract.
     raise_if (c_sub_id contract \<noteq> u_id sub_user) (Forbidden ''contract does not belong to this sub'') (
     Inr (contract_reply z now contract (load_current_version contract s) s))))"

definition list_for_viewer ::
  "zone \<Rightarrow> datetime \<Rightarrow> user \<Rightarrow> contract_status list option \<Rightarrow> uuid option \<Rightarrow> rat option \<Rightarrow> rat option \<Rightarrow>
   db \<Rightarrow> contract_view list res" where
  "list_for_viewer z now viewer statuses sid min_amount max_amount s =
     attempt (if u_role viewer = R_sub then Inr (contracts_for_sub (u_id viewer) s)
              else attempt (resolve_goddess_id (u_id viewer) s) (\<lambda>goddess_id.
                   Inr (contracts_for_goddess_filtered goddess_id statuses sid min_amount max_amount s)))
       (\<lambda>contracts. Inr (map (\<lambda>c. contract_reply z now c (load_current_version c s) s) contracts))"

definition name_parts :: "user \<Rightarrow> string list" where
  "name_parts u = List.map_filter (\<lambda>p. case p of Some n \<Rightarrow> if n = [] then None else Some n | None \<Rightarrow> None)
     [u_first_name u, u_last_name u]"

fun join_space :: "string list \<Rightarrow> string" where
  "join_space [] = []"
| "join_space [p] = p"
| "join_space (p # ps) = p @ '' '' @ join_space ps"

definition actor_display_name :: "user option \<Rightarrow> string" where
  "actor_display_name v = (case v of
      None \<Rightarrow> ''unknown''
    | Some u \<Rightarrow> if name_parts u \<noteq> [] then join_space (name_parts u)
                else if u_username u \<noteq> [] then u_username u else ''unknown'')"

definition list_audit :: "user \<Rightarrow> uuid \<Rightarrow> db \<Rightarrow> (contract_audit \<times> string) list res" where
  "list_audit viewer cid s =
     attempt (contract_or_404 cid s) (\<lambda>contract.
     attempt (assert_viewer_can_see viewer contract s) (\<lambda>_.
     Inr (map (\<lambda>a. (a, actor_display_name (user_by_id (a_actor_id a) s))) (audits_for_contract cid s))))"

end
