(* ===== verification/Additions.thy ===== *)
theory Additions
  imports Negotiation
begin

text \<open>
  What a goddess adds to an active contract (\<^verbatim>\<open>controllers/debt/controller.py\<close>): surprise
  penalties, balance adjustments with or without the sub's approval, and the buyout offer and
  previews, with \<^verbatim>\<open>daos/adjustment_dao.py\<close>.
\<close>

section \<open>Adjustment rows\<close>

definition create_adjustment_row :: "contract_adjustment \<Rightarrow> db \<Rightarrow> db res" where
  "create_adjustment_row a s =
     raise_if (\<bar>numeric_column 2 (j_amount a)\<bar> \<ge> 10 ^ 10) (DataError ''contract_adjustment.amount'') (
     Inr (s\<lparr>t_adjustments := insert_row (a\<lparr>j_amount := numeric_column 2 (j_amount a)\<rparr>) (t_adjustments s)\<rparr>))"

definition save_adjustment :: "uuid \<Rightarrow> (contract_adjustment \<Rightarrow> contract_adjustment) \<Rightarrow> db \<Rightarrow> db" where
  "save_adjustment jid f s = s\<lparr>t_adjustments := modify j_id jid f (t_adjustments s)\<rparr>"

definition pending_adjustments_for_sub :: "uuid \<Rightarrow> db \<Rightarrow> contract_adjustment list" where
  "pending_adjustments_for_sub sid s =
     sort_key (\<lambda>a. - j_created_at a)
       (filter (\<lambda>a. j_status a = AS_pending_sub_approval \<and>
          list_ex (\<lambda>c. c_id c = j_contract_id a \<and> c_sub_id c = sid) (t_contracts s)) (t_adjustments s))"

definition count_pending_adjustments :: "uuid \<Rightarrow> db \<Rightarrow> nat" where
  "count_pending_adjustments sid s = length (pending_adjustments_for_sub sid s)"

definition emit_adjustment_event ::
  "uuid \<Rightarrow> datetime \<Rightarrow> uuid \<Rightarrow> rat \<Rightarrow> string option \<Rightarrow> db \<Rightarrow> db res" where
  "emit_adjustment_event eid now cid amount reason s =
     attempt (apply_event_and_recompute (new_event eid now cid ET_adjustment amount None reason) s)
       (\<lambda>(s1, _). Inr s1)"

section \<open>Surprise penalties\<close>

definition surprise_penalty ::
  "zone \<Rightarrow> datetime \<Rightarrow> uuid \<Rightarrow> user \<Rightarrow> uuid \<Rightarrow> rat \<Rightarrow> string option \<Rightarrow> db \<Rightarrow> (db \<times> contract_view) res" where
  "surprise_penalty z now eid goddess_user cid amount reason s =
     attempt (owned_contract goddess_user cid s) (\<lambda>contract.
     raise_if (\<not> dom_can_add_surprise_penalty contract)
       (Forbidden ''surprise penalty not enabled on this contract'') (
     raise_if (c_status contract \<noteq> CS_active)
       (Conflict ''surprise penalty only allowed on active contracts'') (
     attempt (apply_event_and_recompute (new_event eid now cid ET_surprise_penalty amount None reason) s)
       (\<lambda>(s1, balance).
     let s2 = save_contract cid (\<lambda>c. c\<lparr>c_updated_at := now\<rparr>) s1;
         contract' = contract\<lparr>c_balance := balance, c_updated_at := now\<rparr>;
         s3 = notify (c_sub_id contract) NT_contract_surprise_penalty (Some cid) None s2
     in Inr (s3, contract_reply z now contract' (load_current_version contract' s3) s3)))))"

record penalty_preview =
  pv_contract_slug :: string
  pv_current_outstanding :: rat
  pv_delta :: rat
  pv_new_outstanding :: rat

definition surprise_penalty_preview :: "user \<Rightarrow> string \<Rightarrow> rat \<Rightarrow> db \<Rightarrow> penalty_preview res" where
  "surprise_penalty_preview goddess_user slug amount_gbp s =
     attempt (owned_contract_by_slug goddess_user slug s) (\<lambda>contract.
     raise_if (\<not> dom_can_add_surprise_penalty contract)
       (Forbidden ''surprise penalty not enabled on this contract'') (
     raise_if (c_status contract \<noteq> CS_active)
       (Conflict ''surprise penalty only allowed on active contracts'') (
     Inr \<lparr>pv_contract_slug = c_slug contract, pv_current_outstanding = c_balance contract,
          pv_delta = amount_gbp, pv_new_outstanding = ctx (c_balance contract + amount_gbp)\<rparr>)))"

definition surprise_penalty_by_slug ::
  "zone \<Rightarrow> datetime \<Rightarrow> uuid \<Rightarrow> uuid \<Rightarrow> user \<Rightarrow> string \<Rightarrow> rat \<Rightarrow> string \<Rightarrow> datetime \<Rightarrow> db \<Rightarrow>
   (db \<times> contract_view) res" where
  "surprise_penalty_by_slug z now eid jid goddess_user slug amount_gbp reason confirmed_at s =
     attempt (owned_contract_by_slug goddess_user slug s) (\<lambda>contract.
     raise_if (\<not> dom_can_add_surprise_penalty contract)
       (Forbidden ''surprise penalty not enabled on this contract'') (
     raise_if (c_status contract \<noteq> CS_active)
       (Conflict ''surprise penalty only allowed on active contracts'') (
     let cid = c_id contract in
     attempt (apply_event_and_recompute (new_event eid now cid ET_surprise_penalty amount_gbp None (Some reason)) s)
       (\<lambda>(s1, balance).
     attempt (create_adjustment_row
        \<lparr>j_id = jid, j_contract_id = cid, j_proposed_by = u_id goddess_user,
         j_kind = Some AK_surprise_penalty, j_amount = amount_gbp, j_reason = Some reason,
         j_status = AS_applied, j_created_at = confirmed_at, j_updated_at = now,
         j_resolved_at = Some now\<rparr> s1) (\<lambda>s2.
     let s3 = append_audit (audit_row now cid AE_surprise_penalty (u_id goddess_user)
                (Some (c_status contract)) (Some (c_status contract)) (Some (NoteText reason))) s2;
         s4 = save_contract cid (\<lambda>c. c\<lparr>c_updated_at := now\<rparr>) s3;
         contract' = contract\<lparr>c_balance := balance, c_updated_at := now\<rparr>;
         s5 = notify (c_sub_id contract) NT_contract_surprise_penalty (Some cid) None s4
     in Inr (s5, contract_reply z now contract' (load_current_version contract' s4) s5))))))"

section \<open>Adjustments\<close>

definition create_adjustment ::
  "datetime \<Rightarrow> uuid \<Rightarrow> uuid \<Rightarrow> user \<Rightarrow> uuid \<Rightarrow> rat \<Rightarrow> string option \<Rightarrow> db \<Rightarrow>
   (db \<times> contract_adjustment) res" where
  "create_adjustment now jid eid goddess_user cid amount reason s =
     attempt (owned_contract goddess_user cid s) (\<lambda>contract.
     raise_if (c_status contract \<noteq> CS_active) (Conflict ''adjustments only allowed on active contracts'') (
     let mode = mid_contract_addition_mode contract in
     raise_if (mode = MM_disabled) (Forbidden ''mid-contract additions disabled on this contract'') (
     let status = (if mode = MM_dom_controlled then AS_applied else AS_pending_sub_approval);
         adjustment = \<lparr>j_id = jid, j_contract_id = cid, j_proposed_by = u_id goddess_user,
           j_kind = None, j_amount = amount, j_reason = reason, j_status = status,
           j_created_at = now, j_updated_at = now,
           j_resolved_at = (if status = AS_applied then Some now else None)\<rparr>
     in attempt (create_adjustment_row adjustment s) (\<lambda>s1.
     attempt (if status = AS_applied then emit_adjustment_event eid now cid amount reason s1
              else Inr (notify (c_sub_id contract) NT_contract_adjustment_proposed (Some cid) None s1))
       (\<lambda>s2. Inr (s2, adjustment))))))"

text \<open>The checks both answers of the sub share.\<close>

definition pending_adjustment_of :: "user \<Rightarrow> uuid \<Rightarrow> db \<Rightarrow> (contract_adjustment \<times> debt_contract) res" where
  "pending_adjustment_of sub_user jid s =
     require (fetch j_id jid (t_adjustments s)) (NotFound ''adjustment not found'') (\<lambda>adjustment.
     attempt (contract_or_404 (j_contract_id adjustment) s) (\<lambda>contract.
     raise_if (c_sub_id contract \<noteq> u_id sub_user) (Forbidden ''adjustment does not belong to this sub'') (
     raise_if (j_status adjustment \<noteq> AS_pending_sub_approval)
       (Conflict ''adjustment is not pending sub approval'') (
     Inr (adjustment, contract)))))"

definition resolved :: "adjustment_status \<Rightarrow> datetime \<Rightarrow> contract_adjustment \<Rightarrow> contract_adjustment" where
  "resolved st now a = a\<lparr>j_status := st, j_updated_at := now, j_resolved_at := Some now\<rparr>"

definition accept_adjustment ::
  "datetime \<Rightarrow> uuid \<Rightarrow> user \<Rightarrow> uuid \<Rightarrow> db \<Rightarrow> (db \<times> contract_adjustment) res" where
  "accept_adjustment now eid sub_user jid s =
     attempt (pending_adjustment_of sub_user jid s) (\<lambda>(adjustment, contract).
     let s1 = save_adjustment jid (resolved AS_accepted now) s in
     attempt (emit_adjustment_event eid now (c_id contract) (j_amount adjustment) (j_reason adjustment) s1) (\<lambda>s2.
     attempt (resolve_goddess_user_id (c_goddess_id contract) s2) (\<lambda>goddess_user_id.
     Inr (notify_opt goddess_user_id NT_contract_adjustment_accepted (Some (c_id contract)) None s2,
          resolved AS_accepted now adjustment))))"

definition refuse_adjustment ::
  "datetime \<Rightarrow> user \<Rightarrow> uuid \<Rightarrow> db \<Rightarrow> (db \<times> contract_adjustment) res" where
  "refuse_adjustment now sub_user jid s =
     attempt (pending_adjustment_of sub_user jid s) (\<lambda>(adjustment, contract).
     let s1 = save_adjustment jid (resolved AS_refused now) s in
     attempt (resolve_goddess_user_id (c_goddess_id contract) s1) (\<lambda>goddess_user_id.
     Inr (notify_opt goddess_user_id NT_contract_adjustment_refused (Some (c_id contract)) None s1,
          resolved AS_refused now adjustment)))"

definition list_pending_adjustments :: "user \<Rightarrow> db \<Rightarrow> contract_adjustment list" where
  "list_pending_adjustments sub_user s = pending_adjustments_for_sub (u_id sub_user) s"

section \<open>The buyout offer\<close>

definition buyout_intent ::
  "zone \<Rightarrow> datetime \<Rightarrow> user \<Rightarrow> uuid \<Rightarrow> db \<Rightarrow> (rat \<times> payment_method list) res" where
  "buyout_intent z now sub_user cid s =
     attempt (contract_or_404 cid s) (\<lambda>contract.
     raise_if (c_sub_id contract \<noteq> u_id sub_user) (Forbidden ''contract does not belong to this sub'') (
     raise_if (c_status contract \<noteq> CS_active) (Conflict ''buyout only available on active contracts'') (
     Inr (exit_due contract (current_period_index z contract now),
          methods_by_goddess (c_goddess_id contract) True s))))"

record buyout_preview =
  bp_contract_slug :: string
  bp_current_balance :: rat
  bp_exit_amount :: rat
  bp_payoff_delta :: rat

definition buyout_preview_by_slug :: "zone \<Rightarrow> datetime \<Rightarrow> user \<Rightarrow> string \<Rightarrow> db \<Rightarrow> buyout_preview res" where
  "buyout_preview_by_slug z now sub_user slug s =
     attempt (contract_by_slug slug s) (\<lambda>r.
     require r (NotFound ''debt contract not found'') (\<lambda>contract.
     raise_if (c_sub_id contract \<noteq> u_id sub_user) (Forbidden ''contract does not belong to this sub'') (
     raise_if (c_status contract \<noteq> CS_active) (Conflict ''buyout only available on active contracts'') (
     let exit_amount = exit_due contract (current_period_index z contract now) in
     Inr \<lparr>bp_contract_slug = c_slug contract, bp_current_balance = c_balance contract,
          bp_exit_amount = exit_amount, bp_payoff_delta = ctx (c_balance contract - exit_amount)\<rparr>))))"

end
