(* ===== verification/Machine.thy ===== *)
theory Machine
  imports Additions
begin

text \<open>
  The specification the money handlers are held to: a contract machine with four kinds of
  steps (another table changes, a contract is opened, a contract row is updated, a ledger
  event is posted), its invariant, and the status graph of a contract. The handlers of the
  components are shown to be runs of it, so the invariant and the graph hold of every state
  the program reaches.
\<close>

section \<open>The status graph\<close>

inductive contract_edge :: "contract_status \<Rightarrow> contract_status \<Rightarrow> bool" where
  counter_by_sub: "contract_edge CS_pending_sub CS_pending_dom_counter"
| counter_by_dom: "contract_edge CS_pending_dom CS_pending_sub_signature"
| counter_answered: "contract_edge CS_pending_dom_counter CS_pending_sub_signature"
| sign_proposal: "contract_edge CS_pending_sub CS_active"
| sign: "contract_edge CS_pending_sub_signature CS_active"
| resign: "contract_edge CS_active CS_pending_sub_signature"
| cancel: "st \<in> set pending_statuses \<Longrightarrow> contract_edge st CS_cancelled_by_dom"
| buyout: "contract_edge CS_active CS_closed"
| breach: "contract_edge CS_active CS_breached"

inductive_simps contract_edge_simps [simp]:
  "contract_edge CS_pending_sub st" "contract_edge CS_pending_dom st"
  "contract_edge CS_pending_dom_counter st" "contract_edge CS_pending_sub_signature st"
  "contract_edge CS_active st" "contract_edge CS_closed st" "contract_edge CS_breached st"
  "contract_edge CS_completed st" "contract_edge CS_cancelled_by_dom st"

code_pred contract_edge .

definition negotiating :: "debt_contract \<Rightarrow> bool" where
  "negotiating c \<longleftrightarrow> c_status c \<in> {CS_pending_sub, CS_pending_dom, CS_pending_dom_counter}"

definition contract_at :: "uuid \<Rightarrow> db \<Rightarrow> debt_contract option" where
  "contract_at cid s = fetch c_id cid (t_contracts s)"

definition status_at :: "db \<Rightarrow> uuid \<Rightarrow> contract_status option" where
  "status_at s cid = map_option c_status (contract_at cid s)"

definition engaged :: "uuid \<Rightarrow> db \<Rightarrow> bool" where
  "engaged cid s \<longleftrightarrow> (case contract_at cid s of None \<Rightarrow> False | Some c \<Rightarrow> \<not> negotiating c)"

section \<open>Steps\<close>

text \<open>An update that a contract row may undergo outside the ledger.\<close>

definition lawful_update :: "debt_contract \<Rightarrow> debt_contract \<Rightarrow> bool" where
  "lawful_update c c' \<longleftrightarrow>
     (c_status c' = c_status c \<or> contract_edge (c_status c) (c_status c')) \<and>
     ((c_balance c' = c_balance c \<and> principal c' = principal c) \<or>
      (negotiating c \<and> c_balance c' = principal c')) \<and>
     (c_status c' = CS_active \<longrightarrow> c_signed_at c' \<noteq> None \<or>
        (c_status c = CS_active \<and> c_signed_at c' = c_signed_at c))"

inductive contract_step :: "db \<Rightarrow> db \<Rightarrow> bool" where
  other: "\<lbrakk>t_contracts s' = t_contracts s; t_events s' = t_events s;
     \<And>j. j \<in> set (t_adjustments s') \<Longrightarrow>
       j_contract_id j \<in> j_contract_id ` set (t_adjustments s) \<or> engaged (j_contract_id j) s\<rbrakk>
   \<Longrightarrow> contract_step s s'"
| opened: "\<lbrakk>contract_at (c_id c) s = None; c_balance c = principal c;
     c_status c \<in> {CS_pending_sub, CS_pending_dom, CS_pending_sub_signature};
     t_contracts s' = insert_row c (t_contracts s); t_events s' = t_events s;
     t_adjustments s' = t_adjustments s\<rbrakk> \<Longrightarrow> contract_step s s'"
| updating: "\<lbrakk>contract_at cid s = Some c; \<And>r. c_id (f r) = c_id r; lawful_update c (f c);
     t_contracts s' = modify c_id cid f (t_contracts s); t_events s' = t_events s;
     t_adjustments s' = t_adjustments s\<rbrakk> \<Longrightarrow> contract_step s s'"
| posting: "\<lbrakk>contract_at (e_contract_id ev) s = Some c; \<not> negotiating c;
     latest_event ev (t_events s); \<not> period_bound_clash ev (t_events s);
     e_type ev = ET_payment_applied \<longrightarrow> e_period_index ev = None;
     b = replay_events (principal c) (ledger_of (e_contract_id ev) (t_events s @ [ev]));
     t_contracts s' = modify c_id (e_contract_id ev) (\<lambda>c. c\<lparr>c_balance := b\<rparr>) (t_contracts s);
     t_events s' = t_events s @ [stored_event ev]; t_adjustments s' = t_adjustments s\<rbrakk>
   \<Longrightarrow> contract_step s s'"

inductive_cases contract_stepE: "contract_step s s'"

abbreviation contract_run :: "db \<Rightarrow> db \<Rightarrow> bool" where
  "contract_run \<equiv> contract_step\<^sup>*\<^sup>*"

lemma posted_step:
  assumes "apply_event_and_recompute ev s = Inr (s', b)" "latest_event ev (t_events s)"
    and "engaged (e_contract_id ev) s"
    and "e_type ev = ET_payment_applied \<longrightarrow> e_period_index ev = None"
  shows "contract_step s s'"
proof -
  obtain c where c: "contract_at (e_contract_id ev) s = Some c" "\<not> negotiating c"
    using assms(3) by (auto simp: engaged_def split: option.splits)
  show ?thesis
    using assms(1) c assms(2,4)
    by (intro contract_step.posting [OF c assms(2) _ assms(4), of b])
      (auto simp: apply_event_eq_Inr contract_at_def)
qed

text \<open>The stamp of a new event is not before the stamps of the events on record.\<close>

definition later_stamp :: "uuid \<Rightarrow> datetime \<Rightarrow> db \<Rightarrow> bool" where
  "later_stamp eid now s \<longleftrightarrow> list_all (\<lambda>e. (e_created_at e, e_id e) \<le> (now, eid)) (t_events s)"

lemma later_stamp_latest: "later_stamp eid now s \<Longrightarrow> latest_event (new_event eid now cid ty a p n) (t_events s)"
  by (auto simp: later_stamp_def latest_event_def list_all_iff)

lemma later_stamp_cong: "t_events s' = t_events s \<Longrightarrow> later_stamp eid now s' = later_stamp eid now s"
  by (simp add: later_stamp_def)

lemma quiet_step:
  assumes "t_contracts s' = t_contracts s" "t_events s' = t_events s" "t_adjustments s' = t_adjustments s"
  shows "contract_step s s'"
  using assms by (intro contract_step.other) auto

section \<open>The status graph is respected\<close>

lemma status_at_update:
  assumes "\<And>r. c_id (f r) = c_id r" "t_contracts s' = modify c_id cid f (t_contracts s)"
  shows "contract_at k s' = (if k = cid then map_option f (contract_at k s) else contract_at k s)"
  using assms by (simp add: contract_at_def contracts.get_upd)

interpretation contract_life: lifecycle contract_step status_at contract_edge
proof
  fix s s' k x
  assume "contract_step s s'" "status_at s k = Some x"
  then show "\<exists>y. status_at s' k = Some y \<and> (y = x \<or> contract_edge x y)"
  proof (cases rule: contract_step.cases)
    case other
    then have "status_at s' k = status_at s k" by (simp add: status_at_def contract_at_def)
    then show ?thesis using \<open>status_at s k = Some x\<close> by simp
  next
    case (opened c)
    then show ?thesis using \<open>status_at s k = Some x\<close>
      by (auto simp: status_at_def contract_at_def contracts.get_add)
  next
    case (updating cid c f)
    then show ?thesis using \<open>status_at s k = Some x\<close>
      by (auto simp: status_at_def status_at_update [of f] lawful_update_def)
  next
    case (posting ev c b)
    then show ?thesis using \<open>status_at s k = Some x\<close>
      by (auto simp: status_at_def status_at_update [of "\<lambda>c. c\<lparr>c_balance := b\<rparr>"])
  qed
qed

section \<open>The invariant\<close>

definition period_unique :: "debt_event list \<Rightarrow> bool" where
  "period_unique evs \<longleftrightarrow>
     distinct (map (\<lambda>e. (e_contract_id e, e_period_index e, e_type e))
       (filter (\<lambda>e. e_period_index e \<noteq> None) evs))"

definition contract_ok :: "debt_event list \<Rightarrow> debt_contract \<Rightarrow> bool" where
  "contract_ok evs c \<longleftrightarrow> balance_agrees c evs \<and>
     (c_status c = CS_active \<longrightarrow> c_signed_at c \<noteq> None) \<and>
     (negotiating c \<longrightarrow> ledger_of (c_id c) evs = [])"

definition contract_inv :: "db \<Rightarrow> bool" where
  "contract_inv s \<longleftrightarrow>
     distinct (map c_id (t_contracts s)) \<and>
     (\<forall>k c. contract_at k s = Some c \<longrightarrow> contract_ok (t_events s) c) \<and>
     (\<forall>e \<in> set (t_events s). contract_at (e_contract_id e) s \<noteq> None) \<and>
     (\<forall>j \<in> set (t_adjustments s). engaged (j_contract_id j) s) \<and>
     period_unique (t_events s)"

lemma contract_inv_empty: "contract_inv empty_db"
  by (simp add: contract_inv_def empty_db_def contract_at_def period_unique_def)

lemma contract_at_id: "contract_at k s = Some c \<Longrightarrow> c_id c = k"
  unfolding contract_at_def by (rule contracts.get_key)

lemma ledger_of_none: "(\<forall>e \<in> set evs. e_contract_id e \<noteq> cid) \<Longrightarrow> ledger_of cid evs = []"
  by (simp add: ledger_of_def filter_empty_conv)

lemma period_unique_snoc:
  "period_unique evs \<Longrightarrow> \<not> period_bound_clash ev evs \<Longrightarrow> period_unique (evs @ [stored_event ev])"
  by (auto simp: period_unique_def period_bound_clash_def list_ex_iff)

lemma lawful_update_ok:
  assumes "contract_ok evs c" "lawful_update c c'" "c_id c' = c_id c"
  shows "contract_ok evs c'"
proof -
  have "negotiating c' \<Longrightarrow> negotiating c"
    using assms(2) by (cases "c_status c") (auto simp: lawful_update_def negotiating_def)
  moreover have "balance_agrees c' evs"
    using assms balance_agrees_cong [of c' c evs]
    by (auto simp: lawful_update_def contract_ok_def balance_agrees_def)
  ultimately show ?thesis using assms by (auto simp: contract_ok_def lawful_update_def)
qed

lemma engaged_update:
  assumes "\<And>r. c_id (f r) = c_id r" "t_contracts s' = modify c_id cid f (t_contracts s)"
    and "contract_at cid s = Some c" "\<not> negotiating c \<Longrightarrow> \<not> negotiating (f c)" "engaged k s"
  shows "engaged k s'"
  using assms status_at_update [OF assms(1,2)]
  by (auto simp: engaged_def split: option.splits)

lemma contract_inv_transfer:
  assumes "contract_inv s" and "distinct (map c_id (t_contracts s'))"
    and "\<And>k c. contract_at k s' = Some c \<Longrightarrow> contract_ok (t_events s') c"
    and "\<And>k. engaged k s \<Longrightarrow> engaged k s'"
    and "\<And>k. contract_at k s \<noteq> None \<Longrightarrow> contract_at k s' \<noteq> None"
    and "\<And>e. e \<in> set (t_events s') \<Longrightarrow> e \<in> set (t_events s) \<or> contract_at (e_contract_id e) s \<noteq> None"
    and "\<And>j. j \<in> set (t_adjustments s') \<Longrightarrow>
      j_contract_id j \<in> j_contract_id ` set (t_adjustments s) \<or> engaged (j_contract_id j) s"
    and "period_unique (t_events s')"
  shows "contract_inv s'"
  using assms unfolding contract_inv_def by (metis (no_types, lifting) imageE)

lemma step_keeps_inv:
  assumes "contract_step s s'" "contract_inv s"
  shows "contract_inv s'"
  using assms(1)
proof (cases rule: contract_step.cases)
  case other
  then have at: "contract_at k s' = contract_at k s" for k by (simp add: contract_at_def)
  show ?thesis
    by (rule contract_inv_transfer [OF assms(2)])
      (use assms(2) other at in \<open>auto simp: contract_inv_def engaged_def\<close>)
next
  case (opened c)
  have at: "contract_at k s' = (if k = c_id c then Some c else contract_at k s)" for k
    using opened by (simp add: contract_at_def contracts.get_add)
  have "ledger_of (c_id c) (t_events s) = []"
    using assms(2) opened(1) by (intro ledger_of_none) (auto simp: contract_inv_def)
  then have "contract_ok (t_events s) c"
    using opened by (auto simp: contract_ok_def balance_agrees_def)
  moreover have "distinct (map c_id (t_contracts s'))"
    using assms(2) opened by (auto simp: contract_inv_def insert_row_def contract_at_def fetch_None_iff)
  moreover have "engaged k s \<Longrightarrow> engaged k s'" for k
    using at opened(1) by (auto simp: engaged_def)
  ultimately show ?thesis
    by (intro contract_inv_transfer [OF assms(2)])
      (use assms(2) opened(5,6) at in \<open>auto simp: contract_inv_def split: if_splits\<close>)
next
  case (updating cid c f)
  note at = status_at_update [OF updating(2,4)]
  have c: "contract_ok (t_events s) c" "c_id c = cid"
    using assms(2) updating(1) contract_at_id by (auto simp: contract_inv_def)
  have ok: "contract_ok (t_events s) (f c)"
    using lawful_update_ok [OF c(1) updating(3)] updating(2) by simp
  have "\<not> negotiating c \<Longrightarrow> \<not> negotiating (f c)"
    using updating(3) by (cases "c_status c") (auto simp: lawful_update_def negotiating_def)
  then have "engaged k s \<Longrightarrow> engaged k s'" for k
    using engaged_update [OF updating(2,4,1)] by blast
  moreover have "map c_id (t_contracts s') = map c_id (t_contracts s)"
    unfolding updating(4) using updating(2) by (rule map_key_modify)
  ultimately show ?thesis
    by (intro contract_inv_transfer [OF assms(2)])
      (use assms(2) updating(1,5,6) ok at in \<open>auto simp: contract_inv_def split: if_splits\<close>)
next
  case (posting ev c b)
  let ?f = "\<lambda>c. c\<lparr>c_balance := b\<rparr>"
  have at: "contract_at k s' = (if k = e_contract_id ev then map_option ?f (contract_at k s) else contract_at k s)" for k
    using status_at_update [of ?f s' "e_contract_id ev" s] posting(7) by simp
  have c: "c_id c = e_contract_id ev" using posting(1) contract_at_id by blast
  have ok: "contract_ok (t_events s') (?f c)"
    using posting assms(2) c balance_agrees_posted [of ev "t_events s" "?f c"]
    by (auto simp: contract_ok_def contract_inv_def negotiating_def)
  have others: "contract_ok (t_events s') c'" if "contract_at k s = Some c'" "k \<noteq> e_contract_id ev" for k c'
    using that assms(2) posting(8) contract_at_id [OF that(1)] balance_agrees_other [of "stored_event ev" c']
    by (auto simp: contract_ok_def contract_inv_def ledger_of_snoc_other)
  have "contract_at k s' = Some d \<Longrightarrow> contract_ok (t_events s') d" for k d
    using at [of k] ok others [of k] posting(1) by (auto split: if_splits)
  moreover have "engaged k s \<Longrightarrow> engaged k s'" for k
    using at by (auto simp: engaged_def negotiating_def split: option.splits)
  moreover have "distinct (map c_id (t_contracts s'))"
    using assms(2) unfolding posting(7) contract_inv_def
    by (subst map_key_modify) simp_all
  moreover have "period_unique (t_events s')"
    using assms(2) posting(4,8) period_unique_snoc by (auto simp: contract_inv_def)
  ultimately show ?thesis
    by (intro contract_inv_transfer [OF assms(2)])
      (use posting(1,8,9) at in \<open>auto split: if_splits\<close>)
qed

lemma run_keeps_inv: "contract_run s s' \<Longrightarrow> contract_inv s \<Longrightarrow> contract_inv s'"
  by (induction rule: rtranclp_induct) (auto intro: step_keeps_inv)

section \<open>The events of payments\<close>

text \<open>The payments that are filed under a period; no step adds one.\<close>

definition indexed_payments :: "db \<Rightarrow> debt_event list" where
  "indexed_payments s =
     filter (\<lambda>e. e_type e = ET_payment_applied \<and> e_period_index e \<noteq> None) (t_events s)"

lemma step_indexed_payments: "contract_step s s' \<Longrightarrow> indexed_payments s' = indexed_payments s"
  by (cases rule: contract_step.cases) (auto simp: indexed_payments_def)

lemma run_indexed_payments: "contract_run s s' \<Longrightarrow> indexed_payments s' = indexed_payments s"
  by (induction rule: rtranclp_induct) (auto dest: step_indexed_payments)

end
