(* ===== verification/Conformance.thy ===== *)
theory Conformance
  imports Machine
begin

text \<open>
  The handlers of the negotiation and of the additions are runs of the contract machine.
\<close>

section \<open>Building runs\<close>

lemma opened_run:
  assumes "contract_at (c_id c) s = None" "c_balance c = principal c"
    "c_status c \<in> {CS_pending_sub, CS_pending_dom, CS_pending_sub_signature}"
    "t_contracts s' = modify c_id (c_id c) (\<lambda>x. x\<lparr>c_current_version_id := v, c_updated_at := now\<rparr>)
       (insert_row c (t_contracts s))"
    "t_events s' = t_events s" "t_adjustments s' = t_adjustments s"
  shows "contract_run s s'"
proof -
  let ?t = "s\<lparr>t_contracts := insert_row c (t_contracts s)\<rparr>"
  have "contract_step s ?t"
    using assms by (intro contract_step.opened [of c]) simp_all
  moreover have "contract_at (c_id c) ?t = Some c"
    using assms(1) by (simp add: contract_at_def contracts.get_add_same)
  then have "contract_step ?t s'"
    using assms(4-6) by (intro contract_step.updating [of "c_id c" ?t c]) (auto simp: lawful_update_def)
  ultimately show ?thesis by (rule converse_rtranclp_into_rtranclp [OF _ r_into_rtranclp])
qed

lemma updated_run:
  assumes "contract_at cid s = Some c" "\<And>r. c_id (f r) = c_id r" "lawful_update c (f c)"
    "t_contracts s' = modify c_id cid f (t_contracts s)"
    "t_events s' = t_events s" "t_adjustments s' = t_adjustments s"
  shows "contract_run s s'"
  using contract_step.updating [OF assms] by (rule r_into_rtranclp)

lemma quiet_run:
  "t_contracts s' = t_contracts s \<Longrightarrow> t_events s' = t_events s \<Longrightarrow> t_adjustments s' = t_adjustments s \<Longrightarrow>
   contract_run s s'"
  using quiet_step [of s' s] by (rule r_into_rtranclp)

lemma posted_then_touched:
  assumes "apply_event_and_recompute ev s = Inr (s1, b)" "latest_event ev (t_events s)"
    "engaged (e_contract_id ev) s" "e_type ev = ET_payment_applied \<longrightarrow> e_period_index ev = None"
    and "t_contracts s' = modify c_id (e_contract_id ev) f (t_contracts s1)" "\<And>r. c_id (f r) = c_id r"
    and "\<And>c. contract_at (e_contract_id ev) s = Some c \<Longrightarrow> lawful_update (c\<lparr>c_balance := b\<rparr>) (f (c\<lparr>c_balance := b\<rparr>))"
    and "t_events s' = t_events s1" "t_adjustments s' = t_adjustments s1"
  shows "contract_run s s'"
proof -
  have 1: "contract_step s s1" using posted_step [OF assms(1-4)] .
  obtain c where c: "contract_at (e_contract_id ev) s = Some c"
    using assms(3) by (auto simp: engaged_def split: option.splits)
  then have "contract_at (e_contract_id ev) s1 = Some (c\<lparr>c_balance := b\<rparr>)"
    using assms(1) by (auto simp: apply_event_eq_Inr contract_at_def contracts.get_upd)
  then have "contract_step s1 s'"
    using assms(5-9) c by (intro contract_step.updating) auto
  with 1 show ?thesis by (rule converse_rtranclp_into_rtranclp [OF _ r_into_rtranclp])
qed

lemma posted_then_quiet:
  assumes "apply_event_and_recompute ev s = Inr (s1, b)" "latest_event ev (t_events s)"
    "engaged (e_contract_id ev) s" "e_type ev = ET_payment_applied \<longrightarrow> e_period_index ev = None"
    and "t_contracts s' = t_contracts s1" "t_events s' = t_events s1"
    and "\<And>j. j \<in> set (t_adjustments s') \<Longrightarrow>
       j_contract_id j \<in> j_contract_id ` set (t_adjustments s1) \<or> engaged (j_contract_id j) s1"
  shows "contract_run s s'"
  using posted_step [OF assms(1-4)] contract_step.other [OF assms(5-7)]
  by (rule converse_rtranclp_into_rtranclp [OF _ r_into_rtranclp])

lemma contract_or_404_Inr [res_simps]:
  "contract_or_404 cid s = Inr c \<longleftrightarrow> contract_at cid s = Some c"
  by (auto simp: contract_or_404_def contract_at_def res_simps)

lemma owned_contract_Inr [res_simps]:
  "owned_contract u cid s = Inr c \<longleftrightarrow>
     contract_at cid s = Some c \<and> resolve_goddess_id (u_id u) s = Inr (c_goddess_id c)"
  by (auto simp: owned_contract_def res_simps)

section \<open>Negotiation\<close>

lemma create_contract_Inr [res_simps]:
  "create_contract c s = Inr s' \<longleftrightarrow> terms_fit c \<and>
     \<not> list_ex (\<lambda>c'. c_slug c' = c_slug c) (t_contracts s) \<and>
     s' = s\<lparr>t_contracts := insert_row (store_contract c) (t_contracts s)\<rparr>"
  by (auto simp: create_contract_def res_simps)

lemma create_version_Inr [res_simps]:
  "create_version v s = Inr s' \<longleftrightarrow> terms_fit v \<and>
     \<not> list_ex (\<lambda>v'. v_contract_id v' = v_contract_id v \<and> v_round_no v' = v_round_no v) (t_versions s) \<and>
     s' = s\<lparr>t_versions := insert_row (store_terms v) (t_versions s)\<rparr>"
  by (auto simp: create_version_def res_simps)

lemma store_contract_simps [simp]:
  "c_id (store_contract c) = c_id c" "c_status (store_contract c) = c_status c"
  "c_signed_at (store_contract c) = c_signed_at c" "c_sub_id (store_contract c) = c_sub_id c"
  "c_balance (store_contract c) = numeric_column 2 (c_balance c)"
  "principal (store_contract c) = numeric_column 2 (principal c)"
  "c_goddess_id (store_contract c) = c_goddess_id c" "c_slug (store_contract c) = c_slug c"
  "c_clauses_json (store_contract c) = c_clauses_json c"
  "c_current_version_id (store_contract c) = c_current_version_id c"
  by (simp_all add: store_contract_def store_terms_def)

lemma propose_as_goddess_run:
  assumes "propose_as_goddess z now cid vid slug u sid p s = Inr (s', v)" "contract_at cid s = None"
  shows "contract_run s s'"
proof -
  obtain gid where g: "resolve_goddess_id (u_id u) s = Inr gid"
    using assms(1) by (auto simp: propose_as_goddess_def res_simps)
  show ?thesis
    by (rule opened_run [where c = "store_contract (new_contract cid slug now sid gid False CS_pending_sub p)"
          and v = "Some vid" and now = now])
      (use assms g in \<open>auto simp: propose_as_goddess_def res_simps Let_def save_contract_def append_audit_def\<close>)
qed

lemma propose_as_sub_run:
  assumes "propose_as_sub z now cid vid slug u p s = Inr (s', v)" "contract_at cid s = None"
  shows "contract_run s s'"
proof -
  obtain gid where g: "u_goddess_id u = Some gid"
    using assms(1) by (auto simp: propose_as_sub_def res_simps)
  show ?thesis
    by (rule opened_run [where c = "store_contract (new_contract cid slug now (u_id u) gid True CS_pending_dom p)"
          and v = "Some vid" and now = now])
      (use assms g in \<open>auto simp: propose_as_sub_def res_simps Let_def save_contract_def append_audit_def\<close>)
qed

lemma countered_simps [simp]:
  "c_id (countered now vid st p c) = c_id c" "c_status (countered now vid st p c) = st"
  "c_balance (countered now vid st p c) = principal p" "principal (countered now vid st p c) = principal p"
  "c_signed_at (countered now vid st p c) = c_signed_at c"
  by (simp_all add: countered_def apply_payload_to_contract_def)

lemma restored_simps [simp]:
  "c_id (restored now v c) = c_id c" "c_status (restored now v c) = CS_pending_sub_signature"
  "c_balance (restored now v c) = principal v" "principal (restored now v c) = principal v"
  "c_signed_at (restored now v c) = c_signed_at c"
  by (simp_all add: restored_def apply_version_to_contract_def)

lemma counter_target_edge:
  "counter_target u c s = Inr st \<Longrightarrow> contract_edge (c_status c) st \<and> negotiating c \<and> st \<noteq> CS_active"
  by (auto simp: counter_target_def res_simps negotiating_def split: user_role.splits)

lemma counter_propose_run:
  assumes "counter_propose z now vid u cid p s = Inr (s', v)"
  shows "contract_run s s'"
proof -
  obtain c st where c: "contract_at cid s = Some c" "counter_target u c s = Inr st"
    using assms by (auto simp: counter_propose_def res_simps)
  show ?thesis
    by (rule updated_run [OF c(1), where f = "\<lambda>c. store_contract (countered now vid st p c)"])
      (use assms c counter_target_edge [OF c(2)] in
        \<open>auto simp: counter_propose_def res_simps Let_def save_contract_def append_audit_def lawful_update_def\<close>)
qed

lemma accept_counter_run:
  assumes "accept_counter z now u cid s = Inr (s', v)"
  shows "contract_run s s'"
proof -
  obtain c where c: "contract_at cid s = Some c" "c_status c = CS_pending_dom_counter"
    using assms by (auto simp: accept_counter_def res_simps)
  show ?thesis
    by (rule updated_run [OF c(1), where f = "\<lambda>c. c\<lparr>c_status := CS_pending_sub_signature, c_updated_at := now\<rparr>"])
      (use assms c in \<open>auto simp: accept_counter_def res_simps Let_def save_contract_def append_audit_def lawful_update_def\<close>)
qed

lemma reject_counter_run:
  assumes "reject_counter z now u cid s = Inr (s', v)"
  shows "contract_run s s'"
proof -
  obtain c w where c: "contract_at cid s = Some c" "c_status c = CS_pending_dom_counter"
      "find (\<lambda>v. v_round_no v = 0) (versions_for_contract cid s) = Some w"
    using assms by (auto simp: reject_counter_def res_simps)
  show ?thesis
    by (rule updated_run [OF c(1), where f = "restored now w"])
      (use assms c in \<open>auto simp: reject_counter_def res_simps Let_def save_contract_def append_audit_def
        lawful_update_def negotiating_def\<close>)
qed

lemma sign_as_sub_run:
  assumes "sign_as_sub z now u cid sig s = Inr (s', v)"
  shows "contract_run s s'"
proof -
  obtain c where c: "contract_at cid s = Some c" "c_status c \<in> {CS_pending_sub, CS_pending_sub_signature}"
    using assms by (auto simp: sign_as_sub_def res_simps)
  show ?thesis
    by (rule updated_run [OF c(1), where f = "\<lambda>c. c\<lparr>c_status := CS_active, c_signed_at := Some now,
          c_signature_b64 := Some sig, c_updated_at := now\<rparr>"])
      (use assms c in \<open>auto simp: sign_as_sub_def res_simps Let_def save_contract_def append_audit_def lawful_update_def\<close>)
qed

lemma close_as_goddess_run:
  assumes "close_as_goddess z now u cid s = Inr (s', v)"
  shows "contract_run s s'"
proof -
  obtain c where c: "contract_at cid s = Some c" "c_status c \<in> set pending_statuses"
    using assms by (auto simp: close_as_goddess_def res_simps)
  show ?thesis
    by (rule updated_run [OF c(1), where f = "\<lambda>c. c\<lparr>c_status := CS_cancelled_by_dom, c_updated_at := now\<rparr>"])
      (use assms c in \<open>auto simp: close_as_goddess_def res_simps Let_def save_contract_def append_audit_def
        lawful_update_def intro: contract_edge.cancel\<close>)
qed

lemma with_clauses_simps [simp]:
  "c_id (with_clauses now cl r c) = c_id c" "c_balance (with_clauses now cl r c) = c_balance c"
  "principal (with_clauses now cl r c) = principal c"
  "c_status (with_clauses now cl r c) = (if r then CS_pending_sub_signature else c_status c)"
  "c_signed_at (with_clauses now cl r c) = (if r then None else c_signed_at c)"
  by (simp_all add: with_clauses_def Let_def)

lemma update_clauses_run:
  assumes "update_clauses z now fresh u cid cl s = Inr (s', v)"
  shows "contract_run s s'"
proof -
  obtain c where c: "contract_at cid s = Some c"
    using assms by (auto simp: update_clauses_def res_simps)
  let ?n = "normalize_clauses fresh cl"
  let ?r = "stored_clauses_signature (c_clauses_json c) \<noteq> normalized_clauses_signature ?n \<and> c_status c = CS_active"
  show ?thesis
    by (rule updated_run [OF c, where f = "with_clauses now ?n ?r"])
      (use assms c in \<open>auto simp: update_clauses_def res_simps Let_def save_contract_def append_audit_def lawful_update_def\<close>)
qed

section \<open>Additions\<close>

lemma not_negotiating_active: "c_status c = CS_active \<Longrightarrow> \<not> negotiating c"
  by (simp add: negotiating_def)

lemma engaged_active: "contract_at cid s = Some c \<Longrightarrow> c_status c = CS_active \<Longrightarrow> engaged cid s"
  by (simp add: engaged_def negotiating_def)

lemma surprise_penalty_run:
  assumes "surprise_penalty z now eid u cid a r s = Inr (s', v)"
    "later_stamp eid now s"
  shows "contract_run s s'"
proof -
  obtain c s1 b where c: "contract_at cid s = Some c" "c_status c = CS_active"
      "apply_event_and_recompute (new_event eid now cid ET_surprise_penalty a None r) s = Inr (s1, b)"
      "t_contracts s' = modify c_id cid (\<lambda>c. c\<lparr>c_updated_at := now\<rparr>) (t_contracts s1)"
      "t_events s' = t_events s1" "t_adjustments s' = t_adjustments s1"
    using assms(1) by (auto simp: surprise_penalty_def res_simps Let_def save_contract_def simp del: apply_event_eq_Inr)
  show ?thesis
    by (rule posted_then_touched [OF c(3) later_stamp_latest [OF assms(2)], where f = "\<lambda>c. c\<lparr>c_updated_at := now\<rparr>"])
      (use c engaged_active [OF c(1,2)] in \<open>auto simp: lawful_update_def\<close>)
qed

lemma engaged_posted:
  assumes "apply_event_and_recompute ev s = Inr (s1, b)" "engaged k s"
  shows "engaged k s1"
proof -
  have "contract_at k s1 = (if k = e_contract_id ev then map_option (\<lambda>c. c\<lparr>c_balance := b\<rparr>) (contract_at k s)
      else contract_at k s)"
    using assms(1) by (auto simp: apply_event_eq_Inr contract_at_def contracts.get_upd)
  then show ?thesis using assms(2) by (auto simp: engaged_def negotiating_def split: option.splits)
qed

lemma slug_row:
  assumes "contract_inv s" "contract_by_slug slug s = Inr (Some c)"
  shows "contract_at (c_id c) s = Some c \<and> c_slug c = slug"
proof -
  have "filter (\<lambda>c. c_slug c = slug) (t_contracts s) = [c]"
    using assms(2) by (simp add: contract_by_slug_def scalar_one_or_none_Some)
  then have "c \<in> set (filter (\<lambda>c. c_slug c = slug) (t_contracts s))" by simp
  then show ?thesis using assms(1)
    by (auto simp: contract_at_def contract_inv_def intro: fetch_distinct)
qed

lemma owned_contract_by_slug_Inr [res_simps]:
  "owned_contract_by_slug u slug s = Inr c \<longleftrightarrow>
     contract_by_slug slug s = Inr (Some c) \<and> resolve_goddess_id (u_id u) s = Inr (c_goddess_id c)"
  by (auto simp: owned_contract_by_slug_def res_simps)

lemma create_adjustment_row_Inr [res_simps]:
  "create_adjustment_row a s = Inr s' \<longleftrightarrow> \<bar>numeric_column 2 (j_amount a)\<bar> < 10 ^ 10 \<and>
     s' = s\<lparr>t_adjustments := insert_row (a\<lparr>j_amount := numeric_column 2 (j_amount a)\<rparr>) (t_adjustments s)\<rparr>"
  by (auto simp: create_adjustment_row_def res_simps not_le)

lemma surprise_penalty_by_slug_run:
  assumes "surprise_penalty_by_slug z now eid jid u slug a r conf s = Inr (s', v)" "contract_inv s"
    and "later_stamp eid now s"
  shows "contract_run s s'"
proof -
  let ?ev = "\<lambda>cid. new_event eid now cid ET_surprise_penalty a None (Some r)"
  let ?f = "\<lambda>c. c\<lparr>c_updated_at := now\<rparr>"
  obtain c s1 b j where c: "contract_by_slug slug s = Inr (Some c)" "c_status c = CS_active"
      "apply_event_and_recompute (?ev (c_id c)) s = Inr (s1, b)"
      "j_contract_id j = c_id c" "t_adjustments s' = t_adjustments s1 @ [j]"
      "t_contracts s' = modify c_id (c_id c) ?f (t_contracts s1)" "t_events s' = t_events s1"
    using assms(1)
    by (auto simp: surprise_penalty_by_slug_def res_simps Let_def save_contract_def append_audit_def insert_row_def
        simp del: apply_event_eq_Inr)
  define s2 where "s2 = s1\<lparr>t_adjustments := t_adjustments s'\<rparr>"
  have at: "contract_at (c_id c) s = Some c" using slug_row [OF assms(2) c(1)] by blast
  have eng: "engaged (c_id c) s" using engaged_active [OF at c(2)] .
  have "contract_run s s2"
    by (rule posted_then_quiet [OF c(3) later_stamp_latest [OF assms(3)]])
      (use c eng engaged_posted [OF c(3) eng] in \<open>auto simp: s2_def\<close>)
  moreover obtain d where "contract_at (c_id c) s2 = Some d"
    using engaged_posted [OF c(3) eng] by (auto simp: s2_def engaged_def contract_at_def split: option.splits)
  then have "contract_run s2 s'"
    by (rule updated_run [where f = ?f]) (use c in \<open>auto simp: s2_def lawful_update_def\<close>)
  ultimately show ?thesis by (rule rtranclp_trans)
qed

lemma emit_adjustment_event_Inr [res_simps]:
  "emit_adjustment_event eid now cid a r s = Inr s' \<longleftrightarrow>
     (\<exists>b. apply_event_and_recompute (new_event eid now cid ET_adjustment a None r) s = Inr (s', b))"
  by (simp add: emit_adjustment_event_def attempt_eq_Inr split: prod.splits)

lemma adjusted_then_posted:
  assumes "t_contracts s1 = t_contracts s" "t_events s1 = t_events s"
    "\<And>j. j \<in> set (t_adjustments s1) \<Longrightarrow>
       j_contract_id j \<in> j_contract_id ` set (t_adjustments s) \<or> engaged (j_contract_id j) s"
    and "apply_event_and_recompute ev s1 = Inr (s2, b)" "latest_event ev (t_events s)"
    "engaged (e_contract_id ev) s" "e_type ev = ET_payment_applied \<longrightarrow> e_period_index ev = None"
    and "t_contracts s' = t_contracts s2" "t_events s' = t_events s2" "t_adjustments s' = t_adjustments s2"
  shows "contract_run s s'"
proof -
  have "contract_step s s1" using assms(1-3) by (rule contract_step.other)
  moreover have "engaged (e_contract_id ev) s1"
    using assms(1,6) by (simp add: engaged_def contract_at_def)
  then have "contract_run s1 s'"
    by (intro posted_then_quiet [OF assms(4)]) (use assms in auto)
  ultimately show ?thesis by (rule converse_rtranclp_into_rtranclp)
qed

lemma create_adjustment_run:
  assumes "create_adjustment now jid eid u cid a r s = Inr (s', v)"
    "later_stamp eid now s"
  shows "contract_run s s'"
proof -
  obtain c where c: "contract_at cid s = Some c" "c_status c = CS_active"
    using assms(1) by (auto simp: create_adjustment_def res_simps Let_def simp del: apply_event_eq_Inr)
  note eng = engaged_active [OF c]
  let ?j = "v\<lparr>j_amount := numeric_column 2 (j_amount v)\<rparr>"
  let ?s1 = "s\<lparr>t_adjustments := insert_row ?j (t_adjustments s)\<rparr>"
  have v: "j_contract_id v = cid"
    using assms(1) by (auto simp: create_adjustment_def res_simps Let_def simp del: apply_event_eq_Inr)
  show ?thesis
  proof (cases "j_status v = AS_applied")
    case True
    then obtain b where "apply_event_and_recompute (new_event eid now cid ET_adjustment a None r) ?s1 = Inr (s', b)"
      using assms(1) by (auto simp: create_adjustment_def res_simps Let_def simp del: apply_event_eq_Inr split: if_splits)
    then show ?thesis
      by (rule adjusted_then_posted [rotated 3, of _ _ _ _ s])
        (use later_stamp_latest [OF assms(2)] eng v in \<open>auto simp: insert_row_def\<close>)
  next
    case False
    then have "s' = notify (c_sub_id c) NT_contract_adjustment_proposed (Some cid) None ?s1"
      using assms(1) c(1) by (auto simp: create_adjustment_def res_simps Let_def simp del: apply_event_eq_Inr split: if_splits)
    then have "contract_step s s'"
      using eng v by (intro contract_step.other) (auto simp: insert_row_def)
    then show ?thesis by (rule r_into_rtranclp)
  qed
qed

lemma pending_adjustment_of_Inr [res_simps]:
  "pending_adjustment_of u jid s = Inr (j, c) \<longleftrightarrow>
     fetch j_id jid (t_adjustments s) = Some j \<and> contract_at (j_contract_id j) s = Some c \<and>
     c_sub_id c = u_id u \<and> j_status j = AS_pending_sub_approval"
  by (auto simp: pending_adjustment_of_def res_simps)

lemma resolved_contract [simp]: "j_contract_id (resolved st now j) = j_contract_id j"
  by (simp add: resolved_def)

lemma saved_adjustment_contracts:
  "j \<in> set (modify j_id jid (resolved st now) js) \<Longrightarrow> j_contract_id j \<in> j_contract_id ` set js"
  by (auto simp: set_modify)

lemma accept_adjustment_run:
  assumes "accept_adjustment now eid u jid s = Inr (s', v)" "contract_inv s"
    and "later_stamp eid now s"
  shows "contract_run s s'"
proof -
  let ?s1 = "save_adjustment jid (resolved AS_accepted now) s"
  obtain j c s2 b where j: "fetch j_id jid (t_adjustments s) = Some j" "contract_at (j_contract_id j) s = Some c"
      "apply_event_and_recompute (new_event eid now (c_id c) ET_adjustment (j_amount j) None (j_reason j)) ?s1 = Inr (s2, b)"
      "t_contracts s' = t_contracts s2" "t_events s' = t_events s2" "t_adjustments s' = t_adjustments s2"
    using assms(1) by (auto simp: accept_adjustment_def res_simps Let_def simp del: apply_event_eq_Inr split: prod.splits)
  have "engaged (j_contract_id j) s"
    using assms(2) fetch_SomeD [OF j(1)] by (auto simp: contract_inv_def)
  then have "engaged (c_id c) s" using contract_at_id [OF j(2)] by simp
  then show ?thesis
    by (intro adjusted_then_posted [OF _ _ _ j(3) later_stamp_latest [OF assms(3)]])
      (use j saved_adjustment_contracts in \<open>auto simp: save_adjustment_def\<close>)
qed

lemma refuse_adjustment_run:
  assumes "refuse_adjustment now u jid s = Inr (s', v)"
  shows "contract_run s s'"
proof -
  have "t_contracts s' = t_contracts s" "t_events s' = t_events s"
    "t_adjustments s' = modify j_id jid (resolved AS_refused now) (t_adjustments s)"
    using assms by (auto simp: refuse_adjustment_def res_simps Let_def save_adjustment_def split: prod.splits)
  then have "contract_step s s'"
    using saved_adjustment_contracts by (intro contract_step.other) auto
  then show ?thesis by (rule r_into_rtranclp)
qed

end
