(* ===== verification/Payments.thy ===== *)
theory Payments
  imports Negotiation
begin

text \<open>
  Payment declarations: \<^verbatim>\<open>controllers/payment\<close>, \<^verbatim>\<open>daos/payment_dao.py\<close>, the request bodies of
  \<^verbatim>\<open>schemas/payment.py\<close>, and the rolling tribute record (\<^verbatim>\<open>daos/rolling_dao.py\<close>,
  \<^verbatim>\<open>controllers/rolling_controller.py\<close>). A declaration is made by the sub and then validated,
  rejected or cancelled, or recorded by the goddess as validated; validation emits an
  allocation and has the effect of its category. The stored proof is an object of an external
  store: only its key is modelled.
\<close>

section \<open>Request bodies\<close>

record declare_in =
  di_amount :: rat
  di_method_id :: uuid
  di_category :: payment_category
  di_external_timestamp :: "datetime option"
  di_note :: "string option"
  di_target_id :: "uuid option"

record record_in = declare_in +
  ri_sub_id :: uuid

text \<open>\<open>Some v\<close> is a field the client sent; an explicit null is \<open>Some None\<close>.\<close>

record edit_in =
  ei_amount :: "rat option option"
  ei_method_id :: "uuid option option"
  ei_category :: "payment_category option option"
  ei_external_timestamp :: "datetime option option"
  ei_note :: "string option option"
  ei_target_id :: "uuid option option"

text \<open>The field constraints of the amounts: positive, two places, at most twelve digits.\<close>

definition amount_valid :: "rat \<Rightarrow> bool" where
  "amount_valid a \<longleftrightarrow> 0 < a \<and> places 2 a \<and> a < 10 ^ 10"

definition declare_in_valid :: "'a declare_in_scheme \<Rightarrow> bool" where
  "declare_in_valid p \<longleftrightarrow> amount_valid (di_amount p) \<and>
     (case di_note p of None \<Rightarrow> True | Some t \<Rightarrow> length t \<le> 1000)"

definition edit_in_valid :: "edit_in \<Rightarrow> bool" where
  "edit_in_valid p \<longleftrightarrow>
     (case ei_amount p of Some (Some a) \<Rightarrow> amount_valid a | _ \<Rightarrow> True) \<and>
     (case ei_note p of Some (Some t) \<Rightarrow> length t \<le> 1000 | _ \<Rightarrow> True)"

definition reject_reason_valid :: "string \<Rightarrow> bool" where
  "reject_reason_valid r \<longleftrightarrow> 5 \<le> length r \<and> length r \<le> 500"

section \<open>Categories\<close>

definition category_to_allocation_target :: "payment_category \<Rightarrow> allocation_target option" where
  "category_to_allocation_target cat = (case cat of
      PC_entry \<Rightarrow> Some AT_entry
    | PC_tribute \<Rightarrow> Some AT_tribute
    | PC_rolling \<Rightarrow> Some AT_rolling_cycle
    | PC_weekly_debt \<Rightarrow> Some AT_contract_debt
    | PC_debt_payment \<Rightarrow> Some AT_contract_debt
    | PC_buyout \<Rightarrow> Some AT_contract_buyout
    | _ \<Rightarrow> None)"

definition debt_payment_categories :: "payment_category list" where
  "debt_payment_categories = [PC_weekly_debt, PC_debt_payment]"

definition check_category_for_sub :: "user \<Rightarrow> payment_category \<Rightarrow> unit res" where
  "check_category_for_sub sub cat =
     (if cat = PC_entry then
        raise_if (u_status sub \<noteq> US_pending_entry_tribute)
          (BadRequest ''entry category only allowed while sub status is pending_entry_tribute'') (Inr ())
      else raise_if (cat = PC_tribute \<and> u_status sub = US_pending_entry_tribute)
          (BadRequest ''tribute category not allowed until entry is validated'') (Inr ()))"

definition get_method_for_goddess :: "uuid \<Rightarrow> uuid \<Rightarrow> db \<Rightarrow> payment_method res" where
  "get_method_for_goddess gid mid s =
     attempt (method_by_id mid gid s) (\<lambda>r.
     require r (NotFound ''payment method not found or not owned by this goddess'') (\<lambda>m.
     raise_if (\<not> m_enabled m) (BadRequest ''payment method is disabled'') (Inr m)))"

section \<open>The rolling tribute record\<close>

definition rolling_for_sub :: "uuid \<Rightarrow> db \<Rightarrow> rolling_tribute option res" where
  "rolling_for_sub sid s = scalar_one_or_none (filter (\<lambda>r. r_sub_id r = sid) (t_rollings s))"

definition rollings_for_subs :: "uuid list \<Rightarrow> db \<Rightarrow> rolling_tribute list" where
  "rollings_for_subs sids s = filter (\<lambda>r. r_sub_id r \<in> set sids) (t_rollings s)"

definition mark_paid :: "uuid \<Rightarrow> datetime \<Rightarrow> datetime \<Rightarrow> db \<Rightarrow> db res" where
  "mark_paid sid at_time now s =
     attempt (rolling_for_sub sid s) (\<lambda>r.
     Inr (case r of None \<Rightarrow> s
       | Some rec \<Rightarrow> s\<lparr>t_rollings := modify r_id (r_id rec)
           (\<lambda>x. x\<lparr>r_last_paid_at := Some at_time, r_updated_at := now\<rparr>) (t_rollings s)\<rparr>))"

definition check_rolling_active :: "uuid \<Rightarrow> db \<Rightarrow> unit res" where
  "check_rolling_active sid s =
     attempt (rolling_for_sub sid s) (\<lambda>r.
     raise_if (case r of None \<Rightarrow> True | Some x \<Rightarrow> r_amount x = 0 \<or> r_paused x)
       (BadRequest ''no active rolling tribute configured for this sub'') (Inr ()))"

record rolling_in =
  rin_amount :: rat
  rin_deadline_day :: deadline_day
  rin_deadline_time :: int
  rin_late_multiplier_per_day :: int
  rin_paused :: bool
  rin_notes :: "string option"

definition rolling_in_valid :: "rolling_in \<Rightarrow> bool" where
  "rolling_in_valid p \<longleftrightarrow> 0 \<le> rin_amount p \<and> rin_amount p \<le> 999999999999 / 100 \<and>
     0 \<le> rin_deadline_time p \<and> rin_deadline_time p < us_per_day \<and>
     0 \<le> rin_late_multiplier_per_day p \<and> rin_late_multiplier_per_day p \<le> 30 \<and>
     (case rin_notes p of None \<Rightarrow> True | Some t \<Rightarrow> length t \<le> 500)"

text \<open>
  The amount goes through \<^verbatim>\<open>float(payload.amount)\<close>, which keeps an amount of at most fifteen
  digits; the column stores two places.
\<close>

definition upsert_rolling :: "uuid \<Rightarrow> datetime \<Rightarrow> uuid \<Rightarrow> uuid \<Rightarrow> rolling_in \<Rightarrow> db \<Rightarrow> (db \<times> rolling_tribute) res" where
  "upsert_rolling rid now sid gid p s =
     attempt (rolling_for_sub sid s) (\<lambda>existing.
     case existing of
       Some x \<Rightarrow>
         let f = (\<lambda>x. x\<lparr>r_amount := numeric_column 2 (rin_amount p), r_deadline_day := rin_deadline_day p,
                r_deadline_time := rin_deadline_time p,
                r_late_multiplier_per_day := rin_late_multiplier_per_day p,
                r_paused := rin_paused p, r_notes := rin_notes p, r_updated_at := now\<rparr>)
         in Inr (s\<lparr>t_rollings := modify r_id (r_id x) f (t_rollings s)\<rparr>, f x)
     | None \<Rightarrow>
         let x = \<lparr>r_id = rid, r_sub_id = sid, r_goddess_id = gid,
                r_amount = numeric_column 2 (rin_amount p), r_deadline_day = rin_deadline_day p,
                r_deadline_time = rin_deadline_time p,
                r_late_multiplier_per_day = rin_late_multiplier_per_day p, r_paused = rin_paused p,
                r_notes = rin_notes p, r_last_paid_at = None, r_created_at = now, r_updated_at = now\<rparr>
         in Inr (s\<lparr>t_rollings := insert_row x (t_rollings s)\<rparr>, x))"

record rolling_out =
  ro_record :: rolling_tribute
  ro_current_cycle_deadline :: datetime
  ro_amount_due :: rat
  ro_days_late :: int

definition rolling_to_out :: "zone \<Rightarrow> rolling_tribute \<Rightarrow> datetime \<Rightarrow> rolling_out" where
  "rolling_to_out z r now =
     \<lparr>ro_record = r, ro_current_cycle_deadline = current_cycle_deadline z r now,
      ro_amount_due = amount_due z r now, ro_days_late = days_late z r now\<rparr>"

definition rolling_get_for_sub ::
  "zone \<Rightarrow> datetime \<Rightarrow> user \<Rightarrow> uuid \<Rightarrow> db \<Rightarrow> rolling_out option res" where
  "rolling_get_for_sub z now goddess_user sid s =
     attempt (resolve_goddess_id (u_id goddess_user) s) (\<lambda>goddess_id.
     attempt (assert_sub_belongs_to_goddess goddess_id sid s) (\<lambda>_.
     attempt (rolling_for_sub sid s) (\<lambda>r.
     Inr (map_option (\<lambda>x. rolling_to_out z x now) r))))"

definition rolling_upsert_for_sub ::
  "zone \<Rightarrow> uuid \<Rightarrow> datetime \<Rightarrow> user \<Rightarrow> uuid \<Rightarrow> rolling_in \<Rightarrow> db \<Rightarrow> (db \<times> rolling_out) res" where
  "rolling_upsert_for_sub z rid now goddess_user sid p s =
     attempt (resolve_goddess_id (u_id goddess_user) s) (\<lambda>goddess_id.
     attempt (assert_sub_belongs_to_goddess goddess_id sid s) (\<lambda>_.
     attempt (upsert_rolling rid now sid goddess_id p s) (\<lambda>(s1, r).
     Inr (s1, rolling_to_out z r now))))"

definition rolling_clear_for_sub :: "uuid \<Rightarrow> datetime \<Rightarrow> user \<Rightarrow> uuid \<Rightarrow> db \<Rightarrow> db res" where
  "rolling_clear_for_sub rid now goddess_user sid s =
     attempt (resolve_goddess_id (u_id goddess_user) s) (\<lambda>goddess_id.
     attempt (assert_sub_belongs_to_goddess goddess_id sid s) (\<lambda>_.
     attempt (rolling_for_sub sid s) (\<lambda>r.
     require r (NotFound ''no rolling tribute configured for this sub'') (\<lambda>rec.
     attempt (upsert_rolling rid now sid goddess_id
        \<lparr>rin_amount = 0, rin_deadline_day = r_deadline_day rec, rin_deadline_time = r_deadline_time rec,
         rin_late_multiplier_per_day = r_late_multiplier_per_day rec, rin_paused = True,
         rin_notes = r_notes rec\<rparr> s) (\<lambda>(s1, _). Inr s1)))))"

section \<open>Declaration rows\<close>

definition stored_declaration :: "payment_declaration \<Rightarrow> payment_declaration" where
  "stored_declaration d = d\<lparr>d_amount := numeric_column 2 (d_amount d)\<rparr>"

definition create_declaration :: "payment_declaration \<Rightarrow> db \<Rightarrow> db res" where
  "create_declaration d s =
     raise_if (\<bar>numeric_column 2 (d_amount d)\<bar> \<ge> 10 ^ 10) (DataError ''payment_declaration.amount'') (
     Inr (s\<lparr>t_declarations := insert_row (stored_declaration d) (t_declarations s)\<rparr>))"

definition save_declaration :: "uuid \<Rightarrow> (payment_declaration \<Rightarrow> payment_declaration) \<Rightarrow> db \<Rightarrow> db" where
  "save_declaration did f s = s\<lparr>t_declarations := modify d_id did f (t_declarations s)\<rparr>"

definition declarations_for_sub :: "uuid \<Rightarrow> nat \<Rightarrow> db \<Rightarrow> payment_declaration list" where
  "declarations_for_sub sid limit s =
     take limit (sort_key (\<lambda>d. - d_declared_at d) (filter (\<lambda>d. d_sub_id d = sid) (t_declarations s)))"

definition pending_for_goddess :: "uuid \<Rightarrow> nat \<Rightarrow> db \<Rightarrow> payment_declaration list" where
  "pending_for_goddess gid limit s =
     take limit (sort_key d_declared_at
       (filter (\<lambda>d. d_goddess_id d = gid \<and> d_status d = PS_pending) (t_declarations s)))"

definition validated_in_window :: "uuid \<Rightarrow> datetime \<Rightarrow> datetime \<Rightarrow> db \<Rightarrow> payment_declaration list" where
  "validated_in_window gid from_t to_t s =
     sort_key (\<lambda>d. - (case d_validated_at d of Some t \<Rightarrow> t | None \<Rightarrow> 0))
       (filter (\<lambda>d. d_goddess_id d = gid \<and> d_status d = PS_validated \<and>
          (case d_validated_at d of Some t \<Rightarrow> from_t \<le> t \<and> t \<le> to_t | None \<Rightarrow> False)) (t_declarations s))"

definition count_pending_validation :: "uuid \<Rightarrow> db \<Rightarrow> nat" where
  "count_pending_validation gid s =
     length (filter (\<lambda>d. d_goddess_id d = gid \<and> d_status d = PS_pending) (t_declarations s))"

definition oldest_pending_age_hours :: "uuid \<Rightarrow> datetime \<Rightarrow> db \<Rightarrow> int" where
  "oldest_pending_age_hours gid now s =
     (case min_datetime (map d_declared_at
         (filter (\<lambda>d. d_goddess_id d = gid \<and> d_status d = PS_pending) (t_declarations s))) of
        None \<Rightarrow> 0 | Some oldest \<Rightarrow> (now - oldest) div us_per_hour)"

definition all_proof_keys :: "db \<Rightarrow> string list" where
  "all_proof_keys s =
     remdups (filter (\<lambda>k. k \<noteq> []) (List.map_filter d_proof_key (t_declarations s)))"

definition validated_row :: "uuid \<Rightarrow> datetime \<Rightarrow> payment_category \<Rightarrow> payment_declaration \<Rightarrow> payment_declaration" where
  "validated_row by_user now cat d =
     d\<lparr>d_status := PS_validated, d_validated_by := Some by_user, d_validated_at := Some now,
       d_category := cat\<rparr>"

definition rejected_row :: "uuid \<Rightarrow> string \<Rightarrow> datetime \<Rightarrow> payment_declaration \<Rightarrow> payment_declaration" where
  "rejected_row by_user reason now d =
     d\<lparr>d_validated_by := Some by_user, d_status := PS_rejected, d_rejection_reason := Some reason,
       d_validated_at := Some now\<rparr>"

definition cancelled_row :: "datetime \<Rightarrow> payment_declaration \<Rightarrow> payment_declaration" where
  "cancelled_row now d = d\<lparr>d_status := PS_cancelled, d_validated_at := Some now\<rparr>"

definition patched_row :: "edit_in \<Rightarrow> payment_declaration \<Rightarrow> payment_declaration" where
  "patched_row p d =
     d\<lparr>d_amount := (case ei_amount p of Some (Some v) \<Rightarrow> numeric_column 2 v | _ \<Rightarrow> d_amount d),
       d_method_id := (case ei_method_id p of Some (Some v) \<Rightarrow> v | _ \<Rightarrow> d_method_id d),
       d_category := (case ei_category p of Some (Some v) \<Rightarrow> v | _ \<Rightarrow> d_category d),
       d_external_timestamp := (case ei_external_timestamp p of Some v \<Rightarrow> v | None \<Rightarrow> d_external_timestamp d),
       d_note := (case ei_note p of Some v \<Rightarrow> v | None \<Rightarrow> d_note d),
       d_target_id := (case ei_target_id p of Some v \<Rightarrow> v | None \<Rightarrow> d_target_id d)\<rparr>"

section \<open>The response\<close>

record payment_out =
  po_declaration :: payment_declaration
  po_sub_display_name :: "string option"
  po_method_name :: "string option"
  po_method_type :: "payment_method_type option"
  po_allocation :: "payment_allocation option"

definition load_allocation :: "uuid \<Rightarrow> db \<Rightarrow> payment_allocation option res" where
  "load_allocation did s = scalar_one_or_none (filter (\<lambda>l. l_declaration_id l = did) (t_allocations s))"

definition load_sub_display_name :: "uuid \<Rightarrow> db \<Rightarrow> string option" where
  "load_sub_display_name sid s =
     (case fetch u_id sid (t_users s) of
        None \<Rightarrow> None
      | Some u \<Rightarrow> if name_parts u \<noteq> [] then Some (join_space (name_parts u)) else None)"

definition payment_to_out :: "payment_declaration \<Rightarrow> db \<Rightarrow> payment_out res" where
  "payment_to_out d s =
     attempt (load_allocation (d_id d) s) (\<lambda>allocation.
     let m = fetch m_id (d_method_id d) (t_methods s)
     in Inr \<lparr>po_declaration = d, po_sub_display_name = load_sub_display_name (d_sub_id d) s,
             po_method_name = map_option m_name m, po_method_type = map_option m_type m,
             po_allocation = allocation\<rparr>)"

definition declaration_or_404 :: "uuid \<Rightarrow> db \<Rightarrow> payment_declaration res" where
  "declaration_or_404 did s = require (fetch d_id did (t_declarations s)) (NotFound ''declaration not found'') Inr"

section \<open>Effects of a validated payment\<close>

definition emit_allocation :: "datetime \<Rightarrow> payment_declaration \<Rightarrow> db \<Rightarrow> db res" where
  "emit_allocation now d s =
     (case category_to_allocation_target (d_category d) of
        None \<Rightarrow> Inr s
      | Some ty \<Rightarrow> create_allocation now d ty (d_target_id d) s)"

text \<open>\<^verbatim>\<open>str.strip()\<close> leaves nothing: every character is white space.\<close>

definition blank :: "string \<Rightarrow> bool" where
  "blank w \<longleftrightarrow> list_all (\<lambda>c. c \<in> set [CHR '' '', CHR 0x09, CHR 0x0A, CHR 0x0B, CHR 0x0C, CHR 0x0D,
     CHR 0x1C, CHR 0x1D, CHR 0x1E, CHR 0x1F, CHR 0x85, CHR 0xA0]) w"

definition promote_sub :: "uuid \<Rightarrow> db \<Rightarrow> db res" where
  "promote_sub sid s =
     raise_if (case safeword_for_sub sid s of None \<Rightarrow> True | Some w \<Rightarrow> blank (sw_word w))
       (Validation ''A safeword must be set before activating the account.'')
       (Inr (set_user_status sid US_active s))"

definition load_active_contract_for_sub :: "uuid \<Rightarrow> uuid option \<Rightarrow> db \<Rightarrow> debt_contract res" where
  "load_active_contract_for_sub sid target s =
     require target (BadRequest ''target_id (contract_id) is required for debt payments'') (\<lambda>cid.
     case fetch c_id cid (t_contracts s) of
       None \<Rightarrow> Inl (BadRequest ''contract not found for this sub'')
     | Some c \<Rightarrow>
         raise_if (c_sub_id c \<noteq> sid) (BadRequest ''contract not found for this sub'') (
         raise_if (c_status c \<noteq> CS_active) (BadRequest ''contract is not active'') (Inr c)))"

definition apply_debt_payment :: "uuid \<Rightarrow> datetime \<Rightarrow> payment_declaration \<Rightarrow> uuid \<Rightarrow> db \<Rightarrow> db res" where
  "apply_debt_payment eid now d sid s =
     attempt (load_active_contract_for_sub sid (d_target_id d) s) (\<lambda>c.
     attempt (apply_event_and_recompute
        (new_event eid now (c_id c) ET_payment_applied (d_amount d) None (Some ''payment validation'')) s)
       (\<lambda>(s1, _). Inr s1))"

definition apply_buyout :: "uuid \<Rightarrow> datetime \<Rightarrow> payment_declaration \<Rightarrow> uuid \<Rightarrow> uuid \<Rightarrow> db \<Rightarrow> db res" where
  "apply_buyout eid now d sid actor_id s =
     attempt (load_active_contract_for_sub sid (d_target_id d) s) (\<lambda>c.
     attempt (apply_event_and_recompute
        (new_event eid now (c_id c) ET_buyout_paid (d_amount d) None None) s) (\<lambda>(s1, _).
     let s2 = save_contract (c_id c) (\<lambda>c. c\<lparr>c_status := CS_closed, c_updated_at := now\<rparr>) s1;
         s3 = append_audit (audit_row now (c_id c) AE_closed actor_id (Some (c_status c)) (Some CS_closed) None) s2
     in attempt (resolve_goddess_user_id (c_goddess_id c) s3) (\<lambda>goddess_user_id.
     let s4 = notify_opt goddess_user_id NT_contract_buyout_paid (Some (c_id c)) None s3;
         s5 = publish_opt goddess_user_id ''contract_state_change'' (Some (c_id c)) s4
     in Inr (publish_event (c_sub_id c) ''contract_state_change'' (Some (c_id c)) s5))))"

text \<open>The sequence of effects that recording and validating share.\<close>

definition settle :: "uuid \<Rightarrow> datetime \<Rightarrow> payment_declaration \<Rightarrow> uuid \<Rightarrow> uuid \<Rightarrow> db \<Rightarrow> db res" where
  "settle eid now d sid actor_id s =
     attempt (emit_allocation now d s) (\<lambda>s1.
     attempt (if d_category d = PC_entry then promote_sub sid s1 else Inr s1) (\<lambda>s2.
     attempt (if d_category d = PC_rolling then mark_paid sid now now s2 else Inr s2) (\<lambda>s3.
     attempt (if d_category d \<in> set debt_payment_categories then apply_debt_payment eid now d sid s3 else Inr s3) (\<lambda>s4.
     if d_category d = PC_buyout then apply_buyout eid now d sid actor_id s4 else Inr s4))))"

section \<open>Handlers\<close>

definition declared_row ::
  "uuid \<Rightarrow> datetime \<Rightarrow> string \<Rightarrow> uuid \<Rightarrow> uuid \<Rightarrow> declare_in \<Rightarrow> payment_declaration" where
  "declared_row did now proof_key sid gid p =
     \<lparr>d_id = did, d_sub_id = sid, d_goddess_id = gid, d_method_id = di_method_id p,
      d_amount = di_amount p, d_external_timestamp = di_external_timestamp p, d_note = di_note p,
      d_category = di_category p, d_status = PS_pending, d_target_id = di_target_id p,
      d_created_by = sid, d_declared_at = now, d_validated_at = None, d_validated_by = None,
      d_rejection_reason = None, d_source = DS_sub_declared, d_proof_key = Some proof_key\<rparr>"

definition recorded_row ::
  "uuid \<Rightarrow> datetime \<Rightarrow> uuid \<Rightarrow> uuid \<Rightarrow> uuid \<Rightarrow> record_in \<Rightarrow> payment_declaration" where
  "recorded_row did now actor_id sid gid p =
     \<lparr>d_id = did, d_sub_id = sid, d_goddess_id = gid, d_method_id = di_method_id p,
      d_amount = di_amount p, d_external_timestamp = di_external_timestamp p, d_note = di_note p,
      d_category = di_category p, d_status = PS_validated, d_target_id = di_target_id p,
      d_created_by = actor_id, d_declared_at = now, d_validated_at = Some now,
      d_validated_by = Some actor_id, d_rejection_reason = None, d_source = DS_goddess_recorded,
      d_proof_key = None\<rparr>"

lemma declaration_row_simps [simp]:
  "d_id (stored_declaration d) = d_id d" "d_status (stored_declaration d) = d_status d"
  "d_amount (stored_declaration d) = numeric_column 2 (d_amount d)"
  "d_category (stored_declaration d) = d_category d" "d_target_id (stored_declaration d) = d_target_id d"
  "d_id (declared_row did now key sid gid p) = did" "d_status (declared_row did now key sid gid p) = PS_pending"
  "d_sub_id (declared_row did now key sid gid p) = sid" "d_category (declared_row did now key sid gid p) = di_category p"
  "d_id (recorded_row did now act sid gid q) = did" "d_status (recorded_row did now act sid gid q) = PS_validated"
  "d_category (recorded_row did now act sid gid q) = di_category q"
  "d_amount (recorded_row did now act sid gid q) = di_amount q"
  "d_target_id (recorded_row did now act sid gid q) = di_target_id q"
  by (simp_all add: stored_declaration_def declared_row_def recorded_row_def)

definition declare_as_sub ::
  "uuid \<Rightarrow> datetime \<Rightarrow> string \<Rightarrow> user \<Rightarrow> declare_in \<Rightarrow> db \<Rightarrow> (db \<times> payment_out) res" where
  "declare_as_sub did now proof_key sub_user p s =
     attempt (check_category_for_sub sub_user (di_category p)) (\<lambda>_.
     attempt (if di_category p = PC_rolling then check_rolling_active (u_id sub_user) s else Inr ()) (\<lambda>_.
     require (u_goddess_id sub_user) (BadRequest ''sub is not linked to a goddess'') (\<lambda>goddess_id.
     attempt (get_method_for_goddess goddess_id (di_method_id p) s) (\<lambda>_.
     let d = declared_row did now proof_key (u_id sub_user) goddess_id p in
     attempt (create_declaration d s) (\<lambda>s1.
     attempt (resolve_goddess_user_id goddess_id s1) (\<lambda>goddess_user_id.
     let s2 = notify_opt goddess_user_id NT_payment_pending (Some did) None s1;
         s3 = publish_opt goddess_user_id ''payment_declared'' (Some did) s2
     in attempt (payment_to_out d s3) (\<lambda>out. Inr (s3, out))))))))"

definition record_as_goddess ::
  "uuid \<Rightarrow> uuid \<Rightarrow> datetime \<Rightarrow> user \<Rightarrow> record_in \<Rightarrow> db \<Rightarrow> (db \<times> payment_out) res" where
  "record_as_goddess did eid now goddess_user p s =
     attempt (resolve_goddess_id (u_id goddess_user) s) (\<lambda>goddess_id.
     require (user_by_id (ri_sub_id p) s) (NotFound ''sub not found or not linked to this goddess'') (\<lambda>sub.
     raise_if (u_goddess_id sub \<noteq> Some goddess_id) (NotFound ''sub not found or not linked to this goddess'') (
     attempt (check_category_for_sub sub (di_category p)) (\<lambda>_.
     attempt (if di_category p = PC_rolling then check_rolling_active (u_id sub) s else Inr ()) (\<lambda>_.
     attempt (get_method_for_goddess goddess_id (di_method_id p) s) (\<lambda>_.
     let d = recorded_row did now (u_id goddess_user) (u_id sub) goddess_id p in
     attempt (create_declaration d s) (\<lambda>s1.
     attempt (settle eid now d (u_id sub) (u_id goddess_user) s1) (\<lambda>s2.
     attempt (payment_to_out d s2) (\<lambda>out. Inr (s2, out))))))))))"

definition edit_pending_as_sub ::
  "user \<Rightarrow> uuid \<Rightarrow> edit_in \<Rightarrow> db \<Rightarrow> (db \<times> payment_out) res" where
  "edit_pending_as_sub sub_user did p s =
     attempt (declaration_or_404 did s) (\<lambda>d.
     raise_if (d_sub_id d \<noteq> u_id sub_user) (Forbidden ''declaration does not belong to this sub'') (
     raise_if (d_status d \<noteq> PS_pending) (Conflict ''only pending declarations can be edited'') (
     attempt (case ei_category p of None \<Rightarrow> Inr () | Some None \<Rightarrow> Inr ()
              | Some (Some cat) \<Rightarrow> attempt (check_category_for_sub sub_user cat) (\<lambda>_.
                  if cat = PC_rolling then check_rolling_active (u_id sub_user) s else Inr ())) (\<lambda>_.
     attempt (case ei_method_id p of None \<Rightarrow> Inr ()
              | Some m \<Rightarrow> require (u_goddess_id sub_user) (BadRequest ''sub is not linked to a goddess'')
                  (\<lambda>goddess_id. require m (NotFound ''payment method not found or not owned by this goddess'')
                  (\<lambda>mid. attempt (get_method_for_goddess goddess_id mid s) (\<lambda>_. Inr ())))) (\<lambda>_.
     raise_if (ei_amount p = Some None \<or> ei_category p = Some None) (IntegrityError ''not null'') (
     let s1 = save_declaration did (patched_row p) s
     in attempt (payment_to_out (patched_row p d) s1) (\<lambda>out. Inr (s1, out))))))))"

definition cancel_pending_as_sub :: "datetime \<Rightarrow> user \<Rightarrow> uuid \<Rightarrow> db \<Rightarrow> db res" where
  "cancel_pending_as_sub now sub_user did s =
     attempt (declaration_or_404 did s) (\<lambda>d.
     raise_if (d_sub_id d \<noteq> u_id sub_user) (Forbidden ''declaration does not belong to this sub'') (
     raise_if (d_status d \<noteq> PS_pending) (Conflict ''only pending declarations can be cancelled'') (
     Inr (save_declaration did (cancelled_row now) s))))"

definition owned_declaration :: "user \<Rightarrow> uuid \<Rightarrow> db \<Rightarrow> payment_declaration res" where
  "owned_declaration goddess_user did s =
     attempt (resolve_goddess_id (u_id goddess_user) s) (\<lambda>goddess_id.
     attempt (declaration_or_404 did s) (\<lambda>d.
     raise_if (d_goddess_id d \<noteq> goddess_id) (Forbidden ''declaration does not belong to this goddess'') (Inr d)))"

definition validate ::
  "uuid \<Rightarrow> datetime \<Rightarrow> user \<Rightarrow> uuid \<Rightarrow> payment_category option \<Rightarrow> db \<Rightarrow> (db \<times> payment_out) res" where
  "validate eid now goddess_user did recategorize_to s =
     attempt (owned_declaration goddess_user did s) (\<lambda>d.
     raise_if (d_status d \<noteq> PS_pending) (Conflict ''only pending declarations can be validated'') (
     let category = (case recategorize_to of Some cat \<Rightarrow> cat | None \<Rightarrow> d_category d) in
     require (user_by_id (d_sub_id d) s) (NotFound ''sub not found'') (\<lambda>sub.
     attempt (check_category_for_sub sub category) (\<lambda>_.
     attempt (if category = PC_rolling then check_rolling_active (d_sub_id d) s else Inr ()) (\<lambda>_.
     let d' = validated_row (u_id goddess_user) now category d;
         s1 = save_declaration did (validated_row (u_id goddess_user) now category) s
     in attempt (settle eid now d' (u_id sub) (u_id goddess_user) s1) (\<lambda>s2.
     let s3 = notify (d_sub_id d) NT_payment_validated (Some did) None s2;
         s4 = publish_event (d_sub_id d) ''validation_resolved'' (Some did) s3
     in attempt (payment_to_out d' s4) (\<lambda>out. Inr (s4, out))))))))"

definition reject ::
  "datetime \<Rightarrow> user \<Rightarrow> uuid \<Rightarrow> string \<Rightarrow> db \<Rightarrow> (db \<times> payment_out) res" where
  "reject now goddess_user did reason s =
     attempt (owned_declaration goddess_user did s) (\<lambda>d.
     raise_if (d_status d \<noteq> PS_pending) (Conflict ''only pending declarations can be rejected'') (
     let f = rejected_row (u_id goddess_user) reason now;
         s1 = save_declaration did f s;
         s2 = notify (d_sub_id d) NT_payment_rejected (Some did) None s1;
         s3 = publish_event (d_sub_id d) ''validation_resolved'' (Some did) s2
     in attempt (payment_to_out (f d) s3) (\<lambda>out. Inr (s3, out))))"

fun out_all :: "payment_declaration list \<Rightarrow> db \<Rightarrow> payment_out list res" where
  "out_all [] s = Inr []"
| "out_all (d # ds) s =
     attempt (payment_to_out d s) (\<lambda>out. attempt (out_all ds s) (\<lambda>outs. Inr (out # outs)))"

definition list_my_history :: "user \<Rightarrow> db \<Rightarrow> payment_out list res" where
  "list_my_history sub_user s = out_all (declarations_for_sub (u_id sub_user) 50 s) s"

definition list_pending :: "user \<Rightarrow> db \<Rightarrow> payment_out list res" where
  "list_pending goddess_user s =
     attempt (resolve_goddess_id (u_id goddess_user) s) (\<lambda>goddess_id.
     out_all (pending_for_goddess goddess_id 100 s) s)"

definition list_sub_payment_methods :: "user \<Rightarrow> db \<Rightarrow> payment_method list res" where
  "list_sub_payment_methods sub_user s =
     require (u_goddess_id sub_user) (BadRequest ''sub is not linked to a goddess'')
       (\<lambda>gid. Inr (methods_by_goddess gid True s))"

end
