(* ===== verification/Auth.thy ===== *)
theory Auth
  imports Users Methods
begin

text \<open>
  Sessions and invitations: \<^verbatim>\<open>daos/token_dao.py\<close>, \<^verbatim>\<open>controllers/auth_controller.py\<close>,
  the password check of \<^verbatim>\<open>core/security.py\<close>, \<^verbatim>\<open>daos/invitation_dao.py\<close> and
  \<^verbatim>\<open>controllers/invitation_controller.py\<close>. The hash functions come from libraries and are a
  parameter; random tokens, ids and the clock are arguments. The signed access token is left
  out (a library encodes it from the user's id and role), and so are the mails and the
  default profile row of a new sub.
\<close>

datatype verify_outcome = V_match | V_mismatch | V_invalid

record hashing =
  hash_token :: "string \<Rightarrow> string"
  prepare_password :: "string \<Rightarrow> string"
  argon_hash :: "string \<Rightarrow> string"
  argon_verify :: "string \<Rightarrow> string \<Rightarrow> verify_outcome"
  needs_rehash :: "string \<Rightarrow> bool"

definition hash_password :: "hashing \<Rightarrow> string \<Rightarrow> string" where
  "hash_password h plain = argon_hash h (prepare_password h plain)"

definition verify_password_with_rehash :: "hashing \<Rightarrow> string \<Rightarrow> string \<Rightarrow> bool \<times> string option" where
  "verify_password_with_rehash h plain hashed =
     (case argon_verify h hashed (prepare_password h plain) of
        V_match \<Rightarrow> if needs_rehash h hashed then (True, Some (hash_password h plain)) else (True, None)
      | V_invalid \<Rightarrow> (False, None)
      | V_mismatch \<Rightarrow>
          (case argon_verify h hashed plain of
             V_match \<Rightarrow> (True, Some (hash_password h plain))
           | _ \<Rightarrow> (False, None)))"

section \<open>Tokens\<close>

definition refresh_ttl_days :: int where "refresh_ttl_days = 30"

definition reset_ttl_minutes :: int where "reset_ttl_minutes = 60"

definition us_per_minute :: int where "us_per_minute = 60000000"

definition create_refresh_token :: "hashing \<Rightarrow> datetime \<Rightarrow> uuid \<Rightarrow> string \<Rightarrow> db \<Rightarrow> db res" where
  "create_refresh_token h now uid raw s =
     raise_if (list_ex (\<lambda>t. rt_token_hash t = hash_token h raw) (t_refresh_tokens s))
       (IntegrityError ''ix_refresh_token_token_hash'') (
     Inr (s\<lparr>t_refresh_tokens := t_refresh_tokens s @
        [\<lparr>rt_user_id = uid, rt_token_hash = hash_token h raw,
          rt_expires_at = now + days refresh_ttl_days, rt_revoked_at = None\<rparr>]\<rparr>))"

definition refresh_by_hash :: "string \<Rightarrow> db \<Rightarrow> refresh_token option res" where
  "refresh_by_hash th s = scalar_one_or_none (filter (\<lambda>t. rt_token_hash t = th) (t_refresh_tokens s))"

definition revoke :: "string \<Rightarrow> datetime \<Rightarrow> db \<Rightarrow> db" where
  "revoke th now s =
     s\<lparr>t_refresh_tokens := modify rt_token_hash th (\<lambda>t. t\<lparr>rt_revoked_at := Some now\<rparr>) (t_refresh_tokens s)\<rparr>"

definition revoke_all_refresh_for_user :: "uuid \<Rightarrow> datetime \<Rightarrow> db \<Rightarrow> db" where
  "revoke_all_refresh_for_user uid now s =
     s\<lparr>t_refresh_tokens := map (\<lambda>t. if rt_user_id t = uid \<and> rt_revoked_at t = None
          then t\<lparr>rt_revoked_at := Some now\<rparr> else t) (t_refresh_tokens s)\<rparr>"

definition create_reset_token :: "hashing \<Rightarrow> datetime \<Rightarrow> uuid \<Rightarrow> string \<Rightarrow> db \<Rightarrow> db res" where
  "create_reset_token h now uid raw s =
     raise_if (list_ex (\<lambda>t. pr_token_hash t = hash_token h raw) (t_reset_tokens s))
       (IntegrityError ''ix_password_reset_token_token_hash'') (
     Inr (s\<lparr>t_reset_tokens := t_reset_tokens s @
        [\<lparr>pr_user_id = uid, pr_token_hash = hash_token h raw,
          pr_expires_at = now + reset_ttl_minutes * us_per_minute, pr_used_at = None\<rparr>]\<rparr>))"

definition consume_reset_token ::
  "hashing \<Rightarrow> datetime \<Rightarrow> string \<Rightarrow> db \<Rightarrow> (db \<times> password_reset_token option) res" where
  "consume_reset_token h now raw s =
     attempt (scalar_one_or_none (filter (\<lambda>t. pr_token_hash t = hash_token h raw) (t_reset_tokens s))) (\<lambda>r.
     Inr (case r of
        None \<Rightarrow> (s, None)
      | Some t \<Rightarrow>
          if pr_used_at t \<noteq> None \<or> pr_expires_at t < now then (s, None)
          else (s\<lparr>t_reset_tokens := modify pr_token_hash (hash_token h raw)
                   (\<lambda>t. t\<lparr>pr_used_at := Some now\<rparr>) (t_reset_tokens s)\<rparr>,
                Some (t\<lparr>pr_used_at := Some now\<rparr>))))"

section \<open>Sign in, refresh, sign out, password reset\<close>

record token_pair =
  tp_user_id :: uuid
  tp_role :: user_role
  tp_refresh_token :: string

definition login ::
  "hashing \<Rightarrow> datetime \<Rightarrow> string \<Rightarrow> string \<Rightarrow> string \<Rightarrow> db \<Rightarrow> (db \<times> token_pair) res" where
  "login h now raw email password s =
     attempt (user_by_email email s) (\<lambda>r.
     require r (Unauthorized ''invalid credentials'') (\<lambda>user.
     let (ok, new_hash) = verify_password_with_rehash h password (u_password_hash user) in
     raise_if (\<not> ok) (Unauthorized ''invalid credentials'') (
     raise_if (u_status user \<in> {US_blacklisted, US_deleted}) (Forbidden ''account not active'') (
     let s1 = (case new_hash of None \<Rightarrow> s
               | Some nh \<Rightarrow> update_user (u_id user) (\<lambda>u. u\<lparr>u_password_hash := nh\<rparr>) s)
     in attempt (create_refresh_token h now (u_id user) raw s1) (\<lambda>s2.
     let s3 = update_user (u_id user) (\<lambda>u. u\<lparr>u_last_login_at := Some now\<rparr>) s2
     in Inr (s3, \<lparr>tp_user_id = u_id user, tp_role = u_role user, tp_refresh_token = raw\<rparr>))))))"

definition refresh ::
  "hashing \<Rightarrow> datetime \<Rightarrow> string \<Rightarrow> string \<Rightarrow> db \<Rightarrow> (db \<times> token_pair) res" where
  "refresh h now new_raw raw s =
     attempt (refresh_by_hash (hash_token h raw) s) (\<lambda>r.
     raise_if (case r of None \<Rightarrow> True | Some rt \<Rightarrow> rt_revoked_at rt \<noteq> None)
       (Unauthorized ''invalid or revoked refresh token'') (
     let rt = the r in
     raise_if (rt_expires_at rt < now) (Unauthorized ''refresh token expired'') (
     require (user_by_id (rt_user_id rt) s) (Unauthorized ''user not found'') (\<lambda>user.
     let s1 = revoke (hash_token h raw) now s
     in attempt (create_refresh_token h now (u_id user) new_raw s1) (\<lambda>s2.
     Inr (s2, \<lparr>tp_user_id = u_id user, tp_role = u_role user, tp_refresh_token = new_raw\<rparr>))))))"

definition logout :: "hashing \<Rightarrow> datetime \<Rightarrow> string \<Rightarrow> db \<Rightarrow> db res" where
  "logout h now raw s =
     attempt (refresh_by_hash (hash_token h raw) s) (\<lambda>r.
     Inr (case r of None \<Rightarrow> s
       | Some rt \<Rightarrow> if rt_revoked_at rt = None then revoke (hash_token h raw) now s else s))"

definition request_password_reset :: "hashing \<Rightarrow> datetime \<Rightarrow> string \<Rightarrow> string \<Rightarrow> db \<Rightarrow> db res" where
  "request_password_reset h now raw email s =
     attempt (user_by_email email s) (\<lambda>r.
     case r of None \<Rightarrow> Inr s | Some user \<Rightarrow> create_reset_token h now (u_id user) raw s)"

definition confirm_password_reset :: "hashing \<Rightarrow> datetime \<Rightarrow> string \<Rightarrow> string \<Rightarrow> db \<Rightarrow> db res" where
  "confirm_password_reset h now token new_password s =
     attempt (consume_reset_token h now token s) (\<lambda>(s1, r).
     require r (BadRequest ''invalid, used, or expired reset token'') (\<lambda>row.
     require (user_by_id (pr_user_id row) s1) (BadRequest ''user not found'') (\<lambda>user.
     let s2 = update_user (u_id user) (\<lambda>u. u\<lparr>u_password_hash := hash_password h new_password\<rparr>) s1
     in Inr (revoke_all_refresh_for_user (u_id user) now s2))))"

section \<open>Invitations\<close>

record invitation_create =
  ic_amount :: rat
  ic_note :: "string option"
  ic_expires_in_days :: int

definition invitation_create_valid :: "invitation_create \<Rightarrow> bool" where
  "invitation_create_valid p \<longleftrightarrow> 0 < ic_amount p \<and> places 2 (ic_amount p) \<and> ic_amount p < 10 ^ 10 \<and>
     1 \<le> ic_expires_in_days p \<and> ic_expires_in_days p \<le> 30"

datatype invitation_status = IS_active | IS_pending_entry_tribute_paid | IS_consumed | IS_expired

definition derive_status :: "datetime \<Rightarrow> invitation \<Rightarrow> user_status option \<Rightarrow> invitation_status" where
  "derive_status now i linked =
     (if n_used_at i = None
      then (if n_expires_at i > now then IS_active else IS_expired)
      else if linked = Some US_pending_entry_tribute then IS_pending_entry_tribute_paid
      else IS_consumed)"

definition create_invitation_row :: "invitation \<Rightarrow> db \<Rightarrow> db res" where
  "create_invitation_row i s =
     raise_if (\<bar>numeric_column 2 (n_entry_tribute_amount i)\<bar> \<ge> 10 ^ 10) (DataError ''invitation.entry_tribute_amount'') (
     raise_if (list_ex (\<lambda>j. n_token j = n_token i) (t_invitations s)) (IntegrityError ''ix_invitation_token'') (
     Inr (s\<lparr>t_invitations := insert_row
        (i\<lparr>n_entry_tribute_amount := numeric_column 2 (n_entry_tribute_amount i)\<rparr>) (t_invitations s)\<rparr>)))"

definition invitation_by_token :: "string \<Rightarrow> db \<Rightarrow> (invitation \<times> goddess) option" where
  "invitation_by_token token s =
     (case [(i, g). i \<leftarrow> t_invitations s, n_token i = token, g \<leftarrow> t_goddesses s, g_id g = n_goddess_id i] of
        [] \<Rightarrow> None | row # _ \<Rightarrow> Some row)"

definition consume_invitation :: "uuid \<Rightarrow> uuid \<Rightarrow> datetime \<Rightarrow> db \<Rightarrow> db" where
  "consume_invitation nid uid now s =
     s\<lparr>t_invitations := modify n_id nid
        (\<lambda>i. i\<lparr>n_used_at := Some now, n_used_by_user_id := Some uid\<rparr>) (t_invitations s)\<rparr>"

definition invitation_used_by :: "uuid \<Rightarrow> db \<Rightarrow> invitation option res" where
  "invitation_used_by uid s =
     scalar_one_or_none (filter (\<lambda>i. n_used_by_user_id i = Some uid) (t_invitations s))"

definition invitations_by_goddess :: "uuid \<Rightarrow> db \<Rightarrow> invitation list" where
  "invitations_by_goddess gid s =
     sort_key (\<lambda>i. - n_created_at i) (filter (\<lambda>i. n_goddess_id i = gid) (t_invitations s))"

definition count_active_invitations :: "uuid \<Rightarrow> datetime \<Rightarrow> db \<Rightarrow> nat" where
  "count_active_invitations gid now s =
     length (filter (\<lambda>i. n_goddess_id i = gid \<and> n_used_at i = None \<and> n_expires_at i > now) (t_invitations s))"

definition invitation_for_goddess :: "uuid \<Rightarrow> uuid \<Rightarrow> db \<Rightarrow> invitation option res" where
  "invitation_for_goddess nid gid s =
     scalar_one_or_none (filter (\<lambda>i. n_id i = nid \<and> n_goddess_id i = gid) (t_invitations s))"

definition count_consumed_invitations :: "uuid \<Rightarrow> db \<Rightarrow> nat" where
  "count_consumed_invitations gid s =
     length (filter (\<lambda>i. n_goddess_id i = gid \<and> n_used_by_user_id i \<noteq> None) (t_invitations s))"

definition get_entry_tribute_amount :: "uuid \<Rightarrow> db \<Rightarrow> rat option res" where
  "get_entry_tribute_amount uid s =
     attempt (invitation_used_by uid s) (\<lambda>r. Inr (map_option n_entry_tribute_amount r))"

definition create_invitation ::
  "uuid \<Rightarrow> datetime \<Rightarrow> string \<Rightarrow> uuid \<Rightarrow> invitation_create \<Rightarrow> db \<Rightarrow>
   (db \<times> invitation \<times> invitation_status) res" where
  "create_invitation nid now token goddess_user_id p s =
     attempt (resolve_goddess_id goddess_user_id s) (\<lambda>gid.
     let i = \<lparr>n_id = nid, n_token = token, n_goddess_id = gid, n_entry_tribute_amount = ic_amount p,
              n_note = ic_note p, n_expires_at = now + days (ic_expires_in_days p), n_used_at = None,
              n_used_by_user_id = None, n_created_at = now\<rparr>
     in attempt (create_invitation_row i s) (\<lambda>s1. Inr (s1, i, derive_status now i None)))"

text \<open>The checks the public page and the signup share.\<close>

definition open_invitation :: "datetime \<Rightarrow> string \<Rightarrow> db \<Rightarrow> (invitation \<times> goddess) res" where
  "open_invitation now token s =
     require (invitation_by_token token s) (NotFound ''invitation not found'') (\<lambda>(i, g).
     raise_if (n_expires_at i < now) (Conflict ''invitation has expired'') (
     raise_if (n_used_at i \<noteq> None) (Conflict ''invitation has already been used'') (Inr (i, g))))"

record signup =
  su_email :: string
  su_password :: string
  su_username :: string
  su_first_name :: "string option"
  su_last_name :: "string option"
  su_gender :: "string option"
  su_pronouns :: "string option"
  su_location :: "string option"
  su_timezone :: string
  su_date_of_birth :: int
  su_real_name :: "string option"
  su_gender_id :: "uuid option"

text \<open>The age check of the body, on the day number of today.\<close>

definition age_on :: "int \<Rightarrow> int \<Rightarrow> int" where
  "age_on today born =
     year_of today - year_of born -
       (if (month_of today, day_of today) < (month_of born, day_of born) then 1 else 0)"

definition signup_valid :: "int \<Rightarrow> signup \<Rightarrow> bool" where
  "signup_valid today p \<longleftrightarrow> length (su_password p) \<ge> 8 \<and> length (su_username p) \<ge> 2 \<and>
     \<not> age_on today (su_date_of_birth p) < 18"

definition create_user :: "user \<Rightarrow> db \<Rightarrow> db res" where
  "create_user u s =
     raise_if (list_ex (\<lambda>v. u_username v = u_username u) (t_users s)) (IntegrityError ''ix_user_username'') (
     raise_if (list_ex (\<lambda>v. u_email v = u_email u) (t_users s)) (IntegrityError ''ix_user_email'') (
     Inr (s\<lparr>t_users := insert_row u (t_users s)\<rparr>)))"

definition consume ::
  "hashing \<Rightarrow> uuid \<Rightarrow> datetime \<Rightarrow> string \<Rightarrow> string \<Rightarrow> signup \<Rightarrow> db \<Rightarrow> (db \<times> token_pair) res" where
  "consume h uid now raw token p s =
     attempt (open_invitation now token s) (\<lambda>(i, g).
     attempt (user_by_email (su_email p) s) (\<lambda>existing_email.
     raise_if (existing_email \<noteq> None) (Conflict ''email already registered'') (
     attempt (user_by_username (su_username p) s) (\<lambda>existing_username.
     raise_if (existing_username \<noteq> None) (Conflict ''username already taken'') (
     let user = \<lparr>u_id = uid, u_goddess_id = Some (g_id g), u_username = su_username p,
                 u_email = su_email p, u_password_hash = hash_password h (su_password p),
                 u_role = R_sub, u_status = US_pending_entry_tribute,
                 u_first_name = su_first_name p, u_last_name = su_last_name p, u_avatar_key = AK_default,
                 u_payment_handle = None, u_bio = None, u_theme_preference = ''system'',
                 u_last_login_at = None, u_gender = su_gender p, u_pronouns = su_pronouns p,
                 u_location = su_location p, u_timezone = Some (su_timezone p),
                 u_date_of_birth = Some (su_date_of_birth p), u_real_name = su_real_name p\<rparr>
     in attempt (create_user user s) (\<lambda>s1.
     let s2 = consume_invitation (n_id i) uid now s1
     in attempt (create_refresh_token h now uid raw s2) (\<lambda>s3.
     Inr (s3, \<lparr>tp_user_id = uid, tp_role = R_sub, tp_refresh_token = raw\<rparr>))))))))"

definition linked_status :: "invitation \<Rightarrow> db \<Rightarrow> user_status option" where
  "linked_status i s =
     (case n_used_by_user_id i of None \<Rightarrow> None | Some uid \<Rightarrow> map_option u_status (user_by_id uid s))"

definition list_invitations ::
  "datetime \<Rightarrow> uuid \<Rightarrow> db \<Rightarrow> (invitation \<times> invitation_status) list res" where
  "list_invitations now goddess_user_id s =
     attempt (resolve_goddess_id goddess_user_id s) (\<lambda>gid.
     Inr (map (\<lambda>i. (i, derive_status now i (linked_status i s))) (invitations_by_goddess gid s)))"

text \<open>The checks of resending the mail; the message names the status.\<close>

definition resend_invitation :: "datetime \<Rightarrow> uuid \<Rightarrow> uuid \<Rightarrow> db \<Rightarrow> invitation res" where
  "resend_invitation now goddess_user_id nid s =
     attempt (resolve_goddess_id goddess_user_id s) (\<lambda>gid.
     attempt (invitation_for_goddess nid gid s) (\<lambda>r.
     require r (NotFound ''invitation not found'') (\<lambda>i.
     raise_if (derive_status now i None \<noteq> IS_active) (Conflict ''invitation is not active'') (Inr i))))"

end
