(* ===== verification/Blacklist.thy ===== *)
theory Blacklist
  imports Auth Negotiation
begin

text \<open>
  Breach and forgiveness: \<^verbatim>\<open>controllers/blacklist_controller.py\<close> and
  \<^verbatim>\<open>daos/blacklist_dao.py\<close>.
\<close>

definition add_entry :: "blacklist_entry \<Rightarrow> db \<Rightarrow> db res" where
  "add_entry b s =
     raise_if (\<bar>numeric_column 2 (b_balance_snapshot b)\<bar> \<ge> 10 ^ 10) (DataError ''blacklist_entry.balance_snapshot'') (
     Inr (s\<lparr>t_blacklist := insert_row
        (b\<lparr>b_balance_snapshot := numeric_column 2 (b_balance_snapshot b)\<rparr>) (t_blacklist s)\<rparr>))"

definition entries_for_goddess :: "uuid \<Rightarrow> db \<Rightarrow> blacklist_entry list" where
  "entries_for_goddess gid s =
     sort_key (\<lambda>b. - b_breached_at b) (filter (\<lambda>b. b_goddess_id b = gid) (t_blacklist s))"

definition forgiven_row :: "rat \<Rightarrow> datetime \<Rightarrow> blacklist_entry \<Rightarrow> blacklist_entry" where
  "forgiven_row fee now b = b\<lparr>b_forgiven_at := Some now, b_reinstatement_fee_paid := Some fee\<rparr>"

definition breach_contract :: "datetime \<Rightarrow> uuid \<Rightarrow> string option \<Rightarrow> debt_contract \<Rightarrow> db \<Rightarrow> db" where
  "breach_contract now actor reason c s =
     append_audit (audit_row now (c_id c) AE_breached actor (Some (c_status c)) (Some CS_breached)
         (map_option NoteText reason))
       (save_contract (c_id c) (\<lambda>x. x\<lparr>c_status := CS_breached, c_updated_at := now\<rparr>) s)"

definition breach_contracts ::
  "datetime \<Rightarrow> uuid \<Rightarrow> string option \<Rightarrow> debt_contract list \<Rightarrow> db \<Rightarrow> db" where
  "breach_contracts now actor reason cs s = fold (breach_contract now actor reason) cs s"

definition balance_total :: "debt_contract list \<Rightarrow> rat" where
  "balance_total cs = foldl (\<lambda>t c. ctx (t + c_balance c)) 0 cs"

definition breach ::
  "uuid \<Rightarrow> datetime \<Rightarrow> user \<Rightarrow> uuid \<Rightarrow> string option \<Rightarrow> db \<Rightarrow> (db \<times> blacklist_entry) res" where
  "breach bid now goddess_user sub_id reason s =
     attempt (resolve_goddess_id (u_id goddess_user) s) (\<lambda>goddess_id.
     require (user_by_id sub_id s) (NotFound ''sub not found or not linked to this goddess'') (\<lambda>sub.
     raise_if (u_goddess_id sub \<noteq> Some goddess_id) (NotFound ''sub not found or not linked to this goddess'') (
     raise_if (u_status sub = US_blacklisted) (Conflict ''sub is already blacklisted'') (
     let active = active_contracts_for_sub sub_id s;
         snapshot = balance_total active;
         s1 = breach_contracts now (u_id goddess_user) reason active s;
         s2 = set_user_status sub_id US_blacklisted s1;
         s3 = revoke_all_refresh_for_user sub_id now s2;
         entry = \<lparr>b_id = bid, b_goddess_id = goddess_id, b_sub_id = sub_id, b_reason = reason,
                  b_balance_snapshot = snapshot, b_reinstatement_fee_paid = None,
                  b_breached_at = now, b_forgiven_at = None\<rparr>
     in attempt (add_entry entry s3) (\<lambda>s4.
     Inr (notify sub_id NT_contract_breached (Some bid) None s4, entry))))))"

record breach_preview_out =
  bpo_active_contracts :: nat
  bpo_balance :: rat
  bpo_will_blacklist :: bool

definition breach_preview :: "user \<Rightarrow> string \<Rightarrow> db \<Rightarrow> breach_preview_out res" where
  "breach_preview goddess_user username s =
     attempt (resolve_goddess_id (u_id goddess_user) s) (\<lambda>goddess_id.
     attempt (user_by_username username s) (\<lambda>r.
     require r (NotFound ''sub not found or not linked to this goddess'') (\<lambda>sub.
     raise_if (u_goddess_id sub \<noteq> Some goddess_id) (NotFound ''sub not found or not linked to this goddess'') (
     let active = active_contracts_for_sub (u_id sub) s
     in Inr \<lparr>bpo_active_contracts = length active, bpo_balance = balance_total active,
             bpo_will_blacklist = (u_status sub \<noteq> US_blacklisted)\<rparr>))))"

definition list_blacklist :: "user \<Rightarrow> db \<Rightarrow> blacklist_entry list res" where
  "list_blacklist goddess_user s =
     attempt (resolve_goddess_id (u_id goddess_user) s) (\<lambda>gid. Inr (entries_for_goddess gid s))"

definition forgive ::
  "datetime \<Rightarrow> user \<Rightarrow> uuid \<Rightarrow> rat \<Rightarrow> db \<Rightarrow> (db \<times> blacklist_entry) res" where
  "forgive now goddess_user bid fee s =
     attempt (resolve_goddess_id (u_id goddess_user) s) (\<lambda>goddess_id.
     require (fetch b_id bid (t_blacklist s)) (NotFound ''blacklist entry not found'') (\<lambda>entry.
     raise_if (b_goddess_id entry \<noteq> goddess_id) (Forbidden ''entry does not belong to this goddess'') (
     raise_if (b_forgiven_at entry \<noteq> None) (Conflict ''entry is already forgiven'') (
     raise_if (fee < 0) (BadRequest ''reinstatement fee must be non-negative'') (
     raise_if (\<bar>numeric_column 2 fee\<bar> \<ge> 10 ^ 10) (DataError ''blacklist_entry.reinstatement_fee_paid'') (
     let s1 = s\<lparr>t_blacklist := modify b_id bid (forgiven_row (numeric_column 2 fee) now) (t_blacklist s)\<rparr>;
         s2 = set_user_status (b_sub_id entry) US_active s1
     in Inr (notify (b_sub_id entry) NT_contract_forgiven (Some bid) None s2, forgiven_row fee now entry)))))))"

end
