(* ===== verification/Penalty.thy ===== *)
theory Penalty
  imports Users
begin

text \<open>
  Merit points and the penalty engine: \<^verbatim>\<open>daos/merit_event_dao.py\<close>,
  \<^verbatim>\<open>services/merits/credits.py\<close>, \<^verbatim>\<open>daos/penalty_rule_dao.py\<close>,
  \<^verbatim>\<open>services/penalty/engine.py\<close>, \<^verbatim>\<open>services/penalty/defaults.py\<close> and
  \<^verbatim>\<open>controllers/penalty_rule_controller.py\<close>.
\<close>

section \<open>Merit events\<close>

text \<open>The partial unique index \<^verbatim>\<open>uq_merit_event_source\<close> on kind and source.\<close>

definition merit_source_exists :: "merit_source_kind \<Rightarrow> uuid option \<Rightarrow> merit_event list \<Rightarrow> bool" where
  "merit_source_exists kind src evs \<longleftrightarrow>
     src \<noteq> None \<and> list_ex (\<lambda>e. me_source_kind e = kind \<and> me_source_id e = src) evs"

definition insert_idempotent :: "merit_event \<Rightarrow> db \<Rightarrow> db \<times> bool" where
  "insert_idempotent ev s =
     (if merit_source_exists (me_source_kind ev) (me_source_id ev) (t_merits s) then (s, False)
      else (s\<lparr>t_merits := t_merits s @ [ev]\<rparr>, True))"

definition merits_of :: "uuid \<Rightarrow> uuid \<Rightarrow> db \<Rightarrow> merit_event list" where
  "merits_of sid gid s = filter (\<lambda>e. me_sub_id e = sid \<and> me_goddess_id e = gid) (t_merits s)"

definition balance_for_sub :: "uuid \<Rightarrow> uuid \<Rightarrow> db \<Rightarrow> int \<times> datetime option \<times> nat" where
  "balance_for_sub sid gid s =
     (let evs = merits_of sid gid s; ts = map me_created_at evs
      in (sum_list (map me_delta evs), (if ts = [] then None else Some (foldr max ts (hd ts))), length evs))"

definition merits_for_sub :: "uuid \<Rightarrow> uuid \<Rightarrow> nat \<Rightarrow> db \<Rightarrow> merit_event list" where
  "merits_for_sub sid gid limit s = take limit (sort_key (\<lambda>e. - me_created_at e) (merits_of sid gid s))"

definition merit_row ::
  "datetime \<Rightarrow> uuid \<Rightarrow> uuid \<Rightarrow> merit_source_kind \<Rightarrow> uuid option \<Rightarrow> int \<Rightarrow> merit_event" where
  "merit_row now sid gid kind src delta =
     \<lparr>me_sub_id = sid, me_goddess_id = gid, me_source_kind = kind, me_source_id = src,
      me_delta = delta, me_created_at = now\<rparr>"

section \<open>Credits\<close>

definition record_ritual_complete :: "datetime \<Rightarrow> ritual_occurrence \<Rightarrow> ritual \<Rightarrow> db \<Rightarrow> db \<times> bool" where
  "record_ritual_complete now occ r s =
     insert_idempotent (merit_row now (o_sub_id occ) (o_goddess_id occ) MS_ritual_complete
       (Some (o_id occ)) (i_points_on_complete r)) s"

definition record_ritual_miss :: "datetime \<Rightarrow> ritual_occurrence \<Rightarrow> ritual \<Rightarrow> db \<Rightarrow> db \<times> bool" where
  "record_ritual_miss now occ r s =
     insert_idempotent (merit_row now (o_sub_id occ) (o_goddess_id occ) MS_ritual_miss
       (Some (o_id occ)) (i_points_on_miss r)) s"

definition record_task_complete :: "datetime \<Rightarrow> task \<Rightarrow> db \<Rightarrow> db \<times> bool" where
  "record_task_complete now t s =
     insert_idempotent (merit_row now (k_sub_id t) (k_goddess_id t) MS_task_complete
       (Some (k_id t)) (k_points_on_complete t)) s"

definition record_task_miss :: "datetime \<Rightarrow> task \<Rightarrow> db \<Rightarrow> db \<times> bool" where
  "record_task_miss now t s =
     insert_idempotent (merit_row now (k_sub_id t) (k_goddess_id t) MS_task_miss
       (Some (k_id t)) (k_points_on_miss t)) s"

section \<open>Penalty rules\<close>

definition rule_fee_ok :: "rat option \<Rightarrow> bool" where
  "rule_fee_ok v = (case v of None \<Rightarrow> True | Some x \<Rightarrow> 0 \<le> x \<and> x \<le> 100)"

definition rules_for_goddess :: "uuid \<Rightarrow> db \<Rightarrow> penalty_rule list" where
  "rules_for_goddess gid s = sort_key p_created_at (filter (\<lambda>p. p_goddess_id p = gid) (t_rules s))"

definition get_rule :: "uuid \<Rightarrow> db \<Rightarrow> penalty_rule res" where
  "get_rule rid s = require (fetch p_id rid (t_rules s)) (NotFound ''penalty_rule not found'') Inr"

definition create_rule :: "penalty_rule \<Rightarrow> db \<Rightarrow> db res" where
  "create_rule p s =
     raise_if (\<not> rule_fee_ok (p_fee_percent p)) (IntegrityError ''ck_penalty_rule_fee_percent_range'') (
     Inr (s\<lparr>t_rules := insert_row p (t_rules s)\<rparr>))"

definition update_rule :: "uuid \<Rightarrow> (penalty_rule \<Rightarrow> penalty_rule) \<Rightarrow> db \<Rightarrow> db" where
  "update_rule rid f s = s\<lparr>t_rules := modify p_id rid f (t_rules s)\<rparr>"

text \<open>Deleting a rule deletes its log (\<^verbatim>\<open>ondelete="CASCADE"\<close>).\<close>

definition delete_rule :: "uuid \<Rightarrow> db \<Rightarrow> db" where
  "delete_rule rid s =
     s\<lparr>t_rules := filter (\<lambda>p. p_id p \<noteq> rid) (t_rules s),
       t_penalty_log := filter (\<lambda>e. pe_rule_id e \<noteq> rid) (t_penalty_log s)\<rparr>"

definition first_row :: "'a list \<Rightarrow> 'a option" where
  "first_row xs = (case xs of [] \<Rightarrow> None | x # _ \<Rightarrow> Some x)"

definition find_best ::
  "uuid \<Rightarrow> uuid \<Rightarrow> penalty_trigger \<Rightarrow> int option \<Rightarrow> bool \<Rightarrow> db \<Rightarrow> penalty_rule option" where
  "find_best gid sid trig days_late sub_scoped s =
     (let rows = filter (\<lambda>p. p_goddess_id p = gid \<and> p_trigger p = trig \<and> p_active p \<and>
                   p_sub_id p = (if sub_scoped then Some sid else None)) (t_rules s)
      in case days_late of
           Some d \<Rightarrow>
             let eligible = filter (\<lambda>p. case p_min_days_late p of None \<Rightarrow> True | Some m \<Rightarrow> m \<le> d) rows
             in first_row (sort_key (\<lambda>p. case p_min_days_late p of Some m \<Rightarrow> (0 :: int, - m) | None \<Rightarrow> (1, 0)) eligible)
         | None \<Rightarrow> first_row (sort_key (\<lambda>p. - p_created_at p) rows))"

definition find_matching_rule ::
  "uuid \<Rightarrow> uuid \<Rightarrow> penalty_trigger \<Rightarrow> int option \<Rightarrow> db \<Rightarrow> penalty_rule option" where
  "find_matching_rule gid sid trig days_late s =
     (case find_best gid sid trig days_late True s of
        Some p \<Rightarrow> Some p
      | None \<Rightarrow> find_best gid sid trig days_late False s)"

definition fired_within_cooldown ::
  "uuid \<Rightarrow> uuid \<Rightarrow> string \<Rightarrow> uuid option \<Rightarrow> datetime \<Rightarrow> int \<Rightarrow> db \<Rightarrow> bool" where
  "fired_within_cooldown rid sid kind src now cooldown_hours s =
     list_ex (\<lambda>e. pe_rule_id e = rid \<and> pe_sub_id e = sid \<and> pe_source_kind e = kind \<and>
        pe_created_at e \<ge> now - cooldown_hours * us_per_hour \<and> pe_source_id e = src) (t_penalty_log s)"

definition log_event ::
  "datetime \<Rightarrow> penalty_rule \<Rightarrow> uuid \<Rightarrow> penalty_trigger \<Rightarrow> penalty_action \<Rightarrow> int \<Rightarrow> string \<Rightarrow>
   uuid option \<Rightarrow> db \<Rightarrow> db" where
  "log_event now p sid trig act delta kind src s =
     s\<lparr>t_penalty_log := t_penalty_log s @
        [\<lparr>pe_rule_id = p_id p, pe_sub_id = sid, pe_goddess_id = p_goddess_id p, pe_trigger = trig,
          pe_action = act, pe_points_delta = delta, pe_source_kind = kind, pe_source_id = src,
          pe_created_at = now\<rparr>]\<rparr>"

section \<open>The engine\<close>

definition merit_source_kind_for :: "string \<Rightarrow> merit_source_kind res" where
  "merit_source_kind_for kind =
     (if kind = ''ritual_miss'' then Inr MS_ritual_miss
      else if kind = ''task_miss'' then Inr MS_task_miss
      else if kind = ''contract_miss'' then Inr MS_contract_miss
      else if kind = ''rolling_late'' then Inr MS_rolling_late
      else Inl (ValueError ''unsupported penalty source_kind''))"

definition emit_merit_event ::
  "datetime \<Rightarrow> uuid \<Rightarrow> uuid \<Rightarrow> string \<Rightarrow> uuid option \<Rightarrow> int \<Rightarrow> db \<Rightarrow> (db \<times> bool) res" where
  "emit_merit_event now gid sid kind src delta s =
     attempt (merit_source_kind_for kind) (\<lambda>k.
     Inr (insert_idempotent (merit_row now sid gid k src delta) s))"

definition apply_penalty ::
  "datetime \<Rightarrow> uuid \<Rightarrow> uuid \<Rightarrow> penalty_trigger \<Rightarrow> string \<Rightarrow> uuid option \<Rightarrow> int \<Rightarrow> int option \<Rightarrow> db \<Rightarrow>
   (db \<times> int) res" where
  "apply_penalty now gid sid trig kind src default_delta days_late s =
     (case find_matching_rule gid sid trig days_late s of
        None \<Rightarrow>
          if default_delta = 0 then Inr (s, 0)
          else attempt (emit_merit_event now gid sid kind src default_delta s) (\<lambda>(s1, _).
               Inr (s1, default_delta))
      | Some rule \<Rightarrow>
          if fired_within_cooldown (p_id rule) sid kind src now (p_cooldown_hours rule) s
          then Inr (s, 0)
          else attempt (if p_action rule = PA_apply_points
                        then attempt (emit_merit_event now gid sid kind src (p_points_delta rule) s)
                               (\<lambda>(s1, inserted). Inr (s1, if inserted then p_points_delta rule else 0))
                        else Inr (s, 0)) (\<lambda>(s1, applied_delta).
               Inr (log_event now rule sid trig (p_action rule) applied_delta kind src s1, applied_delta)))"

section \<open>Default rules of a new goddess\<close>

record rule_spec =
  rs_name :: string
  rs_trigger :: penalty_trigger
  rs_action :: penalty_action
  rs_points_delta :: int
  rs_fee_amount :: "rat option"
  rs_fee_percent :: "rat option"
  rs_min_days_late :: int
  rs_cooldown_hours :: int

definition default_rules :: "rule_spec list" where
  "default_rules =
     [\<lparr>rs_name = ''late_2d_notify'', rs_trigger = PT_rolling_late, rs_action = PA_notify_only,
       rs_points_delta = 0, rs_fee_amount = None, rs_fee_percent = None, rs_min_days_late = 2,
       rs_cooldown_hours = 48\<rparr>,
      \<lparr>rs_name = ''late_7d_5pct_fee'', rs_trigger = PT_rolling_late, rs_action = PA_apply_fee,
       rs_points_delta = - 3, rs_fee_amount = None, rs_fee_percent = Some 5, rs_min_days_late = 7,
       rs_cooldown_hours = 168\<rparr>,
      \<lparr>rs_name = ''late_14d_breach_warn'', rs_trigger = PT_rolling_late, rs_action = PA_notify_only,
       rs_points_delta = - 10, rs_fee_amount = None, rs_fee_percent = None, rs_min_days_late = 14,
       rs_cooldown_hours = 336\<rparr>]"

definition default_tiers :: "(string \<times> string \<times> int) list" where
  "default_tiers = [(''bronze'', ''1 month perfect'', 30), (''silver'', ''3 months perfect'', 90),
     (''gold'', ''6 months perfect'', 180), (''crown'', ''12 months perfect'', 365)]"

definition spec_rule :: "(string \<Rightarrow> uuid) \<Rightarrow> datetime \<Rightarrow> uuid \<Rightarrow> rule_spec \<Rightarrow> penalty_rule" where
  "spec_rule fresh now gid sp =
     \<lparr>p_id = fresh (rs_name sp), p_goddess_id = gid, p_sub_id = None, p_trigger = rs_trigger sp,
      p_action = rs_action sp, p_points_delta = rs_points_delta sp, p_fee_amount = rs_fee_amount sp,
      p_name = Some (rs_name sp), p_fee_percent = rs_fee_percent sp,
      p_min_days_late = Some (rs_min_days_late sp), p_cooldown_hours = rs_cooldown_hours sp,
      p_active = True, p_created_at = now, p_updated_at = now\<rparr>"

definition spec_tier :: "(string \<Rightarrow> uuid) \<Rightarrow> datetime \<Rightarrow> uuid \<Rightarrow> string \<times> string \<times> int \<Rightarrow> reward_tier" where
  "spec_tier fresh now gid sp = (case sp of (name, description, cost) \<Rightarrow>
     \<lparr>w_id = fresh name, w_goddess_id = gid, w_name = name, w_description = Some description,
      w_cost = cost, w_active = True, w_created_at = now, w_updated_at = now\<rparr>)"

definition existing_rule_names :: "uuid \<Rightarrow> db \<Rightarrow> string list" where
  "existing_rule_names gid s =
     List.map_filter p_name (filter (\<lambda>p. p_goddess_id p = gid) (t_rules s))"

definition existing_tier_names :: "uuid \<Rightarrow> db \<Rightarrow> string list" where
  "existing_tier_names gid s = map w_name (filter (\<lambda>w. w_goddess_id w = gid) (t_rewards s))"

definition seed_defaults_for_goddess :: "(string \<Rightarrow> uuid) \<Rightarrow> datetime \<Rightarrow> uuid \<Rightarrow> db \<Rightarrow> db" where
  "seed_defaults_for_goddess fresh now gid s =
     s\<lparr>t_rules := t_rules s @ map (spec_rule fresh now gid)
          (filter (\<lambda>sp. rs_name sp \<notin> set (existing_rule_names gid s)) default_rules),
       t_rewards := t_rewards s @ map (spec_tier fresh now gid)
          (filter (\<lambda>sp. fst sp \<notin> set (existing_tier_names gid s)) default_tiers)\<rparr>"

section \<open>Rule management\<close>

record rule_in =
  rn_sub_id :: "uuid option"
  rn_trigger :: penalty_trigger
  rn_action :: penalty_action
  rn_points_delta :: int
  rn_fee_amount :: "rat option"
  rn_name :: "string option"
  rn_fee_percent :: "rat option"
  rn_min_days_late :: "int option"
  rn_cooldown_hours :: int
  rn_active :: bool

definition rule_in_valid :: "rule_in \<Rightarrow> bool" where
  "rule_in_valid p \<longleftrightarrow>
     (case rn_fee_amount p of None \<Rightarrow> True | Some a \<Rightarrow> places 2 a \<and> \<bar>a\<bar> < 10 ^ 10) \<and>
     (case rn_fee_percent p of None \<Rightarrow> True | Some a \<Rightarrow> places 2 a \<and> \<bar>a\<bar> < 10 ^ 3) \<and>
     (case rn_min_days_late p of None \<Rightarrow> True | Some d \<Rightarrow> 0 \<le> d) \<and> 0 \<le> rn_cooldown_hours p"

text \<open>A patch sends the fields that are \<open>Some\<close>.\<close>

record rule_update =
  ru_sub_id :: "uuid option option"
  ru_trigger :: "penalty_trigger option"
  ru_action :: "penalty_action option"
  ru_points_delta :: "int option"
  ru_fee_amount :: "rat option option"
  ru_name :: "string option option"
  ru_fee_percent :: "rat option option"
  ru_min_days_late :: "int option option"
  ru_cooldown_hours :: "int option"
  ru_active :: "bool option"

definition patch_value :: "'a option \<Rightarrow> 'a \<Rightarrow> 'a" where
  "patch_value v old = (case v of None \<Rightarrow> old | Some x \<Rightarrow> x)"

definition rule_update_empty :: "rule_update \<Rightarrow> bool" where
  "rule_update_empty u \<longleftrightarrow> ru_sub_id u = None \<and> ru_trigger u = None \<and> ru_action u = None \<and>
     ru_points_delta u = None \<and> ru_fee_amount u = None \<and> ru_name u = None \<and>
     ru_fee_percent u = None \<and> ru_min_days_late u = None \<and> ru_cooldown_hours u = None \<and>
     ru_active u = None"

definition patch_rule :: "rule_update \<Rightarrow> datetime \<Rightarrow> penalty_rule \<Rightarrow> penalty_rule" where
  "patch_rule u now p = p\<lparr>p_sub_id := patch_value (ru_sub_id u) (p_sub_id p),
     p_trigger := patch_value (ru_trigger u) (p_trigger p),
     p_action := patch_value (ru_action u) (p_action p),
     p_points_delta := patch_value (ru_points_delta u) (p_points_delta p),
     p_fee_amount := patch_value (ru_fee_amount u) (p_fee_amount p),
     p_name := patch_value (ru_name u) (p_name p),
     p_fee_percent := patch_value (ru_fee_percent u) (p_fee_percent p),
     p_min_days_late := patch_value (ru_min_days_late u) (p_min_days_late p),
     p_cooldown_hours := patch_value (ru_cooldown_hours u) (p_cooldown_hours p),
     p_active := patch_value (ru_active u) (p_active p), p_updated_at := now\<rparr>"

definition validate_fee_percent :: "rat option \<Rightarrow> unit res" where
  "validate_fee_percent v =
     raise_if (\<not> rule_fee_ok v) (Validation ''fee_percent must be between 0 and 100'') (Inr ())"

definition require_sub_under_goddess :: "uuid \<Rightarrow> uuid \<Rightarrow> db \<Rightarrow> user res" where
  "require_sub_under_goddess gid sid s =
     require (user_by_id sid s) (NotFound ''sub not found'') (\<lambda>sub.
     raise_if (u_role sub \<noteq> R_sub) (NotFound ''sub not found'') (
     raise_if (u_goddess_id sub \<noteq> Some gid) (Forbidden ''sub does not belong to this goddess'') (Inr sub)))"

definition rule_sub_check :: "uuid \<Rightarrow> uuid option \<Rightarrow> db \<Rightarrow> unit res" where
  "rule_sub_check gid sid s =
     (case sid of None \<Rightarrow> Inr ()
      | Some i \<Rightarrow> raise_if (case user_by_id i s of None \<Rightarrow> True | Some u \<Rightarrow> u_goddess_id u \<noteq> Some gid)
          (BadRequest ''sub not found or not linked to this goddess'') (Inr ()))"

definition require_owned_rule :: "uuid \<Rightarrow> uuid \<Rightarrow> db \<Rightarrow> penalty_rule res" where
  "require_owned_rule gid rid s =
     attempt (get_rule rid s) (\<lambda>rule.
     raise_if (p_goddess_id rule \<noteq> gid) (Forbidden ''penalty rule does not belong to this goddess'') (Inr rule))"

definition list_rules :: "user \<Rightarrow> db \<Rightarrow> penalty_rule list res" where
  "list_rules goddess_user s =
     attempt (resolve_goddess_id (u_id goddess_user) s) (\<lambda>gid. Inr (rules_for_goddess gid s))"

definition rule_create :: "uuid \<Rightarrow> datetime \<Rightarrow> user \<Rightarrow> rule_in \<Rightarrow> db \<Rightarrow> (db \<times> penalty_rule) res" where
  "rule_create rid now goddess_user p s =
     attempt (resolve_goddess_id (u_id goddess_user) s) (\<lambda>gid.
     attempt (rule_sub_check gid (rn_sub_id p) s) (\<lambda>_.
     attempt (validate_fee_percent (rn_fee_percent p)) (\<lambda>_.
     let rule = \<lparr>p_id = rid, p_goddess_id = gid, p_sub_id = rn_sub_id p, p_trigger = rn_trigger p,
       p_action = rn_action p, p_points_delta = rn_points_delta p, p_fee_amount = rn_fee_amount p,
       p_name = rn_name p, p_fee_percent = rn_fee_percent p, p_min_days_late = rn_min_days_late p,
       p_cooldown_hours = rn_cooldown_hours p, p_active = rn_active p, p_created_at = now,
       p_updated_at = now\<rparr>
     in attempt (create_rule rule s) (\<lambda>s1. Inr (s1, rule)))))"

definition rule_update_handler ::
  "datetime \<Rightarrow> user \<Rightarrow> uuid \<Rightarrow> rule_update \<Rightarrow> db \<Rightarrow> (db \<times> penalty_rule) res" where
  "rule_update_handler now goddess_user rid u s =
     attempt (resolve_goddess_id (u_id goddess_user) s) (\<lambda>gid.
     attempt (require_owned_rule gid rid s) (\<lambda>rule.
     attempt (rule_sub_check gid (patch_value (ru_sub_id u) None) s) (\<lambda>_.
     attempt (validate_fee_percent (patch_value (ru_fee_percent u) None)) (\<lambda>_.
     if rule_update_empty u then Inr (s, rule)
     else Inr (update_rule rid (patch_rule u now) s, patch_rule u now rule)))))"

definition rule_delete :: "user \<Rightarrow> uuid \<Rightarrow> db \<Rightarrow> db res" where
  "rule_delete goddess_user rid s =
     attempt (resolve_goddess_id (u_id goddess_user) s) (\<lambda>gid.
     attempt (require_owned_rule gid rid s) (\<lambda>rule. Inr (delete_rule rid s)))"

section \<open>Facts\<close>

lemma insert_idempotent_frame [simp]:
  "t_contracts (fst (insert_idempotent ev s)) = t_contracts s"
  "t_events (fst (insert_idempotent ev s)) = t_events s"
  "t_users (fst (insert_idempotent ev s)) = t_users s"
  "t_goddesses (fst (insert_idempotent ev s)) = t_goddesses s"
  "t_rules (fst (insert_idempotent ev s)) = t_rules s"
  "t_penalty_log (fst (insert_idempotent ev s)) = t_penalty_log s"
  "t_declarations (fst (insert_idempotent ev s)) = t_declarations s"
  "t_allocations (fst (insert_idempotent ev s)) = t_allocations s"
  "t_tasks (fst (insert_idempotent ev s)) = t_tasks s"
  "t_occurrences (fst (insert_idempotent ev s)) = t_occurrences s"
  "t_rituals (fst (insert_idempotent ev s)) = t_rituals s"
  "t_adjustments (fst (insert_idempotent ev s)) = t_adjustments s"
  "t_versions (fst (insert_idempotent ev s)) = t_versions s"
  "t_audits (fst (insert_idempotent ev s)) = t_audits s"
  "t_notifications (fst (insert_idempotent ev s)) = t_notifications s"
  by (simp_all add: insert_idempotent_def)

text \<open>The unique index holds: no two events share a kind and a source.\<close>

definition merit_unique :: "merit_event list \<Rightarrow> bool" where
  "merit_unique evs \<longleftrightarrow>
     distinct (map (\<lambda>e. (me_source_kind e, me_source_id e)) (filter (\<lambda>e. me_source_id e \<noteq> None) evs))"

lemma insert_idempotent_unique:
  "merit_unique (t_merits s) \<Longrightarrow> merit_unique (t_merits (fst (insert_idempotent ev s)))"
  by (auto simp: insert_idempotent_def merit_unique_def merit_source_exists_def list_ex_iff)

text \<open>One posting of the engine: at most one merit event, of the kind and source given.\<close>

lemma apply_penalty_merits:
  assumes "apply_penalty now gid sid trig kind src dd dl s = Inr (s', d)"
  shows "t_merits s' = t_merits s \<or>
    (\<exists>k delta. merit_source_kind_for kind = Inr k \<and> \<not> merit_source_exists k src (t_merits s) \<and>
       t_merits s' = t_merits s @ [merit_row now sid gid k src delta] \<and>
       delta = d \<and>
       delta = (case find_matching_rule gid sid trig dl s of None \<Rightarrow> dd | Some r \<Rightarrow> p_points_delta r))"
  using assms
  by (auto simp: apply_penalty_def res_simps emit_merit_event_def insert_idempotent_def log_event_def
      merit_row_def split: option.splits if_splits)

lemma apply_penalty_frame:
  assumes "apply_penalty now gid sid trig kind src dd dl s = Inr (s', d)"
  shows "t_contracts s' = t_contracts s" "t_events s' = t_events s" "t_users s' = t_users s"
    "t_goddesses s' = t_goddesses s" "t_rules s' = t_rules s" "t_tasks s' = t_tasks s"
    "t_occurrences s' = t_occurrences s" "t_rituals s' = t_rituals s"
    "t_declarations s' = t_declarations s" "t_allocations s' = t_allocations s"
    "t_adjustments s' = t_adjustments s" "t_versions s' = t_versions s" "t_audits s' = t_audits s"
    "t_notifications s' = t_notifications s"
  using assms
  by (auto simp: apply_penalty_def res_simps emit_merit_event_def insert_idempotent_def log_event_def
      split: option.splits if_splits)

lemma apply_penalty_unique:
  assumes "apply_penalty now gid sid trig kind src dd dl s = Inr (s', d)" "merit_unique (t_merits s)"
  shows "merit_unique (t_merits s')"
  using apply_penalty_merits [OF assms(1)] assms(2)
  by (auto simp: merit_unique_def merit_source_exists_def merit_row_def list_ex_iff)

lemma find_matching_rule_cong:
  "t_rules s' = t_rules s \<Longrightarrow> find_matching_rule gid sid trig dl s' = find_matching_rule gid sid trig dl s"
  by (simp only: find_matching_rule_def find_best_def)

section \<open>Properties\<close>

text \<open>
  The engine debits a source once in the life of the database: when a merit event for the
  same kind and source exists, a further penalty adds none, whatever time has passed, while
  without a matching rule it still reports the default delta as applied.
\<close>

theorem penalty_source_debited_once:
  assumes "apply_penalty now gid sid trig kind (Some src) dd dl s = Inr (s', d)"
    and "merit_source_kind_for kind = Inr k" "merit_source_exists k (Some src) (t_merits s)"
  shows "t_merits s' = t_merits s \<and> (find_matching_rule gid sid trig dl s = None \<longrightarrow> d = dd)"
proof
  show "t_merits s' = t_merits s"
    using apply_penalty_merits [OF assms(1)] assms(2,3) by auto
  show "find_matching_rule gid sid trig dl s = None \<longrightarrow> d = dd"
    using assms(1) by (auto simp: apply_penalty_def res_simps split: if_splits)
qed

text \<open>
  Within the cooldown of the rule that fired, a second penalty for the same rule, sub and
  source changes nothing and reports 0.
\<close>

theorem penalty_cooldown:
  assumes "apply_penalty now gid sid trig kind src dd dl s = Inr (s1, d)"
    and "find_matching_rule gid sid trig dl s = Some rule"
    and "\<not> fired_within_cooldown (p_id rule) sid kind src now (p_cooldown_hours rule) s"
    and "now \<le> now'" "now' \<le> now + p_cooldown_hours rule * us_per_hour"
  shows "apply_penalty now' gid sid trig kind src dd dl s1 = Inr (s1, 0)"
proof -
  have "find_matching_rule gid sid trig dl s1 = Some rule"
    using find_matching_rule_cong [OF apply_penalty_frame(5) [OF assms(1)]] assms(2) by simp
  moreover have "fired_within_cooldown (p_id rule) sid kind src now' (p_cooldown_hours rule) s1"
    using assms by (auto simp: apply_penalty_def res_simps fired_within_cooldown_def log_event_def
        list_ex_iff split: if_splits)
  ultimately show ?thesis by (simp add: apply_penalty_def)
qed

text \<open>
  Seeding the defaults of a goddess is idempotent: a second run changes nothing, whatever
  ids and clock it draws.
\<close>

theorem seed_defaults_idempotent:
  "seed_defaults_for_goddess fresh' now' gid (seed_defaults_for_goddess fresh now gid s) =
     seed_defaults_for_goddess fresh now gid s"
proof -
  let ?t = "seed_defaults_for_goddess fresh now gid s"
  have 1: "rs_name sp \<in> set (existing_rule_names gid ?t)" if "sp \<in> set default_rules" for sp
  proof (cases "rs_name sp \<in> set (existing_rule_names gid s)")
    case True
    then show ?thesis
      by (auto simp: seed_defaults_for_goddess_def existing_rule_names_def set_map_filter_iff)
  next
    case False
    with that have "spec_rule fresh now gid sp \<in> set (t_rules ?t)"
      by (simp add: seed_defaults_for_goddess_def)
    then show ?thesis
      by (force simp: existing_rule_names_def set_map_filter_iff spec_rule_def)
  qed
  have 2: "fst sp \<in> set (existing_tier_names gid ?t)" if "sp \<in> set default_tiers" for sp
  proof (cases "fst sp \<in> set (existing_tier_names gid s)")
    case True
    then show ?thesis by (auto simp: seed_defaults_for_goddess_def existing_tier_names_def)
  next
    case False
    with that have "spec_tier fresh now gid sp \<in> set (t_rewards ?t)"
      by (simp add: seed_defaults_for_goddess_def)
    then show ?thesis
      by (force simp: existing_tier_names_def spec_tier_def split: prod.splits)
  qed
  have "filter (\<lambda>sp. rs_name sp \<notin> set (existing_rule_names gid ?t)) default_rules = []"
    "filter (\<lambda>sp. fst sp \<notin> set (existing_tier_names gid ?t)) default_tiers = []"
    using 1 2 by (auto simp: filter_empty_conv)
  then show ?thesis
    by (simp add: seed_defaults_for_goddess_def [of fresh' now' gid ?t])
qed

definition sample_rule :: penalty_rule where
  "sample_rule = \<lparr>p_id = 7, p_goddess_id = 1, p_sub_id = None, p_trigger = PT_contract_missed,
     p_action = PA_apply_points, p_points_delta = - 5, p_fee_amount = None, p_name = None,
     p_fee_percent = None, p_min_days_late = None, p_cooldown_hours = 24, p_active = True,
     p_created_at = 0, p_updated_at = 0\<rparr>"

lemma penalty_source_debited_once_witness:
  "\<exists>s' d. apply_penalty 9 1 2 PT_task_missed ''task_miss'' (Some 5) (- 1) None
     (empty_db\<lparr>t_merits := [merit_row 0 2 1 MS_task_miss (Some 5) (- 1)]\<rparr>) = Inr (s', d) \<and>
     length (t_merits s') = 1 \<and> d = - 1"
proof -
  let ?s = "empty_db\<lparr>t_merits := [merit_row 0 2 1 MS_task_miss (Some 5) (- 1)]\<rparr>"
  have no_rule: "find_matching_rule 1 2 PT_task_missed None ?s = None"
    by (simp add: find_matching_rule_def find_best_def empty_db_def first_row_def)
  have run: "apply_penalty 9 1 2 PT_task_missed ''task_miss'' (Some 5) (- 1) None ?s = Inr (?s, - 1)"
    unfolding apply_penalty_def no_rule
    by (simp add: emit_merit_event_def merit_source_kind_for_def insert_idempotent_def merit_row_def
        merit_source_exists_def)
  show ?thesis using penalty_source_debited_once [OF run, of MS_task_miss] no_rule run
    by (simp add: merit_source_kind_for_def merit_source_exists_def merit_row_def)
qed

lemma penalty_cooldown_witness:
  "\<exists>s1. apply_penalty 0 1 2 PT_contract_missed ''contract_miss'' (Some 5) 0 None
      (empty_db\<lparr>t_rules := [sample_rule]\<rparr>) = Inr (s1, - 5) \<and>
    apply_penalty us_per_hour 1 2 PT_contract_missed ''contract_miss'' (Some 5) 0 None s1 = Inr (s1, 0)"
proof -
  let ?s = "empty_db\<lparr>t_rules := [sample_rule]\<rparr>"
  have rule: "find_matching_rule 1 2 PT_contract_missed None ?s = Some sample_rule"
    by (simp add: find_matching_rule_def find_best_def empty_db_def first_row_def sample_rule_def)
  have fresh: "\<not> fired_within_cooldown (p_id sample_rule) 2 ''contract_miss'' (Some 5) 0
      (p_cooldown_hours sample_rule) ?s"
    by (simp add: fired_within_cooldown_def empty_db_def)
  obtain s1 where run: "apply_penalty 0 1 2 PT_contract_missed ''contract_miss'' (Some 5) 0 None ?s = Inr (s1, - 5)"
    unfolding apply_penalty_def rule using fresh
    by (simp add: emit_merit_event_def merit_source_kind_for_def insert_idempotent_def merit_row_def
        merit_source_exists_def empty_db_def sample_rule_def)
  show ?thesis using penalty_cooldown [OF run rule fresh, of us_per_hour] run
    by (auto simp: us_per_hour_def sample_rule_def)
qed

end
