(* ===== verification/LatePenalty.thy ===== *)
theory LatePenalty
  imports Penalty Contracts
begin

text \<open>
  Late penalties applied by the goddess to a set of contracts:
  \<^verbatim>\<open>controllers/late_penalty_controller.py\<close>. Dates here are dates of naive UTC instants.
\<close>

record bulk_summary =
  bs_applied :: nat
  bs_already_penalised :: nat
  bs_not_late :: nat
  bs_not_found :: nat
  bs_applied_contract_ids :: "uuid list"

definition empty_summary :: bulk_summary where
  "empty_summary = \<lparr>bs_applied = 0, bs_already_penalised = 0, bs_not_late = 0, bs_not_found = 0,
     bs_applied_contract_ids = []\<rparr>"

record penalty_draw =
  pd_event_id :: uuid
  pd_event_at :: datetime
  pd_penalty_at :: datetime

definition penalise ::
  "penalty_draw \<Rightarrow> uuid \<Rightarrow> int \<Rightarrow> debt_contract \<Rightarrow> db \<Rightarrow> db res" where
  "penalise d goddess_id period_idx c s =
     attempt (apply_event_and_recompute
       (new_event (pd_event_id d) (pd_event_at d) (c_id c) ET_late_penalty (late_penalty_percent c)
          (Some period_idx) (Some ''goddess-triggered bulk late penalty'')) s) (\<lambda>(s1, _).
     let s2 = notify (c_sub_id c) NT_contract_late_penalty (Some (c_id c)) (Some period_idx) s1
     in attempt (apply_penalty (pd_penalty_at d) goddess_id (c_sub_id c) PT_contract_missed
          ''contract_miss'' (Some (c_id c)) 0 None s2) (\<lambda>(s3, _). Inr s3))"

definition bulk_one ::
  "zone \<Rightarrow> datetime \<Rightarrow> (uuid \<Rightarrow> penalty_draw) \<Rightarrow> uuid \<Rightarrow> uuid \<Rightarrow> db \<times> bulk_summary \<Rightarrow>
   (db \<times> bulk_summary) res" where
  "bulk_one z now d goddess_id cid acc = (case acc of (s, b) \<Rightarrow>
     (case fetch c_id cid (t_contracts s) of
        None \<Rightarrow> Inr (s, b\<lparr>bs_not_found := bs_not_found b + 1\<rparr>)
      | Some c \<Rightarrow>
          if c_goddess_id c \<noteq> goddess_id \<or> c_status c \<noteq> CS_active \<or> c_signed_at c = None
          then Inr (s, b\<lparr>bs_not_found := bs_not_found b + 1\<rparr>)
          else if (case period_start z c now of None \<Rightarrow> True | Some p \<Rightarrow> date_of now - date_of p \<le> 0)
          then Inr (s, b\<lparr>bs_not_late := bs_not_late b + 1\<rparr>)
          else let period_idx = current_period_index z c now in
            if exists_for_period (c_id c) period_idx ET_payment_applied s
            then Inr (s, b\<lparr>bs_not_late := bs_not_late b + 1\<rparr>)
            else if exists_for_period (c_id c) period_idx ET_late_penalty s
            then Inr (s, b\<lparr>bs_already_penalised := bs_already_penalised b + 1\<rparr>)
            else attempt (penalise (d cid) goddess_id period_idx c s) (\<lambda>s1.
                 Inr (s1, b\<lparr>bs_applied := bs_applied b + 1,
                           bs_applied_contract_ids := bs_applied_contract_ids b @ [c_id c]\<rparr>))))"

fun bulk_loop ::
  "zone \<Rightarrow> datetime \<Rightarrow> (uuid \<Rightarrow> penalty_draw) \<Rightarrow> uuid \<Rightarrow> uuid list \<Rightarrow> uuid list \<Rightarrow>
   db \<times> bulk_summary \<Rightarrow> (db \<times> bulk_summary) res" where
  "bulk_loop z now d goddess_id seen [] acc = Inr acc"
| "bulk_loop z now d goddess_id seen (cid # cids) acc =
     (if cid \<in> set seen then bulk_loop z now d goddess_id seen cids acc
      else attempt (bulk_one z now d goddess_id cid acc) (\<lambda>acc'.
           bulk_loop z now d goddess_id (cid # seen) cids acc'))"

definition bulk_apply ::
  "zone \<Rightarrow> datetime \<Rightarrow> (uuid \<Rightarrow> penalty_draw) \<Rightarrow> user \<Rightarrow> uuid list \<Rightarrow> db \<Rightarrow>
   (db \<times> bulk_summary) res" where
  "bulk_apply z now d goddess_user cids s =
     attempt (resolve_goddess_id (u_id goddess_user) s) (\<lambda>goddess_id.
     bulk_loop z now d goddess_id [] cids (s, empty_summary))"

end
