(* ===== verification/Cron.thy ===== *)
theory Cron
  imports Penalty Additions Payments
begin

text \<open>
  The daily job: \<^verbatim>\<open>controllers/cron_controller.py\<close> (lateness of rolling tributes, interest and
  late penalties of contracts), \<^verbatim>\<open>daos/cron_run_dao.py\<close>, and the review reminders and
  renewals of \<^verbatim>\<open>services/cron/contracts.py\<close>.

  The daily run works inside a savepoint and catches the exception of each phase of each sub.
  So a phase is a function from the session's state to the state it leaves, also when it
  raises, and its result. An exception of a flush is different from any other: the failed
  flush rolls the savepoint back and every later statement in it raises
  \<^verbatim>\<open>PendingRollbackError\<close>. Messages to the publisher have left the process by then.
\<close>

type_synonym 'a phase = "db \<Rightarrow> db \<times> 'a res"

definition phase_return :: "'a \<Rightarrow> 'a phase" where
  "phase_return x s = (s, Inr x)"

definition phase_then :: "'a phase \<Rightarrow> ('a \<Rightarrow> 'b phase) \<Rightarrow> 'b phase" where
  "phase_then m f s = (case m s of (s1, Inl e) \<Rightarrow> (s1, Inl e) | (s1, Inr x) \<Rightarrow> f x s1)"

definition phase_update :: "(db \<Rightarrow> db) \<Rightarrow> unit phase" where
  "phase_update f s = (f s, Inr ())"

definition phase_read :: "(db \<Rightarrow> 'a res) \<Rightarrow> 'a phase" where
  "phase_read f s = (s, f s)"

definition phase_write :: "(db \<Rightarrow> (db \<times> 'a) res) \<Rightarrow> 'a phase" where
  "phase_write f s = (case f s of Inl e \<Rightarrow> (s, Inl e) | Inr (s1, x) \<Rightarrow> (s1, Inr x))"

lemma phase_return_eq [simp]: "phase_return x s = (s', r) \<longleftrightarrow> s' = s \<and> r = Inr x"
  by (auto simp: phase_return_def)

lemma phase_then_Inr [res_simps]:
  "phase_then m f s = (s', Inr y) \<longleftrightarrow> (\<exists>s1 x. m s = (s1, Inr x) \<and> f x s1 = (s', Inr y))"
  by (auto simp: phase_then_def split: prod.splits sum.splits)

lemma phase_update_eq [simp]: "phase_update f s = (s', r) \<longleftrightarrow> s' = f s \<and> r = Inr ()"
  by (auto simp: phase_update_def)

lemma phase_read_eq [simp]: "phase_read f s = (s', r) \<longleftrightarrow> s' = s \<and> r = f s"
  by (auto simp: phase_read_def)

lemma phase_write_Inr [res_simps]:
  "phase_write f s = (s', Inr x) \<longleftrightarrow> f s = Inr (s', x)"
  by (auto simp: phase_write_def split: sum.splits prod.splits)

text \<open>What one pass draws from outside: the clock and the ids of the two events of a tick.\<close>

record tick_draw =
  td_late_id :: uuid
  td_late_at :: datetime
  td_penalty_at :: datetime
  td_rate_id :: uuid
  td_rate_at :: datetime

record cron_draw =
  cd_rolling_at :: "uuid \<Rightarrow> datetime"
  cd_tick :: "uuid \<Rightarrow> tick_draw"

section \<open>One contract\<close>

definition had_min_payment_for_period :: "debt_contract \<Rightarrow> int \<Rightarrow> db \<Rightarrow> bool res" where
  "had_min_payment_for_period c period_idx s =
     attempt (scalar_one_or_none (filter (\<lambda>e. e_contract_id e = c_id c \<and>
        e_type e = ET_period_interest \<and> e_period_index e = Some period_idx) (t_events s))) (\<lambda>anchor.
     case anchor of
       None \<Rightarrow> Inr True
     | Some a \<Rightarrow>
         let payments = filter (\<lambda>e. e_contract_id e = c_id c \<and> e_type e = ET_payment_applied \<and>
                          e_created_at e \<ge> e_created_at a) (t_events s);
             total = foldl (\<lambda>t e. ctx (t + e_amount e)) 0 payments
         in Inr (total \<ge> minimum_payment c))"

definition late_phase :: "debt_contract \<Rightarrow> int \<Rightarrow> tick_draw \<Rightarrow> unit phase" where
  "late_phase c prev_idx d =
     phase_then (phase_write (apply_event_and_recompute
       (new_event (td_late_id d) (td_late_at d) (c_id c) ET_late_penalty (late_penalty_percent c)
          (Some prev_idx) (Some ''missed minimum payment'')))) (\<lambda>_.
     phase_then (phase_update (notify (c_sub_id c) NT_contract_late_penalty (Some (c_id c)) (Some prev_idx))) (\<lambda>_.
     phase_then (phase_write (apply_penalty (td_penalty_at d) (c_goddess_id c) (c_sub_id c)
       PT_contract_missed ''contract_miss'' (Some (c_id c)) 0 None)) (\<lambda>_.
     phase_return ())))"

definition interest_phase :: "(rat \<Rightarrow> rat) \<Rightarrow> debt_contract \<Rightarrow> int \<Rightarrow> tick_draw \<Rightarrow> bool phase" where
  "interest_phase aer c period_idx d =
     phase_then (phase_write (apply_event_and_recompute
       (new_event (td_rate_id d) (td_rate_at d) (c_id c) ET_period_interest (period_rate aer c)
          (Some period_idx) None))) (\<lambda>_.
     phase_then (phase_update (notify (c_sub_id c) NT_contract_period_interest (Some (c_id c)) (Some period_idx))) (\<lambda>_.
     phase_return True))"

definition tick_contract ::
  "zone \<Rightarrow> (rat \<Rightarrow> rat) \<Rightarrow> tick_draw \<Rightarrow> datetime \<Rightarrow> debt_contract \<Rightarrow> bool phase" where
  "tick_contract z aer d now c s =
     (let period_idx = current_period_index z c now in
      if period_idx \<le> 0 then (s, Inr False)
      else if exists_for_period (c_id c) period_idx ET_period_interest s then (s, Inr False)
      else let prev_idx = period_idx - 1 in
        phase_then (if prev_idx \<ge> 1
                    then phase_then (phase_read (had_min_payment_for_period c prev_idx)) (\<lambda>paid. phase_return (\<not> paid))
                    else phase_return False) (\<lambda>is_late.
        phase_then (if is_late then late_phase c prev_idx d else phase_return ()) (\<lambda>_.
        interest_phase aer c period_idx d)) s)"

section \<open>One sub\<close>

definition process_rolling :: "zone \<Rightarrow> datetime \<Rightarrow> datetime \<Rightarrow> uuid \<Rightarrow> nat phase" where
  "process_rolling z penalty_at now sid =
     phase_then (phase_read (rolling_for_sub sid)) (\<lambda>r.
     case r of
       None \<Rightarrow> phase_return 0
     | Some rec \<Rightarrow>
         if r_paused rec \<or> r_amount rec = 0 then phase_return 0
         else let late = days_late z rec now in
           if late > 0
           then phase_then (phase_update (notify sid NT_rolling_late None (Some late))) (\<lambda>_.
                phase_then (phase_write (apply_penalty penalty_at (r_goddess_id rec) sid
                  PT_rolling_late ''rolling_late'' (Some (r_id rec)) 0 None)) (\<lambda>_.
                phase_return 1))
           else phase_return 1)"

text \<open>
  The loop over the contract rows the query returned. A row object shows the session's current
  values; the columns a tick reads are not changed by the ticks of other contracts.
\<close>

fun tick_contracts ::
  "zone \<Rightarrow> (rat \<Rightarrow> rat) \<Rightarrow> cron_draw \<Rightarrow> datetime \<Rightarrow> debt_contract list \<Rightarrow> nat \<Rightarrow> nat phase" where
  "tick_contracts z aer d now [] n s = (s, Inr n)"
| "tick_contracts z aer d now (c # cs) n s =
     phase_then (tick_contract z aer (cd_tick d (c_id c)) now c)
       (\<lambda>ticked. tick_contracts z aer d now cs (if ticked then n + 1 else n)) s"

definition active_rows_for_sub :: "uuid \<Rightarrow> db \<Rightarrow> debt_contract list" where
  "active_rows_for_sub sid s = filter (\<lambda>c. c_sub_id c = sid \<and> c_status c = CS_active) (t_contracts s)"

definition process_contracts ::
  "zone \<Rightarrow> (rat \<Rightarrow> rat) \<Rightarrow> cron_draw \<Rightarrow> datetime \<Rightarrow> uuid \<Rightarrow> nat phase" where
  "process_contracts z aer d now sid s = tick_contracts z aer d now (active_rows_for_sub sid s) 0 s"

section \<open>The daily run\<close>

definition load_active_subs :: "db \<Rightarrow> user list" where
  "load_active_subs s = filter (\<lambda>u. u_role u = R_sub \<and> u_status u = US_active) (t_users s)"

record savepoint =
  sp_db :: db
  sp_failed :: bool
  sp_rolling :: nat
  sp_contracts :: nat
  sp_errors :: "(uuid \<times> string \<times> app_error) list"

text \<open>The exceptions a flush raises.\<close>

fun flush_error :: "app_error \<Rightarrow> bool" where
  "flush_error (IntegrityError _) = True"
| "flush_error (DataError _) = True"
| "flush_error PendingRollback = True"
| "flush_error _ = False"

definition run_phase :: "uuid \<Rightarrow> string \<Rightarrow> nat phase \<Rightarrow> savepoint \<Rightarrow> savepoint \<times> nat" where
  "run_phase sid phase m sp =
     (if sp_failed sp
      then (sp\<lparr>sp_errors := sp_errors sp @ [(sid, phase, PendingRollback)]\<rparr>, 0)
      else case m (sp_db sp) of
             (s1, Inl e) \<Rightarrow>
               (sp\<lparr>sp_db := s1, sp_failed := flush_error e,
                   sp_errors := sp_errors sp @ [(sid, phase, e)]\<rparr>, 0)
           | (s1, Inr n) \<Rightarrow> (sp\<lparr>sp_db := s1\<rparr>, n))"

definition process_sub ::
  "zone \<Rightarrow> (rat \<Rightarrow> rat) \<Rightarrow> cron_draw \<Rightarrow> datetime \<Rightarrow> uuid \<Rightarrow> savepoint \<Rightarrow> savepoint" where
  "process_sub z aer d now sid sp =
     (let (sp1, n) = run_phase sid ''rolling'' (process_rolling z (cd_rolling_at d sid) now sid) sp;
          sp2 = sp1\<lparr>sp_rolling := sp_rolling sp1 + n\<rparr>;
          (sp3, k) = run_phase sid ''contracts'' (process_contracts z aer d now sid) sp2
      in sp3\<lparr>sp_contracts := sp_contracts sp3 + k\<rparr>)"

definition process_subs ::
  "zone \<Rightarrow> (rat \<Rightarrow> rat) \<Rightarrow> cron_draw \<Rightarrow> datetime \<Rightarrow> user list \<Rightarrow> savepoint \<Rightarrow> savepoint" where
  "process_subs z aer d now subs sp = fold (\<lambda>u. process_sub z aer d now (u_id u)) subs sp"

definition open_savepoint :: "db \<Rightarrow> savepoint" where
  "open_savepoint s =
     \<lparr>sp_db = s, sp_failed = False, sp_rolling = 0, sp_contracts = 0, sp_errors = []\<rparr>"

text \<open>Leaving the savepoint: it is released, or rolled back to the state before it.\<close>

definition close_savepoint :: "bool \<Rightarrow> db \<Rightarrow> savepoint \<Rightarrow> db" where
  "close_savepoint dry_run before sp =
     (if dry_run \<or> sp_failed sp then before\<lparr>t_published := t_published (sp_db sp)\<rparr> else sp_db sp)"

subsection \<open>Run records\<close>

text \<open>
  The duration goes through a float number of seconds, the model divides exactly. Of the error
  list the row keeps the number here; the run returns the list itself.
\<close>

definition create_started :: "uuid \<Rightarrow> datetime \<Rightarrow> bool \<Rightarrow> uuid option \<Rightarrow> db \<Rightarrow> db" where
  "create_started rid now dry_run by_user s =
     s\<lparr>t_cron_runs := insert_row \<lparr>cr_id = rid, cr_started_at = now, cr_finished_at = None,
         cr_dry_run = dry_run, cr_summary = [], cr_n_errors = 0, cr_triggered_by_user_id = by_user,
         cr_duration_ms = None\<rparr> (t_cron_runs s)\<rparr>"

definition finished_row :: "datetime \<Rightarrow> (string \<times> int) list \<Rightarrow> nat \<Rightarrow> cron_run \<Rightarrow> cron_run" where
  "finished_row now summary n_errors r =
     r\<lparr>cr_finished_at := Some now, cr_summary := summary, cr_n_errors := n_errors,
       cr_duration_ms := Some ((now - cr_started_at r) div 1000)\<rparr>"

definition finish_run :: "uuid \<Rightarrow> datetime \<Rightarrow> (string \<times> int) list \<Rightarrow> nat \<Rightarrow> db \<Rightarrow> db" where
  "finish_run rid now summary n_errors s =
     s\<lparr>t_cron_runs := modify cr_id rid (finished_row now summary n_errors) (t_cron_runs s)\<rparr>"

definition list_recent_runs :: "nat \<Rightarrow> db \<Rightarrow> cron_run list" where
  "list_recent_runs limit s = take limit (sort_key (\<lambda>r. - cr_started_at r) (t_cron_runs s))"

definition get_run :: "uuid \<Rightarrow> db \<Rightarrow> cron_run option" where
  "get_run rid s = fetch cr_id rid (t_cron_runs s)"

text \<open>\<open>started\<close>, \<open>now\<close> and \<open>finished\<close> are the three readings of the clock.\<close>

record run_clock =
  rc_started :: datetime
  rc_now :: datetime
  rc_finished :: datetime

definition daily_savepoint ::
  "zone \<Rightarrow> (rat \<Rightarrow> rat) \<Rightarrow> cron_draw \<Rightarrow> datetime \<Rightarrow> db \<Rightarrow> savepoint" where
  "daily_savepoint z aer d now s = process_subs z aer d now (load_active_subs s) (open_savepoint s)"

definition run_daily ::
  "zone \<Rightarrow> (rat \<Rightarrow> rat) \<Rightarrow> cron_draw \<Rightarrow> run_clock \<Rightarrow> uuid \<Rightarrow> bool \<Rightarrow> uuid option \<Rightarrow> db \<Rightarrow>
   db \<times> (uuid \<times> string \<times> app_error) list" where
  "run_daily z aer d clock rid dry_run by_user s =
     (let s1 = create_started rid (rc_started clock) dry_run by_user s;
          sp = daily_savepoint z aer d (rc_now clock) s1;
          s2 = close_savepoint dry_run s1 sp;
          summary = [(''subs'', int (length (load_active_subs s1))),
                     (''rolling'', int (sp_rolling sp)), (''contracts'', int (sp_contracts sp))]
      in (finish_run rid (rc_finished clock) summary (length (sp_errors sp)) s2, sp_errors sp))"

definition validate_apply_preconditions :: "datetime \<Rightarrow> uuid \<Rightarrow> uuid \<Rightarrow> db \<Rightarrow> unit res" where
  "validate_apply_preconditions now last_dry_run_id user_id s =
     require (get_run last_dry_run_id s) (Conflict ''Dry-run record not found.'') (\<lambda>row.
     raise_if (\<not> cr_dry_run row) (Conflict ''Referenced run is not a dry-run.'') (
     raise_if (cr_triggered_by_user_id row \<noteq> Some user_id)
       (Conflict ''Dry-run was triggered by a different admin.'') (
     raise_if (now - cr_started_at row > 300 * 1000000)
       (Conflict ''Dry-run is older than 5 minutes; please re-run.'') (Inr ()))))"

section \<open>Review reminders\<close>

definition review_window_utc :: "zone \<Rightarrow> int \<Rightarrow> datetime \<times> datetime" where
  "review_window_utc z today_london =
     (from_wall z (days (today_london + 14)), from_wall z (days (today_london + 15)))"

definition goddess_user_for_contract :: "debt_contract \<Rightarrow> db \<Rightarrow> uuid option res" where
  "goddess_user_for_contract c s = resolve_goddess_user_id (c_goddess_id c) s"

definition reminder_already_sent :: "uuid \<Rightarrow> db \<Rightarrow> bool" where
  "reminder_already_sent cid s =
     list_ex (\<lambda>n. nt_type n = NT_review_reminder \<and> nt_ref n = Some cid) (t_notifications s)"

definition due_for_reminder :: "zone \<Rightarrow> datetime \<Rightarrow> db \<Rightarrow> debt_contract list" where
  "due_for_reminder z now s =
     (let (start_utc, end_utc) = review_window_utc z (as_london_date z now)
      in filter (\<lambda>c. c_status c = CS_active \<and>
           (case c_review_at c of None \<Rightarrow> False | Some t \<Rightarrow> start_utc \<le> t \<and> t < end_utc)) (t_contracts s))"

fun remind_each :: "debt_contract list \<Rightarrow> nat \<Rightarrow> db \<Rightarrow> (db \<times> nat) res" where
  "remind_each [] n s = Inr (s, n)"
| "remind_each (c # cs) n s =
     (if reminder_already_sent (c_id c) s then remind_each cs n s
      else attempt (goddess_user_for_contract c s) (\<lambda>g.
        case g of
          None \<Rightarrow> remind_each cs n s
        | Some u \<Rightarrow> remind_each cs (n + 1) (notify u NT_review_reminder (Some (c_id c)) None s)))"

definition run_review_reminders :: "zone \<Rightarrow> datetime \<Rightarrow> db \<Rightarrow> (db \<times> nat) res" where
  "run_review_reminders z now s = remind_each (due_for_reminder z now s) 0 s"

section \<open>Renewals\<close>

text \<open>\<open>add_months t n\<close> stands for \<^verbatim>\<open>t + relativedelta(months=n)\<close> of the dateutil package.\<close>

definition advance_review_at ::
  "(datetime \<Rightarrow> int \<Rightarrow> datetime) \<Rightarrow> datetime \<Rightarrow> payment_frequency \<Rightarrow> int \<Rightarrow> datetime" where
  "advance_review_at add_months old f n =
     (case f of PF_weekly \<Rightarrow> old + days (7 * n) | PF_biweekly \<Rightarrow> old + days (14 * n)
      | PF_monthly \<Rightarrow> add_months old n)"

definition already_cloned :: "uuid \<Rightarrow> db \<Rightarrow> bool" where
  "already_cloned cid s =
     list_ex (\<lambda>a. a_event_type a = AE_contract_renewed \<and> a_note a = Some (NoteSourceContract cid)) (t_audits s)"

record clone_draw =
  cl_id :: uuid
  cl_version_id :: uuid
  cl_slug :: string
  cl_now :: datetime

definition clone_row :: "datetime \<Rightarrow> clone_draw \<Rightarrow> debt_contract \<Rightarrow> debt_contract" where
  "clone_row review_at d src =
     (new_contract (cl_id d) (cl_slug d) (cl_now d) (c_sub_id src) (c_goddess_id src) False
        CS_pending_sub_signature (terms.truncate src))
     \<lparr>c_clauses_json := c_clauses_json src, c_review_at := Some review_at,
      c_renewal_policy := c_renewal_policy src\<rparr>"

definition clone_contract ::
  "(datetime \<Rightarrow> int \<Rightarrow> datetime) \<Rightarrow> clone_draw \<Rightarrow> debt_contract \<Rightarrow> uuid \<Rightarrow> db \<Rightarrow> db res" where
  "clone_contract add_months d src goddess_user_id s =
     require (c_review_at src) (AssertionError ''review_at'') (\<lambda>old.
     let review_at = advance_review_at add_months old (payment_frequency src) (duration_periods src) in
     attempt (create_contract (clone_row review_at d src) s) (\<lambda>s1.
     attempt (create_version (new_version (cl_version_id d) (cl_now d) (cl_id d) 0 goddess_user_id
        (terms.truncate src)) s1) (\<lambda>s2.
     let s3 = save_contract (cl_id d) (\<lambda>c. c\<lparr>c_current_version_id := Some (cl_version_id d),
                c_updated_at := cl_now d\<rparr>) s2
     in Inr (append_audit (audit_row (cl_now d) (cl_id d) AE_contract_renewed goddess_user_id None
               (Some CS_pending_sub_signature) (Some (NoteSourceContract (c_id src)))) s3))))"

definition due_for_renewal :: "datetime \<Rightarrow> db \<Rightarrow> debt_contract list" where
  "due_for_renewal now s =
     filter (\<lambda>c. c_status c = CS_active \<and> c_renewal_policy c = RP_auto_extend \<and>
       (case c_review_at c of None \<Rightarrow> False | Some t \<Rightarrow> t \<le> now)) (t_contracts s)"

fun renew_each ::
  "(datetime \<Rightarrow> int \<Rightarrow> datetime) \<Rightarrow> (uuid \<Rightarrow> clone_draw) \<Rightarrow> debt_contract list \<Rightarrow> nat \<Rightarrow> db \<Rightarrow> (db \<times> nat) res" where
  "renew_each add_months d [] n s = Inr (s, n)"
| "renew_each add_months d (c # cs) n s =
     (if already_cloned (c_id c) s then renew_each add_months d cs n s
      else attempt (goddess_user_for_contract c s) (\<lambda>g.
        case g of
          None \<Rightarrow> renew_each add_months d cs n s
        | Some u \<Rightarrow>
            attempt (clone_contract add_months (d (c_id c)) c u s) (\<lambda>s1.
            renew_each add_months d cs (n + 1)
              (notify (c_sub_id c) NT_contract_renewed (Some (cl_id (d (c_id c)))) None s1))))"

definition run_auto_extend_renewals ::
  "(datetime \<Rightarrow> int \<Rightarrow> datetime) \<Rightarrow> (uuid \<Rightarrow> clone_draw) \<Rightarrow> datetime \<Rightarrow> db \<Rightarrow> (db \<times> nat) res" where
  "run_auto_extend_renewals add_months d now s = renew_each add_months d (due_for_renewal now s) 0 s"

end
