(* ===== verification/Settlement.thy ===== *)
theory Settlement
  imports Conformance Payments Blacklist LatePenalty Cron
begin

text \<open>
  The handlers of payments, breach, bulk penalties and the daily job are runs of the contract
  machine.
\<close>

section \<open>Payments\<close>

lemma create_declaration_Inr [res_simps]:
  "create_declaration d s = Inr s' \<longleftrightarrow> \<bar>numeric_column 2 (d_amount d)\<bar> < 10 ^ 10 \<and>
     s' = s\<lparr>t_declarations := insert_row (stored_declaration d) (t_declarations s)\<rparr>"
  by (auto simp: create_declaration_def res_simps not_le)

lemma load_active_contract_Inr [res_simps]:
  "load_active_contract_for_sub sid target s = Inr c \<longleftrightarrow>
     (\<exists>cid. target = Some cid \<and> contract_at cid s = Some c \<and> c_sub_id c = sid \<and> c_status c = CS_active)"
  by (auto simp: load_active_contract_for_sub_def contract_at_def res_simps split: option.splits)

lemma emit_allocation_frame:
  assumes "emit_allocation now d s = Inr s'"
  shows "t_contracts s' = t_contracts s" "t_events s' = t_events s" "t_adjustments s' = t_adjustments s"
    "t_declarations s' = t_declarations s" "t_users s' = t_users s" "t_goddesses s' = t_goddesses s"
    "t_safewords s' = t_safewords s" "t_rollings s' = t_rollings s"
  using assms by (auto simp: emit_allocation_def res_simps split: option.splits)

lemma promote_sub_Inr [res_simps]:
  "promote_sub sid s = Inr s' \<longleftrightarrow>
     (\<exists>w. safeword_for_sub sid s = Some w \<and> \<not> blank (sw_word w)) \<and> s' = set_user_status sid US_active s"
  by (auto simp: promote_sub_def res_simps split: option.splits)

lemma mark_paid_frame:
  assumes "mark_paid sid t now s = Inr s'"
  shows "t_contracts s' = t_contracts s" "t_events s' = t_events s" "t_adjustments s' = t_adjustments s"
    "t_declarations s' = t_declarations s" "t_allocations s' = t_allocations s"
    "t_users s' = t_users s" "t_goddesses s' = t_goddesses s" "t_safewords s' = t_safewords s"
  using assms by (auto simp: mark_paid_def res_simps split: option.splits)

lemma set_user_status_frame [simp]:
  "t_contracts (set_user_status u st s) = t_contracts s" "t_events (set_user_status u st s) = t_events s"
  "t_adjustments (set_user_status u st s) = t_adjustments s"
  "t_declarations (set_user_status u st s) = t_declarations s"
  "t_allocations (set_user_status u st s) = t_allocations s"
  "t_goddesses (set_user_status u st s) = t_goddesses s"
  "t_refresh_tokens (set_user_status u st s) = t_refresh_tokens s"
  "t_blacklist (set_user_status u st s) = t_blacklist s"
  "t_users (set_user_status u st s) = modify u_id u (\<lambda>x. x\<lparr>u_status := st\<rparr>) (t_users s)"
  by (simp_all add: set_user_status_def update_user_def)

lemma apply_debt_payment_run:
  assumes "apply_debt_payment eid now d sid s = Inr s'" "later_stamp eid now s"
  shows "contract_run s s'"
proof -
  obtain k c b where k: "contract_at k s = Some c" and c': "c_status c = CS_active"
      "apply_event_and_recompute (new_event eid now (c_id c) ET_payment_applied (d_amount d) None
         (Some ''payment validation'')) s = Inr (s', b)"
    using assms(1) by (auto simp: apply_debt_payment_def res_simps simp del: apply_event_eq_Inr)
  note c = k [folded contract_at_id [OF k]] c'
  show ?thesis
    by (rule r_into_rtranclp, rule posted_step [OF c(3) later_stamp_latest [OF assms(2)]])
      (use engaged_active [OF c(1,2)] in simp_all)
qed

lemma apply_buyout_run:
  assumes "apply_buyout eid now d sid actor s = Inr s'" "later_stamp eid now s"
  shows "contract_run s s'"
proof -
  let ?f = "\<lambda>c. c\<lparr>c_status := CS_closed, c_updated_at := now\<rparr>"
  obtain k c s1 b where k: "contract_at k s = Some c" and c': "c_status c = CS_active"
      "apply_event_and_recompute (new_event eid now (c_id c) ET_buyout_paid (d_amount d) None None) s = Inr (s1, b)"
      "t_contracts s' = modify c_id (c_id c) ?f (t_contracts s1)" "t_events s' = t_events s1"
      "t_adjustments s' = t_adjustments s1"
    using assms(1) by (auto simp: apply_buyout_def res_simps Let_def save_contract_def append_audit_def
        simp del: apply_event_eq_Inr)
  note c = k [folded contract_at_id [OF k]] c'
  show ?thesis
    by (rule posted_then_touched [OF c(3) later_stamp_latest [OF assms(2)], where f = ?f])
      (use c engaged_active [OF c(1,2)] in \<open>auto simp: lawful_update_def\<close>)
qed

lemma run_from_cong:
  assumes "contract_run s1 s'" "t_contracts s1 = t_contracts s" "t_events s1 = t_events s"
    "t_adjustments s1 = t_adjustments s"
  shows "contract_run s s'"
  using quiet_run [of s1 s] assms rtranclp_trans by metis

lemma settle_stages:
  assumes "settle eid now d sid actor s = Inr s'"
  obtains s3 s4 where "t_contracts s3 = t_contracts s" "t_events s3 = t_events s"
      "t_adjustments s3 = t_adjustments s" "t_declarations s3 = t_declarations s"
    and "(if d_category d \<in> set debt_payment_categories then apply_debt_payment eid now d sid s3 else Inr s3) = Inr s4"
    and "(if d_category d = PC_buyout then apply_buyout eid now d sid actor s4 else Inr s4) = Inr s'"
proof -
  obtain s1 s2 s3 s4 where st: "emit_allocation now d s = Inr s1"
      "(if d_category d = PC_entry then promote_sub sid s1 else Inr s1) = Inr s2"
      "(if d_category d = PC_rolling then mark_paid sid now now s2 else Inr s2) = Inr s3"
      "(if d_category d \<in> set debt_payment_categories then apply_debt_payment eid now d sid s3 else Inr s3) = Inr s4"
      "(if d_category d = PC_buyout then apply_buyout eid now d sid actor s4 else Inr s4) = Inr s'"
    using assms unfolding settle_def attempt_eq_Inr by blast
  have 2: "t_contracts s2 = t_contracts s" "t_events s2 = t_events s" "t_adjustments s2 = t_adjustments s"
    "t_declarations s2 = t_declarations s"
    using st(2) emit_allocation_frame [OF st(1)] by (auto simp: promote_sub_Inr split: if_splits)
  have 3: "t_contracts s3 = t_contracts s2" "t_events s3 = t_events s2" "t_adjustments s3 = t_adjustments s2"
    "t_declarations s3 = t_declarations s2"
    using st(3) mark_paid_frame [of sid now now s2 s3] by (simp_all split: if_splits)
  show ?thesis by (rule that [OF _ _ _ _ st(4,5)]) (use 2 3 in simp_all)
qed

lemma settle_run:
  assumes "settle eid now d sid actor s = Inr s'" "later_stamp eid now s"
  shows "contract_run s s'"
proof -
  obtain s3 s4 where st: "t_contracts s3 = t_contracts s" "t_events s3 = t_events s"
      "t_adjustments s3 = t_adjustments s"
      "(if d_category d \<in> set debt_payment_categories then apply_debt_payment eid now d sid s3 else Inr s3) = Inr s4"
      "(if d_category d = PC_buyout then apply_buyout eid now d sid actor s4 else Inr s4) = Inr s'"
    using assms(1) by (rule settle_stages)
  have stamp: "later_stamp eid now s3" using assms(2) st(2) by (simp add: later_stamp_def)
  have "contract_run s3 s'"
  proof (cases "d_category d = PC_buyout")
    case True
    then show ?thesis using st(4,5) apply_buyout_run stamp by (auto simp: debt_payment_categories_def)
  next
    case False
    then show ?thesis using st(4,5) apply_debt_payment_run [OF _ stamp] by (auto split: if_splits)
  qed
  then show ?thesis using st(1-3) by (rule run_from_cong)
qed

lemma record_as_goddess_run:
  assumes "record_as_goddess did eid now u p s = Inr (s', out)" "later_stamp eid now s"
  shows "contract_run s s'"
proof -
  obtain d s1 sub where st: "settle eid now d sub (u_id u) s1 = Inr s'"
      "t_contracts s1 = t_contracts s" "t_events s1 = t_events s" "t_adjustments s1 = t_adjustments s"
    using assms(1) by (auto simp: record_as_goddess_def res_simps Let_def)
  have "later_stamp eid now s1" using assms(2) st(3) by (simp add: later_stamp_def)
  from run_from_cong [OF settle_run [OF st(1) this] st(2-4)] show ?thesis .
qed

lemma validate_run:
  assumes "validate eid now u did cat s = Inr (s', out)" "later_stamp eid now s"
  shows "contract_run s s'"
proof -
  obtain d s1 sub s2 where st: "settle eid now d sub (u_id u) s1 = Inr s2"
      "t_contracts s1 = t_contracts s" "t_events s1 = t_events s" "t_adjustments s1 = t_adjustments s"
      "t_contracts s' = t_contracts s2" "t_events s' = t_events s2" "t_adjustments s' = t_adjustments s2"
    using assms(1) by (auto simp: validate_def res_simps Let_def save_declaration_def)
  have "later_stamp eid now s1" using assms(2) st(3) by (simp add: later_stamp_def)
  then have "contract_run s s2" using run_from_cong [OF settle_run [OF st(1)] st(2-4)] by blast
  moreover have "contract_run s2 s'" by (rule quiet_run) (use st in simp_all)
  ultimately show ?thesis by (rule rtranclp_trans)
qed

section \<open>Breach\<close>

definition breach_row :: "datetime \<Rightarrow> debt_contract \<Rightarrow> debt_contract" where
  "breach_row now c = c\<lparr>c_status := CS_breached, c_updated_at := now\<rparr>"

lemma breach_contract_frame [simp]:
  "t_events (breach_contract now a r c s) = t_events s"
  "t_adjustments (breach_contract now a r c s) = t_adjustments s"
  "t_users (breach_contract now a r c s) = t_users s"
  "t_goddesses (breach_contract now a r c s) = t_goddesses s"
  "t_refresh_tokens (breach_contract now a r c s) = t_refresh_tokens s"
  "t_blacklist (breach_contract now a r c s) = t_blacklist s"
  "t_contracts (breach_contract now a r c s) = modify c_id (c_id c) (breach_row now) (t_contracts s)"
  by (simp_all add: breach_contract_def append_audit_def save_contract_def breach_row_def [abs_def])

lemma breach_contracts_frame [simp]:
  "t_events (breach_contracts now a r cs s) = t_events s"
  "t_adjustments (breach_contracts now a r cs s) = t_adjustments s"
  "t_users (breach_contracts now a r cs s) = t_users s"
  "t_goddesses (breach_contracts now a r cs s) = t_goddesses s"
  "t_refresh_tokens (breach_contracts now a r cs s) = t_refresh_tokens s"
  "t_blacklist (breach_contracts now a r cs s) = t_blacklist s"
  by (induction cs arbitrary: s) (simp_all add: breach_contracts_def)

lemma breach_contracts_at:
  "contract_at k (breach_contracts now a r cs s) =
     (if k \<in> c_id ` set cs then map_option (breach_row now) (contract_at k s) else contract_at k s)"
proof (induction cs arbitrary: s)
  case Nil
  then show ?case by (simp add: breach_contracts_def)
next
  case (Cons c cs)
  have "breach_contracts now a r (c # cs) s = breach_contracts now a r cs (breach_contract now a r c s)"
    by (simp add: breach_contracts_def)
  moreover have "contract_at k (breach_contract now a r c s) =
      (if k = c_id c then map_option (breach_row now) (contract_at k s) else contract_at k s)"
    by (simp add: contract_at_def contracts.get_upd breach_row_def)
  moreover have "map_option (breach_row now) (map_option (breach_row now) x) = map_option (breach_row now) x" for x
    by (cases x) (simp_all add: breach_row_def)
  ultimately show ?case using Cons.IH by auto
qed

lemma breach_contracts_run:
  assumes "\<And>c. c \<in> set cs \<Longrightarrow> status_at s (c_id c) \<in> {Some CS_active, Some CS_breached}"
  shows "contract_run s (breach_contracts now a r cs s)"
  using assms
proof (induction cs arbitrary: s)
  case Nil
  then show ?case by (simp add: breach_contracts_def)
next
  case (Cons c cs)
  let ?t = "breach_contract now a r c s"
  obtain d where d: "contract_at (c_id c) s = Some d" "c_status d \<in> {CS_active, CS_breached}"
    using Cons.prems [of c] by (auto simp: status_at_def)
  have "contract_run s ?t"
    by (rule updated_run [OF d(1), where f = "breach_row now"])
      (use d in \<open>auto simp: lawful_update_def breach_row_def\<close>)
  moreover have "status_at ?t k \<in> {Some CS_active, Some CS_breached}"
    if "status_at s k \<in> {Some CS_active, Some CS_breached}" for k
    using that by (auto simp: status_at_def contract_at_def contracts.get_upd breach_row_def)
  then have "contract_run ?t (breach_contracts now a r cs ?t)"
    using Cons.prems by (intro Cons.IH) auto
  ultimately show ?case by (simp add: breach_contracts_def)
qed

lemma active_contracts_status:
  assumes "contract_inv s" "c \<in> set (active_contracts_for_sub sid s)"
  shows "contract_at (c_id c) s = Some c \<and> c_sub_id c = sid \<and> c_status c = CS_active"
  using assms
  by (auto simp: active_contracts_for_sub_def newest_first_def contract_inv_def contract_at_def intro: fetch_distinct)

lemma add_entry_Inr [res_simps]:
  "add_entry b s = Inr s' \<longleftrightarrow> \<bar>numeric_column 2 (b_balance_snapshot b)\<bar> < 10 ^ 10 \<and>
     s' = s\<lparr>t_blacklist := insert_row (b\<lparr>b_balance_snapshot := numeric_column 2 (b_balance_snapshot b)\<rparr>) (t_blacklist s)\<rparr>"
  by (auto simp: add_entry_def res_simps not_le)

lemma breach_run:
  assumes "breach bid now u sid r s = Inr (s', out)" "contract_inv s"
  shows "contract_run s s'"
proof -
  let ?t = "breach_contracts now (u_id u) r (active_contracts_for_sub sid s) s"
  have "contract_run s ?t"
    by (rule breach_contracts_run) (use active_contracts_status [OF assms(2)] in \<open>auto simp: status_at_def\<close>)
  moreover have "contract_run ?t s'"
    by (rule quiet_run)
      (use assms(1) in \<open>auto simp: breach_def res_simps Let_def revoke_all_refresh_for_user_def\<close>)
  ultimately show ?thesis by (rule rtranclp_trans)
qed

section \<open>The daily tick\<close>

lemma run_keeps_engaged: "contract_run s s' \<Longrightarrow> engaged k s \<Longrightarrow> engaged k s'"
proof -
  assume run: "contract_run s s'" and "engaged k s"
  then obtain x where "status_at s k = Some x" "x \<notin> {CS_pending_sub, CS_pending_dom, CS_pending_dom_counter}"
    by (auto simp: engaged_def status_at_def negotiating_def split: option.splits)
  then have "\<exists>y. status_at s' k = Some y \<and> y \<notin> {CS_pending_sub, CS_pending_dom, CS_pending_dom_counter}"
    by (intro contract_life.run_keeps_closed [OF _ run]) (auto elim!: contract_edge.cases)
  then show ?thesis by (auto simp: engaged_def status_at_def negotiating_def split: option.splits)
qed

lemma tick_contract_cases:
  assumes "tick_contract z aer d now c s = (s', Inr t)"
  obtains (skip) "s' = s" "\<not> t"
      "current_period_index z c now \<le> 0 \<or> exists_for_period (c_id c) (current_period_index z c now) ET_period_interest s"
  | (tick) late s1 where "0 < current_period_index z c now"
      "\<not> exists_for_period (c_id c) (current_period_index z c now) ET_period_interest s"
      "(if current_period_index z c now - 1 \<ge> 1
        then had_min_payment_for_period c (current_period_index z c now - 1) s = Inr (\<not> late) else \<not> late)"
      "(if late then late_phase c (current_period_index z c now - 1) d else phase_return ()) s = (s1, Inr ())"
      "interest_phase aer c (current_period_index z c now) d s1 = (s', Inr t)"
proof -
  let ?idx = "current_period_index z c now"
  show ?thesis
  proof (cases "?idx \<le> 0 \<or> exists_for_period (c_id c) ?idx ET_period_interest s")
    case True
    with assms show ?thesis by (intro skip) (auto simp: tick_contract_def Let_def split: if_splits)
  next
    case False
    then obtain late s0 s1 where
        l: "(if ?idx - 1 \<ge> 1
             then phase_then (phase_read (had_min_payment_for_period c (?idx - 1))) (\<lambda>paid. phase_return (\<not> paid))
             else phase_return False) s = (s0, Inr late)"
        and r: "(if late then late_phase c (?idx - 1) d else phase_return ()) s0 = (s1, Inr ())"
          "interest_phase aer c ?idx d s1 = (s', Inr t)"
      using assms unfolding tick_contract_def Let_def by (simp add: phase_then_Inr) blast
    from l have "s0 = s" "(if ?idx - 1 \<ge> 1 then had_min_payment_for_period c (?idx - 1) s = Inr (\<not> late) else \<not> late)"
      by (auto simp: phase_then_Inr split: if_splits)
    with r False show ?thesis by (intro tick [of late s1]) auto
  qed
qed

section \<open>Renewals\<close>

lemma clone_row_simps [simp]:
  "c_id (clone_row t d src) = cl_id d" "c_status (clone_row t d src) = CS_pending_sub_signature"
  "c_balance (clone_row t d src) = principal src" "principal (clone_row t d src) = principal src"
  "c_sub_id (clone_row t d src) = c_sub_id src" "c_signed_at (clone_row t d src) = None"
  by (simp_all add: clone_row_def new_contract_def terms.defs)

lemma clone_contract_run:
  assumes "clone_contract add_months d src gu s = Inr s'" "contract_at (cl_id d) s = None"
  shows "contract_run s s'"
proof -
  obtain old where old: "c_review_at src = Some old"
    using assms(1) by (auto simp: clone_contract_def res_simps)
  let ?t = "advance_review_at add_months old (payment_frequency src) (duration_periods src)"
  show ?thesis
    by (rule opened_run [where c = "store_contract (clone_row ?t d src)" and v = "Some (cl_version_id d)" and now = "cl_now d"])
      (use assms old in \<open>auto simp: clone_contract_def res_simps Let_def save_contract_def append_audit_def\<close>)
qed

lemma renew_each_run:
  assumes "renew_each add_months d cs n s = Inr (s', k)"
    and "\<And>c. c \<in> set cs \<Longrightarrow> contract_at (cl_id (d (c_id c))) s = None"
    and "distinct (map c_id cs)" "inj (\<lambda>i. cl_id (d i))"
  shows "contract_run s s'"
  using assms(1-3)
proof (induction cs arbitrary: n s)
  case Nil
  then show ?case by simp
next
  case (Cons c cs)
  let ?d = "d (c_id c)"
  have rest: "contract_at (cl_id (d (c_id x))) s = None" if "x \<in> set cs" for x
    using Cons.prems(2) that by simp
  show ?case
  proof (cases "already_cloned (c_id c) s \<or> goddess_user_for_contract c s = Inr None")
    case True
    then have "renew_each add_months d cs n s = Inr (s', k)"
      using Cons.prems(1) by (auto simp: res_simps split: if_splits)
    then show ?thesis using rest Cons.prems(3) by (intro Cons.IH) auto
  next
    case False
    then obtain u s1 where u: "goddess_user_for_contract c s = Inr (Some u)"
        "clone_contract add_months ?d c u s = Inr s1"
        "renew_each add_months d cs (n + 1) (notify (c_sub_id c) NT_contract_renewed (Some (cl_id ?d)) None s1) = Inr (s', k)"
      using Cons.prems(1) by (auto simp: res_simps split: if_splits option.splits)
    let ?s2 = "notify (c_sub_id c) NT_contract_renewed (Some (cl_id ?d)) None s1"
    have "contract_run s s1" using Cons.prems(2) by (intro clone_contract_run [OF u(2)]) simp
    moreover have "contract_run s1 ?s2" by (rule quiet_run) simp_all
    moreover have "contract_at k ?s2 = contract_at k s" if "k \<noteq> cl_id ?d" for k
      using that u(2) Cons.prems(2) [of c]
      by (auto simp: clone_contract_def res_simps Let_def save_contract_def append_audit_def contract_at_def
          contracts.get_upd contracts.get_add)
    moreover have "cl_id (d (c_id x)) \<noteq> cl_id ?d" if "x \<in> set cs" for x
      using Cons.prems(3) that injD [OF assms(4), of "c_id x" "c_id c"] by (auto simp: image_iff)
    ultimately have "contract_run ?s2 s'"
      using rest Cons.prems(3) by (intro Cons.IH [OF u(3)]) auto
    with \<open>contract_run s s1\<close> \<open>contract_run s1 ?s2\<close> show ?thesis by (meson rtranclp_trans)
  qed
qed

end
