(* ===== verification/Samples.thy ===== *)
theory Samples
  imports Additions Payments
begin

text \<open>
  A small world for the closed examples: one goddess (user 11, profile 10), one active sub
  (user 12), a payment method, and a contract on the sample terms that is proposed and then
  signed.
\<close>

definition dom_user :: user where
  "dom_user = \<lparr>u_id = 11, u_goddess_id = Some 10, u_username = ''dom'', u_email = ''d'',
     u_password_hash = [], u_role = R_goddess, u_status = US_active, u_first_name = None,
     u_last_name = None, u_avatar_key = AK_default, u_payment_handle = None, u_bio = None,
     u_theme_preference = ''system'', u_last_login_at = None, u_gender = None, u_pronouns = None,
     u_location = None, u_timezone = None, u_date_of_birth = None, u_real_name = None\<rparr>"

definition sub_user :: user where
  "sub_user = \<lparr>u_id = 12, u_goddess_id = Some 10, u_username = ''sub'', u_email = ''s'',
     u_password_hash = [], u_role = R_sub, u_status = US_active, u_first_name = None,
     u_last_name = None, u_avatar_key = AK_default, u_payment_handle = None, u_bio = None,
     u_theme_preference = ''system'', u_last_login_at = None, u_gender = None, u_pronouns = None,
     u_location = None, u_timezone = None, u_date_of_birth = None, u_real_name = None\<rparr>"

definition dom_profile :: goddess where
  "dom_profile = \<lparr>g_id = 10, g_display_name = ''dom''\<rparr>"

definition world :: db where
  "world = empty_db\<lparr>t_goddesses := [dom_profile], t_users := [dom_user, sub_user],
     t_methods := [(sample_method 30)\<lparr>m_goddess_id := 10\<rparr>]\<rparr>"

lemma sample_users [simp]:
  "u_id dom_user = 11" "u_id sub_user = 12" "u_goddess_id sub_user = Some 10"
  "u_goddess_id dom_user = Some 10" "u_role sub_user = R_sub" "u_role dom_user = R_goddess"
  "u_status sub_user = US_active" "g_id dom_profile = 10"
  by (simp_all add: dom_user_def sub_user_def dom_profile_def)

text \<open>The lookups of the world, in every state that has its users.\<close>

definition has_world :: "db \<Rightarrow> bool" where
  "has_world s \<longleftrightarrow> t_users s = [dom_user, sub_user] \<and> t_goddesses s = [dom_profile] \<and>
     t_methods s = [(sample_method 30)\<lparr>m_goddess_id := 10\<rparr>]"

lemma world_lookups [simp]:
  assumes "has_world s"
  shows "resolve_goddess_id 11 s = Inr 10" "resolve_goddess_user_id 10 s = Inr (Some 11)"
    "assert_sub_belongs_to_goddess 10 12 s = Inr sub_user" "user_by_id 12 s = Some sub_user"
    "get_method_for_goddess 10 30 s = Inr ((sample_method 30)\<lparr>m_goddess_id := 10\<rparr>)"
  using assms
  by (simp_all add: has_world_def resolve_goddess_id_def resolve_goddess_user_id_def
      assert_sub_belongs_to_goddess_def user_by_id_def get_method_for_goddess_def method_by_id_def sample_method_def)

lemma has_world_world [simp]: "has_world world"
  by (simp add: has_world_def world_def)

lemma world_tables [simp]:
  "t_contracts world = []" "t_events world = []" "t_versions world = []" "t_adjustments world = []"
  "t_declarations world = []" "t_allocations world = []" "t_audits world = []" "t_blacklist world = []"
  "t_rollings world = []" "t_cron_runs world = []" "t_rules world = []" "t_merits world = []"
  "t_refresh_tokens world = []" "t_safewords world = []"
  "t_users world = [dom_user, sub_user]" "t_goddesses world = [dom_profile]"
  "t_methods world = [(sample_method 30)\<lparr>m_goddess_id := 10\<rparr>]"
  by (simp_all add: world_def empty_db_def)

lemma terms_fit_new [simp]:
  "terms_fit (new_contract i sl t u g b st p) = terms_fit p"
  "terms_fit (new_version i' t' c n u' p) = terms_fit p"
  by (simp_all add: terms_fit_def new_contract_def new_version_def terms.defs)

lemma store_new [simp]:
  "store_contract (new_contract i sl t u g b st p) = new_contract i sl t u g b st (store_terms p)"
  "store_terms (new_version i' t' c n u' p) = new_version i' t' c n u' (store_terms p)"
  by (simp_all add: store_contract_def store_terms_def new_contract_def new_version_def terms.defs)

lemma sample_terms_fit [simp]: "terms_fit sample_terms" "store_terms sample_terms = sample_terms"
  by (simp_all add: terms_fit_def store_terms_def sample_terms_def places_def)

definition proposed_row :: debt_contract where
  "proposed_row = (new_contract 100 ''k'' 0 12 10 False CS_pending_sub sample_terms)
     \<lparr>c_current_version_id := Some 200, c_updated_at := 0\<rparr>"

definition proposed :: db where
  "proposed = fst (projr (propose_as_goddess gmt 0 100 200 ''k'' dom_user 12 sample_terms world))"

lemma propose_sample:
  "\<exists>v. propose_as_goddess gmt 0 100 200 ''k'' dom_user 12 sample_terms world = Inr (proposed, v)"
  by (simp add: proposed_def propose_as_goddess_def create_contract_def create_version_def Let_def)

lemma proposed_tables [simp]:
  "t_contracts proposed = [proposed_row]" "t_events proposed = []" "t_adjustments proposed = []"
  "t_declarations proposed = []" "t_allocations proposed = []" "has_world proposed"
  "t_rollings proposed = []" "t_cron_runs proposed = []" "t_rules proposed = []" "t_merits proposed = []"
  "t_refresh_tokens proposed = []" "t_safewords proposed = []" "t_blacklist proposed = []"
  "t_versions proposed = [new_version 200 0 100 0 11 sample_terms]"
  by (simp_all add: proposed_def propose_as_goddess_def create_contract_def create_version_def Let_def
      save_contract_def append_audit_def insert_row_def proposed_row_def has_world_def notify_def publish_event_def)

definition signed_row :: debt_contract where
  "signed_row = proposed_row\<lparr>c_status := CS_active, c_signed_at := Some 5, c_signature_b64 := Some ''sig'',
     c_updated_at := 5\<rparr>"

definition signed :: db where
  "signed = fst (projr (sign_as_sub gmt 5 sub_user 100 ''sig'' proposed))"

lemma proposed_row_simps [simp]:
  "c_id proposed_row = 100" "c_status proposed_row = CS_pending_sub" "c_sub_id proposed_row = 12"
  "c_goddess_id proposed_row = 10" "c_balance proposed_row = 1000" "principal proposed_row = 1000"
  "c_id signed_row = 100" "c_status signed_row = CS_active" "c_sub_id signed_row = 12"
  "c_goddess_id signed_row = 10" "c_balance signed_row = 1000" "principal signed_row = 1000"
  "c_signed_at signed_row = Some 5"
  by (simp_all add: signed_row_def proposed_row_def sample_terms_def)

lemma has_world_update [simp]:
  "has_world (append_audit a s) = has_world s" "has_world (save_contract k f s) = has_world s"
  "has_world (notify u ty r n s) = has_world s" "has_world (notify_opt v ty r n s) = has_world s"
  "has_world (publish_event u tp r s) = has_world s" "has_world (publish_opt v tp r s) = has_world s"
  by (simp_all add: has_world_def append_audit_def save_contract_def notify_def publish_event_def
      notify_opt_def publish_opt_def split: option.splits)

lemma sign_sample: "\<exists>v. sign_as_sub gmt 5 sub_user 100 ''sig'' proposed = Inr (signed, v)"
  by (simp add: signed_def sign_as_sub_def contract_or_404_def Let_def)

lemma signed_tables [simp]:
  "t_contracts signed = [signed_row]" "t_events signed = []" "t_adjustments signed = []"
  "t_declarations signed = []" "t_allocations signed = []" "has_world signed"
  "t_rollings signed = []" "t_cron_runs signed = []" "t_rules signed = []" "t_merits signed = []"
  "t_refresh_tokens signed = []" "t_safewords signed = []" "t_blacklist signed = []"
  "t_versions signed = [new_version 200 0 100 0 11 sample_terms]"
  by (simp_all add: signed_def sign_as_sub_def contract_or_404_def Let_def)
    (simp_all add: signed_row_def append_audit_def save_contract_def)

text \<open>The goddess records a payment of 100 on the signed contract.\<close>

definition sample_payment :: record_in where
  "sample_payment = \<lparr>di_amount = 100, di_method_id = 30, di_category = PC_debt_payment,
     di_external_timestamp = None, di_note = None, di_target_id = Some 100, ri_sub_id = 12\<rparr>"

lemma sample_payment_simps [simp]:
  "ri_sub_id sample_payment = 12" "di_category sample_payment = PC_debt_payment"
  "di_method_id sample_payment = 30" "di_amount sample_payment = 100" "di_target_id sample_payment = Some 100"
  by (simp_all add: sample_payment_def)

definition paid_event :: debt_event where
  "paid_event = new_event 400 9 100 ET_payment_applied 100 None (Some ''payment validation'')"

definition paid :: db where
  "paid = fst (projr (record_as_goddess 300 400 9 dom_user sample_payment signed))"

lemma numeric_column_numeral [simp]: "numeric_column n (numeral k) = numeral k"
  by (rule numeric_column_id) (simp add: places_def)

lemma sample_replay [simp]: "replay_events 1000 [paid_event] = 900"
  using replay_step_payment [of paid_event 1000]
  by (simp add: replay_events_def paid_event_def places_def)

lemma paid_event_simps [simp]: "stored_event paid_event = paid_event" "e_contract_id paid_event = 100"
  by (simp_all add: paid_event_def stored_event_def new_event_def)

lemma sample_posting:
  assumes "t_contracts s = [signed_row]" "t_events s = []"
  shows "apply_event_and_recompute paid_event s =
    Inr (set_balance 100 900 (s\<lparr>t_events := [paid_event]\<rparr>), 900)"
  using assms by (auto simp: apply_event_eq_Inr period_bound_clash_def ledger_of_def)
    (simp_all add: paid_event_def)

lemma pay_stages:
  "settle 400 9 (recorded_row 300 9 11 12 10 sample_payment) 12 11
     (signed\<lparr>t_declarations := [stored_declaration (recorded_row 300 9 11 12 10 sample_payment)]\<rparr>) =
   Inr (set_balance 100 900 (signed\<lparr>
     t_declarations := [stored_declaration (recorded_row 300 9 11 12 10 sample_payment)],
     t_allocations := [\<lparr>l_declaration_id = 300, l_target_type = AT_contract_debt, l_target_id = Some 100,
       l_amount = 100, l_allocated_at = 9\<rparr>], t_events := [paid_event]\<rparr>))"
  using sample_posting
  by (simp add: settle_def emit_allocation_def category_to_allocation_target_def
      create_allocation_def insert_row_def debt_payment_categories_def apply_debt_payment_def
      load_active_contract_for_sub_def recorded_row_def paid_event_def [symmetric])

definition paid_state :: db where
  "paid_state = set_balance 100 900 (signed\<lparr>
     t_declarations := [stored_declaration (recorded_row 300 9 11 12 10 sample_payment)],
     t_allocations := [\<lparr>l_declaration_id = 300, l_target_type = AT_contract_debt, l_target_id = Some 100,
       l_amount = 100, l_allocated_at = 9\<rparr>], t_events := [paid_event]\<rparr>)"

lemma pay_sample_state: "\<exists>out. record_as_goddess 300 400 9 dom_user sample_payment signed = Inr (paid_state, out)"
  using pay_stages
  by (simp add: record_as_goddess_def check_category_for_sub_def create_declaration_def insert_row_def Let_def
      payment_to_out_def load_allocation_def paid_state_def)

lemma paid_is_state: "paid = paid_state"
  using pay_sample_state by (auto simp: paid_def)

lemma pay_sample: "\<exists>out. record_as_goddess 300 400 9 dom_user sample_payment signed = Inr (paid, out)"
  using pay_sample_state by (simp add: paid_is_state)

lemma paid_tables [simp]:
  "t_contracts paid = [signed_row\<lparr>c_balance := 900\<rparr>]" "t_events paid = [paid_event]" "t_adjustments paid = []"
  "t_declarations paid = [stored_declaration (recorded_row 300 9 11 12 10 sample_payment)]"
  by (simp_all add: paid_is_state paid_state_def)

end
