(* ===== verification/DailyRun.thy ===== *)
theory DailyRun
  imports Settlement Samples
begin

text \<open>
  The daily run and the passes over the contracts: what a run leaves behind when it is a dry
  run or when a flush fails in it, what a tick posts and that it is posted once, the clash of a
  tick with a bulk late penalty, and the idempotence of reminders and renewals.
\<close>

section \<open>Failed flushes\<close>

definition flush_failed :: "(uuid \<times> string \<times> app_error) list \<Rightarrow> bool" where
  "flush_failed errs \<longleftrightarrow> (\<exists>sid ph e. (sid, ph, e) \<in> set errs \<and> flush_error e)"

lemma flush_failed_simps [simp]:
  "\<not> flush_failed []" "flush_failed (errs @ [(sid, ph, e)]) \<longleftrightarrow> flush_failed errs \<or> flush_error e"
  by (auto simp: flush_failed_def)

definition savepoint_ok :: "savepoint \<Rightarrow> bool" where
  "savepoint_ok sp \<longleftrightarrow> sp_failed sp = flush_failed (sp_errors sp)"

lemma run_phase_ok: "run_phase sid ph m sp = (sp', n) \<Longrightarrow> savepoint_ok sp \<Longrightarrow> savepoint_ok sp'"
  by (auto simp: run_phase_def savepoint_ok_def split: if_splits prod.splits sum.splits)

lemma process_sub_ok: "savepoint_ok sp \<Longrightarrow> savepoint_ok (process_sub z aer d now sid sp)"
proof -
  assume ok: "savepoint_ok sp"
  obtain sp1 n where 1: "run_phase sid ''rolling'' (process_rolling z (cd_rolling_at d sid) now sid) sp = (sp1, n)"
    by fastforce
  obtain sp3 k where 3: "run_phase sid ''contracts'' (process_contracts z aer d now sid)
      (sp1\<lparr>sp_rolling := sp_rolling sp1 + n\<rparr>) = (sp3, k)"
    by fastforce
  have "savepoint_ok (sp1\<lparr>sp_rolling := sp_rolling sp1 + n\<rparr>)"
    using run_phase_ok [OF 1 ok] by (simp add: savepoint_ok_def)
  from run_phase_ok [OF 3 this] show ?thesis
    using 1 3 by (simp add: process_sub_def Let_def savepoint_ok_def)
qed

lemma process_subs_ok: "savepoint_ok sp \<Longrightarrow> savepoint_ok (process_subs z aer d now us sp)"
  unfolding process_subs_def by (induction us arbitrary: sp) (simp_all add: process_sub_ok)

lemma daily_savepoint_ok: "savepoint_ok (daily_savepoint z aer d now s)"
  unfolding daily_savepoint_def
  by (rule process_subs_ok) (simp add: savepoint_ok_def open_savepoint_def)

text \<open>The books: everything but the run records and the messages.\<close>

definition books :: "db \<Rightarrow> db" where
  "books s = s\<lparr>t_cron_runs := [], t_published := []\<rparr>"

lemma run_daily_books:
  assumes "run_daily z aer d clock rid dry_run by_user s = (s', errs)"
    and "dry_run \<or> flush_failed errs"
  shows "books s' = books s"
  using assms daily_savepoint_ok [of z aer d "rc_now clock" "create_started rid (rc_started clock) dry_run by_user s"]
  by (auto simp: run_daily_def Let_def books_def finish_run_def close_savepoint_def create_started_def
      savepoint_ok_def)

text \<open>What a phase leaves alone, also when it raises.\<close>

definition phase_keeps :: "(db \<Rightarrow> 'b) \<Rightarrow> 'a phase \<Rightarrow> bool" where
  "phase_keeps f m \<longleftrightarrow> (\<forall>s. f (fst (m s)) = f s)"

lemma phase_keepsI:
  fixes f :: "db \<Rightarrow> 'b"
  shows "phase_keeps f (phase_return x)" "phase_keeps f (phase_read r)"
    "phase_keeps f m \<Longrightarrow> (\<And>x. phase_keeps f (k x)) \<Longrightarrow> phase_keeps f (phase_then m k)"
    "(\<And>s. f (u s) = f s) \<Longrightarrow> phase_keeps f (phase_update u)"
    "(\<And>s s' x. h s = Inr (s', x) \<Longrightarrow> f s' = f s) \<Longrightarrow> phase_keeps f (phase_write h)"
  unfolding phase_keeps_def phase_return_def phase_read_def phase_then_def phase_update_def phase_write_def
  by (auto split: prod.splits sum.splits) (metis fst_conv)+

lemma phase_keepsD: "phase_keeps f m \<Longrightarrow> m s = (s', r) \<Longrightarrow> f s' = f s"
  by (metis phase_keeps_def fst_conv)

text \<open>
  A part of the database that postings, penalties and notifications leave alone is left alone by
  the whole run.
\<close>

locale run_frame =
  fixes part :: "db \<Rightarrow> 'b"
  assumes posting: "apply_event_and_recompute ev s = Inr (s', b) \<Longrightarrow> part s' = part s"
    and penalty: "apply_penalty now gid sid trig kind src dd dl s = Inr (s', x) \<Longrightarrow> part s' = part s"
    and message: "part (notify u ty r n s) = part s"
begin

lemma steps:
  "phase_keeps part (phase_write (apply_event_and_recompute ev))"
  "phase_keeps part (phase_write (apply_penalty t gid sid trig kind src dd dl))"
  "phase_keeps part (phase_update (notify u ty r n))"
  by (auto intro!: phase_keepsI(4,5) intro: message dest: posting penalty)

lemma process_rolling: "phase_keeps part (process_rolling z t now sid)"
  unfolding process_rolling_def
  by (auto split: option.splits simp: Let_def intro!: phase_keepsI(1-3) steps)

lemma tick: "phase_keeps part (tick_contract z aer d now c)"
proof -
  let ?i = "current_period_index z c now"
  have p: "phase_keeps part (late_phase c i d)" "phase_keeps part (interest_phase aer c i d)" for i
    unfolding late_phase_def interest_phase_def by (auto intro!: phase_keepsI(1-3) steps)
  define m where "m = phase_then (if ?i - 1 \<ge> 1
      then phase_then (phase_read (had_min_payment_for_period c (?i - 1))) (\<lambda>paid. phase_return (\<not> paid))
      else phase_return False) (\<lambda>is_late.
    phase_then (if is_late then late_phase c (?i - 1) d else phase_return ()) (\<lambda>_. interest_phase aer c ?i d))"
  have "phase_keeps part m"
    unfolding m_def by (auto intro!: phase_keepsI(1-3) p)
  moreover have "tick_contract z aer d now c s =
      (if ?i \<le> 0 \<or> exists_for_period (c_id c) ?i ET_period_interest s then (s, Inr False) else m s)" for s
    by (simp add: tick_contract_def Let_def m_def)
  ultimately show ?thesis unfolding phase_keeps_def by simp
qed

lemma ticks: "part (fst (tick_contracts z aer d now cs n s)) = part s"
proof (induction cs arbitrary: n s)
  case (Cons c cs)
  have "phase_keeps part (phase_then (tick_contract z aer (cd_tick d (c_id c)) now c)
       (\<lambda>ticked. tick_contracts z aer d now cs (if ticked then n + 1 else n)))"
    using Cons by (intro phase_keepsI tick) (simp add: phase_keeps_def)
  then show ?case by (simp add: phase_keeps_def)
qed simp

lemma run_phase:
  assumes "phase_keeps part m" "run_phase sid ph m sp = (sp', n)"
  shows "part (sp_db sp') = part (sp_db sp)"
  using assms(2) phase_keepsD [OF assms(1)]
  by (auto simp: run_phase_def split: if_splits prod.splits sum.splits)

lemma process_sub: "part (sp_db (process_sub z aer d now sid sp)) = part (sp_db sp)"
proof -
  have contracts: "phase_keeps part (process_contracts z aer d now sid)"
    by (simp add: phase_keeps_def process_contracts_def ticks)
  obtain sp1 n where 1: "run_phase sid ''rolling'' (process_rolling z (cd_rolling_at d sid) now sid) sp = (sp1, n)"
    by fastforce
  obtain sp3 k where 3: "run_phase sid ''contracts'' (process_contracts z aer d now sid)
      (sp1\<lparr>sp_rolling := sp_rolling sp1 + n\<rparr>) = (sp3, k)"
    by fastforce
  show ?thesis
    using run_phase [OF process_rolling 1] run_phase [OF contracts 3] 1 3
    by (simp add: process_sub_def Let_def)
qed

lemma process_subs: "part (sp_db (process_subs z aer d now us sp)) = part (sp_db sp)"
  unfolding process_subs_def by (induction us arbitrary: sp) (simp_all add: process_sub)

lemma savepoint: "part (sp_db (daily_savepoint z aer d now s)) = part s"
  by (simp add: daily_savepoint_def process_subs open_savepoint_def)

end

interpretation runs: run_frame t_cron_runs
  by unfold_locales
    (auto simp: apply_event_eq_Inr set_balance_def apply_penalty_def res_simps emit_merit_event_def insert_idempotent_def
      log_event_def split: option.splits if_splits)

section \<open>Properties of a run\<close>

text \<open>
  C13: The daily run keeps a record of itself, marked as dry or real, finished and with the
  number of its errors; and when it is a dry run, or when one flush failed in it, it changes
  nothing else in the database, for any sub.
\<close>

theorem dry_or_failed_run_changes_nothing:
  assumes "run_daily z aer d clock rid dry_run by_user s = (s', errs)" "get_run rid s = None"
  shows "(dry_run \<or> flush_failed errs \<longrightarrow> books s' = books s) \<and>
    (\<exists>r. get_run rid s' = Some r \<and> cr_dry_run r = dry_run \<and> cr_triggered_by_user_id r = by_user \<and>
       cr_finished_at r = Some (rc_finished clock) \<and> cr_n_errors r = length errs)"
proof -
  let ?s1 = "create_started rid (rc_started clock) dry_run by_user s"
  let ?sp = "daily_savepoint z aer d (rc_now clock) ?s1"
  let ?s2 = "close_savepoint dry_run ?s1 ?sp"
  have "t_cron_runs (sp_db ?sp) = t_cron_runs ?s1"
    by (rule runs.savepoint)
  then have "t_cron_runs ?s2 = t_cron_runs ?s1" by (cases dry_run) (simp_all add: close_savepoint_def)
  moreover obtain r where "fetch cr_id rid (t_cron_runs ?s1) = Some r" "cr_dry_run r = dry_run"
    "cr_triggered_by_user_id r = by_user"
    using assms(2) by (simp add: create_started_def get_run_def insert_row_def fetch_append)
  ultimately have "get_run rid s' = Some (finished_row (rc_finished clock)
      [(''subs'', int (length (load_active_subs ?s1))), (''rolling'', int (sp_rolling ?sp)),
       (''contracts'', int (sp_contracts ?sp))] (length errs) r)"
    using assms(1)
    by (auto simp: run_daily_def Let_def get_run_def finish_run_def fetch_modify finished_row_def)
  then show ?thesis
    using run_daily_books [OF assms(1)] \<open>cr_dry_run r = dry_run\<close> \<open>cr_triggered_by_user_id r = by_user\<close>
    by (simp add: finished_row_def)
qed

section \<open>A tick and its clashes\<close>

text \<open>
  C14: A tick is made once per period: the tick that posted the interest of a period leaves
  just one more interest event for it, and every later tick of the same contract in the same
  period does nothing.
\<close>

theorem tick_once:
  assumes "tick_contract z aer d now c s = (s1, Inr True)"
  shows "exists_for_period (c_id c) (current_period_index z c now) ET_period_interest s1 \<and>
    \<not> exists_for_period (c_id c) (current_period_index z c now) ET_period_interest s \<and>
    (current_period_index z c now' = current_period_index z c now \<longrightarrow>
       tick_contract z aer d' now' c s1 = (s1, Inr False))"
  using assms
proof (cases rule: tick_contract_cases)
  case (tick late s0)
  then obtain b s2 where p: "apply_event_and_recompute (new_event (td_rate_id d) (td_rate_at d) (c_id c)
      ET_period_interest (period_rate aer c) (Some (current_period_index z c now)) None) s0 = Inr (s2, b)"
    "s1 = notify (c_sub_id c) NT_contract_period_interest (Some (c_id c)) (Some (current_period_index z c now)) s2"
    by (auto simp: interest_phase_def res_simps simp del: apply_event_eq_Inr)
  then have "exists_for_period (c_id c) (current_period_index z c now) ET_period_interest s1"
    by (auto simp: apply_event_eq_Inr exists_for_period_def)
  then show ?thesis using tick(2) by (simp add: tick_contract_def Let_def)
qed simp

lemma bulk_clash:
  assumes "current_period_index z c now = p + 1" "1 \<le> p"
    and "\<not> exists_for_period (c_id c) (p + 1) ET_period_interest s"
    and "had_min_payment_for_period c p s = Inr False"
    and "exists_for_period (c_id c) p ET_late_penalty s"
    and "\<bar>numeric_column 4 (late_penalty_percent c)\<bar> < 10 ^ 8"
  shows "tick_contract z aer d now c s = (s, Inl (IntegrityError ''uq_debt_event_period_bound''))"
proof -
  have "apply_event_and_recompute (new_event (td_late_id d) (td_late_at d) (c_id c) ET_late_penalty
      (late_penalty_percent c) (Some p) (Some ''missed minimum payment'')) s =
      Inl (IntegrityError ''uq_debt_event_period_bound'')"
    using assms(5,6)
    by (auto simp: apply_event_and_recompute_def add_event_def period_bound_clash_def exists_for_period_def
        list_ex_iff)
  then show ?thesis
    using assms(1-4)
    by (simp add: tick_contract_def Let_def phase_then_def phase_read_def phase_return_def late_phase_def
        phase_write_def)
qed

text \<open>
  When the goddess penalised a period in bulk and the minimum of that period was not paid,
  the tick of the next period fails on the unique constraint of the ledger before it posts
  anything, so no interest accrues for the contract.
\<close>

theorem tick_after_bulk_penalty_fails:
  assumes "current_period_index z c now = p + 1" "1 \<le> p"
    and "\<not> exists_for_period (c_id c) (p + 1) ET_period_interest s"
    and "had_min_payment_for_period c p s = Inr False"
    and "exists_for_period (c_id c) p ET_late_penalty s"
    and "\<bar>numeric_column 4 (late_penalty_percent c)\<bar> < 10 ^ 8"
  shows "tick_contract z aer d now c s = (s, Inl (IntegrityError ''uq_debt_event_period_bound''))"
  using assms by (rule bulk_clash)

section \<open>A run that fails\<close>

text \<open>
  The sample contract in its second period: interest accrued for the first, nothing was paid,
  and the goddess applied the late penalty of the first period in bulk.
\<close>

definition clash_events :: "debt_event list" where
  "clash_events = [new_event 401 (days 31) 100 ET_period_interest (1 / 100) (Some 1) None,
     new_event 402 (days 40) 100 ET_late_penalty (1 / 20) (Some 1) None]"

definition clashing :: db where
  "clashing = signed\<lparr>t_events := clash_events\<rparr>"

definition sample_clock :: run_clock where
  "sample_clock = \<lparr>rc_started = days 61, rc_now = days 61, rc_finished = days 61 + 1\<rparr>"

definition sample_draw :: cron_draw where
  "sample_draw = \<lparr>cd_rolling_at = (\<lambda>_. days 61),
     cd_tick = (\<lambda>_. \<lparr>td_late_id = 403, td_late_at = days 61, td_penalty_at = days 61, td_rate_id = 404,
                     td_rate_at = days 61 + 1\<rparr>)\<rparr>"

lemma sample_period: "current_period_index gmt signed_row (days 61) = 2"
  by code_simp

lemma signed_terms [simp]:
  "minimum_payment signed_row = 100" "late_penalty_percent signed_row = 1 / 20"
  by (simp_all add: signed_row_def proposed_row_def new_contract_def terms.defs sample_terms_def)

lemma clash_facts:
  assumes "t_events s = clash_events"
  shows "\<not> exists_for_period 100 2 ET_period_interest s" "exists_for_period 100 1 ET_late_penalty s"
    "had_min_payment_for_period signed_row 1 s = Inr False"
  using assms by (simp_all add: exists_for_period_def clash_events_def had_min_payment_for_period_def)

lemma clash_percent: "\<bar>numeric_column 4 (late_penalty_percent signed_row)\<bar> < 10 ^ 8"
  by (simp add: numeric_column_id places_def)

lemma clashing_tables [simp]:
  "t_rollings clashing = []" "t_contracts clashing = [signed_row]" "t_users clashing = [dom_user, sub_user]"
  "t_cron_runs clashing = []" "t_events clashing = clash_events"
  using signed_tables(6) by (simp_all add: clashing_def has_world_def)

lemma tick_after_bulk_penalty_fails_witness:
  "tick_contract gmt (\<lambda>r. r) (cd_tick sample_draw 100) (days 61) signed_row clashing =
     (clashing, Inl (IntegrityError ''uq_debt_event_period_bound''))"
  using clash_facts [of clashing] sample_period clash_percent
  by (intro tick_after_bulk_penalty_fails [of gmt signed_row "days 61" 1]) simp_all

lemma clash_run:
  "\<exists>s'. run_daily gmt (\<lambda>r. r) sample_draw sample_clock 500 False None clashing =
     (s', [(12, ''contracts'', IntegrityError ''uq_debt_event_period_bound'')])"
proof -
  let ?s = "create_started 500 (days 61) False None clashing"
  have t: "t_rollings ?s = []" "t_contracts ?s = [signed_row]" "t_users ?s = [dom_user, sub_user]"
    "t_events ?s = clash_events"
    by (simp_all add: create_started_def)
  have "tick_contract gmt (\<lambda>r. r) (cd_tick sample_draw 100) (days 61) signed_row ?s =
      (?s, Inl (IntegrityError ''uq_debt_event_period_bound''))"
    using clash_facts [OF t(4)] sample_period clash_percent by (intro bulk_clash [of gmt signed_row "days 61" 1]) simp_all
  then have "process_contracts gmt (\<lambda>r. r) sample_draw (days 61) 12 ?s =
      (?s, Inl (IntegrityError ''uq_debt_event_period_bound''))"
    using t by (simp add: process_contracts_def active_rows_for_sub_def phase_then_def)
  moreover have "process_rolling gmt x y 12 ?s = (?s, Inr 0)" for x y
    using t by (simp add: process_rolling_def rolling_for_sub_def phase_then_def phase_read_def phase_return_def)
  moreover have "load_active_subs ?s = [sub_user]"
    using t by (simp add: load_active_subs_def)
  ultimately show ?thesis
    by (simp add: run_daily_def Let_def sample_clock_def daily_savepoint_def process_subs_def process_sub_def
        run_phase_def open_savepoint_def)
qed

lemma dry_or_failed_run_changes_nothing_witness:
  "\<exists>s' errs. run_daily gmt (\<lambda>r. r) sample_draw sample_clock 500 False None clashing = (s', errs) \<and>
     books s' = books clashing \<and> errs \<noteq> []"
proof -
  obtain s' where r: "run_daily gmt (\<lambda>r. r) sample_draw sample_clock 500 False None clashing =
      (s', [(12, ''contracts'', IntegrityError ''uq_debt_event_period_bound'')])"
    using clash_run by blast
  have "get_run 500 clashing = None" by (simp add: get_run_def)
  from dry_or_failed_run_changes_nothing [OF r this] r show ?thesis
    by (auto simp: flush_failed_def)
qed

section \<open>A tick that succeeds\<close>

definition first_interest :: debt_event where
  "first_interest = new_event 404 (days 61 + 1) 100 ET_period_interest (1 / 100) (Some 1) None"

lemma first_period:
  "current_period_index gmt signed_row (days 31) = 1" "current_period_index gmt signed_row (days 40) = 1"
  by code_simp+

lemma first_rate: "period_rate (\<lambda>r. r) signed_row = 1 / 100"
  by code_simp

lemma first_balance: "replay_events 1000 [first_interest] = 1010"
  unfolding first_interest_def by code_simp

lemma tick_sample:
  "\<exists>s'. tick_contract gmt (\<lambda>r. r) (cd_tick sample_draw 100) (days 31) signed_row signed = (s', Inr True)"
proof -
  have "apply_event_and_recompute first_interest signed =
      Inr (set_balance 100 1010 (signed\<lparr>t_events := [stored_event first_interest]\<rparr>), 1010)"
    using first_balance
    by (auto simp: apply_event_eq_Inr period_bound_clash_def ledger_of_def)
      (simp_all add: first_interest_def numeric_column_id places_def)
  moreover have "new_event 404 (days 61 + 1) 100 ET_period_interest (period_rate (\<lambda>r. r) signed_row) (Some 1) None =
      first_interest"
    by (simp only: first_rate first_interest_def)
  ultimately show ?thesis
    using first_period(1)
    by (simp add: tick_contract_def Let_def exists_for_period_def phase_then_def phase_return_def interest_phase_def
        phase_write_def phase_update_def sample_draw_def)
qed

lemma tick_once_witness:
  "\<exists>s'. tick_contract gmt (\<lambda>r. r) (cd_tick sample_draw 100) (days 40) signed_row s' = (s', Inr False) \<and>
     exists_for_period 100 1 ET_period_interest s'"
proof -
  obtain s' where t: "tick_contract gmt (\<lambda>r. r) (cd_tick sample_draw 100) (days 31) signed_row signed = (s', Inr True)"
    using tick_sample by blast
  from tick_once [OF t, of "days 40" "cd_tick sample_draw 100"] show ?thesis
    by (auto simp: first_period)
qed

section \<open>Reminders and renewals\<close>

lemma reminder_after_notify [simp]:
  "reminder_already_sent cid (notify u ty r n s) \<longleftrightarrow>
     reminder_already_sent cid s \<or> (ty = NT_review_reminder \<and> r = Some cid)"
  by (auto simp: reminder_already_sent_def notify_def publish_event_def list_ex_iff)

lemma goddess_user_cong:
  "t_users s' = t_users s \<Longrightarrow> t_goddesses s' = t_goddesses s \<Longrightarrow>
   goddess_user_for_contract c s' = goddess_user_for_contract c s"
  by (simp add: goddess_user_for_contract_def resolve_goddess_user_id_def)

definition reminders_of :: "uuid \<Rightarrow> db \<Rightarrow> notification list" where
  "reminders_of cid s =
     filter (\<lambda>n. nt_type n = NT_review_reminder \<and> nt_ref n = Some cid) (t_notifications s)"

lemma reminders_of_none: "reminder_already_sent cid s \<longleftrightarrow> reminders_of cid s \<noteq> []"
  by (auto simp: reminder_already_sent_def reminders_of_def list_ex_iff filter_empty_conv)

lemma remind_each_facts:
  assumes "remind_each cs n s = Inr (s1, k)"
  shows "t_contracts s1 = t_contracts s \<and> t_users s1 = t_users s \<and> t_goddesses s1 = t_goddesses s \<and>
    (\<forall>cid. reminder_already_sent cid s \<longrightarrow> reminder_already_sent cid s1) \<and>
    (\<forall>cid. length (reminders_of cid s) \<le> 1 \<longrightarrow> length (reminders_of cid s1) \<le> 1) \<and>
    (\<forall>c \<in> set cs. reminder_already_sent (c_id c) s1 \<or> goddess_user_for_contract c s1 = Inr None)"
  using assms
proof (induction cs arbitrary: n s)
  case (Cons c cs)
  show ?case
  proof (cases "reminder_already_sent (c_id c) s \<or> goddess_user_for_contract c s = Inr None")
    case True
    then have "remind_each cs n s = Inr (s1, k)" using Cons.prems by (auto split: if_splits)
    from Cons.IH [OF this] True goddess_user_cong [of s1 s c] show ?thesis by auto
  next
    case False
    then obtain u where r: "remind_each cs (n + 1) (notify u NT_review_reminder (Some (c_id c)) None s) = Inr (s1, k)"
      using Cons.prems by (auto simp: res_simps split: if_splits option.splits)
    have "length (reminders_of cid s) \<le> 1 \<Longrightarrow>
        length (reminders_of cid (notify u NT_review_reminder (Some (c_id c)) None s)) \<le> 1" for cid
      using False by (auto simp: reminders_of_none) (auto simp: reminders_of_def notify_def publish_event_def)
    with Cons.IH [OF r] show ?thesis by auto
  qed
qed simp

lemma remind_each_settled:
  "\<forall>c \<in> set cs. reminder_already_sent (c_id c) s \<or> goddess_user_for_contract c s = Inr None \<Longrightarrow>
   remind_each cs n s = Inr (s, n)"
  by (induction cs) auto

text \<open>
  After a reminder pass every due contract whose goddess still has a user has its reminder,
  a second pass of the day sends none, and no contract ever gets two.
\<close>

theorem reminders_sent_once:
  assumes "run_review_reminders z now s = Inr (s1, k)"
  shows "(\<forall>c \<in> set (due_for_reminder z now s).
      reminder_already_sent (c_id c) s1 \<or> goddess_user_for_contract c s = Inr None) \<and>
    run_review_reminders z now s1 = Inr (s1, 0) \<and>
    (length (reminders_of cid s) \<le> 1 \<longrightarrow> length (reminders_of cid s1) \<le> 1)"
proof -
  note f = remind_each_facts [OF assms [unfolded run_review_reminders_def]]
  have "due_for_reminder z now s1 = due_for_reminder z now s"
    using f by (simp add: due_for_reminder_def)
  moreover have "goddess_user_for_contract c s1 = goddess_user_for_contract c s" for c
    using f goddess_user_cong by blast
  ultimately show ?thesis
    using f remind_each_settled [of "due_for_reminder z now s" s1 0] by (auto simp: run_review_reminders_def)
qed

text \<open>The sample contract, up for review 14 days after day 61 and at once renewable.\<close>

definition review_row :: debt_contract where
  "review_row = signed_row\<lparr>c_review_at := Some (days 75), c_renewal_policy := RP_auto_extend\<rparr>"

definition under_review :: db where
  "under_review = signed\<lparr>t_contracts := [review_row], t_audits := [], t_notifications := []\<rparr>"

lemma under_review_simps [simp]:
  "t_contracts under_review = [review_row]" "has_world under_review" "t_notifications under_review = []"
  "t_audits under_review = []" "t_versions under_review = [new_version 200 0 100 0 11 sample_terms]"
  "c_id review_row = 100" "c_status review_row = CS_active" "c_goddess_id review_row = 10"
  "c_review_at review_row = Some (days 75)" "c_renewal_policy review_row = RP_auto_extend"
  using signed_tables(6) by (simp_all add: under_review_def review_row_def has_world_def)

lemma due_sample: "due_for_reminder gmt (days 61) under_review = [review_row]"
  by (simp add: due_for_reminder_def review_window_utc_def as_london_date_def to_wall_def from_wall_def gmt_def
      date_of_def days_def us_per_day_def us_per_hour_def)

lemma reminders_sent_once_witness:
  "\<exists>s1. run_review_reminders gmt (days 61) under_review = Inr (s1, 1) \<and> reminder_already_sent 100 s1 \<and>
     run_review_reminders gmt (days 61) s1 = Inr (s1, 0)"
proof -
  have "\<exists>s1. run_review_reminders gmt (days 61) under_review = Inr (s1, 1)"
    by (simp add: run_review_reminders_def due_sample reminder_already_sent_def goddess_user_for_contract_def)
  then obtain s1 where "run_review_reminders gmt (days 61) under_review = Inr (s1, 1)" by blast
  from reminders_sent_once [OF this] this show ?thesis
    by (auto simp: due_sample goddess_user_for_contract_def)
qed

text \<open>The fresh ids of the clones are not ids of active contracts.\<close>

definition clones_fresh :: "(uuid \<Rightarrow> clone_draw) \<Rightarrow> db \<Rightarrow> bool" where
  "clones_fresh d s \<longleftrightarrow>
     (\<forall>c \<in> set (t_contracts s). c_status c = CS_active \<longrightarrow> c_id c \<notin> range (\<lambda>i. cl_id (d i)))"

lemma filter_modify_skip:
  "(\<And>r. r \<in> set t \<Longrightarrow> key r = k \<Longrightarrow> \<not> P r \<and> \<not> P (f r)) \<Longrightarrow> filter P (modify key k f t) = filter P t"
  by (induction t) auto

lemma clone_contract_facts:
  assumes "clone_contract am (d i) c u s = Inr s1" "clones_fresh d s"
  shows "due_for_renewal now s1 = due_for_renewal now s \<and> clones_fresh d s1 \<and>
    t_users s1 = t_users s \<and> t_goddesses s1 = t_goddesses s \<and>
    (\<exists>a. t_audits s1 = t_audits s @ [a] \<and> a_event_type a = AE_contract_renewed \<and>
         a_note a = Some (NoteSourceContract (c_id c)))"
proof -
  obtain row f where s1: "t_contracts s1 = modify c_id (cl_id (d i)) f (t_contracts s @ [row])"
      "c_status row = CS_pending_sub_signature" "\<And>r. c_status (f r) = c_status r" "\<And>r. c_id (f r) = c_id r"
      "t_users s1 = t_users s" "t_goddesses s1 = t_goddesses s"
      "t_audits s1 = t_audits s @ [audit_row (cl_now (d i)) (cl_id (d i)) AE_contract_renewed u None
         (Some CS_pending_sub_signature) (Some (NoteSourceContract (c_id c)))]"
    using assms(1)
    by (auto simp: clone_contract_def res_simps Let_def save_contract_def append_audit_def insert_row_def
        create_contract_Inr create_version_Inr store_contract_def store_terms_def)
  have inactive: "c_status r \<noteq> CS_active" if "r \<in> set (t_contracts s @ [row])" "c_id r = cl_id (d i)" for r
    using that assms(2) s1(2) by (auto simp: clones_fresh_def)
  have "due_for_renewal now s1 = due_for_renewal now s"
    unfolding due_for_renewal_def s1(1)
    by (subst filter_modify_skip) (use inactive s1(2,3) in auto)
  moreover have "clones_fresh d s1"
    using assms(2) s1(2-4) unfolding clones_fresh_def s1(1) by (auto simp: set_modify split: if_splits)
  ultimately show ?thesis using s1 by (simp add: audit_row_def)
qed

lemma already_cloned_snoc:
  "t_audits s' = t_audits s @ [a] \<Longrightarrow> already_cloned cid s' \<longleftrightarrow> already_cloned cid s \<or>
     (a_event_type a = AE_contract_renewed \<and> a_note a = Some (NoteSourceContract cid))"
  by (auto simp: already_cloned_def list_ex_iff)

lemma renew_each_facts:
  assumes "renew_each am d cs n s = Inr (s1, k)" "clones_fresh d s"
  shows "due_for_renewal now s1 = due_for_renewal now s \<and> t_users s1 = t_users s \<and>
    t_goddesses s1 = t_goddesses s \<and> (\<forall>cid. already_cloned cid s \<longrightarrow> already_cloned cid s1) \<and>
    (\<forall>c \<in> set cs. already_cloned (c_id c) s1 \<or> goddess_user_for_contract c s1 = Inr None)"
  using assms
proof (induction cs arbitrary: n s)
  case (Cons c cs)
  show ?case
  proof (cases "already_cloned (c_id c) s \<or> goddess_user_for_contract c s = Inr None")
    case True
    then have "renew_each am d cs n s = Inr (s1, k)" using Cons.prems(1) by (auto split: if_splits)
    from Cons.IH [OF this Cons.prems(2)] True goddess_user_cong [of s1 s c] show ?thesis by auto
  next
    case False
    then obtain u s0 where u: "clone_contract am (d (c_id c)) c u s = Inr s0"
        "renew_each am d cs (n + 1) (notify (c_sub_id c) NT_contract_renewed (Some (cl_id (d (c_id c)))) None s0) = Inr (s1, k)"
      using Cons.prems(1) by (auto simp: res_simps split: if_splits option.splits)
    let ?s2 = "notify (c_sub_id c) NT_contract_renewed (Some (cl_id (d (c_id c)))) None s0"
    obtain a where f: "due_for_renewal now s0 = due_for_renewal now s" "clones_fresh d s0"
        "t_users s0 = t_users s" "t_goddesses s0 = t_goddesses s" "t_audits s0 = t_audits s @ [a]"
        "a_event_type a = AE_contract_renewed" "a_note a = Some (NoteSourceContract (c_id c))"
      using clone_contract_facts [OF u(1) Cons.prems(2)] by blast
    have "due_for_renewal now ?s2 = due_for_renewal now s" "clones_fresh d ?s2"
      using f(1,2) by (simp_all add: due_for_renewal_def clones_fresh_def)
    moreover have "already_cloned cid ?s2 \<longleftrightarrow> already_cloned cid s \<or> cid = c_id c" for cid
      using already_cloned_snoc [of ?s2 s a cid] f(5-7) by auto
    ultimately show ?thesis using Cons.IH [OF u(2)] f(3,4) by simp
  qed
qed simp

lemma renew_each_settled:
  "\<forall>c \<in> set cs. already_cloned (c_id c) s \<or> goddess_user_for_contract c s = Inr None \<Longrightarrow>
   renew_each am d cs n s = Inr (s, n)"
  by (induction cs) auto

text \<open>
  A contract that is due for renewal is renewed once: after a pass every due contract has
  its renewal on record, unless its goddess has no user left, and further passes at the same
  time, whatever ids they draw, create nothing.
\<close>

theorem renewed_once:
  assumes "run_auto_extend_renewals am d now s = Inr (s1, k)" "clones_fresh d s"
  shows "(\<forall>c \<in> set (due_for_renewal now s).
      already_cloned (c_id c) s1 \<or> goddess_user_for_contract c s = Inr None) \<and>
    run_auto_extend_renewals am d' now s1 = Inr (s1, 0)"
proof -
  note f = renew_each_facts [OF assms(1) [unfolded run_auto_extend_renewals_def] assms(2)]
  have "goddess_user_for_contract c s1 = goddess_user_for_contract c s" for c
    using f goddess_user_cong by blast
  then show ?thesis
    using f renew_each_settled [of "due_for_renewal now s" s1] by (auto simp: run_auto_extend_renewals_def)
qed

definition sample_clone :: "uuid \<Rightarrow> clone_draw" where
  "sample_clone i = \<lparr>cl_id = 700 + i, cl_version_id = 900 + i, cl_slug = ''renewed'', cl_now = days 80\<rparr>"

lemma renewal_due: "due_for_renewal (days 80) under_review = [review_row]"
  by (simp add: due_for_renewal_def days_def us_per_day_def us_per_hour_def)

lemma renewal_fits [simp]:
  "terms_fit (clone_row t (sample_clone 100) review_row)" "terms_fit (terms.truncate review_row)"
  "c_slug review_row = ''k''" "c_slug (clone_row t (sample_clone 100) review_row) = ''renewed''"
  "cl_id (sample_clone 100) = 800"
  by (simp_all add: clone_row_def review_row_def signed_row_def proposed_row_def new_contract_def terms.defs
      terms_fit_def sample_terms_def numeric_column_id places_def sample_clone_def)

lemma renewed_once_witness:
  "\<exists>s1. run_auto_extend_renewals (\<lambda>t n. t + days (30 * n)) sample_clone (days 80) under_review = Inr (s1, 1) \<and>
     already_cloned 100 s1 \<and>
     run_auto_extend_renewals (\<lambda>t n. t + days (30 * n)) sample_clone (days 80) s1 = Inr (s1, 0)"
proof -
  have "\<exists>s1. run_auto_extend_renewals (\<lambda>t n. t + days (30 * n)) sample_clone (days 80) under_review = Inr (s1, 1)"
    by (simp add: run_auto_extend_renewals_def renewal_due already_cloned_def goddess_user_for_contract_def
        clone_contract_def create_contract_def create_version_def Let_def)
  then obtain s1 where s1: "run_auto_extend_renewals (\<lambda>t n. t + days (30 * n)) sample_clone (days 80) under_review = Inr (s1, 1)"
    by blast
  have "clones_fresh sample_clone under_review" by (auto simp: clones_fresh_def sample_clone_def)
  from renewed_once [OF s1 this] s1 show ?thesis
    by (auto simp: renewal_due goddess_user_for_contract_def)
qed

end
