(* ===== verification/Declarations.thy ===== *)
theory Declarations
  imports Settlement
begin

text \<open>
  The specification of payment declarations: their status graph, the steps of the two tables
  (declarations and allocations) and the invariant that a declaration has an allocation just
  when it is validated in a category that has a target. The payment handlers take such steps,
  the other handlers leave both tables alone.
\<close>

section \<open>The machine\<close>

inductive declaration_edge :: "payment_status \<Rightarrow> payment_status \<Rightarrow> bool" where
  validated: "declaration_edge PS_pending PS_validated"
| rejected: "declaration_edge PS_pending PS_rejected"
| cancelled: "declaration_edge PS_pending PS_cancelled"

inductive_simps declaration_edge_simps [simp]: "declaration_edge x y"

code_pred declaration_edge .

definition declaration_at :: "uuid \<Rightarrow> db \<Rightarrow> payment_declaration option" where
  "declaration_at did s = fetch d_id did (t_declarations s)"

definition declaration_status :: "db \<Rightarrow> uuid \<Rightarrow> payment_status option" where
  "declaration_status s did = map_option d_status (declaration_at did s)"

definition allocation_of :: "payment_declaration \<Rightarrow> payment_allocation \<Rightarrow> bool" where
  "allocation_of d l \<longleftrightarrow> l_declaration_id l = d_id d \<and>
     category_to_allocation_target (d_category d) = Some (l_target_type l) \<and>
     l_target_id l = d_target_id d \<and> l_amount l = numeric_column 2 (d_amount d)"

text \<open>The allocation table after a validation of \<open>d\<close>.\<close>

definition allocates :: "payment_declaration \<Rightarrow> payment_allocation list \<Rightarrow> payment_allocation list \<Rightarrow> bool" where
  "allocates d ls ls' \<longleftrightarrow>
     (if category_to_allocation_target (d_category d) = None then ls' = ls
      else (\<forall>l \<in> set ls. l_declaration_id l \<noteq> d_id d) \<and> (\<exists>l. allocation_of d l \<and> ls' = ls @ [l]))"

inductive payment_step :: "db \<Rightarrow> db \<Rightarrow> bool" where
  quiet: "\<lbrakk>t_declarations s' = t_declarations s; t_allocations s' = t_allocations s\<rbrakk> \<Longrightarrow> payment_step s s'"
| declared: "\<lbrakk>declaration_at (d_id d) s = None; d_status d = PS_pending;
     t_declarations s' = insert_row d (t_declarations s); t_allocations s' = t_allocations s\<rbrakk>
   \<Longrightarrow> payment_step s s'"
| recorded: "\<lbrakk>declaration_at (d_id d) s = None; d_status d = PS_validated;
     t_declarations s' = insert_row d (t_declarations s);
     allocates d (t_allocations s) (t_allocations s')\<rbrakk> \<Longrightarrow> payment_step s s'"
| changed: "\<lbrakk>declaration_at did s = Some d; d_status d = PS_pending; \<And>r. d_id (f r) = d_id r;
     d_status (f d) \<in> {PS_pending, PS_rejected, PS_cancelled};
     t_declarations s' = modify d_id did f (t_declarations s); t_allocations s' = t_allocations s;
     \<And>r. d_proof_key (f r) = d_proof_key r\<rbrakk>
   \<Longrightarrow> payment_step s s'"
| settled: "\<lbrakk>declaration_at did s = Some d; d_status d = PS_pending; \<And>r. d_id (f r) = d_id r;
     d_status (f d) = PS_validated; t_declarations s' = modify d_id did f (t_declarations s);
     allocates (f d) (t_allocations s) (t_allocations s');
     \<And>r. d_proof_key (f r) = d_proof_key r\<rbrakk> \<Longrightarrow> payment_step s s'"

interpretation declarations: keyed_table d_id "fetch d_id" insert_row "modify d_id"
  by (rule list_table)

lemma declaration_at_insert:
  "declaration_at (d_id d) s = None \<Longrightarrow> t_declarations s' = insert_row d (t_declarations s) \<Longrightarrow>
   declaration_at k s' = (if k = d_id d then Some d else declaration_at k s)"
  by (simp add: declaration_at_def declarations.get_add)

lemma declaration_at_modify:
  "(\<And>r. d_id (f r) = d_id r) \<Longrightarrow> t_declarations s' = modify d_id did f (t_declarations s) \<Longrightarrow>
   declaration_at k s' = (if k = did then map_option f (declaration_at k s) else declaration_at k s)"
  by (simp add: declaration_at_def declarations.get_upd)

interpretation declaration_life: lifecycle payment_step declaration_status declaration_edge
proof
  fix s s' k x
  assume "payment_step s s'" "declaration_status s k = Some x"
  then show "\<exists>y. declaration_status s' k = Some y \<and> (y = x \<or> declaration_edge x y)"
  proof (cases rule: payment_step.cases)
    case quiet
    then have "declaration_status s' k = declaration_status s k"
      by (simp add: declaration_status_def declaration_at_def)
    then show ?thesis using \<open>declaration_status s k = Some x\<close> by simp
  next
    case (declared d)
    then show ?thesis using \<open>declaration_status s k = Some x\<close>
      by (auto simp: declaration_status_def declaration_at_insert [of d s])
  next
    case (recorded d)
    then show ?thesis using \<open>declaration_status s k = Some x\<close>
      by (auto simp: declaration_status_def declaration_at_insert [of d s])
  next
    case (changed did d f)
    then show ?thesis using \<open>declaration_status s k = Some x\<close>
      by (auto simp: declaration_status_def declaration_at_modify [of f s' did s])
  next
    case (settled did d f)
    then show ?thesis using \<open>declaration_status s k = Some x\<close>
      by (auto simp: declaration_status_def declaration_at_modify [of f s' did s])
  qed
qed

section \<open>The invariant\<close>

definition allocations_match :: "db \<Rightarrow> bool" where
  "allocations_match s \<longleftrightarrow>
     distinct (map l_declaration_id (t_allocations s)) \<and>
     (\<forall>l \<in> set (t_allocations s). \<exists>d. declaration_at (l_declaration_id l) s = Some d \<and>
        d_status d = PS_validated \<and> allocation_of d l) \<and>
     (\<forall>k d. declaration_at k s = Some d \<longrightarrow> d_status d = PS_validated \<longrightarrow>
        category_to_allocation_target (d_category d) \<noteq> None \<longrightarrow>
        (\<exists>l \<in> set (t_allocations s). allocation_of d l))"

lemma allocations_match_empty: "t_declarations s = [] \<Longrightarrow> t_allocations s = [] \<Longrightarrow> allocations_match s"
  by (simp add: allocations_match_def declaration_at_def)

lemma declaration_at_id: "declaration_at k s = Some d \<Longrightarrow> d_id d = k"
  unfolding declaration_at_def by (rule declarations.get_key)

text \<open>One declaration enters the validated state with its allocation, the others are kept.\<close>

lemma allocations_match_settled:
  assumes inv: "allocations_match s"
    and at: "\<And>k. declaration_at k s' = (if k = d_id d then Some d else declaration_at k s)"
    and st: "d_status d = PS_validated"
    and old: "\<And>d0. declaration_at (d_id d) s = Some d0 \<Longrightarrow> d_status d0 \<noteq> PS_validated"
    and al: "allocates d (t_allocations s) (t_allocations s')"
  shows "allocations_match s'"
proof -
  have keep: "l_declaration_id l \<noteq> d_id d" if "l \<in> set (t_allocations s)" for l
    using inv that old by (fastforce simp: allocations_match_def)
  have "\<exists>e. declaration_at (l_declaration_id l) s' = Some e \<and> d_status e = PS_validated \<and> allocation_of e l"
    if "l \<in> set (t_allocations s')" for l
  proof (cases "l \<in> set (t_allocations s)")
    case True
    then show ?thesis using inv at keep [OF True] by (auto simp: allocations_match_def)
  next
    case False
    then have "allocation_of d l" using that al by (auto simp: allocates_def split: if_splits)
    then show ?thesis using at st by (auto simp: allocation_of_def)
  qed
  moreover have "\<exists>l \<in> set (t_allocations s'). allocation_of e l"
    if e: "declaration_at k s' = Some e" "d_status e = PS_validated"
      "category_to_allocation_target (d_category e) \<noteq> None" for k e
  proof (cases "k = d_id d")
    case True
    then show ?thesis using e at al by (auto simp: allocates_def)
  next
    case False
    then have "declaration_at k s = Some e" using e(1) at [of k] by simp
    with inv e(2,3) obtain l where "l \<in> set (t_allocations s)" "allocation_of e l"
      unfolding allocations_match_def by blast
    then show ?thesis using al by (auto simp: allocates_def split: if_splits)
  qed
  moreover have "distinct (map l_declaration_id (t_allocations s))"
    using inv by (simp add: allocations_match_def)
  then have "distinct (map l_declaration_id (t_allocations s'))"
    using al keep by (auto simp: allocates_def allocation_of_def image_iff split: if_splits) metis
  ultimately show ?thesis by (auto simp: allocations_match_def)
qed

text \<open>A declaration that is not validated before and after the step does not matter.\<close>

lemma allocations_match_other:
  assumes inv: "allocations_match s" and al: "t_allocations s' = t_allocations s"
    and at: "\<And>k. declaration_at k s' = (if k = i then Some d else declaration_at k s)"
    and st: "d_status d \<noteq> PS_validated"
    and old: "\<And>d0. declaration_at i s = Some d0 \<Longrightarrow> d_status d0 \<noteq> PS_validated"
  shows "allocations_match s'"
proof -
  have keep: "l_declaration_id l \<noteq> i" if "l \<in> set (t_allocations s)" for l
    using inv that old by (fastforce simp: allocations_match_def)
  have "\<exists>e. declaration_at (l_declaration_id l) s' = Some e \<and> d_status e = PS_validated \<and> allocation_of e l"
    if "l \<in> set (t_allocations s)" for l
    using inv that at keep [OF that] by (auto simp: allocations_match_def)
  moreover have "\<exists>l \<in> set (t_allocations s). allocation_of e l"
    if e: "declaration_at k s' = Some e" "d_status e = PS_validated"
      "category_to_allocation_target (d_category e) \<noteq> None" for k e
  proof -
    have "declaration_at k s = Some e" using e(1,2) at [of k] st by (auto split: if_splits)
    with inv e(2,3) show ?thesis unfolding allocations_match_def by blast
  qed
  ultimately show ?thesis using inv al by (auto simp: allocations_match_def)
qed

lemma payment_step_keeps_match:
  assumes "payment_step s s'" "allocations_match s"
  shows "allocations_match s'"
  using assms(1)
proof (cases rule: payment_step.cases)
  case quiet
  then show ?thesis using assms(2) by (simp add: allocations_match_def declaration_at_def)
next
  case (declared d)
  show ?thesis
    by (rule allocations_match_other [OF assms(2) declared(4) declaration_at_insert [OF declared(1,3)]])
      (use declared in auto)
next
  case (recorded d)
  show ?thesis
    by (rule allocations_match_settled [OF assms(2) declaration_at_insert [OF recorded(1,3)]])
      (use recorded in auto)
next
  case (changed did d f)
  have "declaration_at k s' = (if k = did then Some (f d) else declaration_at k s)" for k
    using declaration_at_modify [OF changed(3,5)] changed(1) by simp
  then show ?thesis
    by (rule allocations_match_other [OF assms(2) changed(6)]) (use changed in auto)
next
  case (settled did d f)
  have "d_id (f d) = did" using settled(1,3) declaration_at_id by simp
  moreover have "declaration_at k s' = (if k = did then Some (f d) else declaration_at k s)" for k
    using declaration_at_modify [OF settled(3,5)] settled(1) by simp
  ultimately show ?thesis
    by (intro allocations_match_settled [OF assms(2)]) (use settled in auto)
qed

section \<open>What settling does to the two tables\<close>

lemma apply_debt_payment_payments:
  assumes "apply_debt_payment eid now d sid s = Inr s'"
  shows "t_declarations s' = t_declarations s" "t_allocations s' = t_allocations s"
  using assms by (auto simp: apply_debt_payment_def res_simps)

lemma apply_buyout_payments:
  assumes "apply_buyout eid now d sid actor s = Inr s'"
  shows "t_declarations s' = t_declarations s" "t_allocations s' = t_allocations s"
  using assms by (auto simp: apply_buyout_def res_simps Let_def save_contract_def append_audit_def)

lemma emit_allocation_allocates:
  assumes "emit_allocation now d s = Inr s'"
  shows "allocates d (t_allocations s) (t_allocations s')"
  using assms by (auto simp: emit_allocation_def allocates_def allocation_of_def res_simps split: option.splits)

lemma settle_payments:
  assumes "settle eid now d sid actor s = Inr s'"
  shows "t_declarations s' = t_declarations s \<and> allocates d (t_allocations s) (t_allocations s')"
proof -
  obtain s1 s2 s3 s4 where st: "emit_allocation now d s = Inr s1"
      "(if d_category d = PC_entry then promote_sub sid s1 else Inr s1) = Inr s2"
      "(if d_category d = PC_rolling then mark_paid sid now now s2 else Inr s2) = Inr s3"
      "(if d_category d \<in> set debt_payment_categories then apply_debt_payment eid now d sid s3 else Inr s3) = Inr s4"
      "(if d_category d = PC_buyout then apply_buyout eid now d sid actor s4 else Inr s4) = Inr s'"
    using assms unfolding settle_def attempt_eq_Inr by blast
  have "t_declarations s2 = t_declarations s1" "t_allocations s2 = t_allocations s1"
    using st(2) by (auto simp: promote_sub_Inr split: if_splits)
  moreover have "t_declarations s3 = t_declarations s2" "t_allocations s3 = t_allocations s2"
    using st(3) mark_paid_frame [of sid now now s2 s3] by (simp_all split: if_splits)
  moreover have "t_declarations s4 = t_declarations s3" "t_allocations s4 = t_allocations s3"
    using st(4) apply_debt_payment_payments [of eid now d sid s3 s4] by (simp_all split: if_splits)
  moreover have "t_declarations s' = t_declarations s4" "t_allocations s' = t_allocations s4"
    using st(5) apply_buyout_payments [of eid now d sid actor s4 s'] by (simp_all split: if_splits)
  ultimately show ?thesis
    using emit_allocation_frame [OF st(1)] emit_allocation_allocates [OF st(1)] by simp
qed

lemma allocates_stored: "allocates d ls ls' \<Longrightarrow> allocates (stored_declaration d) ls ls'"
  by (auto simp: allocates_def allocation_of_def split: if_splits)

section \<open>The payment handlers\<close>

lemma declare_step:
  assumes "declare_as_sub did now key u p s = Inr (s', out)" "declaration_at did s = None"
  shows "payment_step s s'"
proof -
  obtain d where d: "t_declarations s' = insert_row d (t_declarations s)" "d_id d = did" "d_status d = PS_pending"
      "t_allocations s' = t_allocations s"
    using assms(1) by (auto simp: declare_as_sub_def res_simps Let_def)
  show ?thesis by (rule payment_step.declared [of d]) (use d assms(2) in auto)
qed

lemma record_step:
  assumes "record_as_goddess did eid now u p s = Inr (s', out)" "declaration_at did s = None"
  shows "payment_step s s'"
proof -
  obtain d sub where d: "settle eid now d sub (u_id u)
        (s\<lparr>t_declarations := insert_row (stored_declaration d) (t_declarations s)\<rparr>) = Inr s'"
      "d_id d = did" "d_status d = PS_validated"
    using assms(1) by (auto simp: record_as_goddess_def res_simps Let_def)
  let ?d = "stored_declaration d"
  have "t_declarations s' = insert_row ?d (t_declarations s)" "allocates ?d (t_allocations s) (t_allocations s')"
    using settle_payments [OF d(1)] allocates_stored [of d] by auto
  then show ?thesis by (intro payment_step.recorded [of ?d]) (use d assms(2) in auto)
qed

lemma patched_row_simps [simp]:
  "d_id (patched_row p d) = d_id d" "d_status (patched_row p d) = d_status d"
  "d_proof_key (patched_row p d) = d_proof_key d"
  by (simp_all add: patched_row_def)

lemma declaration_or_404_Inr [res_simps]:
  "declaration_or_404 did s = Inr d \<longleftrightarrow> declaration_at did s = Some d"
  by (auto simp: declaration_or_404_def declaration_at_def res_simps)

lemma owned_declaration_Inr [res_simps]:
  "owned_declaration u did s = Inr d \<longleftrightarrow>
     declaration_at did s = Some d \<and> resolve_goddess_id (u_id u) s = Inr (d_goddess_id d)"
  by (auto simp: owned_declaration_def res_simps)

lemma edit_step:
  assumes "edit_pending_as_sub u did p s = Inr (s', out)"
  shows "payment_step s s'"
proof -
  obtain d where d: "declaration_at did s = Some d" "d_status d = PS_pending"
      "s' = save_declaration did (patched_row p) s"
    using assms by (auto simp: edit_pending_as_sub_def res_simps Let_def)
  show ?thesis
    by (rule payment_step.changed [OF d(1,2), where f = "patched_row p"])
      (use d in \<open>auto simp: save_declaration_def\<close>)
qed

lemma cancel_step:
  assumes "cancel_pending_as_sub now u did s = Inr s'"
  shows "payment_step s s'"
proof -
  obtain d where d: "declaration_at did s = Some d" "d_status d = PS_pending"
      "s' = save_declaration did (cancelled_row now) s"
    using assms by (auto simp: cancel_pending_as_sub_def res_simps)
  show ?thesis
    by (rule payment_step.changed [OF d(1,2), where f = "cancelled_row now"])
      (use d in \<open>auto simp: save_declaration_def cancelled_row_def [abs_def]\<close>)
qed

lemma reject_step:
  assumes "reject now u did why s = Inr (s', out)"
  shows "payment_step s s'"
proof -
  let ?f = "rejected_row (u_id u) why now"
  obtain d where d: "declaration_at did s = Some d" "d_status d = PS_pending"
      "t_declarations s' = modify d_id did ?f (t_declarations s)" "t_allocations s' = t_allocations s"
    using assms by (auto simp: reject_def res_simps Let_def save_declaration_def)
  show ?thesis
    by (rule payment_step.changed [OF d(1,2), where f = ?f]) (use d in \<open>auto simp: rejected_row_def [abs_def]\<close>)
qed

lemma validate_cases:
  assumes "validate eid now u did recat s = Inr (s', out)"
  obtains d cat sub s2 where "declaration_at did s = Some d" "d_status d = PS_pending"
    "resolve_goddess_id (u_id u) s = Inr (d_goddess_id d)"
    "cat = (case recat of Some c \<Rightarrow> c | None \<Rightarrow> d_category d)"
    "user_by_id (d_sub_id d) s = Some sub" "check_category_for_sub sub cat = Inr ()"
    "settle eid now (validated_row (u_id u) now cat d) (u_id sub) (u_id u)
       (save_declaration did (validated_row (u_id u) now cat) s) = Inr s2"
    "s' = publish_event (d_sub_id d) ''validation_resolved'' (Some did)
       (notify (d_sub_id d) NT_payment_validated (Some did) None s2)"
  using assms by (auto simp: validate_def res_simps Let_def)

lemma validated_row_simps [simp]:
  "d_id (validated_row u now cat d) = d_id d" "d_status (validated_row u now cat d) = PS_validated"
  "d_proof_key (validated_row u now cat d) = d_proof_key d"
  "d_category (validated_row u now cat d) = cat" "d_target_id (validated_row u now cat d) = d_target_id d"
  "d_amount (validated_row u now cat d) = d_amount d" "d_sub_id (validated_row u now cat d) = d_sub_id d"
  by (simp_all add: validated_row_def)

lemma validate_step:
  assumes "validate eid now u did recat s = Inr (s', out)"
  shows "payment_step s s'"
  using assms
proof (rule validate_cases)
  fix d cat sub s2
  assume v: "declaration_at did s = Some d" "d_status d = PS_pending"
    "settle eid now (validated_row (u_id u) now cat d) (u_id sub) (u_id u)
       (save_declaration did (validated_row (u_id u) now cat) s) = Inr s2"
    "s' = publish_event (d_sub_id d) ''validation_resolved'' (Some did)
       (notify (d_sub_id d) NT_payment_validated (Some did) None s2)"
  show ?thesis
    by (rule payment_step.settled [OF v(1,2), where f = "validated_row (u_id u) now cat"])
      (use v(4) settle_payments [OF v(3)] in \<open>auto simp: save_declaration_def\<close>)
qed

end
