(* ===== verification/Passes.thy ===== *)
theory Passes
  imports DailyRun Declarations
begin

text \<open>
  The passes over many contracts are runs of the contract machine as a whole: the bulk late
  penalty, the daily run with its savepoint and its caught exceptions, and the renewals. The
  draws of a pass are ordered as the clock orders them: an event is stamped after the events
  that its contract had before the pass, and the interest of a tick after its penalty.
\<close>

section \<open>Stamps\<close>

definition stamped_after :: "uuid \<Rightarrow> uuid \<Rightarrow> datetime \<Rightarrow> db \<Rightarrow> bool" where
  "stamped_after cid eid now s \<longleftrightarrow>
     list_all (\<lambda>e. e_contract_id e = cid \<longrightarrow> (e_created_at e, e_id e) \<le> (now, eid)) (t_events s)"

lemma later_stamped: "later_stamp eid now s \<Longrightarrow> stamped_after cid eid now s"
  by (auto simp: later_stamp_def stamped_after_def list_all_iff)

lemma stamped_latest:
  "stamped_after cid eid now s \<Longrightarrow> latest_event (new_event eid now cid ty a p n) (t_events s)"
  by (auto simp: stamped_after_def latest_event_def list_all_iff)

text \<open>A run that posts on the contracts of a set only.\<close>

definition posts_on :: "uuid set \<Rightarrow> db \<Rightarrow> db \<Rightarrow> bool" where
  "posts_on ks s s' \<longleftrightarrow> contract_run s s' \<and>
     (\<exists>new. t_events s' = t_events s @ new \<and> (\<forall>e \<in> set new. e_contract_id e \<in> ks))"

lemma posts_on_refl [simp, intro]: "posts_on ks s s"
  by (simp add: posts_on_def)

lemma posts_on_trans: "posts_on ks s t \<Longrightarrow> posts_on ks t u \<Longrightarrow> posts_on ks s u"
  unfolding posts_on_def by (force intro: rtranclp_trans)

lemma posts_on_mono: "posts_on ks s t \<Longrightarrow> ks \<subseteq> ks' \<Longrightarrow> posts_on ks' s t"
  unfolding posts_on_def by blast

lemma posts_on_quiet:
  "t_contracts s' = t_contracts s \<Longrightarrow> t_events s' = t_events s \<Longrightarrow> t_adjustments s' = t_adjustments s \<Longrightarrow>
   posts_on ks s s'"
  by (simp add: posts_on_def quiet_run)

lemma posts_on_posted:
  assumes "apply_event_and_recompute ev s = Inr (s', b)" "latest_event ev (t_events s)"
    and "engaged (e_contract_id ev) s" "e_type ev \<noteq> ET_payment_applied"
  shows "posts_on {e_contract_id ev} s s'"
proof -
  have "contract_step s s'" using assms by (intro posted_step) auto
  moreover have "t_events s' = t_events s @ [stored_event ev]"
    using assms(1) by (auto simp: apply_event_eq_Inr)
  ultimately show ?thesis by (auto simp: posts_on_def)
qed

lemma posts_on_stamped:
  "posts_on ks s s' \<Longrightarrow> cid \<notin> ks \<Longrightarrow> stamped_after cid eid now s \<Longrightarrow> stamped_after cid eid now s'"
  unfolding posts_on_def stamped_after_def list_all_iff by (metis Un_iff set_append)

lemma posts_on_engaged: "posts_on ks s s' \<Longrightarrow> engaged k s \<Longrightarrow> engaged k s'"
  unfolding posts_on_def using run_keeps_engaged by blast

section \<open>Phases\<close>

lemma posts_on_phase:
  fixes m :: "'a phase"
  shows "posts_on ks s (fst (phase_return x s))" "posts_on ks s (fst (phase_read r s))"
    "posts_on ks s (fst (m s)) \<Longrightarrow> (\<And>s1 y. m s = (s1, Inr y) \<Longrightarrow> posts_on ks s1 (fst (k y s1))) \<Longrightarrow>
       posts_on ks s (fst (phase_then m k s))"
    "posts_on ks s (u s) \<Longrightarrow> posts_on ks s (fst (phase_update u s))"
    "(\<And>s' y. h s = Inr (s', y) \<Longrightarrow> posts_on ks s s') \<Longrightarrow> posts_on ks s (fst (phase_write h s))"
  unfolding phase_return_def phase_read_def phase_then_def phase_update_def phase_write_def
  by (auto split: prod.splits sum.splits intro: posts_on_trans)

lemma posts_on_penalty:
  "posts_on ks s (fst (phase_write (apply_penalty now gid sid trig kind src dd dl) s))"
  by (intro posts_on_phase(5) posts_on_quiet) (auto dest: apply_penalty_frame)

lemma posts_on_notify: "posts_on ks s (fst (phase_update (notify u ty r n) s))"
  by (intro posts_on_phase(4) posts_on_quiet) simp_all

lemma posts_on_write:
  assumes "stamped_after cid eid now s" "engaged cid s" "ty \<noteq> ET_payment_applied" "cid \<in> ks"
  shows "posts_on ks s (fst (phase_write (apply_event_and_recompute (new_event eid now cid ty a p n)) s))"
  by (rule posts_on_phase(5), rule posts_on_mono, rule posts_on_posted)
    (use assms stamped_latest in auto)

lemma posts_on_late:
  assumes "stamped_after (c_id c) (td_late_id d) (td_late_at d) s" "engaged (c_id c) s"
  shows "posts_on {c_id c} s (fst (late_phase c idx d s))"
  unfolding late_phase_def
  by (intro posts_on_phase(1,3) posts_on_penalty posts_on_notify posts_on_write) (use assms in auto)

lemma posts_on_interest:
  assumes "stamped_after (c_id c) (td_rate_id d) (td_rate_at d) s" "engaged (c_id c) s"
  shows "posts_on {c_id c} s (fst (interest_phase aer c idx d s))"
  unfolding interest_phase_def
  by (intro posts_on_phase(1,3) posts_on_notify posts_on_write) (use assms in auto)

lemma late_phase_event:
  assumes "late_phase c idx d s = (s', Inr u)"
  shows "\<exists>ev. t_events s' = t_events s @ [ev] \<and> (e_created_at ev, e_id ev) = (td_late_at d, td_late_id d)"
  using assms by (auto simp: late_phase_def res_simps apply_event_eq_Inr apply_penalty_frame)

section \<open>Ticks\<close>

text \<open>What the draws of a tick are asked.\<close>

definition tick_ready :: "cron_draw \<Rightarrow> uuid \<Rightarrow> db \<Rightarrow> bool" where
  "tick_ready d k s \<longleftrightarrow> (let t = cd_tick d k in
     stamped_after k (td_late_id t) (td_late_at t) s \<and> stamped_after k (td_rate_id t) (td_rate_at t) s \<and>
     (td_late_at t, td_late_id t) \<le> (td_rate_at t, td_rate_id t))"

lemma tick_ready_kept: "posts_on ks s s' \<Longrightarrow> k \<notin> ks \<Longrightarrow> tick_ready d k s \<Longrightarrow> tick_ready d k s'"
  by (auto simp: tick_ready_def Let_def intro: posts_on_stamped)

lemma posts_on_tick:
  assumes "tick_ready d (c_id c) s" "engaged (c_id c) s"
  shows "posts_on {c_id c} s (fst (tick_contract z aer (cd_tick d (c_id c)) now c s))"
proof -
  let ?t = "cd_tick d (c_id c)" and ?i = "current_period_index z c now"
  note ready = assms(1) [unfolded tick_ready_def Let_def]
  have rest: "posts_on {c_id c} s (fst (phase_then (if late then late_phase c (?i - 1) ?t else phase_return ())
      (\<lambda>_. interest_phase aer c ?i ?t) s))" for late
  proof (rule posts_on_phase(3))
    show "posts_on {c_id c} s (fst ((if late then late_phase c (?i - 1) ?t else phase_return ()) s))"
      using posts_on_late ready assms(2) posts_on_phase(1) by (cases late) auto
    fix s1 y
    assume l: "(if late then late_phase c (?i - 1) ?t else phase_return ()) s = (s1, Inr y)"
    have "stamped_after (c_id c) (td_rate_id ?t) (td_rate_at ?t) s1 \<and> engaged (c_id c) s1"
    proof (cases late)
      case True
      with l have l: "late_phase c (?i - 1) ?t s = (s1, Inr y)" by simp
      have "posts_on {c_id c} s s1"
        using posts_on_late [of c ?t s "?i - 1"] ready assms(2) l by simp
      with late_phase_event [OF l] ready posts_on_engaged assms(2) show ?thesis
        by (auto simp: stamped_after_def)
    qed (use l ready assms(2) in auto)
    then show "posts_on {c_id c} s1 (fst (interest_phase aer c ?i ?t s1))"
      using posts_on_interest by blast
  qed
  have "posts_on {c_id c} s (fst (phase_then (if ?i - 1 \<ge> 1
      then phase_then (phase_read (had_min_payment_for_period c (?i - 1))) (\<lambda>paid. phase_return (\<not> paid))
      else phase_return False) (\<lambda>late. phase_then (if late then late_phase c (?i - 1) ?t else phase_return ())
        (\<lambda>_. interest_phase aer c ?i ?t)) s))"
    (is "posts_on _ s (fst (phase_then ?check ?act s))")
  proof (rule posts_on_phase(3))
    show "posts_on {c_id c} s (fst (?check s))"
      by (auto intro!: posts_on_phase(1-3))
    fix s1 y
    assume "?check s = (s1, Inr y)"
    then have "s1 = s" by (auto simp: phase_then_Inr split: if_splits)
    then show "posts_on {c_id c} s1 (fst (?act y s1))" using rest by simp
  qed
  then show ?thesis by (simp add: tick_contract_def Let_def)
qed

lemma posts_on_ticks:
  assumes "distinct (map c_id cs)" "\<And>c. c \<in> set cs \<Longrightarrow> tick_ready d (c_id c) s \<and> engaged (c_id c) s"
  shows "posts_on (c_id ` set cs) s (fst (tick_contracts z aer d now cs n s))"
  using assms
proof (induction cs arbitrary: n s)
  case (Cons c cs)
  have first: "posts_on {c_id c} s (fst (tick_contract z aer (cd_tick d (c_id c)) now c s))"
    using Cons.prems by (intro posts_on_tick) auto
  show ?case unfolding tick_contracts.simps
  proof (rule posts_on_phase(3))
    show "posts_on (c_id ` set (c # cs)) s (fst (tick_contract z aer (cd_tick d (c_id c)) now c s))"
      by (rule posts_on_mono [OF first]) simp
    fix s1 b
    assume "tick_contract z aer (cd_tick d (c_id c)) now c s = (s1, Inr b)"
    with first have p: "posts_on {c_id c} s s1" by simp
    have "tick_ready d (c_id x) s1 \<and> engaged (c_id x) s1" if "x \<in> set cs" for x
    proof -
      have "c_id x \<noteq> c_id c" using Cons.prems(1) that by (auto simp: image_iff)
      then show ?thesis using tick_ready_kept [OF p] posts_on_engaged [OF p] Cons.prems(2) [of x] that by auto
    qed
    then have "posts_on (c_id ` set cs) s1 (fst (tick_contracts z aer d now cs m s1))" for m
      using Cons.prems(1) by (intro Cons.IH) auto
    then show "posts_on (c_id ` set (c # cs)) s1
        (fst (tick_contracts z aer d now cs (if b then n + 1 else n) s1))"
      by (rule posts_on_mono) auto
  qed
qed simp

section \<open>The daily run\<close>

text \<open>A daily run changes no contract's identifier, sub or status.\<close>

definition shape :: "db \<Rightarrow> (uuid \<times> uuid \<times> contract_status) list" where
  "shape s = map (\<lambda>c. (c_id c, c_sub_id c, c_status c)) (t_contracts s)"

lemma shape_balance [simp]: "shape (set_balance k b s) = shape s"
  by (auto simp: shape_def modify_def)

lemma shape_cong: "t_contracts s' = t_contracts s \<Longrightarrow> shape s' = shape s"
  by (simp add: shape_def)

interpretation shapes: run_frame shape
proof
  show "shape s' = shape s" if "apply_event_and_recompute ev s = Inr (s', b)" for ev s s' b
    using that by (auto simp: apply_event_eq_Inr) (simp add: shape_def)
qed (auto intro: shape_cong dest: apply_penalty_frame)

interpretation payment_tables: run_frame "\<lambda>s. (t_declarations s, t_allocations s)"
  by unfold_locales (auto simp: apply_event_eq_Inr dest: apply_penalty_frame)

lemma active_of_sub: "c_id ` set (active_rows_for_sub sid s) = {k. (k, sid, CS_active) \<in> set (shape s)}"
  by (force simp: active_rows_for_sub_def shape_def)

lemma shape_engaged:
  assumes "(k, sid, CS_active) \<in> set (shape s)" "distinct (map fst (shape s))"
  shows "engaged k s"
proof -
  obtain c where c: "c \<in> set (t_contracts s)" "c_id c = k" "c_status c = CS_active"
    using assms(1) by (auto simp: shape_def)
  have "distinct (map c_id (t_contracts s))" using assms(2) by (simp add: shape_def comp_def)
  from fetch_distinct [OF this c(1)] c show ?thesis
    by (simp add: engaged_def contract_at_def negotiating_def)
qed

lemma shape_sub:
  assumes "(k, a, x) \<in> set (shape s)" "(k, b, y) \<in> set (shape s)" "distinct (map fst (shape s))"
  shows "a = b"
  using eq_key_imp_eq_value [OF assms(3), of k "(a, x)" "(b, y)"] assms(1,2) by simp

lemma posts_on_rolling: "posts_on ks s (fst (process_rolling z t now sid s))"
  unfolding process_rolling_def
  by (auto intro!: posts_on_phase(1-3) posts_on_penalty posts_on_notify split: option.split simp: Let_def)

lemma posts_on_run_phase:
  assumes "posts_on ks (sp_db sp) (fst (m (sp_db sp)))"
  shows "posts_on ks (sp_db sp) (sp_db (fst (run_phase sid ph m sp)))"
  using assms by (auto simp: run_phase_def split: prod.split sum.split)

lemma posts_on_contracts:
  assumes "distinct (map fst (shape s))" "\<And>k. (k, sid, CS_active) \<in> set (shape s) \<Longrightarrow> tick_ready d k s"
  shows "posts_on {k. (k, sid, CS_active) \<in> set (shape s)} s (fst (process_contracts z aer d now sid s))"
proof -
  let ?cs = "active_rows_for_sub sid s"
  have "distinct (map c_id (t_contracts s))" using assms(1) by (simp add: shape_def comp_def)
  then have "distinct (map c_id ?cs)" by (simp add: active_rows_for_sub_def distinct_map_filter)
  moreover have "tick_ready d (c_id c) s \<and> engaged (c_id c) s" if "c \<in> set ?cs" for c
    using assms active_of_sub [of sid s] that shape_engaged by blast
  ultimately show ?thesis
    using posts_on_ticks [of ?cs d s z aer now 0] by (simp add: process_contracts_def active_of_sub)
qed

lemma posts_on_sub:
  assumes "distinct (map fst (shape (sp_db sp)))"
    and "\<And>k. (k, sid, CS_active) \<in> set (shape (sp_db sp)) \<Longrightarrow> tick_ready d k (sp_db sp)"
  shows "posts_on {k. (k, sid, CS_active) \<in> set (shape (sp_db sp))} (sp_db sp) (sp_db (process_sub z aer d now sid sp))"
    (is "posts_on ?ks _ _")
proof -
  obtain sp1 n where 1: "run_phase sid ''rolling'' (process_rolling z (cd_rolling_at d sid) now sid) sp = (sp1, n)"
    by fastforce
  define sp2 where "sp2 = sp1\<lparr>sp_rolling := sp_rolling sp1 + n\<rparr>"
  obtain sp3 k where 3: "run_phase sid ''contracts'' (process_contracts z aer d now sid) sp2 = (sp3, k)"
    by fastforce
  have db: "sp_db sp2 = sp_db sp1" by (simp add: sp2_def)
  have quiet: "posts_on {} (sp_db sp) (sp_db sp1)"
    using posts_on_run_phase [of "{}" sp "process_rolling z (cd_rolling_at d sid) now sid" sid "''rolling''"]
      posts_on_rolling 1 by simp
  have shape: "shape (sp_db sp1) = shape (sp_db sp)"
    by (rule shapes.run_phase [OF shapes.process_rolling 1])
  have "posts_on ?ks (sp_db sp1) (fst (process_contracts z aer d now sid (sp_db sp1)))"
    using posts_on_contracts [of "sp_db sp1" sid d z aer now] assms tick_ready_kept [OF quiet]
    unfolding shape by blast
  then have "posts_on ?ks (sp_db sp2) (sp_db sp3)"
    using posts_on_run_phase [of ?ks sp2 "process_contracts z aer d now sid" sid "''contracts''"] 3 unfolding db by simp
  then have "posts_on ?ks (sp_db sp) (sp_db sp3)"
    using posts_on_mono [OF quiet, of ?ks] posts_on_trans unfolding db by blast
  then show ?thesis using 1 3 by (simp add: process_sub_def sp2_def)
qed

lemma daily_subs_run:
  assumes "distinct (map u_id us)" "distinct (map fst (shape (sp_db sp)))"
    and "\<And>u k. u \<in> set us \<Longrightarrow> (k, u_id u, CS_active) \<in> set (shape (sp_db sp)) \<Longrightarrow> tick_ready d k (sp_db sp)"
  shows "contract_run (sp_db sp) (sp_db (process_subs z aer d now us sp))"
  using assms
proof (induction us arbitrary: sp)
  case Nil
  then show ?case by (simp add: process_subs_def)
next
  case (Cons u us)
  let ?sp = "process_sub z aer d now (u_id u) sp"
  have p: "posts_on {k. (k, u_id u, CS_active) \<in> set (shape (sp_db sp))} (sp_db sp) (sp_db ?sp)"
    using Cons.prems(2,3) by (intro posts_on_sub) auto
  have shape: "shape (sp_db ?sp) = shape (sp_db sp)" by (rule shapes.process_sub)
  have "tick_ready d k (sp_db ?sp)"
    if v: "v \<in> set us" "(k, u_id v, CS_active) \<in> set (shape (sp_db sp))" for v k
  proof (rule tick_ready_kept [OF p])
    have "u_id v \<noteq> u_id u" using Cons.prems(1) v(1) by (auto simp: image_iff)
    then show "k \<notin> {k. (k, u_id u, CS_active) \<in> set (shape (sp_db sp))}"
      using shape_sub [OF v(2) _ Cons.prems(2)] by blast
    show "tick_ready d k (sp_db sp)" using Cons.prems(3) v by auto
  qed
  then have "contract_run (sp_db ?sp) (sp_db (process_subs z aer d now us ?sp))"
    using Cons.prems(1,2) by (intro Cons.IH) (simp_all add: shape)
  moreover have "contract_run (sp_db sp) (sp_db ?sp)" using p by (simp add: posts_on_def)
  ultimately show ?case by (simp add: process_subs_def)
qed

text \<open>The draws of a daily run: each event is stamped after what is on record.\<close>

definition draws_later :: "cron_draw \<Rightarrow> db \<Rightarrow> bool" where
  "draws_later d s \<longleftrightarrow> list_all (\<lambda>c. tick_ready d (c_id c) s) (t_contracts s)"

lemma run_daily_run:
  assumes "run_daily z aer d clock rid dry by_user s = (s', errs)" "draws_later d s"
    and "distinct (map u_id (t_users s))" "contract_inv s"
  shows "contract_run s s'"
proof -
  let ?s1 = "create_started rid (rc_started clock) dry by_user s"
  let ?sp = "daily_savepoint z aer d (rc_now clock) ?s1"
  let ?s2 = "close_savepoint dry ?s1 ?sp"
  have tables: "t_contracts ?s1 = t_contracts s" "t_events ?s1 = t_events s" "t_adjustments ?s1 = t_adjustments s"
    "t_users ?s1 = t_users s"
    by (simp_all add: create_started_def)
  have "contract_run ?s1 (sp_db ?sp)"
  proof -
    have "contract_run (sp_db (open_savepoint ?s1))
        (sp_db (process_subs z aer d (rc_now clock) (load_active_subs ?s1) (open_savepoint ?s1)))"
    proof (rule daily_subs_run)
      show "distinct (map u_id (load_active_subs ?s1))"
        using assms(3) by (simp add: load_active_subs_def tables distinct_map_filter)
      show "distinct (map fst (shape (sp_db (open_savepoint ?s1))))"
        using assms(4) by (simp add: open_savepoint_def shape_def tables comp_def contract_inv_def)
      show "tick_ready d k (sp_db (open_savepoint ?s1))"
        if "(k, u_id u, CS_active) \<in> set (shape (sp_db (open_savepoint ?s1)))" for u k
        using that assms(2)
        by (auto simp: open_savepoint_def shape_def draws_later_def list_all_iff tick_ready_def stamped_after_def tables)
    qed
    then show ?thesis by (simp add: daily_savepoint_def open_savepoint_def)
  qed
  then have "contract_run ?s1 ?s2" by (auto simp: close_savepoint_def intro: quiet_run)
  moreover have "contract_run s ?s1" by (rule quiet_run) (simp_all add: tables)
  moreover have "contract_run ?s2 s'"
    by (rule quiet_run) (use assms(1) in \<open>auto simp: run_daily_def Let_def finish_run_def\<close>)
  ultimately show ?thesis by (meson rtranclp_trans)
qed

lemma run_daily_payments:
  assumes "run_daily z aer d clock rid dry by_user s = (s', errs)"
  shows "t_declarations s' = t_declarations s" "t_allocations s' = t_allocations s"
  using assms payment_tables.savepoint [of z aer d "rc_now clock" "create_started rid (rc_started clock) dry by_user s"]
  by (auto simp: run_daily_def Let_def finish_run_def close_savepoint_def create_started_def)

section \<open>Bulk late penalties\<close>

lemma posts_on_penalise:
  assumes "penalise d gid idx c s = Inr s'" "engaged (c_id c) s"
    and "stamped_after (c_id c) (pd_event_id d) (pd_event_at d) s"
  shows "posts_on {c_id c} s s'"
proof -
  obtain s1 b x where st: "apply_event_and_recompute (new_event (pd_event_id d) (pd_event_at d) (c_id c)
        ET_late_penalty (late_penalty_percent c) (Some idx) (Some ''goddess-triggered bulk late penalty'')) s = Inr (s1, b)"
      "apply_penalty (pd_penalty_at d) gid (c_sub_id c) PT_contract_missed ''contract_miss'' (Some (c_id c)) 0 None
         (notify (c_sub_id c) NT_contract_late_penalty (Some (c_id c)) (Some idx) s1) = Inr (s', x)"
    using assms(1) by (auto simp: penalise_def res_simps Let_def simp del: apply_event_eq_Inr)
  have "posts_on {c_id c} s s1"
    using posts_on_posted [OF st(1)] stamped_latest [OF assms(3)] assms(2) by simp
  moreover have "posts_on {c_id c} s1 s'"
    by (rule posts_on_quiet) (use apply_penalty_frame [OF st(2)] in simp_all)
  ultimately show ?thesis by (rule posts_on_trans)
qed

lemma penalise_payments:
  assumes "penalise d gid idx c s = Inr s'"
  shows "t_declarations s' = t_declarations s" "t_allocations s' = t_allocations s"
  using assms by (auto simp: penalise_def res_simps Let_def apply_penalty_frame)

lemma bulk_one_cases:
  assumes "bulk_one z now d gid cid (s, b) = Inr (s', b')"
  obtains "s' = s"
  | c idx where "contract_at cid s = Some c" "c_status c = CS_active" "penalise (d cid) gid idx c s = Inr s'"
  using assms by (auto simp: bulk_one_def Let_def res_simps contract_at_def split: option.splits if_splits)

lemma bulk_loop_run:
  assumes "bulk_loop z now d gid seen cids (s, b) = Inr (s', b')"
    and "\<And>k. k \<in> set cids - set seen \<Longrightarrow> stamped_after k (pd_event_id (d k)) (pd_event_at (d k)) s"
  shows "contract_run s s' \<and> t_declarations s' = t_declarations s \<and> t_allocations s' = t_allocations s"
  using assms
proof (induction cids arbitrary: seen s b)
  case (Cons cid cids)
  show ?case
  proof (cases "cid \<in> set seen")
    case True
    then show ?thesis using Cons.prems by (intro Cons.IH [of seen]) auto
  next
    case False
    then obtain s1 b1 where one: "bulk_one z now d gid cid (s, b) = Inr (s1, b1)"
      and rest: "bulk_loop z now d gid (cid # seen) cids (s1, b1) = Inr (s', b')"
      using Cons.prems(1) by (auto simp: res_simps)
    have "posts_on {cid} s s1 \<and> t_declarations s1 = t_declarations s \<and> t_allocations s1 = t_allocations s"
      using one
    proof (cases rule: bulk_one_cases)
      case (2 c idx)
      have "c_id c = cid" by (rule contract_at_id [OF 2(1)])
      then show ?thesis
        using posts_on_penalise [OF 2(3)] penalise_payments [OF 2(3)] engaged_active [OF _ 2(2)] 2(1)
          Cons.prems(2) [of cid] False by simp
    qed simp
    moreover from this have "stamped_after k (pd_event_id (d k)) (pd_event_at (d k)) s1"
      if "k \<in> set cids - set (cid # seen)" for k
      using that Cons.prems(2) posts_on_stamped [of "{cid}" s s1 k] by auto
    note Cons.IH [OF rest this]
    ultimately show ?thesis by (auto simp: posts_on_def)
  qed
qed simp

lemma bulk_apply_run:
  assumes "bulk_apply z now d u cids s = Inr (s', b)"
    and "list_all (\<lambda>k. stamped_after k (pd_event_id (d k)) (pd_event_at (d k)) s) cids"
  shows "contract_run s s'" "t_declarations s' = t_declarations s" "t_allocations s' = t_allocations s"
  using assms bulk_loop_run [of z now d _ "[]" cids s empty_summary s' b]
  by (auto simp: bulk_apply_def res_simps list_all_iff)

section \<open>Renewals\<close>

definition clone_ids_fresh :: "(uuid \<Rightarrow> clone_draw) \<Rightarrow> db \<Rightarrow> bool" where
  "clone_ids_fresh d s \<longleftrightarrow> list_all (\<lambda>c. contract_at (cl_id (d (c_id c))) s = None) (t_contracts s)"

lemma renewals_run:
  assumes "run_auto_extend_renewals am d now s = Inr (s', n)" "clone_ids_fresh d s" "inj (\<lambda>i. cl_id (d i))"
    and "contract_inv s"
  shows "contract_run s s'"
proof (rule renew_each_run [OF assms(1) [unfolded run_auto_extend_renewals_def] _ _ assms(3)])
  show "contract_at (cl_id (d (c_id c))) s = None" if "c \<in> set (due_for_renewal now s)" for c
    using that assms(2) by (simp add: due_for_renewal_def clone_ids_fresh_def list_all_iff)
  show "distinct (map c_id (due_for_renewal now s))"
    using assms(4) by (simp add: due_for_renewal_def contract_inv_def distinct_map_filter)
qed

lemma clone_payments:
  assumes "clone_contract am cd c u s = Inr s'"
  shows "t_declarations s' = t_declarations s" "t_allocations s' = t_allocations s"
  using assms by (auto simp: clone_contract_def res_simps Let_def save_contract_def append_audit_def)

lemma renew_each_payments:
  assumes "renew_each am d cs n s = Inr (s', k)"
  shows "t_declarations s' = t_declarations s \<and> t_allocations s' = t_allocations s"
  using assms
  by (induction cs arbitrary: n s) (auto simp: res_simps clone_payments split: if_splits option.splits)

end
