(* ===== verification/Dashboard.thy ===== *)
theory Dashboard
  imports Payments Auth "HOL-Library.List_Lexorder"
begin

text \<open>
  What the dashboards show of lateness and of upcoming payments:
  \<^verbatim>\<open>controllers/dashboard/controller.py\<close>, \<^verbatim>\<open>controllers/dashboard_summary_controller.py\<close>,
  \<^verbatim>\<open>controllers/sub_dashboard_summary_controller.py\<close>,
  \<^verbatim>\<open>controllers/goddess_views_controller.py\<close> and \<^verbatim>\<open>daos/goddess_views_dao.py\<close>. Reads only.
\<close>

definition display_name :: "user \<Rightarrow> string" where
  "display_name u = (if name_parts u \<noteq> [] then join_space (name_parts u) else u_username u)"

section \<open>Late contracts\<close>

text \<open>Days into the current period, on the dates of naive UTC instants.\<close>

definition days_into_period :: "zone \<Rightarrow> debt_contract \<Rightarrow> datetime \<Rightarrow> int option" where
  "days_into_period z c now =
     map_option (\<lambda>p_start. date_of now - date_of p_start) (period_start z c now)"

text \<open>\<^verbatim>\<open>DashboardController._contracts_late_map\<close>\<close>

definition contracts_late_map ::
  "zone \<Rightarrow> debt_contract list \<Rightarrow> datetime \<Rightarrow> db \<Rightarrow> (uuid \<times> int) list" where
  "contracts_late_map z cs now s =
     (let paid = paid_period_indices (map c_id cs) s
      in List.map_filter (\<lambda>c.
           if c_signed_at c = None then None
           else let idx = current_period_index z c now in
             (case period_start z c now of
                None \<Rightarrow> None
              | Some p_start \<Rightarrow>
                  let p_len = period_length_days (payment_frequency c);
                      into = date_of now - date_of p_start
                  in if into \<le> 0 then None
                     else if idx \<in> set (paid (c_id c)) then None
                     else Some (c_id c, min into p_len))) cs)"

definition relevant_contracts :: "uuid \<Rightarrow> uuid list \<Rightarrow> db \<Rightarrow> debt_contract list" where
  "relevant_contracts gid active_sub_ids s =
     filter (\<lambda>c. c_sub_id c \<in> set active_sub_ids \<and> c_signed_at c \<noteq> None) (active_contracts_for_goddess gid s)"

text \<open>\<^verbatim>\<open>DashboardSummaryController._count_late_contracts\<close>\<close>

definition count_late_contracts :: "zone \<Rightarrow> uuid \<Rightarrow> uuid list \<Rightarrow> datetime \<Rightarrow> db \<Rightarrow> nat" where
  "count_late_contracts z gid active_sub_ids now s =
     (let relevant = relevant_contracts gid active_sub_ids s;
          paid = paid_period_indices (map c_id relevant) s
      in length (filter (\<lambda>c.
           case period_start z c now of
             None \<Rightarrow> False
           | Some p_start \<Rightarrow>
               \<not> date_of now - date_of p_start \<le> 0 \<and> current_period_index z c now \<notin> set (paid (c_id c)))
         relevant))"

record late_contract_item =
  li_contract_id :: uuid
  li_slug :: string
  li_sub_id :: uuid
  li_sub_display_name :: string
  li_days_late :: int
  li_overdue_amount :: rat
  li_last_payment_at :: "datetime option"

text \<open>
  \<^verbatim>\<open>GoddessViewsController.late_contracts\<close>. The list is sorted by days late and then by the
  lower-cased name; \<open>lower\<close> stands for \<^verbatim>\<open>str.lower\<close> (whose Unicode tables are not modelled)
  as the list of code points that orders the names.
\<close>

definition late_contracts ::
  "zone \<Rightarrow> (string \<Rightarrow> nat list) \<Rightarrow> user \<Rightarrow> datetime \<Rightarrow> db \<Rightarrow> late_contract_item list res" where
  "late_contracts z lower goddess_user now s =
     attempt (resolve_goddess_id (u_id goddess_user) s) (\<lambda>gid.
     let active_subs = list_active_subs gid s;
         relevant = relevant_contracts gid (map u_id active_subs) s;
         paid = paid_period_indices (map c_id relevant) s;
         items = List.map_filter (\<lambda>c.
           case period_start z c now of
             None \<Rightarrow> None
           | Some p_start \<Rightarrow>
               let into = date_of now - date_of p_start; idx = current_period_index z c now
               in if into \<le> 0 then None
                  else if idx \<in> set (paid (c_id c)) then None
                  else (case fetch u_id (c_sub_id c) active_subs of
                          None \<Rightarrow> None
                        | Some sub \<Rightarrow>
                            Some \<lparr>li_contract_id = c_id c, li_slug = c_slug c, li_sub_id = u_id sub,
                                  li_sub_display_name = display_name sub,
                                  li_days_late = min into (period_length_days (payment_frequency c)),
                                  li_overdue_amount = minimum_payment c,
                                  li_last_payment_at = last_applied (c_id c) s\<rparr>)) relevant
     in Inr (sort_key (\<lambda>i. (- li_days_late i, lower (li_sub_display_name i))) items))"

text \<open>\<^verbatim>\<open>SubDashboardSummaryController._compute_late_contract_amount\<close>, on London dates.\<close>

definition late_contract_amount :: "zone \<Rightarrow> debt_contract list \<Rightarrow> datetime \<Rightarrow> db \<Rightarrow> rat" where
  "late_contract_amount z cs now s =
     (let signed = filter (\<lambda>c. c_signed_at c \<noteq> None) cs;
          paid = paid_period_indices (map c_id signed) s;
          late = filter (\<lambda>c.
            case period_start z c now of
              None \<Rightarrow> False
            | Some p_start \<Rightarrow>
                \<not> as_london_date z now - as_london_date z p_start \<le> 0 \<and>
                current_period_index z c now \<notin> set (paid (c_id c))) signed
      in foldl (\<lambda>t c. ctx (t + minimum_payment c)) 0 late)"

section \<open>Late rolling tributes\<close>

definition rolling_is_late :: "zone \<Rightarrow> datetime \<Rightarrow> rolling_tribute \<Rightarrow> bool" where
  "rolling_is_late z now r \<longleftrightarrow> \<not> r_paused r \<and> r_amount r \<noteq> 0 \<and> days_late z r now > 0"

definition count_late_rolling :: "zone \<Rightarrow> user list \<Rightarrow> datetime \<Rightarrow> db \<Rightarrow> nat" where
  "count_late_rolling z active_subs now s =
     length (filter (rolling_is_late z now) (rollings_for_subs (map u_id active_subs) s))"

definition last_validated_payment :: "uuid \<Rightarrow> uuid \<Rightarrow> db \<Rightarrow> datetime option" where
  "last_validated_payment gid sid s =
     max_datetime (List.map_filter (\<lambda>d. if d_goddess_id d = gid \<and> d_sub_id d = sid \<and>
        d_status d = PS_validated then d_validated_at d else None) (t_declarations s))"

record late_sub_item =
  ls_sub_id :: uuid
  ls_display_name :: string
  ls_days_late :: int
  ls_overdue_amount :: rat
  ls_last_payment_at :: "datetime option"

definition late_subs :: "zone \<Rightarrow> user \<Rightarrow> datetime \<Rightarrow> db \<Rightarrow> late_sub_item list res" where
  "late_subs z goddess_user now s =
     attempt (resolve_goddess_id (u_id goddess_user) s) (\<lambda>gid.
     let subs = list_active_subs gid s in
     Inr (sort_key (\<lambda>i. - ls_days_late i) (List.map_filter (\<lambda>r.
       if r_paused r \<or> r_amount r = 0 then None
       else let late = days_late z r now in
         if late \<le> 0 then None
         else (case fetch u_id (r_sub_id r) subs of
                 None \<Rightarrow> None
               | Some sub \<Rightarrow>
                   Some \<lparr>ls_sub_id = u_id sub, ls_display_name = display_name sub, ls_days_late = late,
                         ls_overdue_amount = amount_due z r now,
                         ls_last_payment_at = last_validated_payment gid (u_id sub) s\<rparr>))
       (rollings_for_subs (map u_id subs) s))))"

section \<open>The goddess's overview\<close>

definition load_subs :: "uuid \<Rightarrow> db \<Rightarrow> user list" where
  "load_subs gid s = filter (\<lambda>u. u_goddess_id u = Some gid \<and> u_role u = R_sub \<and>
     u_status u \<in> {US_active, US_blacklisted}) (t_users s)"

datatype late_kind = LK_rolling | LK_contract

record late_payment =
  la_sub_id :: uuid
  la_display_name :: string
  la_kind :: late_kind
  la_amount_due :: rat
  la_days_late :: int
  la_context_id :: uuid

definition compute_late_payments ::
  "zone \<Rightarrow> datetime \<Rightarrow> user list \<Rightarrow> rolling_tribute list \<Rightarrow> debt_contract list \<Rightarrow> db \<Rightarrow> late_payment list" where
  "compute_late_payments z now subs rollings contracts s =
     (let active_sub_ids = map u_id (filter (\<lambda>u. u_status u = US_active) subs);
          rolling_items = List.map_filter (\<lambda>r.
            if r_sub_id r \<notin> set active_sub_ids \<or> r_paused r \<or> r_amount r = 0 then None
            else let late = days_late z r now in
              if late \<le> 0 then None
              else (case fetch u_id (r_sub_id r) subs of
                      None \<Rightarrow> None
                    | Some sub \<Rightarrow> Some \<lparr>la_sub_id = u_id sub, la_display_name = display_name sub,
                        la_kind = LK_rolling, la_amount_due = amount_due z r now, la_days_late = late,
                        la_context_id = r_id r\<rparr>)) rollings;
          active = filter (\<lambda>c. c_status c = CS_active \<and> c_sub_id c \<in> set active_sub_ids) contracts;
          late_map = contracts_late_map z active now s;
          contract_items = List.map_filter (\<lambda>c.
            (case map_of late_map (c_id c) of
               None \<Rightarrow> None
             | Some late \<Rightarrow>
                 if late \<le> 0 then None
                 else (case fetch u_id (c_sub_id c) subs of
                         None \<Rightarrow> None
                       | Some sub \<Rightarrow> Some \<lparr>la_sub_id = u_id sub, la_display_name = display_name sub,
                           la_kind = LK_contract, la_amount_due = minimum_payment c, la_days_late = late,
                           la_context_id = c_id c\<rparr>))) active
      in take 50 (sort_key (\<lambda>i. - la_days_late i) (rolling_items @ contract_items)))"

record goddess_overview =
  go_subs_total :: nat
  go_subs_active :: nat
  go_subs_blacklisted :: nat
  go_rolling_count :: nat
  go_contracts_active :: nat
  go_pending_validations :: nat
  go_pending_contracts :: nat
  go_late_payments :: "late_payment list"
  go_total_drained :: rat

definition sum_validated :: "(payment_declaration \<Rightarrow> bool) \<Rightarrow> db \<Rightarrow> rat" where
  "sum_validated p s =
     sum_list (map d_amount (filter (\<lambda>d. p d \<and> d_status d = PS_validated) (t_declarations s)))"

definition overview :: "zone \<Rightarrow> user \<Rightarrow> datetime \<Rightarrow> db \<Rightarrow> goddess_overview res" where
  "overview z goddess_user now s =
     attempt (resolve_goddess_id (u_id goddess_user) s) (\<lambda>gid.
     let subs = load_subs gid s;
         subs_active = length (filter (\<lambda>u. u_status u = US_active) subs);
         subs_blacklisted = length (filter (\<lambda>u. u_status u = US_blacklisted) subs);
         rollings = rollings_for_subs (map u_id subs) s;
         contracts = filter (\<lambda>c. c_goddess_id c = gid) (t_contracts s)
     in Inr \<lparr>go_subs_total = subs_active + subs_blacklisted, go_subs_active = subs_active,
             go_subs_blacklisted = subs_blacklisted,
             go_rolling_count = length (filter (\<lambda>r. \<not> r_paused r \<and> r_amount r > 0) rollings),
             go_contracts_active = length (filter (\<lambda>c. c_status c = CS_active) contracts),
             go_pending_validations = count_pending_validation gid s,
             go_pending_contracts = length (filter (\<lambda>c. c_status c \<in> set pending_statuses) contracts),
             go_late_payments = compute_late_payments z now subs rollings contracts s,
             go_total_drained = sum_validated (\<lambda>d. d_goddess_id d = gid) s\<rparr>)"

text \<open>\<^verbatim>\<open>DashboardSummaryController.goddess_summary\<close>, without the photo and profile queues.\<close>

record goddess_summary =
  gs_subs_active :: nat
  gs_contracts_active :: nat
  gs_contracts_closed :: nat
  gs_invitations_active :: nat
  gs_invitations_consumed :: nat
  gs_validations_pending :: nat
  gs_validations_oldest_age_h :: int
  gs_late_rolling_count :: nat
  gs_late_contract_count :: nat

definition summary :: "zone \<Rightarrow> user \<Rightarrow> datetime \<Rightarrow> db \<Rightarrow> goddess_summary res" where
  "summary z goddess_user now s =
     attempt (resolve_goddess_id (u_id goddess_user) s) (\<lambda>gid.
     let active_subs = list_active_subs gid s
     in Inr \<lparr>gs_subs_active = length active_subs,
             gs_contracts_active = count_contracts_by_status gid CS_active s,
             gs_contracts_closed = count_contracts_by_status gid CS_closed s,
             gs_invitations_active = count_active_invitations gid now s,
             gs_invitations_consumed = count_consumed_invitations gid s,
             gs_validations_pending = count_pending_validation gid s,
             gs_validations_oldest_age_h = oldest_pending_age_hours gid now s,
             gs_late_rolling_count = count_late_rolling z active_subs now s,
             gs_late_contract_count = count_late_contracts z gid (map u_id active_subs) now s\<rparr>)"

section \<open>Upcoming payments of a sub\<close>

text \<open>
  The \<^verbatim>\<open>while\<close> loops step a due instant by a fixed number of days and look at its London date.
  For an arbitrary zone the loop need not end, so it is a partial function.
\<close>

partial_function (option) due_dates ::
  "zone \<Rightarrow> int \<Rightarrow> int \<Rightarrow> int \<Rightarrow> datetime \<Rightarrow> int list option" where
  "due_dates z step today horizon cursor =
     (let d = as_london_date z cursor in
      if d \<le> horizon
      then Option.bind (due_dates z step today horizon (cursor + days step)) (\<lambda>ds.
           Some (if d \<ge> today then d # ds else ds))
      else Some [])"

datatype upcoming_kind = UK_rolling | UK_contract_instalment

record upcoming =
  up_date :: int
  up_amount :: rat
  up_kind :: upcoming_kind

definition rolling_upcoming :: "zone \<Rightarrow> datetime \<Rightarrow> rolling_tribute option \<Rightarrow> upcoming list option" where
  "rolling_upcoming z now r = (case r of
      None \<Rightarrow> Some []
    | Some x \<Rightarrow>
        if \<not> r_paused x \<and> r_amount x > 0
        then map_option (map (\<lambda>d. \<lparr>up_date = d, up_amount = r_amount x, up_kind = UK_rolling\<rparr>))
               (due_dates z 7 (as_london_date z now) (as_london_date z now + 30) (current_cycle_deadline z x now))
        else Some [])"

fun contracts_upcoming :: "zone \<Rightarrow> datetime \<Rightarrow> debt_contract list \<Rightarrow> upcoming list option" where
  "contracts_upcoming z now [] = Some []"
| "contracts_upcoming z now (c # cs) =
     (case next_period_due z c now of
        None \<Rightarrow> contracts_upcoming z now cs
      | Some due \<Rightarrow>
          Option.bind (due_dates z (period_length_days (payment_frequency c)) (as_london_date z now)
            (as_london_date z now + 30) due) (\<lambda>ds.
          Option.bind (contracts_upcoming z now cs) (\<lambda>rest.
          Some (map (\<lambda>d. \<lparr>up_date = d, up_amount = minimum_payment c, up_kind = UK_contract_instalment\<rparr>) ds
                @ rest))))"

definition build_upcoming :: "zone \<Rightarrow> uuid \<Rightarrow> datetime \<Rightarrow> db \<Rightarrow> upcoming list option res" where
  "build_upcoming z sid now s =
     attempt (rolling_for_sub sid s) (\<lambda>r.
     let active = filter (\<lambda>c. c_sub_id c = sid \<and> c_status c = CS_active \<and> c_signed_at c \<noteq> None) (t_contracts s)
     in Inr (Option.bind (rolling_upcoming z now r) (\<lambda>xs.
             Option.bind (contracts_upcoming z now active) (\<lambda>ys.
             Some (sort_key up_date (xs @ ys))))))"

text \<open>The Monday-based weeks of the history and its totals, on naive UTC dates.\<close>

definition monday_of :: "int \<Rightarrow> int" where
  "monday_of d = d - weekday d"

definition weekly_history :: "uuid \<Rightarrow> int \<Rightarrow> db \<Rightarrow> (int \<times> rat) list" where
  "weekly_history sid today s =
     (let start_monday = monday_of today - 7 * 11
      in map (\<lambda>i. let ws = start_monday + 7 * int i
                  in (ws, sum_validated (\<lambda>d. d_sub_id d = sid \<and>
                        (case d_validated_at d of None \<Rightarrow> False
                         | Some t \<Rightarrow> days start_monday \<le> t \<and> monday_of (date_of t) = ws)) s)) [0..<12])"

definition sum_validated_this_month :: "uuid \<Rightarrow> int \<Rightarrow> db \<Rightarrow> rat" where
  "sum_validated_this_month sid today s =
     sum_validated (\<lambda>d. d_sub_id d = sid \<and>
       (case d_validated_at d of None \<Rightarrow> False
        | Some t \<Rightarrow> days (date_number (year_of today) (month_of today) 1) \<le> t)) s"

definition month_end :: "int \<Rightarrow> int" where
  "month_end today =
     (let d = date_number (year_of today) (month_of today) 1 + 32
      in date_number (year_of d) (month_of d) 1)"

definition rolling_remaining_this_month :: "zone \<Rightarrow> uuid \<Rightarrow> datetime \<Rightarrow> db \<Rightarrow> rat option res" where
  "rolling_remaining_this_month z sid now s =
     attempt (rolling_for_sub sid s) (\<lambda>r.
     Inr (case r of
        None \<Rightarrow> Some 0
      | Some x \<Rightarrow>
          if r_paused x \<or> r_amount x = 0 then Some 0
          else map_option (foldl (\<lambda>t _. ctx (t + r_amount x)) 0)
                 (due_dates z 7 (as_london_date z now) (month_end (as_london_date z now) - 1)
                    (current_cycle_deadline z x now))))"

text \<open>The earliest payment due; among equal instants the first candidate wins.\<close>

definition compute_next_payment ::
  "zone \<Rightarrow> rolling_tribute option \<Rightarrow> debt_contract list \<Rightarrow> datetime \<Rightarrow> (rat \<times> datetime) option" where
  "compute_next_payment z r cs now =
     (let candidates =
            (case r of Some x \<Rightarrow> if \<not> r_paused x \<and> r_amount x \<noteq> 0
                                then [(current_cycle_deadline z x now, r_amount x)] else []
             | None \<Rightarrow> []) @
            List.map_filter (\<lambda>c. if c_signed_at c = None then None
               else map_option (\<lambda>due. (due, minimum_payment c)) (next_period_due z c now)) cs
      in case sort_key fst candidates of [] \<Rightarrow> None | (due, amount) # _ \<Rightarrow> Some (amount, due))"

section \<open>Weekly buckets\<close>

definition eight_week_starts :: "int \<Rightarrow> int list" where
  "eight_week_starts today = map (\<lambda>i. monday_of today - 7 * int i) [0..<8]"

text \<open>
  Rows are selected by naive UTC bounds and then assigned to the week of their London date.
\<close>

definition bucket_rows :: "uuid \<Rightarrow> int \<Rightarrow> db \<Rightarrow> payment_declaration list" where
  "bucket_rows gid today s =
     filter (\<lambda>d. d_goddess_id d = gid \<and> d_status d = PS_validated \<and>
       (case d_validated_at d of None \<Rightarrow> False
        | Some t \<Rightarrow> days (monday_of today - 49) \<le> t \<and>
                   t \<le> days (monday_of today + 6) + us_per_day - 1000000)) (t_declarations s)"

definition in_week :: "zone \<Rightarrow> int \<Rightarrow> payment_declaration \<Rightarrow> bool" where
  "in_week z monday d =
     (case d_validated_at d of None \<Rightarrow> False | Some t \<Rightarrow> monday_of (as_london_date z t) = monday)"

definition weekly_payment_buckets :: "zone \<Rightarrow> uuid \<Rightarrow> datetime \<Rightarrow> db \<Rightarrow> (int \<times> int \<times> rat \<times> nat) list" where
  "weekly_payment_buckets z gid now s =
     (let rows = bucket_rows gid (as_london_date z now) s
      in map (\<lambda>monday.
           let ds = filter (in_week z monday) rows
           in (monday, monday + 6, foldl (\<lambda>t d. ctx (t + d_amount d)) 0 ds, length ds))
         (eight_week_starts (as_london_date z now)))"

text \<open>The payments of one week, by London bounds.\<close>

definition london_week_bounds_utc :: "zone \<Rightarrow> int \<Rightarrow> datetime \<times> datetime" where
  "london_week_bounds_utc z week_start =
     (from_wall z (days week_start), from_wall z (days (week_start + 6) + us_per_day - 1))"

definition week_payments :: "zone \<Rightarrow> user \<Rightarrow> int \<Rightarrow> db \<Rightarrow> payment_out list res" where
  "week_payments z goddess_user week_start s =
     attempt (resolve_goddess_id (u_id goddess_user) s) (\<lambda>gid.
     let (from_t, to_t) = london_week_bounds_utc z week_start
     in out_all (validated_in_window gid from_t to_t s) s)"

end
