(* ===== verification/Texts.thy ===== *)
theory Texts
  imports Prelude
begin

text \<open>
  The text handling of the personal records: white space and case
  (\<^verbatim>\<open>utils/placeholder_guard.py\<close>), the body of a limit with its label and notes
  (\<^verbatim>\<open>controllers/limits_controller.py\<close>) and the slug of a proposed kink
  (\<^verbatim>\<open>controllers/kinks_controller.py\<close>). Strings are lists of the first 256 code points; on
  these \<^verbatim>\<open>str.lower\<close> yields an ASCII letter only from an ASCII letter, so where the result is
  compared with ASCII text the ASCII part of \<^verbatim>\<open>lower\<close> decides.
\<close>

section \<open>White space, case, placeholders\<close>

definition is_space :: "char \<Rightarrow> bool" where
  "is_space c \<longleftrightarrow> c \<in> set [CHR '' '', CHR 0x09, CHR 0x0A, CHR 0x0B, CHR 0x0C, CHR 0x0D,
     CHR 0x1C, CHR 0x1D, CHR 0x1E, CHR 0x1F, CHR 0x85, CHR 0xA0]"

definition strip_by :: "('a \<Rightarrow> bool) \<Rightarrow> 'a list \<Rightarrow> 'a list" where
  "strip_by p xs = rev (dropWhile p (rev (dropWhile p xs)))"

definition lower_char :: "char \<Rightarrow> char" where
  "lower_char c = (let n = of_char c :: nat in if 65 \<le> n \<and> n \<le> 90 then char_of (n + 32) else c)"

definition placeholder_sentinels :: "string list" where
  "placeholder_sentinels = [''jane doe'', ''john doe'', ''+44 7700 900000'', ''+447700900000'', ''test'', ''placeholder'']"

definition reject_if_placeholder :: "string option \<Rightarrow> string \<Rightarrow> unit res" where
  "reject_if_placeholder v field =
     (case v of None \<Rightarrow> Inr ()
      | Some w \<Rightarrow>
          let normalised = map lower_char (strip_by is_space w)
          in if normalised = [] then Inr ()
             else raise_if (normalised \<in> set placeholder_sentinels)
               (Validation ''This value looks like a placeholder, please enter a real one.'') (Inr ()))"

section \<open>Label and notes in one body\<close>

definition blank_line :: string where
  "blank_line = [CHR 0x0A, CHR 0x0A]"

definition compose_limit_body :: "string \<Rightarrow> string option \<Rightarrow> string" where
  "compose_limit_body label notes =
     (case notes of None \<Rightarrow> label | Some n \<Rightarrow> if n = [] then label else label @ blank_line @ n)"

text \<open>
  \<^verbatim>\<open>body.split("\n\n", 1)\<close>: the text before the first blank line, and the text after it when
  there is one.
\<close>

fun split_body :: "string \<Rightarrow> string \<times> string option" where
  "split_body [] = ([], None)"
| "split_body [c] = ([c], None)"
| "split_body (c # d # cs) =
     (if c = CHR 0x0A \<and> d = CHR 0x0A then ([], Some cs)
      else let (l, n) = split_body (d # cs) in (c # l, n))"

text \<open>The label and notes an edit leaves: what it sends, otherwise what the old body says.\<close>

definition edited_body :: "string option \<Rightarrow> string option \<Rightarrow> string \<Rightarrow> string" where
  "edited_body label notes body =
     (let (old_label, old_notes) = split_body body;
          new_label = (case label of Some l \<Rightarrow> l | None \<Rightarrow> old_label);
          new_notes = (case notes of Some n \<Rightarrow> Some n | None \<Rightarrow> old_notes)
      in compose_limit_body new_label new_notes)"

text \<open>A label is plain when no blank line starts in it, also not with the line end that follows.\<close>

fun plain_label :: "string \<Rightarrow> bool" where
  "plain_label [] = True"
| "plain_label [c] = (c \<noteq> CHR 0x0A)"
| "plain_label (c # d # cs) = (\<not> (c = CHR 0x0A \<and> d = CHR 0x0A) \<and> plain_label (d # cs))"

lemma split_plain: "plain_label l \<Longrightarrow> split_body l = (l, None)"
  by (induction l rule: plain_label.induct) (auto split: prod.splits)

lemma split_composed: "plain_label l \<Longrightarrow> split_body (l @ blank_line @ n) = (l, Some n)"
proof (induction l rule: plain_label.induct)
  case (2 c)
  then show ?case by (simp add: blank_line_def)
qed (auto simp: blank_line_def)

lemma split_compose:
  "plain_label l \<Longrightarrow> split_body (compose_limit_body l n) = (l, if n = Some [] then None else n)"
  by (auto simp: compose_limit_body_def split_plain split_composed split: option.split)

section \<open>Slugs\<close>

definition slug_char :: "char \<Rightarrow> bool" where
  "slug_char c \<longleftrightarrow> (let n = of_char c :: nat in (97 \<le> n \<and> n \<le> 122) \<or> (48 \<le> n \<and> n \<le> 57))"

text \<open>\<^verbatim>\<open>re.sub(r"[^a-z0-9]+", "-", s)\<close>: every longest run of other characters becomes a hyphen.\<close>

fun hyphenate :: "bool \<Rightarrow> string \<Rightarrow> string" where
  "hyphenate in_run [] = []"
| "hyphenate in_run (c # cs) =
     (if slug_char c then c # hyphenate False cs
      else if in_run then hyphenate True cs
      else CHR ''-'' # hyphenate True cs)"

definition slug_base :: "string \<Rightarrow> string" where
  "slug_base label = strip_by (\<lambda>c. c = CHR ''-'') (hyphenate False (map lower_char label))"

definition make_slug :: "string \<Rightarrow> string \<Rightarrow> string" where
  "make_slug label suffix = take 64 (slug_base label @ ''-'' @ suffix)"

text \<open>Of a label whose cleaned form fills the 64 characters the suffix leaves no trace.\<close>

lemma make_slug_long: "64 \<le> length (slug_base label) \<Longrightarrow> make_slug label x = make_slug label y"
  by (simp add: make_slug_def)

lemma hyphenate_slug: "list_all slug_char l \<Longrightarrow> hyphenate b l = l"
  by (induction l arbitrary: b) auto

lemma strip_by_id:
  assumes "list_all (\<lambda>x. \<not> p x) xs" shows "strip_by p xs = xs"
proof -
  have d: "list_all (\<lambda>x. \<not> p x) ys \<Longrightarrow> dropWhile p ys = ys" for ys by (cases ys) auto
  show ?thesis using d [OF assms] d [of "rev xs"] assms by (simp add: strip_by_def list_all_iff)
qed

end
