(* ===== verification/Tribute.thy ===== *)
theory Tribute
  imports Methods Periods
begin

text \<open>
  The tribute minimum of a sub and its gauge
  (\<^verbatim>\<open>controllers/tribute_minimum_controller.py\<close>, \<^verbatim>\<open>daos/tribute_minimum_dao.py\<close>), and the
  ownership status machine of the profiles (\<^verbatim>\<open>services/profile/status_machine.py\<close>).
\<close>

section \<open>The tribute minimum\<close>

text \<open>The window of the current London week or month, as naive UTC instants.\<close>

definition current_period_bounds :: "zone \<Rightarrow> datetime \<Rightarrow> tribute_period \<Rightarrow> datetime \<times> datetime" where
  "current_period_bounds z now p =
     (let today = date_of (to_wall z now);
          (start_day, end_day) =
            (case p of
               TP_weekly \<Rightarrow> (today - weekday today, today - weekday today + 7)
             | TP_monthly \<Rightarrow>
                 (let y = year_of today; m = month_of today
                  in (date_number y m 1,
                      if m = 12 then date_number (y + 1) 1 1 else date_number y (m + 1) 1)))
      in (from_wall z (days start_day), from_wall z (days end_day)))"

definition compute_color :: "rat option \<Rightarrow> rat \<Rightarrow> string" where
  "compute_color ratio grace = (case ratio of
      None \<Rightarrow> ''green''
    | Some r \<Rightarrow> if r < grace then ''red'' else if r < 1 then ''amber'' else ''green'')"

definition minimum_for_sub :: "uuid \<Rightarrow> db \<Rightarrow> tribute_minimum option" where
  "minimum_for_sub sid s = fetch tm_sub_id sid (t_tribute_minima s)"

record minimum_in =
  mi_amount :: rat
  mi_period :: tribute_period
  mi_grace_below_percent :: rat

definition minimum_in_valid :: "minimum_in \<Rightarrow> bool" where
  "minimum_in_valid p \<longleftrightarrow> 0 < mi_amount p \<and> places 2 (mi_amount p) \<and> mi_amount p < 10 ^ 10 \<and>
     0 \<le> mi_grace_below_percent p \<and> mi_grace_below_percent p \<le> 1 \<and> places 4 (mi_grace_below_percent p)"

text \<open>The columns round the values to 2 and 4 places; a valid body has no more.\<close>

definition upsert_minimum ::
  "datetime \<Rightarrow> uuid \<Rightarrow> uuid \<Rightarrow> minimum_in \<Rightarrow> db \<Rightarrow> db \<times> bool" where
  "upsert_minimum now sid gid p s =
     (case minimum_for_sub sid s of
        None \<Rightarrow>
          (s\<lparr>t_tribute_minima := insert_row
             \<lparr>tm_sub_id = sid, tm_goddess_id = gid, tm_amount = numeric_column 2 (mi_amount p),
              tm_period = mi_period p,
              tm_grace_below_percent = numeric_column 4 (mi_grace_below_percent p),
              tm_created_at = now, tm_updated_at = now\<rparr> (t_tribute_minima s)\<rparr>, True)
      | Some _ \<Rightarrow>
          (s\<lparr>t_tribute_minima := modify tm_sub_id sid
             (\<lambda>r. r\<lparr>tm_amount := numeric_column 2 (mi_amount p), tm_period := mi_period p,
                    tm_grace_below_percent := numeric_column 4 (mi_grace_below_percent p),
                    tm_updated_at := now\<rparr>) (t_tribute_minima s)\<rparr>, False))"

definition delete_minimum_row :: "uuid \<Rightarrow> db \<Rightarrow> db res" where
  "delete_minimum_row sid s =
     require (minimum_for_sub sid s) (NotFound ''tribute_minimum not found'') (\<lambda>_.
     Inr (s\<lparr>t_tribute_minima := filter (\<lambda>r. tm_sub_id r \<noteq> sid) (t_tribute_minima s)\<rparr>))"

definition sum_validated_for_period :: "uuid \<Rightarrow> uuid \<Rightarrow> datetime \<Rightarrow> datetime \<Rightarrow> db \<Rightarrow> rat" where
  "sum_validated_for_period sid gid from_t to_t s =
     sum_list (map d_amount (filter (\<lambda>d. d_sub_id d = sid \<and> d_goddess_id d = gid \<and>
       d_status d = PS_validated \<and> from_t \<le> d_declared_at d \<and> d_declared_at d < to_t) (t_declarations s)))"

definition resolve_goddess_and_verify_sub :: "user \<Rightarrow> uuid \<Rightarrow> db \<Rightarrow> uuid res" where
  "resolve_goddess_and_verify_sub goddess_user sid s =
     attempt (resolve_goddess_id (u_id goddess_user) s) (\<lambda>gid.
     raise_if (case user_by_id sid s of None \<Rightarrow> True | Some u \<Rightarrow> u_goddess_id u \<noteq> Some gid)
       (Forbidden ''sub not found or not linked to this goddess'') (Inr gid))"

definition minimum_upsert ::
  "datetime \<Rightarrow> user \<Rightarrow> uuid \<Rightarrow> minimum_in \<Rightarrow> db \<Rightarrow> (db \<times> bool) res" where
  "minimum_upsert now goddess_user sid p s =
     attempt (resolve_goddess_and_verify_sub goddess_user sid s) (\<lambda>gid.
     Inr (upsert_minimum now sid gid p s))"

definition minimum_get :: "user \<Rightarrow> uuid \<Rightarrow> db \<Rightarrow> tribute_minimum res" where
  "minimum_get goddess_user sid s =
     attempt (resolve_goddess_and_verify_sub goddess_user sid s) (\<lambda>_.
     require (minimum_for_sub sid s) (NotFound ''tribute_minimum not configured for this sub'') Inr)"

definition minimum_delete :: "user \<Rightarrow> uuid \<Rightarrow> db \<Rightarrow> db res" where
  "minimum_delete goddess_user sid s =
     attempt (resolve_goddess_and_verify_sub goddess_user sid s) (\<lambda>_. delete_minimum_row sid s)"

record gauge_out =
  ga_configured :: bool
  ga_target_amount :: "rat option"
  ga_period :: "tribute_period option"
  ga_actual :: rat
  ga_ratio :: "rat option"
  ga_color :: string
  ga_period_start :: datetime
  ga_period_end :: datetime

definition gauge_ratio :: "rat \<Rightarrow> rat option \<Rightarrow> rat option" where
  "gauge_ratio actual target = (case target of
      None \<Rightarrow> None
    | Some t \<Rightarrow> if t > 0 then Some (quantize_even 4 (ctx (actual / t))) else None)"

definition gauge :: "zone \<Rightarrow> datetime \<Rightarrow> user \<Rightarrow> uuid \<Rightarrow> db \<Rightarrow> gauge_out res" where
  "gauge z now goddess_user sid s =
     attempt (resolve_goddess_and_verify_sub goddess_user sid s) (\<lambda>gid.
     let row = minimum_for_sub sid s;
         (period, target_amount, grace) =
           (case row of Some r \<Rightarrow> (tm_period r, Some (tm_amount r), tm_grace_below_percent r)
            | None \<Rightarrow> (TP_monthly, None, 4 / 5));
         (period_start, period_end) = current_period_bounds z now period;
         actual = sum_validated_for_period sid gid period_start period_end s;
         ratio = gauge_ratio actual target_amount
     in Inr \<lparr>ga_configured = (row \<noteq> None), ga_target_amount = target_amount,
             ga_period = (case row of None \<Rightarrow> None | Some _ \<Rightarrow> Some period), ga_actual = actual,
             ga_ratio = ratio, ga_color = compute_color ratio grace,
             ga_period_start = period_start, ga_period_end = period_end\<rparr>)"

section \<open>Ownership status\<close>

datatype ownership_status = OW_free | OW_owned | OW_in_training | OW_collared | OW_blackmailed | OW_released

fun allowed_transitions :: "ownership_status \<Rightarrow> ownership_status list" where
  "allowed_transitions OW_free = [OW_owned, OW_released]"
| "allowed_transitions OW_owned = [OW_in_training, OW_blackmailed, OW_released]"
| "allowed_transitions OW_in_training = [OW_collared, OW_blackmailed, OW_released]"
| "allowed_transitions OW_collared = [OW_blackmailed, OW_released]"
| "allowed_transitions OW_blackmailed = [OW_released]"
| "allowed_transitions OW_released = [OW_free]"

definition can_transition :: "ownership_status \<Rightarrow> ownership_status \<Rightarrow> bool" where
  "can_transition from_status to_status =
     (if from_status = to_status then False else to_status \<in> set (allowed_transitions from_status))"

end
