(* ===== verification/Personal.thy ===== *)
theory Personal
  imports Users Auth Texts Tribute
begin

text \<open>
  The rows of the personal side of the program, after \<^verbatim>\<open>server/models\<close>, and the state that
  holds them beside the tables of the money side: profiles and their status history, change
  requests, consent texts, limits, kinks, toys, journal, photos, medical and aftercare
  records, the keys of the encryption and the audit of administrative actions.
\<close>

section \<open>Rows\<close>

record sub_profile =
  sp_user_id :: uuid
  sp_real_name :: "string option"
  sp_age :: "int option"
  sp_gender_id :: "uuid option"
  sp_pronouns :: "string option"
  sp_location :: "string option"
  sp_timezone :: "string option"
  sp_joined_empire_at :: datetime
  sp_ownership_status :: ownership_status
  sp_updated_at :: "datetime option"

record status_event =
  se_id :: uuid
  se_sub_id :: uuid
  se_goddess_id :: uuid
  se_from_status :: ownership_status
  se_to_status :: ownership_status
  se_reason :: "string option"
  se_created_by :: uuid
  se_created_at :: datetime

datatype change_request_status = RS_pending | RS_approved | RS_rejected | RS_awaiting_fee_payment | RS_cancelled

record profile_change_request =
  rq_id :: uuid
  rq_sub_id :: uuid
  rq_requested_at :: datetime
  rq_status :: change_request_status
  rq_first_name :: "string option"
  rq_last_name :: "string option"
  rq_display_name :: "string option"
  rq_notes :: "string option"
  rq_avatar_key :: "avatar_key option"
  rq_real_name :: "string option"
  rq_fee_amount :: "rat option"
  rq_fee_payment_id :: "uuid option"
  rq_resolved_at :: "datetime option"
  rq_resolution_note :: "string option"

record consent_text =
  ct_id :: uuid
  ct_slug :: string
  ct_version :: int
  ct_body_md :: string

record consent_acceptance =
  ca_id :: uuid
  ca_user_id :: uuid
  ca_consent_text_id :: uuid
  ca_accepted_at :: datetime
  ca_ip_address :: "string option"

datatype limit_kind = LK_hard | LK_soft

datatype limit_severity = LS_low | LS_medium | LS_high

record sub_limit =
  lm_id :: uuid
  lm_sub_id :: uuid
  lm_goddess_id :: uuid
  lm_kind :: limit_kind
  lm_body :: string
  lm_severity :: limit_severity
  lm_acknowledged_at :: "datetime option"
  lm_created_at :: datetime
  lm_updated_at :: datetime

record sub_trigger =
  tg_id :: uuid
  tg_sub_id :: uuid
  tg_goddess_id :: uuid
  tg_trigger_text :: string
  tg_notes :: "string option"
  tg_severity :: limit_severity
  tg_created_at :: datetime
  tg_updated_at :: datetime

datatype kink_rating =
    KR_hard_limit | KR_soft_limit | KR_curious | KR_loves | KR_fetish_need | KR_not_set
  | KR_prefer_not_to_say

record kink_category =
  kc_id :: uuid
  kc_slug :: string
  kc_label :: string
  kc_safety_flag :: bool
  kc_sort_order :: int
  kc_updated_at :: datetime

record kink_item =
  ki_id :: uuid
  ki_category_id :: uuid
  ki_goddess_id :: "uuid option"
  ki_slug :: string
  ki_label :: string
  ki_description :: "string option"
  ki_safety_flag :: bool
  ki_is_custom :: bool
  ki_proposed_by :: "uuid option"
  ki_approved :: bool
  ki_created_at :: datetime
  ki_updated_at :: datetime

record sub_kink_rating =
  kr_sub_id :: uuid
  kr_goddess_id :: uuid
  kr_item_id :: uuid
  kr_rating :: kink_rating
  kr_note :: "string option"
  kr_updated_at :: datetime

datatype toy_category =
    TC_restraint | TC_impact | TC_vibrator | TC_plug | TC_cage | TC_gag | TC_clothing | TC_collar | TC_other

datatype toy_proposed_by = TB_sub | TB_goddess

record toy_item =
  ty_id :: uuid
  ty_sub_id :: uuid
  ty_goddess_id :: uuid
  ty_category :: toy_category
  ty_name :: string
  ty_description :: "string option"
  ty_photo_r2_key :: "string option"
  ty_proposed_by :: toy_proposed_by
  ty_approved :: bool
  ty_created_at :: datetime
  ty_updated_at :: datetime

datatype journal_mood = JM_great | JM_good | JM_neutral | JM_low | JM_bad | JM_numb | JM_overwhelmed

record journal_entry =
  je_id :: uuid
  je_sub_id :: uuid
  je_goddess_id :: uuid
  je_body :: string
  je_mood :: journal_mood
  je_photo_r2_key :: "string option"
  je_attachment_key :: "string option"
  je_attachment_mime :: "string option"
  je_is_private :: bool
  je_created_at :: datetime
  je_read_by_goddess_at :: "datetime option"
  je_goddess_comment :: "string option"
  je_goddess_comment_at :: "datetime option"

datatype sub_photo_status = SP_pending | SP_approved | SP_rejected

record sub_photo =
  ph_id :: uuid
  ph_sub_id :: uuid
  ph_goddess_id :: uuid
  ph_r2_key :: string
  ph_mime_type :: string
  ph_byte_size :: nat
  ph_status :: sub_photo_status
  ph_rejection_reason :: "string option"
  ph_uploaded_at :: datetime
  ph_reviewed_at :: "datetime option"
  ph_reviewed_by :: "uuid option"

text \<open>Encrypted columns are byte strings.\<close>

record sub_medical =
  md_sub_id :: uuid
  md_goddess_id :: uuid
  md_blood_type_enc :: "string option"
  md_allergies_enc :: "string option"
  md_medications_enc :: "string option"
  md_emergency_contact_enc :: "string option"
  md_medical_notes_enc :: "string option"
  md_updated_at :: datetime

record sub_aftercare =
  ac_sub_id :: uuid
  ac_needs :: "string option"
  ac_comfort_items :: "string option"
  ac_contact_phrase :: "string option"
  ac_notes :: "string option"
  ac_intensity :: int
  ac_read_by_goddess_at :: "datetime option"
  ac_updated_at :: datetime

record goddess_kek =
  gk_goddess_id :: uuid
  gk_wrapped_dek :: string
  gk_root_kek_version :: int
  gk_nonce :: string
  gk_rotated_at :: "datetime option"

text \<open>A JSON document, as an audit row holds it and as the body of a request is.\<close>

datatype json =
    J_null | J_bool bool | J_num rat | J_str string | J_list "json list" | J_obj "(string \<times> json) list"

record admin_action =
  aa_admin_id :: uuid
  aa_acting_as_user_id :: "uuid option"
  aa_action :: string
  aa_entity :: "string option"
  aa_entity_id :: "uuid option"
  aa_payload :: "json option"
  aa_created_at :: datetime

section \<open>The state\<close>

text \<open>\<open>core\<close> is the database of the money side; a request of the personal side leaves it alone but
for notifications and where a definition says so.\<close>

record store =
  core :: db
  t_profiles :: "sub_profile list"
  t_status_events :: "status_event list"
  t_change_requests :: "profile_change_request list"
  t_consent_texts :: "consent_text list"
  t_acceptances :: "consent_acceptance list"
  t_limits :: "sub_limit list"
  t_triggers :: "sub_trigger list"
  t_categories :: "kink_category list"
  t_kinks :: "kink_item list"
  t_ratings :: "sub_kink_rating list"
  t_toys :: "toy_item list"
  t_journal :: "journal_entry list"
  t_photos :: "sub_photo list"
  t_medical :: "sub_medical list"
  t_aftercare :: "sub_aftercare list"
  t_keks :: "goddess_kek list"
  t_admin_actions :: "admin_action list"

definition empty_store :: "db \<Rightarrow> store" where
  "empty_store s = \<lparr>core = s, t_profiles = [], t_status_events = [], t_change_requests = [],
     t_consent_texts = [], t_acceptances = [], t_limits = [], t_triggers = [], t_categories = [],
     t_kinks = [], t_ratings = [], t_toys = [], t_journal = [], t_photos = [], t_medical = [],
     t_aftercare = [], t_keks = [], t_admin_actions = []\<rparr>"

lemma empty_store_simps [simp]:
  "core (empty_store s) = s" "t_profiles (empty_store s) = []" "t_status_events (empty_store s) = []"
  "t_change_requests (empty_store s) = []" "t_consent_texts (empty_store s) = []"
  "t_acceptances (empty_store s) = []" "t_limits (empty_store s) = []" "t_triggers (empty_store s) = []"
  "t_categories (empty_store s) = []" "t_kinks (empty_store s) = []" "t_ratings (empty_store s) = []"
  "t_toys (empty_store s) = []" "t_journal (empty_store s) = []" "t_photos (empty_store s) = []"
  "t_medical (empty_store s) = []" "t_aftercare (empty_store s) = []" "t_keks (empty_store s) = []"
  "t_admin_actions (empty_store s) = []"
  by (simp_all add: empty_store_def)

section \<open>Who may see whom\<close>

text \<open>The checks that several controllers share, over the users of the core.\<close>

definition goddess_of_sub :: "uuid \<Rightarrow> store \<Rightarrow> uuid res" where
  "goddess_of_sub sid s =
     (case user_by_id sid (core s) of
        None \<Rightarrow> Inl (Forbidden ''sub is not assigned to a goddess'')
      | Some u \<Rightarrow> require (u_goddess_id u) (Forbidden ''sub is not assigned to a goddess'') Inr)"

definition assert_sub_under_goddess :: "uuid \<Rightarrow> uuid \<Rightarrow> store \<Rightarrow> uuid res" where
  "assert_sub_under_goddess goddess_user_id sid s =
     attempt (resolve_goddess_id goddess_user_id (core s)) (\<lambda>gid.
     require (user_by_id sid (core s)) (NotFound ''sub not found'') (\<lambda>u.
     raise_if (u_goddess_id u \<noteq> Some gid) (Forbidden ''sub does not belong to this goddess'') (Inr gid)))"

section \<open>Partial updates\<close>

text \<open>\<^verbatim>\<open>if new is not None: row.field = new\<close>.\<close>

definition override :: "'a option \<Rightarrow> 'a \<Rightarrow> 'a" where
  "override new old = (case new of None \<Rightarrow> old | Some v \<Rightarrow> v)"

definition override_opt :: "'a option \<Rightarrow> 'a option \<Rightarrow> 'a option" where
  "override_opt new old = (case new of None \<Rightarrow> old | Some v \<Rightarrow> Some v)"

lemma override_simps [simp]:
  "override None x = x" "override (Some y) x = y" "override_opt None z = z" "override_opt (Some y) z = Some y"
  by (simp_all add: override_def override_opt_def)

section \<open>Audit and safeword\<close>

text \<open>\<^verbatim>\<open>daos/admin_action_dao.py\<close>.\<close>

definition record_action ::
  "datetime \<Rightarrow> uuid \<Rightarrow> string \<Rightarrow> string option \<Rightarrow> uuid option \<Rightarrow> json option \<Rightarrow> store \<Rightarrow> store" where
  "record_action now admin action entity eid payload s =
     s\<lparr>t_admin_actions := t_admin_actions s @
        [\<lparr>aa_admin_id = admin, aa_acting_as_user_id = None, aa_action = action, aa_entity = entity,
          aa_entity_id = eid, aa_payload = payload, aa_created_at = now\<rparr>]\<rparr>"

text \<open>\<^verbatim>\<open>controllers/sub_safeword_controller.py\<close>.\<close>

definition safeword_get_self :: "uuid \<Rightarrow> store \<Rightarrow> sub_safeword option" where
  "safeword_get_self sid s = safeword_for_sub sid (core s)"

definition safeword_upsert_self :: "datetime \<Rightarrow> uuid \<Rightarrow> safeword_in \<Rightarrow> store \<Rightarrow> (store \<times> sub_safeword option) res" where
  "safeword_upsert_self now sid p s =
     attempt (reject_if_placeholder (Some (sf_word p)) ''word'') (\<lambda>_.
     attempt (reject_if_placeholder (sf_contact_name p) ''emergency_contact_name'') (\<lambda>_.
     attempt (reject_if_placeholder (sf_contact_phone p) ''emergency_contact_phone'') (\<lambda>_.
     attempt (goddess_of_sub sid s) (\<lambda>gid.
     let c = upsert_safeword now sid gid p (core s)
     in Inr (s\<lparr>core := c\<rparr>, safeword_for_sub sid c)))))"

definition safeword_get_for_goddess :: "uuid \<Rightarrow> uuid \<Rightarrow> store \<Rightarrow> sub_safeword option res" where
  "safeword_get_for_goddess goddess_user_id sid s =
     attempt (assert_sub_under_goddess goddess_user_id sid s) (\<lambda>_. Inr (safeword_for_sub sid (core s)))"

end
