(* ===== verification/Rituals.thy ===== *)
theory Rituals
  imports Penalty Periods
begin

text \<open>
  Recurring rituals and their daily occurrences: \<^verbatim>\<open>daos/ritual_dao.py\<close>,
  \<^verbatim>\<open>daos/ritual_occurrence_dao.py\<close>, \<^verbatim>\<open>controllers/ritual_controller.py\<close> and the two cron
  passes of \<^verbatim>\<open>services/cron/rituals.py\<close> (seeding at 00:00, marking missed at 23:59, London).
\<close>

section \<open>Ritual rows\<close>

interpretation rituals: keyed_table i_id "fetch i_id" insert_row "modify i_id"
  by (rule list_table)

interpretation occurrences: keyed_table o_id "fetch o_id" insert_row "modify o_id"
  by (rule list_table)

definition get_ritual :: "uuid \<Rightarrow> db \<Rightarrow> ritual res" where
  "get_ritual rid s = require (fetch i_id rid (t_rituals s)) (NotFound ''ritual not found'') Inr"

definition rituals_by_sub :: "uuid \<Rightarrow> db \<Rightarrow> ritual list" where
  "rituals_by_sub sid s = sort_key (\<lambda>r. - i_created_at r) (filter (\<lambda>r. i_sub_id r = sid) (t_rituals s))"

definition rituals_with_sub_names ::
  "uuid \<Rightarrow> db \<Rightarrow> (ritual \<times> string option \<times> string option \<times> string) list" where
  "rituals_with_sub_names gid s =
     [(r, u_first_name u, u_last_name u, u_username u).
        r \<leftarrow> sort_key (\<lambda>r. - i_created_at r) (filter (\<lambda>r. i_goddess_id r = gid) (t_rituals s)),
        u \<leftarrow> t_users s, i_sub_id r = u_id u]"

definition active_rituals_by_goddess :: "uuid \<Rightarrow> db \<Rightarrow> ritual list" where
  "active_rituals_by_goddess gid s =
     sort_key (\<lambda>r. - i_created_at r) (filter (\<lambda>r. i_goddess_id r = gid \<and> \<not> i_paused r) (t_rituals s))"

definition update_ritual_row :: "uuid \<Rightarrow> (ritual \<Rightarrow> ritual) \<Rightarrow> db \<Rightarrow> db" where
  "update_ritual_row rid f s = s\<lparr>t_rituals := modify i_id rid f (t_rituals s)\<rparr>"

definition set_paused :: "bool \<Rightarrow> datetime \<Rightarrow> uuid \<Rightarrow> db \<Rightarrow> (db \<times> ritual) res" where
  "set_paused b now rid s =
     attempt (get_ritual rid s) (\<lambda>r.
     let f = (\<lambda>r. r\<lparr>i_paused := b, i_updated_at := now\<rparr>)
     in Inr (update_ritual_row rid f s, f r))"

text \<open>Deleting a ritual deletes its occurrences (\<^verbatim>\<open>ondelete="CASCADE"\<close>).\<close>

definition delete_ritual_row :: "uuid \<Rightarrow> db \<Rightarrow> db res" where
  "delete_ritual_row rid s =
     attempt (get_ritual rid s) (\<lambda>_.
     Inr (s\<lparr>t_rituals := filter (\<lambda>r. i_id r \<noteq> rid) (t_rituals s),
            t_occurrences := filter (\<lambda>oc. o_ritual_id oc \<noteq> rid) (t_occurrences s)\<rparr>))"

definition active_rituals_for_date :: "ritual_frequency option \<Rightarrow> db \<Rightarrow> ritual list" where
  "active_rituals_for_date freq s =
     filter (\<lambda>r. \<not> i_paused r \<and> (case freq of None \<Rightarrow> True | Some f \<Rightarrow> i_frequency r = f)) (t_rituals s)"

section \<open>Occurrence rows\<close>

definition get_occurrence :: "uuid \<Rightarrow> db \<Rightarrow> ritual_occurrence res" where
  "get_occurrence oid s =
     require (fetch o_id oid (t_occurrences s)) (NotFound ''ritual_occurrence not found'') Inr"

definition occurrence_by_date :: "uuid \<Rightarrow> int \<Rightarrow> db \<Rightarrow> ritual_occurrence res" where
  "occurrence_by_date rid date s =
     attempt (scalar_one_or_none (filter (\<lambda>oc. o_ritual_id oc = rid \<and> o_date oc = date) (t_occurrences s)))
       (\<lambda>r. require r (NotFound ''ritual_occurrence not found'') Inr)"

text \<open>\<^verbatim>\<open>ON CONFLICT (ritual_id, date) DO NOTHING\<close>, row by row, with the number inserted.\<close>

fun bulk_create_for_date :: "ritual_occurrence list \<Rightarrow> db \<Rightarrow> db \<times> nat" where
  "bulk_create_for_date [] s = (s, 0)"
| "bulk_create_for_date (row # rows) s =
     (if list_ex (\<lambda>oc. o_ritual_id oc = o_ritual_id row \<and> o_date oc = o_date row) (t_occurrences s)
      then bulk_create_for_date rows s
      else case bulk_create_for_date rows (s\<lparr>t_occurrences := insert_row row (t_occurrences s)\<rparr>) of
             (s1, n) \<Rightarrow> (s1, n + 1))"

definition today_for_sub :: "uuid \<Rightarrow> int \<Rightarrow> db \<Rightarrow> ritual_occurrence list" where
  "today_for_sub sid date s =
     sort_key o_created_at (filter (\<lambda>oc. o_sub_id oc = sid \<and> o_date oc = date) (t_occurrences s))"

definition count_today_for_sub :: "uuid \<Rightarrow> int \<Rightarrow> db \<Rightarrow> nat" where
  "count_today_for_sub sid date s = length (today_for_sub sid date s)"

definition pending_with_points :: "int \<Rightarrow> db \<Rightarrow> (uuid \<times> uuid \<times> uuid \<times> int) list" where
  "pending_with_points date s =
     [(o_id oc, o_sub_id oc, o_goddess_id oc, i_points_on_miss r).
        oc \<leftarrow> t_occurrences s, o_date oc = date \<and> o_status oc = OS_pending,
        r \<leftarrow> t_rituals s, o_ritual_id oc = i_id r]"

definition update_occurrence :: "uuid \<Rightarrow> (ritual_occurrence \<Rightarrow> ritual_occurrence) \<Rightarrow> db \<Rightarrow> db" where
  "update_occurrence oid f s = s\<lparr>t_occurrences := modify o_id oid f (t_occurrences s)\<rparr>"

definition keep_or :: "'a option \<Rightarrow> 'a option \<Rightarrow> 'a option" where
  "keep_or v old = (case v of None \<Rightarrow> old | Some x \<Rightarrow> Some x)"

definition completed_row ::
  "datetime \<Rightarrow> string option \<Rightarrow> string option \<Rightarrow> ritual_occurrence \<Rightarrow> ritual_occurrence" where
  "completed_row at_time note evidence oc =
     oc\<lparr>o_status := OS_completed, o_completed_at := Some at_time, o_note := keep_or note (o_note oc),
        o_evidence_r2_key := keep_or evidence (o_evidence_r2_key oc)\<rparr>"

definition submitted_row ::
  "string option \<Rightarrow> string option \<Rightarrow> ritual_occurrence \<Rightarrow> ritual_occurrence" where
  "submitted_row note evidence oc =
     oc\<lparr>o_status := OS_submitted, o_note := keep_or note (o_note oc),
        o_evidence_r2_key := keep_or evidence (o_evidence_r2_key oc)\<rparr>"

definition reviewed_row ::
  "occurrence_status \<Rightarrow> uuid \<Rightarrow> datetime \<Rightarrow> ritual_occurrence \<Rightarrow> ritual_occurrence" where
  "reviewed_row st reviewer now oc =
     oc\<lparr>o_status := st, o_reviewed_at := Some now, o_reviewed_by := Some reviewer\<rparr>"

definition mark_missed_bulk :: "uuid list \<Rightarrow> db \<Rightarrow> db \<times> nat" where
  "mark_missed_bulk oids s =
     (let hit = (\<lambda>oc. o_id oc \<in> set oids \<and> o_status oc = OS_pending)
      in (s\<lparr>t_occurrences := map (\<lambda>oc. if hit oc then oc\<lparr>o_status := OS_missed\<rparr> else oc) (t_occurrences s)\<rparr>,
          length (filter hit (t_occurrences s))))"

definition mark_missed_by_date :: "int \<Rightarrow> db \<Rightarrow> db \<times> nat" where
  "mark_missed_by_date date s =
     (let hit = (\<lambda>oc. o_date oc = date \<and> o_status oc = OS_pending)
      in (s\<lparr>t_occurrences := map (\<lambda>oc. if hit oc then oc\<lparr>o_status := OS_missed\<rparr> else oc) (t_occurrences s)\<rparr>,
          length (filter hit (t_occurrences s))))"

section \<open>Ritual handlers\<close>

record ritual_in =
  ii_title :: string
  ii_description :: "string option"
  ii_frequency :: ritual_frequency
  ii_custom_days_bitmask :: "int option"
  ii_deadline_time :: "int option"
  ii_points_on_complete :: int
  ii_points_on_miss :: int
  ii_requires_proof :: bool
  ii_paused :: bool

record ritual_update =
  iu_title :: "string option"
  iu_description :: "string option option"
  iu_frequency :: "ritual_frequency option"
  iu_custom_days_bitmask :: "int option option"
  iu_deadline_time :: "int option option"
  iu_points_on_complete :: "int option"
  iu_points_on_miss :: "int option"
  iu_requires_proof :: "bool option"
  iu_paused :: "bool option"

definition ritual_update_empty :: "ritual_update \<Rightarrow> bool" where
  "ritual_update_empty u \<longleftrightarrow> iu_title u = None \<and> iu_description u = None \<and> iu_frequency u = None \<and>
     iu_custom_days_bitmask u = None \<and> iu_deadline_time u = None \<and> iu_points_on_complete u = None \<and>
     iu_points_on_miss u = None \<and> iu_requires_proof u = None \<and> iu_paused u = None"

definition patch_ritual :: "ritual_update \<Rightarrow> datetime \<Rightarrow> ritual \<Rightarrow> ritual" where
  "patch_ritual u now r = r\<lparr>i_title := patch_value (iu_title u) (i_title r),
     i_description := patch_value (iu_description u) (i_description r),
     i_frequency := patch_value (iu_frequency u) (i_frequency r),
     i_custom_days_bitmask := patch_value (iu_custom_days_bitmask u) (i_custom_days_bitmask r),
     i_deadline_time := patch_value (iu_deadline_time u) (i_deadline_time r),
     i_points_on_complete := patch_value (iu_points_on_complete u) (i_points_on_complete r),
     i_points_on_miss := patch_value (iu_points_on_miss u) (i_points_on_miss r),
     i_requires_proof := patch_value (iu_requires_proof u) (i_requires_proof r),
     i_paused := patch_value (iu_paused u) (i_paused r), i_updated_at := now\<rparr>"

definition create_ritual ::
  "uuid \<Rightarrow> datetime \<Rightarrow> user \<Rightarrow> uuid \<Rightarrow> ritual_in \<Rightarrow> db \<Rightarrow> (db \<times> ritual) res" where
  "create_ritual rid now goddess_user sid p s =
     attempt (resolve_goddess_id (u_id goddess_user) s) (\<lambda>gid.
     attempt (require_sub_under_goddess gid sid s) (\<lambda>_.
     let r = \<lparr>i_id = rid, i_sub_id = sid, i_goddess_id = gid, i_title = ii_title p,
              i_description = ii_description p, i_frequency = ii_frequency p,
              i_custom_days_bitmask = ii_custom_days_bitmask p, i_deadline_time = ii_deadline_time p,
              i_points_on_complete = ii_points_on_complete p, i_points_on_miss = ii_points_on_miss p,
              i_requires_proof = ii_requires_proof p, i_paused = ii_paused p, i_created_at = now,
              i_updated_at = now\<rparr>
     in Inr (s\<lparr>t_rituals := insert_row r (t_rituals s)\<rparr>, r)))"

definition list_rituals_for_sub :: "user \<Rightarrow> uuid \<Rightarrow> db \<Rightarrow> ritual list res" where
  "list_rituals_for_sub goddess_user sid s =
     attempt (resolve_goddess_id (u_id goddess_user) s) (\<lambda>gid.
     attempt (require_sub_under_goddess gid sid s) (\<lambda>_. Inr (rituals_by_sub sid s)))"

definition owned_ritual :: "user \<Rightarrow> uuid \<Rightarrow> db \<Rightarrow> ritual res" where
  "owned_ritual goddess_user rid s =
     attempt (resolve_goddess_id (u_id goddess_user) s) (\<lambda>gid.
     attempt (get_ritual rid s) (\<lambda>r.
     raise_if (i_goddess_id r \<noteq> gid) (Forbidden ''ritual does not belong to this goddess'') (Inr r)))"

definition update_ritual ::
  "datetime \<Rightarrow> user \<Rightarrow> uuid \<Rightarrow> ritual_update \<Rightarrow> db \<Rightarrow> (db \<times> ritual) res" where
  "update_ritual now goddess_user rid u s =
     attempt (owned_ritual goddess_user rid s) (\<lambda>r.
     if ritual_update_empty u then Inr (s, r)
     else Inr (update_ritual_row rid (patch_ritual u now) s, patch_ritual u now r))"

definition delete_ritual :: "user \<Rightarrow> uuid \<Rightarrow> db \<Rightarrow> db res" where
  "delete_ritual goddess_user rid s =
     attempt (owned_ritual goddess_user rid s) (\<lambda>_. delete_ritual_row rid s)"

section \<open>Occurrence handlers\<close>

definition owned_occurrence :: "user \<Rightarrow> uuid \<Rightarrow> db \<Rightarrow> ritual_occurrence res" where
  "owned_occurrence goddess_user oid s =
     attempt (resolve_goddess_id (u_id goddess_user) s) (\<lambda>gid.
     attempt (get_occurrence oid s) (\<lambda>oc.
     raise_if (o_goddess_id oc \<noteq> gid) (Forbidden ''occurrence does not belong to this goddess'') (Inr oc)))"

definition own_occurrence :: "user \<Rightarrow> uuid \<Rightarrow> db \<Rightarrow> ritual_occurrence res" where
  "own_occurrence sub_user oid s =
     attempt (get_occurrence oid s) (\<lambda>oc.
     raise_if (o_sub_id oc \<noteq> u_id sub_user) (Forbidden ''occurrence does not belong to this sub'') (Inr oc))"

definition approve_occurrence ::
  "datetime \<Rightarrow> user \<Rightarrow> uuid \<Rightarrow> db \<Rightarrow> (db \<times> ritual_occurrence) res" where
  "approve_occurrence now goddess_user oid s =
     attempt (owned_occurrence goddess_user oid s) (\<lambda>oc.
     raise_if (o_status oc \<noteq> OS_submitted) (Conflict ''cannot approve occurrence in this status'') (
     let f = reviewed_row OS_completed (u_id goddess_user) now;
         s1 = update_occurrence oid f s
     in attempt (get_ritual (o_ritual_id oc) s1) (\<lambda>r.
     let (s2, _) = record_ritual_complete now (f oc) r s1 in Inr (s2, f oc))))"

definition reject_occurrence ::
  "datetime \<Rightarrow> user \<Rightarrow> uuid \<Rightarrow> db \<Rightarrow> (db \<times> ritual_occurrence) res" where
  "reject_occurrence now goddess_user oid s =
     attempt (owned_occurrence goddess_user oid s) (\<lambda>oc.
     raise_if (o_status oc \<noteq> OS_submitted) (Conflict ''cannot reject occurrence in this status'') (
     let f = reviewed_row OS_rejected (u_id goddess_user) now;
         s1 = update_occurrence oid f s
     in attempt (get_ritual (o_ritual_id oc) s1) (\<lambda>r.
     let (s2, _) = record_ritual_miss now (f oc) r s1 in Inr (s2, f oc))))"

definition list_own_rituals :: "user \<Rightarrow> db \<Rightarrow> ritual list" where
  "list_own_rituals sub_user s = filter (\<lambda>r. \<not> i_paused r) (rituals_by_sub (u_id sub_user) s)"

definition list_today_occurrences :: "zone \<Rightarrow> datetime \<Rightarrow> user \<Rightarrow> db \<Rightarrow> ritual_occurrence list" where
  "list_today_occurrences z now sub_user s = today_for_sub (u_id sub_user) (as_london_date z now) s"

text \<open>\<^verbatim>\<open>not body.evidence_r2_key\<close>: missing or empty.\<close>

definition no_evidence :: "string option \<Rightarrow> bool" where
  "no_evidence v \<longleftrightarrow> v = None \<or> v = Some []"

definition complete_occurrence ::
  "datetime \<Rightarrow> user \<Rightarrow> uuid \<Rightarrow> string option \<Rightarrow> string option \<Rightarrow> db \<Rightarrow> (db \<times> ritual_occurrence) res" where
  "complete_occurrence now sub_user oid note evidence s =
     attempt (own_occurrence sub_user oid s) (\<lambda>oc.
     raise_if (o_status oc \<noteq> OS_pending) (Conflict ''cannot complete occurrence in this status'') (
     attempt (get_ritual (o_ritual_id oc) s) (\<lambda>r.
     raise_if (i_requires_proof r \<and> no_evidence evidence)
       (BadRequest ''This ritual requires photo/evidence to mark complete.'') (
     let f = completed_row now note evidence;
         s1 = update_occurrence oid f s;
         (s2, _) = record_ritual_complete now (f oc) r s1
     in Inr (s2, f oc)))))"

definition submit_occurrence ::
  "user \<Rightarrow> uuid \<Rightarrow> string option \<Rightarrow> string option \<Rightarrow> db \<Rightarrow> (db \<times> ritual_occurrence) res" where
  "submit_occurrence sub_user oid note evidence s =
     attempt (own_occurrence sub_user oid s) (\<lambda>oc.
     raise_if (o_status oc \<noteq> OS_pending) (Conflict ''cannot submit occurrence in this status'') (
     attempt (get_ritual (o_ritual_id oc) s) (\<lambda>r.
     raise_if (i_requires_proof r \<and> no_evidence evidence)
       (BadRequest ''This ritual requires photo/evidence to mark complete.'') (
     let f = submitted_row note evidence in Inr (update_occurrence oid f s, f oc)))))"

section \<open>The daily passes\<close>

definition ritual_fires_on :: "zone \<Rightarrow> ritual \<Rightarrow> int \<Rightarrow> bool" where
  "ritual_fires_on z r today =
     (case i_frequency r of
        RF_daily \<Rightarrow> True
      | RF_weekly \<Rightarrow> weekday (as_london_date z (i_created_at r)) = weekday today
      | RF_custom \<Rightarrow>
          (let mask = (case i_custom_days_bitmask r of None \<Rightarrow> 0 | Some m \<Rightarrow> m)
           in mask div 2 ^ nat (weekday today) mod 2 = 1))"

definition row_for :: "(uuid \<Rightarrow> uuid) \<Rightarrow> datetime \<Rightarrow> ritual \<Rightarrow> int \<Rightarrow> ritual_occurrence" where
  "row_for fresh now r today =
     \<lparr>o_id = fresh (i_id r), o_ritual_id = i_id r, o_sub_id = i_sub_id r, o_goddess_id = i_goddess_id r,
      o_date = today, o_status = OS_pending, o_note = None, o_evidence_r2_key = None,
      o_completed_at = None, o_reviewed_at = None, o_reviewed_by = None, o_created_at = now\<rparr>"

definition seed_occurrences_for_today ::
  "zone \<Rightarrow> (uuid \<Rightarrow> uuid) \<Rightarrow> datetime \<Rightarrow> int \<Rightarrow> db \<Rightarrow> db \<times> nat" where
  "seed_occurrences_for_today z fresh now today s =
     bulk_create_for_date
       (map (\<lambda>r. row_for fresh now r today)
          (filter (\<lambda>r. ritual_fires_on z r today) (active_rituals_for_date None s))) s"

fun penalize_missed :: "datetime \<Rightarrow> (uuid \<times> uuid \<times> uuid \<times> int) list \<Rightarrow> db \<Rightarrow> db res" where
  "penalize_missed now [] s = Inr s"
| "penalize_missed now ((oid, sid, gid, points) # rest) s =
     attempt (apply_penalty now gid sid PT_ritual_missed ''ritual_miss'' (Some oid) points None s)
       (\<lambda>(s1, _). penalize_missed now rest s1)"

definition mark_missed_for_today :: "datetime \<Rightarrow> int \<Rightarrow> db \<Rightarrow> (db \<times> nat) res" where
  "mark_missed_for_today now today s =
     (let pending = pending_with_points today s;
          (s1, updated) = mark_missed_by_date today s
      in attempt (penalize_missed now pending s1) (\<lambda>s2. Inr (s2, updated)))"

end
