(* ===== verification/Tasks.thy ===== *)
theory Tasks
  imports Penalty
begin

text \<open>
  One-off tasks (\<^verbatim>\<open>daos/task_dao.py\<close>, \<^verbatim>\<open>controllers/task_controller.py\<close>) and the rewards and
  punishments bought and dealt with merit points (\<^verbatim>\<open>controllers/merits_controller.py\<close> with
  the DAOs of the tiers and redemptions).
\<close>

section \<open>Task rows\<close>

interpretation tasks: keyed_table k_id "fetch k_id" insert_row "modify k_id"
  by (rule list_table)

definition create_task_row :: "task \<Rightarrow> db \<Rightarrow> db" where
  "create_task_row t s = s\<lparr>t_tasks := insert_row t (t_tasks s)\<rparr>"

definition get_task :: "uuid \<Rightarrow> db \<Rightarrow> task res" where
  "get_task tid s = require (fetch k_id tid (t_tasks s)) (NotFound ''task not found'') Inr"

definition tasks_by_sub :: "uuid \<Rightarrow> db \<Rightarrow> task list" where
  "tasks_by_sub sid s = sort_key (\<lambda>t. - k_created_at t) (filter (\<lambda>t. k_sub_id t = sid) (t_tasks s))"

definition open_or_submitted :: "uuid \<Rightarrow> task \<Rightarrow> bool" where
  "open_or_submitted sid t \<longleftrightarrow> k_sub_id t = sid \<and> (k_status t = TS_open \<or> k_status t = TS_submitted)"

definition count_open_or_submitted :: "uuid \<Rightarrow> db \<Rightarrow> nat" where
  "count_open_or_submitted sid s = length (filter (open_or_submitted sid) (t_tasks s))"

definition list_open_or_submitted :: "uuid \<Rightarrow> db \<Rightarrow> task list" where
  "list_open_or_submitted sid s =
     sort_key (\<lambda>t. - k_created_at t) (filter (open_or_submitted sid) (t_tasks s))"

definition update_task_row :: "uuid \<Rightarrow> (task \<Rightarrow> task) \<Rightarrow> db \<Rightarrow> db" where
  "update_task_row tid f s = s\<lparr>t_tasks := modify k_id tid f (t_tasks s)\<rparr>"

definition delete_task_row :: "uuid \<Rightarrow> db \<Rightarrow> db res" where
  "delete_task_row tid s =
     attempt (get_task tid s) (\<lambda>_. Inr (s\<lparr>t_tasks := filter (\<lambda>t. k_id t \<noteq> tid) (t_tasks s)\<rparr>))"

section \<open>Task handlers\<close>

record task_in =
  ti_title :: string
  ti_description :: "string option"
  ti_due_at :: "datetime option"
  ti_points_on_complete :: int
  ti_points_on_miss :: int

record task_update =
  tu_title :: "string option"
  tu_description :: "string option option"
  tu_due_at :: "datetime option option"
  tu_points_on_complete :: "int option"
  tu_points_on_miss :: "int option"

definition task_update_empty :: "task_update \<Rightarrow> bool" where
  "task_update_empty u \<longleftrightarrow> tu_title u = None \<and> tu_description u = None \<and> tu_due_at u = None \<and>
     tu_points_on_complete u = None \<and> tu_points_on_miss u = None"

definition patch_task :: "task_update \<Rightarrow> datetime \<Rightarrow> task \<Rightarrow> task" where
  "patch_task u now t = t\<lparr>k_title := patch_value (tu_title u) (k_title t),
     k_description := patch_value (tu_description u) (k_description t),
     k_due_at := patch_value (tu_due_at u) (k_due_at t),
     k_points_on_complete := patch_value (tu_points_on_complete u) (k_points_on_complete t),
     k_points_on_miss := patch_value (tu_points_on_miss u) (k_points_on_miss t),
     k_updated_at := now\<rparr>"

definition new_task :: "uuid \<Rightarrow> datetime \<Rightarrow> uuid \<Rightarrow> uuid \<Rightarrow> task_in \<Rightarrow> task" where
  "new_task tid now sid gid p =
     \<lparr>k_id = tid, k_sub_id = sid, k_goddess_id = gid, k_title = ti_title p,
      k_description = ti_description p, k_due_at = ti_due_at p,
      k_points_on_complete = ti_points_on_complete p, k_points_on_miss = ti_points_on_miss p,
      k_status = TS_open, k_evidence_r2_key = None, k_note = None, k_rejection_reason = None,
      k_submitted_at = None, k_reviewed_at = None, k_reviewed_by = None, k_created_at = now,
      k_updated_at = now\<rparr>"

definition create_task :: "uuid \<Rightarrow> datetime \<Rightarrow> user \<Rightarrow> uuid \<Rightarrow> task_in \<Rightarrow> db \<Rightarrow> (db \<times> task) res" where
  "create_task tid now goddess_user sid p s =
     attempt (resolve_goddess_id (u_id goddess_user) s) (\<lambda>gid.
     attempt (require_sub_under_goddess gid sid s) (\<lambda>_.
     let t = new_task tid now sid gid p in Inr (create_task_row t s, t)))"

definition list_tasks_for_sub :: "user \<Rightarrow> uuid \<Rightarrow> db \<Rightarrow> task list res" where
  "list_tasks_for_sub goddess_user sid s =
     attempt (resolve_goddess_id (u_id goddess_user) s) (\<lambda>gid.
     attempt (require_sub_under_goddess gid sid s) (\<lambda>_. Inr (tasks_by_sub sid s)))"

definition owned_task :: "user \<Rightarrow> uuid \<Rightarrow> db \<Rightarrow> task res" where
  "owned_task goddess_user tid s =
     attempt (resolve_goddess_id (u_id goddess_user) s) (\<lambda>gid.
     attempt (get_task tid s) (\<lambda>t.
     raise_if (k_goddess_id t \<noteq> gid) (Forbidden ''task does not belong to this goddess'') (Inr t)))"

definition update_task ::
  "datetime \<Rightarrow> user \<Rightarrow> uuid \<Rightarrow> task_update \<Rightarrow> db \<Rightarrow> (db \<times> task) res" where
  "update_task now goddess_user tid u s =
     attempt (owned_task goddess_user tid s) (\<lambda>t.
     raise_if (k_status t \<noteq> TS_open) (Conflict ''task cannot be updated in this status'') (
     if task_update_empty u then Inr (s, t)
     else Inr (update_task_row tid (patch_task u now) s, patch_task u now t)))"

definition cancel_task :: "datetime \<Rightarrow> user \<Rightarrow> uuid \<Rightarrow> db \<Rightarrow> (db \<times> task) res" where
  "cancel_task now goddess_user tid s =
     attempt (owned_task goddess_user tid s) (\<lambda>t.
     raise_if (k_status t \<noteq> TS_open) (Conflict ''cannot cancel task in this status'') (
     let f = (\<lambda>t. t\<lparr>k_status := TS_cancelled, k_updated_at := now\<rparr>)
     in Inr (update_task_row tid f s, f t)))"

definition approve_task :: "datetime \<Rightarrow> user \<Rightarrow> uuid \<Rightarrow> db \<Rightarrow> (db \<times> task) res" where
  "approve_task now goddess_user tid s =
     attempt (owned_task goddess_user tid s) (\<lambda>t.
     raise_if (k_status t \<noteq> TS_submitted) (Conflict ''cannot approve task in this status'') (
     let f = (\<lambda>t. t\<lparr>k_status := TS_approved, k_reviewed_at := Some now,
                k_reviewed_by := Some (u_id goddess_user), k_updated_at := now\<rparr>);
         s1 = update_task_row tid f s;
         (s2, _) = record_task_complete now (f t) s1
     in Inr (s2, f t)))"

definition reject_task ::
  "datetime \<Rightarrow> user \<Rightarrow> uuid \<Rightarrow> string option \<Rightarrow> db \<Rightarrow> (db \<times> task) res" where
  "reject_task now goddess_user tid reason s =
     attempt (owned_task goddess_user tid s) (\<lambda>t.
     raise_if (k_status t \<noteq> TS_submitted) (Conflict ''cannot reject task in this status'') (
     let f = (\<lambda>t. t\<lparr>k_status := TS_rejected, k_rejection_reason := reason, k_reviewed_at := Some now,
                k_reviewed_by := Some (u_id goddess_user), k_updated_at := now\<rparr>);
         s1 = update_task_row tid f s
     in attempt (apply_penalty now (k_goddess_id t) (k_sub_id t) PT_task_missed ''task_miss''
          (Some (k_id t)) (k_points_on_miss t) None s1) (\<lambda>(s2, _). Inr (s2, f t))))"

definition list_own_tasks :: "user \<Rightarrow> db \<Rightarrow> task list" where
  "list_own_tasks sub_user s = list_open_or_submitted (u_id sub_user) s"

definition submit_task ::
  "datetime \<Rightarrow> user \<Rightarrow> uuid \<Rightarrow> string option \<Rightarrow> string option \<Rightarrow> db \<Rightarrow> (db \<times> task) res" where
  "submit_task now sub_user tid note evidence s =
     attempt (get_task tid s) (\<lambda>t.
     raise_if (k_sub_id t \<noteq> u_id sub_user) (Forbidden ''task does not belong to this sub'') (
     raise_if (k_status t \<noteq> TS_open) (Conflict ''cannot submit task in this status'') (
     let f = (\<lambda>t. t\<lparr>k_status := TS_submitted, k_note := note, k_evidence_r2_key := evidence,
                k_submitted_at := Some now, k_updated_at := now\<rparr>)
     in Inr (update_task_row tid f s, f t))))"

section \<open>Reward and punishment tiers\<close>

record reward_in =
  wi_name :: string
  wi_description :: "string option"
  wi_cost :: int
  wi_active :: bool

record reward_patch =
  wp_name :: "string option"
  wp_description :: "string option option"
  wp_cost :: "int option"
  wp_active :: "bool option"

record punishment_in =
  qi_name :: string
  qi_description :: "string option"
  qi_default_points_penalty :: int
  qi_active :: bool

record punishment_patch =
  qp_name :: "string option"
  qp_description :: "string option option"
  qp_default_points_penalty :: "int option"
  qp_active :: "bool option"

definition get_reward :: "uuid \<Rightarrow> db \<Rightarrow> reward_tier res" where
  "get_reward wid s = require (fetch w_id wid (t_rewards s)) (NotFound ''reward tier not found'') Inr"

definition rewards_for_goddess :: "uuid \<Rightarrow> bool \<Rightarrow> db \<Rightarrow> reward_tier list" where
  "rewards_for_goddess gid only_active s =
     sort_key w_created_at
       (filter (\<lambda>w. w_goddess_id w = gid \<and> (only_active \<longrightarrow> w_active w)) (t_rewards s))"

definition create_reward_row :: "reward_tier \<Rightarrow> db \<Rightarrow> db res" where
  "create_reward_row w s =
     raise_if (w_cost w \<le> 0) (IntegrityError ''ck_reward_tier_cost_positive'') (
     Inr (s\<lparr>t_rewards := insert_row w (t_rewards s)\<rparr>))"

definition patch_reward :: "reward_patch \<Rightarrow> datetime \<Rightarrow> reward_tier \<Rightarrow> reward_tier" where
  "patch_reward u now w = w\<lparr>w_name := patch_value (wp_name u) (w_name w),
     w_description := patch_value (wp_description u) (w_description w),
     w_cost := patch_value (wp_cost u) (w_cost w),
     w_active := patch_value (wp_active u) (w_active w), w_updated_at := now\<rparr>"

definition owned_reward :: "user \<Rightarrow> uuid \<Rightarrow> db \<Rightarrow> (uuid \<times> reward_tier) res" where
  "owned_reward goddess_user wid s =
     attempt (resolve_goddess_id (u_id goddess_user) s) (\<lambda>gid.
     attempt (get_reward wid s) (\<lambda>w.
     raise_if (w_goddess_id w \<noteq> gid) (Forbidden ''reward tier does not belong to this goddess'') (Inr (gid, w))))"

definition list_reward_tiers :: "user \<Rightarrow> db \<Rightarrow> reward_tier list res" where
  "list_reward_tiers goddess_user s =
     attempt (resolve_goddess_id (u_id goddess_user) s) (\<lambda>gid. Inr (rewards_for_goddess gid False s))"

definition create_reward_tier ::
  "uuid \<Rightarrow> datetime \<Rightarrow> user \<Rightarrow> reward_in \<Rightarrow> db \<Rightarrow> (db \<times> reward_tier) res" where
  "create_reward_tier wid now goddess_user p s =
     attempt (resolve_goddess_id (u_id goddess_user) s) (\<lambda>gid.
     let w = \<lparr>w_id = wid, w_goddess_id = gid, w_name = wi_name p, w_description = wi_description p,
              w_cost = wi_cost p, w_active = wi_active p, w_created_at = now, w_updated_at = now\<rparr>
     in attempt (create_reward_row w s) (\<lambda>s1. Inr (s1, w)))"

definition update_reward_tier ::
  "datetime \<Rightarrow> user \<Rightarrow> uuid \<Rightarrow> reward_patch \<Rightarrow> db \<Rightarrow> (db \<times> reward_tier) res" where
  "update_reward_tier now goddess_user wid u s =
     attempt (owned_reward goddess_user wid s) (\<lambda>(_, w).
     if wp_name u = None \<and> wp_description u = None \<and> wp_cost u = None \<and> wp_active u = None
     then Inr (s, w)
     else raise_if (w_cost (patch_reward u now w) \<le> 0) (IntegrityError ''ck_reward_tier_cost_positive'') (
       Inr (s\<lparr>t_rewards := modify w_id wid (patch_reward u now) (t_rewards s)\<rparr>, patch_reward u now w)))"

text \<open>A redeemed tier cannot be deleted (\<^verbatim>\<open>ondelete="RESTRICT"\<close> of the redemption).\<close>

definition delete_reward_tier :: "user \<Rightarrow> uuid \<Rightarrow> db \<Rightarrow> db res" where
  "delete_reward_tier goddess_user wid s =
     attempt (owned_reward goddess_user wid s) (\<lambda>_.
     raise_if (list_ex (\<lambda>x. x_reward_id x = wid) (t_redemptions s))
       (IntegrityError ''reward_redemption.reward_id'') (
     Inr (s\<lparr>t_rewards := filter (\<lambda>w. w_id w \<noteq> wid) (t_rewards s)\<rparr>)))"

definition get_punishment :: "uuid \<Rightarrow> db \<Rightarrow> punishment_tier res" where
  "get_punishment qid s =
     require (fetch q_id qid (t_punishments s)) (NotFound ''punishment tier not found'') Inr"

definition punishments_for_goddess :: "uuid \<Rightarrow> db \<Rightarrow> punishment_tier list" where
  "punishments_for_goddess gid s =
     sort_key q_created_at (filter (\<lambda>q. q_goddess_id q = gid) (t_punishments s))"

definition patch_punishment :: "punishment_patch \<Rightarrow> datetime \<Rightarrow> punishment_tier \<Rightarrow> punishment_tier" where
  "patch_punishment u now q = q\<lparr>q_name := patch_value (qp_name u) (q_name q),
     q_description := patch_value (qp_description u) (q_description q),
     q_default_points_penalty := patch_value (qp_default_points_penalty u) (q_default_points_penalty q),
     q_active := patch_value (qp_active u) (q_active q), q_updated_at := now\<rparr>"

definition owned_punishment :: "user \<Rightarrow> uuid \<Rightarrow> db \<Rightarrow> (uuid \<times> punishment_tier) res" where
  "owned_punishment goddess_user qid s =
     attempt (resolve_goddess_id (u_id goddess_user) s) (\<lambda>gid.
     attempt (get_punishment qid s) (\<lambda>q.
     raise_if (q_goddess_id q \<noteq> gid) (Forbidden ''punishment tier does not belong to this goddess'')
       (Inr (gid, q))))"

definition list_punishment_tiers :: "user \<Rightarrow> db \<Rightarrow> punishment_tier list res" where
  "list_punishment_tiers goddess_user s =
     attempt (resolve_goddess_id (u_id goddess_user) s) (\<lambda>gid. Inr (punishments_for_goddess gid s))"

definition create_punishment_tier ::
  "uuid \<Rightarrow> datetime \<Rightarrow> user \<Rightarrow> punishment_in \<Rightarrow> db \<Rightarrow> (db \<times> punishment_tier) res" where
  "create_punishment_tier qid now goddess_user p s =
     attempt (resolve_goddess_id (u_id goddess_user) s) (\<lambda>gid.
     let q = \<lparr>q_id = qid, q_goddess_id = gid, q_name = qi_name p, q_description = qi_description p,
              q_default_points_penalty = qi_default_points_penalty p, q_active = qi_active p,
              q_created_at = now, q_updated_at = now\<rparr>
     in raise_if (q_default_points_penalty q > 0)
          (IntegrityError ''ck_punishment_tier_penalty_non_positive'') (
        Inr (s\<lparr>t_punishments := insert_row q (t_punishments s)\<rparr>, q)))"

definition update_punishment_tier ::
  "datetime \<Rightarrow> user \<Rightarrow> uuid \<Rightarrow> punishment_patch \<Rightarrow> db \<Rightarrow> (db \<times> punishment_tier) res" where
  "update_punishment_tier now goddess_user qid u s =
     attempt (owned_punishment goddess_user qid s) (\<lambda>(_, q).
     if qp_name u = None \<and> qp_description u = None \<and> qp_default_points_penalty u = None \<and> qp_active u = None
     then Inr (s, q)
     else raise_if (q_default_points_penalty (patch_punishment u now q) > 0)
            (IntegrityError ''ck_punishment_tier_penalty_non_positive'') (
       Inr (s\<lparr>t_punishments := modify q_id qid (patch_punishment u now) (t_punishments s)\<rparr>,
            patch_punishment u now q)))"

definition delete_punishment_tier :: "user \<Rightarrow> uuid \<Rightarrow> db \<Rightarrow> db res" where
  "delete_punishment_tier goddess_user qid s =
     attempt (owned_punishment goddess_user qid s) (\<lambda>_.
     Inr (s\<lparr>t_punishments := filter (\<lambda>q. q_id q \<noteq> qid) (t_punishments s)\<rparr>))"

section \<open>Balances, redemption and punishment\<close>

definition get_balance_self :: "user \<Rightarrow> db \<Rightarrow> (int \<times> datetime option \<times> nat) res" where
  "get_balance_self sub_user s =
     require (u_goddess_id sub_user) (Forbidden ''sub has no assigned goddess'') (\<lambda>gid.
     Inr (balance_for_sub (u_id sub_user) gid s))"

definition get_balance_scoped :: "user \<Rightarrow> uuid \<Rightarrow> db \<Rightarrow> (int \<times> datetime option \<times> nat) res" where
  "get_balance_scoped goddess_user sid s =
     attempt (resolve_goddess_id (u_id goddess_user) s) (\<lambda>gid.
     attempt (require_sub_under_goddess gid sid s) (\<lambda>_. Inr (balance_for_sub sid gid s)))"

definition list_active_rewards :: "user \<Rightarrow> db \<Rightarrow> reward_tier list res" where
  "list_active_rewards sub_user s =
     require (u_goddess_id sub_user) (Forbidden ''sub has no assigned goddess'') (\<lambda>gid.
     Inr (rewards_for_goddess gid True s))"

definition redeem_reward ::
  "uuid \<Rightarrow> datetime \<Rightarrow> user \<Rightarrow> uuid \<Rightarrow> db \<Rightarrow> (db \<times> uuid \<times> int) res" where
  "redeem_reward xid now sub_user wid s =
     require (u_goddess_id sub_user) (Forbidden ''sub has no assigned goddess'') (\<lambda>gid.
     attempt (get_reward wid s) (\<lambda>tier.
     raise_if (w_goddess_id tier \<noteq> gid) (Forbidden ''reward does not belong to this sub's goddess'') (
     raise_if (\<not> w_active tier) (Conflict ''reward is not active'') (
     raise_if (fst (balance_for_sub (u_id sub_user) gid s) < w_cost tier)
       (Validation ''insufficient points balance to redeem this reward'') (
     let s1 = s\<lparr>t_redemptions := t_redemptions s @
                 [\<lparr>x_id = xid, x_sub_id = u_id sub_user, x_goddess_id = gid, x_reward_id = w_id tier,
                   x_cost_snapshot = w_cost tier, x_created_at = now\<rparr>]\<rparr>;
         (s2, inserted) = insert_idempotent
           (merit_row now (u_id sub_user) gid MS_reward_redeem (Some xid) (- w_cost tier)) s1
     in raise_if (\<not> inserted) (Conflict ''merit event for this redemption already exists'') (
        Inr (s2, xid, fst (balance_for_sub (u_id sub_user) gid s2))))))))"

definition invoke_punishment ::
  "uuid \<Rightarrow> datetime \<Rightarrow> user \<Rightarrow> uuid \<Rightarrow> uuid \<Rightarrow> db \<Rightarrow> (db \<times> task) res" where
  "invoke_punishment tid now goddess_user qid sid s =
     attempt (owned_punishment goddess_user qid s) (\<lambda>(gid, tier).
     raise_if (\<not> q_active tier) (Conflict ''punishment is not active'') (
     attempt (require_sub_under_goddess gid sid s) (\<lambda>sub.
     let t = new_task tid now (u_id sub) gid
           \<lparr>ti_title = q_name tier, ti_description = q_description tier, ti_due_at = None,
            ti_points_on_complete = 1, ti_points_on_miss = q_default_points_penalty tier\<rparr>;
         s1 = create_task_row t s;
         (s2, _) = insert_idempotent
           (merit_row now (u_id sub) gid MS_punishment_invoke (Some tid) (q_default_points_penalty tier)) s1
     in Inr (s2, t))))"

definition list_merits_for_sub :: "user \<Rightarrow> uuid \<Rightarrow> db \<Rightarrow> merit_event list res" where
  "list_merits_for_sub goddess_user sid s =
     attempt (resolve_goddess_id (u_id goddess_user) s) (\<lambda>gid.
     attempt (require_sub_under_goddess gid sid s) (\<lambda>_. Inr (merits_for_sub sid gid 100 s)))"

end
