(* ===== verification/Profiles.thy ===== *)
theory Profiles
  imports Personal Payments Rituals Tasks "HOL-Library.List_Lexorder" "HOL-Library.Char_ord"
begin

text \<open>
  Profiles (\<^verbatim>\<open>controllers/profile_controller.py\<close> with \<^verbatim>\<open>daos/sub_profile_dao.py\<close>,
  \<^verbatim>\<open>daos/status_event_dao.py\<close>, \<^verbatim>\<open>daos/profile_change_request_dao.py\<close>), the end of the signup
  that creates one, and the emergency stop (\<^verbatim>\<open>controllers/panic_controller.py\<close>,
  \<^verbatim>\<open>services/panic/orchestrator.py\<close>).
\<close>

interpretation profiles: keyed_table sp_user_id "fetch sp_user_id" insert_row "modify sp_user_id"
  by (rule list_table)

interpretation change_requests: keyed_table rq_id "fetch rq_id" insert_row "modify rq_id"
  by (rule list_table)

section \<open>Profile rows\<close>

definition profile_of :: "uuid \<Rightarrow> store \<Rightarrow> sub_profile option" where
  "profile_of uid s = fetch sp_user_id uid (t_profiles s)"

definition get_profile :: "uuid \<Rightarrow> store \<Rightarrow> sub_profile res" where
  "get_profile uid s = require (profile_of uid s) (NotFound ''sub_profile not found for user'') Inr"

definition default_profile :: "datetime \<Rightarrow> uuid \<Rightarrow> sub_profile" where
  "default_profile now uid =
     \<lparr>sp_user_id = uid, sp_real_name = None, sp_age = None, sp_gender_id = None, sp_pronouns = None,
      sp_location = None, sp_timezone = None, sp_joined_empire_at = now,
      sp_ownership_status = OW_free, sp_updated_at = None\<rparr>"

record profile_patch =
  pp_real_name :: "string option"
  pp_age :: "int option"
  pp_gender_id :: "uuid option"
  pp_pronouns :: "string option"
  pp_location :: "string option"
  pp_timezone :: "string option"
  pp_ownership_status :: "ownership_status option"

definition no_patch :: profile_patch where
  "no_patch = \<lparr>pp_real_name = None, pp_age = None, pp_gender_id = None, pp_pronouns = None,
     pp_location = None, pp_timezone = None, pp_ownership_status = None\<rparr>"

definition patched_profile :: "profile_patch \<Rightarrow> datetime \<Rightarrow> sub_profile \<Rightarrow> sub_profile" where
  "patched_profile p now r =
     r\<lparr>sp_real_name := override_opt (pp_real_name p) (sp_real_name r),
       sp_age := override_opt (pp_age p) (sp_age r),
       sp_gender_id := override_opt (pp_gender_id p) (sp_gender_id r),
       sp_pronouns := override_opt (pp_pronouns p) (sp_pronouns r),
       sp_location := override_opt (pp_location p) (sp_location r),
       sp_timezone := override_opt (pp_timezone p) (sp_timezone r),
       sp_ownership_status := override (pp_ownership_status p) (sp_ownership_status r),
       sp_updated_at := Some now\<rparr>"

definition upsert_profile :: "datetime \<Rightarrow> uuid \<Rightarrow> profile_patch \<Rightarrow> store \<Rightarrow> (store \<times> sub_profile) res" where
  "upsert_profile now uid p s =
     require (profile_of uid s) (NotFound ''sub_profile not found for user'') (\<lambda>r.
     Inr (s\<lparr>t_profiles := modify sp_user_id uid (patched_profile p now) (t_profiles s)\<rparr>,
          patched_profile p now r))"

text \<open>The whole of the signup: the account and tokens of the core, then the profile of the new sub.\<close>

definition signup_with_profile ::
  "hashing \<Rightarrow> uuid \<Rightarrow> datetime \<Rightarrow> string \<Rightarrow> string \<Rightarrow> signup \<Rightarrow> store \<Rightarrow> (store \<times> token_pair) res" where
  "signup_with_profile h uid now raw token p s =
     attempt (consume h uid now raw token p (core s)) (\<lambda>(c, tokens).
     let row = (default_profile now uid)\<lparr>sp_gender_id := su_gender_id p\<rparr>
     in Inr (s\<lparr>core := c, t_profiles := insert_row row (t_profiles s)\<rparr>, tokens))"

section \<open>Status history\<close>

definition create_status_event ::
  "uuid \<Rightarrow> datetime \<Rightarrow> uuid \<Rightarrow> uuid \<Rightarrow> ownership_status \<Rightarrow> ownership_status \<Rightarrow> uuid \<Rightarrow> string option \<Rightarrow>
   store \<Rightarrow> store \<times> status_event" where
  "create_status_event eid now sid gid from_status to_status by_user reason s =
     (let e = \<lparr>se_id = eid, se_sub_id = sid, se_goddess_id = gid, se_from_status = from_status,
               se_to_status = to_status, se_reason = reason, se_created_by = by_user, se_created_at = now\<rparr>
      in (s\<lparr>t_status_events := t_status_events s @ [e]\<rparr>, e))"

definition status_events_of :: "uuid \<Rightarrow> nat \<Rightarrow> store \<Rightarrow> status_event list" where
  "status_events_of sid limit s =
     take limit (sort_key (\<lambda>e. - se_created_at e) (filter (\<lambda>e. se_sub_id e = sid) (t_status_events s)))"

definition resolve_goddess_owns_sub :: "user \<Rightarrow> uuid \<Rightarrow> store \<Rightarrow> uuid res" where
  "resolve_goddess_owns_sub goddess_user sid s =
     attempt (resolve_goddess_id (u_id goddess_user) (core s)) (\<lambda>gid.
     raise_if (case user_by_id sid (core s) of None \<Rightarrow> True | Some u \<Rightarrow> u_role u \<noteq> R_sub)
       (NotFound ''sub not found'') (
     raise_if (map_option u_goddess_id (user_by_id sid (core s)) \<noteq> Some (Some gid))
       (Forbidden ''sub does not belong to this goddess'') (Inr gid)))"

fun status_name :: "ownership_status \<Rightarrow> string" where
  "status_name OW_free = ''free''"
| "status_name OW_owned = ''owned''"
| "status_name OW_in_training = ''in_training''"
| "status_name OW_collared = ''collared''"
| "status_name OW_blackmailed = ''blackmailed''"
| "status_name OW_released = ''released''"

definition change_ownership_status ::
  "uuid \<Rightarrow> datetime \<Rightarrow> user \<Rightarrow> uuid \<Rightarrow> ownership_status \<Rightarrow> string option \<Rightarrow> store \<Rightarrow>
   (store \<times> sub_profile \<times> status_event) res" where
  "change_ownership_status eid now goddess_user sid to_status reason s =
     attempt (resolve_goddess_owns_sub goddess_user sid s) (\<lambda>gid.
     attempt (get_profile sid s) (\<lambda>profile.
     let from_status = sp_ownership_status profile in
     raise_if (\<not> can_transition from_status to_status)
       (IllegalTransition (status_name from_status) (status_name to_status)
          (sort (map status_name (allowed_transitions from_status)))) (
     attempt (upsert_profile now sid (no_patch\<lparr>pp_ownership_status := Some to_status\<rparr>) s) (\<lambda>(s1, updated).
     let (s2, event) = create_status_event eid now sid gid from_status to_status (u_id goddess_user) reason s1
     in Inr (s2, updated, event)))))"

definition list_status_events :: "user \<Rightarrow> uuid \<Rightarrow> nat \<Rightarrow> store \<Rightarrow> status_event list res" where
  "list_status_events goddess_user sid limit s =
     attempt (resolve_goddess_owns_sub goddess_user sid s) (\<lambda>_. Inr (status_events_of sid limit s))"

definition sub_by_username :: "user \<Rightarrow> string \<Rightarrow> store \<Rightarrow> user res" where
  "sub_by_username goddess_user name s =
     attempt (resolve_goddess_id (u_id goddess_user) (core s)) (\<lambda>gid.
     attempt (user_by_username name (core s)) (\<lambda>r.
     raise_if (case r of None \<Rightarrow> True | Some u \<Rightarrow> u_role u \<noteq> R_sub) (NotFound ''sub not found'') (
     let sub = the r in
     raise_if (u_goddess_id sub \<noteq> Some gid) (Forbidden ''sub does not belong to this goddess'') (Inr sub))))"

section \<open>Change requests\<close>

record change_request_in =
  cq_first_name :: "string option"
  cq_last_name :: "string option"
  cq_display_name :: "string option"
  cq_notes :: "string option"
  cq_avatar_key :: "avatar_key option"
  cq_real_name :: "string option"

definition falsy :: "string option \<Rightarrow> bool" where
  "falsy v \<longleftrightarrow> v = None \<or> v = Some []"

definition get_change_request :: "uuid \<Rightarrow> store \<Rightarrow> profile_change_request res" where
  "get_change_request rid s =
     require (fetch rq_id rid (t_change_requests s)) (NotFound ''profile change request not found'') Inr"

definition pending_request :: "uuid \<Rightarrow> datetime \<Rightarrow> uuid \<Rightarrow> change_request_in \<Rightarrow> profile_change_request" where
  "pending_request rid now sid p =
     \<lparr>rq_id = rid, rq_sub_id = sid, rq_requested_at = now, rq_status = RS_pending,
      rq_first_name = cq_first_name p, rq_last_name = cq_last_name p,
      rq_display_name = cq_display_name p, rq_notes = cq_notes p, rq_avatar_key = cq_avatar_key p,
      rq_real_name = cq_real_name p, rq_fee_amount = None, rq_fee_payment_id = None,
      rq_resolved_at = None, rq_resolution_note = None\<rparr>"

definition create_change_request :: "profile_change_request \<Rightarrow> store \<Rightarrow> store" where
  "create_change_request r s = s\<lparr>t_change_requests := insert_row r (t_change_requests s)\<rparr>"

definition save_change_request ::
  "uuid \<Rightarrow> (profile_change_request \<Rightarrow> profile_change_request) \<Rightarrow> store \<Rightarrow> store" where
  "save_change_request rid f s = s\<lparr>t_change_requests := modify rq_id rid f (t_change_requests s)\<rparr>"

definition requests_by_sub :: "uuid \<Rightarrow> store \<Rightarrow> profile_change_request list" where
  "requests_by_sub sid s =
     sort_key (\<lambda>r. - rq_requested_at r) (filter (\<lambda>r. rq_sub_id r = sid) (t_change_requests s))"

definition pending_requests :: "uuid list \<Rightarrow> store \<Rightarrow> profile_change_request list" where
  "pending_requests sub_ids s =
     (if sub_ids = [] then []
      else sort_key rq_requested_at
        (filter (\<lambda>r. rq_sub_id r \<in> set sub_ids \<and> rq_status r = RS_pending) (t_change_requests s)))"

definition count_pending_requests :: "uuid list \<Rightarrow> store \<Rightarrow> nat" where
  "count_pending_requests sub_ids s =
     (if sub_ids = [] then 0
      else length (filter (\<lambda>r. rq_sub_id r \<in> set sub_ids \<and> rq_status r = RS_pending) (t_change_requests s)))"

definition resolved_request ::
  "change_request_status \<Rightarrow> string option \<Rightarrow> datetime \<Rightarrow> profile_change_request \<Rightarrow> profile_change_request" where
  "resolved_request st note_text now r =
     r\<lparr>rq_status := st, rq_resolution_note := override_opt note_text (rq_resolution_note r),
       rq_resolved_at := Some now\<rparr>"

definition fee_request :: "rat \<Rightarrow> profile_change_request \<Rightarrow> profile_change_request" where
  "fee_request fee r = r\<lparr>rq_fee_amount := Some fee, rq_status := RS_awaiting_fee_payment\<rparr>"

definition request_change ::
  "uuid \<Rightarrow> datetime \<Rightarrow> user \<Rightarrow> change_request_in \<Rightarrow> store \<Rightarrow> (store \<times> profile_change_request) res" where
  "request_change rid now sub_user p s =
     raise_if (falsy (cq_first_name p) \<and> falsy (cq_last_name p) \<and> falsy (cq_display_name p) \<and>
               falsy (cq_notes p) \<and> cq_avatar_key p = None \<and> falsy (cq_real_name p))
       (BadRequest ''at least one proposed field must be set'') (
     let r = pending_request rid now (u_id sub_user) p in Inr (create_change_request r s, r))"

definition list_my_requests :: "user \<Rightarrow> store \<Rightarrow> profile_change_request list" where
  "list_my_requests sub_user s = requests_by_sub (u_id sub_user) s"

definition list_pending_for_goddess :: "user \<Rightarrow> store \<Rightarrow> profile_change_request list res" where
  "list_pending_for_goddess goddess_user s =
     attempt (resolve_goddess_id (u_id goddess_user) (core s)) (\<lambda>gid.
     Inr (pending_requests (map u_id (filter (\<lambda>u. u_goddess_id u = Some gid) (t_users (core s)))) s))"

text \<open>What an approved request changes: the display name and the notes are not among it.\<close>

definition apply_diff_user :: "profile_change_request \<Rightarrow> user \<Rightarrow> user" where
  "apply_diff_user r u =
     u\<lparr>u_first_name := override_opt (rq_first_name r) (u_first_name u),
       u_last_name := override_opt (rq_last_name r) (u_last_name u),
       u_avatar_key := override (rq_avatar_key r) (u_avatar_key u),
       u_real_name := override_opt (rq_real_name r) (u_real_name u)\<rparr>"

definition apply_diff :: "profile_change_request \<Rightarrow> store \<Rightarrow> store res" where
  "apply_diff r s =
     require (user_by_id (rq_sub_id r) (core s)) (NotFound ''sub user not found'') (\<lambda>_.
     Inr (s\<lparr>core := update_user (rq_sub_id r) (apply_diff_user r) (core s)\<rparr>))"

definition assert_goddess_owns_request :: "user \<Rightarrow> profile_change_request \<Rightarrow> store \<Rightarrow> unit res" where
  "assert_goddess_owns_request goddess_user r s =
     attempt (resolve_goddess_id (u_id goddess_user) (core s)) (\<lambda>gid.
     raise_if (map_option u_goddess_id (user_by_id (rq_sub_id r) (core s)) \<noteq> Some (Some gid))
       (Forbidden ''request does not belong to a sub of this goddess'') (Inr ()))"

definition approve_free ::
  "datetime \<Rightarrow> uuid \<Rightarrow> user \<Rightarrow> store \<Rightarrow> (store \<times> profile_change_request) res" where
  "approve_free now rid goddess_user s =
     attempt (get_change_request rid s) (\<lambda>r.
     attempt (assert_goddess_owns_request goddess_user r s) (\<lambda>_.
     raise_if (rq_status r \<noteq> RS_pending) (Conflict ''only pending requests can be approved'') (
     attempt (apply_diff r s) (\<lambda>s1.
     let f = resolved_request RS_approved None now
     in Inr (save_change_request rid f s1, f r)))))"

text \<open>The column keeps two places of the fee; the reply shows the number sent.\<close>

definition set_fee :: "uuid \<Rightarrow> user \<Rightarrow> rat \<Rightarrow> store \<Rightarrow> (store \<times> profile_change_request) res" where
  "set_fee rid goddess_user fee s =
     attempt (get_change_request rid s) (\<lambda>r.
     attempt (assert_goddess_owns_request goddess_user r s) (\<lambda>_.
     raise_if (rq_status r \<noteq> RS_pending) (Conflict ''only pending requests can have a fee imposed'') (
     raise_if (\<bar>numeric_column 2 fee\<bar> \<ge> 10 ^ 10) (DataError ''profile_change_request.fee_amount'') (
     Inr (save_change_request rid (fee_request (numeric_column 2 fee)) s, fee_request fee r)))))"

definition fee_declaration ::
  "uuid \<Rightarrow> datetime \<Rightarrow> user \<Rightarrow> uuid \<Rightarrow> uuid \<Rightarrow> rat \<Rightarrow> payment_declaration" where
  "fee_declaration did now sub_user gid mid fee =
     \<lparr>d_id = did, d_sub_id = u_id sub_user, d_goddess_id = gid, d_method_id = mid, d_amount = fee,
      d_external_timestamp = None, d_note = None, d_category = PC_profile_change_fee,
      d_status = PS_pending, d_target_id = None, d_created_by = u_id sub_user, d_declared_at = now,
      d_validated_at = None, d_validated_by = None, d_rejection_reason = None,
      d_source = DS_sub_declared, d_proof_key = None\<rparr>"

definition accept_fee ::
  "uuid \<Rightarrow> datetime \<Rightarrow> uuid \<Rightarrow> user \<Rightarrow> uuid \<Rightarrow> store \<Rightarrow> (store \<times> profile_change_request) res" where
  "accept_fee did now rid sub_user mid s =
     attempt (get_change_request rid s) (\<lambda>r.
     raise_if (rq_sub_id r \<noteq> u_id sub_user) (Forbidden ''request does not belong to this sub'') (
     raise_if (rq_status r \<noteq> RS_awaiting_fee_payment) (Conflict ''request is not awaiting fee payment'') (
     require (rq_fee_amount r) (BadRequest ''no fee amount set on this request'') (\<lambda>fee.
     require (u_goddess_id sub_user) (BadRequest ''sub is not linked to a goddess'') (\<lambda>gid.
     attempt (method_by_id mid gid (core s)) (\<lambda>m.
     raise_if (case m of None \<Rightarrow> True | Some m \<Rightarrow> \<not> m_enabled m)
       (NotFound ''payment method not found or disabled'') (
     attempt (create_declaration (fee_declaration did now sub_user gid mid fee) (core s)) (\<lambda>c.
     let f = (\<lambda>r. r\<lparr>rq_fee_payment_id := Some did\<rparr>)
     in Inr (save_change_request rid f (s\<lparr>core := c\<rparr>), f r)))))))))"

text \<open>No code calls this one.\<close>

definition on_fee_paid :: "datetime \<Rightarrow> uuid \<Rightarrow> store \<Rightarrow> store res" where
  "on_fee_paid now payment_id s =
     attempt (scalar_one_or_none
        (filter (\<lambda>r. rq_fee_payment_id r = Some payment_id) (t_change_requests s))) (\<lambda>found.
     case found of
       None \<Rightarrow> Inr s
     | Some r \<Rightarrow>
         if rq_status r \<noteq> RS_awaiting_fee_payment then Inr s
         else attempt (apply_diff r s) (\<lambda>s1.
           Inr (save_change_request (rq_id r) (resolved_request RS_approved None now) s1)))"

definition reject_change_request ::
  "datetime \<Rightarrow> uuid \<Rightarrow> user \<Rightarrow> string option \<Rightarrow> store \<Rightarrow> (store \<times> profile_change_request) res" where
  "reject_change_request now rid goddess_user reason s =
     attempt (get_change_request rid s) (\<lambda>r.
     attempt (assert_goddess_owns_request goddess_user r s) (\<lambda>_.
     raise_if (rq_status r \<notin> {RS_pending, RS_awaiting_fee_payment})
       (Conflict ''only pending or awaiting-fee requests can be rejected'') (
     let f = resolved_request RS_rejected reason now
     in Inr (save_change_request rid f s, f r))))"

section \<open>Direct edits\<close>

definition update_payment_handle :: "user \<Rightarrow> string option \<Rightarrow> store \<Rightarrow> store" where
  "update_payment_handle sub_user handle s =
     s\<lparr>core := update_user (u_id sub_user) (\<lambda>u. u\<lparr>u_payment_handle := handle\<rparr>) (core s)\<rparr>"

definition update_theme_preference :: "user \<Rightarrow> string \<Rightarrow> store \<Rightarrow> store" where
  "update_theme_preference user theme s =
     s\<lparr>core := update_user (u_id user) (\<lambda>u. u\<lparr>u_theme_preference := theme\<rparr>) (core s)\<rparr>"

text \<open>The avatar of the body has a default and is written with every edit.\<close>

record identity_in =
  id_first_name :: "string option"
  id_last_name :: "string option"
  id_bio :: "string option"
  id_avatar_key :: avatar_key
  id_gender :: "string option"
  id_pronouns :: "string option"
  id_location :: "string option"
  id_timezone :: "string option"
  id_date_of_birth :: "int option"
  id_real_name :: "string option"
  id_gender_id :: "uuid option"

definition identity_user :: "identity_in \<Rightarrow> bool \<Rightarrow> user \<Rightarrow> user" where
  "identity_user p with_name u =
     u\<lparr>u_first_name := override_opt (id_first_name p) (u_first_name u),
       u_last_name := override_opt (id_last_name p) (u_last_name u),
       u_bio := override_opt (id_bio p) (u_bio u), u_avatar_key := id_avatar_key p,
       u_gender := override_opt (id_gender p) (u_gender u),
       u_pronouns := override_opt (id_pronouns p) (u_pronouns u),
       u_location := override_opt (id_location p) (u_location u),
       u_timezone := override_opt (id_timezone p) (u_timezone u),
       u_date_of_birth := override_opt (id_date_of_birth p) (u_date_of_birth u),
       u_real_name := (if with_name then id_real_name p else u_real_name u)\<rparr>"

definition name_request :: "string option \<Rightarrow> change_request_in" where
  "name_request v = \<lparr>cq_first_name = None, cq_last_name = None, cq_display_name = None, cq_notes = None,
     cq_avatar_key = None, cq_real_name = v\<rparr>"

definition update_identity ::
  "uuid \<Rightarrow> datetime \<Rightarrow> user \<Rightarrow> identity_in \<Rightarrow> store \<Rightarrow> (store \<times> profile_change_request option) res" where
  "update_identity rid now user p s =
     attempt (case id_gender_id p of
                None \<Rightarrow> Inr s
              | Some g \<Rightarrow> attempt (upsert_profile now (u_id user) (no_patch\<lparr>pp_gender_id := Some g\<rparr>) s)
                  (\<lambda>(s1, _). Inr s1)) (\<lambda>s1.
     let with_name = (id_real_name p \<noteq> None \<and> u_real_name user = None);
         change_req = (if id_real_name p \<noteq> None \<and> u_real_name user \<noteq> None \<and> u_real_name user \<noteq> id_real_name p
                       then Some (pending_request rid now (u_id user) (name_request (id_real_name p)))
                       else None);
         s2 = (case change_req of None \<Rightarrow> s1 | Some r \<Rightarrow> create_change_request r s1)
     in Inr (s2\<lparr>core := update_user (u_id user) (identity_user p with_name) (core s2)\<rparr>, change_req))"

definition goddess_edit_sub ::
  "user \<Rightarrow> uuid \<Rightarrow> string option \<Rightarrow> string option \<Rightarrow> avatar_key option \<Rightarrow> store \<Rightarrow> store res" where
  "goddess_edit_sub goddess_user sid new_first new_last avatar s =
     attempt (resolve_goddess_id (u_id goddess_user) (core s)) (\<lambda>gid.
     raise_if (map_option u_goddess_id (user_by_id sid (core s)) \<noteq> Some (Some gid))
       (NotFound ''sub not found or not linked to this goddess'') (
     raise_if (new_first = None \<and> new_last = None \<and> avatar = None) (BadRequest ''at least one field must be provided'') (
     Inr (s\<lparr>core := update_user sid (\<lambda>u. u\<lparr>u_first_name := override_opt new_first (u_first_name u),
         u_last_name := override_opt new_last (u_last_name u),
         u_avatar_key := override avatar (u_avatar_key u)\<rparr>) (core s)\<rparr>))))"

section \<open>The emergency stop\<close>

text \<open>The three bulk updates return the number of rows they changed.\<close>

definition pause_all_rituals :: "datetime \<Rightarrow> uuid \<Rightarrow> db \<Rightarrow> db \<times> nat" where
  "pause_all_rituals now sid s =
     (let hit = (\<lambda>r. i_sub_id r = sid \<and> \<not> i_paused r)
      in (s\<lparr>t_rituals := map (\<lambda>r. if hit r then r\<lparr>i_paused := True, i_updated_at := now\<rparr> else r) (t_rituals s)\<rparr>,
          length (filter hit (t_rituals s))))"

definition cancel_pending_tasks :: "datetime \<Rightarrow> uuid \<Rightarrow> db \<Rightarrow> db \<times> nat" where
  "cancel_pending_tasks now sid s =
     (s\<lparr>t_tasks := map (\<lambda>t. if open_or_submitted sid t then t\<lparr>k_status := TS_cancelled, k_updated_at := now\<rparr> else t)
          (t_tasks s)\<rparr>,
      length (filter (open_or_submitted sid) (t_tasks s)))"

definition soft_release :: "uuid \<Rightarrow> datetime \<Rightarrow> uuid \<Rightarrow> uuid \<Rightarrow> store \<Rightarrow> store \<times> bool" where
  "soft_release eid now sid gid s =
     (case profile_of sid s of
        None \<Rightarrow> (s, False)
      | Some profile \<Rightarrow>
          if sp_ownership_status profile = OW_released then (s, False)
          else let s1 = s\<lparr>t_profiles := modify sp_user_id sid
                     (\<lambda>r. r\<lparr>sp_ownership_status := OW_released, sp_updated_at := Some now\<rparr>) (t_profiles s)\<rparr>;
                   (s2, _) = create_status_event eid now sid gid (sp_ownership_status profile) OW_released sid
                     (Some ''sub_panic'') s1
               in (s2, True))"

definition goddess_user_of_sub :: "uuid \<Rightarrow> db \<Rightarrow> uuid option res" where
  "goddess_user_of_sub sid s =
     (case user_by_id sid s of
        None \<Rightarrow> Inr None
      | Some u \<Rightarrow> (case u_goddess_id u of None \<Rightarrow> Inr None | Some gid \<Rightarrow> resolve_goddess_user_id gid s))"

record panic_out =
  po_paused_rituals :: nat
  po_released :: bool
  po_cancelled_tasks :: nat

definition verify_password :: "hashing \<Rightarrow> string \<Rightarrow> string \<Rightarrow> bool" where
  "verify_password h plain hashed = fst (verify_password_with_rehash h plain hashed)"

definition trigger_panic ::
  "hashing \<Rightarrow> uuid \<Rightarrow> datetime \<Rightarrow> user \<Rightarrow> string \<Rightarrow> store \<Rightarrow> (store \<times> panic_out) res" where
  "trigger_panic h eid now sub password s =
     raise_if (\<not> verify_password h password (u_password_hash sub)) (Unauthorized ''re_auth_failed'') (
     let (c1, paused) = pause_all_rituals now (u_id sub) (core s);
         (c2, cancelled) = cancel_pending_tasks now (u_id sub) c1;
         s1 = s\<lparr>core := c2\<rparr>
     in case u_goddess_id sub of
          None \<Rightarrow> Inr (s1, \<lparr>po_paused_rituals = paused, po_released = False, po_cancelled_tasks = cancelled\<rparr>)
        | Some gid \<Rightarrow>
            let (s2, released) = soft_release eid now (u_id sub) gid s1
            in attempt (goddess_user_of_sub (u_id sub) (core s2)) (\<lambda>goddess_user_id.
               Inr (s2\<lparr>core := notify_opt goddess_user_id NT_sub_panic (Some (u_id sub)) None (core s2)\<rparr>,
                    \<lparr>po_paused_rituals = paused, po_released = released, po_cancelled_tasks = cancelled\<rparr>)))"

end
