(* ===== verification/System.thy ===== *)
theory System
  imports Passes Dashboard Profiles
begin

text \<open>
  The requests of the money system as one step relation over the database, one rule for each
  handler and each pass of the daily job that writes contracts, ledger events, adjustments,
  payments or allocations, and what holds of every state they reach. A rule names the draws of
  the handler and asks of them what the program gets from its environment: a new id is not in
  use, and the clock does not run behind the events on record.

  A run of the program interleaves these requests with whatever else happens to the database:
  the handlers of the other components, and the administration, whose editor
  (\<^verbatim>\<open>routers/admin.py\<close>) creates, changes and deletes rows of the money tables as well,
  without any rule of the money system. Each property says which tables it needs to be left alone
  by the editor.
\<close>

section \<open>Requests\<close>

inductive request :: "db \<Rightarrow> db \<Rightarrow> bool" where
  propose_goddess: "propose_as_goddess z now cid vid slug u sid p s = Inr (s', v) \<Longrightarrow>
     contract_at cid s = None \<Longrightarrow> request s s'"
| propose_sub: "propose_as_sub z now cid vid slug u p s = Inr (s', v) \<Longrightarrow>
     contract_at cid s = None \<Longrightarrow> request s s'"
| counter: "counter_propose z now vid u cid p s = Inr (s', v) \<Longrightarrow> request s s'"
| accept: "accept_counter z now u cid s = Inr (s', v) \<Longrightarrow> request s s'"
| refuse: "reject_counter z now u cid s = Inr (s', v) \<Longrightarrow> request s s'"
| sign: "sign_as_sub z now u cid sig s = Inr (s', v) \<Longrightarrow> request s s'"
| close: "close_as_goddess z now u cid s = Inr (s', v) \<Longrightarrow> request s s'"
| clauses: "update_clauses z now fresh u cid cl s = Inr (s', v) \<Longrightarrow> request s s'"
| surprise: "surprise_penalty z now eid u cid a r s = Inr (s', v) \<Longrightarrow>
     later_stamp eid now s \<Longrightarrow> request s s'"
| surprise_slug: "surprise_penalty_by_slug z now eid jid u slug a why conf s = Inr (s', v) \<Longrightarrow>
     later_stamp eid now s \<Longrightarrow> request s s'"
| adjust: "create_adjustment now jid eid u cid a r s = Inr (s', j) \<Longrightarrow>
     later_stamp eid now s \<Longrightarrow> request s s'"
| adjust_accept: "accept_adjustment now eid u jid s = Inr (s', j) \<Longrightarrow>
     later_stamp eid now s \<Longrightarrow> request s s'"
| adjust_refuse: "refuse_adjustment now u jid s = Inr (s', j) \<Longrightarrow> request s s'"
| declare_payment: "declare_as_sub did now key u p s = Inr (s', out) \<Longrightarrow>
     declaration_at did s = None \<Longrightarrow> request s s'"
| record_payment: "record_as_goddess did eid now u rp s = Inr (s', out) \<Longrightarrow>
     declaration_at did s = None \<Longrightarrow> later_stamp eid now s \<Longrightarrow> request s s'"
| edit_payment: "edit_pending_as_sub u did ep s = Inr (s', out) \<Longrightarrow> request s s'"
| cancel_payment: "cancel_pending_as_sub now u did s = Inr s' \<Longrightarrow> request s s'"
| validate_payment: "validate eid now u did cat s = Inr (s', out) \<Longrightarrow>
     later_stamp eid now s \<Longrightarrow> request s s'"
| reject_payment: "reject now u did why s = Inr (s', out) \<Longrightarrow> request s s'"
| set_rolling: "rolling_upsert_for_sub z rid now u sid q s = Inr (s', rout) \<Longrightarrow> request s s'"
| clear_rolling: "rolling_clear_for_sub rid now u sid s = Inr s' \<Longrightarrow> request s s'"
| breach_sub: "breach bid now u sid r s = Inr (s', b) \<Longrightarrow> request s s'"
| forgive_sub: "forgive now u bid fee s = Inr (s', b) \<Longrightarrow> request s s'"
| fee_payment: "accept_fee did now rid u mid st = Inr (st', r) \<Longrightarrow> declaration_at did (core st) = None \<Longrightarrow>
     core st = s \<Longrightarrow> core st' = s' \<Longrightarrow> request s s'"
| bulk_penalty: "bulk_apply z now d u cids s = Inr (s', b) \<Longrightarrow>
     list_all (\<lambda>k. stamped_after k (pd_event_id (d k)) (pd_event_at (d k)) s) cids \<Longrightarrow> request s s'"
| daily: "run_daily z aer d clock rid dry by_user s = (s', errs) \<Longrightarrow> draws_later d s \<Longrightarrow>
     distinct (map u_id (t_users s)) \<Longrightarrow> request s s'"
| remind: "run_review_reminders z now s = Inr (s', n) \<Longrightarrow> request s s'"
| renew: "run_auto_extend_renewals am d now s = Inr (s', n) \<Longrightarrow> clone_ids_fresh d s \<Longrightarrow>
     inj (\<lambda>i. cl_id (d i)) \<Longrightarrow> request s s'"

inductive_cases requestE: "request s s'"

section \<open>Every request is a run of the contract machine\<close>

lemma declare_frame:
  assumes "declare_as_sub did now key u p s = Inr (s', out)"
  shows "t_contracts s' = t_contracts s" "t_events s' = t_events s" "t_adjustments s' = t_adjustments s"
  using assms by (auto simp: declare_as_sub_def res_simps Let_def)

lemma edit_frame:
  assumes "edit_pending_as_sub u did p s = Inr (s', out)"
  shows "t_contracts s' = t_contracts s" "t_events s' = t_events s" "t_adjustments s' = t_adjustments s"
  using assms by (auto simp: edit_pending_as_sub_def res_simps Let_def save_declaration_def)

lemma cancel_frame:
  assumes "cancel_pending_as_sub now u did s = Inr s'"
  shows "t_contracts s' = t_contracts s" "t_events s' = t_events s" "t_adjustments s' = t_adjustments s"
  using assms by (auto simp: cancel_pending_as_sub_def res_simps save_declaration_def)

lemma reject_frame:
  assumes "reject now u did why s = Inr (s', out)"
  shows "t_contracts s' = t_contracts s" "t_events s' = t_events s" "t_adjustments s' = t_adjustments s"
  using assms by (auto simp: reject_def res_simps Let_def save_declaration_def)

lemma upsert_rolling_frame:
  assumes "upsert_rolling rid now sid gid p s = Inr (s', r)"
  shows "t_contracts s' = t_contracts s" "t_events s' = t_events s" "t_adjustments s' = t_adjustments s"
    "t_declarations s' = t_declarations s" "t_allocations s' = t_allocations s"
  using assms by (auto simp: upsert_rolling_def res_simps Let_def split: option.splits)

lemma rolling_upsert_frame:
  assumes "rolling_upsert_for_sub z rid now u sid q s = Inr (s', rout)"
  shows "t_contracts s' = t_contracts s" "t_events s' = t_events s" "t_adjustments s' = t_adjustments s"
    "t_declarations s' = t_declarations s" "t_allocations s' = t_allocations s"
  using assms upsert_rolling_frame by (auto simp: rolling_upsert_for_sub_def res_simps split: prod.splits)

lemma rolling_clear_frame:
  assumes "rolling_clear_for_sub rid now u sid s = Inr s'"
  shows "t_contracts s' = t_contracts s" "t_events s' = t_events s" "t_adjustments s' = t_adjustments s"
    "t_declarations s' = t_declarations s" "t_allocations s' = t_allocations s"
  using assms upsert_rolling_frame by (auto simp: rolling_clear_for_sub_def res_simps split: prod.splits)

lemma forgive_frame:
  assumes "forgive now u bid fee s = Inr (s', b)"
  shows "t_contracts s' = t_contracts s" "t_events s' = t_events s" "t_adjustments s' = t_adjustments s"
    "t_declarations s' = t_declarations s" "t_allocations s' = t_allocations s"
  using assms by (auto simp: forgive_def res_simps Let_def)

lemma accept_fee_frame:
  assumes "accept_fee did now rid u mid st = Inr (st', r)"
  obtains d where "d_id d = did" "d_status d = PS_pending" "t_declarations (core st') = insert_row d (t_declarations (core st))"
    "t_allocations (core st') = t_allocations (core st)" "t_contracts (core st') = t_contracts (core st)"
    "t_events (core st') = t_events (core st)" "t_adjustments (core st') = t_adjustments (core st)"
proof -
  obtain gid fee c where "create_declaration (fee_declaration did now u gid mid fee) (core st) = Inr c" "core st' = c"
    using assms by (auto simp: accept_fee_def res_simps Let_def save_change_request_def simp del: create_declaration_Inr)
  then show ?thesis
    by (intro that [of "stored_declaration (fee_declaration did now u gid mid fee)"])
      (auto simp: create_declaration_Inr stored_declaration_def fee_declaration_def)
qed

lemma remind_each_frame:
  assumes "remind_each cs n s = Inr (s', k)"
  shows "t_contracts s' = t_contracts s \<and> t_events s' = t_events s \<and> t_adjustments s' = t_adjustments s \<and>
    t_declarations s' = t_declarations s \<and> t_allocations s' = t_allocations s"
  using assms
  by (induction cs n s rule: remind_each.induct) (auto simp: res_simps split: if_splits option.splits)

lemma request_run:
  assumes "request s s'" "contract_inv s"
  shows "contract_run s s'"
  using assms(1)
proof cases
  case propose_goddess then show ?thesis by (rule propose_as_goddess_run)
next
  case propose_sub then show ?thesis by (rule propose_as_sub_run)
next
  case counter then show ?thesis by (rule counter_propose_run)
next
  case accept then show ?thesis by (rule accept_counter_run)
next
  case refuse then show ?thesis by (rule reject_counter_run)
next
  case sign then show ?thesis by (rule sign_as_sub_run)
next
  case close then show ?thesis by (rule close_as_goddess_run)
next
  case clauses then show ?thesis by (rule update_clauses_run)
next
  case surprise then show ?thesis by (rule surprise_penalty_run)
next
  case surprise_slug then show ?thesis using assms(2) by (intro surprise_penalty_by_slug_run)
next
  case adjust then show ?thesis by (rule create_adjustment_run)
next
  case adjust_accept then show ?thesis using assms(2) by (intro accept_adjustment_run)
next
  case adjust_refuse then show ?thesis by (rule refuse_adjustment_run)
next
  case declare_payment then show ?thesis by (intro quiet_run declare_frame)
next
  case record_payment then show ?thesis by (intro record_as_goddess_run)
next
  case edit_payment then show ?thesis by (intro quiet_run edit_frame)
next
  case cancel_payment then show ?thesis by (intro quiet_run cancel_frame)
next
  case validate_payment then show ?thesis by (intro validate_run)
next
  case reject_payment then show ?thesis by (intro quiet_run reject_frame)
next
  case set_rolling then show ?thesis by (intro quiet_run rolling_upsert_frame)
next
  case clear_rolling then show ?thesis by (intro quiet_run rolling_clear_frame)
next
  case breach_sub then show ?thesis using assms(2) by (intro breach_run)
next
  case forgive_sub then show ?thesis by (intro quiet_run forgive_frame)
next
  case (fee_payment did now rid u mid st st' r)
  from fee_payment(1) show ?thesis by (rule accept_fee_frame) (use fee_payment(3,4) in \<open>simp add: quiet_run\<close>)
next
  case bulk_penalty then show ?thesis by (rule bulk_apply_run)
next
  case daily then show ?thesis using assms(2) by (rule run_daily_run)
next
  case remind then show ?thesis
    unfolding run_review_reminders_def by (intro quiet_run) (auto dest: remind_each_frame)
next
  case renew then show ?thesis using assms(2) by (rule renewals_run)
qed

section \<open>Every request is a step of the payment machine\<close>

lemma breach_contracts_payments [simp]:
  "t_declarations (breach_contracts now a r cs s) = t_declarations s"
  "t_allocations (breach_contracts now a r cs s) = t_allocations s"
  by (induction cs arbitrary: s) (simp_all add: breach_contracts_def breach_contract_def append_audit_def save_contract_def)

lemma request_payment_step:
  assumes "request s s'"
  shows "payment_step s s'"
  using assms
proof cases
  case propose_goddess then show ?thesis
    by (intro payment_step.quiet) (auto simp: propose_as_goddess_def res_simps Let_def save_contract_def append_audit_def)
next
  case propose_sub then show ?thesis
    by (intro payment_step.quiet) (auto simp: propose_as_sub_def res_simps Let_def save_contract_def append_audit_def)
next
  case counter then show ?thesis
    by (intro payment_step.quiet) (auto simp: counter_propose_def res_simps Let_def save_contract_def append_audit_def)
next
  case accept then show ?thesis
    by (intro payment_step.quiet) (auto simp: accept_counter_def res_simps Let_def save_contract_def append_audit_def)
next
  case refuse then show ?thesis
    by (intro payment_step.quiet) (auto simp: reject_counter_def res_simps Let_def save_contract_def append_audit_def)
next
  case sign then show ?thesis
    by (intro payment_step.quiet) (auto simp: sign_as_sub_def res_simps Let_def save_contract_def append_audit_def)
next
  case close then show ?thesis
    by (intro payment_step.quiet) (auto simp: close_as_goddess_def res_simps Let_def save_contract_def append_audit_def)
next
  case clauses then show ?thesis
    by (intro payment_step.quiet) (auto simp: update_clauses_def res_simps Let_def save_contract_def append_audit_def)
next
  case surprise then show ?thesis
    by (intro payment_step.quiet) (auto simp: surprise_penalty_def res_simps Let_def save_contract_def)
next
  case surprise_slug then show ?thesis
    by (intro payment_step.quiet)
      (auto simp: surprise_penalty_by_slug_def res_simps Let_def save_contract_def append_audit_def)
next
  case adjust then show ?thesis
    by (intro payment_step.quiet) (auto simp: create_adjustment_def res_simps Let_def split: if_splits)
next
  case adjust_accept then show ?thesis
    by (intro payment_step.quiet)
      (auto simp: accept_adjustment_def res_simps Let_def save_adjustment_def split: prod.splits)
next
  case adjust_refuse then show ?thesis
    by (intro payment_step.quiet)
      (auto simp: refuse_adjustment_def res_simps Let_def save_adjustment_def split: prod.splits)
next
  case declare_payment then show ?thesis by (rule declare_step)
next
  case record_payment then show ?thesis by (intro record_step)
next
  case edit_payment then show ?thesis by (rule edit_step)
next
  case cancel_payment then show ?thesis by (rule cancel_step)
next
  case validate_payment then show ?thesis by (intro validate_step)
next
  case reject_payment then show ?thesis by (rule reject_step)
next
  case set_rolling then show ?thesis by (intro payment_step.quiet rolling_upsert_frame)
next
  case clear_rolling then show ?thesis by (intro payment_step.quiet rolling_clear_frame)
next
  case breach_sub then show ?thesis
    by (intro payment_step.quiet) (auto simp: breach_def res_simps Let_def revoke_all_refresh_for_user_def)
next
  case forgive_sub then show ?thesis by (intro payment_step.quiet forgive_frame)
next
  case (fee_payment did now rid u mid st st' r)
  from fee_payment(1) show ?thesis
    by (rule accept_fee_frame) (use fee_payment(2-4) in \<open>auto intro: payment_step.declared\<close>)
next
  case bulk_penalty then show ?thesis by (intro payment_step.quiet bulk_apply_run)
next
  case daily then show ?thesis by (intro payment_step.quiet run_daily_payments)
next
  case remind then show ?thesis
    unfolding run_review_reminders_def by (intro payment_step.quiet) (auto dest: remind_each_frame)
next
  case renew then show ?thesis
    unfolding run_auto_extend_renewals_def by (intro payment_step.quiet) (auto dest: renew_each_payments)
qed

section \<open>Reachable states\<close>

definition fresh_books :: "db \<Rightarrow> bool" where
  "fresh_books s \<longleftrightarrow> t_contracts s = [] \<and> t_events s = [] \<and> t_adjustments s = [] \<and>
     t_declarations s = [] \<and> t_allocations s = []"

lemma fresh_books_inv: "fresh_books s \<Longrightarrow> contract_inv s \<and> allocations_match s"
  by (simp add: fresh_books_def contract_inv_def contract_at_def period_unique_def allocations_match_empty)

text \<open>
  What the rest of the program does to the money tables: nothing, but for the editor of the
  administration. \<open>es\<close> are the entities whose rows it creates, changes or deletes, by the names of
  its registry; a deleted contract takes its events and adjustments with it, a deleted payment
  its allocation (\<open>admin_edits_spare\<close> of the theory Administration reads this off the editor).
  The demonstration data of \<^verbatim>\<open>seeds/profiles\<close>, contracts and events among them, are written
  by a script before the program serves requests; they are no step of a run, and books that start
  from them are not fresh.
\<close>

definition spares :: "string set \<Rightarrow> db \<Rightarrow> db \<Rightarrow> bool" where
  "spares es s s' \<longleftrightarrow>
     (''debt_contracts'' \<notin> es \<longrightarrow> t_contracts s' = t_contracts s) \<and>
     (''debt_contracts'' \<notin> es \<and> ''debt_events'' \<notin> es \<longrightarrow> t_events s' = t_events s) \<and>
     (''debt_contracts'' \<notin> es \<and> ''contract_adjustments'' \<notin> es \<longrightarrow> t_adjustments s' = t_adjustments s) \<and>
     (''payment_declarations'' \<notin> es \<longrightarrow>
        t_declarations s' = t_declarations s \<and> t_allocations s' = t_allocations s)"

inductive program_step :: "string set \<Rightarrow> db \<Rightarrow> db \<Rightarrow> bool" for es :: "string set" where
  handled: "request s s' \<Longrightarrow> program_step es s s'"
| edited: "spares es s s' \<Longrightarrow> program_step es s s'"

abbreviation program_run :: "string set \<Rightarrow> db \<Rightarrow> db \<Rightarrow> bool" where
  "program_run es \<equiv> (program_step es)\<^sup>*\<^sup>*"

text \<open>The contracts with their ledgers and adjustments, and the payments.\<close>

definition ledger_entities :: "string set" where
  "ledger_entities = {''debt_contracts'', ''debt_events'', ''contract_adjustments''}"

lemma program_step_run:
  assumes "program_step es s s'" "es \<inter> ledger_entities = {}" "contract_inv s"
  shows "contract_run s s'"
  using assms(1)
proof cases
  case handled
  then show ?thesis using assms(3) by (rule request_run)
next
  case edited
  then show ?thesis using assms(2) by (intro quiet_run) (auto simp: spares_def ledger_entities_def)
qed

lemma program_runs:
  assumes "program_run es s s'" "es \<inter> ledger_entities = {}" "contract_inv s"
  shows "contract_run s s' \<and> contract_inv s'"
  using assms(1)
proof (induction rule: rtranclp_induct)
  case base
  then show ?case using assms(3) by simp
next
  case (step t u)
  then have "contract_run t u" using assms(2) by (intro program_step_run) auto
  with step.IH show ?case by (meson rtranclp_trans run_keeps_inv)
qed

lemma program_payment_step:
  assumes "program_step es s s'" "''payment_declarations'' \<notin> es"
  shows "payment_step s s'"
  using assms by cases (auto simp: spares_def intro: request_payment_step payment_step.quiet)

lemma program_payment_steps:
  assumes "program_run es s s'" "''payment_declarations'' \<notin> es"
  shows "payment_step\<^sup>*\<^sup>* s s'"
  using assms(1)
  by (induction rule: rtranclp_induct)
    (auto intro: program_payment_step [OF _ assms(2)] rtranclp.rtrancl_into_rtrancl)

lemma payment_steps_keep_match:
  assumes "payment_step\<^sup>*\<^sup>* s s'" "allocations_match s"
  shows "allocations_match s'"
  using assms by (induction rule: rtranclp_induct) (auto intro: payment_step_keeps_match)

lemma reachable:
  assumes "fresh_books s0" "program_run es s0 s"
  shows "es \<inter> ledger_entities = {} \<Longrightarrow> contract_inv s"
    "''payment_declarations'' \<notin> es \<Longrightarrow> allocations_match s"
  using fresh_books_inv [OF assms(1)] program_runs [OF assms(2)]
    payment_steps_keep_match [OF program_payment_steps [OF assms(2)]] by auto

lemma requests_program_run: "request\<^sup>*\<^sup>* s s' \<Longrightarrow> program_run es s s'"
  by (induction rule: rtranclp_induct) (auto intro: program_step.handled rtranclp.rtrancl_into_rtrancl)

text \<open>A sample run: the contract of the sample world is proposed and signed.\<close>

lemma sample_fresh [simp]: "fresh_books world"
  by (simp add: fresh_books_def)

lemma sample_run_proposed: "request world proposed"
  using propose_sample by (auto intro: request.propose_goddess simp: contract_at_def)

lemma sample_run: "request\<^sup>*\<^sup>* world signed"
proof -
  have "request proposed signed" using sign_sample by (auto intro: request.sign)
  then show ?thesis using sample_run_proposed by auto
qed

lemma contract_at_samples [simp]:
  "contract_at 100 signed = Some signed_row" "contract_at 100 proposed = Some proposed_row"
  "contract_at 100 paid = Some (signed_row\<lparr>c_balance := 900\<rparr>)"
  by (simp_all add: contract_at_def)

lemma sample_run_paid: "request\<^sup>*\<^sup>* signed paid" "request\<^sup>*\<^sup>* world paid"
proof -
  obtain out where "record_as_goddess 300 400 9 dom_user sample_payment signed = Inr (paid, out)"
    using pay_sample by blast
  then have "request signed paid"
    by (rule request.record_payment) (simp_all add: declaration_at_def later_stamp_def)
  then show "request\<^sup>*\<^sup>* signed paid" "request\<^sup>*\<^sup>* world paid"
    using sample_run by (auto intro: rtranclp.rtrancl_into_rtrancl)
qed

lemma ledger_sample: "ledger_of 100 (t_events paid) = [paid_event]"
  by (simp add: ledger_of_def)

section \<open>Properties\<close>

text \<open>
  C2: Refinement: from a state that satisfies the contract invariant, every accepted request of
  the money system is a run of the contract machine and one step of the payment machine. The
  requests are the negotiation (propose, counter, accept, refuse, sign, close, clauses), the
  additions (surprise penalties, adjustments), the payments (declare, record, edit, cancel,
  validate, reject, the fee of a profile change), the rolling tributes, breach and forgiveness, the bulk late
  penalty, and the whole daily job (the daily run with its savepoint, reminders and renewals).
  The editor of the administration is not among them.
\<close>

theorem request_refines:
  assumes "contract_inv s" "request s s'"
  shows "contract_run s s' \<and> payment_step s s'"
  using request_run [OF assms(2,1)] request_payment_step [OF assms(2)] by blast

lemma request_refines_witness: "contract_run world proposed \<and> payment_step world proposed"
  using request_refines [OF _ sample_run_proposed] fresh_books_inv [OF sample_fresh] by blast

text \<open>
  C1: From fresh books on, whatever requests come and whatever else changes in the database but
  for edits of contracts, ledger events and adjustments by an admin, the balance of every contract is what its
  ledger says: the principal while the ledger is empty, else, with two places, the replay of all its events from
  the principal in which the last one counts with the amount it was posted with. The column keeps
  four places of that amount; when it has no more (as the amounts that bodies and columns allow,
  but not every rate of an interest), the balance is the replay of the stored ledger itself.
\<close>

theorem balance_is_ledger:
  assumes "fresh_books s0" "program_run es s0 s" "es \<inter> ledger_entities = {}" "contract_at cid s = Some c"
  shows "(ledger_of cid (t_events s) = [] \<and> c_balance c = principal c) \<or>
    (\<exists>pre ev. ledger_of cid (t_events s) = pre @ [stored_event ev] \<and>
       c_balance c = replay_events (principal c) (pre @ [ev]) \<and> places 2 (c_balance c) \<and>
       (places 4 (e_amount ev) \<longrightarrow> c_balance c = replay_events (principal c) (ledger_of cid (t_events s))))"
proof -
  have "balance_agrees c (t_events s)" "c_id c = cid"
    using reachable(1) [OF assms(1-3)] assms(4) contract_at_id
    by (auto simp: contract_inv_def contract_ok_def)
  moreover have "places 2 (replay_events b (pre @ [ev]))" for b pre ev
    by (simp add: replay_simps replay_step_def split: ledger_op.splits)
  ultimately show ?thesis unfolding balance_agrees_def by (metis stored_event_exact)
qed

lemma balance_is_ledger_witness:
  "\<exists>pre ev. ledger_of 100 (t_events paid) = pre @ [stored_event ev] \<and> replay_events 1000 (pre @ [ev]) = 900"
  using balance_is_ledger [OF sample_fresh requests_program_run [OF sample_run_paid(2)] _ contract_at_samples(3), of "{}"]
  by (auto simp: ledger_sample)

text \<open>
  The rounding of the last event is visible: an interest of 0.2306 percent on 1000 is posted as
  1002.31, its stored row says 1002.30, and the next posting starts from the stored row.
\<close>

definition fine_interest :: debt_event where
  "fine_interest = new_event 404 8 100 ET_period_interest (2306 / 1000000) (Some 1) None"

definition next_interest :: debt_event where
  "next_interest = new_event 405 9 100 ET_period_interest 0 (Some 2) None"

lemma last_event_counts_unrounded:
  "replay_events 1000 [fine_interest] = 100231 / 100"
  "replay_events 1000 [stored_event fine_interest] = 100230 / 100"
  "replay_events 1000 [stored_event fine_interest, next_interest] = 100230 / 100"
  unfolding fine_interest_def next_interest_def by code_simp+

text \<open>
  C3: A contract that is closed, breached or cancelled stays so, whatever requests follow and
  whatever else changes in the database, but for edits of contracts, ledger events and adjustments by an admin. (An
  admin may set any status of a contract.)
\<close>

theorem terminal_status_kept:
  assumes "contract_inv s" "program_run es s s'" "es \<inter> ledger_entities = {}" "status_at s cid = Some st"
    and "st \<in> set terminal_statuses"
  shows "status_at s' cid = Some st"
proof (rule contract_life.terminal_kept)
  show "contract_run s s'" using program_runs [OF assms(2,3,1)] by blast
  show "\<not> contract_edge st y" for y
    using assms(5) by (auto simp: terminal_statuses_def pending_statuses_def)
qed (fact assms(4))

text \<open>The sample contract cancelled, and a second proposal after that.\<close>

definition cancelled :: db where
  "cancelled = fst (projr (close_as_goddess gmt 6 dom_user 100 proposed))"

lemma cancel_sample: "\<exists>v. close_as_goddess gmt 6 dom_user 100 proposed = Inr (cancelled, v)"
  by (simp add: cancelled_def close_as_goddess_def owned_contract_def contract_or_404_def Let_def pending_statuses_def)

lemma cancelled_tables [simp]:
  "t_contracts cancelled = [proposed_row\<lparr>c_status := CS_cancelled_by_dom, c_updated_at := 6\<rparr>]"
  "t_versions cancelled = [new_version 200 0 100 0 11 sample_terms]" "has_world cancelled"
  by (simp_all add: cancelled_def close_as_goddess_def owned_contract_def contract_or_404_def Let_def pending_statuses_def)
    (simp_all add: save_contract_def append_audit_def)

lemma sample_run_cancelled: "request\<^sup>*\<^sup>* world cancelled"
  using cancel_sample sample_run_proposed
  by (meson converse_rtranclp_into_rtranclp request.close r_into_rtranclp)

lemma second_proposal: "\<exists>s'. request cancelled s' \<and> length (t_contracts s') = 2"
proof -
  have slug: "c_slug (proposed_row\<lparr>c_status := CS_cancelled_by_dom, c_updated_at := 6\<rparr>) = ''k''"
    by (simp add: proposed_row_def)
  have "\<exists>s' v. propose_as_goddess gmt 7 101 201 ''k2'' dom_user 12 sample_terms cancelled = Inr (s', v) \<and>
      length (t_contracts s') = 2"
    by (simp add: propose_as_goddess_def create_contract_def create_version_def Let_def slug save_contract_def
        append_audit_def insert_row_def)
  then show ?thesis by (auto intro!: request.propose_goddess simp: contract_at_def)
qed

lemma terminal_status_kept_witness:
  "\<exists>s'. request cancelled s' \<and> length (t_contracts s') = 2 \<and> status_at s' 100 = Some CS_cancelled_by_dom"
proof -
  obtain s' where s': "request cancelled s'" "length (t_contracts s') = 2" using second_proposal by blast
  have "contract_inv cancelled"
    using reachable(1) [OF sample_fresh requests_program_run [OF sample_run_cancelled], of "{}"] by simp
  moreover have "status_at cancelled 100 = Some CS_cancelled_by_dom"
    by (simp add: status_at_def contract_at_def)
  ultimately show ?thesis
    using terminal_status_kept [of cancelled "{''users'', ''notifications''}" s' 100 CS_cancelled_by_dom] s'
      r_into_rtranclp [of "program_step {''users'', ''notifications''}", OF program_step.handled [OF s'(1)]]
    by (auto simp: terminal_statuses_def ledger_entities_def)
qed

text \<open>
  C4: From fresh books on, whatever requests come and whatever else changes in the database but
  for edits of contracts, ledger events and adjustments by an admin: an active contract carries the
  instant of its signature; while a contract is being negotiated (proposed, or answered by a counter proposal) its
  ledger is empty and its balance is its principal; and every ledger event and every adjustment
  belongs to a contract on record whose negotiation is over.
\<close>

theorem ledger_after_negotiation:
  assumes "fresh_books s0" "program_run es s0 s" "es \<inter> ledger_entities = {}"
  shows "(contract_at cid s = Some c \<longrightarrow>
      (c_status c = CS_active \<longrightarrow> c_signed_at c \<noteq> None) \<and>
      (negotiating c \<longrightarrow> ledger_of cid (t_events s) = [] \<and> c_balance c = principal c)) \<and>
    (ev \<in> set (t_events s) \<longrightarrow> engaged (e_contract_id ev) s) \<and>
    (j \<in> set (t_adjustments s) \<longrightarrow> engaged (j_contract_id j) s)"
proof -
  have inv: "contract_inv s" by (rule reachable(1) [OF assms])
  have at: "contract_ok (t_events s) c" "c_id c = k" if "contract_at k s = Some c" for k c
    using inv that contract_at_id by (auto simp: contract_inv_def)
  have "engaged (e_contract_id ev) s" if "ev \<in> set (t_events s)"
  proof -
    have "contract_at (e_contract_id ev) s \<noteq> None" using inv that unfolding contract_inv_def by blast
    then obtain c where c: "contract_at (e_contract_id ev) s = Some c" by blast
    have "ev \<in> set (ledger_of (e_contract_id ev) (t_events s))" using that by (simp add: ledger_of_def)
    then have "\<not> negotiating c" using at [OF c] by (auto simp: contract_ok_def)
    then show ?thesis by (simp add: engaged_def c)
  qed
  moreover have "engaged (j_contract_id j) s" if "j \<in> set (t_adjustments s)"
    using inv that by (simp add: contract_inv_def)
  ultimately show ?thesis
    using at [of cid c] by (auto simp: contract_ok_def balance_agrees_def)
qed

lemma ledger_after_negotiation_witness:
  "c_signed_at signed_row \<noteq> None \<and> engaged 100 paid \<and> t_events paid \<noteq> [] \<and>
   ledger_of 100 (t_events proposed) = [] \<and> c_balance proposed_row = principal proposed_row"
proof -
  have proposed: "program_run {} world proposed" using sample_run_proposed by (blast intro: program_step.handled)
  have "negotiating proposed_row" by (simp add: negotiating_def)
  then show ?thesis
    using ledger_after_negotiation [OF sample_fresh requests_program_run [OF sample_run], of "{}" 100 signed_row]
      ledger_after_negotiation [OF sample_fresh requests_program_run [OF sample_run_paid(2)], of "{}" _ _ paid_event]
      ledger_after_negotiation [OF sample_fresh proposed, of 100 proposed_row]
    by (auto simp: ledger_entities_def paid_event_def)
qed

text \<open>
  C5: A payment that was validated, rejected or cancelled keeps that status for ever, and
  from fresh books on an allocation exists just for the validated payments of a category that has a target (all but
  wishlist gifts and fees of profile changes), once each, with their amount and target. This holds whatever requests
  come and whatever else changes in the database, but for edits of payments by an admin.
\<close>

theorem declarations_final_and_allocated:
  assumes "fresh_books s0" "program_run es s0 s" "''payment_declarations'' \<notin> es"
  shows "(declaration_status s k = Some st \<longrightarrow> st \<noteq> PS_pending \<longrightarrow> program_run es s s' \<longrightarrow>
      declaration_status s' k = Some st) \<and>
    (declaration_at k s = Some d \<longrightarrow>
      (d_status d = PS_validated \<and> d_category d \<notin> {PC_wishlist, PC_profile_change_fee} \<longleftrightarrow>
       (\<exists>l \<in> set (t_allocations s). allocation_of d l))) \<and>
    distinct (map l_declaration_id (t_allocations s))"
proof (intro conjI impI)
  show "declaration_status s' k = Some st"
    if "declaration_status s k = Some st" "st \<noteq> PS_pending" "program_run es s s'"
    by (rule declaration_life.terminal_kept [OF _ program_payment_steps [OF that(3) assms(3)] that(1)])
      (use that(2) in \<open>cases st; simp\<close>)
  have m: "allocations_match s" by (rule reachable(2) [OF assms])
  then show "distinct (map l_declaration_id (t_allocations s))" by (simp add: allocations_match_def)
  have target: "category_to_allocation_target (d_category d) \<noteq> None \<longleftrightarrow>
      d_category d \<notin> {PC_wishlist, PC_profile_change_fee}"
    by (cases "d_category d") (simp_all add: category_to_allocation_target_def)
  assume d: "declaration_at k s = Some d"
  show "d_status d = PS_validated \<and> d_category d \<notin> {PC_wishlist, PC_profile_change_fee} \<longleftrightarrow>
      (\<exists>l \<in> set (t_allocations s). allocation_of d l)" (is "?l = ?r")
    unfolding target [symmetric]
  proof
    assume "d_status d = PS_validated \<and> category_to_allocation_target (d_category d) \<noteq> None"
    with m d show ?r unfolding allocations_match_def by blast
  next
    assume ?r
    then obtain l where l: "l \<in> set (t_allocations s)" "allocation_of d l" by blast
    with m obtain e where "declaration_at (l_declaration_id l) s = Some e" "d_status e = PS_validated"
      unfolding allocations_match_def by blast
    with d l(2) declaration_at_id [OF d]
    show "d_status d = PS_validated \<and> category_to_allocation_target (d_category d) \<noteq> None"
      by (simp add: allocation_of_def)
  qed
qed

lemma declarations_final_and_allocated_witness:
  "\<exists>l \<in> set (t_allocations paid). l_amount l = 100 \<and> l_target_id l = Some 100"
proof -
  let ?d = "stored_declaration (recorded_row 300 9 11 12 10 sample_payment)"
  have "declaration_at 300 paid = Some ?d" by (simp add: declaration_at_def)
  with declarations_final_and_allocated [OF sample_fresh requests_program_run [OF sample_run_paid(2)], of "{}" 300 PS_validated paid ?d]
  show ?thesis
    by (auto simp: category_to_allocation_target_def allocation_of_def)
qed

text \<open>
  C6: No request files a payment under a period. Whatever requests come and whatever else changes
  in the database but for edits of contracts, ledger events and adjustments by an admin, the check of the bulk
  late penalty for a paid period and the paid periods of the dashboards stay what they were:
  paying changes neither. In particular they stay empty from books in which no payment is filed under
  a period; rows that the seeds or an admin wrote keep counting.
\<close>

theorem payments_settle_no_period:
  assumes "contract_inv s" "program_run es s s'" "es \<inter> ledger_entities = {}"
  shows "exists_for_period cid p ET_payment_applied s' = exists_for_period cid p ET_payment_applied s \<and>
    set (paid_period_indices cids s' k) = set (paid_period_indices cids s k) \<and>
    (indexed_payments s = [] \<longrightarrow> \<not> exists_for_period cid p ET_payment_applied s' \<and> paid_period_indices cids s' k = [])"
proof -
  have same: "indexed_payments s' = indexed_payments s"
    using program_runs [OF assms(2,3,1)] run_indexed_payments by blast
  have check: "exists_for_period cid p ET_payment_applied t \<longleftrightarrow>
      (\<exists>e \<in> set (indexed_payments t). e_contract_id e = cid \<and> e_period_index e = Some p)" for t :: db
    by (auto simp: exists_for_period_def indexed_payments_def list_ex_iff)
  have paid: "set (paid_period_indices cids t k) = {i. k \<in> set cids \<and>
      (\<exists>e \<in> set (indexed_payments t). e_contract_id e = k \<and> e_period_index e = Some i)}" for t :: db
    by (force simp: paid_period_indices_def indexed_payments_def List.map_filter_def)
  have "exists_for_period cid p ET_payment_applied s' = exists_for_period cid p ET_payment_applied s"
    "set (paid_period_indices cids s' k) = set (paid_period_indices cids s k)"
    by (simp_all only: check paid same)
  moreover have "set (paid_period_indices cids s k) = {} \<and> \<not> exists_for_period cid p ET_payment_applied s"
    if "indexed_payments s = []"
    by (simp add: check paid that)
  ultimately show ?thesis by auto
qed

lemma payments_settle_no_period_witness:
  "t_events signed = [] \<and> t_events paid = [paid_event] \<and> e_type paid_event = ET_payment_applied \<and>
   \<not> exists_for_period 100 0 ET_payment_applied paid \<and> paid_period_indices [100] paid 100 = []"
proof -
  have "contract_inv signed" using reachable(1) [OF sample_fresh requests_program_run [OF sample_run], of "{}"] by simp
  moreover have "indexed_payments signed = []" by (simp add: indexed_payments_def)
  ultimately show ?thesis
    using payments_settle_no_period [OF _ requests_program_run [OF sample_run_paid(1)], of "{}"] by (fastforce simp: paid_event_def)
qed

end
