(* ===== verification/Outcomes.thy ===== *)
theory Outcomes
  imports Declarations Samples
begin

text \<open>
  What the single handlers of the negotiation and of the payments achieve, branch by branch.
\<close>

section \<open>Negotiation\<close>

text \<open>
  C7: Signing: an unknown contract, a contract of another sub and a contract that is not
  waiting for a signature are refused with their own error, in this order; otherwise the
  contract becomes active with the signature and its instant, and its terms, balance and
  clauses are untouched.
\<close>

theorem sign_outcome:
  assumes "resolve_goddess_user_id gid s = Inr g" "\<And>c. contract_at cid s = Some c \<Longrightarrow> c_goddess_id c = gid"
  shows "case contract_at cid s of
      None \<Rightarrow> sign_as_sub z now u cid sig s = Inl (NotFound ''debt contract not found'')
    | Some c \<Rightarrow>
        (if c_sub_id c \<noteq> u_id u
         then sign_as_sub z now u cid sig s = Inl (Forbidden ''contract does not belong to this sub'')
         else if c_status c \<notin> {CS_pending_sub, CS_pending_sub_signature}
         then sign_as_sub z now u cid sig s = Inl (Conflict ''contract is not in a signable state'')
         else \<exists>s' v. sign_as_sub z now u cid sig s = Inr (s', v) \<and>
           contract_at cid s' = Some (c\<lparr>c_status := CS_active, c_signed_at := Some now,
             c_signature_b64 := Some sig, c_updated_at := now\<rparr>) \<and> t_events s' = t_events s)"
proof (cases "contract_at cid s")
  case None
  then show ?thesis by (simp add: sign_as_sub_def contract_or_404_def contract_at_def)
next
  case (Some c)
  have r: "resolve_goddess_user_id (c_goddess_id c) (append_audit a (save_contract k f s)) = Inr g" for a k f
    using assms Some by (simp add: resolve_goddess_user_id_def append_audit_def save_contract_def)
  show ?thesis using Some r
    by (simp add: sign_as_sub_def contract_or_404_def contract_at_def Let_def contracts.get_upd
        save_contract_def append_audit_def)
qed

lemma sign_outcome_witness:
  "\<exists>s' v. sign_as_sub gmt 5 sub_user 100 ''sig'' proposed = Inr (s', v) \<and>
     map_option c_status (contract_at 100 s') = Some CS_active"
proof -
  have at: "contract_at 100 proposed = Some proposed_row" by (simp add: contract_at_def)
  have "resolve_goddess_user_id 10 proposed = Inr (Some 11)" by simp
  from sign_outcome [OF this, of 100 gmt 5 sub_user "''sig''"] show ?thesis by (auto simp: at)
qed

text \<open>
  One counter per contract: once a version of round 1 exists every further counter-proposal
  on it is refused, by whoever makes it, and an accepted counter-proposal leaves such a version.
\<close>

theorem counter_only_once:
  "(contract_at cid s \<noteq> None \<and> (\<exists>v \<in> set (t_versions s). v_contract_id v = cid \<and> 1 \<le> v_round_no v) \<longrightarrow>
     counter_propose z now vid u cid p s = Inl (Conflict ''negotiation limit reached - one counter per side'')) \<and>
   (counter_propose z now vid u cid p s = Inr (s', out) \<longrightarrow>
     (\<exists>v \<in> set (t_versions s'). v_contract_id v = cid \<and> 1 \<le> v_round_no v))"
proof (intro conjI impI)
  assume a: "contract_at cid s \<noteq> None \<and> (\<exists>v \<in> set (t_versions s). v_contract_id v = cid \<and> 1 \<le> v_round_no v)"
  then have "list_ex (\<lambda>v. v_round_no v \<ge> 1) (versions_for_contract cid s)"
    by (auto simp: versions_for_contract_def list_ex_iff)
  moreover obtain c where "contract_at cid s = Some c" using a by blast
  ultimately show "counter_propose z now vid u cid p s =
      Inl (Conflict ''negotiation limit reached - one counter per side'')"
    by (simp add: counter_propose_def contract_or_404_def contract_at_def)
next
  have "v_contract_id (store_terms v) = v_contract_id v" "v_round_no (store_terms v) = v_round_no v"
    for v :: contract_version
    by (simp_all add: store_terms_def)
  then show "counter_propose z now vid u cid p s = Inr (s', out) \<Longrightarrow>
     \<exists>v \<in> set (t_versions s'). v_contract_id v = cid \<and> 1 \<le> v_round_no v"
    by (auto simp: counter_propose_def res_simps Let_def save_contract_def append_audit_def insert_row_def)
qed

text \<open>The sub counters the sample proposal with a doubled principal.\<close>

definition counter_terms :: terms where
  "counter_terms = sample_terms\<lparr>principal := 2000\<rparr>"

lemma counter_terms_fit [simp]: "terms_fit counter_terms" "store_terms counter_terms = counter_terms"
  "principal counter_terms = 2000"
  by (simp_all add: counter_terms_def sample_terms_def terms_fit_def store_terms_def places_def)

definition countered_db :: db where
  "countered_db = fst (projr (counter_propose gmt 2 201 sub_user 100 counter_terms proposed))"

lemma at_proposed [simp]: "contract_at 100 proposed = Some proposed_row"
  by (simp add: contract_at_def)

lemma counter_sample: "\<exists>v. counter_propose gmt 2 201 sub_user 100 counter_terms proposed = Inr (countered_db, v)"
  by (simp add: countered_db_def counter_propose_def contract_or_404_def versions_for_contract_def counter_target_def
      create_version_def Let_def has_world_def [of "proposed\<lparr>t_versions := x\<rparr>" for x] proposed_tables(6) [unfolded has_world_def])

lemma counter_only_once_witness:
  "counter_propose gmt 3 202 dom_user 100 sample_terms countered_db =
     Inl (Conflict ''negotiation limit reached - one counter per side'')"
proof -
  obtain v where v: "counter_propose gmt 2 201 sub_user 100 counter_terms proposed = Inr (countered_db, v)"
    using counter_sample by blast
  have "status_at proposed 100 = Some (c_status proposed_row)" by (simp add: status_at_def)
  from contract_life.run_path [OF counter_propose_run [OF v] this]
  have "contract_at 100 countered_db \<noteq> None" by (auto simp: status_at_def)
  with counter_only_once [of 100 proposed gmt 2 201 sub_user counter_terms countered_db v]
    counter_only_once [of 100 countered_db gmt 3 202 dom_user sample_terms] v
  show ?thesis by blast
qed

text \<open>
  Rejecting the sub's counter restores the original proposal: when the goddess rejects it,
  the contract carries again the stored terms of the round 0 version, its balance is that
  principal, that version is current, and the sub is asked to sign. Without a counter waiting
  for her the rejection is refused.
\<close>

theorem reject_counter_restores:
  assumes "reject_counter z now u cid s = Inr (s', out)" "contract_at cid s = Some c"
  shows "c_status c = CS_pending_dom_counter \<and>
    (\<exists>v c'. v \<in> set (t_versions s) \<and> v_contract_id v = cid \<and> v_round_no v = 0 \<and>
       contract_at cid s' = Some c' \<and> terms.truncate c' = terms.truncate v \<and>
       c_balance c' = principal v \<and> c_current_version_id c' = Some (v_id v) \<and>
       c_status c' = CS_pending_sub_signature \<and> c_clauses_json c' = c_clauses_json c)"
proof -
  obtain v where v: "find (\<lambda>v. v_round_no v = 0) (versions_for_contract cid s) = Some v"
      and c: "c_status c = CS_pending_dom_counter"
      and s': "t_contracts s' = modify c_id cid (restored now v) (t_contracts s)"
    using assms by (auto simp: reject_counter_def res_simps Let_def save_contract_def append_audit_def)
  have "v \<in> set (t_versions s)" "v_contract_id v = cid" "v_round_no v = 0"
    using find_Some_iff_mem [OF v] by (auto simp: versions_for_contract_def)
  moreover have "contract_at cid s' = Some (restored now v c)"
    using status_at_update [of "restored now v" s' cid s cid] s' assms(2) by simp
  moreover have "terms.truncate (restored now v c) = terms.truncate v"
    "c_current_version_id (restored now v c) = Some (v_id v)"
    "c_clauses_json (restored now v c) = c_clauses_json c"
    by (simp_all add: restored_def apply_version_to_contract_def terms.defs)
  ultimately show ?thesis using c by auto
qed

definition countered_row :: debt_contract where
  "countered_row = store_contract (countered 2 201 CS_pending_dom_counter counter_terms proposed_row)"

lemma countered_row_simps [simp]:
  "c_id countered_row = 100" "c_status countered_row = CS_pending_dom_counter"
  "c_goddess_id countered_row = 10" "c_sub_id countered_row = 12"
  by (simp_all add: countered_row_def countered_def store_contract_def store_terms_def
      apply_payload_to_contract_def)

lemma countered_tables [simp]:
  "t_contracts countered_db = [countered_row]" "has_world countered_db"
  "t_versions countered_db = [new_version 200 0 100 0 11 sample_terms, new_version 201 2 100 1 12 counter_terms]"
  by (simp_all add: countered_db_def counter_propose_def contract_or_404_def versions_for_contract_def counter_target_def
      create_version_def Let_def has_world_def [of "proposed\<lparr>t_versions := x\<rparr>" for x]
      proposed_tables(6) [unfolded has_world_def])
    (simp_all add: insert_row_def countered_row_def save_contract_def append_audit_def)

lemma reject_sample: "\<exists>s' out. reject_counter gmt 3 dom_user 100 countered_db = Inr (s', out)"
  by (simp add: reject_counter_def owned_contract_def contract_or_404_def versions_for_contract_def Let_def)

lemma reject_counter_restores_witness:
  "\<exists>s' out. reject_counter gmt 3 dom_user 100 countered_db = Inr (s', out) \<and>
     map_option c_balance (contract_at 100 s') = Some 1000"
proof -
  have at: "contract_at 100 countered_db = Some countered_row" by (simp add: contract_at_def)
  obtain s' out where r: "reject_counter gmt 3 dom_user 100 countered_db = Inr (s', out)"
    using reject_sample by blast
  from reject_counter_restores [OF r at]
  obtain v c' where "v \<in> set (t_versions countered_db)" "v_round_no v = 0" "contract_at 100 s' = Some c'"
    "c_balance c' = principal v" by blast
  then show ?thesis using r by (auto simp: sample_terms_def)
qed

text \<open>
  Editing clauses asks for a new signature exactly when it has to: the stored clauses are
  those sent; if labels and bodies are unchanged, or the contract is not active yet, its status
  and signature stay, otherwise the contract waits for the sub's signature and the old one is
  cleared. Terminal contracts are refused, and the balance never changes.
\<close>

theorem clause_change_resigns:
  assumes "update_clauses z now fresh u cid new s = Inr (s', out)" "contract_at cid s = Some c"
    and "c_clauses_json c = map store_clause (normalize_clauses fresh0 old)"
  shows "c_status c \<notin> set terminal_statuses \<and>
    (\<exists>c'. contract_at cid s' = Some c' \<and> clauses_out (c_clauses_json c') = normalize_clauses fresh new \<and>
      c_balance c' = c_balance c \<and>
      (if map (\<lambda>x. (ci_label x, ci_body x)) new = map (\<lambda>x. (ci_label x, ci_body x)) old \<or> c_status c \<noteq> CS_active
       then c_status c' = c_status c \<and> c_signed_at c' = c_signed_at c \<and> c_signature_b64 c' = c_signature_b64 c
       else c_status c' = CS_pending_sub_signature \<and> c_signed_at c' = None \<and> c_signature_b64 c' = None))"
proof -
  let ?changed = "stored_clauses_signature (c_clauses_json c) \<noteq> normalized_clauses_signature (normalize_clauses fresh new)"
  let ?f = "with_clauses now (normalize_clauses fresh new) (?changed \<and> c_status c = CS_active)"
  have same: "?changed \<longleftrightarrow> map (\<lambda>x. (ci_label x, ci_body x)) new \<noteq> map (\<lambda>x. (ci_label x, ci_body x)) old"
    using signature_content [of 0 fresh0 old fresh new] assms(3)
    by (auto simp: signature_stored normalize_clauses_def)
  have s': "c_status c \<notin> set terminal_statuses" "t_contracts s' = modify c_id cid ?f (t_contracts s)"
    using assms(1,2) by (auto simp: update_clauses_def res_simps Let_def save_contract_def append_audit_def)
  have id: "c_id (?f r) = c_id r" for r by (simp add: with_clauses_def Let_def)
  have "contract_at cid s' = Some (?f c)"
    using status_at_update [of ?f s' cid s cid, OF id s'(2)] assms(2) by simp
  moreover have "clauses_out (c_clauses_json (?f c)) = normalize_clauses fresh new" "c_balance (?f c) = c_balance c"
    using clauses_out_stored [of fresh new] by (simp_all add: with_clauses_def Let_def)
  ultimately show ?thesis
    using s'(1) same by (auto simp: with_clauses_def Let_def)
qed

definition sample_clauses :: "clause_in list" where
  "sample_clauses = [\<lparr>ci_id = None, ci_label = ''rent'', ci_body = ''monthly''\<rparr>]"

lemma signed_row_clauses: "c_clauses_json signed_row = []"
  by (simp add: signed_row_def proposed_row_def new_contract_def terms.defs)

lemma update_clauses_sample:
  "\<exists>s' out. update_clauses gmt 8 (\<lambda>i. 600 + nat i) dom_user 100 sample_clauses signed = Inr (s', out)"
  by (simp add: update_clauses_def owned_contract_def contract_or_404_def terminal_statuses_def Let_def)

lemma clause_change_resigns_witness:
  "\<exists>s' out c'. update_clauses gmt 8 (\<lambda>i. 600 + nat i) dom_user 100 sample_clauses signed = Inr (s', out) \<and>
     contract_at 100 s' = Some c' \<and> c_status c' = CS_pending_sub_signature \<and> length (c_clauses_json c') = length sample_clauses"
proof -
  obtain s' out where r: "update_clauses gmt 8 (\<lambda>i. 600 + nat i) dom_user 100 sample_clauses signed = Inr (s', out)"
    using update_clauses_sample by blast
  have at: "contract_at 100 signed = Some signed_row" by (simp add: contract_at_def)
  have "c_clauses_json signed_row = map store_clause (normalize_clauses (\<lambda>i. 0) [])"
    by (simp add: signed_row_clauses normalize_clauses_def)
  from clause_change_resigns [OF r at this] obtain c' where c': "contract_at 100 s' = Some c'"
      "c_status c' = CS_pending_sub_signature" "clauses_out (c_clauses_json c') = normalize_clauses (\<lambda>i. 600 + nat i) sample_clauses"
    by (auto simp: sample_clauses_def)
  moreover have "c_clauses_json c' = map store_clause (normalize_clauses (\<lambda>i. 600 + nat i) sample_clauses)"
    using r c'(1) by (auto simp: update_clauses_def res_simps Let_def save_contract_def append_audit_def contract_at_def
        with_clauses_def split: if_splits)
  ultimately show ?thesis using r by (auto simp: sample_clauses_def normalize_clauses_def)
qed

section \<open>Payments\<close>

text \<open>What the stored ledger of a contract says is owed.\<close>

definition ledger_balance :: "debt_contract \<Rightarrow> db \<Rightarrow> rat" where
  "ledger_balance c s = replay_events (principal c) (ledger_of (c_id c) (t_events s))"

lemma ledger_balance_places: "places 2 (principal c) \<Longrightarrow> places 2 (ledger_balance c s)"
  unfolding ledger_balance_def by (rule ledger.replay_sound)

text \<open>A posting that the balance column took was computed within the precision of the context.\<close>

lemma quantized_small:
  assumes "\<bar>quantize_even 2 (ctx x)\<bar> < 10 ^ 10"
  shows "\<bar>x\<bar> < 10 ^ 20"
proof -
  define k :: rat where "k = of_int (round_half_even (ctx x * 10 ^ 2))"
  have "\<bar>k\<bar> < 1000000000000" using assms by (simp add: quantize_even_def k_def [simplified] abs_divide)
  moreover have "\<bar>k - ctx x * 100\<bar> \<le> 1 / 2" using round_half_even_err [of "ctx x * 10 ^ 2"] by (simp add: k_def)
  ultimately have "\<bar>ctx x\<bar> < 10000000001" by linarith
  moreover have "\<bar>x\<bar> \<le> \<bar>ctx x\<bar> + \<bar>x\<bar> * 5 / 10 ^ 28" using ctx_err [of x] by linarith
  ultimately show ?thesis by (simp add: field_simps)
qed

lemma debt_payment_effect:
  assumes "apply_debt_payment eid now d sid s = Inr s'" "d_target_id d = Some cid" "contract_at cid s = Some c"
    and "later_stamp eid now s" "places 2 (principal c)" "places 2 (d_amount d)"
  shows "c_status c = CS_active \<and> c_sub_id c = sid \<and>
    contract_at cid s' = Some (c\<lparr>c_balance := ledger_balance c s - d_amount d\<rparr>)"
proof -
  let ?ev = "new_event eid now cid ET_payment_applied (d_amount d) None (Some ''payment validation'')"
  have id: "c_id c = cid" using assms(3) contract_at_id by blast
  obtain b where c: "c_status c = CS_active" "c_sub_id c = sid" and p: "apply_event_and_recompute ?ev s = Inr (s', b)"
    using assms(1-3) id
    by (auto simp: apply_debt_payment_def load_active_contract_for_sub_def contract_at_def res_simps simp del: apply_event_eq_Inr)
  have "b = replay_events (principal c) (ledger_of cid (t_events s) @ [?ev])"
    using p assms(3) ledger_of_snoc [OF later_stamp_latest [OF assms(4)]] by (auto simp: apply_event_eq_Inr contract_at_def)
  then have b: "b = replay_step (ledger_balance c s) ?ev" by (simp add: replay_simps ledger_balance_def id)
  moreover have "\<bar>b\<bar> < 10 ^ 10" using p by (auto simp: apply_event_eq_Inr)
  ultimately have "\<bar>ledger_balance c s - d_amount d\<bar> < 10 ^ 20"
    by (intro quantized_small) (simp add: replay_step_def)
  then have "b = ledger_balance c s - d_amount d"
    using assms(5,6) ledger_balance_places b by (simp add: replay_step_payment)
  then show ?thesis
    using p c assms(3) by (auto simp: apply_event_eq_Inr contract_at_def contracts.get_upd)
qed

lemma buyout_effect:
  assumes "apply_buyout eid now d sid actor s = Inr s'" "d_target_id d = Some cid" "contract_at cid s = Some c"
    and "later_stamp eid now s"
  shows "c_status c = CS_active \<and> c_sub_id c = sid \<and>
    contract_at cid s' = Some (c\<lparr>c_balance := 0, c_status := CS_closed, c_updated_at := now\<rparr>)"
proof -
  let ?ev = "new_event eid now cid ET_buyout_paid (d_amount d) None None"
  have id: "c_id c = cid" using assms(3) contract_at_id by blast
  obtain s1 b where c: "c_status c = CS_active" "c_sub_id c = sid" and p: "apply_event_and_recompute ?ev s = Inr (s1, b)"
    and s': "t_contracts s' = modify c_id cid (\<lambda>c. c\<lparr>c_status := CS_closed, c_updated_at := now\<rparr>) (t_contracts s1)"
    using assms(1-3) id
    by (auto simp: apply_buyout_def load_active_contract_for_sub_def contract_at_def res_simps Let_def
        save_contract_def append_audit_def simp del: apply_event_eq_Inr)
  have "b = replay_events (principal c) (ledger_of cid (t_events s) @ [?ev])"
    using p assms(3) ledger_of_snoc [OF later_stamp_latest [OF assms(4)]] by (auto simp: apply_event_eq_Inr contract_at_def)
  then have "b = 0" by (simp add: replay_simps replay_step_close)
  then show ?thesis
    using p c s' assms(3) by (auto simp: apply_event_eq_Inr contract_at_def contracts.get_upd)
qed

text \<open>
  C10: A validated debt payment takes just its amount off what the ledger says is owed, and
  changes nothing else of the contract: the new balance is the replay of the stored ledger from
  the principal less the amount, and the contract stays active, also when the balance reaches or
  passes 0. The contract has to be an active contract of the paying sub. Principal and amount
  have the two places of their columns, and the event is stamped after those on record. (The balance
  shown before the payment may differ from that replay by the rounding of its last interest.)
\<close>

theorem payment_reduces_balance:
  assumes "validate eid now u did recat s = Inr (s', out)" "declaration_at did s = Some d"
    and "(case recat of Some cat \<Rightarrow> cat | None \<Rightarrow> d_category d) \<in> {PC_weekly_debt, PC_debt_payment}"
    and "d_target_id d = Some cid" "contract_at cid s = Some c" "later_stamp eid now s"
    and "places 2 (principal c)" "places 2 (d_amount d)"
  shows "c_status c = CS_active \<and> c_sub_id c = d_sub_id d \<and>
    contract_at cid s' =
      Some (c\<lparr>c_balance := replay_events (principal c) (ledger_of cid (t_events s)) - d_amount d\<rparr>)"
  using assms(1)
proof (rule validate_cases)
  fix d' cat sub s2
  assume v: "declaration_at did s = Some d'" "cat = (case recat of Some c \<Rightarrow> c | None \<Rightarrow> d_category d')"
    "user_by_id (d_sub_id d') s = Some sub"
    "settle eid now (validated_row (u_id u) now cat d') (u_id sub) (u_id u)
       (save_declaration did (validated_row (u_id u) now cat) s) = Inr s2"
    "s' = publish_event (d_sub_id d') ''validation_resolved'' (Some did)
       (notify (d_sub_id d') NT_payment_validated (Some did) None s2)"
  have d: "d' = d" "cat \<in> set debt_payment_categories" "cat \<noteq> PC_buyout" "u_id sub = d_sub_id d"
    using v(1-3) assms(2,3) fetch_SomeD [of u_id "d_sub_id d'" "t_users s" sub]
    by (auto simp: debt_payment_categories_def user_by_id_def)
  obtain s3 where "t_contracts s3 = t_contracts s" "t_events s3 = t_events s"
      "apply_debt_payment eid now (validated_row (u_id u) now cat d) (d_sub_id d) s3 = Inr s2"
    using v(4) d by (elim settle_stages) (auto simp: save_declaration_def)
  with debt_payment_effect [of eid now "validated_row (u_id u) now cat d" "d_sub_id d" s3 s2 cid c] assms(4-8) v(5)
    contract_at_id [OF assms(5)]
  show ?thesis by (simp add: contract_at_def later_stamp_def ledger_balance_def)
qed

text \<open>
  C11: A validated buyout closes the contract with balance 0, whatever amount was declared and
  whatever was owed.
\<close>

theorem buyout_closes:
  assumes "validate eid now u did recat s = Inr (s', out)" "declaration_at did s = Some d"
    and "(case recat of Some cat \<Rightarrow> cat | None \<Rightarrow> d_category d) = PC_buyout"
    and "d_target_id d = Some cid" "contract_at cid s = Some c" "later_stamp eid now s"
  shows "c_status c = CS_active \<and> c_sub_id c = d_sub_id d \<and>
    contract_at cid s' = Some (c\<lparr>c_balance := 0, c_status := CS_closed, c_updated_at := now\<rparr>)"
  using assms(1)
proof (rule validate_cases)
  fix d' cat sub s2
  assume v: "declaration_at did s = Some d'" "cat = (case recat of Some c \<Rightarrow> c | None \<Rightarrow> d_category d')"
    "user_by_id (d_sub_id d') s = Some sub"
    "settle eid now (validated_row (u_id u) now cat d') (u_id sub) (u_id u)
       (save_declaration did (validated_row (u_id u) now cat) s) = Inr s2"
    "s' = publish_event (d_sub_id d') ''validation_resolved'' (Some did)
       (notify (d_sub_id d') NT_payment_validated (Some did) None s2)"
  have d: "d' = d" "cat = PC_buyout" "u_id sub = d_sub_id d"
    using v(1-3) assms(2,3) fetch_SomeD [of u_id "d_sub_id d'" "t_users s" sub]
    by (auto simp: user_by_id_def)
  obtain s3 where "t_contracts s3 = t_contracts s" "t_events s3 = t_events s"
      "apply_buyout eid now (validated_row (u_id u) now cat d) (d_sub_id d) (u_id u) s3 = Inr s2"
    using v(4) d by (elim settle_stages) (auto simp: save_declaration_def debt_payment_categories_def)
  with buyout_effect [of eid now "validated_row (u_id u) now cat d" "d_sub_id d" "u_id u" s3 s2 cid c] assms(4-6) v(5)
  show ?thesis by (simp add: contract_at_def later_stamp_def)
qed

text \<open>
  C12: Only a sub that waits for its entry tribute and has a safeword of more than white space is
  activated by a validated entry payment, and nothing else of the user changes.
\<close>

theorem entry_promotes:
  assumes "validate eid now u did recat s = Inr (s', out)" "declaration_at did s = Some d"
    and "(case recat of Some cat \<Rightarrow> cat | None \<Rightarrow> d_category d) = PC_entry"
    and "user_by_id (d_sub_id d) s = Some sub"
  shows "u_status sub = US_pending_entry_tribute \<and>
    (\<exists>w. safeword_for_sub (d_sub_id d) s = Some w \<and> \<not> blank (sw_word w)) \<and>
    user_by_id (d_sub_id d) s' = Some (sub\<lparr>u_status := US_active\<rparr>)"
  using assms(1)
proof (rule validate_cases)
  fix d' cat sub' s2
  assume v: "declaration_at did s = Some d'" "cat = (case recat of Some c \<Rightarrow> c | None \<Rightarrow> d_category d')"
    "user_by_id (d_sub_id d') s = Some sub'" "check_category_for_sub sub' cat = Inr ()"
    "settle eid now (validated_row (u_id u) now cat d') (u_id sub') (u_id u)
       (save_declaration did (validated_row (u_id u) now cat) s) = Inr s2"
    "s' = publish_event (d_sub_id d') ''validation_resolved'' (Some did)
       (notify (d_sub_id d') NT_payment_validated (Some did) None s2)"
  have d: "d' = d" "cat = PC_entry" "sub' = sub" "u_id sub = d_sub_id d"
    using v(1-3) assms(2-4) fetch_SomeD [of u_id "d_sub_id d'" "t_users s" sub']
    by (auto simp: user_by_id_def)
  obtain s1 where s1: "emit_allocation now (validated_row (u_id u) now cat d)
        (save_declaration did (validated_row (u_id u) now cat) s) = Inr s1"
      "promote_sub (d_sub_id d) s1 = Inr s2"
    using v(5) d by (auto simp: settle_def res_simps debt_payment_categories_def)
  have "t_users s1 = t_users s" "t_safewords s1 = t_safewords s"
    using s1(1) d(2) by (auto simp: emit_allocation_def category_to_allocation_target_def create_allocation_def
        res_simps save_declaration_def)
  with s1(2) v(4,6) d assms(4) show ?thesis
    by (auto simp: promote_sub_def check_category_for_sub_def res_simps safeword_for_sub_def user_by_id_def
        set_user_status_def update_user_def users.get_upd split: option.splits)
qed

text \<open>A declaration of 100 that waits for validation.\<close>

definition waiting_row :: "payment_category \<Rightarrow> uuid option \<Rightarrow> payment_declaration" where
  "waiting_row cat target = declared_row 300 7 ''proof'' 12 10 \<lparr>di_amount = 100, di_method_id = 30,
     di_category = cat, di_external_timestamp = None, di_note = None, di_target_id = target\<rparr>"

definition waiting :: "payment_category \<Rightarrow> uuid option \<Rightarrow> db \<Rightarrow> db" where
  "waiting cat target s = s\<lparr>t_declarations := [waiting_row cat target]\<rparr>"

lemma waiting_simps [simp]:
  "t_declarations (waiting cat target s) = [waiting_row cat target]"
  "t_contracts (waiting cat target s) = t_contracts s" "t_events (waiting cat target s) = t_events s"
  "t_users (waiting cat target s) = t_users s" "t_allocations (waiting cat target s) = t_allocations s"
  "t_safewords (waiting cat target s) = t_safewords s" "has_world (waiting cat target s) = has_world s"
  "d_id (waiting_row cat target) = 300" "d_amount (waiting_row cat target) = 100"
  "d_category (waiting_row cat target) = cat" "d_target_id (waiting_row cat target) = target"
  "d_sub_id (waiting_row cat target) = 12" "d_goddess_id (waiting_row cat target) = 10"
  "d_status (waiting_row cat target) = PS_pending" "d_method_id (waiting_row cat target) = 30"
  by (simp_all add: waiting_def waiting_row_def declared_row_def has_world_def)

lemma waiting_at [simp]: "declaration_at 300 (waiting cat target s) = Some (waiting_row cat target)"
  by (simp add: declaration_at_def)

lemma validated_lookups [simp]:
  "has_world (save_declaration k f s) = has_world s" "t_allocations (save_declaration k f s) = t_allocations s"
  "t_contracts (save_declaration k f s) = t_contracts s" "t_events (save_declaration k f s) = t_events s"
  by (simp_all add: save_declaration_def has_world_def)

lemma payment_sample:
  "\<exists>s' out. validate 400 9 dom_user 300 None (waiting PC_debt_payment (Some 100) signed) = Inr (s', out)"
proof -
  let ?s = "waiting PC_debt_payment (Some 100) signed"
  let ?d = "validated_row 11 9 PC_debt_payment (waiting_row PC_debt_payment (Some 100))"
  have "\<exists>s2. settle 400 9 ?d 12 11 (save_declaration 300 (validated_row 11 9 PC_debt_payment) ?s) = Inr s2 \<and>
      length (t_allocations s2) = 1"
    using sample_posting
    by (simp add: settle_def emit_allocation_def category_to_allocation_target_def create_allocation_def insert_row_def
        debt_payment_categories_def apply_debt_payment_def load_active_contract_for_sub_def paid_event_def [symmetric])
  then obtain s2 l where s2: "settle 400 9 ?d 12 11 (save_declaration 300 (validated_row 11 9 PC_debt_payment) ?s) = Inr s2"
      "t_allocations s2 = [l]"
    by (auto simp: length_Suc_conv)
  then show ?thesis
    by (simp add: validate_def owned_declaration_def declaration_or_404_def check_category_for_sub_def Let_def
        payment_to_out_def load_allocation_def)
qed

lemma signed_ledger: "ledger_of 100 (t_events signed) = []" "later_stamp 400 9 signed"
  by (simp_all add: ledger_of_def later_stamp_def)

lemma payment_reduces_balance_witness:
  "\<exists>s' out. validate 400 9 dom_user 300 None (waiting PC_debt_payment (Some 100) signed) = Inr (s', out) \<and>
     contract_at 100 s' = Some (signed_row\<lparr>c_balance := 900\<rparr>)"
proof -
  let ?s = "waiting PC_debt_payment (Some 100) signed"
  obtain s' out where v: "validate 400 9 dom_user 300 None ?s = Inr (s', out)"
    using payment_sample by blast
  have at: "contract_at 100 ?s = Some signed_row" by (simp add: contract_at_def)
  have "contract_at 100 s' = Some (signed_row\<lparr>c_balance := 1000 - 100\<rparr>)"
    using payment_reduces_balance [OF v waiting_at _ _ at] signed_ledger
    by (simp add: replay_events_def later_stamp_def places_def)
  then show ?thesis using v by auto
qed

lemma has_world_tables [simp]:
  "has_world (s\<lparr>t_allocations := a\<rparr>) = has_world s" "has_world (s\<lparr>t_events := b\<rparr>) = has_world s"
  "has_world (s\<lparr>t_contracts := c\<rparr>) = has_world s" "has_world (s\<lparr>t_audits := d\<rparr>) = has_world s"
  "has_world (set_balance k x s) = has_world s"
  by (simp_all add: has_world_def set_balance_def)

lemma buyout_sample:
  "\<exists>s' out. validate 400 9 dom_user 300 None (waiting PC_buyout (Some 100) signed) = Inr (s', out)"
proof -
  let ?s = "waiting PC_buyout (Some 100) signed"
  let ?d = "validated_row 11 9 PC_buyout (waiting_row PC_buyout (Some 100))"
  let ?ev = "new_event 400 9 100 ET_buyout_paid 100 None None"
  have post: "t_contracts t = [signed_row] \<Longrightarrow> t_events t = [] \<Longrightarrow> apply_event_and_recompute ?ev t =
      Inr (set_balance 100 0 (t\<lparr>t_events := [stored_event ?ev]\<rparr>), 0)" for t
    by (auto simp: apply_event_eq_Inr period_bound_clash_def ledger_of_def replay_events_def replay_step_close)
  have "\<exists>s2. settle 400 9 ?d 12 11 (save_declaration 300 (validated_row 11 9 PC_buyout) ?s) = Inr s2 \<and>
      length (t_allocations s2) = 1"
    using post
    by (simp add: settle_def emit_allocation_def category_to_allocation_target_def create_allocation_def insert_row_def
        debt_payment_categories_def apply_buyout_def load_active_contract_for_sub_def Let_def save_contract_def
        append_audit_def)
  then obtain s2 l where s2: "settle 400 9 ?d 12 11 (save_declaration 300 (validated_row 11 9 PC_buyout) ?s) = Inr s2"
      "t_allocations s2 = [l]"
    by (auto simp: length_Suc_conv)
  then show ?thesis
    by (simp add: validate_def owned_declaration_def declaration_or_404_def check_category_for_sub_def Let_def
        payment_to_out_def load_allocation_def)
qed

lemma buyout_closes_witness:
  "\<exists>s' out. validate 400 9 dom_user 300 None (waiting PC_buyout (Some 100) signed) = Inr (s', out) \<and>
     map_option c_balance (contract_at 100 s') = Some 0 \<and> status_at s' 100 = Some CS_closed"
proof -
  let ?s = "waiting PC_buyout (Some 100) signed"
  obtain s' out where v: "validate 400 9 dom_user 300 None ?s = Inr (s', out)"
    using buyout_sample by blast
  have at: "contract_at 100 ?s = Some signed_row" by (simp add: contract_at_def)
  show ?thesis
    using buyout_closes [OF v waiting_at _ _ at] v signed_ledger by (simp add: later_stamp_def status_at_def)
qed

text \<open>A new sub that has set a safeword and declared the entry tribute.\<close>

definition new_sub :: user where
  "new_sub = sub_user\<lparr>u_status := US_pending_entry_tribute\<rparr>"

definition red_word :: sub_safeword where
  "red_word = \<lparr>sw_sub_id = 12, sw_goddess_id = 10, sw_word = ''red'', sw_signal = None,
     sw_contact_name = None, sw_contact_phone = None, sw_created_at = 0, sw_updated_at = 0\<rparr>"

definition entry_waiting :: db where
  "entry_waiting = waiting PC_entry None (world\<lparr>t_users := [dom_user, new_sub],
     t_safewords := [red_word]\<rparr>)"

lemma entry_waiting_simps [simp]:
  "t_users entry_waiting = [dom_user, new_sub]" "u_id new_sub = 12" "u_status new_sub = US_pending_entry_tribute"
  "u_goddess_id new_sub = Some 10" "t_goddesses entry_waiting = [dom_profile]" "t_allocations entry_waiting = []"
  "safeword_for_sub 12 entry_waiting = Some red_word"
  "declaration_at 300 entry_waiting = Some (waiting_row PC_entry None)"
  by (simp_all add: entry_waiting_def new_sub_def waiting_def safeword_for_sub_def declaration_at_def red_word_def)

lemma entry_sample: "\<exists>s' out. validate 400 9 dom_user 300 None entry_waiting = Inr (s', out)"
proof -
  have "resolve_goddess_id 11 entry_waiting = Inr 10"
    by (simp add: resolve_goddess_id_def)
  moreover have "declaration_or_404 300 entry_waiting = Inr (waiting_row PC_entry None)"
    by (simp add: declaration_or_404_def declaration_at_def [symmetric])
  moreover have "user_by_id 12 entry_waiting = Some new_sub" by (simp add: user_by_id_def)
  moreover have "safeword_for_sub 12 (save_declaration k f entry_waiting\<lparr>t_allocations := a\<rparr>) =
      Some red_word" for k f a
    using entry_waiting_simps(7) by (simp add: safeword_for_sub_def save_declaration_def)
  ultimately show ?thesis
    by (simp add: validate_def owned_declaration_def check_category_for_sub_def Let_def settle_def emit_allocation_def
        category_to_allocation_target_def create_allocation_def insert_row_def debt_payment_categories_def
        promote_sub_def blank_def red_word_def payment_to_out_def load_allocation_def)
qed

lemma entry_promotes_witness:
  "\<exists>s' out. validate 400 9 dom_user 300 None entry_waiting = Inr (s', out) \<and>
     map_option u_status (user_by_id 12 s') = Some US_active"
proof -
  obtain s' out where v: "validate 400 9 dom_user 300 None entry_waiting = Inr (s', out)"
    using entry_sample by blast
  have "user_by_id (d_sub_id (waiting_row PC_entry None)) entry_waiting = Some new_sub"
    by (simp add: user_by_id_def)
  from entry_promotes [OF v entry_waiting_simps(8) _ this] v show ?thesis by simp
qed

end
