(* ===== verification/Activities.thy ===== *)
theory Activities
  imports Tasks Rituals Samples
begin

text \<open>
  What tasks, rituals and rewards promise together: an interface for entities that are
  credited when they are done, the request system of the three components, and the proof that
  tasks and ritual occurrences are such entities.
\<close>

section \<open>Entities credited when they are done\<close>

text \<open>
  A step may create an entity that is not done and has no credit, remove one, leave one alone,
  move it along an edge, or finish it and then credit it unless it is credited already.
\<close>

locale credited_once =
  fixes step :: "'s \<Rightarrow> 's \<Rightarrow> bool"
    and st :: "'s \<Rightarrow> 'k \<Rightarrow> 'q option"
    and credits :: "'s \<Rightarrow> 'k \<Rightarrow> nat"
    and edge :: "'q \<Rightarrow> 'q \<Rightarrow> bool"
    and finished :: 'q
  assumes created: "step s s' \<Longrightarrow> st s k = None \<Longrightarrow> st s' k = Some y \<Longrightarrow> y \<noteq> finished \<and> credits s' k = 0"
    and moved: "step s s' \<Longrightarrow> st s k = Some x \<Longrightarrow> st s' k = Some y \<Longrightarrow>
      (y = x \<and> credits s' k = credits s k) \<or>
      (edge x y \<and> y \<noteq> finished \<and> credits s' k = credits s k) \<or>
      (edge x y \<and> y = finished \<and> credits s' k = max 1 (credits s k))"
    and finished_stays: "\<not> edge finished y"
begin

definition credits_agree :: "'s \<Rightarrow> bool" where
  "credits_agree s \<longleftrightarrow> (\<forall>k x. st s k = Some x \<longrightarrow> credits s k = (if x = finished then 1 else 0))"

lemma step_keeps_agree: "step s s' \<Longrightarrow> credits_agree s \<Longrightarrow> credits_agree s'"
  unfolding credits_agree_def
proof (intro allI impI)
  fix k y
  assume step: "step s s'" and agree: "\<forall>k x. st s k = Some x \<longrightarrow> credits s k = (if x = finished then 1 else 0)"
    and y: "st s' k = Some y"
  show "credits s' k = (if y = finished then 1 else 0)"
  proof (cases "st s k")
    case None
    then show ?thesis using created [OF step None y] by simp
  next
    case (Some x)
    then have c: "credits s k = (if x = finished then 1 else 0)" using agree by blast
    show ?thesis using moved [OF step Some y] c finished_stays by auto
  qed
qed

lemma run_keeps_agree: "step\<^sup>*\<^sup>* s s' \<Longrightarrow> credits_agree s \<Longrightarrow> credits_agree s'"
  by (induction rule: rtranclp_induct) (auto intro: step_keeps_agree)

lemma agree_empty: "(\<And>k. st s k = None) \<Longrightarrow> credits_agree s"
  by (simp add: credits_agree_def)

end

section \<open>Statuses and credits\<close>

inductive task_edge :: "task_status \<Rightarrow> task_status \<Rightarrow> bool" where
  "task_edge TS_open TS_submitted"
| "task_edge TS_open TS_cancelled"
| "task_edge TS_submitted TS_approved"
| "task_edge TS_submitted TS_rejected"

inductive_simps task_edge_simps [simp]:
  "task_edge TS_open y" "task_edge TS_submitted y" "task_edge TS_approved y" "task_edge TS_rejected y"
  "task_edge TS_cancelled y"

code_pred task_edge .

inductive occurrence_edge :: "occurrence_status \<Rightarrow> occurrence_status \<Rightarrow> bool" where
  "occurrence_edge OS_pending OS_completed"
| "occurrence_edge OS_pending OS_submitted"
| "occurrence_edge OS_pending OS_missed"
| "occurrence_edge OS_submitted OS_completed"
| "occurrence_edge OS_submitted OS_rejected"

inductive_simps occurrence_edge_simps [simp]:
  "occurrence_edge OS_pending y" "occurrence_edge OS_submitted y" "occurrence_edge OS_completed y"
  "occurrence_edge OS_missed y" "occurrence_edge OS_rejected y"

code_pred occurrence_edge .

definition task_status_at :: "db \<Rightarrow> uuid \<Rightarrow> task_status option" where
  "task_status_at s k = map_option k_status (fetch k_id k (t_tasks s))"

definition occurrence_status_at :: "db \<Rightarrow> uuid \<Rightarrow> occurrence_status option" where
  "occurrence_status_at s k = map_option o_status (fetch o_id k (t_occurrences s))"

definition credits_of :: "merit_source_kind \<Rightarrow> db \<Rightarrow> uuid \<Rightarrow> nat" where
  "credits_of kind s k =
     length (filter (\<lambda>e. me_source_kind e = kind \<and> me_source_id e = Some k) (t_merits s))"

lemma credits_of_cong: "t_merits s' = t_merits s \<Longrightarrow> credits_of kind s' k = credits_of kind s k"
  by (simp add: credits_of_def)

lemma credits_of_update [simp]:
  "credits_of kind (s\<lparr>t_tasks := a\<rparr>) k = credits_of kind s k"
  "credits_of kind (s\<lparr>t_occurrences := b\<rparr>) k = credits_of kind s k"
  "credits_of kind (s\<lparr>t_rituals := c\<rparr>) k = credits_of kind s k"
  "credits_of kind (s\<lparr>t_redemptions := d\<rparr>) k = credits_of kind s k"
  by (simp_all add: credits_of_def)

lemma credits_of_exists: "merit_source_exists kind (Some k) (t_merits s) \<longleftrightarrow> credits_of kind s k \<noteq> 0"
  by (auto simp: merit_source_exists_def credits_of_def list_ex_iff filter_empty_conv)

lemma credits_of_inserted:
  "credits_of kind (fst (insert_idempotent (merit_row now sid gid kind' src delta) s)) k =
     (if kind' = kind \<and> src = Some k then max 1 (credits_of kind s k) else credits_of kind s k)"
  using credits_of_exists [of kind k s]
  by (auto simp: insert_idempotent_def merit_row_def) (auto simp: credits_of_def)

lemma credits_of_penalty:
  assumes "apply_penalty now gid sid trig sk src dd dl s = Inr (s', d)"
    and "kind \<in> {MS_task_complete, MS_ritual_complete}"
  shows "credits_of kind s' k = credits_of kind s k"
  using apply_penalty_merits [OF assms(1)] assms(2)
  by (auto simp: credits_of_def merit_row_def merit_source_kind_for_def split: if_splits)

section \<open>The requests\<close>

definition unused_task :: "uuid \<Rightarrow> db \<Rightarrow> bool" where
  "unused_task tid s \<longleftrightarrow> task_status_at s tid = None \<and> credits_of MS_task_complete s tid = 0"

definition unused_occurrence :: "uuid \<Rightarrow> db \<Rightarrow> bool" where
  "unused_occurrence oid s \<longleftrightarrow> occurrence_status_at s oid = None \<and> credits_of MS_ritual_complete s oid = 0"

inductive activity :: "db \<Rightarrow> db \<Rightarrow> bool" where
  task_created: "create_task tid now u sid p s = Inr (s', t) \<Longrightarrow> unused_task tid s \<Longrightarrow> activity s s'"
| task_updated: "update_task now u tid c s = Inr (s', t) \<Longrightarrow> activity s s'"
| task_cancelled: "cancel_task now u tid s = Inr (s', t) \<Longrightarrow> activity s s'"
| task_submitted: "submit_task now u tid note ev s = Inr (s', t) \<Longrightarrow> activity s s'"
| task_approved: "approve_task now u tid s = Inr (s', t) \<Longrightarrow> activity s s'"
| task_rejected: "reject_task now u tid reason s = Inr (s', t) \<Longrightarrow> activity s s'"
| punishment_invoked: "invoke_punishment tid now u qid sid s = Inr (s', t) \<Longrightarrow> unused_task tid s \<Longrightarrow> activity s s'"
| reward_redeemed: "redeem_reward xid now u wid s = Inr (s', x) \<Longrightarrow> activity s s'"
| ritual_created: "create_ritual rid now u sid i s = Inr (s', r) \<Longrightarrow> activity s s'"
| ritual_updated: "update_ritual now u rid j s = Inr (s', r) \<Longrightarrow> activity s s'"
| ritual_deleted: "delete_ritual u rid s = Inr s' \<Longrightarrow> distinct (map o_id (t_occurrences s)) \<Longrightarrow> activity s s'"
| occurrences_seeded: "seed_occurrences_for_today z fresh now today s = (s', n) \<Longrightarrow>
    (\<And>r. r \<in> set (t_rituals s) \<Longrightarrow> unused_occurrence (fresh (i_id r)) s) \<Longrightarrow> activity s s'"
| occurrence_completed: "complete_occurrence now u oid note ev s = Inr (s', oc) \<Longrightarrow> activity s s'"
| occurrence_submitted: "submit_occurrence u oid note ev s = Inr (s', oc) \<Longrightarrow> activity s s'"
| occurrence_approved: "approve_occurrence now u oid s = Inr (s', oc) \<Longrightarrow> activity s s'"
| occurrence_rejected: "reject_occurrence now u oid s = Inr (s', oc) \<Longrightarrow> activity s s'"
| missed_marked: "mark_missed_for_today now today s = Inr (s', m) \<Longrightarrow> activity s s'"

text \<open>What a request may do to one entity, in the terms of the interface.\<close>

definition lawful_change ::
  "('q \<Rightarrow> 'q \<Rightarrow> bool) \<Rightarrow> 'q \<Rightarrow> 'q option \<Rightarrow> nat \<Rightarrow> 'q option \<Rightarrow> nat \<Rightarrow> bool" where
  "lawful_change edge fin a m b n \<longleftrightarrow> (case b of
      None \<Rightarrow> True
    | Some y \<Rightarrow> (case a of
        None \<Rightarrow> y \<noteq> fin \<and> n = 0
      | Some x \<Rightarrow> (y = x \<and> n = m) \<or> (edge x y \<and> y \<noteq> fin \<and> n = m) \<or> (edge x y \<and> y = fin \<and> n = max 1 m)))"

lemma lawful_change_same [simp]: "lawful_change edge fin a m a m"
  by (simp add: lawful_change_def split: option.split)

abbreviation task_lawful :: "db \<Rightarrow> db \<Rightarrow> uuid \<Rightarrow> bool" where
  "task_lawful s s' k \<equiv> lawful_change task_edge TS_approved (task_status_at s k) (credits_of MS_task_complete s k)
     (task_status_at s' k) (credits_of MS_task_complete s' k)"

abbreviation occurrence_lawful :: "db \<Rightarrow> db \<Rightarrow> uuid \<Rightarrow> bool" where
  "occurrence_lawful s s' k \<equiv> lawful_change occurrence_edge OS_completed (occurrence_status_at s k)
     (credits_of MS_ritual_complete s k) (occurrence_status_at s' k) (credits_of MS_ritual_complete s' k)"

lemma task_quiet: "t_tasks s' = t_tasks s \<Longrightarrow> credits_of MS_task_complete s' k = credits_of MS_task_complete s k \<Longrightarrow>
   task_lawful s s' k"
  by (simp add: task_status_at_def)

lemma occurrence_quiet: "t_occurrences s' = t_occurrences s \<Longrightarrow>
   credits_of MS_ritual_complete s' k = credits_of MS_ritual_complete s k \<Longrightarrow> occurrence_lawful s s' k"
  by (simp add: occurrence_status_at_def)

lemma task_added:
  assumes "t_tasks s' = insert_row t (t_tasks s)" "k_status t = TS_open" "unused_task (k_id t) s"
    and "credits_of MS_task_complete s' k = credits_of MS_task_complete s k"
  shows "task_lawful s s' k"
  using assms by (auto simp: lawful_change_def task_status_at_def unused_task_def tasks.get_add split: option.splits)

lemma task_changed:
  assumes "t_tasks s' = modify k_id tid f (t_tasks s)" "fetch k_id tid (t_tasks s) = Some t" "\<And>r. k_id (f r) = k_id r"
    and "(k_status (f t) = k_status t \<or> task_edge (k_status t) (k_status (f t))) \<and> k_status (f t) \<noteq> TS_approved \<and>
         credits_of MS_task_complete s' k = credits_of MS_task_complete s k \<or>
         task_edge (k_status t) TS_approved \<and> k_status (f t) = TS_approved \<and>
         credits_of MS_task_complete s' k = (if k = tid then max 1 (credits_of MS_task_complete s k)
                                             else credits_of MS_task_complete s k)"
  shows "task_lawful s s' k"
  using assms by (auto simp: lawful_change_def task_status_at_def tasks.get_upd split: option.splits)

lemma occurrence_changed:
  assumes "t_occurrences s' = modify o_id oid f (t_occurrences s)" "fetch o_id oid (t_occurrences s) = Some oc"
    "\<And>r. o_id (f r) = o_id r"
    and "occurrence_edge (o_status oc) (o_status (f oc)) \<and> o_status (f oc) \<noteq> OS_completed \<and>
         credits_of MS_ritual_complete s' k = credits_of MS_ritual_complete s k \<or>
         occurrence_edge (o_status oc) OS_completed \<and> o_status (f oc) = OS_completed \<and>
         credits_of MS_ritual_complete s' k = (if k = oid then max 1 (credits_of MS_ritual_complete s k)
                                               else credits_of MS_ritual_complete s k)"
  shows "occurrence_lawful s s' k"
  using assms by (auto simp: lawful_change_def occurrence_status_at_def occurrences.get_upd split: option.splits)

lemma new_task_keys [simp]: "k_id (new_task tid now sid gid p) = tid" "k_status (new_task tid now sid gid p) = TS_open"
  by (simp_all add: new_task_def)

lemma get_task_Inr [res_simps]: "get_task tid s = Inr t \<longleftrightarrow> fetch k_id tid (t_tasks s) = Some t"
  by (auto simp: get_task_def res_simps)

lemma owned_task_Inr [res_simps]:
  "owned_task u tid s = Inr t \<longleftrightarrow>
     resolve_goddess_id (u_id u) s = Inr (k_goddess_id t) \<and> fetch k_id tid (t_tasks s) = Some t"
  by (auto simp: owned_task_def res_simps)

lemma insert_idempotent_pair:
  "insert_idempotent ev s = (s', b) \<Longrightarrow> s' = fst (insert_idempotent ev s)"
  by simp

lemma bulk_create_frame:
  "bulk_create_for_date rows s = (s', n) \<Longrightarrow> t_tasks s' = t_tasks s \<and> t_merits s' = t_merits s \<and>
     t_rituals s' = t_rituals s"
  by (induction rows s arbitrary: s' n rule: bulk_create_for_date.induct)
    (fastforce split: if_splits prod.splits)+

lemma penalize_missed_facts:
  assumes "penalize_missed now xs s = Inr s'" "kind \<in> {MS_task_complete, MS_ritual_complete}"
  shows "t_tasks s' = t_tasks s \<and> t_occurrences s' = t_occurrences s \<and> credits_of kind s' k = credits_of kind s k"
  using assms(1)
proof (induction now xs s rule: penalize_missed.induct)
  case (2 now oid sid gid points rest s)
  then obtain s1 d where 1: "apply_penalty now gid sid PT_ritual_missed ''ritual_miss'' (Some oid) points None s = Inr (s1, d)"
      "penalize_missed now rest s1 = Inr s'"
    by (auto simp: res_simps)
  show ?case using "2.IH" 1 apply_penalty_frame [OF 1(1)] credits_of_penalty [OF 1(1) assms(2)] by simp
qed simp

lemma activity_tasks:
  assumes "activity s s'"
  shows "task_lawful s s' k"
  using assms
proof (cases rule: activity.cases)
  case (task_created tid now u sid p t)
  then show ?thesis
    by (intro task_added [where s' = s' and s = s and t = "new_task tid now sid (k_goddess_id t) p"])
      (auto simp: create_task_def res_simps Let_def create_task_row_def new_task_def)
next
  case (task_updated now u tid c t)
  then show ?thesis
  proof (cases "task_update_empty c")
    case False
    with task_updated obtain t0 where "fetch k_id tid (t_tasks s) = Some t0" "k_status t0 = TS_open"
        "s' = update_task_row tid (patch_task c now) s"
      by (auto simp: update_task_def res_simps)
    then show ?thesis
      by (intro task_changed [where s' = s' and tid = tid and f = "patch_task c now" and s = s and t = t0]) (auto simp: update_task_row_def patch_task_def)
  qed (auto simp: update_task_def res_simps)
next
  case (task_cancelled now u tid t)
  then obtain t0 f where "fetch k_id tid (t_tasks s) = Some t0" "k_status t0 = TS_open"
      "s' = update_task_row tid f s" "\<And>r. k_id (f r) = k_id r" "k_status (f t0) = TS_cancelled"
    by (auto simp: cancel_task_def res_simps Let_def)
  then show ?thesis
    by (intro task_changed [where s' = s' and tid = tid and f = f and s = s and t = t0]) (auto simp: update_task_row_def)
next
  case (task_submitted now u tid nt ev t)
  then obtain t0 f where "fetch k_id tid (t_tasks s) = Some t0" "k_status t0 = TS_open"
      "s' = update_task_row tid f s" "\<And>r. k_id (f r) = k_id r" "k_status (f t0) = TS_submitted"
    by (auto simp: submit_task_def res_simps Let_def)
  then show ?thesis
    by (intro task_changed [where s' = s' and tid = tid and f = f and s = s and t = t0]) (auto simp: update_task_row_def)
next
  case (task_approved now u tid t)
  define f :: "task \<Rightarrow> task" where "f = (\<lambda>t. t\<lparr>k_status := TS_approved, k_reviewed_at := Some now,
    k_reviewed_by := Some (u_id u), k_updated_at := now\<rparr>)"
  obtain t0 where t0: "fetch k_id tid (t_tasks s) = Some t0" "k_status t0 = TS_submitted"
      "s' = fst (record_task_complete now (f t0) (update_task_row tid f s))"
    using task_approved by (auto simp: approve_task_def res_simps Let_def f_def case_prod_beta)
  then have "k_id t0 = tid" using fetch_SomeD by metis
  with t0 show ?thesis
    by (intro task_changed [where s' = s' and tid = tid and f = f and s = s and t = t0])
      (auto simp: record_task_complete_def credits_of_inserted update_task_row_def f_def)
next
  case (task_rejected now u tid reason t)
  obtain t0 f s1 d where t0: "fetch k_id tid (t_tasks s) = Some t0" "k_status t0 = TS_submitted"
      "apply_penalty now (k_goddess_id t0) (k_sub_id t0) PT_task_missed ''task_miss'' (Some (k_id t0))
         (k_points_on_miss t0) None (update_task_row tid f s) = Inr (s', d)"
      "\<And>r. k_id (f r) = k_id r" "k_status (f t0) = TS_rejected"
    using task_rejected by (auto simp: reject_task_def res_simps Let_def)
  have "credits_of MS_task_complete s' k = credits_of MS_task_complete s k"
    using credits_of_penalty [OF t0(3)] by (simp add: update_task_row_def)
  with t0 apply_penalty_frame(6) [OF t0(3)] show ?thesis
    by (intro task_changed [where s' = s' and tid = tid and f = f and s = s and t = t0]) (auto simp: update_task_row_def)
next
  case (punishment_invoked tid now u qid sid t)
  then obtain t1 sid' gid delta where t1: "s' = fst (insert_idempotent
        (merit_row now sid' gid MS_punishment_invoke (Some tid) delta) (create_task_row t1 s))"
      "k_id t1 = tid" "k_status t1 = TS_open"
    by (auto simp: invoke_punishment_def res_simps Let_def case_prod_beta)
  then show ?thesis using punishment_invoked(2)
    by (intro task_added [where s' = s' and s = s and t = t1]) (auto simp: credits_of_inserted create_task_row_def)
next
  case (reward_redeemed xid now u wid x)
  then obtain xs gid delta where "s' = fst (insert_idempotent
        (merit_row now (u_id u) gid MS_reward_redeem (Some xid) delta) (s\<lparr>t_redemptions := xs\<rparr>))"
    by (auto simp: redeem_reward_def res_simps Let_def case_prod_beta)
  then show ?thesis by (intro task_quiet) (auto simp: credits_of_inserted)
next
  case (ritual_created rid now u sid i r)
  then show ?thesis by (intro task_quiet) (auto simp: create_ritual_def res_simps Let_def)
next
  case (ritual_updated now u rid j r)
  then have "s' = s \<or> s' = update_ritual_row rid (patch_ritual j now) s"
    by (auto simp only: update_ritual_def attempt_eq_Inr sum.inject prod.inject split: if_splits)
  then show ?thesis by (intro task_quiet) (auto simp: update_ritual_row_def)
next
  case (ritual_deleted u rid)
  then show ?thesis
    by (intro task_quiet) (auto simp: delete_ritual_def delete_ritual_row_def res_simps)
next
  case (occurrences_seeded z fresh now today n)
  then show ?thesis
    using bulk_create_frame [of _ s s' n] by (intro task_quiet) (auto simp: seed_occurrences_for_today_def intro: credits_of_cong)
next
  case (occurrence_completed now u oid nt ev oc)
  then obtain f o1 r where "s' = fst (record_ritual_complete now o1 r (update_occurrence oid f s))"
    by (auto simp: complete_occurrence_def res_simps Let_def case_prod_beta)
  then show ?thesis
    by (intro task_quiet) (auto simp: record_ritual_complete_def credits_of_inserted update_occurrence_def)
next
  case (occurrence_submitted u oid nt ev oc)
  then show ?thesis
    by (intro task_quiet) (auto simp: submit_occurrence_def res_simps Let_def update_occurrence_def)
next
  case (occurrence_approved now u oid oc)
  then obtain f o1 r where "s' = fst (record_ritual_complete now o1 r (update_occurrence oid f s))"
    by (auto simp: approve_occurrence_def res_simps Let_def case_prod_beta)
  then show ?thesis
    by (intro task_quiet) (auto simp: record_ritual_complete_def credits_of_inserted update_occurrence_def)
next
  case (occurrence_rejected now u oid oc)
  then obtain f o1 r where "s' = fst (record_ritual_miss now o1 r (update_occurrence oid f s))"
    by (auto simp: reject_occurrence_def res_simps Let_def case_prod_beta)
  then show ?thesis
    by (intro task_quiet) (auto simp: record_ritual_miss_def credits_of_inserted update_occurrence_def)
next
  case (missed_marked now today m)
  then obtain xs s1 where 1: "s1 = fst (mark_missed_by_date today s)" "penalize_missed now xs s1 = Inr s'"
    by (auto simp: mark_missed_for_today_def Let_def res_simps case_prod_beta)
  then show ?thesis
    using penalize_missed_facts [OF 1(2), of MS_task_complete k]
    by (intro task_quiet) (auto simp: mark_missed_by_date_def Let_def)
qed

section \<open>Occurrences\<close>

lemma get_occurrence_Inr [res_simps]:
  "get_occurrence oid s = Inr oc \<longleftrightarrow> fetch o_id oid (t_occurrences s) = Some oc"
  by (auto simp: get_occurrence_def res_simps)

lemma owned_occurrence_Inr [res_simps]:
  "owned_occurrence u oid s = Inr oc \<longleftrightarrow>
     resolve_goddess_id (u_id u) s = Inr (o_goddess_id oc) \<and> fetch o_id oid (t_occurrences s) = Some oc"
  by (auto simp: owned_occurrence_def res_simps)

lemma own_occurrence_Inr [res_simps]:
  "own_occurrence u oid s = Inr oc \<longleftrightarrow> o_sub_id oc = u_id u \<and> fetch o_id oid (t_occurrences s) = Some oc"
  by (auto simp: own_occurrence_def res_simps)

lemma row_keys [simp]:
  "o_id (completed_row t n e oc) = o_id oc" "o_status (completed_row t n e oc) = OS_completed"
  "o_id (submitted_row n e oc) = o_id oc" "o_status (submitted_row n e oc) = OS_submitted"
  "o_id (reviewed_row st u t oc) = o_id oc" "o_status (reviewed_row st u t oc) = st"
  "o_id (row_for fresh now r today) = fresh (i_id r)" "o_status (row_for fresh now r today) = OS_pending"
  by (simp_all add: completed_row_def submitted_row_def reviewed_row_def row_for_def)

lemma fetch_filter_Some: "fetch key k (filter P t) = Some r \<Longrightarrow> distinct (map key t) \<Longrightarrow> fetch key k t = Some r"
  using fetch_SomeD [of key k "filter P t" r] fetch_distinct [of key t r] by auto

lemma bulk_create_pending:
  assumes "bulk_create_for_date rows s = (s', n)" "\<forall>row \<in> set rows. o_status row = OS_pending"
  shows "occurrence_status_at s' k = occurrence_status_at s k \<or>
    occurrence_status_at s k = None \<and> occurrence_status_at s' k = Some OS_pending \<and> k \<in> o_id ` set rows"
  using assms
proof (induction rows s arbitrary: s' n rule: bulk_create_for_date.induct)
  case (2 row rows s)
  show ?case
  proof (cases "list_ex (\<lambda>oc. o_ritual_id oc = o_ritual_id row \<and> o_date oc = o_date row) (t_occurrences s)")
    case True
    with 2 show ?thesis by auto
  next
    case False
    let ?s1 = "s\<lparr>t_occurrences := insert_row row (t_occurrences s)\<rparr>"
    obtain m where r: "bulk_create_for_date rows ?s1 = (s', m)"
      using 2(3) False by (auto split: prod.splits)
    have "occurrence_status_at ?s1 k = occurrence_status_at s k \<or>
        occurrence_status_at s k = None \<and> occurrence_status_at ?s1 k = Some OS_pending \<and> k = o_id row"
      using 2(4) by (auto simp: occurrence_status_at_def insert_row_def fetch_append split: option.splits)
    moreover have "occurrence_status_at s' k = occurrence_status_at ?s1 k \<or>
        occurrence_status_at ?s1 k = None \<and> occurrence_status_at s' k = Some OS_pending \<and> k \<in> o_id ` set rows"
      using "2.IH"(2) [OF False r] 2(4) by simp
    ultimately show ?thesis by auto
  qed
qed simp

lemma missed_lawful:
  assumes "t_occurrences s' = map (\<lambda>oc. if hit oc \<and> o_status oc = OS_pending then oc\<lparr>o_status := OS_missed\<rparr> else oc) (t_occurrences s)"
    and "credits_of MS_ritual_complete s' k = credits_of MS_ritual_complete s k"
  shows "occurrence_lawful s s' k"
  using assms by (auto simp: lawful_change_def occurrence_status_at_def fetch_map split: option.splits)

lemma activity_occurrences:
  assumes "activity s s'"
  shows "occurrence_lawful s s' k"
  using assms
proof (cases rule: activity.cases)
  case (task_created tid now u sid p t)
  then show ?thesis
    by (intro occurrence_quiet) (auto simp: create_task_def res_simps Let_def create_task_row_def)
next
  case (task_updated now u tid c t)
  then have "s' = s \<or> s' = update_task_row tid (patch_task c now) s"
    by (auto simp only: update_task_def attempt_eq_Inr raise_if_eq_Inr sum.inject prod.inject split: if_splits)
  then show ?thesis by (intro occurrence_quiet) (auto simp: update_task_row_def)
next
  case (task_cancelled now u tid t)
  then show ?thesis by (intro occurrence_quiet) (auto simp: cancel_task_def res_simps Let_def update_task_row_def)
next
  case (task_submitted now u tid nt ev t)
  then show ?thesis by (intro occurrence_quiet) (auto simp: submit_task_def res_simps Let_def update_task_row_def)
next
  case (task_approved now u tid t)
  then obtain t0 f where "s' = fst (record_task_complete now t0 (update_task_row tid f s))"
    by (auto simp: approve_task_def res_simps Let_def case_prod_beta)
  then show ?thesis
    by (intro occurrence_quiet) (auto simp: record_task_complete_def credits_of_inserted update_task_row_def)
next
  case (task_rejected now u tid reason t)
  then obtain gid sid src points f d where p: "apply_penalty now gid sid PT_task_missed ''task_miss'' src points None
      (update_task_row tid f s) = Inr (s', d)"
    by (auto simp: reject_task_def res_simps Let_def)
  show ?thesis
    using apply_penalty_frame(7) [OF p] credits_of_penalty [OF p]
    by (intro occurrence_quiet) (auto simp: update_task_row_def)
next
  case (punishment_invoked tid now u qid sid t)
  then obtain t1 sid' gid delta where "s' = fst (insert_idempotent
        (merit_row now sid' gid MS_punishment_invoke (Some tid) delta) (create_task_row t1 s))"
    by (auto simp: invoke_punishment_def res_simps Let_def case_prod_beta)
  then show ?thesis by (intro occurrence_quiet) (auto simp: credits_of_inserted create_task_row_def)
next
  case (reward_redeemed xid now u wid x)
  then obtain xs gid delta where "s' = fst (insert_idempotent
        (merit_row now (u_id u) gid MS_reward_redeem (Some xid) delta) (s\<lparr>t_redemptions := xs\<rparr>))"
    by (auto simp: redeem_reward_def res_simps Let_def case_prod_beta)
  then show ?thesis by (intro occurrence_quiet) (auto simp: credits_of_inserted)
next
  case (ritual_created rid now u sid i r)
  then show ?thesis by (intro occurrence_quiet) (auto simp: create_ritual_def res_simps Let_def)
next
  case (ritual_updated now u rid j r)
  then have "s' = s \<or> s' = update_ritual_row rid (patch_ritual j now) s"
    by (auto simp only: update_ritual_def attempt_eq_Inr sum.inject prod.inject split: if_splits)
  then show ?thesis by (intro occurrence_quiet) (auto simp: update_ritual_row_def)
next
  case (ritual_deleted u rid)
  then have "t_occurrences s' = filter (\<lambda>oc. o_ritual_id oc \<noteq> rid) (t_occurrences s)"
      "\<And>kind. credits_of kind s' k = credits_of kind s k"
    by (auto simp: delete_ritual_def delete_ritual_row_def res_simps)
  then show ?thesis
    using fetch_filter_Some [of o_id k "\<lambda>oc. o_ritual_id oc \<noteq> rid" "t_occurrences s"] ritual_deleted(2)
    by (auto simp: lawful_change_def occurrence_status_at_def split: option.splits)
next
  case (occurrences_seeded z fresh now today n)
  let ?rows = "map (\<lambda>r. row_for fresh now r today) (filter (\<lambda>r. ritual_fires_on z r today) (active_rituals_for_date None s))"
  have b: "bulk_create_for_date ?rows s = (s', n)"
    using occurrences_seeded(1) by (simp add: seed_occurrences_for_today_def)
  have c: "credits_of MS_ritual_complete s' k = credits_of MS_ritual_complete s k"
    using bulk_create_frame [OF b] by (intro credits_of_cong) simp
  have "credits_of MS_ritual_complete s k = 0" if "k \<in> o_id ` set ?rows"
    using that occurrences_seeded(2) by (auto simp: active_rituals_for_date_def unused_occurrence_def)
  moreover have "occurrence_status_at s' k = occurrence_status_at s k \<or>
      occurrence_status_at s k = None \<and> occurrence_status_at s' k = Some OS_pending \<and> k \<in> o_id ` set ?rows"
    by (rule bulk_create_pending [OF b]) auto
  ultimately show ?thesis
    using c by (elim disjE conjE) (simp_all add: lawful_change_def split: option.split)
next
  case (occurrence_completed now u oid nt ev oc)
  then obtain oc0 r where oc0: "s' = fst (record_ritual_complete now (completed_row now nt ev oc0) r
        (update_occurrence oid (completed_row now nt ev) s))"
      "fetch o_id oid (t_occurrences s) = Some oc0" "o_status oc0 = OS_pending"
    by (auto simp: complete_occurrence_def res_simps Let_def case_prod_beta)
  then have "o_id oc0 = oid" using fetch_SomeD by metis
  with oc0 show ?thesis
    by (intro occurrence_changed [where s' = s' and oid = oid and f = "completed_row now nt ev" and s = s and oc = oc0])
      (auto simp: record_ritual_complete_def credits_of_inserted update_occurrence_def)
next
  case (occurrence_submitted u oid nt ev oc)
  then obtain oc0 where "s' = update_occurrence oid (submitted_row nt ev) s"
      "fetch o_id oid (t_occurrences s) = Some oc0" "o_status oc0 = OS_pending"
    by (auto simp: submit_occurrence_def res_simps Let_def)
  then show ?thesis
    by (intro occurrence_changed [where s' = s' and oid = oid and f = "submitted_row nt ev" and s = s and oc = oc0])
      (auto simp: update_occurrence_def)
next
  case (occurrence_approved now u oid oc)
  let ?f = "reviewed_row OS_completed (u_id u) now"
  obtain oc0 r where oc0: "s' = fst (record_ritual_complete now (?f oc0) r (update_occurrence oid ?f s))"
      "fetch o_id oid (t_occurrences s) = Some oc0" "o_status oc0 = OS_submitted"
    using occurrence_approved by (auto simp: approve_occurrence_def res_simps Let_def case_prod_beta)
  then have "o_id oc0 = oid" using fetch_SomeD by metis
  with oc0 show ?thesis
    by (intro occurrence_changed [where s' = s' and oid = oid and f = ?f and s = s and oc = oc0])
      (auto simp: record_ritual_complete_def credits_of_inserted update_occurrence_def)
next
  case (occurrence_rejected now u oid oc)
  let ?f = "reviewed_row OS_rejected (u_id u) now"
  obtain oc0 r where oc0: "s' = fst (record_ritual_miss now (?f oc0) r (update_occurrence oid ?f s))"
      "fetch o_id oid (t_occurrences s) = Some oc0" "o_status oc0 = OS_submitted"
    using occurrence_rejected by (auto simp: reject_occurrence_def res_simps Let_def case_prod_beta)
  then show ?thesis
    by (intro occurrence_changed [where s' = s' and oid = oid and f = ?f and s = s and oc = oc0])
      (auto simp: record_ritual_miss_def credits_of_inserted update_occurrence_def)
next
  case (missed_marked now today m)
  then obtain xs s1 where 1: "s1 = fst (mark_missed_by_date today s)" "penalize_missed now xs s1 = Inr s'"
    by (auto simp: mark_missed_for_today_def Let_def res_simps split: prod.splits)
  then show ?thesis
    using penalize_missed_facts [OF 1(2), of MS_ritual_complete k]
    by (intro missed_lawful [of s' "\<lambda>oc. o_date oc = today"]) (auto simp: mark_missed_by_date_def Let_def)
qed

section \<open>The interface holds\<close>

interpretation task_credit: credited_once activity task_status_at "credits_of MS_task_complete" task_edge TS_approved
proof
  fix s s' k x y
  assume step: "activity s s'"
  show "task_status_at s k = None \<Longrightarrow> task_status_at s' k = Some y \<Longrightarrow>
      y \<noteq> TS_approved \<and> credits_of MS_task_complete s' k = 0"
    using activity_tasks [OF step, of k] by (simp add: lawful_change_def)
  show "task_status_at s k = Some x \<Longrightarrow> task_status_at s' k = Some y \<Longrightarrow>
      (y = x \<and> credits_of MS_task_complete s' k = credits_of MS_task_complete s k) \<or>
      (task_edge x y \<and> y \<noteq> TS_approved \<and> credits_of MS_task_complete s' k = credits_of MS_task_complete s k) \<or>
      (task_edge x y \<and> y = TS_approved \<and> credits_of MS_task_complete s' k = max 1 (credits_of MS_task_complete s k))"
    using activity_tasks [OF step, of k] by (simp add: lawful_change_def)
qed simp

interpretation occurrence_credit: credited_once activity occurrence_status_at "credits_of MS_ritual_complete"
    occurrence_edge OS_completed
proof
  fix s s' k x y
  assume step: "activity s s'"
  show "occurrence_status_at s k = None \<Longrightarrow> occurrence_status_at s' k = Some y \<Longrightarrow>
      y \<noteq> OS_completed \<and> credits_of MS_ritual_complete s' k = 0"
    using activity_occurrences [OF step, of k] by (simp add: lawful_change_def)
  show "occurrence_status_at s k = Some x \<Longrightarrow> occurrence_status_at s' k = Some y \<Longrightarrow>
      (y = x \<and> credits_of MS_ritual_complete s' k = credits_of MS_ritual_complete s k) \<or>
      (occurrence_edge x y \<and> y \<noteq> OS_completed \<and>
         credits_of MS_ritual_complete s' k = credits_of MS_ritual_complete s k) \<or>
      (occurrence_edge x y \<and> y = OS_completed \<and>
         credits_of MS_ritual_complete s' k = max 1 (credits_of MS_ritual_complete s k))"
    using activity_occurrences [OF step, of k] by (simp add: lawful_change_def)
qed simp

text \<open>
  C15: Work is credited exactly once. In every state the requests reach from one without tasks
  and ritual occurrences, whatever their order, an approved task has one credit in the merit
  ledger and every other task none, and a completed occurrence has one and every other
  occurrence none.
\<close>

theorem done_credited_once:
  assumes "activity\<^sup>*\<^sup>* s s'" "t_tasks s = []" "t_occurrences s = []"
  shows "(\<forall>t \<in> set (t_tasks s'). fetch k_id (k_id t) (t_tasks s') = Some t \<longrightarrow>
           credits_of MS_task_complete s' (k_id t) = (if k_status t = TS_approved then 1 else 0)) \<and>
         (\<forall>oc \<in> set (t_occurrences s'). fetch o_id (o_id oc) (t_occurrences s') = Some oc \<longrightarrow>
           credits_of MS_ritual_complete s' (o_id oc) = (if o_status oc = OS_completed then 1 else 0))"
proof -
  have "task_credit.credits_agree s'"
    using task_credit.run_keeps_agree [OF assms(1)] task_credit.agree_empty assms(2)
    by (simp add: task_status_at_def)
  moreover have "occurrence_credit.credits_agree s'"
    using occurrence_credit.run_keeps_agree [OF assms(1)] occurrence_credit.agree_empty assms(3)
    by (simp add: occurrence_status_at_def)
  ultimately show ?thesis
    by (auto simp: task_credit.credits_agree_def occurrence_credit.credits_agree_def
        task_status_at_def occurrence_status_at_def)
qed

section \<open>Redeeming a reward\<close>

lemma balance_after_credit:
  "fst (balance_for_sub sid gid (s\<lparr>t_redemptions := xs, t_merits := t_merits s @ [merit_row now sid' gid' kind src d]\<rparr>)) =
     fst (balance_for_sub sid gid s) + (if sid' = sid \<and> gid' = gid then d else 0)"
  by (simp add: balance_for_sub_def merits_of_def merit_row_def Let_def)

lemma insert_idempotent_inserted:
  "snd (insert_idempotent ev s) \<Longrightarrow> fst (insert_idempotent ev s) = s' \<Longrightarrow> insert_idempotent ev s = (s', True)"
  by (simp add: prod_eq_iff)

lemma redeem_parts:
  assumes "redeem_reward xid now u wid s = Inr (s', x, b)"
  obtains gid w xs where "u_goddess_id u = Some gid" "fetch w_id wid (t_rewards s) = Some w"
    "w_goddess_id w = gid" "w_active w" "w_cost w \<le> fst (balance_for_sub (u_id u) gid s)"
    "s' = s\<lparr>t_redemptions := xs,
            t_merits := t_merits s @ [merit_row now (u_id u) gid MS_reward_redeem (Some xid) (- w_cost w)]\<rparr>"
    "b = fst (balance_for_sub (u_id u) gid s')"
proof -
  obtain gid w xs where w: "u_goddess_id u = Some gid" "fetch w_id wid (t_rewards s) = Some w"
    "w_goddess_id w = gid" "w_active w" "w_cost w \<le> fst (balance_for_sub (u_id u) gid s)"
    and ins: "insert_idempotent (merit_row now (u_id u) gid MS_reward_redeem (Some xid) (- w_cost w))
        (s\<lparr>t_redemptions := xs\<rparr>) = (s', True)"
    and out: "fst (balance_for_sub (u_id u) gid s') = b"
    using assms unfolding redeem_reward_def get_reward_def Let_def case_prod_beta
      require_eq_Inr attempt_eq_Inr raise_if_eq_Inr sum.inject prod.inject not_not not_less
    by (elim exE conjE) (rule that; (assumption | (erule insert_idempotent_inserted, assumption) | simp))
  from ins have "s' = s\<lparr>t_redemptions := xs,
            t_merits := t_merits s @ [merit_row now (u_id u) gid MS_reward_redeem (Some xid) (- w_cost w)]\<rparr>"
    by (simp add: insert_idempotent_def split: if_splits)
  with w show ?thesis by (rule that) (rule out [symmetric])
qed

text \<open>
  A redemption that succeeds spends just the cost of a reward of the sub's own goddess that
  is on offer: the balance it reports is the old balance less the cost, which is never
  negative, it is the balance the ledger has afterwards, and no other pair of sub and goddess
  sees its balance change.
\<close>

theorem redeem_spends_cost:
  assumes "redeem_reward xid now u wid s = Inr (s', x, b)"
  shows "\<exists>gid w. u_goddess_id u = Some gid \<and> fetch w_id wid (t_rewards s) = Some w \<and>
     w_goddess_id w = gid \<and> w_active w \<and>
     b = fst (balance_for_sub (u_id u) gid s) - w_cost w \<and> 0 \<le> b \<and>
     fst (balance_for_sub (u_id u) gid s') = b \<and>
     (\<forall>sid gid'. (sid, gid') \<noteq> (u_id u, gid) \<longrightarrow>
        fst (balance_for_sub sid gid' s') = fst (balance_for_sub sid gid' s))"
proof -
  obtain gid w xs where w: "u_goddess_id u = Some gid" "fetch w_id wid (t_rewards s) = Some w"
    "w_goddess_id w = gid" "w_active w" "w_cost w \<le> fst (balance_for_sub (u_id u) gid s)"
    and s': "s' = s\<lparr>t_redemptions := xs,
            t_merits := t_merits s @ [merit_row now (u_id u) gid MS_reward_redeem (Some xid) (- w_cost w)]\<rparr>"
    and b: "b = fst (balance_for_sub (u_id u) gid s')"
    by (rule redeem_parts [OF assms]) blast
  have "fst (balance_for_sub sid g s') = fst (balance_for_sub sid g s) +
      (if u_id u = sid \<and> gid = g then - w_cost w else 0)" for sid g
    unfolding s' by (rule balance_after_credit)
  with w b show ?thesis by (intro exI [of _ gid] exI [of _ w]) auto
qed

section \<open>A closed example\<close>

definition tidy_up :: task_in where
  "tidy_up = \<lparr>ti_title = ''tidy'', ti_description = None, ti_due_at = None, ti_points_on_complete = 2,
     ti_points_on_miss = - 1\<rparr>"

definition todo :: task where
  "todo = new_task 500 1 12 10 tidy_up"

definition sent_in :: task where
  "sent_in = todo\<lparr>k_status := TS_submitted, k_note := None, k_evidence_r2_key := None,
     k_submitted_at := Some 2, k_updated_at := 2\<rparr>"

definition checked :: task where
  "checked = sent_in\<lparr>k_status := TS_approved, k_reviewed_at := Some 3, k_reviewed_by := Some 11, k_updated_at := 3\<rparr>"

definition with_task :: "task \<Rightarrow> merit_event list \<Rightarrow> db" where
  "with_task t ms = world\<lparr>t_tasks := [t], t_merits := ms\<rparr>"

lemma todo_simps [simp]:
  "k_id todo = 500" "k_sub_id todo = 12" "k_goddess_id todo = 10" "k_status todo = TS_open"
  "k_id sent_in = 500" "k_sub_id sent_in = 12" "k_goddess_id sent_in = 10" "k_status sent_in = TS_submitted"
  "k_id checked = 500" "k_status checked = TS_approved"
  by (simp_all add: checked_def sent_in_def todo_def new_task_def)

lemma with_task_simps [simp]:
  "has_world (with_task t ms)" "t_tasks (with_task t ms) = [t]" "t_merits (with_task t ms) = ms"
  "t_occurrences (with_task t ms) = []" "t_tasks world = []" "t_occurrences world = []" "t_rewards world = []"
  by (simp_all add: with_task_def has_world_def world_def empty_db_def)

lemma run_sample: "\<exists>e. activity\<^sup>*\<^sup>* world (with_task checked [e])"
proof -
  have "create_task 500 1 dom_user 12 tidy_up world = Inr (with_task todo [], todo)"
    by (simp add: create_task_def require_sub_under_goddess_def Let_def create_task_row_def insert_row_def
        todo_def with_task_def)
  then have 1: "activity world (with_task todo [])"
    by (rule task_created) (simp add: unused_task_def task_status_at_def credits_of_def)
  have "submit_task 2 sub_user 500 None None (with_task todo []) = Inr (with_task sent_in [], sent_in)"
    by (simp add: submit_task_def get_task_def Let_def update_task_row_def sent_in_def) (simp add: with_task_def)
  then have 2: "activity (with_task todo []) (with_task sent_in [])" by (rule task_submitted)
  have "approve_task 3 dom_user 500 (with_task sent_in []) =
      Inr (with_task checked [merit_row 3 12 10 MS_task_complete (Some 500) (k_points_on_complete checked)], checked)"
    by (simp add: approve_task_def owned_task_def get_task_def Let_def update_task_row_def record_task_complete_def
        insert_idempotent_def merit_source_exists_def checked_def) (simp add: with_task_def)
  then have "activity (with_task sent_in [])
      (with_task checked [merit_row 3 12 10 MS_task_complete (Some 500) (k_points_on_complete checked)])"
    by (rule task_approved)
  with 1 2 show ?thesis by (meson converse_rtranclp_into_rtranclp rtranclp.rtrancl_refl)
qed

lemma done_credited_once_witness:
  "\<exists>s. activity\<^sup>*\<^sup>* world s \<and> t_tasks s = [checked] \<and> credits_of MS_task_complete s 500 = 1"
proof -
  obtain e where run: "activity\<^sup>*\<^sup>* world (with_task checked [e])" using run_sample by blast
  from done_credited_once [OF run] run show ?thesis by (intro exI [of _ "with_task checked [e]"]) simp
qed

definition massage :: reward_tier where
  "massage = \<lparr>w_id = 600, w_goddess_id = 10, w_name = ''rest'', w_description = None, w_cost = 3,
     w_active = True, w_created_at = 0, w_updated_at = 0\<rparr>"

definition earned :: db where
  "earned = world\<lparr>t_rewards := [massage], t_merits := [merit_row 0 12 10 MS_task_complete (Some 7) 5]\<rparr>"

lemma redeem_sample: "\<exists>s' x b. redeem_reward 700 9 sub_user 600 earned = Inr (s', x, b)"
  by (simp add: redeem_reward_def get_reward_def earned_def massage_def balance_for_sub_def merits_of_def
      merit_row_def insert_idempotent_def merit_source_exists_def Let_def)

lemma redeem_spends_cost_witness:
  "\<exists>s' x. redeem_reward 700 9 sub_user 600 earned = Inr (s', x, 2)"
proof -
  obtain s' x b where r: "redeem_reward 700 9 sub_user 600 earned = Inr (s', x, b)"
    using redeem_sample by blast
  have "b = 2" using redeem_spends_cost [OF r]
    by (auto simp: earned_def massage_def balance_for_sub_def merits_of_def merit_row_def)
  with r show ?thesis by blast
qed

end
