(* ===== verification/People.thy ===== *)
theory People
  imports System Outcomes Activities Profiles
begin

text \<open>
  What the profiles promise over whole runs: the request system of the profiles beside the one
  of the money side, the history of the ownership status, the life of a change request, and
  the emergency stop.
\<close>

section \<open>The requests\<close>

inductive profile_request :: "store \<Rightarrow> store \<Rightarrow> bool" where
  money: "request (core s) c \<Longrightarrow> profile_request s (s\<lparr>core := c\<rparr>)"
| works: "activity (core s) c \<Longrightarrow> profile_request s (s\<lparr>core := c\<rparr>)"
| signed_up: "signup_with_profile h uid now raw token p s = Inr (s', tokens) \<Longrightarrow>
    profile_of uid s = None \<Longrightarrow> profile_request s s'"
| status_changed: "change_ownership_status eid now u sid to_status reason s = Inr (s', out) \<Longrightarrow> profile_request s s'"
| panicked: "trigger_panic h eid now u password s = Inr (s', out) \<Longrightarrow> profile_request s s'"
| change_asked: "request_change rid now u p s = Inr (s', r) \<Longrightarrow>
    fetch rq_id rid (t_change_requests s) = None \<Longrightarrow> profile_request s s'"
| change_approved: "approve_free now rid u s = Inr (s', r) \<Longrightarrow> profile_request s s'"
| fee_set: "set_fee rid u fee s = Inr (s', r) \<Longrightarrow> profile_request s s'"
| fee_accepted: "accept_fee did now rid u mid s = Inr (s', r) \<Longrightarrow> profile_request s s'"
| change_rejected: "reject_change_request now rid u reason s = Inr (s', r) \<Longrightarrow> profile_request s s'"
| identity_updated: "update_identity rid now u q s = Inr (s', r') \<Longrightarrow>
    fetch rq_id rid (t_change_requests s) = None \<Longrightarrow> profile_request s s'"
| handle_updated: "profile_request s (update_payment_handle u handle s)"
| theme_updated: "profile_request s (update_theme_preference u theme s)"
| edited: "goddess_edit_sub u sid f l a s = Inr s' \<Longrightarrow> profile_request s s'"

section \<open>The history of the ownership status\<close>

fun status_path :: "ownership_status \<Rightarrow> status_event list \<Rightarrow> ownership_status \<Rightarrow> bool" where
  "status_path x [] y \<longleftrightarrow> x = y"
| "status_path x (e # es) y \<longleftrightarrow>
     se_from_status e = x \<and> can_transition x (se_to_status e) \<and> status_path (se_to_status e) es y"

lemma status_path_snoc:
  "status_path x (es @ [e]) z \<longleftrightarrow>
     status_path x es (se_from_status e) \<and> can_transition (se_from_status e) (se_to_status e) \<and> z = se_to_status e"
  by (induction x es z rule: status_path.induct) auto

definition history_of :: "uuid \<Rightarrow> store \<Rightarrow> status_event list" where
  "history_of uid s = filter (\<lambda>e. se_sub_id e = uid) (t_status_events s)"

definition history_agrees :: "uuid \<Rightarrow> store \<Rightarrow> bool" where
  "history_agrees uid s \<longleftrightarrow> (case profile_of uid s of
      None \<Rightarrow> history_of uid s = []
    | Some p \<Rightarrow> status_path OW_free (history_of uid s) (sp_ownership_status p))"

lemma can_always_release: "x \<noteq> OW_released \<Longrightarrow> can_transition x OW_released"
  by (cases x) (simp_all add: can_transition_def)

lemma history_kept:
  "t_profiles s' = t_profiles s \<Longrightarrow> t_status_events s' = t_status_events s \<Longrightarrow> history_agrees uid s \<Longrightarrow> history_agrees uid s'"
  unfolding history_agrees_def profile_of_def history_of_def by (auto split: option.splits)

lemma history_core [simp]: "history_agrees uid (s\<lparr>core := c\<rparr>) = history_agrees uid s"
  by (simp add: history_agrees_def profile_of_def history_of_def cong: option.case_cong)

lemma history_same_status:
  assumes "t_profiles s' = modify sp_user_id u f (t_profiles s)" "t_status_events s' = t_status_events s"
    "\<And>r. sp_user_id (f r) = sp_user_id r \<and> sp_ownership_status (f r) = sp_ownership_status r" "history_agrees uid s"
  shows "history_agrees uid s'"
  using assms by (auto simp: history_agrees_def profile_of_def history_of_def profiles.get_upd split: option.splits)

lemma history_moved:
  assumes "profile_of sid s = Some p" "can_transition (sp_ownership_status p) y"
    "t_profiles s' = modify sp_user_id sid f (t_profiles s)" "t_status_events s' = t_status_events s @ [e]"
    "\<And>r. sp_user_id (f r) = sp_user_id r" "sp_ownership_status (f p) = y"
    "se_sub_id e = sid" "se_from_status e = sp_ownership_status p" "se_to_status e = y"
    "history_agrees uid s"
  shows "history_agrees uid s'"
  using assms
  by (auto simp: history_agrees_def profile_of_def history_of_def profiles.get_upd status_path_snoc split: option.splits)

lemma patched_profile_simps [simp]:
  "sp_user_id (patched_profile p now r) = sp_user_id r"
  "sp_ownership_status (patched_profile p now r) = override (pp_ownership_status p) (sp_ownership_status r)"
  by (simp_all add: patched_profile_def)

lemma get_profile_Inr [res_simps]: "get_profile uid s = Inr p \<longleftrightarrow> profile_of uid s = Some p"
  by (auto simp: get_profile_def res_simps)

lemma upsert_profile_Inr [res_simps]:
  "upsert_profile now uid p s = Inr (s', r') \<longleftrightarrow>
     (\<exists>r. profile_of uid s = Some r \<and> r' = patched_profile p now r \<and>
        s' = s\<lparr>t_profiles := modify sp_user_id uid (patched_profile p now) (t_profiles s)\<rparr>)"
  by (auto simp: upsert_profile_def res_simps)

lemma save_change_request_frame [simp]:
  "core (save_change_request rid f s) = core s" "t_profiles (save_change_request rid f s) = t_profiles s"
  "t_status_events (save_change_request rid f s) = t_status_events s"
  "t_change_requests (save_change_request rid f s) = modify rq_id rid f (t_change_requests s)"
  "core (create_change_request r s) = core s" "t_profiles (create_change_request r s) = t_profiles s"
  "t_status_events (create_change_request r s) = t_status_events s"
  "t_change_requests (create_change_request r s) = insert_row r (t_change_requests s)"
  by (simp_all add: save_change_request_def create_change_request_def)

lemma history_requests [simp]:
  "history_agrees uid (save_change_request rid f s) = history_agrees uid s"
  "history_agrees uid (create_change_request r s) = history_agrees uid s"
  by (simp_all add: history_agrees_def profile_of_def history_of_def cong: option.case_cong)

lemma update_identity_frame:
  assumes "update_identity rid now u q s = Inr (s', out)"
  obtains f where "t_profiles s' = modify sp_user_id (u_id u) f (t_profiles s) \<or> t_profiles s' = t_profiles s"
    "\<forall>r. sp_user_id (f r) = sp_user_id r \<and> sp_ownership_status (f r) = sp_ownership_status r"
    "t_status_events s' = t_status_events s"
    "t_change_requests s' = t_change_requests s \<or>
       (\<exists>r. t_change_requests s' = insert_row r (t_change_requests s) \<and> rq_id r = rid \<and> rq_status r = RS_pending)"
  using assms
  by (intro that [of "patched_profile (no_patch\<lparr>pp_gender_id := id_gender_id q\<rparr>) now"])
    (auto simp: update_identity_def res_simps Let_def no_patch_def pending_request_def split: option.splits if_splits)

lemma trigger_panic_parts:
  assumes "trigger_panic h eid now u password s = Inr (s', out)"
  obtains c1 paused c2 cancelled where "verify_password h password (u_password_hash u)"
    "pause_all_rituals now (u_id u) (core s) = (c1, paused)" "cancel_pending_tasks now (u_id u) c1 = (c2, cancelled)"
    "u_goddess_id u = None \<and> s' = s\<lparr>core := c2\<rparr> \<and> \<not> po_released out \<or>
     (\<exists>gid s2 g. u_goddess_id u = Some gid \<and>
        soft_release eid now (u_id u) gid (s\<lparr>core := c2\<rparr>) = (s2, po_released out) \<and>
        s' = s2\<lparr>core := notify_opt g NT_sub_panic (Some (u_id u)) None (core s2)\<rparr>)"
    "po_paused_rituals out = paused" "po_cancelled_tasks out = cancelled"
proof -
  obtain c1 paused where 1: "pause_all_rituals now (u_id u) (core s) = (c1, paused)" by fastforce
  obtain c2 cancelled where 2: "cancel_pending_tasks now (u_id u) c1 = (c2, cancelled)" by fastforce
  show ?thesis
    using assms 1 2
    by (intro that [OF _ 1 2])
      (auto simp: trigger_panic_def res_simps Let_def case_prod_beta prod_eq_iff split: option.splits)
qed

lemma soft_release_cases:
  assumes "soft_release eid now sid gid s = (s', b)"
  shows "s' = s \<and> \<not> b \<and> (profile_of sid s = None \<or> map_option sp_ownership_status (profile_of sid s) = Some OW_released) \<or>
    (\<exists>p e. b \<and> profile_of sid s = Some p \<and> sp_ownership_status p \<noteq> OW_released \<and>
       s' = s\<lparr>t_profiles := modify sp_user_id sid
                (\<lambda>r. r\<lparr>sp_ownership_status := OW_released, sp_updated_at := Some now\<rparr>) (t_profiles s),
              t_status_events := t_status_events s @ [e]\<rparr> \<and>
       se_sub_id e = sid \<and> se_from_status e = sp_ownership_status p \<and> se_to_status e = OW_released)"
  using assms
  by (auto simp: soft_release_def create_status_event_def Let_def split: option.splits if_splits)

lemma request_keeps_history:
  assumes "profile_request s s'" "\<forall>uid. history_agrees uid s"
  shows "history_agrees uid s'"
  using assms(1)
proof (cases rule: profile_request.cases)
  case (signed_up h k now raw token p tokens)
  then obtain row where "t_profiles s' = insert_row row (t_profiles s)" "sp_user_id row = k"
      "sp_ownership_status row = OW_free" "t_status_events s' = t_status_events s"
    by (auto simp: signup_with_profile_def default_profile_def res_simps Let_def)
  then show ?thesis
    using spec [OF assms(2), of uid] signed_up(2) profiles.get_add [of row "t_profiles s" uid]
    by (auto simp: history_agrees_def profile_of_def history_of_def split: option.splits)
next
  case (status_changed eid now u sid to_status reason out)
  then obtain p gid e where p: "profile_of sid s = Some p" "can_transition (sp_ownership_status p) to_status"
      and s': "s' = s\<lparr>t_profiles := modify sp_user_id sid (patched_profile (no_patch\<lparr>pp_ownership_status := Some to_status\<rparr>) now)
               (t_profiles s), t_status_events := t_status_events s @ [e]\<rparr>"
      and e: "se_sub_id e = sid" "se_from_status e = sp_ownership_status p" "se_to_status e = to_status"
    by (auto simp: change_ownership_status_def create_status_event_def res_simps Let_def)
  show ?thesis
    by (rule history_moved [OF p _ _ _ _ e spec [OF assms(2)],
          where f = "patched_profile (no_patch\<lparr>pp_ownership_status := Some to_status\<rparr>) now"])
      (simp_all add: s')
next
  case (panicked h eid now u password out)
  obtain c1 paused c2 cancelled where parts:
    "u_goddess_id u = None \<and> s' = s\<lparr>core := c2\<rparr> \<and> \<not> po_released out \<or>
     (\<exists>gid s2 g. u_goddess_id u = Some gid \<and>
        soft_release eid now (u_id u) gid (s\<lparr>core := c2\<rparr>) = (s2, po_released out) \<and>
        s' = s2\<lparr>core := notify_opt g NT_sub_panic (Some (u_id u)) None (core s2)\<rparr>)"
    by (rule trigger_panic_parts [OF panicked])
  then show ?thesis
  proof (elim disjE exE conjE)
    fix gid s2 g
    assume r: "soft_release eid now (u_id u) gid (s\<lparr>core := c2\<rparr>) = (s2, po_released out)"
      and s': "s' = s2\<lparr>core := notify_opt g NT_sub_panic (Some (u_id u)) None (core s2)\<rparr>"
    from soft_release_cases [OF r] show ?thesis
    proof (elim disjE exE conjE)
      fix p e
      assume p: "profile_of (u_id u) (s\<lparr>core := c2\<rparr>) = Some p" "sp_ownership_status p \<noteq> OW_released"
        and s2: "s2 = s\<lparr>core := c2, t_profiles := modify sp_user_id (u_id u)
                (\<lambda>r. r\<lparr>sp_ownership_status := OW_released, sp_updated_at := Some now\<rparr>) (t_profiles (s\<lparr>core := c2\<rparr>)),
              t_status_events := t_status_events (s\<lparr>core := c2\<rparr>) @ [e]\<rparr>"
        and e: "se_sub_id e = u_id u" "se_from_status e = sp_ownership_status p" "se_to_status e = OW_released"
      from p(1) have "profile_of (u_id u) s = Some p" by (simp add: profile_of_def)
      then show ?thesis
        by (rule history_moved [OF _ can_always_release [OF p(2)] _ _ _ _ e spec [OF assms(2)],
              where f = "\<lambda>r. r\<lparr>sp_ownership_status := OW_released, sp_updated_at := Some now\<rparr>"])
          (simp_all add: s' s2)
    qed (use assms(2) s' in auto)
  qed (use assms(2) in auto)
next
  case (identity_updated rid now u q r)
  obtain f where "t_profiles s' = modify sp_user_id (u_id u) f (t_profiles s) \<or> t_profiles s' = t_profiles s"
    "\<forall>r. sp_user_id (f r) = sp_user_id r \<and> sp_ownership_status (f r) = sp_ownership_status r"
    "t_status_events s' = t_status_events s"
    "t_change_requests s' = t_change_requests s \<or>
       (\<exists>r. t_change_requests s' = insert_row r (t_change_requests s) \<and> rq_id r = rid \<and> rq_status r = RS_pending)"
    by (rule update_identity_frame [OF identity_updated(1)])
  then show ?thesis
    using spec [OF assms(2), of uid] history_kept [of s' s uid] history_same_status [of s' "u_id u" f s uid] by auto
next
  case (fee_accepted did now rid u mid r)
  then have "t_profiles s' = t_profiles s \<and> t_status_events s' = t_status_events s"
    by (auto simp: accept_fee_def res_simps Let_def)
  with assms(2) show ?thesis by (auto intro!: history_kept [of s' s])
next
  case (change_approved now rid u r)
  then have "t_profiles s' = t_profiles s \<and> t_status_events s' = t_status_events s"
    by (auto simp: approve_free_def apply_diff_def res_simps Let_def)
  with assms(2) show ?thesis by (auto intro!: history_kept [of s' s])
qed (use assms(2) in \<open>auto simp: request_change_def set_fee_def reject_change_request_def
    goddess_edit_sub_def update_payment_handle_def update_theme_preference_def res_simps Let_def\<close>)

lemma run_keeps_history:
  "profile_request\<^sup>*\<^sup>* s s' \<Longrightarrow> \<forall>uid. history_agrees uid s \<Longrightarrow> history_agrees uid s'"
  by (induction arbitrary: uid rule: rtranclp_induct) (auto dest: request_keeps_history)

text \<open>
  C17: The status history of a sub explains its ownership status. Whatever requests are made,
  from a state where all subs are free and nothing is recorded yet: the recorded events of a
  sub, in their order, lead from free to the status its profile has now, each event starts
  where the one before ended, and each is a permitted transition, those of the emergency stop
  included.
\<close>

theorem status_history:
  assumes "profile_request\<^sup>*\<^sup>* s s'" "t_status_events s = []"
    "\<forall>p \<in> set (t_profiles s). sp_ownership_status p = OW_free" "profile_of uid s' = Some p"
  shows "status_path OW_free (history_of uid s') (sp_ownership_status p)"
proof -
  have "\<forall>uid. history_agrees uid s"
    using assms(2,3) fetch_SomeD [of sp_user_id _ "t_profiles s"]
    by (auto simp: history_agrees_def history_of_def profile_of_def split: option.splits)
  from run_keeps_history [OF assms(1) this, of uid] assms(4) show ?thesis
    by (simp add: history_agrees_def)
qed

section \<open>The life of a change request\<close>

inductive change_edge :: "change_request_status \<Rightarrow> change_request_status \<Rightarrow> bool" where
  "change_edge RS_pending RS_approved"
| "change_edge RS_pending RS_rejected"
| "change_edge RS_pending RS_awaiting_fee_payment"
| "change_edge RS_awaiting_fee_payment RS_rejected"

inductive_simps change_edge_simps [simp]:
  "change_edge RS_pending y" "change_edge RS_awaiting_fee_payment y" "change_edge RS_approved y"
  "change_edge RS_rejected y" "change_edge RS_cancelled y"

code_pred change_edge .

definition change_request_at :: "store \<Rightarrow> uuid \<Rightarrow> change_request_status option" where
  "change_request_at s rid = map_option rq_status (fetch rq_id rid (t_change_requests s))"

definition change_lawful :: "store \<Rightarrow> store \<Rightarrow> uuid \<Rightarrow> bool" where
  "change_lawful s s' k \<longleftrightarrow> (\<forall>x. change_request_at s k = Some x \<longrightarrow>
     (\<exists>y. change_request_at s' k = Some y \<and> (y = x \<or> change_edge x y)))"

lemma change_quiet: "t_change_requests s' = t_change_requests s \<Longrightarrow> change_lawful s s' k"
  by (auto simp: change_lawful_def change_request_at_def)

lemma change_added:
  "t_change_requests s' = insert_row r (t_change_requests s) \<Longrightarrow> fetch rq_id (rq_id r) (t_change_requests s) = None \<Longrightarrow>
   change_lawful s s' k"
  by (auto simp: change_lawful_def change_request_at_def change_requests.get_add)

lemma change_moved:
  "t_change_requests s' = modify rq_id rid f (t_change_requests s) \<Longrightarrow>
   fetch rq_id rid (t_change_requests s) = Some r \<Longrightarrow> (\<And>r. rq_id (f r) = rq_id r) \<Longrightarrow>
   rq_status (f r) = rq_status r \<or> change_edge (rq_status r) (rq_status (f r)) \<Longrightarrow> change_lawful s s' k"
  by (auto simp: change_lawful_def change_request_at_def change_requests.get_upd)

lemma get_change_request_Inr [res_simps]:
  "get_change_request rid s = Inr r \<longleftrightarrow> fetch rq_id rid (t_change_requests s) = Some r"
  by (auto simp: get_change_request_def res_simps)

lemma resolved_simps [simp]:
  "rq_id (resolved_request st nt now r) = rq_id r" "rq_status (resolved_request st nt now r) = st"
  "rq_id (fee_request fee r) = rq_id r" "rq_status (fee_request fee r) = RS_awaiting_fee_payment"
  "rq_id (pending_request rid now sid p) = rid"
  by (simp_all add: resolved_request_def fee_request_def pending_request_def)

lemma soft_release_requests: "soft_release eid now sid gid s = (s', b) \<Longrightarrow> t_change_requests s' = t_change_requests s"
  using soft_release_cases [of eid now sid gid s s' b] by auto

lemma request_moves_change:
  assumes "profile_request s s'"
  shows "change_lawful s s' k"
  using assms
proof (cases rule: profile_request.cases)
  case (panicked h eid now u password out)
  obtain c1 paused c2 cancelled where
    "u_goddess_id u = None \<and> s' = s\<lparr>core := c2\<rparr> \<and> \<not> po_released out \<or>
     (\<exists>gid s2 g. u_goddess_id u = Some gid \<and>
        soft_release eid now (u_id u) gid (s\<lparr>core := c2\<rparr>) = (s2, po_released out) \<and>
        s' = s2\<lparr>core := notify_opt g NT_sub_panic (Some (u_id u)) None (core s2)\<rparr>)"
    by (rule trigger_panic_parts [OF panicked])
  then show ?thesis by (intro change_quiet) (auto dest: soft_release_requests)
next
  case (change_asked rid now u p r)
  then show ?thesis
    by (intro change_added [where r = "pending_request rid now (u_id u) p"])
      (auto simp: request_change_def res_simps Let_def)
next
  case (change_approved now rid u r)
  then obtain r0 where "fetch rq_id rid (t_change_requests s) = Some r0" "rq_status r0 = RS_pending"
      "t_change_requests s' = modify rq_id rid (resolved_request RS_approved None now) (t_change_requests s)"
    by (auto simp: approve_free_def apply_diff_def res_simps Let_def)
  then show ?thesis by (intro change_moved [where s = s and rid = rid and r = r0
        and f = "resolved_request RS_approved None now"]) auto
next
  case (fee_set rid u fee r)
  then obtain r0 where "fetch rq_id rid (t_change_requests s) = Some r0" "rq_status r0 = RS_pending"
      "t_change_requests s' = modify rq_id rid (fee_request (numeric_column 2 fee)) (t_change_requests s)"
    by (auto simp: set_fee_def res_simps Let_def)
  then show ?thesis by (intro change_moved [where s = s and rid = rid and r = r0
        and f = "fee_request (numeric_column 2 fee)"]) auto
next
  case (fee_accepted did now rid u mid r)
  then obtain r0 where "fetch rq_id rid (t_change_requests s) = Some r0"
      "t_change_requests s' = modify rq_id rid (\<lambda>r. r\<lparr>rq_fee_payment_id := Some did\<rparr>) (t_change_requests s)"
    by (auto simp: accept_fee_def res_simps Let_def)
  then show ?thesis by (intro change_moved [where s = s and rid = rid and r = r0
        and f = "\<lambda>r. r\<lparr>rq_fee_payment_id := Some did\<rparr>"]) auto
next
  case (change_rejected now rid u reason r)
  then obtain r0 where "fetch rq_id rid (t_change_requests s) = Some r0" 
      "rq_status r0 \<in> {RS_pending, RS_awaiting_fee_payment}"
      "t_change_requests s' = modify rq_id rid (resolved_request RS_rejected reason now) (t_change_requests s)"
    by (auto simp: reject_change_request_def res_simps Let_def)
  then show ?thesis by (intro change_moved [where s = s and rid = rid and r = r0
        and f = "resolved_request RS_rejected reason now"]) auto
next
  case (identity_updated rid now u q r)
  obtain f where "t_profiles s' = modify sp_user_id (u_id u) f (t_profiles s) \<or> t_profiles s' = t_profiles s"
    "\<forall>r. sp_user_id (f r) = sp_user_id r \<and> sp_ownership_status (f r) = sp_ownership_status r"
    "t_status_events s' = t_status_events s"
    "t_change_requests s' = t_change_requests s \<or>
       (\<exists>r. t_change_requests s' = insert_row r (t_change_requests s) \<and> rq_id r = rid \<and> rq_status r = RS_pending)"
    by (rule update_identity_frame [OF identity_updated(1)])
  with identity_updated(2) show ?thesis by (auto intro: change_quiet change_added)
qed (auto intro!: change_quiet simp: signup_with_profile_def change_ownership_status_def create_status_event_def
    update_payment_handle_def update_theme_preference_def goddess_edit_sub_def res_simps Let_def)

interpretation change_life: lifecycle profile_request change_request_at change_edge
  using request_moves_change by unfold_locales (auto simp: change_lawful_def)

text \<open>
  A change request with a fee is never carried out. Once the goddess has set a fee, no
  request of the program, not even the validation of the payment the sub declared for it,
  approves the change: it waits for its fee for ever or is rejected.
\<close>

theorem fee_request_never_approved:
  assumes "profile_request\<^sup>*\<^sup>* s s'" "change_request_at s rid = Some RS_awaiting_fee_payment"
  shows "change_request_at s' rid = Some RS_awaiting_fee_payment \<or> change_request_at s' rid = Some RS_rejected"
proof -
  have "\<exists>y. change_request_at s' rid = Some y \<and> y \<in> {RS_awaiting_fee_payment, RS_rejected}"
    by (rule change_life.run_keeps_closed [OF _ assms]) auto
  then show ?thesis by auto
qed

section \<open>The emergency stop\<close>

lemma filter_map_same: "(\<And>x. p (f x) = p x) \<Longrightarrow> (\<And>x. p x \<Longrightarrow> f x = x) \<Longrightarrow> filter p (map f xs) = filter p xs"
  by (induction xs) auto

lemma ball_map: "(\<And>x. P (f x)) \<Longrightarrow> \<forall>y \<in> set (map f xs). P y"
  by auto

lemma pause_facts:
  assumes "pause_all_rituals now sid s = (s', n)"
  shows "\<forall>r \<in> set (t_rituals s'). i_sub_id r = sid \<longrightarrow> i_paused r"
    "filter (\<lambda>r. i_sub_id r \<noteq> sid) (t_rituals s') = filter (\<lambda>r. i_sub_id r \<noteq> sid) (t_rituals s)"
    "t_tasks s' = t_tasks s" "t_occurrences s' = t_occurrences s" "t_users s' = t_users s"
proof -
  let ?f = "\<lambda>r. if i_sub_id r = sid \<and> \<not> i_paused r then r\<lparr>i_paused := True, i_updated_at := now\<rparr> else r"
  have s': "s' = s\<lparr>t_rituals := map ?f (t_rituals s)\<rparr>"
    using assms unfolding pause_all_rituals_def Let_def prod.inject by (elim conjE) (rule sym)
  have t: "t_rituals s' = map ?f (t_rituals s)" unfolding s' by simp
  show "\<forall>r \<in> set (t_rituals s'). i_sub_id r = sid \<longrightarrow> i_paused r"
    unfolding t by (rule ball_map) simp
  show "filter (\<lambda>r. i_sub_id r \<noteq> sid) (t_rituals s') = filter (\<lambda>r. i_sub_id r \<noteq> sid) (t_rituals s)"
    unfolding t by (rule filter_map_same) auto
  show "t_tasks s' = t_tasks s" "t_occurrences s' = t_occurrences s" "t_users s' = t_users s"
    unfolding s' by simp_all
qed

lemma cancel_facts:
  assumes "cancel_pending_tasks now sid s = (s', n)"
  shows "\<forall>t \<in> set (t_tasks s'). \<not> open_or_submitted sid t"
    "filter (\<lambda>t. k_sub_id t \<noteq> sid) (t_tasks s') = filter (\<lambda>t. k_sub_id t \<noteq> sid) (t_tasks s)"
    "t_rituals s' = t_rituals s" "t_occurrences s' = t_occurrences s" "t_users s' = t_users s"
proof -
  let ?f = "\<lambda>t. if open_or_submitted sid t then t\<lparr>k_status := TS_cancelled, k_updated_at := now\<rparr> else t"
  have s': "s' = s\<lparr>t_tasks := map ?f (t_tasks s)\<rparr>"
    using assms unfolding cancel_pending_tasks_def prod.inject by (elim conjE) (rule sym)
  have t: "t_tasks s' = map ?f (t_tasks s)" unfolding s' by simp
  show "\<forall>t \<in> set (t_tasks s'). \<not> open_or_submitted sid t"
    unfolding t by (rule ball_map) (simp add: open_or_submitted_def)
  show "filter (\<lambda>t. k_sub_id t \<noteq> sid) (t_tasks s') = filter (\<lambda>t. k_sub_id t \<noteq> sid) (t_tasks s)"
    unfolding t by (rule filter_map_same) (auto simp: open_or_submitted_def)
  show "t_rituals s' = t_rituals s" "t_occurrences s' = t_occurrences s" "t_users s' = t_users s"
    unfolding s' by simp_all
qed

lemma soft_release_outcome:
  assumes "soft_release eid now sid gid s = (s', b)" "profile_of sid s = Some p"
  shows "map_option sp_ownership_status (profile_of sid s') = Some OW_released" "core s' = core s"
  using soft_release_cases [OF assms(1)] assms(2)
  by (auto simp: profile_of_def profiles.get_upd)

text \<open>
  C18: What the emergency stop stops. It needs the password of the sub. Afterwards all rituals of
  the sub are paused, none of its tasks is open or waits for review, and nobody else's rituals
  and tasks are touched; a sub with a goddess has its profile released, a sub without one
  keeps its status. The ritual occurrences are not touched: those of today stay pending, so
  that the pass of the same evening still marks them missed.
\<close>

theorem panic_stops:
  assumes "trigger_panic h eid now u password s = Inr (s', out)"
  shows "verify_password h password (u_password_hash u) \<and>
    (\<forall>r \<in> set (t_rituals (core s')). i_sub_id r = u_id u \<longrightarrow> i_paused r) \<and>
    (\<forall>t \<in> set (t_tasks (core s')). k_sub_id t = u_id u \<longrightarrow> k_status t \<notin> {TS_open, TS_submitted}) \<and>
    filter (\<lambda>r. i_sub_id r \<noteq> u_id u) (t_rituals (core s')) = filter (\<lambda>r. i_sub_id r \<noteq> u_id u) (t_rituals (core s)) \<and>
    filter (\<lambda>t. k_sub_id t \<noteq> u_id u) (t_tasks (core s')) = filter (\<lambda>t. k_sub_id t \<noteq> u_id u) (t_tasks (core s)) \<and>
    (if u_goddess_id u = None then t_profiles s' = t_profiles s
     else \<forall>p. profile_of (u_id u) s = Some p \<longrightarrow>
            map_option sp_ownership_status (profile_of (u_id u) s') = Some OW_released) \<and>
    t_occurrences (core s') = t_occurrences (core s) \<and>
    (\<forall>today m c k. mark_missed_for_today now today (core s') = Inr (c, m) \<longrightarrow>
       (\<exists>oc. fetch o_id k (t_occurrences (core s)) = Some oc \<and> o_sub_id oc = u_id u \<and> o_date oc = today \<and>
             o_status oc = OS_pending) \<longrightarrow>
       occurrence_status_at c k = Some OS_missed)"
proof -
  obtain c1 paused c2 cancelled where pw: "verify_password h password (u_password_hash u)"
    and 1: "pause_all_rituals now (u_id u) (core s) = (c1, paused)"
    and 2: "cancel_pending_tasks now (u_id u) c1 = (c2, cancelled)"
    and rest: "u_goddess_id u = None \<and> s' = s\<lparr>core := c2\<rparr> \<and> \<not> po_released out \<or>
     (\<exists>gid s2 g. u_goddess_id u = Some gid \<and>
        soft_release eid now (u_id u) gid (s\<lparr>core := c2\<rparr>) = (s2, po_released out) \<and>
        s' = s2\<lparr>core := notify_opt g NT_sub_panic (Some (u_id u)) None (core s2)\<rparr>)"
    by (rule trigger_panic_parts [OF assms])
  have core': "t_rituals (core s') = t_rituals c2 \<and> t_tasks (core s') = t_tasks c2 \<and>
      t_occurrences (core s') = t_occurrences c2"
    using rest by (auto dest!: soft_release_cases)
  have occ: "t_occurrences (core s') = t_occurrences (core s)"
    using core' cancel_facts [OF 2] pause_facts [OF 1] by simp
  have profiles: "if u_goddess_id u = None then t_profiles s' = t_profiles s
     else \<forall>p. profile_of (u_id u) s = Some p \<longrightarrow>
            map_option sp_ownership_status (profile_of (u_id u) s') = Some OW_released"
    using rest soft_release_outcome(1) [of eid now "u_id u" _ "s\<lparr>core := c2\<rparr>"]
    by (auto simp: profile_of_def)
  have missed: "occurrence_status_at c k = Some OS_missed"
    if miss: "mark_missed_for_today now today (core s') = Inr (c, m)"
      and oc: "fetch o_id k (t_occurrences (core s)) = Some oc" "o_date oc = today" "o_status oc = OS_pending" for today m c k oc
  proof -
    let ?s1 = "fst (mark_missed_by_date today (core s'))"
    obtain xs where "penalize_missed now xs ?s1 = Inr c"
      using miss by (auto simp: mark_missed_for_today_def Let_def res_simps case_prod_beta)
    then have "t_occurrences c = t_occurrences ?s1"
      using penalize_missed_facts [of now xs ?s1 c MS_task_complete] by simp
    moreover have "fetch o_id k (t_occurrences ?s1) = Some (oc\<lparr>o_status := OS_missed\<rparr>)"
      using oc occ by (simp add: mark_missed_by_date_def Let_def fetch_map)
    ultimately show ?thesis by (simp add: occurrence_status_at_def)
  qed
  show ?thesis
    using pw core' occ profiles missed cancel_facts [OF 2] pause_facts [OF 1]
    by (auto simp: open_or_submitted_def)
qed

section \<open>Closed examples\<close>

definition people :: "db \<Rightarrow> store" where
  "people c = (empty_store c)\<lparr>t_profiles := [default_profile 0 12]\<rparr>"

lemma people_simps [simp]:
  "core (people c) = c" "t_profiles (people c) = [default_profile 0 12]" "t_status_events (people c) = []"
  "t_change_requests (people c) = []" "sp_user_id (default_profile now k) = k"
  "sp_ownership_status (default_profile now k) = OW_free" "profile_of 12 (people c) = Some (default_profile 0 12)"
  by (simp_all add: people_def default_profile_def profile_of_def)

lemma owned_sample: "\<exists>s' p e. change_ownership_status 800 5 dom_user 12 OW_owned None (people world) = Inr (s', p, e) \<and>
    profile_of 12 s' = Some p \<and> sp_ownership_status p = OW_owned \<and> history_of 12 s' = [e]"
  by (simp add: change_ownership_status_def resolve_goddess_owns_sub_def get_profile_def upsert_profile_def
      create_status_event_def can_transition_def Let_def)
    (simp add: profile_of_def history_of_def no_patch_def)

lemma status_history_witness:
  "\<exists>s' e. profile_request\<^sup>*\<^sup>* (people world) s' \<and> history_of 12 s' = [e] \<and>
     se_from_status e = OW_free \<and> se_to_status e = OW_owned"
proof -
  obtain s' p e where s': "change_ownership_status 800 5 dom_user 12 OW_owned None (people world) = Inr (s', p, e)"
      "profile_of 12 s' = Some p" "sp_ownership_status p = OW_owned" "history_of 12 s' = [e]"
    using owned_sample by blast
  then have run: "profile_request\<^sup>*\<^sup>* (people world) s'" by (auto intro: status_changed)
  from status_history [OF run _ _ s'(2)] s' have "se_from_status e = OW_free \<and> se_to_status e = OW_owned" by simp
  with run s'(4) show ?thesis by blast
qed

text \<open>A change with a fee whose payment the goddess validates.\<close>

definition renaming :: profile_change_request where
  "renaming = (fee_request 5 (pending_request 900 1 12 (name_request (Some ''new''))))\<lparr>rq_fee_payment_id := Some 300\<rparr>"

definition fee_waiting :: store where
  "fee_waiting = (people (waiting PC_profile_change_fee None world))\<lparr>t_change_requests := [renaming]\<rparr>"

lemma fee_sample:
  "\<exists>c out. validate 400 9 dom_user 300 None (waiting PC_profile_change_fee None world) = Inr (c, out) \<and>
     (\<exists>d. declaration_at 300 c = Some d \<and> d_status d = PS_validated)"
  by (simp add: declaration_at_def save_declaration_def validate_def owned_declaration_def declaration_or_404_def check_category_for_sub_def Let_def
      settle_def emit_allocation_def category_to_allocation_target_def create_allocation_def insert_row_def
      debt_payment_categories_def payment_to_out_def load_allocation_def)

lemma fee_request_never_approved_witness:
  "\<exists>s' d. profile_request\<^sup>*\<^sup>* fee_waiting s' \<and> declaration_at 300 (core s') = Some d \<and>
     d_status d = PS_validated \<and> rq_fee_payment_id renaming = Some 300 \<and>
     change_request_at s' 900 \<noteq> Some RS_approved"
proof -
  obtain c out where v: "validate 400 9 dom_user 300 None (core fee_waiting) = Inr (c, out)"
      and valid: "\<exists>d. declaration_at 300 c = Some d \<and> d_status d = PS_validated"
    using fee_sample by (auto simp: fee_waiting_def)
  have "request (core fee_waiting) c"
    by (rule validate_payment [OF v]) (simp add: later_stamp_def fee_waiting_def)
  then have run: "profile_request\<^sup>*\<^sup>* fee_waiting (fee_waiting\<lparr>core := c\<rparr>)" by (auto intro: money)
  have "change_request_at fee_waiting 900 = Some RS_awaiting_fee_payment"
    by (simp add: change_request_at_def fee_waiting_def renaming_def)
  from fee_request_never_approved [OF run this] have "change_request_at (fee_waiting\<lparr>core := c\<rparr>) 900 \<noteq> Some RS_approved"
    by auto
  then show ?thesis using run valid by (auto simp: renaming_def)
qed

definition any_password :: hashing where
  "any_password = \<lparr>hash_token = id, prepare_password = id, argon_hash = id,
     argon_verify = (\<lambda>_ _. V_match), needs_rehash = (\<lambda>_. False)\<rparr>"

definition daily_prayer :: ritual where
  "daily_prayer = \<lparr>i_id = 50, i_sub_id = 12, i_goddess_id = 10, i_title = ''prayer'', i_description = None,
     i_frequency = RF_daily, i_custom_days_bitmask = None, i_deadline_time = None, i_points_on_complete = 1,
     i_points_on_miss = -1, i_requires_proof = False, i_paused = False, i_created_at = 0, i_updated_at = 0\<rparr>"

lemma panic_sample:
  "\<exists>s' out. trigger_panic any_password 801 5 sub_user ''pw'' (people (world\<lparr>t_rituals := [daily_prayer]\<rparr>)) = Inr (s', out)"
proof -
  let ?s = "people (world\<lparr>t_rituals := [daily_prayer]\<rparr>)"
  obtain c1 m where 1: "pause_all_rituals 5 12 (core ?s) = (c1, m)" by fastforce
  obtain c2 n where 2: "cancel_pending_tasks 5 12 c1 = (c2, n)" by fastforce
  obtain s2 b where 3: "soft_release 801 5 12 10 (?s\<lparr>core := c2\<rparr>) = (s2, b)" by fastforce
  have "core s2 = c2" using soft_release_cases [OF 3] by auto
  moreover have "t_users c2 = [dom_user, sub_user]"
    using cancel_facts(5) [OF 2] pause_facts(5) [OF 1] by simp
  ultimately have "goddess_user_of_sub 12 (core s2) = Inr (Some 11)"
    by (simp add: goddess_user_of_sub_def user_by_id_def resolve_goddess_user_id_def)
  with 1 2 3 show ?thesis
    by (simp add: trigger_panic_def verify_password_def verify_password_with_rehash_def any_password_def)
qed

lemma panic_stops_witness:
  "\<exists>s' out. trigger_panic any_password 801 5 sub_user ''pw'' (people (world\<lparr>t_rituals := [daily_prayer]\<rparr>)) = Inr (s', out) \<and>
     map_option sp_ownership_status (profile_of 12 s') = Some OW_released \<and>
     (\<forall>r \<in> set (t_rituals (core s')). i_sub_id r = 12 \<longrightarrow> i_paused r)"
proof -
  obtain s' out where p:
    "trigger_panic any_password 801 5 sub_user ''pw'' (people (world\<lparr>t_rituals := [daily_prayer]\<rparr>)) = Inr (s', out)"
    using panic_sample by blast
  from panic_stops [OF p] p show ?thesis by simp
qed

end
