(* ===== verification/Charts.thy ===== *)
theory Charts
  imports Dashboard
begin

text \<open>
  The series of the goddess dashboard: \<^verbatim>\<open>daos/dashboard_charts_dao.py\<close> and
  \<^verbatim>\<open>controllers/dashboard_charts_controller.py\<close>. Reads only. A month is its year and number, which
  is what the label \<^verbatim>\<open>%Y-%m\<close> shows, in the order of the labels.
\<close>

type_synonym month = "int \<times> int"

section \<open>Revenue by month\<close>

datatype revenue_kind = RV_rolling | RV_one_off | RV_contract

definition rolling_categories :: "payment_category list" where
  "rolling_categories = [PC_rolling]"

definition one_off_categories :: "payment_category list" where
  "one_off_categories = [PC_tribute, PC_entry, PC_profile_change_fee]"

definition contract_categories :: "payment_category list" where
  "contract_categories = [PC_weekly_debt, PC_debt_payment, PC_buyout]"

definition revenue_kind_of :: "payment_category \<Rightarrow> revenue_kind option" where
  "revenue_kind_of c =
     (if c \<in> set rolling_categories then Some RV_rolling
      else if c \<in> set one_off_categories then Some RV_one_off
      else if c \<in> set contract_categories then Some RV_contract
      else None)"

definition prev_month :: "month \<Rightarrow> month" where
  "prev_month ym = (let (year, month) = ym in if month - 1 = 0 then (year - 1, 12) else (year, month - 1))"

fun months_back :: "nat \<Rightarrow> month \<Rightarrow> month list" where
  "months_back 0 ym = []"
| "months_back (Suc n) ym = ym # months_back n (prev_month ym)"

definition month_of_date :: "int \<Rightarrow> month" where
  "month_of_date d = (year_of d, month_of d)"

definition london_month :: "zone \<Rightarrow> datetime \<Rightarrow> month" where
  "london_month z t = month_of_date (as_london_date z t)"

definition chart_months :: "zone \<Rightarrow> datetime \<Rightarrow> month list" where
  "chart_months z now = rev (months_back 12 (london_month z now))"

text \<open>The start of the oldest month, as the query takes it: midnight without a zone, compared with UTC.\<close>

definition chart_start :: "zone \<Rightarrow> datetime \<Rightarrow> datetime" where
  "chart_start z now = (let (year, month) = hd (chart_months z now) in days (date_number year month 1))"

definition revenue_rows :: "zone \<Rightarrow> datetime \<Rightarrow> uuid \<Rightarrow> db \<Rightarrow> (datetime option \<times> rat \<times> payment_category) list" where
  "revenue_rows z now gid s =
     map (\<lambda>d. (d_validated_at d, d_amount d, d_category d))
       (filter (\<lambda>d. d_goddess_id d = gid \<and> d_status d = PS_validated \<and>
          (case d_validated_at d of None \<Rightarrow> False | Some t \<Rightarrow> chart_start z now \<le> t)) (t_declarations s))"

type_synonym bucket = "month \<times> (revenue_kind \<Rightarrow> rat)"

definition add_row :: "zone \<Rightarrow> bucket list \<Rightarrow> datetime option \<times> rat \<times> payment_category \<Rightarrow> bucket list" where
  "add_row z buckets row =
     (let (validated_at, amount, category) = row in
      case validated_at of
        None \<Rightarrow> buckets
      | Some t \<Rightarrow>
          if london_month z t \<notin> fst ` set buckets then buckets
          else (case revenue_kind_of category of
                  None \<Rightarrow> buckets
                | Some k \<Rightarrow> map (\<lambda>(m, v). (m, if m = london_month z t then v(k := ctx (v k + amount)) else v)) buckets))"

definition monthly_revenue :: "zone \<Rightarrow> datetime \<Rightarrow> uuid \<Rightarrow> db \<Rightarrow> (month \<times> rat \<times> rat \<times> rat) list" where
  "monthly_revenue z now gid s =
     (let buckets = foldl (add_row z) (map (\<lambda>m. (m, \<lambda>_. 0)) (chart_months z now)) (revenue_rows z now gid s)
      in map (\<lambda>(m, v). (m, v RV_rolling, v RV_one_off, v RV_contract)) (sort_key fst buckets))"

section \<open>The other series\<close>

definition validated_for :: "uuid \<Rightarrow> db \<Rightarrow> payment_declaration list" where
  "validated_for gid s = filter (\<lambda>d. d_goddess_id d = gid \<and> d_status d = PS_validated) (t_declarations s)"

definition method_type :: "payment_declaration \<Rightarrow> db \<Rightarrow> payment_method_type option" where
  "method_type d s = map_option m_type (fetch m_id (d_method_id d) (t_methods s))"

text \<open>Grouped by the type of the method, largest total first; the order among equal totals is the database's.\<close>

definition method_breakdown :: "uuid \<Rightarrow> db \<Rightarrow> (payment_method_type \<times> rat \<times> nat) list" where
  "method_breakdown gid s =
     (let paid = validated_for gid s in
      sort_key (\<lambda>(t, total, n). - total)
        (map (\<lambda>t. let ds = filter (\<lambda>d. method_type d s = Some t) paid in (t, sum_list (map d_amount ds), length ds))
          (remdups (List.map_filter (\<lambda>d. method_type d s) paid))))"

definition subs_of_goddess :: "uuid \<Rightarrow> db \<Rightarrow> user list" where
  "subs_of_goddess gid s = filter (\<lambda>u. u_goddess_id u = Some gid \<and> u_role u = R_sub) (t_users s)"

definition running_rollings :: "uuid list \<Rightarrow> db \<Rightarrow> rolling_tribute list" where
  "running_rollings subs s = filter (\<lambda>r. r_sub_id r \<in> set subs \<and> \<not> r_paused r) (t_rollings s)"

definition count_sub ::
  "uuid list \<Rightarrow> uuid list \<Rightarrow> (user_status \<times> nat \<times> nat) list \<Rightarrow> user \<Rightarrow> (user_status \<times> nat \<times> nat) list" where
  "count_sub rolling_ids contract_ids counts u =
     (let counts1 = (if u_status u \<in> fst ` set counts then counts else counts @ [(u_status u, 0, 0)])
      in map (\<lambda>(st, a, b). if st = u_status u
               then (st, a + (if u_id u \<in> set rolling_ids then 1 else 0), b + (if u_id u \<in> set contract_ids then 1 else 0))
               else (st, a, b)) counts1)"

definition subs_by_status :: "uuid \<Rightarrow> db \<Rightarrow> (user_status \<times> nat \<times> nat) list" where
  "subs_by_status gid s =
     (let subs = subs_of_goddess gid s; ids = map u_id subs in
      if ids = [] then []
      else
        let rolling_ids = map r_sub_id (running_rollings ids s);
            contract_ids = map c_sub_id (filter (\<lambda>c. c_goddess_id c = gid \<and> c_status c = CS_active \<and> c_sub_id c \<in> set ids) (t_contracts s))
        in foldl (count_sub rolling_ids contract_ids) [] subs)"

definition top_subs :: "uuid \<Rightarrow> nat \<Rightarrow> db \<Rightarrow> (string \<times> string \<times> rat) list" where
  "top_subs gid limit s =
     (let paid = validated_for gid s;
          payers = filter (\<lambda>u. u_role u = R_sub \<and> (\<exists>d \<in> set paid. d_sub_id d = u_id u)) (t_users s)
      in take limit (sort_key (\<lambda>(name, username, total). - total)
           (map (\<lambda>u. (display_name u, u_username u, sum_list (map d_amount (filter (\<lambda>d. d_sub_id d = u_id u) paid)))) payers)))"

definition chart_days :: "zone \<Rightarrow> datetime \<Rightarrow> int list" where
  "chart_days z now = map (\<lambda>i. as_london_date z now - i) (rev [0..29])"

text \<open>Whether a tribute counts as late on a day, from the last payment known now.\<close>

definition late_on :: "zone \<Rightarrow> int \<Rightarrow> rolling_tribute \<Rightarrow> bool" where
  "late_on z day r \<longleftrightarrow> \<not> r_amount r \<le> 0 \<and>
     (case r_last_paid_at r of None \<Rightarrow> True | Some t \<Rightarrow> day - as_london_date z t > 7)"

definition daily_late_counts :: "zone \<Rightarrow> datetime \<Rightarrow> uuid \<Rightarrow> db \<Rightarrow> (int \<times> nat) list" where
  "daily_late_counts z now gid s =
     (let ids = map u_id (filter (\<lambda>u. u_status u = US_active) (subs_of_goddess gid s)) in
      if ids = [] then map (\<lambda>d. (d, 0)) (chart_days z now)
      else let rows = running_rollings ids s in map (\<lambda>d. (d, length (filter (late_on z d) rows))) (chart_days z now))"

definition contract_states :: "uuid \<Rightarrow> db \<Rightarrow> nat \<times> nat \<times> nat" where
  "contract_states gid s =
     (let count = (\<lambda>st. length (filter (\<lambda>c. c_goddess_id c = gid \<and> c_status c = st) (t_contracts s)))
      in (count CS_active, count CS_completed, count CS_breached))"

section \<open>The controller\<close>

record charts_out =
  co_monthly_revenue :: "(month \<times> rat \<times> rat \<times> rat) list"
  co_method_breakdown :: "(payment_method_type \<times> rat \<times> nat) list"
  co_subs_by_status :: "(user_status \<times> nat \<times> nat) list"
  co_top_subs :: "(string \<times> string \<times> rat) list"
  co_daily_late_counts :: "(int \<times> nat) list"
  co_contract_states :: "nat \<times> nat \<times> nat"

definition shown_statuses :: "user_status list" where
  "shown_statuses = [US_pending_entry_tribute, US_active, US_blacklisted]"

definition status_rows :: "(user_status \<times> nat \<times> nat) list \<Rightarrow> (user_status \<times> nat \<times> nat) list" where
  "status_rows status_map =
     map (\<lambda>st. (st, case map_of status_map st of None \<Rightarrow> (0, 0) | Some v \<Rightarrow> v)) shown_statuses @
     filter (\<lambda>(st, v). st \<notin> set shown_statuses) status_map"

definition goddess_charts :: "zone \<Rightarrow> datetime \<Rightarrow> user \<Rightarrow> db \<Rightarrow> charts_out res" where
  "goddess_charts z now goddess_user s =
     attempt (resolve_goddess_id (u_id goddess_user) s) (\<lambda>gid.
     Inr \<lparr>co_monthly_revenue = monthly_revenue z now gid s, co_method_breakdown = method_breakdown gid s,
          co_subs_by_status = status_rows (subs_by_status gid s), co_top_subs = top_subs gid 5 s,
          co_daily_late_counts = daily_late_counts z now gid s, co_contract_states = contract_states gid s\<rparr>)"

section \<open>The revenue is the sum of its payments\<close>

lemma prev_month_less: "prev_month ym < ym"
  by (cases ym) (auto simp: prev_month_def less_prod_def)

lemma months_back_le: "m \<in> set (months_back n ym) \<Longrightarrow> m \<le> ym"
proof (induction n arbitrary: ym)
  case (Suc n)
  from Suc.prems have "m = ym \<or> m \<in> set (months_back n (prev_month ym))" by simp
  then have "m = ym \<or> m \<le> prev_month ym" using Suc.IH [of "prev_month ym"] by blast
  then show ?case using prev_month_less [of ym] by force
qed simp

lemma months_sorted: "sorted (rev (months_back n ym))"
proof (induction n arbitrary: ym)
  case (Suc n)
  have "m \<le> ym" if "m \<in> set (months_back n (prev_month ym))" for m
    using months_back_le [OF that] prev_month_less [of ym] by simp
  then show ?case using Suc.IH [of "prev_month ym"] by (simp add: sorted_append)
qed simp

definition row_amount :: "zone \<Rightarrow> month \<Rightarrow> revenue_kind \<Rightarrow> datetime option \<times> rat \<times> payment_category \<Rightarrow> rat option" where
  "row_amount z m k row =
     (let (validated_at, amount, category) = row in
      if map_option (london_month z) validated_at = Some m \<and> revenue_kind_of category = Some k then Some amount else None)"

definition total :: "rat list \<Rightarrow> rat" where
  "total = foldl (\<lambda>t a. ctx (t + a)) 0"

lemma add_row_map:
  "add_row z (map (\<lambda>m. (m, f m)) ms) row =
     map (\<lambda>m. (m, \<lambda>k. case row_amount z m k row of None \<Rightarrow> f m k | Some a \<Rightarrow> ctx (f m k + a))) ms"
  by (cases row) (auto simp: add_row_def row_amount_def image_iff intro!: ext split: option.splits)

lemma add_rows_map:
  "foldl (add_row z) (map (\<lambda>m. (m, f m)) ms) rows =
     map (\<lambda>m. (m, \<lambda>k. foldl (\<lambda>t a. ctx (t + a)) (f m k) (List.map_filter (row_amount z m k) rows))) ms"
proof (induction rows arbitrary: f)
  case (Cons row rows)
  show ?case
    by (simp add: add_row_map Cons.IH List.map_filter_simps)
      (auto simp: List.map_filter_simps split: option.splits)
qed (simp add: List.map_filter_simps)

text \<open>The amounts that belong to a month and a kind, read off the table of payments.\<close>

definition month_amounts :: "zone \<Rightarrow> datetime \<Rightarrow> uuid \<Rightarrow> db \<Rightarrow> month \<Rightarrow> payment_category list \<Rightarrow> rat list" where
  "month_amounts z now gid s m cats =
     map d_amount (filter (\<lambda>d. d_goddess_id d = gid \<and> d_status d = PS_validated \<and> d_category d \<in> set cats \<and>
       (case d_validated_at d of None \<Rightarrow> False | Some t \<Rightarrow> chart_start z now \<le> t \<and> london_month z t = m)) (t_declarations s))"

definition kind_categories :: "revenue_kind \<Rightarrow> payment_category list" where
  "kind_categories k = (case k of RV_rolling \<Rightarrow> rolling_categories | RV_one_off \<Rightarrow> one_off_categories | RV_contract \<Rightarrow> contract_categories)"

lemma revenue_kind_categories: "revenue_kind_of c = Some k \<longleftrightarrow> c \<in> set (kind_categories k)"
  by (cases c; cases k)
    (simp_all add: revenue_kind_of_def kind_categories_def rolling_categories_def one_off_categories_def contract_categories_def)

lemma row_amounts:
  "List.map_filter (row_amount z m k) (revenue_rows z now gid s) = month_amounts z now gid s m (kind_categories k)"
proof -
  have "List.map_filter (row_amount z m k) (map (\<lambda>d. (d_validated_at d, d_amount d, d_category d))
      (filter (\<lambda>d. d_goddess_id d = gid \<and> d_status d = PS_validated \<and>
         (case d_validated_at d of None \<Rightarrow> False | Some t \<Rightarrow> chart_start z now \<le> t)) ds)) =
    map d_amount (filter (\<lambda>d. d_goddess_id d = gid \<and> d_status d = PS_validated \<and> d_category d \<in> set (kind_categories k) \<and>
       (case d_validated_at d of None \<Rightarrow> False | Some t \<Rightarrow> chart_start z now \<le> t \<and> london_month z t = m)) ds)" for ds
    by (induction ds) (auto simp: List.map_filter_simps row_amount_def revenue_kind_categories split: option.splits)
  then show ?thesis by (simp only: revenue_rows_def month_amounts_def)
qed

text \<open>
  The revenue chart adds up the payments of each month. The one pass over the rows gives,
  for the twelve months up to the London month of now in their order, the sums of the validated
  payments whose London month it is, by kind: rolling tributes, single payments, payments to
  contracts. A payment of another category is in no column, and of the oldest month only those
  count that were validated at or after its midnight in UTC.
\<close>

theorem monthly_revenue_sums:
  "monthly_revenue z now gid s =
     map (\<lambda>m. (m, total (month_amounts z now gid s m [PC_rolling]),
                  total (month_amounts z now gid s m [PC_tribute, PC_entry, PC_profile_change_fee]),
                  total (month_amounts z now gid s m [PC_weekly_debt, PC_debt_payment, PC_buyout])))
       (rev (months_back 12 (london_month z now)))"
proof -
  let ?ms = "chart_months z now"
  have "sort_key fst (foldl (add_row z) (map (\<lambda>m. (m, \<lambda>_. 0)) ?ms) (revenue_rows z now gid s)) =
    foldl (add_row z) (map (\<lambda>m. (m, \<lambda>_. 0)) ?ms) (revenue_rows z now gid s)"
    by (rule sort_key_id_if_sorted) (simp add: add_rows_map comp_def chart_months_def months_sorted)
  then show ?thesis
    by (simp add: monthly_revenue_def add_rows_map row_amounts total_def chart_months_def kind_categories_def
        rolling_categories_def one_off_categories_def contract_categories_def)
qed

section \<open>The sparkline\<close>

lemma late_on_mono: "d \<le> d' \<Longrightarrow> late_on z d r \<Longrightarrow> late_on z d' r"
  by (auto simp: late_on_def split: option.splits)

lemma length_filter_mono: "(\<And>x. P x \<Longrightarrow> Q x) \<Longrightarrow> length (filter P xs) \<le> length (filter Q xs)"
  by (induction xs) auto

lemma chart_days_eq: "chart_days z now = map (\<lambda>i. as_london_date z now - 29 + i) [0..29]"
  by (simp add: chart_days_def upto.simps)

text \<open>
  The count of late tributes never falls along the chart. Each of the thirty days is judged by
  the last payments known now, so from one day of the chart to a later one the count can only grow,
  and it never exceeds the running tributes of the active subs: a past day on which a sub was late
  shows nothing once the sub has paid.
\<close>

theorem daily_late_counts_grow:
  "map fst (daily_late_counts z now gid s) = map (\<lambda>i. as_london_date z now - 29 + i) [0..29] \<and>
   sorted (map snd (daily_late_counts z now gid s)) \<and>
   list_all (\<lambda>(d, n). n \<le> length (running_rollings (map u_id (subs_of_goddess gid s)) s)) (daily_late_counts z now gid s)"
proof -
  let ?ids = "map u_id (filter (\<lambda>u. u_status u = US_active) (subs_of_goddess gid s))"
  have less: "length (filter (late_on z d) (running_rollings ?ids s)) \<le> length (running_rollings (map u_id (subs_of_goddess gid s)) s)" for d
    unfolding running_rollings_def filter_filter by (rule length_filter_mono) auto
  have sorted: "sorted (map f (chart_days z now))" if "\<And>d d'. d \<le> d' \<Longrightarrow> f d \<le> f d'" for f :: "int \<Rightarrow> nat"
    unfolding chart_days_eq by (simp add: sorted_map sorted_wrt_iff_nth_less that)
  show ?thesis
    using less sorted [of "\<lambda>d. length (filter (late_on z d) (running_rollings ?ids s))"] sorted [of "\<lambda>d. 0"]
    by (auto simp: daily_late_counts_def Let_def comp_def chart_days_eq list_all_iff intro: length_filter_mono late_on_mono)
qed

text \<open>In summer time the month begins in London an hour before the query does: a payment of that hour is in no bucket.\<close>

lemma oldest_month_incomplete:
  "chart_months bst (days (date_number 2026 3 15)) ! 0 = (2025, 4)"
  "london_month bst (chart_start bst (days (date_number 2026 3 15)) - 1800000000) = (2025, 4)"
  by code_simp+

section \<open>The counts by status\<close>

definition status_value :: "user_status \<Rightarrow> (user_status \<times> nat \<times> nat) list \<Rightarrow> nat \<times> nat" where
  "status_value st m = (case map_of m st of None \<Rightarrow> (0, 0) | Some v \<Rightarrow> v)"

lemma map_of_bump:
  "map_of (map (\<lambda>(k, a, b). if k = st' then (k, a + (x :: nat), b + (y :: nat)) else (k, a, b)) m) st =
     (if st = st' then map_option (\<lambda>(a, b). (a + x, b + y)) (map_of m st) else map_of m st)"
  by (induction m) auto

lemma count_sub_value:
  "status_value st (count_sub R C m u) =
     (let (a, b) = status_value st m in
      if u_status u = st then (a + (if u_id u \<in> set R then 1 else 0), b + (if u_id u \<in> set C then 1 else 0)) else (a, b))"
proof -
  let ?m = "if u_status u \<in> fst ` set m then m else m @ [(u_status u, 0, 0)]"
  have same: "status_value st ?m = status_value st m"
    by (auto simp: status_value_def map_add_def split: option.splits if_splits)
  obtain m' v where m': "m' = ?m" and v: "map_of m' (u_status u) = Some v"
    by (metis (no_types, lifting) fst_conv image_eqI in_set_conv_decomp map_of_eq_None_iff not_Some_eq)
  have "status_value st (count_sub R C m u) =
    (let (a, b) = status_value st m' in
      if u_status u = st then (a + (if u_id u \<in> set R then 1 else 0), b + (if u_id u \<in> set C then 1 else 0)) else (a, b))"
    unfolding count_sub_def Let_def status_value_def m' [symmetric] map_of_bump using v
    by (cases "st = u_status u") (auto split: option.splits prod.splits)
  then have "status_value st (count_sub R C m u) =
    (let (a, b) = status_value st ?m in
      if u_status u = st then (a + (if u_id u \<in> set R then 1 else 0), b + (if u_id u \<in> set C then 1 else 0)) else (a, b))"
    by (simp only: m')
  then show ?thesis by (simp only: same)
qed

lemma count_subs_value:
  "status_value st (foldl (count_sub R C) m us) =
     (fst (status_value st m) + length (filter (\<lambda>u. u_status u = st \<and> u_id u \<in> set R) us),
      snd (status_value st m) + length (filter (\<lambda>u. u_status u = st \<and> u_id u \<in> set C) us))"
  by (induction us arbitrary: m) (auto simp: count_sub_value Let_def split: prod.splits)

lemma image_filter_iff:
  "(\<And>r. r \<in> T \<Longrightarrow> f r = k \<Longrightarrow> Q r \<longleftrightarrow> P r) \<Longrightarrow> k \<in> f ` {r \<in> T. Q r} \<longleftrightarrow> (\<exists>r \<in> T. f r = k \<and> P r)"
  by blast

text \<open>Each of the three rows that are always shown counts the subs of its status with a running tribute and with an active contract.\<close>

lemma shown_status_counts:
  assumes "st \<in> set shown_statuses"
  shows "(st, length (filter (\<lambda>u. u_status u = st \<and> (\<exists>r \<in> set (t_rollings s). r_sub_id r = u_id u \<and> \<not> r_paused r)) (subs_of_goddess gid s)),
            length (filter (\<lambda>u. u_status u = st \<and> (\<exists>c \<in> set (t_contracts s). c_sub_id c = u_id u \<and> c_goddess_id c = gid \<and> c_status c = CS_active))
              (subs_of_goddess gid s)))
         \<in> set (status_rows (subs_by_status gid s))"
proof -
  let ?us = "subs_of_goddess gid s"
  let ?v = "status_value st (subs_by_status gid s)"
  have row: "(st, ?v) \<in> set (status_rows (subs_by_status gid s))"
    using assms by (auto simp: status_rows_def status_value_def)
  have "?v = (length (filter (\<lambda>u. u_status u = st \<and> u_id u \<in> r_sub_id ` set (running_rollings (map u_id ?us) s)) ?us),
     length (filter (\<lambda>u. u_status u = st \<and> u_id u \<in> c_sub_id ` set (filter (\<lambda>c. c_goddess_id c = gid \<and> c_status c = CS_active \<and>
       c_sub_id c \<in> u_id ` set ?us) (t_contracts s))) ?us))"
    by (simp add: subs_by_status_def Let_def count_subs_value) (simp add: status_value_def)
  also have "\<dots> = (length (filter (\<lambda>u. u_status u = st \<and> (\<exists>r \<in> set (t_rollings s). r_sub_id r = u_id u \<and> \<not> r_paused r)) ?us),
     length (filter (\<lambda>u. u_status u = st \<and> (\<exists>c \<in> set (t_contracts s). c_sub_id c = u_id u \<and> c_goddess_id c = gid \<and> c_status c = CS_active)) ?us))"
    unfolding running_rollings_def set_filter
    by (intro arg_cong2 [where f = Pair] arg_cong [where f = length] filter_cong refl conj_cong image_filter_iff) auto
  finally show ?thesis using row by simp
qed

end
