(* ===== verification/Boundaries.thy ===== *)
theory Boundaries
  imports Personal
begin

text \<open>
  Limits and triggers of a sub: \<^verbatim>\<open>controllers/limits_controller.py\<close>, \<^verbatim>\<open>daos/sub_limit_dao.py\<close>
  and \<^verbatim>\<open>daos/sub_trigger_dao.py\<close>. A limit is acknowledged by the goddess; an edit by the sub
  takes the acknowledgement back.
\<close>

interpretation limits: keyed_table lm_id "fetch lm_id" insert_row "modify lm_id"
  by (rule list_table)

interpretation triggers: keyed_table tg_id "fetch tg_id" insert_row "modify tg_id"
  by (rule list_table)

section \<open>Limits\<close>

record limit_create =
  lc_kind :: limit_kind
  lc_severity :: limit_severity
  lc_label :: string
  lc_notes :: "string option"

record limit_update =
  lu_kind :: "limit_kind option"
  lu_severity :: "limit_severity option"
  lu_label :: "string option"
  lu_notes :: "string option"

definition limit_at :: "uuid \<Rightarrow> store \<Rightarrow> sub_limit option" where
  "limit_at k s = fetch lm_id k (t_limits s)"

definition get_limit :: "uuid \<Rightarrow> store \<Rightarrow> sub_limit res" where
  "get_limit k s = require (limit_at k s) (NotFound ''sub_limit not found'') Inr"

definition limits_by_sub :: "uuid \<Rightarrow> store \<Rightarrow> sub_limit list" where
  "limits_by_sub sid s = sort_key (\<lambda>l. - lm_created_at l) (filter (\<lambda>l. lm_sub_id l = sid) (t_limits s))"

definition list_unacknowledged_by_goddess :: "uuid \<Rightarrow> store \<Rightarrow> sub_limit list" where
  "list_unacknowledged_by_goddess gid s =
     sort_key (\<lambda>l. - lm_created_at l)
       (filter (\<lambda>l. lm_goddess_id l = gid \<and> lm_acknowledged_at l = None) (t_limits s))"

definition list_own_limits :: "uuid \<Rightarrow> store \<Rightarrow> sub_limit list" where
  "list_own_limits sid s = limits_by_sub sid s"

definition create_own_limit :: "uuid \<Rightarrow> datetime \<Rightarrow> uuid \<Rightarrow> limit_create \<Rightarrow> store \<Rightarrow> (store \<times> sub_limit) res" where
  "create_own_limit lid now sid p s =
     attempt (reject_if_placeholder (Some (lc_label p)) ''label'') (\<lambda>_.
     attempt (goddess_of_sub sid s) (\<lambda>gid.
     let row = \<lparr>lm_id = lid, lm_sub_id = sid, lm_goddess_id = gid, lm_kind = lc_kind p,
                lm_body = compose_limit_body (lc_label p) (lc_notes p), lm_severity = lc_severity p,
                lm_acknowledged_at = None, lm_created_at = now, lm_updated_at = now\<rparr>
     in Inr (s\<lparr>t_limits := insert_row row (t_limits s)\<rparr>, row)))"

definition updated_limit :: "limit_update \<Rightarrow> datetime \<Rightarrow> sub_limit \<Rightarrow> sub_limit" where
  "updated_limit p now l =
     l\<lparr>lm_kind := override (lu_kind p) (lm_kind l),
       lm_body := edited_body (lu_label p) (lu_notes p) (lm_body l),
       lm_severity := override (lu_severity p) (lm_severity l),
       lm_acknowledged_at := None, lm_updated_at := now\<rparr>"

definition own_limit :: "uuid \<Rightarrow> uuid \<Rightarrow> store \<Rightarrow> sub_limit res" where
  "own_limit sid k s =
     attempt (get_limit k s) (\<lambda>l. raise_if (lm_sub_id l \<noteq> sid) (NotFound ''sub_limit not found'') (Inr l))"

definition update_own_limit ::
  "datetime \<Rightarrow> uuid \<Rightarrow> uuid \<Rightarrow> limit_update \<Rightarrow> store \<Rightarrow> (store \<times> sub_limit) res" where
  "update_own_limit now sid k p s =
     attempt (own_limit sid k s) (\<lambda>l.
     Inr (s\<lparr>t_limits := modify lm_id k (updated_limit p now) (t_limits s)\<rparr>, updated_limit p now l))"

definition delete_own_limit :: "uuid \<Rightarrow> uuid \<Rightarrow> store \<Rightarrow> store res" where
  "delete_own_limit sid k s =
     attempt (own_limit sid k s) (\<lambda>_. Inr (s\<lparr>t_limits := filter (\<lambda>l. lm_id l \<noteq> k) (t_limits s)\<rparr>))"

definition list_sub_limits_for_goddess :: "uuid \<Rightarrow> uuid \<Rightarrow> store \<Rightarrow> sub_limit list res" where
  "list_sub_limits_for_goddess goddess_user_id sid s =
     attempt (assert_sub_under_goddess goddess_user_id sid s) (\<lambda>_. Inr (limits_by_sub sid s))"

definition acknowledged :: "datetime \<Rightarrow> sub_limit \<Rightarrow> sub_limit" where
  "acknowledged now l = l\<lparr>lm_acknowledged_at := Some now, lm_updated_at := now\<rparr>"

definition acknowledge_limit ::
  "datetime \<Rightarrow> uuid \<Rightarrow> uuid \<Rightarrow> uuid \<Rightarrow> store \<Rightarrow> (store \<times> sub_limit) res" where
  "acknowledge_limit now goddess_user_id sid k s =
     attempt (assert_sub_under_goddess goddess_user_id sid s) (\<lambda>gid.
     attempt (own_limit sid k s) (\<lambda>l.
     raise_if (lm_goddess_id l \<noteq> gid) (Forbidden ''limit does not belong to this goddess'') (
     if lm_acknowledged_at l \<noteq> None then Inr (s, l)
     else Inr (s\<lparr>t_limits := modify lm_id k (acknowledged now) (t_limits s)\<rparr>, acknowledged now l))))"

section \<open>Triggers\<close>

record trigger_create =
  tc_severity :: limit_severity
  tc_trigger_text :: string
  tc_notes :: "string option"

record trigger_update =
  tu_severity :: "limit_severity option"
  tu_trigger_text :: "string option"
  tu_notes :: "string option"

definition own_trigger :: "uuid \<Rightarrow> uuid \<Rightarrow> store \<Rightarrow> sub_trigger res" where
  "own_trigger sid k s =
     require (fetch tg_id k (t_triggers s)) (NotFound ''sub_trigger not found'') (\<lambda>g.
     raise_if (tg_sub_id g \<noteq> sid) (NotFound ''sub_trigger not found'') (Inr g))"

definition list_own_triggers :: "uuid \<Rightarrow> store \<Rightarrow> sub_trigger list" where
  "list_own_triggers sid s = sort_key (\<lambda>g. - tg_created_at g) (filter (\<lambda>g. tg_sub_id g = sid) (t_triggers s))"

definition create_own_trigger ::
  "uuid \<Rightarrow> datetime \<Rightarrow> uuid \<Rightarrow> trigger_create \<Rightarrow> store \<Rightarrow> (store \<times> sub_trigger) res" where
  "create_own_trigger k now sid p s =
     attempt (goddess_of_sub sid s) (\<lambda>gid.
     let row = \<lparr>tg_id = k, tg_sub_id = sid, tg_goddess_id = gid, tg_trigger_text = tc_trigger_text p,
                tg_notes = tc_notes p, tg_severity = tc_severity p, tg_created_at = now, tg_updated_at = now\<rparr>
     in Inr (s\<lparr>t_triggers := insert_row row (t_triggers s)\<rparr>, row))"

definition updated_trigger :: "trigger_update \<Rightarrow> datetime \<Rightarrow> sub_trigger \<Rightarrow> sub_trigger" where
  "updated_trigger p now g =
     g\<lparr>tg_trigger_text := override (tu_trigger_text p) (tg_trigger_text g),
       tg_notes := override_opt (tu_notes p) (tg_notes g),
       tg_severity := override (tu_severity p) (tg_severity g), tg_updated_at := now\<rparr>"

definition update_own_trigger ::
  "datetime \<Rightarrow> uuid \<Rightarrow> uuid \<Rightarrow> trigger_update \<Rightarrow> store \<Rightarrow> (store \<times> sub_trigger) res" where
  "update_own_trigger now sid k p s =
     attempt (own_trigger sid k s) (\<lambda>g.
     Inr (s\<lparr>t_triggers := modify tg_id k (updated_trigger p now) (t_triggers s)\<rparr>, updated_trigger p now g))"

definition delete_own_trigger :: "uuid \<Rightarrow> uuid \<Rightarrow> store \<Rightarrow> store res" where
  "delete_own_trigger sid k s =
     attempt (own_trigger sid k s) (\<lambda>_. Inr (s\<lparr>t_triggers := filter (\<lambda>g. tg_id g \<noteq> k) (t_triggers s)\<rparr>))"

definition list_sub_triggers_for_goddess :: "uuid \<Rightarrow> uuid \<Rightarrow> store \<Rightarrow> sub_trigger list res" where
  "list_sub_triggers_for_goddess goddess_user_id sid s =
     attempt (assert_sub_under_goddess goddess_user_id sid s) (\<lambda>_. Inr (list_own_triggers sid s))"

section \<open>Requests\<close>

inductive limit_request :: "store \<Rightarrow> store \<Rightarrow> bool" where
  limit_created: "create_own_limit lid now sid p s = Inr (s', l) \<Longrightarrow> limit_at lid s = None \<Longrightarrow> limit_request s s'"
| limit_edited: "update_own_limit now sid k q s = Inr (s', l) \<Longrightarrow> limit_request s s'"
| limit_deleted: "delete_own_limit sid k s = Inr s' \<Longrightarrow> limit_request s s'"
| limit_acknowledged: "acknowledge_limit now u sid k s = Inr (s', l) \<Longrightarrow> limit_request s s'"
| trigger_created: "create_own_trigger tid now sid tp s = Inr (s', g) \<Longrightarrow> limit_request s s'"
| trigger_edited: "update_own_trigger now sid k tq s = Inr (s', g) \<Longrightarrow> limit_request s s'"
| trigger_deleted: "delete_own_trigger sid k s = Inr s' \<Longrightarrow> limit_request s s'"

text \<open>What the goddess acknowledges, beside the stamp of her acknowledgement.\<close>

definition content_of :: "sub_limit \<Rightarrow> limit_kind \<times> string \<times> limit_severity" where
  "content_of l = (lm_kind l, lm_body l, lm_severity l)"

lemma fetch_filter_other: "k' \<noteq> k \<Longrightarrow> fetch key k' (filter (\<lambda>r. key r \<noteq> k) t) = fetch key k' t"
  by (induction t) auto

lemma fetch_filter_same: "fetch key k (filter (\<lambda>r. key r \<noteq> k) t) = None"
  by (induction t) auto

lemma updated_limit_id [simp]: "lm_id (updated_limit p now l) = lm_id l"
  by (simp add: updated_limit_def)

lemma acknowledged_id [simp]: "lm_id (acknowledged now l) = lm_id l"
  by (simp add: acknowledged_def)

text \<open>One request: an acknowledged limit is one the goddess has just acknowledged or one left as it was.\<close>

lemma limit_request_content:
  assumes "limit_request s s'" "limit_at k s = Some l" "limit_at k s' = Some l'" "lm_acknowledged_at l' \<noteq> None"
  shows "content_of l' = content_of l \<and> (lm_acknowledged_at l = None \<or> l' = l)"
  using assms(1)
proof cases
  case (limit_created lid now sid p row)
  then have "limit_at k s' = limit_at k s \<or> k = lid"
    by (auto simp: create_own_limit_def res_simps Let_def limit_at_def limits.get_add)
  with limit_created(2) assms(2,3) show ?thesis by auto
next
  case (limit_edited now sid k0 q row)
  then have "limit_at k s' = (if k = k0 then map_option (updated_limit q now) (limit_at k s) else limit_at k s)"
    by (auto simp: update_own_limit_def res_simps limit_at_def limits.get_upd [where f = "updated_limit q now"])
  with assms show ?thesis by (auto simp: updated_limit_def split: if_splits)
next
  case (limit_deleted sid k0)
  then have "limit_at k s' = (if k = k0 then None else limit_at k s)"
    by (auto simp: delete_own_limit_def res_simps limit_at_def fetch_filter_other fetch_filter_same)
  with assms show ?thesis by (auto split: if_splits)
next
  case (limit_acknowledged now u sid k0 row)
  then have "limit_at k s' = limit_at k s \<or>
      (k = k0 \<and> lm_acknowledged_at l = None \<and> limit_at k s' = map_option (acknowledged now) (limit_at k s))"
    using assms(2)
    by (auto simp: acknowledge_limit_def own_limit_def get_limit_def res_simps limit_at_def
        limits.get_upd [where f = "acknowledged now"] split: if_splits)
  with assms(2,3) show ?thesis by (auto simp: acknowledged_def content_of_def)
qed (use assms in \<open>auto simp: create_own_trigger_def update_own_trigger_def delete_own_trigger_def limit_at_def res_simps Let_def\<close>)

lemma edited_composed:
  assumes "plain_label label"
  shows "edited_body l n (compose_limit_body label notes) = compose_limit_body (override l label) (override_opt n notes)"
proof -
  have "compose_limit_body x (if notes = Some [] then None else notes) = compose_limit_body x notes" for x
    by (auto simp: compose_limit_body_def)
  then show ?thesis
    unfolding edited_body_def split_compose [OF assms]
    by (cases l; cases n) (auto simp: compose_limit_body_def split: option.splits)
qed

section \<open>What an acknowledgement means\<close>

text \<open>
  An edit by the sub replaces just what it sends, keeps the other half of the text and every
  other limit, and withdraws the acknowledgement, so that in no request the text, kind or
  severity of a limit changes while it stays acknowledged: a limit the goddess sees as
  acknowledged is the one she acknowledged.
\<close>

theorem acknowledged_limits_unchanged:
  assumes "limit_request s s'" "limit_at k s = Some l" "limit_at k s' = Some l'"
  shows "(lm_acknowledged_at l' \<noteq> None \<longrightarrow> content_of l' = content_of l \<and> (lm_acknowledged_at l = None \<or> l' = l)) \<and>
     (update_own_limit now sid k p s = Inr (s', l') \<longrightarrow>
        lm_acknowledged_at l' = None \<and>
        (\<forall>label notes. plain_label label \<longrightarrow> lm_body l = compose_limit_body label notes \<longrightarrow>
           lm_body l' = compose_limit_body (override (lu_label p) label) (override_opt (lu_notes p) notes)) \<and>
        (\<forall>k2. k2 \<noteq> k \<longrightarrow> limit_at k2 s' = limit_at k2 s))"
proof (intro conjI impI)
  assume "lm_acknowledged_at l' \<noteq> None"
  from limit_request_content [OF assms this]
  show "content_of l' = content_of l" "lm_acknowledged_at l = None \<or> l' = l" by auto
next
  assume u: "update_own_limit now sid k p s = Inr (s', l')"
  then have s': "s' = s\<lparr>t_limits := modify lm_id k (updated_limit p now) (t_limits s)\<rparr>" and l': "l' = updated_limit p now l"
    using assms(2) by (auto simp: update_own_limit_def own_limit_def get_limit_def res_simps)
  show "lm_acknowledged_at l' = None" by (simp add: l' updated_limit_def)
  show "\<forall>label notes. plain_label label \<longrightarrow> lm_body l = compose_limit_body label notes \<longrightarrow>
      lm_body l' = compose_limit_body (override (lu_label p) label) (override_opt (lu_notes p) notes)"
    by (auto simp: l' updated_limit_def edited_composed)
  show "\<forall>k2. k2 \<noteq> k \<longrightarrow> limit_at k2 s' = limit_at k2 s"
    by (simp add: s' limit_at_def limits.get_upd [where f = "updated_limit p now"])
qed

definition heights :: sub_limit where
  "heights = \<lparr>lm_id = 80, lm_sub_id = 12, lm_goddess_id = 10, lm_kind = LK_hard,
     lm_body = compose_limit_body ''No heights'' (Some ''vertigo''), lm_severity = LS_high,
     lm_acknowledged_at = Some 7, lm_created_at = 1, lm_updated_at = 7\<rparr>"

definition soften :: limit_update where
  "soften = \<lparr>lu_kind = Some LK_soft, lu_severity = None, lu_label = None, lu_notes = Some ''''\<rparr>"

lemma acknowledged_limits_unchanged_witness:
  "\<exists>s s' l'. limit_request s s' \<and> limit_at 80 s = Some heights \<and> limit_at 80 s' = Some l' \<and>
     lm_acknowledged_at l' = None \<and> lm_body l' = ''No heights'' \<and> lm_kind l' = LK_soft"
proof -
  fix c
  let ?s = "(empty_store c)\<lparr>t_limits := [heights]\<rparr>"
  obtain s' where u: "update_own_limit 9 12 80 soften ?s = Inr (s', updated_limit soften 9 heights)"
    by (simp add: update_own_limit_def own_limit_def get_limit_def limit_at_def heights_def)
  then have l': "limit_at 80 s' = Some (updated_limit soften 9 heights)"
    by (auto simp: update_own_limit_def own_limit_def get_limit_def limit_at_def heights_def)
  have r: "limit_request ?s s'" using u by (rule limit_edited)
  have l: "limit_at 80 ?s = Some heights" by (simp add: limit_at_def heights_def)
  have "lm_body (updated_limit soften 9 heights) = compose_limit_body ''No heights'' (Some '''')"
    using acknowledged_limits_unchanged [OF r l l', of 9 12 soften] u
    by (auto simp: soften_def heights_def)
  then have "lm_body (updated_limit soften 9 heights) = ''No heights''" by (simp add: compose_limit_body_def)
  moreover have "lm_acknowledged_at (updated_limit soften 9 heights) = None" "lm_kind (updated_limit soften 9 heights) = LK_soft"
    by (simp_all add: updated_limit_def soften_def)
  ultimately show ?thesis using r l l' by blast
qed

end
