(* ===== verification/Consent.thy ===== *)
theory Consent
  imports Personal
begin

text \<open>
  Consent texts and their acceptance: \<^verbatim>\<open>daos/consent_dao.py\<close>,
  \<^verbatim>\<open>controllers/consent_controller.py\<close>, the gate of \<^verbatim>\<open>services/consent/gate.py\<close> that guards the
  medical routes, and the seed of the first versions (\<^verbatim>\<open>seeds/consents.py\<close>).
\<close>

section \<open>Lookups\<close>

definition current_text :: "string \<Rightarrow> store \<Rightarrow> consent_text option" where
  "current_text slug s =
     (case sort_key (\<lambda>t. - ct_version t) (filter (\<lambda>t. ct_slug t = slug) (t_consent_texts s)) of
        [] \<Rightarrow> None | t # _ \<Rightarrow> Some t)"

definition get_acceptance :: "uuid \<Rightarrow> uuid \<Rightarrow> store \<Rightarrow> consent_acceptance option res" where
  "get_acceptance uid tid s =
     scalar_one_or_none (filter (\<lambda>a. ca_user_id a = uid \<and> ca_consent_text_id a = tid) (t_acceptances s))"

definition has_accepted :: "uuid \<Rightarrow> string \<Rightarrow> store \<Rightarrow> bool" where
  "has_accepted uid slug s =
     (case current_text slug s of
        None \<Rightarrow> False
      | Some t \<Rightarrow> list_ex (\<lambda>a. ca_user_id a = uid \<and> ca_consent_text_id a = ct_id t) (t_acceptances s))"

definition list_acceptances_for_user :: "uuid \<Rightarrow> store \<Rightarrow> (consent_text \<times> consent_acceptance) list" where
  "list_acceptances_for_user uid s =
     sort_key (\<lambda>(t, a). - ca_accepted_at a)
       [(t, a). a \<leftarrow> t_acceptances s, ca_user_id a = uid, t \<leftarrow> t_consent_texts s, ca_consent_text_id a = ct_id t]"

section \<open>Operations\<close>

text \<open>The table has a unique constraint on the user and the text.\<close>

definition record_acceptance ::
  "uuid \<Rightarrow> datetime \<Rightarrow> uuid \<Rightarrow> uuid \<Rightarrow> string option \<Rightarrow> store \<Rightarrow> (store \<times> consent_acceptance) res" where
  "record_acceptance aid now uid tid ip s =
     raise_if (list_ex (\<lambda>a. ca_user_id a = uid \<and> ca_consent_text_id a = tid) (t_acceptances s))
       (IntegrityError ''uq_consent_acceptance_user_text'') (
     let row = \<lparr>ca_id = aid, ca_user_id = uid, ca_consent_text_id = tid, ca_accepted_at = now, ca_ip_address = ip\<rparr>
     in Inr (s\<lparr>t_acceptances := t_acceptances s @ [row]\<rparr>, row))"

definition get_current :: "string \<Rightarrow> store \<Rightarrow> consent_text res" where
  "get_current slug s = require (current_text slug s) (NotFound ''consent slug not found'') Inr"

record acceptance_out =
  ao_id :: uuid
  ao_slug :: string
  ao_version :: int
  ao_accepted_at :: datetime

definition accept_consent ::
  "uuid \<Rightarrow> datetime \<Rightarrow> uuid \<Rightarrow> string \<Rightarrow> uuid \<Rightarrow> string option \<Rightarrow> store \<Rightarrow> (store \<times> acceptance_out) res" where
  "accept_consent aid now uid slug tid ip s =
     require (current_text slug s) (NotFound ''consent slug not found'') (\<lambda>current.
     raise_if (ct_id current \<noteq> tid)
       (Validation ''consent_text_id does not match the current version for this slug'') (
     attempt (get_acceptance uid (ct_id current) s) (\<lambda>existing.
     raise_if (existing \<noteq> None) (Conflict ''consent already accepted'') (
     attempt (record_acceptance aid now uid (ct_id current) ip s) (\<lambda>(s', row).
     Inr (s', \<lparr>ao_id = ca_id row, ao_slug = ct_slug current, ao_version = ct_version current,
               ao_accepted_at = ca_accepted_at row\<rparr>))))))"

record my_consent =
  mc_slug :: string
  mc_version :: int
  mc_accepted_at :: datetime

definition list_my_consents :: "uuid \<Rightarrow> store \<Rightarrow> my_consent list" where
  "list_my_consents uid s =
     map (\<lambda>(t, a). \<lparr>mc_slug = ct_slug t, mc_version = ct_version t, mc_accepted_at = ca_accepted_at a\<rparr>)
       (list_acceptances_for_user uid s)"

text \<open>The gate: a dependency of a route, evaluated before the handler.\<close>

definition require_consent :: "uuid \<Rightarrow> string \<Rightarrow> store \<Rightarrow> unit res" where
  "require_consent uid slug s =
     require (current_text slug s) (ConsentRequired None) (\<lambda>current.
     raise_if (\<not> has_accepted uid slug s)
       (ConsentRequired (Some (ct_id current, ct_version current, ct_body_md current))) (Inr ()))"

text \<open>The seed: version 1 of three texts, each skipped when its slug and version exist.\<close>

definition initial_consents :: "(string \<times> int \<times> string) list" where
  "initial_consents = map (\<lambda>slug. (slug, 1, ''Placeholder consent text (replace before production).''))
     [''medical'', ''blackmail_upload'', ''device_connect'']"

definition seed_text :: "uuid \<times> string \<times> int \<times> string \<Rightarrow> consent_text list \<Rightarrow> consent_text list" where
  "seed_text spec ts = (case spec of (tid, slug, version, body) \<Rightarrow>
     if list_ex (\<lambda>t. ct_slug t = slug \<and> ct_version t = version) ts then ts
     else insert_row \<lparr>ct_id = tid, ct_slug = slug, ct_version = version, ct_body_md = body\<rparr> ts)"

definition seed_consent_texts :: "uuid list \<Rightarrow> store \<Rightarrow> store" where
  "seed_consent_texts ids s =
     s\<lparr>t_consent_texts := fold seed_text (zip ids initial_consents) (t_consent_texts s)\<rparr>"

section \<open>The current version\<close>

lemma first_sorted:
  fixes k :: "'a \<Rightarrow> 'b::linorder"
  assumes "x \<in> set xs" and "\<And>y. y \<in> set xs \<Longrightarrow> y \<noteq> x \<Longrightarrow> k x < k y"
  shows "\<exists>ys. sort_key k xs = x # ys"
proof (cases "sort_key k xs")
  case Nil
  then show ?thesis using assms(1) by (metis empty_iff empty_set set_sort)
next
  case (Cons y ys)
  have "sorted (map k (y # ys))" using sorted_sort_key [of k xs] Cons by simp
  moreover have "x \<in> set (y # ys)" and y: "y \<in> set xs" using assms(1) Cons by (metis set_sort list.set_intros(1))+
  ultimately have "k y \<le> k x" by auto
  with assms(2) [OF y] have "y = x" by fastforce
  with Cons show ?thesis by simp
qed

lemma current_text_mem:
  "current_text slug s = Some t \<Longrightarrow> t \<in> set (t_consent_texts s) \<and> ct_slug t = slug"
  by (auto simp: current_text_def split: list.splits dest!: arg_cong [where f = set])

lemma current_text_latest:
  assumes "current_text slug s = Some t" "u \<in> set (t_consent_texts s)" "ct_slug u = slug"
  shows "ct_version u \<le> ct_version t"
proof -
  let ?k = "\<lambda>t. - ct_version t" and ?xs = "filter (\<lambda>t. ct_slug t = slug) (t_consent_texts s)"
  obtain ys where ys: "sort_key ?k ?xs = t # ys"
    using assms(1) by (auto simp: current_text_def split: list.splits)
  have "sorted (map ?k (t # ys))" using sorted_sort_key [of ?k ?xs] ys by simp
  moreover have "u \<in> set (sort_key ?k ?xs)" using assms(2,3) by simp
  then have "u \<in> set (t # ys)" using ys by simp
  ultimately show ?thesis by auto
qed

lemma current_text_newer:
  assumes "ct_slug t = slug" "\<And>u. current_text slug s = Some u \<Longrightarrow> ct_version u < ct_version t"
  shows "current_text slug (s\<lparr>t_consent_texts := t_consent_texts s @ [t]\<rparr>) = Some t"
proof -
  let ?xs = "filter (\<lambda>u. ct_slug u = slug) (t_consent_texts s @ [t])"
  have "\<exists>ys. sort_key (\<lambda>u. - ct_version u) ?xs = t # ys"
  proof (rule first_sorted)
    fix u assume u: "u \<in> set ?xs" "u \<noteq> t"
    then have mem: "u \<in> set (t_consent_texts s)" "ct_slug u = slug" by (auto split: if_splits)
    then obtain c where c: "current_text slug s = Some c"
      by (cases "current_text slug s") (auto simp: current_text_def filter_empty_conv split: list.splits dest!: arg_cong [where f = set])
    show "- ct_version t < - ct_version u"
      using current_text_latest [OF c mem] assms(2) [OF c] by simp
  qed (simp add: assms(1))
  then show ?thesis by (auto simp: current_text_def)
qed

lemma current_text_cong: "t_consent_texts s' = t_consent_texts s \<Longrightarrow> current_text slug s' = current_text slug s"
  by (simp add: current_text_def)

lemma has_accepted_iff:
  "has_accepted uid slug s \<longleftrightarrow> (\<exists>t. current_text slug s = Some t \<and>
     (\<exists>a \<in> set (t_acceptances s). ca_user_id a = uid \<and> ca_consent_text_id a = ct_id t))"
  by (auto simp: has_accepted_def list_ex_iff split: option.splits)

lemma accept_parts:
  assumes "accept_consent aid now uid slug tid ip s = Inr (s', out)"
  obtains t where "current_text slug s = Some t" "ct_id t = tid"
    "\<forall>a \<in> set (t_acceptances s). ca_user_id a = uid \<longrightarrow> ca_consent_text_id a \<noteq> tid"
    "s' = s\<lparr>t_acceptances := t_acceptances s @ [\<lparr>ca_id = aid, ca_user_id = uid, ca_consent_text_id = tid,
        ca_accepted_at = now, ca_ip_address = ip\<rparr>]\<rparr>"
    "ao_version out = ct_version t"
  using assms by (auto simp: accept_consent_def record_acceptance_def res_simps Let_def list_ex_iff)

section \<open>The gate\<close>

text \<open>
  Accepting a consent text opens the gate of its slug for that user and for nobody else; the
  gate was closed before and showed the very text that was accepted. The acceptance stands for
  that version: a second one is refused, and as soon as a newer version is published the gate
  is closed again and shows the new text.
\<close>

theorem consent_opens_gate:
  assumes "accept_consent aid now uid slug tid ip s = Inr (s', out)"
  shows "(\<exists>t. current_text slug s = Some t \<and> ct_id t = tid \<and>
            require_consent uid slug s = Inl (ConsentRequired (Some (tid, ct_version t, ct_body_md t)))) \<and>
     require_consent uid slug s' = Inr () \<and>
     (\<forall>v g. v \<noteq> uid \<longrightarrow> require_consent v g s' = require_consent v g s) \<and>
     accept_consent aid2 now2 uid slug tid ip2 s' = Inl (Conflict ''consent already accepted'') \<and>
     (\<forall>t. ct_slug t = slug \<longrightarrow> ao_version out < ct_version t \<longrightarrow>
        (\<forall>a \<in> set (t_acceptances s'). ca_consent_text_id a \<noteq> ct_id t) \<longrightarrow>
        require_consent uid slug (s'\<lparr>t_consent_texts := t_consent_texts s' @ [t]\<rparr>) =
          Inl (ConsentRequired (Some (ct_id t, ct_version t, ct_body_md t))))"
proof -
  obtain t where t: "current_text slug s = Some t" "ct_id t = tid"
      "\<forall>a \<in> set (t_acceptances s). ca_user_id a = uid \<longrightarrow> ca_consent_text_id a \<noteq> tid"
      "s' = s\<lparr>t_acceptances := t_acceptances s @ [\<lparr>ca_id = aid, ca_user_id = uid, ca_consent_text_id = tid,
        ca_accepted_at = now, ca_ip_address = ip\<rparr>]\<rparr>"
      "ao_version out = ct_version t"
    by (rule accept_parts [OF assms])
  have cur: "current_text g s' = current_text g s" for g by (rule current_text_cong) (simp add: t(4))
  have before: "\<not> has_accepted uid slug s" using t(1-3) by (simp add: has_accepted_iff)
  have after: "has_accepted uid slug s'" using t cur by (simp add: has_accepted_iff)
  have others: "has_accepted v g s' = has_accepted v g s" if "v \<noteq> uid" for v g
  proof -
    have "t_acceptances s' = t_acceptances s @ [\<lparr>ca_id = aid, ca_user_id = uid, ca_consent_text_id = tid,
        ca_accepted_at = now, ca_ip_address = ip\<rparr>]" by (simp add: t(4))
    then show ?thesis unfolding has_accepted_iff cur using that by auto
  qed
  have "filter (\<lambda>a. ca_user_id a = uid \<and> ca_consent_text_id a = tid) (t_acceptances s) = []"
    using t(3) by (auto simp: filter_empty_conv)
  then have again: "accept_consent aid2 now2 uid slug tid ip2 s' = Inl (Conflict ''consent already accepted'')"
    using t cur by (simp add: accept_consent_def get_acceptance_def)
  have newer: "require_consent uid slug (s'\<lparr>t_consent_texts := t_consent_texts s' @ [n]\<rparr>) =
          Inl (ConsentRequired (Some (ct_id n, ct_version n, ct_body_md n)))"
    if "ct_slug n = slug" "ao_version out < ct_version n"
       "\<forall>a \<in> set (t_acceptances s'). ca_consent_text_id a \<noteq> ct_id n" for n
  proof -
    have "current_text slug (s'\<lparr>t_consent_texts := t_consent_texts s' @ [n]\<rparr>) = Some n"
      by (rule current_text_newer) (use that t cur in auto)
    moreover from this have "\<not> has_accepted uid slug (s'\<lparr>t_consent_texts := t_consent_texts s' @ [n]\<rparr>)"
      using that(3) by (auto simp: has_accepted_iff)
    ultimately show ?thesis by (simp add: require_consent_def)
  qed
  show ?thesis
    using t(1,2) before after others again newer cur by (simp add: require_consent_def)
qed

lemma seed_text_twice: "seed_text (i', spec) (seed_text (i, spec) ts) = seed_text (i, spec) ts"
  by (auto simp: seed_text_def insert_row_def split: prod.split)

definition seeded :: "db \<Rightarrow> store" where
  "seeded c = seed_consent_texts [70, 71, 72] (empty_store c)"

lemma seeded_texts: "current_text ''medical'' (seeded c) =
    Some \<lparr>ct_id = 70, ct_slug = ''medical'', ct_version = 1, ct_body_md = ''Placeholder consent text (replace before production).''\<rparr>"
  "t_acceptances (seeded c) = []"
  by (simp_all add: current_text_def seeded_def seed_consent_texts_def initial_consents_def seed_text_def insert_row_def)

lemma consent_opens_gate_witness:
  "\<exists>c s'. require_consent 12 ''medical'' (seeded c) \<noteq> Inr () \<and> require_consent 12 ''medical'' s' = Inr () \<and>
     require_consent 13 ''medical'' s' \<noteq> Inr ()"
proof -
  fix c
  have "\<exists>s' out. accept_consent 90 100 12 ''medical'' 70 None (seeded c) = Inr (s', out)"
    by (simp add: accept_consent_def seeded_texts get_acceptance_def record_acceptance_def Let_def)
  then obtain s' out where a: "accept_consent 90 100 12 ''medical'' 70 None (seeded c) = Inr (s', out)" by blast
  have "require_consent 13 ''medical'' (seeded c) \<noteq> Inr ()"
    by (simp add: require_consent_def seeded_texts has_accepted_def)
  with consent_opens_gate [OF a, of 91 101 None] have "require_consent 12 ''medical'' (seeded c) \<noteq> Inr () \<and>
      require_consent 12 ''medical'' s' = Inr () \<and> require_consent 13 ''medical'' s' \<noteq> Inr ()"
    by auto
  then show ?thesis by (intro exI)
qed

end
