(* ===== verification/Medical.thy ===== *)
theory Medical
  imports Consent Samples
begin

text \<open>
  Encryption at rest and the records it protects: the root key and the data keys
  (\<^verbatim>\<open>services/crypto\<close>, \<^verbatim>\<open>daos/goddess_kek_dao.py\<close>), the medical record of a sub
  (\<^verbatim>\<open>controllers/sub_medical_controller.py\<close>) behind the consent gate, and the aftercare
  record (\<^verbatim>\<open>controllers/sub_aftercare_controller.py\<close>). The cipher AES-256-GCM, base64 and the
  text of a UUID are library functions, parameters here; random bytes are inputs.
\<close>

section \<open>UTF-8\<close>

text \<open>
  \<^verbatim>\<open>str.encode()\<close> and \<^verbatim>\<open>bytes.decode()\<close> for the first 256 code points; a sequence that
  denotes another code point, or none, is outside the strings modelled.
\<close>

definition utf8_char :: "char \<Rightarrow> string" where
  "utf8_char c = (let n = of_char c :: nat in
     if n < 128 then [c] else [char_of (192 + n div 64), char_of (128 + n mod 64)])"

definition utf8_encode :: "string \<Rightarrow> string" where
  "utf8_encode s = concat (map utf8_char s)"

fun utf8_decode :: "string \<Rightarrow> string option" where
  "utf8_decode [] = Some []"
| "utf8_decode [c] = (if (of_char c :: nat) < 128 then Some [c] else None)"
| "utf8_decode (c # d # cs) =
     (let n = of_char c :: nat; m = of_char d :: nat in
      if n < 128 then map_option (Cons c) (utf8_decode (d # cs))
      else if 194 \<le> n \<and> n \<le> 195 \<and> 128 \<le> m \<and> m \<le> 191
        then map_option (Cons (char_of ((n - 192) * 64 + (m - 128)))) (utf8_decode cs)
      else None)"

lemma of_char_less: "(of_char c :: nat) < 256"
  using of_char_mod_256 [of c, where ?'a = nat] mod_less_divisor [of 256 "of_char c :: nat"] by simp

lemma utf8_ascii: "(of_char c :: nat) < 128 \<Longrightarrow> utf8_decode (c # cs) = map_option (Cons c) (utf8_decode cs)"
  by (cases cs) simp_all

lemma utf8_decode_char: "utf8_decode (utf8_char c @ cs) = map_option (Cons c) (utf8_decode cs)"
proof -
  define n where "n = (of_char c :: nat)"
  have c: "char_of n = c" and n: "n < 256" using of_char_less [of c] by (simp_all add: n_def)
  show ?thesis
  proof (cases "n < 128")
    case True
    then show ?thesis using utf8_ascii [of c cs] by (simp add: utf8_char_def n_def)
  next
    case False
    have two: "(of_char (char_of (192 + n div 64) :: char) :: nat) = 192 + n div 64"
      "(of_char (char_of (128 + n mod 64) :: char) :: nat) = 128 + n mod 64"
      using n by (simp_all add: of_char_of)
    have "n div 64 \<in> {2, 3}" using n False by auto
    then have lead: "194 \<le> 192 + n div 64 \<and> 192 + n div 64 \<le> 195" by auto
    have joined: "char_of ((192 + n div 64 - 192) * 64 + (128 + n mod 64 - 128)) = c"
      using c by simp
    have u: "utf8_char c = [char_of (192 + n div 64), char_of (128 + n mod 64)]"
      using False by (simp add: utf8_char_def n_def Let_def)
    have ok: "\<not> 192 + n div 64 < 128" "128 \<le> 128 + n mod 64 \<and> 128 + n mod 64 \<le> 191" by auto
    show ?thesis
      unfolding u append_Cons append_Nil utf8_decode.simps(3) Let_def two joined using lead ok by simp
  qed
qed

lemma utf8_roundtrip: "utf8_decode (utf8_encode s) = Some s"
  by (induction s) (simp_all add: utf8_encode_def utf8_decode_char)

section \<open>Keys\<close>

record crypto =
  seal :: "string \<Rightarrow> string \<Rightarrow> string \<Rightarrow> string \<Rightarrow> string" \<comment> \<open>key, nonce, plaintext, associated data\<close>
  unseal :: "string \<Rightarrow> string \<Rightarrow> string \<Rightarrow> string \<Rightarrow> string option"
  b64decode :: "string \<Rightarrow> string option"
  uuid_text :: "uuid \<Rightarrow> string"
  root_kek_b64 :: string
  root_kek_version :: int

text \<open>What the cipher promises: it opens what it sealed, and only with the same associated data.\<close>

definition authentic :: "crypto \<Rightarrow> bool" where
  "authentic e \<longleftrightarrow> (\<forall>k n p a b. unseal e k n (seal e k n p a) b = (if b = a then Some p else None))"

record entropy =
  en_dek :: string
  en_wrap_nonce :: string
  en_nonce :: "string \<Rightarrow> string" \<comment> \<open>the nonce drawn for a field\<close>

definition load_root_kek :: "crypto \<Rightarrow> string res" where
  "load_root_kek e =
     raise_if (root_kek_b64 e = []) (RuntimeError ''ROOT_KEK_B64 is not set'') (
     require (b64decode e (root_kek_b64 e)) (RuntimeError ''ROOT_KEK_B64 is not valid base64'') (\<lambda>key.
     raise_if (length key \<noteq> 32) (RuntimeError ''ROOT_KEK_B64 must decode to exactly 32 bytes'') (Inr key)))"

definition wrap_dek :: "crypto \<Rightarrow> string \<Rightarrow> string \<Rightarrow> (string \<times> string \<times> int) res" where
  "wrap_dek e nonce dek =
     attempt (load_root_kek e) (\<lambda>root. Inr (seal e root nonce dek [], nonce, root_kek_version e))"

definition unwrap_dek :: "crypto \<Rightarrow> string \<Rightarrow> string \<Rightarrow> int \<Rightarrow> string res" where
  "unwrap_dek e wrapped nonce version =
     raise_if (version \<noteq> root_kek_version e) (RuntimeError ''KEK version mismatch'') (
     attempt (load_root_kek e) (\<lambda>root.
     require (unseal e root nonce wrapped []) (RuntimeError ''DEK decryption failed'') Inr))"

definition kek_by_goddess :: "uuid \<Rightarrow> store \<Rightarrow> goddess_kek option res" where
  "kek_by_goddess gid s = scalar_one_or_none (filter (\<lambda>k. gk_goddess_id k = gid) (t_keks s))"

definition create_kek :: "uuid \<Rightarrow> string \<Rightarrow> string \<Rightarrow> int \<Rightarrow> store \<Rightarrow> (store \<times> goddess_kek) res" where
  "create_kek gid wrapped nonce version s =
     raise_if (list_all (\<lambda>g. g_id g \<noteq> gid) (t_goddesses (core s))) (IntegrityError ''goddess_kek_goddess_id_fkey'') (
     let row = \<lparr>gk_goddess_id = gid, gk_wrapped_dek = wrapped, gk_root_kek_version = version, gk_nonce = nonce,
                gk_rotated_at = None\<rparr>
     in Inr (s\<lparr>t_keks := t_keks s @ [row]\<rparr>, row))"

definition ensure_goddess_kek :: "crypto \<Rightarrow> entropy \<Rightarrow> uuid \<Rightarrow> store \<Rightarrow> (store \<times> goddess_kek) res" where
  "ensure_goddess_kek e r gid s =
     attempt (kek_by_goddess gid s) (\<lambda>found.
     case found of
       Some k \<Rightarrow> Inr (s, k)
     | None \<Rightarrow> attempt (wrap_dek e (en_wrap_nonce r) (en_dek r)) (\<lambda>(wrapped, nonce, version).
         create_kek gid wrapped nonce version s))"

section \<open>Envelopes\<close>

definition goddess_dek :: "crypto \<Rightarrow> goddess_kek \<Rightarrow> string res" where
  "goddess_dek e k = unwrap_dek e (gk_wrapped_dek k) (gk_nonce k) (gk_root_kek_version k)"

definition encrypt_for_goddess ::
  "crypto \<Rightarrow> entropy \<Rightarrow> uuid \<Rightarrow> string \<Rightarrow> string \<Rightarrow> string \<Rightarrow> store \<Rightarrow> (store \<times> string) res" where
  "encrypt_for_goddess e r gid nonce plaintext aad s =
     attempt (ensure_goddess_kek e r gid s) (\<lambda>(s1, kek).
     attempt (goddess_dek e kek) (\<lambda>dek.
     Inr (s1, nonce @ seal e dek nonce plaintext aad)))"

definition decrypt_for_goddess ::
  "crypto \<Rightarrow> entropy \<Rightarrow> uuid \<Rightarrow> string \<Rightarrow> string \<Rightarrow> store \<Rightarrow> (store \<times> string) res" where
  "decrypt_for_goddess e r gid blob aad s =
     attempt (ensure_goddess_kek e r gid s) (\<lambda>(s1, kek).
     attempt (goddess_dek e kek) (\<lambda>dek.
     require (unseal e dek (take 12 blob) (drop 12 blob) aad) InvalidTag (\<lambda>p. Inr (s1, p))))"

text \<open>
  A new wrapping of the data key. The service that would call \<open>rotate_kek\<close> is not implemented:
  it raises \<^verbatim>\<open>NotImplementedError\<close>, a \<^verbatim>\<open>RuntimeError\<close>.
\<close>

definition rotate_kek :: "uuid \<Rightarrow> string \<Rightarrow> string \<Rightarrow> int \<Rightarrow> datetime \<Rightarrow> store \<Rightarrow> store" where
  "rotate_kek gid wrapped nonce version now s =
     s\<lparr>t_keks := modify gk_goddess_id gid (\<lambda>k. k\<lparr>gk_wrapped_dek := wrapped, gk_nonce := nonce,
        gk_root_kek_version := version, gk_rotated_at := Some now\<rparr>) (t_keks s)\<rparr>"

definition rewrap_goddess_dek :: "uuid \<Rightarrow> int \<Rightarrow> store \<Rightarrow> store res" where
  "rewrap_goddess_dek gid new_root_kek_version s = Inl (RuntimeError ''KEK rotation lands in J3+'')"

section \<open>The medical record\<close>

datatype medical_field = MF_blood_type | MF_allergies | MF_medications | MF_emergency_contact | MF_medical_notes

definition medical_fields :: "medical_field list" where
  "medical_fields = [MF_blood_type, MF_allergies, MF_medications, MF_emergency_contact, MF_medical_notes]"

fun field_name :: "medical_field \<Rightarrow> string" where
  "field_name MF_blood_type = ''blood_type''"
| "field_name MF_allergies = ''allergies''"
| "field_name MF_medications = ''medications''"
| "field_name MF_emergency_contact = ''emergency_contact''"
| "field_name MF_medical_notes = ''medical_notes''"

definition medical_aad :: "crypto \<Rightarrow> uuid \<Rightarrow> medical_field \<Rightarrow> string" where
  "medical_aad e sid f = utf8_encode (''sub_medical:'' @ uuid_text e sid @ '':'' @ field_name f)"

fun column :: "sub_medical \<Rightarrow> medical_field \<Rightarrow> string option" where
  "column m MF_blood_type = md_blood_type_enc m"
| "column m MF_allergies = md_allergies_enc m"
| "column m MF_medications = md_medications_enc m"
| "column m MF_emergency_contact = md_emergency_contact_enc m"
| "column m MF_medical_notes = md_medical_notes_enc m"

definition write_columns :: "(medical_field \<Rightarrow> string option) \<Rightarrow> datetime \<Rightarrow> sub_medical \<Rightarrow> sub_medical" where
  "write_columns enc now m =
     m\<lparr>md_blood_type_enc := enc MF_blood_type, md_allergies_enc := enc MF_allergies,
       md_medications_enc := enc MF_medications, md_emergency_contact_enc := enc MF_emergency_contact,
       md_medical_notes_enc := enc MF_medical_notes, md_updated_at := now\<rparr>"

definition medical_of :: "uuid \<Rightarrow> store \<Rightarrow> sub_medical option" where
  "medical_of sid s = fetch md_sub_id sid (t_medical s)"

definition new_medical :: "uuid \<Rightarrow> uuid \<Rightarrow> sub_medical" where
  "new_medical sid gid = \<lparr>md_sub_id = sid, md_goddess_id = gid, md_blood_type_enc = None,
     md_allergies_enc = None, md_medications_enc = None, md_emergency_contact_enc = None,
     md_medical_notes_enc = None, md_updated_at = 0\<rparr>"

text \<open>\<^verbatim>\<open>INSERT ... ON CONFLICT (sub_id) DO UPDATE\<close>; the goddess is written on insert only.\<close>

definition upsert_medical ::
  "datetime \<Rightarrow> uuid \<Rightarrow> uuid \<Rightarrow> (medical_field \<Rightarrow> string option) \<Rightarrow> store \<Rightarrow> store" where
  "upsert_medical now sid gid enc s =
     (case medical_of sid s of
        Some _ \<Rightarrow> s\<lparr>t_medical := modify md_sub_id sid (write_columns enc now) (t_medical s)\<rparr>
      | None \<Rightarrow> s\<lparr>t_medical := insert_row (write_columns enc now (new_medical sid gid)) (t_medical s)\<rparr>)"

text \<open>The loop over the fields: a value that is present and not empty is encrypted, any other clears its column.\<close>

fun encrypt_fields ::
  "crypto \<Rightarrow> entropy \<Rightarrow> uuid \<Rightarrow> uuid \<Rightarrow> (medical_field \<Rightarrow> string option) \<Rightarrow> medical_field list \<Rightarrow>
   (medical_field \<Rightarrow> string option) \<Rightarrow> store \<Rightarrow> (store \<times> (medical_field \<Rightarrow> string option)) res" where
  "encrypt_fields e r gid sid body [] enc s = Inr (s, enc)"
| "encrypt_fields e r gid sid body (f # fs) enc s =
     (case body f of
        None \<Rightarrow> encrypt_fields e r gid sid body fs (enc(f := None)) s
      | Some v \<Rightarrow>
          if v = [] then encrypt_fields e r gid sid body fs (enc(f := None)) s
          else attempt (encrypt_for_goddess e r gid (en_nonce r (field_name f)) (utf8_encode v) (medical_aad e sid f) s)
            (\<lambda>(s1, blob). encrypt_fields e r gid sid body fs (enc(f := Some blob)) s1))"

record medical_self_out =
  so_is_set :: "medical_field \<Rightarrow> bool"
  so_updated_at :: datetime

definition to_self_out :: "sub_medical \<Rightarrow> medical_self_out" where
  "to_self_out m = \<lparr>so_is_set = (\<lambda>f. column m f \<noteq> None), so_updated_at = md_updated_at m\<rparr>"

definition get_self_status :: "datetime \<Rightarrow> user \<Rightarrow> store \<Rightarrow> medical_self_out" where
  "get_self_status now sub s =
     (case medical_of (u_id sub) s of
        None \<Rightarrow> \<lparr>so_is_set = (\<lambda>_. False), so_updated_at = now\<rparr>
      | Some m \<Rightarrow> to_self_out m)"

definition medical_upsert_self ::
  "crypto \<Rightarrow> entropy \<Rightarrow> datetime \<Rightarrow> user \<Rightarrow> (medical_field \<Rightarrow> string option) \<Rightarrow> store \<Rightarrow>
   (store \<times> medical_self_out) res" where
  "medical_upsert_self e r now sub body s =
     require (u_goddess_id sub) (Conflict ''sub has no goddess'') (\<lambda>gid.
     attempt (encrypt_fields e r gid (u_id sub) body medical_fields (\<lambda>_. None) s) (\<lambda>(s1, enc).
     let s2 = upsert_medical now (u_id sub) gid enc s1
     in require (medical_of (u_id sub) s2) MultipleResultsFound (\<lambda>m. Inr (s2, to_self_out m))))"

fun decrypt_fields ::
  "crypto \<Rightarrow> entropy \<Rightarrow> uuid \<Rightarrow> uuid \<Rightarrow> sub_medical \<Rightarrow> medical_field list \<Rightarrow>
   (medical_field \<Rightarrow> string option) \<Rightarrow> store \<Rightarrow> (store \<times> (medical_field \<Rightarrow> string option)) res" where
  "decrypt_fields e r gid sid m [] out s = Inr (s, out)"
| "decrypt_fields e r gid sid m (f # fs) out s =
     (case column m f of
        None \<Rightarrow> decrypt_fields e r gid sid m fs (out(f := None)) s
      | Some blob \<Rightarrow>
          attempt (decrypt_for_goddess e r gid blob (medical_aad e sid f) s) (\<lambda>(s1, p).
          require (utf8_decode p) (ValueError ''utf-8'') (\<lambda>v.
          decrypt_fields e r gid sid m fs (out(f := Some v)) s1)))"

record medical_reveal_out =
  ro_sub_id :: uuid
  ro_field :: "medical_field \<Rightarrow> string option"
  ro_updated_at :: datetime

definition reveal_for_goddess ::
  "crypto \<Rightarrow> entropy \<Rightarrow> datetime \<Rightarrow> user \<Rightarrow> uuid \<Rightarrow> store \<Rightarrow> (store \<times> medical_reveal_out) res" where
  "reveal_for_goddess e r now goddess sid s =
     require (medical_of sid s) (NotFound ''medical record not found'') (\<lambda>m.
     raise_if (md_goddess_id m \<noteq> u_id goddess) (Forbidden ''sub does not belong to this goddess'') (
     attempt (decrypt_fields e r (u_id goddess) sid m medical_fields (\<lambda>_. None) s) (\<lambda>(s1, out).
     Inr (record_action now (u_id goddess) ''medical_reveal'' (Some ''sub_medical'') (Some sid)
            (Some (J_obj [(''sub_id'', J_str (uuid_text e sid))])) s1,
          \<lparr>ro_sub_id = sid, ro_field = out, ro_updated_at = md_updated_at m\<rparr>))))"

text \<open>The routes: the feature flag, the role and the consent come before the handler.\<close>

definition get_own_medical_status :: "bool \<Rightarrow> datetime \<Rightarrow> user \<Rightarrow> store \<Rightarrow> medical_self_out res" where
  "get_own_medical_status enabled now sub s =
     raise_if (\<not> enabled) (HTTPException 404 ''Not Found'') (
     raise_if (u_role sub \<noteq> R_sub) (Forbidden ''role not permitted'') (
     attempt (require_consent (u_id sub) ''medical'' s) (\<lambda>_. Inr (get_self_status now sub s))))"

definition upsert_own_medical ::
  "crypto \<Rightarrow> entropy \<Rightarrow> bool \<Rightarrow> datetime \<Rightarrow> user \<Rightarrow> (medical_field \<Rightarrow> string option) \<Rightarrow> store \<Rightarrow>
   (store \<times> medical_self_out) res" where
  "upsert_own_medical e r enabled now sub body s =
     raise_if (\<not> enabled) (HTTPException 404 ''Not Found'') (
     raise_if (u_role sub \<noteq> R_sub) (Forbidden ''role not permitted'') (
     attempt (require_consent (u_id sub) ''medical'' s) (\<lambda>_. medical_upsert_self e r now sub body s)))"

definition reveal_sub_medical ::
  "crypto \<Rightarrow> entropy \<Rightarrow> bool \<Rightarrow> datetime \<Rightarrow> user \<Rightarrow> uuid \<Rightarrow> store \<Rightarrow> (store \<times> medical_reveal_out) res" where
  "reveal_sub_medical e r enabled now goddess sid s =
     raise_if (\<not> enabled) (HTTPException 404 ''Not Found'') (
     raise_if (u_role goddess \<noteq> R_goddess) (Forbidden ''role not permitted'') (
     reveal_for_goddess e r now goddess sid s))"

section \<open>What was sealed can be opened\<close>

definition readable :: "crypto \<Rightarrow> uuid \<Rightarrow> string \<Rightarrow> string \<Rightarrow> string \<Rightarrow> store \<Rightarrow> bool" where
  "readable e gid blob aad p s \<longleftrightarrow> (\<exists>k dek. kek_by_goddess gid s = Inr (Some k) \<and> goddess_dek e k = Inr dek \<and>
     (\<forall>b. unseal e dek (take 12 blob) (drop 12 blob) b = (if b = aad then Some p else None)))"

lemma readable_cong: "t_keks s' = t_keks s \<Longrightarrow> readable e gid blob aad p s' = readable e gid blob aad p s"
  by (simp add: readable_def kek_by_goddess_def)

lemma decrypt_readable:
  "readable e gid blob aad p s \<Longrightarrow>
   decrypt_for_goddess e r gid blob b s = (if b = aad then Inr (s, p) else Inl InvalidTag)"
  by (auto simp: readable_def decrypt_for_goddess_def ensure_goddess_kek_def)

lemma ensure_kek_facts:
  assumes "ensure_goddess_kek e r gid s = Inr (s1, k)"
  shows "kek_by_goddess gid s1 = Inr (Some k)" "s1 = s\<lparr>t_keks := t_keks s1\<rparr>"
    "kek_by_goddess gid s = Inr (Some k0) \<Longrightarrow> s1 = s"
proof -
  obtain found where f: "kek_by_goddess gid s = Inr found"
    using assms by (auto simp: ensure_goddess_kek_def res_simps)
  show "kek_by_goddess gid s1 = Inr (Some k)" "s1 = s\<lparr>t_keks := t_keks s1\<rparr>"
    "kek_by_goddess gid s = Inr (Some k0) \<Longrightarrow> s1 = s"
  proof (atomize (full), cases found)
    case (Some k1)
    with f assms have "s1 = s \<and> k = k1" by (auto simp: ensure_goddess_kek_def)
    with f Some show "kek_by_goddess gid s1 = Inr (Some k) \<and> s1 = s\<lparr>t_keks := t_keks s1\<rparr> \<and>
        (kek_by_goddess gid s = Inr (Some k0) \<longrightarrow> s1 = s)" by simp
  next
    case None
    with f have none: "filter (\<lambda>k. gk_goddess_id k = gid) (t_keks s) = []"
      by (simp add: kek_by_goddess_def scalar_one_or_none_None)
    obtain w n v where "create_kek gid w n v s = Inr (s1, k)"
      using assms f None by (auto simp: ensure_goddess_kek_def res_simps)
    with none f None show "kek_by_goddess gid s1 = Inr (Some k) \<and> s1 = s\<lparr>t_keks := t_keks s1\<rparr> \<and>
        (kek_by_goddess gid s = Inr (Some k0) \<longrightarrow> s1 = s)"
      by (auto simp: create_kek_def res_simps Let_def kek_by_goddess_def)
  qed
qed

lemma encrypt_facts:
  assumes "authentic e" "length nonce = 12" "encrypt_for_goddess e r gid nonce p aad s = Inr (s1, blob)"
  shows "readable e gid blob aad p s1" "s1 = s\<lparr>t_keks := t_keks s1\<rparr>"
    "readable e gid b a q s \<Longrightarrow> s1 = s"
proof -
  obtain k dek where k: "ensure_goddess_kek e r gid s = Inr (s1, k)" "goddess_dek e k = Inr dek"
      "blob = nonce @ seal e dek nonce p aad"
    using assms(3) by (auto simp: encrypt_for_goddess_def res_simps)
  show "s1 = s\<lparr>t_keks := t_keks s1\<rparr>" by (rule ensure_kek_facts(2) [OF k(1)])
  show "readable e gid blob aad p s1"
    using ensure_kek_facts(1) [OF k(1)] k(2,3) assms(1,2) by (auto simp: readable_def authentic_def)
  show "s1 = s" if "readable e gid b a q s"
    using that ensure_kek_facts(3) [OF k(1)] by (auto simp: readable_def)
qed

text \<open>The text a field ends up with: an empty one counts as none.\<close>

definition given :: "(medical_field \<Rightarrow> string option) \<Rightarrow> medical_field \<Rightarrow> string option" where
  "given body f = (if body f = Some [] then None else body f)"

definition stored :: "crypto \<Rightarrow> uuid \<Rightarrow> uuid \<Rightarrow> medical_field \<Rightarrow> string option \<Rightarrow> string option \<Rightarrow> store \<Rightarrow> bool" where
  "stored e gid sid f v blob s \<longleftrightarrow> (case v of
      None \<Rightarrow> blob = None
    | Some w \<Rightarrow> \<exists>b. blob = Some b \<and> readable e gid b (medical_aad e sid f) (utf8_encode w) s)"

lemma keks_only_trans: "t = s\<lparr>t_keks := a\<rparr> \<Longrightarrow> u = t\<lparr>t_keks := b\<rparr> \<Longrightarrow> u = s\<lparr>t_keks := b\<rparr>"
  by simp

lemma encrypt_fields_facts:
  assumes "authentic e" "\<And>f. length (en_nonce r f) = 12"
    "encrypt_fields e r gid sid body fs enc s = Inr (s', enc')" "distinct fs"
    and "\<And>f. f \<in> D \<Longrightarrow> stored e gid sid f (given body f) (enc f) s" "D \<inter> set fs = {}"
  shows "s' = s\<lparr>t_keks := t_keks s'\<rparr> \<and> (\<forall>f \<in> D \<union> set fs. stored e gid sid f (given body f) (enc' f) s')"
  using assms(3-)
proof (induction fs arbitrary: enc s D)
  case Nil
  then show ?case by auto
next
  case (Cons f fs)
  show ?case
  proof (cases "given body f")
    case None
    then have 1: "encrypt_fields e r gid sid body fs (enc(f := None)) s = Inr (s', enc')"
      using Cons.prems(1) by (auto simp: given_def split: option.splits if_splits)
    have "stored e gid sid g (given body g) ((enc(f := None)) g) s" if "g \<in> insert f D" for g
      using that Cons.prems(3) None by (cases "g = f") (auto simp: stored_def [of e gid sid f])
    from Cons.IH [OF 1 _ this] have "s' = s\<lparr>t_keks := t_keks s'\<rparr> \<and>
        (\<forall>g \<in> insert f D \<union> set fs. stored e gid sid g (given body g) (enc' g) s')"
      using Cons.prems(2,4) by auto
    then show ?thesis by simp
  next
    case (Some v)
    then obtain s1 blob where 1: "encrypt_for_goddess e r gid (en_nonce r (field_name f)) (utf8_encode v)
          (medical_aad e sid f) s = Inr (s1, blob)"
        "encrypt_fields e r gid sid body fs (enc(f := Some blob)) s1 = Inr (s', enc')"
      using Cons.prems(1) by (auto simp: given_def res_simps split: option.splits if_splits)
    note enc = encrypt_facts [OF assms(1) assms(2) 1(1)]
    have "stored e gid sid g (given body g) ((enc(f := Some blob)) g) s1" if "g \<in> insert f D" for g
    proof (cases "g = f")
      case True
      then show ?thesis using enc(1) Some by (simp add: stored_def)
    next
      case False
      with that Cons.prems(3) have "stored e gid sid g (given body g) (enc g) s" by auto
      then show ?thesis using False enc(3) by (auto simp: stored_def split: option.splits)
    qed
    from Cons.IH [OF 1(2) _ this] have "s' = s1\<lparr>t_keks := t_keks s'\<rparr> \<and>
        (\<forall>g \<in> insert f D \<union> set fs. stored e gid sid g (given body g) (enc' g) s')"
      using Cons.prems(2,4) by auto
    with keks_only_trans [OF enc(2)] show ?thesis by simp
  qed
qed

lemma decrypt_fields_facts:
  assumes "\<And>f. f \<in> set fs \<Longrightarrow> stored e gid sid f (v f) (column m f) s"
  shows "decrypt_fields e r gid sid m fs out s = Inr (s, \<lambda>f. if f \<in> set fs then v f else out f)"
  using assms
proof (induction fs arbitrary: out)
  case Nil
  then show ?case by simp
next
  case (Cons f fs)
  have IH: "decrypt_fields e r gid sid m fs out s = Inr (s, \<lambda>f. if f \<in> set fs then v f else out f)" for out
    by (rule Cons.IH) (use Cons.prems in auto)
  have "stored e gid sid f (v f) (column m f) s" by (rule Cons.prems) simp
  then have "decrypt_fields e r gid sid m (f # fs) out s = decrypt_fields e r gid sid m fs (out(f := v f)) s"
    by (auto simp: stored_def decrypt_readable utf8_roundtrip split: option.splits)
  then show ?case unfolding IH by (auto simp: fun_eq_iff)
qed

lemma aad_inject: "medical_aad e sid f = medical_aad e sid g \<longleftrightarrow> f = g"
proof
  assume "medical_aad e sid f = medical_aad e sid g"
  then have "utf8_decode (medical_aad e sid f) = utf8_decode (medical_aad e sid g)" by simp
  then have "field_name f = field_name g" by (simp add: medical_aad_def utf8_roundtrip)
  then show "f = g" by (cases f; cases g) simp_all
qed simp

lemma written_column [simp]: "column (write_columns enc now m) f = enc f"
  by (cases f) (simp_all add: write_columns_def)

lemma written_simps [simp]:
  "md_sub_id (write_columns enc now m) = md_sub_id m" "md_goddess_id (write_columns enc now m) = md_goddess_id m"
  "md_updated_at (write_columns enc now m) = now"
  by (simp_all add: write_columns_def)

interpretation medical: keyed_table md_sub_id "fetch md_sub_id" insert_row "modify md_sub_id"
  by (rule list_table)

lemma medical_after_upsert:
  "medical_of sid (upsert_medical now sid gid enc s) = Some (write_columns enc now
     (case medical_of sid s of None \<Rightarrow> new_medical sid gid | Some m \<Rightarrow> m))"
proof (cases "medical_of sid s")
  case None
  then show ?thesis
    using medical.get_add_same [of "write_columns enc now (new_medical sid gid)" "t_medical s"]
    by (simp add: upsert_medical_def medical_of_def new_medical_def)
next
  case (Some m)
  then show ?thesis
    by (simp add: upsert_medical_def medical_of_def medical.get_upd [where f = "write_columns enc now"])
qed

lemma upsert_keeps_keks [simp]: "t_keks (upsert_medical now sid gid enc s) = t_keks s"
  by (simp add: upsert_medical_def split: option.splits)

lemma all_fields [simp]: "f \<in> set medical_fields" "distinct medical_fields"
  by (cases f) (simp_all add: medical_fields_def)

text \<open>What a saved record holds.\<close>

lemma medical_saved:
  assumes "authentic e" "\<And>f. length (en_nonce r f) = 12" "u_goddess_id sub = Some gid"
    and "medical_upsert_self e r now sub body s = Inr (s', out)"
  obtains m enc where "medical_of (u_id sub) s' = Some m" "column m = enc" "md_updated_at m = now"
    "md_goddess_id m = (case medical_of (u_id sub) s of None \<Rightarrow> gid | Some m0 \<Rightarrow> md_goddess_id m0)"
    "\<And>f. stored e gid (u_id sub) f (given body f) (enc f) s'" "out = to_self_out m"
proof -
  obtain s1 enc m where 1: "encrypt_fields e r gid (u_id sub) body medical_fields (\<lambda>_. None) s = Inr (s1, enc)"
      "s' = upsert_medical now (u_id sub) gid enc s1" "medical_of (u_id sub) s' = Some m" "out = to_self_out m"
    using assms(3,4) by (auto simp: medical_upsert_self_def res_simps Let_def)
  have e: "s1 = s\<lparr>t_keks := t_keks s1\<rparr>" "\<And>f. stored e gid (u_id sub) f (given body f) (enc f) s1"
    using encrypt_fields_facts [OF assms(1,2) 1(1), of "{}"] by auto
  have "medical_of (u_id sub) s1 = medical_of (u_id sub) s" by (subst e(1)) (simp add: medical_of_def)
  then have m: "m = write_columns enc now (case medical_of (u_id sub) s of None \<Rightarrow> new_medical (u_id sub) gid | Some m \<Rightarrow> m)"
    using 1(2,3) medical_after_upsert by simp
  have st: "stored e gid (u_id sub) f (given body f) (enc f) s'" for f
    using e(2) [of f] readable_cong [of s' s1] 1(2) by (auto simp: stored_def split: option.splits)
  show thesis
    by (rule that [OF 1(3) _ _ _ st 1(4)]) (auto simp: m new_medical_def split: option.splits)
qed

section \<open>The round trip through the cipher\<close>

text \<open>The goddess a record is kept for: the one of the first save.\<close>

definition record_owner :: "uuid \<Rightarrow> uuid \<Rightarrow> store \<Rightarrow> uuid" where
  "record_owner sid gid s = (case medical_of sid s of None \<Rightarrow> gid | Some m \<Rightarrow> md_goddess_id m)"

text \<open>
  C16: The medical record that a sub saves, for the first time or over an older one, is the one a
  reveal shows: a field that was given comes back with its text, a field that was empty or missing
  comes back as none, and the flags the sub gets say which is which; the ciphertext of one field
  cannot be opened as another field. The record is kept for the goddess the sub had at the first
  save. The reveal answers, while the sub is with that goddess, only to an account whose own identifier is that of her
  profile and records the access; an account with another identifier, as the one that owns that
  profile has, is refused, and so is everybody of a goddess the sub has changed to. Assumed are an
  authenticating cipher and nonces of twelve bytes.
\<close>

theorem medical_revealed:
  assumes "authentic e" "\<And>f. length (en_nonce r f) = 12" "u_goddess_id sub = Some gid"
    and "medical_upsert_self e r now sub body s = Inr (s', out)"
  shows "(\<forall>f. so_is_set out f \<longleftrightarrow> given body f \<noteq> None) \<and>
     (u_id g \<noteq> record_owner (u_id sub) gid s \<longrightarrow>
        reveal_for_goddess e r2 now2 g (u_id sub) s' = Inl (Forbidden ''sub does not belong to this goddess'')) \<and>
     (u_id g = record_owner (u_id sub) gid s \<and> u_id g = gid \<longrightarrow>
        reveal_for_goddess e r2 now2 g (u_id sub) s' =
          Inr (record_action now2 gid ''medical_reveal'' (Some ''sub_medical'') (Some (u_id sub))
                  (Some (J_obj [(''sub_id'', J_str (uuid_text e (u_id sub)))])) s',
                \<lparr>ro_sub_id = u_id sub, ro_field = given body, ro_updated_at = now\<rparr>)) \<and>
     (\<forall>m f h blob. medical_of (u_id sub) s' = Some m \<longrightarrow> column m f = Some blob \<longrightarrow> h \<noteq> f \<longrightarrow>
        decrypt_for_goddess e r2 gid blob (medical_aad e (u_id sub) h) s' = Inl InvalidTag)"
proof -
  obtain m enc where m: "medical_of (u_id sub) s' = Some m" "column m = enc" "md_updated_at m = now"
      "md_goddess_id m = record_owner (u_id sub) gid s"
      "\<And>f. stored e gid (u_id sub) f (given body f) (enc f) s'" "out = to_self_out m"
    using medical_saved [OF assms] unfolding record_owner_def by metis
  have flags: "so_is_set out f \<longleftrightarrow> given body f \<noteq> None" for f
    using m(5) [of f] by (auto simp: m(6) to_self_out_def m(2) stored_def split: option.splits)
  have "decrypt_fields e r2 gid (u_id sub) m medical_fields (\<lambda>_. None) s' =
      Inr (s', \<lambda>f. if f \<in> set medical_fields then given body f else None)"
    by (rule decrypt_fields_facts) (use m(2,5) in simp)
  then have dec: "decrypt_fields e r2 gid (u_id sub) m medical_fields (\<lambda>_. None) s' = Inr (s', given body)" by simp
  have "decrypt_for_goddess e r2 gid blob (medical_aad e (u_id sub) h) s' = Inl InvalidTag"
    if "column m f = Some blob" "h \<noteq> f" for f h blob
    using m(5) [of f] that by (auto simp: stored_def m(2) decrypt_readable aad_inject split: option.splits)
  with flags m(1,3,4) dec show ?thesis by (auto simp: reveal_for_goddess_def)
qed

text \<open>A toy cipher that keeps its promise, for a concrete run.\<close>

definition toy_crypto :: crypto where
  "toy_crypto = \<lparr>seal = (\<lambda>k n p a. replicate (length a) CHR ''x'' @ CHR ''.'' # a @ p),
     unseal = (\<lambda>k n c b. let m = length (takeWhile (\<lambda>x. x = CHR ''x'') c); rest = drop (m + 1) c
       in if take m rest = b then Some (drop m rest) else None),
     b64decode = Some, uuid_text = (\<lambda>n. replicate n CHR ''i''),
     root_kek_b64 = replicate 32 CHR ''k'', root_kek_version = 1\<rparr>"

lemma takeWhile_replicate:
  "takeWhile (\<lambda>x. x = c) (replicate n c @ d # xs) = replicate n c @ takeWhile (\<lambda>x. x = c) (d # xs)"
  by (induction n) auto

lemma toy_authentic: "authentic toy_crypto"
  by (auto simp: authentic_def toy_crypto_def takeWhile_replicate Let_def)

definition toy_entropy :: entropy where
  "toy_entropy = \<lparr>en_dek = replicate 32 CHR ''d'', en_wrap_nonce = replicate 12 CHR ''n'',
     en_nonce = (\<lambda>_. replicate 12 CHR ''m'')\<rparr>"

definition penicillin :: "medical_field \<Rightarrow> string option" where
  "penicillin = (\<lambda>f. if f = MF_allergies then Some ''penicillin'' else if f = MF_medications then Some [] else None)"

lemma toy_upsert: "\<exists>s' out. medical_upsert_self toy_crypto toy_entropy 5 sub_user penicillin (empty_store world) = Inr (s', out)"
proof -
  let ?s = "empty_store world"
  let ?w = "seal toy_crypto (replicate 32 CHR ''k'') (replicate 12 CHR ''n'') (replicate 32 CHR ''d'') []"
  let ?k = "\<lparr>gk_goddess_id = 10, gk_wrapped_dek = ?w, gk_root_kek_version = 1, gk_nonce = replicate 12 CHR ''n'', gk_rotated_at = None\<rparr>"
  have root: "load_root_kek toy_crypto = Inr (replicate 32 CHR ''k'')" by (simp add: load_root_kek_def toy_crypto_def)
  have v: "root_kek_version toy_crypto = 1" by (simp add: toy_crypto_def)
  have "ensure_goddess_kek toy_crypto toy_entropy 10 ?s = Inr (?s\<lparr>t_keks := [?k]\<rparr>, ?k)"
    by (simp add: ensure_goddess_kek_def kek_by_goddess_def wrap_dek_def root v toy_entropy_def create_kek_def Let_def world_def)
  moreover have "goddess_dek toy_crypto ?k = Inr (replicate 32 CHR ''d'')"
    using toy_authentic by (simp add: goddess_dek_def unwrap_dek_def root v authentic_def)
  ultimately show ?thesis
    by (simp add: medical_upsert_self_def medical_fields_def penicillin_def encrypt_for_goddess_def Let_def medical_after_upsert)
qed

lemma medical_revealed_witness:
  "\<exists>s'. reveal_for_goddess toy_crypto toy_entropy 6 dom_user 12 s' = Inl (Forbidden ''sub does not belong to this goddess'') \<and>
     (\<exists>s2 out. reveal_for_goddess toy_crypto toy_entropy 6 (dom_user\<lparr>u_id := 10\<rparr>) 12 s' = Inr (s2, out) \<and>
        ro_field out MF_allergies = Some ''penicillin'' \<and> ro_field out MF_medications = None)"
proof -
  obtain s' out where u: "medical_upsert_self toy_crypto toy_entropy 5 sub_user penicillin (empty_store world) = Inr (s', out)"
    using toy_upsert by blast
  have n: "length (en_nonce toy_entropy f) = 12" for f by (simp add: toy_entropy_def)
  have "record_owner 12 10 (empty_store world) = 10" by (simp add: record_owner_def medical_of_def)
  have g: "u_goddess_id sub_user = Some 10" by simp
  note reveal = medical_revealed [OF toy_authentic n g u, of _ toy_entropy 6]
  from reveal [of dom_user] reveal [of "dom_user\<lparr>u_id := 10\<rparr>"] \<open>record_owner 12 10 (empty_store world) = 10\<close>
  show ?thesis by (auto simp: given_def penicillin_def)
qed

text \<open>After a change of goddess the record is saved under the key of the new one, but kept for the old one.\<close>

lemma record_keeps_first_goddess:
  assumes "authentic e" "\<And>f. length (en_nonce r f) = 12" "u_goddess_id sub = Some gid"
    and "medical_of (u_id sub) s = Some m" "md_goddess_id m \<noteq> gid"
    and "medical_upsert_self e r now sub body s = Inr (s', out)"
  obtains m' where "medical_of (u_id sub) s' = Some m'" "md_goddess_id m' = md_goddess_id m"
    "\<And>f. stored e gid (u_id sub) f (given body f) (column m' f) s'"
  using medical_saved [OF assms(1-3,6)] assms(4) by (metis option.simps(5))

section \<open>New root keys\<close>

text \<open>A new version of the root key locks what was written before, until the data key is wrapped anew; after that
everything can be read as before.\<close>

lemma version_change_locks:
  assumes "kek_by_goddess gid s = Inr (Some k)" and "gk_root_kek_version k \<noteq> root_kek_version e"
  shows "decrypt_for_goddess e r gid blob aad s = Inl (RuntimeError ''KEK version mismatch'')"
  using assms by (simp add: decrypt_for_goddess_def ensure_goddess_kek_def goddess_dek_def unwrap_dek_def)

lemma filter_modify_key:
  assumes "\<And>r. key (f r) = key r"
  shows "filter (\<lambda>r. key r = k) (modify key k f t) = map f (filter (\<lambda>r. key r = k) t)"
  by (induction t) (simp_all add: modify_def assms)

lemma rotation_keeps_readable:
  assumes e': "authentic e'" and same: "unseal e' = unseal e"
    and k: "kek_by_goddess gid s = Inr (Some k)" and dek: "goddess_dek e k = Inr dek"
    and wrapped: "wrap_dek e' nonce dek = Inr (w, n, v)" and r: "readable e gid blob aad p s"
  shows "readable e' gid blob aad p (rotate_kek gid w n v now s)"
proof -
  let ?f = "\<lambda>k. k\<lparr>gk_wrapped_dek := w, gk_nonce := n, gk_root_kek_version := v, gk_rotated_at := Some now\<rparr>"
  have "filter (\<lambda>k. gk_goddess_id k = gid) (t_keks s) = [k]" using k by (simp add: kek_by_goddess_def scalar_one_or_none_Some)
  then have "kek_by_goddess gid (rotate_kek gid w n v now s) = Inr (Some (?f k))"
    by (simp add: kek_by_goddess_def rotate_kek_def filter_modify_key)
  moreover have "goddess_dek e' (?f k) = Inr dek"
    using wrapped e' by (auto simp: goddess_dek_def wrap_dek_def unwrap_dek_def authentic_def res_simps)
  moreover have "\<forall>b. unseal e' dek (take 12 blob) (drop 12 blob) b = (if b = aad then Some p else None)"
    using r k dek same by (simp add: readable_def)
  ultimately show ?thesis unfolding readable_def by blast
qed

section \<open>Aftercare\<close>

record aftercare_update =
  au_needs :: "string option"
  au_comfort_items :: "string option"
  au_contact_phrase :: "string option"
  au_notes :: "string option"
  au_intensity :: "int option"

interpretation aftercare: keyed_table ac_sub_id "fetch ac_sub_id" insert_row "modify ac_sub_id"
  by (rule list_table)

definition aftercare_of :: "uuid \<Rightarrow> store \<Rightarrow> sub_aftercare option" where
  "aftercare_of sid s = fetch ac_sub_id sid (t_aftercare s)"

definition default_aftercare :: "datetime \<Rightarrow> uuid \<Rightarrow> sub_aftercare" where
  "default_aftercare now sid = \<lparr>ac_sub_id = sid, ac_needs = None, ac_comfort_items = None, ac_contact_phrase = None,
     ac_notes = None, ac_intensity = 3, ac_read_by_goddess_at = None, ac_updated_at = now\<rparr>"

definition get_own_aftercare :: "datetime \<Rightarrow> uuid \<Rightarrow> store \<Rightarrow> sub_aftercare" where
  "get_own_aftercare now sid s = (case aftercare_of sid s of None \<Rightarrow> default_aftercare now sid | Some a \<Rightarrow> a)"

text \<open>Only the values that are not null enter the statement, on insert (beside the column defaults) and on update.\<close>

definition written_aftercare :: "aftercare_update \<Rightarrow> datetime \<Rightarrow> sub_aftercare \<Rightarrow> sub_aftercare" where
  "written_aftercare p now a =
     a\<lparr>ac_needs := override_opt (au_needs p) (ac_needs a),
       ac_comfort_items := override_opt (au_comfort_items p) (ac_comfort_items a),
       ac_contact_phrase := override_opt (au_contact_phrase p) (ac_contact_phrase a),
       ac_notes := override_opt (au_notes p) (ac_notes a),
       ac_intensity := override (au_intensity p) (ac_intensity a), ac_updated_at := now\<rparr>"

text \<open>The table checks that the intensity lies between 1 and 5.\<close>

definition upsert_own_aftercare ::
  "datetime \<Rightarrow> uuid \<Rightarrow> aftercare_update \<Rightarrow> store \<Rightarrow> (store \<times> sub_aftercare) res" where
  "upsert_own_aftercare now sid p s =
     (let row = written_aftercare p now (get_own_aftercare now sid s) in
      raise_if (\<not> (1 \<le> ac_intensity row \<and> ac_intensity row \<le> 5)) (IntegrityError ''ck_aftercare_intensity'') (
      Inr (case aftercare_of sid s of
             Some _ \<Rightarrow> s\<lparr>t_aftercare := modify ac_sub_id sid (written_aftercare p now) (t_aftercare s)\<rparr>
           | None \<Rightarrow> s\<lparr>t_aftercare := insert_row row (t_aftercare s)\<rparr>, row)))"

definition sub_named_under_goddess :: "uuid \<Rightarrow> string \<Rightarrow> store \<Rightarrow> user res" where
  "sub_named_under_goddess goddess_user_id name s =
     attempt (resolve_goddess_id goddess_user_id (core s)) (\<lambda>gid.
     attempt (user_by_username name (core s)) (\<lambda>r.
     require r (NotFound ''sub not found'') (\<lambda>sub.
     raise_if (u_goddess_id sub \<noteq> Some gid) (NotFound ''sub not found'') (Inr sub))))"

definition aftercare_for_goddess :: "datetime \<Rightarrow> uuid \<Rightarrow> string \<Rightarrow> store \<Rightarrow> sub_aftercare res" where
  "aftercare_for_goddess now goddess_user_id name s =
     attempt (sub_named_under_goddess goddess_user_id name s) (\<lambda>sub. Inr (get_own_aftercare now (u_id sub) s))"

definition stamp_read :: "datetime \<Rightarrow> sub_aftercare \<Rightarrow> sub_aftercare" where
  "stamp_read now a = (if ac_read_by_goddess_at a = None then a\<lparr>ac_read_by_goddess_at := Some now\<rparr> else a)"

definition mark_aftercare_read :: "datetime \<Rightarrow> uuid \<Rightarrow> string \<Rightarrow> store \<Rightarrow> store res" where
  "mark_aftercare_read now goddess_user_id name s =
     attempt (sub_named_under_goddess goddess_user_id name s) (\<lambda>sub.
     require (aftercare_of (u_id sub) s) (NotFound ''aftercare record not found'') (\<lambda>_.
     Inr (s\<lparr>t_aftercare := modify ac_sub_id (u_id sub) (stamp_read now) (t_aftercare s)\<rparr>)))"

lemma written_aftercare_id [simp]:
  "ac_sub_id (written_aftercare p now a) = ac_sub_id a" "ac_sub_id (stamp_read now a) = ac_sub_id a"
  by (simp_all add: written_aftercare_def stamp_read_def)

lemma aftercare_upserted:
  assumes "upsert_own_aftercare now sid p s = Inr (s', row)"
  shows "row = written_aftercare p now (get_own_aftercare now sid s)" "aftercare_of sid s' = Some row"
    "core s' = core s"
proof -
  show row: "row = written_aftercare p now (get_own_aftercare now sid s)" and "core s' = core s"
    using assms by (auto simp: upsert_own_aftercare_def res_simps Let_def split: option.splits)
  show "aftercare_of sid s' = Some row"
  proof (cases "aftercare_of sid s")
    case None
    with assms row have "s' = s\<lparr>t_aftercare := insert_row row (t_aftercare s)\<rparr>" "ac_sub_id row = sid"
      by (auto simp: upsert_own_aftercare_def res_simps Let_def get_own_aftercare_def default_aftercare_def)
    with None show ?thesis using aftercare.get_add_same [of row "t_aftercare s"] by (simp add: aftercare_of_def)
  next
    case (Some a)
    with assms row show ?thesis
      by (auto simp: upsert_own_aftercare_def res_simps Let_def get_own_aftercare_def aftercare_of_def
          aftercare.get_upd [where f = "written_aftercare p now"])
  qed
qed

text \<open>
  Saving aftercare wishes changes just the fields that carry a value: a field that is missing
  or null keeps what it held, also when it held a text, so nothing is ever cleared to none; the
  stamp of the goddess's first reading survives every later edit of the sub, and reading again
  does not move it.
\<close>

theorem aftercare_saved:
  assumes "upsert_own_aftercare now sid p s = Inr (s', row)"
  shows "aftercare_of sid s' = Some row \<and>
     ac_needs row = (case au_needs p of Some v \<Rightarrow> Some v | None \<Rightarrow> Option.bind (aftercare_of sid s) ac_needs) \<and>
     ac_intensity row = (case au_intensity p of Some v \<Rightarrow> v
        | None \<Rightarrow> (case aftercare_of sid s of Some a \<Rightarrow> ac_intensity a | None \<Rightarrow> 3)) \<and>
     1 \<le> ac_intensity row \<and> ac_intensity row \<le> 5 \<and>
     ac_read_by_goddess_at row = Option.bind (aftercare_of sid s) ac_read_by_goddess_at \<and>
     (\<forall>now2 g name s2 sub. mark_aftercare_read now2 g name s' = Inr s2 \<longrightarrow>
        sub_named_under_goddess g name s' = Inr sub \<longrightarrow> u_id sub = sid \<longrightarrow>
        map_option ac_read_by_goddess_at (aftercare_of sid s2) =
          Some (Some (case ac_read_by_goddess_at row of None \<Rightarrow> now2 | Some t \<Rightarrow> t)))"
proof -
  note row = aftercare_upserted [OF assms]
  have bounds: "1 \<le> ac_intensity row \<and> ac_intensity row \<le> 5"
    using assms by (auto simp: upsert_own_aftercare_def res_simps Let_def)
  have "map_option ac_read_by_goddess_at (aftercare_of sid s2) =
          Some (Some (case ac_read_by_goddess_at row of None \<Rightarrow> now2 | Some t \<Rightarrow> t))"
    if "mark_aftercare_read now2 g name s' = Inr s2" "sub_named_under_goddess g name s' = Inr sub" "u_id sub = sid"
    for now2 g name s2 sub
    using that row(2)
    by (auto simp: mark_aftercare_read_def res_simps aftercare_of_def aftercare.get_upd [where f = "stamp_read now2"]
        stamp_read_def split: option.splits)
  with row bounds show ?thesis
    by (auto simp: written_aftercare_def get_own_aftercare_def default_aftercare_def split: option.splits)
qed

lemma aftercare_saved_witness:
  "\<exists>c s' row. upsert_own_aftercare 9 12 \<lparr>au_needs = None, au_comfort_items = None, au_contact_phrase = None,
       au_notes = Some ''tea'', au_intensity = None\<rparr>
       ((empty_store c)\<lparr>t_aftercare := [(default_aftercare 1 12)\<lparr>ac_needs := Some ''quiet'', ac_read_by_goddess_at := Some 4\<rparr>]\<rparr>) =
       Inr (s', row) \<and> ac_needs row = Some ''quiet'' \<and> ac_read_by_goddess_at row = Some 4 \<and> ac_intensity row = 3"
proof -
  fix c
  let ?a = "(default_aftercare 1 12)\<lparr>ac_needs := Some ''quiet'', ac_read_by_goddess_at := Some 4\<rparr>"
  let ?s = "(empty_store c)\<lparr>t_aftercare := [?a]\<rparr>"
  let ?p = "\<lparr>au_needs = None, au_comfort_items = None, au_contact_phrase = None, au_notes = Some ''tea'', au_intensity = None\<rparr>"
  have old: "aftercare_of 12 ?s = Some ?a" by (simp add: aftercare_of_def default_aftercare_def)
  obtain s' row where u: "upsert_own_aftercare 9 12 ?p ?s = Inr (s', row)"
    by (simp add: upsert_own_aftercare_def Let_def get_own_aftercare_def old)
      (simp add: written_aftercare_def default_aftercare_def)
  from aftercare_saved [OF u] old have "ac_needs row = Some ''quiet'' \<and> ac_read_by_goddess_at row = Some 4 \<and> ac_intensity row = 3"
    by (simp add: default_aftercare_def)
  with u show ?thesis by (intro exI conjI) auto
qed

end
