(* ===== verification/Kinks.thy ===== *)
theory Kinks
  imports Personal Samples "HOL-Library.List_Lexorder" "HOL-Library.Char_ord"
begin

text \<open>
  The kink catalogue: \<^verbatim>\<open>controllers/kinks_controller.py\<close> with \<^verbatim>\<open>daos/kink_category_dao.py\<close>,
  \<^verbatim>\<open>daos/kink_item_dao.py\<close> and \<^verbatim>\<open>daos/sub_kink_rating_dao.py\<close>. Random suffixes of slugs are
  inputs; text is ordered by code point.
\<close>

interpretation kinks: keyed_table ki_id "fetch ki_id" insert_row "modify ki_id"
  by (rule list_table)

section \<open>Rows\<close>

definition list_categories :: "store \<Rightarrow> kink_category list" where
  "list_categories s = sort_key kc_sort_order (t_categories s)"

definition category_by_slug :: "string \<Rightarrow> store \<Rightarrow> kink_category res" where
  "category_by_slug slug s =
     attempt (scalar_one_or_none (filter (\<lambda>c. kc_slug c = slug) (t_categories s))) (\<lambda>r.
     require r (NotFound ''kink_category not found'') Inr)"

definition upsert_category_by_slug ::
  "uuid \<Rightarrow> datetime \<Rightarrow> string \<Rightarrow> string \<Rightarrow> bool \<Rightarrow> int \<Rightarrow> store \<Rightarrow> store res" where
  "upsert_category_by_slug cid now slug label flag order s =
     attempt (scalar_one_or_none (filter (\<lambda>c. kc_slug c = slug) (t_categories s))) (\<lambda>r.
     Inr (case r of
        None \<Rightarrow> s\<lparr>t_categories := insert_row \<lparr>kc_id = cid, kc_slug = slug, kc_label = label,
                  kc_safety_flag = flag, kc_sort_order = order, kc_updated_at = now\<rparr> (t_categories s)\<rparr>
      | Some c \<Rightarrow> s\<lparr>t_categories := modify kc_id (kc_id c) (\<lambda>c. c\<lparr>kc_label := label, kc_safety_flag := flag,
                  kc_sort_order := order, kc_updated_at := now\<rparr>) (t_categories s)\<rparr>))"

definition list_by_category :: "uuid \<Rightarrow> store \<Rightarrow> kink_item list" where
  "list_by_category cid s =
     sort_key ki_slug (filter (\<lambda>i. ki_category_id i = cid \<and> ki_approved i) (t_kinks s))"

definition list_for_goddess :: "uuid \<Rightarrow> store \<Rightarrow> kink_item list" where
  "list_for_goddess gid s =
     sort_key (\<lambda>i. (ki_category_id i, ki_slug i))
       (filter (\<lambda>i. ki_approved i \<and> (ki_goddess_id i = None \<or> ki_goddess_id i = Some gid)) (t_kinks s))"

definition kink_by_id :: "uuid \<Rightarrow> store \<Rightarrow> kink_item res" where
  "kink_by_id k s = require (fetch ki_id k (t_kinks s)) (NotFound ''kink_item not found'') Inr"

definition list_proposals_for_sub :: "uuid \<Rightarrow> store \<Rightarrow> kink_item list" where
  "list_proposals_for_sub sid s =
     sort_key ki_created_at (filter (\<lambda>i. ki_proposed_by i = Some sid \<and> \<not> ki_approved i \<and> ki_is_custom i) (t_kinks s))"

definition list_proposals_for_goddess :: "uuid \<Rightarrow> store \<Rightarrow> kink_item list" where
  "list_proposals_for_goddess gid s =
     sort_key ki_created_at (filter (\<lambda>i. ki_goddess_id i = Some gid \<and> ki_is_custom i \<and> \<not> ki_approved i) (t_kinks s))"

definition ratings_of_sub :: "uuid \<Rightarrow> store \<Rightarrow> sub_kink_rating list" where
  "ratings_of_sub sid s = sort_key kr_item_id (filter (\<lambda>r. kr_sub_id r = sid) (t_ratings s))"

definition rated :: "kink_rating \<Rightarrow> string option \<Rightarrow> datetime \<Rightarrow> sub_kink_rating \<Rightarrow> sub_kink_rating" where
  "rated rating note now r = r\<lparr>kr_rating := rating, kr_note := note, kr_updated_at := now\<rparr>"

definition upsert_rating ::
  "datetime \<Rightarrow> uuid \<Rightarrow> uuid \<Rightarrow> uuid \<Rightarrow> kink_rating \<Rightarrow> string option \<Rightarrow> store \<Rightarrow> (store \<times> sub_kink_rating) res" where
  "upsert_rating now sid gid k rating note s =
     attempt (scalar_one_or_none (filter (\<lambda>r. kr_sub_id r = sid \<and> kr_item_id r = k) (t_ratings s))) (\<lambda>found.
     case found of
       Some r \<Rightarrow> Inr (s\<lparr>t_ratings := modify (\<lambda>r. (kr_sub_id r, kr_item_id r)) (sid, k) (rated rating note now) (t_ratings s)\<rparr>,
                      rated rating note now r)
     | None \<Rightarrow>
         let r = \<lparr>kr_sub_id = sid, kr_goddess_id = gid, kr_item_id = k, kr_rating = rating, kr_note = note, kr_updated_at = now\<rparr>
         in Inr (s\<lparr>t_ratings := insert_row r (t_ratings s)\<rparr>, r))"

section \<open>The matrix of a sub\<close>

definition needs_confirmation :: "bool \<Rightarrow> kink_rating \<Rightarrow> bool" where
  "needs_confirmation flag rating \<longleftrightarrow> flag \<and> rating \<in> set [KR_loves, KR_fetish_need]"

record kink_item_out =
  ko_id :: uuid
  ko_slug :: string
  ko_label :: string
  ko_description :: "string option"
  ko_safety_flag :: bool
  ko_is_custom :: bool
  ko_rating :: kink_rating
  ko_note :: "string option"
  ko_needs_confirmation :: bool

record kink_category_out =
  co_id :: uuid
  co_slug :: string
  co_label :: string
  co_safety_flag :: bool
  co_sort_order :: int
  co_items :: "kink_item_out list"

definition item_to_out :: "kink_item \<Rightarrow> sub_kink_rating option \<Rightarrow> kink_item_out" where
  "item_to_out i r =
     (let current = (case r of Some x \<Rightarrow> kr_rating x | None \<Rightarrow> KR_not_set) in
      \<lparr>ko_id = ki_id i, ko_slug = ki_slug i, ko_label = ki_label i, ko_description = ki_description i,
       ko_safety_flag = ki_safety_flag i, ko_is_custom = ki_is_custom i, ko_rating = current,
       ko_note = Option.bind r kr_note, ko_needs_confirmation = needs_confirmation (ki_safety_flag i) current\<rparr>)"

definition category_to_out :: "kink_category \<Rightarrow> kink_item list \<Rightarrow> (uuid \<Rightarrow> sub_kink_rating option) \<Rightarrow> kink_category_out" where
  "category_to_out c items ratings =
     \<lparr>co_id = kc_id c, co_slug = kc_slug c, co_label = kc_label c, co_safety_flag = kc_safety_flag c,
      co_sort_order = kc_sort_order c, co_items = map (\<lambda>i. item_to_out i (ratings (ki_id i))) items\<rparr>"

text \<open>\<^verbatim>\<open>{r.item_id: r for r in ratings}\<close>: of two ratings of one item the last is kept.\<close>

definition rating_by_item :: "sub_kink_rating list \<Rightarrow> uuid \<Rightarrow> sub_kink_rating option" where
  "rating_by_item rs = map_of (rev (map (\<lambda>r. (kr_item_id r, r)) rs))"

definition build_matrix :: "uuid \<Rightarrow> uuid \<Rightarrow> store \<Rightarrow> kink_category_out list" where
  "build_matrix sid gid s =
     (let items = list_for_goddess gid s; ratings = rating_by_item (ratings_of_sub sid s) in
      map (\<lambda>c. category_to_out c (filter (\<lambda>i. ki_category_id i = kc_id c) items) ratings) (list_categories s))"

definition get_matrix_for_self :: "uuid \<Rightarrow> store \<Rightarrow> kink_category_out list res" where
  "get_matrix_for_self sid s = attempt (goddess_of_sub sid s) (\<lambda>gid. Inr (build_matrix sid gid s))"

definition get_matrix_for_goddess :: "uuid \<Rightarrow> uuid \<Rightarrow> store \<Rightarrow> kink_category_out list res" where
  "get_matrix_for_goddess goddess_user_id sid s =
     attempt (resolve_goddess_id goddess_user_id (core s)) (\<lambda>gid.
     require (user_by_id sid (core s)) (NotFound ''sub not found'') (\<lambda>sub.
     raise_if (u_role sub \<noteq> R_sub) (NotFound ''sub not found'') (
     raise_if (u_goddess_id sub \<noteq> Some gid) (Forbidden ''sub does not belong to this goddess'')
       (Inr (build_matrix sid gid s)))))"

section \<open>Ratings\<close>

definition assert_item_in_goddess_scope :: "kink_item \<Rightarrow> uuid \<Rightarrow> unit res" where
  "assert_item_in_goddess_scope i gid =
     raise_if (\<not> ki_approved i) (NotFound ''kink item not available'') (
     raise_if (ki_goddess_id i \<noteq> None \<and> ki_goddess_id i \<noteq> Some gid)
       (Forbidden ''kink item is not available in this goddess's catalog'') (Inr ()))"

record rating_out =
  rt_item_id :: uuid
  rt_rating :: kink_rating
  rt_note :: "string option"
  rt_needs_confirmation :: bool
  rt_updated_at :: datetime

definition upsert_self_rating ::
  "datetime \<Rightarrow> uuid \<Rightarrow> uuid \<Rightarrow> kink_rating \<Rightarrow> string option \<Rightarrow> store \<Rightarrow> (store \<times> rating_out) res" where
  "upsert_self_rating now sid k rating note s =
     attempt (goddess_of_sub sid s) (\<lambda>gid.
     attempt (kink_by_id k s) (\<lambda>i.
     attempt (assert_item_in_goddess_scope i gid) (\<lambda>_.
     attempt (upsert_rating now sid gid k rating note s) (\<lambda>(s', r).
     Inr (s', \<lparr>rt_item_id = kr_item_id r, rt_rating = kr_rating r, rt_note = kr_note r,
               rt_needs_confirmation = needs_confirmation (ki_safety_flag i) (kr_rating r),
               rt_updated_at = kr_updated_at r\<rparr>)))))"

section \<open>Proposals\<close>

record kink_propose =
  kp_category_id :: uuid
  kp_label :: string
  kp_description :: "string option"
  kp_safety_flag :: bool

record kink_proposal_out =
  pr_item :: kink_item
  pr_proposer_username :: "string option"

definition slug_taken :: "string \<Rightarrow> uuid \<Rightarrow> store \<Rightarrow> bool" where
  "slug_taken slug gid s = list_ex (\<lambda>i. ki_slug i = slug \<and> ki_goddess_id i = Some gid) (t_kinks s)"

text \<open>
  One attempt after the other: an insert that violates a constraint (the unique slug of the
  goddess, but as well the foreign key of the category) is rolled back and the next candidate
  is tried. The result says whether a rollback came before.
\<close>

fun try_candidates :: "(uuid \<times> string) list \<Rightarrow> (uuid \<Rightarrow> string \<Rightarrow> kink_item) \<Rightarrow> uuid \<Rightarrow> bool \<Rightarrow> store \<Rightarrow>
    (store \<times> kink_item \<times> bool) res" where
  "try_candidates [] row gid rolled_back s = Inl (Conflict ''slug collision: could not generate a unique slug after 5 attempts'')"
| "try_candidates ((iid, slug) # cs) row gid rolled_back s =
     (if slug_taken slug gid s \<or> \<not> list_ex (\<lambda>c. kc_id c = ki_category_id (row iid slug)) (t_categories s)
      then try_candidates cs row gid True s
      else Inr (s\<lparr>t_kinks := insert_row (row iid slug) (t_kinks s)\<rparr>, row iid slug, rolled_back))"

definition proposed_item :: "datetime \<Rightarrow> uuid \<Rightarrow> uuid \<Rightarrow> kink_propose \<Rightarrow> uuid \<Rightarrow> string \<Rightarrow> kink_item" where
  "proposed_item now gid sid p iid slug =
     \<lparr>ki_id = iid, ki_category_id = kp_category_id p, ki_goddess_id = Some gid, ki_slug = slug,
      ki_label = kp_label p, ki_description = kp_description p, ki_safety_flag = kp_safety_flag p,
      ki_is_custom = True, ki_proposed_by = Some sid, ki_approved = False, ki_created_at = now, ki_updated_at = now\<rparr>"

definition create_proposal ::
  "(uuid \<times> string) list \<Rightarrow> datetime \<Rightarrow> uuid \<Rightarrow> uuid \<Rightarrow> kink_propose \<Rightarrow> store \<Rightarrow> (store \<times> kink_item \<times> bool) res" where
  "create_proposal drawn now gid sid p s =
     try_candidates (map (\<lambda>(iid, suffix). (iid, make_slug (kp_label p) suffix)) (take 5 drawn))
       (proposed_item now gid sid p) gid False s"

text \<open>
  A rollback expires every loaded object, so reading \<^verbatim>\<open>sub.username\<close> for the answer raises when
  the first candidate collided; the proposal is then not committed.
\<close>

definition propose_kink_as_sub ::
  "(uuid \<times> string) list \<Rightarrow> datetime \<Rightarrow> uuid \<Rightarrow> kink_propose \<Rightarrow> store \<Rightarrow> (store \<times> kink_proposal_out) res" where
  "propose_kink_as_sub drawn now sid p s =
     require (user_by_id sid (core s)) (Conflict ''sub is not assigned to a goddess'') (\<lambda>sub.
     require (u_goddess_id sub) (Conflict ''sub is not assigned to a goddess'') (\<lambda>gid.
     attempt (create_proposal drawn now gid sid p s) (\<lambda>(s', i, rolled_back).
     raise_if rolled_back MissingGreenlet (
     Inr (s', \<lparr>pr_item = i, pr_proposer_username = Some (u_username sub)\<rparr>)))))"

definition proposer_username :: "kink_item \<Rightarrow> store \<Rightarrow> string option" where
  "proposer_username i s =
     Option.bind (ki_proposed_by i) (\<lambda>sid. map_option u_username (user_by_id sid (core s)))"

definition list_sub_proposals :: "uuid \<Rightarrow> store \<Rightarrow> kink_proposal_out list" where
  "list_sub_proposals sid s =
     map (\<lambda>i. \<lparr>pr_item = i, pr_proposer_username = map_option u_username (user_by_id sid (core s))\<rparr>)
       (list_proposals_for_sub sid s)"

definition list_goddess_proposals :: "uuid \<Rightarrow> store \<Rightarrow> kink_proposal_out list res" where
  "list_goddess_proposals goddess_user_id s =
     attempt (resolve_goddess_id goddess_user_id (core s)) (\<lambda>gid.
     Inr (map (\<lambda>i. \<lparr>pr_item = i, pr_proposer_username = proposer_username i s\<rparr>) (list_proposals_for_goddess gid s)))"

definition owned_proposal :: "uuid \<Rightarrow> uuid \<Rightarrow> store \<Rightarrow> kink_item res" where
  "owned_proposal goddess_user_id k s =
     attempt (resolve_goddess_id goddess_user_id (core s)) (\<lambda>gid.
     attempt (kink_by_id k s) (\<lambda>i.
     raise_if (\<not> ki_is_custom i) (NotFound ''kink item is not a custom proposal'') (
     raise_if (ki_goddess_id i \<noteq> Some gid) (NotFound ''proposal not found'') (Inr i))))"

definition approved_item :: "datetime \<Rightarrow> kink_item \<Rightarrow> kink_item" where
  "approved_item now i = i\<lparr>ki_approved := True, ki_updated_at := now\<rparr>"

definition approve_proposal :: "datetime \<Rightarrow> uuid \<Rightarrow> uuid \<Rightarrow> store \<Rightarrow> (store \<times> kink_proposal_out) res" where
  "approve_proposal now goddess_user_id k s =
     attempt (owned_proposal goddess_user_id k s) (\<lambda>i.
     raise_if (ki_approved i) (Conflict ''proposal is already approved'') (
     Inr (s\<lparr>t_kinks := modify ki_id k (approved_item now) (t_kinks s)\<rparr>,
          \<lparr>pr_item = approved_item now i, pr_proposer_username = proposer_username i s\<rparr>)))"

text \<open>The item is deleted whether it was approved or not, and its ratings with it.\<close>

definition reject_proposal :: "uuid \<Rightarrow> uuid \<Rightarrow> store \<Rightarrow> store res" where
  "reject_proposal goddess_user_id k s =
     attempt (owned_proposal goddess_user_id k s) (\<lambda>_.
     Inr (s\<lparr>t_kinks := filter (\<lambda>i. ki_id i \<noteq> k) (t_kinks s),
            t_ratings := filter (\<lambda>r. kr_item_id r \<noteq> k) (t_ratings s)\<rparr>))"

section \<open>The overview of a goddess\<close>

definition all_ratings :: "kink_rating list" where
  "all_ratings = [KR_hard_limit, KR_soft_limit, KR_curious, KR_loves, KR_fetish_need, KR_not_set, KR_prefer_not_to_say]"

text \<open>The join with the users keeps the ratings whose sub exists.\<close>

definition count_ratings :: "uuid \<Rightarrow> uuid \<Rightarrow> kink_rating \<Rightarrow> store \<Rightarrow> nat" where
  "count_ratings gid k rating s =
     length (filter (\<lambda>r. kr_goddess_id r = gid \<and> kr_item_id r = k \<and> kr_rating r = rating \<and>
       user_by_id (kr_sub_id r) (core s) \<noteq> None) (t_ratings s))"

definition count_subs_for_goddess :: "uuid \<Rightarrow> store \<Rightarrow> nat" where
  "count_subs_for_goddess gid s = length (filter (\<lambda>u. u_goddess_id u = Some gid) (t_users (core s)))"

text \<open>The subtraction stops at zero as \<^verbatim>\<open>max(0, ...)\<close> does.\<close>

definition item_counts :: "uuid \<Rightarrow> uuid \<Rightarrow> store \<Rightarrow> kink_rating \<Rightarrow> nat" where
  "item_counts gid k s rating =
     (if rating = KR_not_set
      then count_subs_for_goddess gid s -
           sum_list (map (\<lambda>r. count_ratings gid k r s) (filter (\<lambda>r. r \<noteq> KR_not_set) all_ratings))
      else count_ratings gid k rating s)"

record overview_item =
  oi_item_id :: uuid
  oi_slug :: string
  oi_label :: string
  oi_category_label :: string
  oi_category_sort_order :: int
  oi_safety_flag :: bool
  oi_counts :: "kink_rating \<Rightarrow> nat"

definition overview_for_goddess :: "uuid \<Rightarrow> store \<Rightarrow> (nat \<times> overview_item list) res" where
  "overview_for_goddess goddess_user_id s =
     attempt (resolve_goddess_id goddess_user_id (core s)) (\<lambda>gid.
     Inr (count_subs_for_goddess gid s,
       map (\<lambda>i. let c = fetch kc_id (ki_category_id i) (list_categories s) in
            \<lparr>oi_item_id = ki_id i, oi_slug = ki_slug i, oi_label = ki_label i,
             oi_category_label = (case c of Some x \<Rightarrow> kc_label x | None \<Rightarrow> []),
             oi_category_sort_order = (case c of Some x \<Rightarrow> kc_sort_order x | None \<Rightarrow> 0),
             oi_safety_flag = ki_safety_flag i, oi_counts = item_counts gid (ki_id i) s\<rparr>)
         (list_for_goddess gid s)))"

section \<open>What a sub may rate, and what she then sees\<close>

lemma scope_iff_listed:
  assumes "distinct (map ki_id (t_kinks s))"
  shows "(\<exists>i. kink_by_id k s = Inr i \<and> assert_item_in_goddess_scope i gid = Inr ()) \<longleftrightarrow>
     (\<exists>i \<in> set (list_for_goddess gid s). ki_id i = k)"
  using fetch_distinct [OF assms]
  by (auto simp: kink_by_id_def assert_item_in_goddess_scope_def list_for_goddess_def res_simps dest: fetch_SomeD)

definition rating_key :: "sub_kink_rating \<Rightarrow> uuid \<times> uuid" where
  "rating_key r = (kr_sub_id r, kr_item_id r)"

interpretation ratings: keyed_table rating_key "fetch rating_key" insert_row "modify rating_key"
  by (rule list_table)

lemma rating_by_item_Some:
  assumes "distinct (map kr_item_id rs)"
  shows "rating_by_item rs k = Some r \<longleftrightarrow> r \<in> set rs \<and> kr_item_id r = k"
proof -
  have "distinct (map fst (rev (map (\<lambda>r. (kr_item_id r, r)) rs)))"
    using assms by (simp add: rev_map [symmetric] comp_def)
  then have "rating_by_item rs k = Some r \<longleftrightarrow> (k, r) \<in> set (rev (map (\<lambda>r. (kr_item_id r, r)) rs))"
    unfolding rating_by_item_def by (rule map_of_eq_Some_iff)
  then show ?thesis by auto
qed

lemma distinct_items_of_sub:
  "distinct (map rating_key rs) \<Longrightarrow> distinct (map kr_item_id (filter (\<lambda>r. kr_sub_id r = sid) rs))"
  by (induction rs) (auto simp: rating_key_def image_iff)

lemma distinct_sorted: "distinct (map f xs) \<Longrightarrow> distinct (map f (sort_key k xs))"
  by (simp add: distinct_map)

lemma shown_rating:
  assumes "distinct (map rating_key (t_ratings s))"
  shows "rating_by_item (ratings_of_sub sid s) k = fetch rating_key (sid, k) (t_ratings s)"
proof -
  have "distinct (map kr_item_id (ratings_of_sub sid s))"
    unfolding ratings_of_sub_def by (intro distinct_sorted distinct_items_of_sub assms)
  then have "rating_by_item (ratings_of_sub sid s) k = Some r \<longleftrightarrow> fetch rating_key (sid, k) (t_ratings s) = Some r" for r
    using fetch_distinct [OF assms] fetch_SomeD [of rating_key "(sid, k)" "t_ratings s" r]
    by (auto simp: rating_by_item_Some ratings_of_sub_def rating_key_def)
  then show ?thesis by (metis not_Some_eq)
qed

lemma at_most_one:
  "distinct (map key t) \<Longrightarrow> scalar_one_or_none (filter (\<lambda>r. key r = k) t) = Inr (fetch key k t)"
proof (induction t)
  case (Cons r t)
  show ?case
  proof (cases "key r = k")
    case True
    with Cons.prems have "filter (\<lambda>r. key r = k) t = []" by (auto simp: filter_empty_conv image_iff)
    with True show ?thesis by simp
  qed (use Cons in simp)
qed simp

lemma upsert_rating_facts:
  assumes "distinct (map rating_key (t_ratings s))"
  obtains s' r where "upsert_rating now sid gid k rating note s = Inr (s', r)" "kr_rating r = rating" "kr_note r = note"
    "s' = s\<lparr>t_ratings := t_ratings s'\<rparr>" "distinct (map rating_key (t_ratings s'))"
    "\<And>j. fetch rating_key j (t_ratings s') = (if j = (sid, k) then Some r else fetch rating_key j (t_ratings s))"
proof (cases "fetch rating_key (sid, k) (t_ratings s)")
  case None
  let ?r = "\<lparr>kr_sub_id = sid, kr_goddess_id = gid, kr_item_id = k, kr_rating = rating, kr_note = note, kr_updated_at = now\<rparr>"
  let ?s = "s\<lparr>t_ratings := insert_row ?r (t_ratings s)\<rparr>"
  have key: "rating_key ?r = (sid, k)" by (simp add: rating_key_def)
  show thesis
  proof (rule that [of ?s ?r])
    show "upsert_rating now sid gid k rating note s = Inr (?s, ?r)"
      using at_most_one [OF assms, of "(sid, k)"] None by (simp add: upsert_rating_def rating_key_def Let_def)
    show "distinct (map rating_key (t_ratings ?s))"
      using assms None by (auto simp: insert_row_def key fetch_None_iff)
    show "fetch rating_key j (t_ratings ?s) = (if j = (sid, k) then Some ?r else fetch rating_key j (t_ratings s))" for j
      using ratings.get_add [of ?r "t_ratings s" j] None by (auto simp: key)
  qed simp_all
next
  case (Some r0)
  let ?f = "rated rating note now"
  let ?s = "s\<lparr>t_ratings := modify rating_key (sid, k) ?f (t_ratings s)\<rparr>"
  have key: "rating_key (?f r) = rating_key r" for r by (simp add: rating_key_def rated_def)
  show thesis
  proof (rule that [of ?s "?f r0"])
    show "upsert_rating now sid gid k rating note s = Inr (?s, ?f r0)"
      using at_most_one [OF assms, of "(sid, k)"] Some by (simp add: upsert_rating_def rating_key_def [abs_def])
    show "distinct (map rating_key (t_ratings ?s))"
      using assms by (simp add: map_key_modify [of rating_key ?f, OF key])
    show "fetch rating_key j (t_ratings ?s) = (if j = (sid, k) then Some (?f r0) else fetch rating_key j (t_ratings s))" for j
      using ratings.get_upd [of ?f, OF key] Some by simp
  qed (simp_all add: rated_def)
qed

text \<open>The change a new rating makes in one line of the matrix.\<close>

definition rerated :: "uuid \<Rightarrow> kink_rating \<Rightarrow> string option \<Rightarrow> kink_item_out \<Rightarrow> kink_item_out" where
  "rerated k rating note i =
     (if ko_id i = k
      then i\<lparr>ko_rating := rating, ko_note := note, ko_needs_confirmation := needs_confirmation (ko_safety_flag i) rating\<rparr>
      else i)"

lemma matrix_cong:
  assumes "s' = s\<lparr>t_ratings := rs\<rparr>"
    and "\<And>j. rating_by_item (ratings_of_sub sid s') j = (if j = k then Some r else rating_by_item (ratings_of_sub sid s) j)"
  shows "build_matrix sid gid s' =
    map (\<lambda>c. c\<lparr>co_items := map (rerated k (kr_rating r) (kr_note r)) (co_items c)\<rparr>) (build_matrix sid gid s)"
proof -
  have "list_for_goddess gid s' = list_for_goddess gid s" "list_categories s' = list_categories s"
    by (simp_all add: assms(1) list_for_goddess_def list_categories_def)
  then show ?thesis
    unfolding build_matrix_def assms(2)
    by (simp add: Let_def category_to_out_def item_to_out_def rerated_def comp_def)
qed

text \<open>
  A sub can rate exactly the items of the catalogue of her goddess (the approved ones that are
  global or that goddess's own); an answered rating changes the rating, the note and the
  confirmation mark of that one line of her matrix, leaves every other line and the matrix of
  every other sub alone, and keeps one rating at most for a sub and an item.
\<close>

theorem rating_changes_one_line:
  assumes "distinct (map ki_id (t_kinks s))" "distinct (map rating_key (t_ratings s))" "goddess_of_sub sid s = Inr gid"
  shows "((\<exists>s' out. upsert_self_rating now sid k rating note s = Inr (s', out)) \<longleftrightarrow>
            (\<exists>i \<in> set (list_for_goddess gid s). ki_id i = k)) \<and>
     (\<forall>s' out. upsert_self_rating now sid k rating note s = Inr (s', out) \<longrightarrow>
        build_matrix sid gid s' =
          map (\<lambda>c. c\<lparr>co_items := map (rerated k rating note) (co_items c)\<rparr>) (build_matrix sid gid s) \<and>
        (\<forall>sid2 g. sid2 \<noteq> sid \<longrightarrow> build_matrix sid2 g s' = build_matrix sid2 g s) \<and>
        distinct (map rating_key (t_ratings s')))"
proof -
  obtain s1 r where u: "upsert_rating now sid gid k rating note s = Inr (s1, r)" "kr_rating r = rating" "kr_note r = note"
      "s1 = s\<lparr>t_ratings := t_ratings s1\<rparr>" "distinct (map rating_key (t_ratings s1))"
      "\<And>j. fetch rating_key j (t_ratings s1) = (if j = (sid, k) then Some r else fetch rating_key j (t_ratings s))"
    using upsert_rating_facts [OF assms(2)] by metis
  have step: "(\<exists>out. upsert_self_rating now sid k rating note s = Inr (s', out)) \<longleftrightarrow>
      s' = s1 \<and> (\<exists>i. kink_by_id k s = Inr i \<and> assert_item_in_goddess_scope i gid = Inr ())" for s'
    using assms(3) u(1) by (auto simp: upsert_self_rating_def res_simps)
  have own: "build_matrix sid gid s1 = map (\<lambda>c. c\<lparr>co_items := map (rerated k rating note) (co_items c)\<rparr>) (build_matrix sid gid s)"
    using matrix_cong [OF u(4), of sid k r gid] u(2,3,6)
    by (simp add: shown_rating [OF assms(2)] shown_rating [OF u(5)])
  have "rating_by_item (ratings_of_sub sid2 s1) = rating_by_item (ratings_of_sub sid2 s)" if "sid2 \<noteq> sid" for sid2
    using that by (simp add: fun_eq_iff shown_rating [OF assms(2)] shown_rating [OF u(5)] u(6))
  moreover have "list_for_goddess g s1 = list_for_goddess g s" "list_categories s1 = list_categories s" for g
    by (subst u(4), simp add: list_for_goddess_def list_categories_def)+
  ultimately have others: "build_matrix sid2 g s1 = build_matrix sid2 g s" if "sid2 \<noteq> sid" for sid2 g
    using that by (simp add: build_matrix_def)
  have "s' = s1" if "upsert_self_rating now sid k rating note s = Inr (s', out)" for s' out
    using step that by blast
  moreover have "(\<exists>s' out. upsert_self_rating now sid k rating note s = Inr (s', out)) \<longleftrightarrow>
      (\<exists>i \<in> set (list_for_goddess gid s). ki_id i = k)"
    unfolding step scope_iff_listed [OF assms(1), symmetric] by blast
  ultimately show ?thesis using own others u(5) by blast
qed

definition rope :: kink_item where
  "rope = \<lparr>ki_id = 61, ki_category_id = 60, ki_goddess_id = None, ki_slug = ''rope'', ki_label = ''Rope'',
     ki_description = None, ki_safety_flag = True, ki_is_custom = False, ki_proposed_by = None, ki_approved = True,
     ki_created_at = 0, ki_updated_at = 0\<rparr>"

definition catalogue :: store where
  "catalogue = (empty_store world)\<lparr>
     t_categories := [\<lparr>kc_id = 60, kc_slug = ''bondage'', kc_label = ''Bondage'', kc_safety_flag = False, kc_sort_order = 1, kc_updated_at = 0\<rparr>],
     t_kinks := [rope]\<rparr>"

lemma rating_changes_one_line_witness:
  "\<exists>s' out. upsert_self_rating 9 12 61 KR_loves None catalogue = Inr (s', out) \<and>
     map (map ko_needs_confirmation \<circ> co_items) (build_matrix 12 10 s') = [[True]]"
proof -
  have g: "goddess_of_sub 12 catalogue = Inr 10"
    by (simp add: goddess_of_sub_def catalogue_def user_by_id_def world_def)
  have d: "distinct (map ki_id (t_kinks catalogue))" "distinct (map rating_key (t_ratings catalogue))"
    by (simp_all add: catalogue_def)
  have l: "list_for_goddess 10 catalogue = [rope]" by (simp add: list_for_goddess_def catalogue_def rope_def)
  have "build_matrix 12 10 catalogue = [\<lparr>co_id = 60, co_slug = ''bondage'', co_label = ''Bondage'', co_safety_flag = False,
      co_sort_order = 1, co_items = [item_to_out rope None]\<rparr>]"
    by (simp add: build_matrix_def l Let_def list_categories_def ratings_of_sub_def rating_by_item_def category_to_out_def)
      (simp add: catalogue_def rope_def)
  with rating_changes_one_line [OF d g, of 9 61 KR_loves None] l show ?thesis
    by (auto simp: rope_def item_to_out_def rerated_def needs_confirmation_def)
qed

end
