(* ===== verification/Storage.thy ===== *)
theory Storage
  imports Personal Payments Samples
begin

text \<open>
  The object store and the clean-up of payment proofs: \<^verbatim>\<open>services/storage/object_store.py\<close>,
  \<^verbatim>\<open>services/cron/proof_janitor.py\<close> and its route \<^verbatim>\<open>routers/admin_janitor.py\<close>. The S3 service
  is outside the program; its buckets are a list of objects in the order the service lists them.
\<close>

section \<open>Objects\<close>

record stored_object =
  ob_bucket :: string
  ob_key :: string
  ob_body :: string
  ob_content_type :: string
  ob_last_modified :: datetime

type_synonym objects = "stored_object list"

definition same_object :: "string \<Rightarrow> string \<Rightarrow> stored_object \<Rightarrow> bool" where
  "same_object bucket key ob \<longleftrightarrow> ob_bucket ob = bucket \<and> ob_key ob = key"

definition delete_object :: "string \<Rightarrow> string \<Rightarrow> objects \<Rightarrow> objects" where
  "delete_object bucket key os = filter (\<lambda>ob. \<not> same_object bucket key ob) os"

definition upload_object :: "datetime \<Rightarrow> string \<Rightarrow> string \<Rightarrow> string \<Rightarrow> string \<Rightarrow> objects \<Rightarrow> objects" where
  "upload_object now bucket key body content_type os =
     delete_object bucket key os @ [\<lparr>ob_bucket = bucket, ob_key = key, ob_body = body,
       ob_content_type = content_type, ob_last_modified = now\<rparr>]"

text \<open>The pages of a listing, one after the other.\<close>

definition list_objects :: "string \<Rightarrow> objects \<Rightarrow> (string \<times> datetime) list" where
  "list_objects bucket os =
     map (\<lambda>ob. (ob_key ob, ob_last_modified ob)) (filter (\<lambda>ob. ob_bucket ob = bucket) os)"

text \<open>A presigned URL is made by the client library: here the bucket, the key and the lifetime it is for.\<close>

definition generate_presigned_url :: "string \<Rightarrow> string \<Rightarrow> nat \<Rightarrow> string \<times> string \<times> nat" where
  "generate_presigned_url bucket key ttl = (bucket, key, ttl)"

section \<open>The janitor\<close>

record janitor_config =
  jc_bucket :: string
  jc_grace_hours :: int
  jc_batch_cap :: nat

record janitor_scan =
  sn_scanned :: nat
  sn_orphans :: nat
  sn_within_grace :: nat
  sn_to_delete :: "string list"
  sn_capped :: bool

text \<open>The loop over the listing; it ends early when the batch is full.\<close>

fun scan :: "string list \<Rightarrow> datetime \<Rightarrow> nat \<Rightarrow> (string \<times> datetime) list \<Rightarrow> janitor_scan \<Rightarrow> janitor_scan" where
  "scan referenced cutoff cap [] r = r"
| "scan referenced cutoff cap ((key, modified) # os) r =
     (let r1 = r\<lparr>sn_scanned := sn_scanned r + 1\<rparr> in
      if key \<in> set referenced then scan referenced cutoff cap os r1
      else let r2 = r1\<lparr>sn_orphans := sn_orphans r1 + 1\<rparr> in
        if cutoff < modified then scan referenced cutoff cap os (r2\<lparr>sn_within_grace := sn_within_grace r2 + 1\<rparr>)
        else let r3 = r2\<lparr>sn_to_delete := sn_to_delete r2 @ [key]\<rparr> in
          if cap \<le> length (sn_to_delete r3) then r3\<lparr>sn_capped := True\<rparr>
          else scan referenced cutoff cap os r3)"

definition empty_scan :: janitor_scan where
  "empty_scan = \<lparr>sn_scanned = 0, sn_orphans = 0, sn_within_grace = 0, sn_to_delete = [], sn_capped = False\<rparr>"

record janitor_summary =
  js_scanned :: nat
  js_referenced :: nat
  js_orphan_candidates :: nat
  js_within_grace :: nat
  js_deleted :: nat
  js_dry_run :: bool
  js_batch_capped :: bool

definition us_per_grace_hour :: int where
  "us_per_grace_hour = 3600000000"

definition run_proof_janitor ::
  "janitor_config \<Rightarrow> bool \<Rightarrow> datetime \<Rightarrow> db \<Rightarrow> objects \<Rightarrow> objects \<times> janitor_summary" where
  "run_proof_janitor cfg dry_run now s os =
     (let referenced = all_proof_keys s;
          r = scan referenced (now - jc_grace_hours cfg * us_per_grace_hour) (jc_batch_cap cfg)
                (list_objects (jc_bucket cfg) os) empty_scan;
          os' = (if dry_run then os else fold (delete_object (jc_bucket cfg)) (sn_to_delete r) os)
      in (os', \<lparr>js_scanned = sn_scanned r, js_referenced = length referenced, js_orphan_candidates = sn_orphans r,
                js_within_grace = sn_within_grace r, js_deleted = length (sn_to_delete r), js_dry_run = dry_run,
                js_batch_capped = sn_capped r\<rparr>))"

definition run_proofs_janitor ::
  "janitor_config \<Rightarrow> datetime \<Rightarrow> user \<Rightarrow> bool \<Rightarrow> store \<Rightarrow> objects \<Rightarrow> (store \<times> objects \<times> janitor_summary) res" where
  "run_proofs_janitor cfg now admin dry_run s os =
     raise_if (u_role admin \<noteq> R_admin) (Forbidden ''role not permitted'') (
     let (os', summary) = run_proof_janitor cfg dry_run now (core s) os
     in Inr (record_action now (u_id admin) (if dry_run then ''proof_janitor_dry_run'' else ''proof_janitor_apply'')
               (Some ''bucket'') None
               (Some (J_obj [(''scanned'', J_num (of_nat (js_scanned summary))),
                  (''orphan_candidates'', J_num (of_nat (js_orphan_candidates summary))),
                  (''within_grace'', J_num (of_nat (js_within_grace summary))),
                  (''deleted'', J_num (of_nat (js_deleted summary))), (''batch_capped'', J_bool (js_batch_capped summary))])) s, os', summary))"

section \<open>What the janitor deletes\<close>

definition orphan :: "string list \<Rightarrow> datetime \<Rightarrow> string \<times> datetime \<Rightarrow> bool" where
  "orphan referenced cutoff o1 \<longleftrightarrow> fst o1 \<notin> set referenced \<and> snd o1 \<le> cutoff"

text \<open>The scan takes the orphans past the grace in order, and stops only with a full batch.\<close>

lemma scan_spec:
  "\<exists>n. sn_to_delete (scan referenced cutoff cap os r) =
         sn_to_delete r @ take n (map fst (filter (orphan referenced cutoff) os)) \<and>
       (\<not> sn_capped (scan referenced cutoff cap os r) \<longrightarrow> length (filter (orphan referenced cutoff) os) \<le> n)"
proof (induction os arbitrary: r)
  case Nil
  show ?case by (rule exI [of _ 0]) simp
next
  case (Cons o1 os)
  obtain key modified where o1: "o1 = (key, modified)" by (cases o1)
  show ?case
  proof (cases "orphan referenced cutoff o1")
    case False
    then obtain r' where "scan referenced cutoff cap (o1 # os) r = scan referenced cutoff cap os r'"
        "sn_to_delete r' = sn_to_delete r"
      by (cases "key \<in> set referenced") (auto simp: o1 orphan_def Let_def)
    with Cons.IH [of r'] False show ?thesis by simp
  next
    case True
    let ?r = "r\<lparr>sn_scanned := sn_scanned r + 1, sn_orphans := sn_orphans r + 1, sn_to_delete := sn_to_delete r @ [key]\<rparr>"
    have step: "scan referenced cutoff cap (o1 # os) r =
        (if cap \<le> length (sn_to_delete ?r) then ?r\<lparr>sn_capped := True\<rparr> else scan referenced cutoff cap os ?r)"
      using True by (simp add: o1 orphan_def Let_def)
    show ?thesis
    proof (cases "cap \<le> length (sn_to_delete ?r)")
      case full: True
      show ?thesis by (rule exI [of _ 1]) (use step full True o1 in simp)
    next
      case more: False
      obtain n where n: "sn_to_delete (scan referenced cutoff cap os ?r) =
            sn_to_delete ?r @ take n (map fst (filter (orphan referenced cutoff) os))"
          "\<not> sn_capped (scan referenced cutoff cap os ?r) \<longrightarrow> length (filter (orphan referenced cutoff) os) \<le> n"
        using Cons.IH [of ?r] by blast
      show ?thesis
        by (rule exI [of _ "Suc n"]) (use n step more True o1 in auto)
    qed
  qed
qed

lemma scan_capped:
  "length (sn_to_delete r) < cap \<or> cap = 0 \<and> sn_to_delete r = [] \<Longrightarrow>
   length (sn_to_delete (scan referenced cutoff cap os r)) \<le> max 1 cap"
  by (induction referenced cutoff cap os r rule: scan.induct) (auto simp: Let_def)

lemma fold_delete:
  "set (fold (delete_object b) ks os) = {ob \<in> set os. \<not> (ob_bucket ob = b \<and> ob_key ob \<in> set ks)}"
  by (induction ks arbitrary: os) (auto simp: delete_object_def same_object_def)

text \<open>
  The janitor removes only objects of the proof bucket that no payment declaration refers to
  and that are at least as old as the grace period; every other object of the store stays, so the
  proof of every declaration is still there. It removes at most a batch, every such orphan when
  the batch was not full, and nothing at all in a dry run, whose count is that of the real run.
\<close>

theorem janitor_keeps_proofs:
  assumes "run_proof_janitor cfg False now s os = (os', out)" "run_proof_janitor cfg True now s os = (os2, out2)"
    and "distinct (map (\<lambda>ob. (ob_bucket ob, ob_key ob)) os)"
  shows "set os' \<subseteq> set os \<and>
     (\<forall>ob \<in> set os - set os'. ob_bucket ob = jc_bucket cfg \<and>
        (\<forall>d \<in> set (t_declarations s). d_proof_key d \<noteq> Some (ob_key ob) \<or> ob_key ob = []) \<and>
        ob_last_modified ob + jc_grace_hours cfg * us_per_grace_hour \<le> now) \<and>
     js_deleted out \<le> max 1 (jc_batch_cap cfg) \<and>
     (\<not> js_batch_capped out \<longrightarrow> (\<forall>ob \<in> set os'. ob_bucket ob = jc_bucket cfg \<longrightarrow>
        ob_last_modified ob + jc_grace_hours cfg * us_per_grace_hour \<le> now \<longrightarrow>
        (\<exists>d \<in> set (t_declarations s). d_proof_key d = Some (ob_key ob)))) \<and>
     os2 = os \<and> js_deleted out2 = js_deleted out"
proof -
  let ?ref = "all_proof_keys s" and ?cut = "now - jc_grace_hours cfg * us_per_grace_hour"
  let ?listed = "list_objects (jc_bucket cfg) os"
  define r where "r = scan ?ref ?cut (jc_batch_cap cfg) ?listed empty_scan"
  have os': "os' = fold (delete_object (jc_bucket cfg)) (sn_to_delete r) os"
      and out: "js_deleted out = length (sn_to_delete r)" "js_batch_capped out = sn_capped r"
      and dry: "os2 = os" "js_deleted out2 = length (sn_to_delete r)"
    using assms(1,2) by (auto simp: run_proof_janitor_def Let_def r_def)
  obtain n where n: "sn_to_delete r = take n (map fst (filter (orphan ?ref ?cut) ?listed))"
      "\<not> sn_capped r \<longrightarrow> length (filter (orphan ?ref ?cut) ?listed) \<le> n"
    using scan_spec [of ?ref ?cut "jc_batch_cap cfg" ?listed empty_scan] by (auto simp: r_def empty_scan_def)
  have ref: "k \<in> set ?ref \<longleftrightarrow> k \<noteq> [] \<and> (\<exists>d \<in> set (t_declarations s). d_proof_key d = Some k)" for k
    by (auto simp: all_proof_keys_def set_map_filter_iff)
  have taken: "ob_last_modified ob + jc_grace_hours cfg * us_per_grace_hour \<le> now \<and> ob_key ob \<notin> set ?ref"
    if tk: "ob \<in> set os" "ob_bucket ob = jc_bucket cfg" "ob_key ob \<in> set (sn_to_delete r)" for ob
  proof -
    obtain modified where "(ob_key ob, modified) \<in> set ?listed" "orphan ?ref ?cut (ob_key ob, modified)"
      using tk(3) n(1) by (fastforce dest: in_set_takeD)
    then obtain ob2 where ob2: "ob2 \<in> set os" "ob_bucket ob2 = jc_bucket cfg" "ob_key ob2 = ob_key ob"
        "ob_last_modified ob2 = modified"
      by (auto simp: list_objects_def)
    have "ob2 = ob" using assms(3) tk(1,2) ob2(1-3) by (auto simp: distinct_map inj_on_def)
    with ob2(4) \<open>orphan ?ref ?cut (ob_key ob, modified)\<close> show ?thesis by (auto simp: orphan_def)
  qed
  have all: "ob_key ob \<in> set ?ref" if "\<not> sn_capped r" "ob \<in> set os'" "ob_bucket ob = jc_bucket cfg"
      "ob_last_modified ob + jc_grace_hours cfg * us_per_grace_hour \<le> now" for ob
  proof (rule ccontr)
    assume "ob_key ob \<notin> set ?ref"
    moreover have "(ob_key ob, ob_last_modified ob) \<in> set ?listed" and notin: "ob_key ob \<notin> set (sn_to_delete r)"
      using that(2,3) by (auto simp: os' fold_delete list_objects_def)
    ultimately have "(ob_key ob, ob_last_modified ob) \<in> set (filter (orphan ?ref ?cut) ?listed)"
      using that(4) by (auto simp: orphan_def)
    then have "ob_key ob \<in> set (sn_to_delete r)" using n that(1) by force
    with notin show False by simp
  qed
  have "length (sn_to_delete r) \<le> max 1 (jc_batch_cap cfg)"
    unfolding r_def by (rule scan_capped) (auto simp: empty_scan_def)
  with taken all out dry ref show ?thesis by (auto simp: os' fold_delete)
qed

definition proofs_cfg :: janitor_config where
  "proofs_cfg = \<lparr>jc_bucket = ''payment-proofs'', jc_grace_hours = 24, jc_batch_cap = 1000\<rparr>"

definition old_proof :: "string \<Rightarrow> stored_object" where
  "old_proof key = \<lparr>ob_bucket = ''payment-proofs'', ob_key = key, ob_body = [], ob_content_type = ''image/png'', ob_last_modified = 0\<rparr>"

lemma janitor_keeps_proofs_witness:
  "\<exists>os' out. run_proof_janitor proofs_cfg False 90000000000 world [old_proof ''a''] = (os', out) \<and>
     js_deleted out = 1 \<and> os' = []"
proof -
  obtain os' out where a: "run_proof_janitor proofs_cfg False 90000000000 world [old_proof ''a''] = (os', out)"
    by fastforce
  obtain os2 out2 where b: "run_proof_janitor proofs_cfg True 90000000000 world [old_proof ''a''] = (os2, out2)"
    by fastforce
  have none: "t_declarations world = []" by (simp add: world_def empty_db_def)
  then have "all_proof_keys world = []" by (simp add: all_proof_keys_def List.map_filter_simps)
  then have one: "js_deleted out = 1 \<and> \<not> js_batch_capped out"
    using a by (auto simp: run_proof_janitor_def Let_def proofs_cfg_def old_proof_def list_objects_def
        empty_scan_def us_per_grace_hour_def)
  note kept = janitor_keeps_proofs [OF a b]
  from kept one none have "\<forall>ob \<in> set os'. ob_bucket ob = ''payment-proofs'' \<longrightarrow> \<not> ob_last_modified ob \<le> 3600000000"
    by (auto simp: proofs_cfg_def us_per_grace_hour_def)
  moreover from kept have "set os' \<subseteq> {old_proof ''a''}" by simp
  ultimately have "os' = []" by (cases os') (auto simp: old_proof_def)
  with one have "js_deleted out = 1 \<and> os' = []" by simp
  with a show ?thesis by blast
qed

end
