(* ===== verification/Journal.thy ===== *)
theory Journal
  imports Storage Periods "HOL-Library.Multiset"
begin

text \<open>
  The journal of a sub: \<^verbatim>\<open>controllers/journal_controller.py\<close> and \<^verbatim>\<open>daos/journal_dao.py\<close>.
  Attachments go to the object store before the row is written.
\<close>

interpretation journal: keyed_table je_id "fetch je_id" insert_row "modify je_id"
  by (rule list_table)

section \<open>Writing\<close>

record journal_config =
  jn_bucket :: string
  jn_presign_ttl :: nat
  jn_uuid_text :: "uuid \<Rightarrow> string" \<comment> \<open>\<^verbatim>\<open>str(uuid)\<close>\<close>

record journal_entry_in =
  ji_body :: string
  ji_mood :: journal_mood
  ji_is_private :: bool
  ji_photo_r2_key :: "string option"

definition allowed_attachment_mimes :: "string list" where
  "allowed_attachment_mimes = [''image/jpeg'', ''image/png'', ''image/webp'', ''audio/mpeg'', ''audio/ogg'', ''audio/webm'']"

definition max_attachment_bytes :: nat where
  "max_attachment_bytes = 10 * 1024 * 1024"

text \<open>\<^verbatim>\<open>mime.split("/")[-1].replace("mpeg", "mp3")\<close>; a type of the list has one slash and at most one \<^verbatim>\<open>mpeg\<close>.\<close>

definition attachment_ext :: "string \<Rightarrow> string" where
  "attachment_ext mime =
     (let sub = rev (takeWhile (\<lambda>c. c \<noteq> CHR ''/'') (rev mime)) in if sub = ''mpeg'' then ''mp3'' else sub)"

definition effective_key :: "journal_entry \<Rightarrow> string option" where
  "effective_key e =
     (case je_attachment_key e of
        Some k \<Rightarrow> if k \<noteq> [] then Some k else je_photo_r2_key e
      | None \<Rightarrow> je_photo_r2_key e)"

record journal_entry_out =
  jo_entry :: journal_entry \<comment> \<open>without its storage keys\<close>
  jo_attachment_presigned_url :: "(string \<times> string \<times> nat) option"

definition build_journal_out :: "journal_config \<Rightarrow> journal_entry \<Rightarrow> journal_entry_out" where
  "build_journal_out cfg e =
     \<lparr>jo_entry = e\<lparr>je_attachment_key := None, je_photo_r2_key := None\<rparr>,
      jo_attachment_presigned_url =
        (case effective_key e of
           None \<Rightarrow> None
         | Some k \<Rightarrow> if k = [] then None else Some (generate_presigned_url (jn_bucket cfg) k (jn_presign_ttl cfg)))\<rparr>"

definition new_entry :: "uuid \<Rightarrow> datetime \<Rightarrow> uuid \<Rightarrow> uuid \<Rightarrow> journal_entry_in \<Rightarrow> string option \<Rightarrow> string option \<Rightarrow>
    string option \<Rightarrow> journal_entry" where
  "new_entry eid now sid gid p photo key mime =
     \<lparr>je_id = eid, je_sub_id = sid, je_goddess_id = gid, je_body = ji_body p, je_mood = ji_mood p,
      je_photo_r2_key = photo, je_attachment_key = key, je_attachment_mime = mime,
      je_is_private = ji_is_private p, je_created_at = now, je_read_by_goddess_at = None,
      je_goddess_comment = None, je_goddess_comment_at = None\<rparr>"

definition create_entry ::
  "journal_config \<Rightarrow> uuid \<Rightarrow> uuid \<Rightarrow> datetime \<Rightarrow> user \<Rightarrow> journal_entry_in \<Rightarrow> (string \<times> string) option \<Rightarrow>
   store \<Rightarrow> objects \<Rightarrow> (store \<times> objects \<times> journal_entry_out) res" where
  "create_entry cfg eid fresh now sub p attachment s os =
     require (u_goddess_id sub) (BadRequest ''sub is not assigned to a goddess'') (\<lambda>gid.
     case attachment of
       None \<Rightarrow>
         let photo = (if ji_photo_r2_key p = Some [] then None else ji_photo_r2_key p);
             e = new_entry eid now (u_id sub) gid p photo None None
         in Inr (s\<lparr>t_journal := insert_row e (t_journal s)\<rparr>, os, build_journal_out cfg e)
     | Some (data, mime) \<Rightarrow>
         raise_if (mime \<notin> set allowed_attachment_mimes) (BadRequest ''attachment mime is not allowed'') (
         raise_if (max_attachment_bytes < length data) (BadRequest ''attachment exceeds 10 MB limit'') (
         let key = ''journal/'' @ jn_uuid_text cfg (u_id sub) @ ''/'' @ jn_uuid_text cfg fresh @ ''.'' @ attachment_ext mime;
             os' = upload_object now (jn_bucket cfg) key data mime os;
             photo = (if take 6 mime = ''image/'' then Some key else None);
             e = new_entry eid now (u_id sub) gid p photo (Some key) (Some mime)
         in Inr (s\<lparr>t_journal := insert_row e (t_journal s)\<rparr>, os', build_journal_out cfg e))))"

section \<open>Reading\<close>

definition newest_first :: "journal_entry list \<Rightarrow> journal_entry list" where
  "newest_first es = sort_key (\<lambda>e. - je_created_at e) es"

definition older_than :: "datetime option \<Rightarrow> journal_entry \<Rightarrow> bool" where
  "older_than before e = (case before of None \<Rightarrow> True | Some b \<Rightarrow> je_created_at e < b)"

definition list_for_sub_cursor :: "uuid \<Rightarrow> nat \<Rightarrow> datetime option \<Rightarrow> store \<Rightarrow> journal_entry list" where
  "list_for_sub_cursor sid limit before s =
     take limit (newest_first (filter (\<lambda>e. je_sub_id e = sid \<and> older_than before e) (t_journal s)))"

definition list_self :: "journal_config \<Rightarrow> uuid \<Rightarrow> nat \<Rightarrow> datetime option \<Rightarrow> store \<Rightarrow> journal_entry_out list" where
  "list_self cfg sid limit before s = map (build_journal_out cfg) (list_for_sub_cursor sid limit before s)"

definition shared_entry :: "uuid \<Rightarrow> uuid \<Rightarrow> journal_entry \<Rightarrow> bool" where
  "shared_entry gid sid e \<longleftrightarrow> je_goddess_id e = gid \<and> je_sub_id e = sid \<and> \<not> je_is_private e"

text \<open>The bulk update comes first and is not limited to the page that is returned.\<close>

definition stamp_unread :: "datetime \<Rightarrow> uuid \<Rightarrow> uuid \<Rightarrow> journal_entry \<Rightarrow> journal_entry" where
  "stamp_unread now gid sid e =
     (if shared_entry gid sid e \<and> je_read_by_goddess_at e = None then e\<lparr>je_read_by_goddess_at := Some now\<rparr> else e)"

definition list_for_goddess_sub_and_mark_read ::
  "datetime \<Rightarrow> uuid \<Rightarrow> uuid \<Rightarrow> nat \<Rightarrow> datetime option \<Rightarrow> store \<Rightarrow> store \<times> journal_entry list" where
  "list_for_goddess_sub_and_mark_read now gid sid limit before s =
     (let s' = s\<lparr>t_journal := map (stamp_unread now gid sid) (t_journal s)\<rparr>
      in (s', take limit (newest_first (filter (\<lambda>e. shared_entry gid sid e \<and> older_than before e) (t_journal s')))))"

definition journal_for_goddess ::
  "journal_config \<Rightarrow> datetime \<Rightarrow> uuid \<Rightarrow> uuid \<Rightarrow> nat \<Rightarrow> datetime option \<Rightarrow> store \<Rightarrow>
   (store \<times> journal_entry_out list) res" where
  "journal_for_goddess cfg now goddess_user_id sid limit before s =
     attempt (assert_sub_under_goddess goddess_user_id sid s) (\<lambda>gid.
     let (s', es) = list_for_goddess_sub_and_mark_read now gid sid limit before s
     in Inr (s', map (build_journal_out cfg) es))"

definition get_entry :: "uuid \<Rightarrow> store \<Rightarrow> journal_entry res" where
  "get_entry eid s = require (fetch je_id eid (t_journal s)) (NotFound ''journal_entry not found'') Inr"

definition stamped :: "datetime \<Rightarrow> journal_entry \<Rightarrow> journal_entry" where
  "stamped now e = (if je_read_by_goddess_at e = None then e\<lparr>je_read_by_goddess_at := Some now\<rparr> else e)"

text \<open>Neither of the next two looks at the privacy of the entry, nor whether it is of the sub that is named.\<close>

definition journal_mark_read ::
  "journal_config \<Rightarrow> datetime \<Rightarrow> uuid \<Rightarrow> string \<Rightarrow> uuid \<Rightarrow> store \<Rightarrow> (store \<times> journal_entry_out) res" where
  "journal_mark_read cfg now goddess_user_id name eid s =
     attempt (resolve_goddess_id goddess_user_id (core s)) (\<lambda>gid.
     attempt (user_by_username name (core s)) (\<lambda>r.
     require r (NotFound ''sub not found'') (\<lambda>sub.
     raise_if (u_goddess_id sub \<noteq> Some gid) (NotFound ''sub does not belong to this goddess'') (
     attempt (get_entry eid s) (\<lambda>e.
     raise_if (je_goddess_id e \<noteq> gid) (NotFound ''journal_entry not found'') (
     Inr (s\<lparr>t_journal := modify je_id eid (stamped now) (t_journal s)\<rparr>, build_journal_out cfg (stamped now e))))))))"

definition commented :: "datetime \<Rightarrow> string \<Rightarrow> journal_entry \<Rightarrow> journal_entry" where
  "commented now comment e = e\<lparr>je_goddess_comment := Some comment, je_goddess_comment_at := Some now\<rparr>"

definition set_comment ::
  "journal_config \<Rightarrow> datetime \<Rightarrow> uuid \<Rightarrow> uuid \<Rightarrow> string \<Rightarrow> store \<Rightarrow> (store \<times> journal_entry_out) res" where
  "set_comment cfg now goddess_user_id eid comment s =
     attempt (resolve_goddess_id goddess_user_id (core s)) (\<lambda>gid.
     attempt (get_entry eid s) (\<lambda>e.
     raise_if (je_goddess_id e \<noteq> gid) (Forbidden ''journal_entry does not belong to goddess'') (
     Inr (s\<lparr>t_journal := modify je_id eid (commented now comment) (t_journal s),
            core := notify (je_sub_id e) NT_journal_comment (Some eid) None (core s)\<rparr>,
          build_journal_out cfg (commented now comment e)))))"

section \<open>The streak\<close>

text \<open>\<^verbatim>\<open>seen_dates\<close>: the first timestamp of every London date.\<close>

fun first_seen :: "int list \<Rightarrow> int list \<Rightarrow> int list" where
  "first_seen seen [] = []"
| "first_seen seen (d # ds) = (if d \<in> set seen then first_seen seen ds else d # first_seen (d # seen) ds)"

text \<open>The loop: it counts while each date is the day before the last one.\<close>

fun run_from :: "int \<Rightarrow> int list \<Rightarrow> nat" where
  "run_from d [] = 1"
| "run_from d (e # es) = (if d - e = 1 then Suc (run_from e es) else 1)"

definition streak_lookback_days :: int where
  "streak_lookback_days = 90"

definition entry_dates :: "zone \<Rightarrow> datetime \<Rightarrow> uuid \<Rightarrow> store \<Rightarrow> int list" where
  "entry_dates z now sid s =
     map (\<lambda>e. as_london_date z (je_created_at e))
       (newest_first (filter (\<lambda>e. je_sub_id e = sid \<and> now - streak_lookback_days * us_per_day \<le> je_created_at e) (t_journal s)))"

definition current_streak_days :: "zone \<Rightarrow> datetime \<Rightarrow> uuid \<Rightarrow> store \<Rightarrow> nat" where
  "current_streak_days z now sid s =
     (case first_seen [] (entry_dates z now sid s) of
        [] \<Rightarrow> 0
      | d # ds \<Rightarrow> if d \<noteq> as_london_date z now then 0 else run_from d ds)"

lemma set_first_seen: "set (first_seen seen ds) = set ds - set seen"
  by (induction seen ds rule: first_seen.induct) auto

lemma first_seen_descending:
  "sorted_wrt (\<ge>) ds \<Longrightarrow> (\<And>a b. a \<in> set seen \<Longrightarrow> b \<in> set ds \<Longrightarrow> b \<le> a) \<Longrightarrow> sorted_wrt (>) (first_seen seen ds)"
proof (induction seen ds rule: first_seen.induct)
  case (2 seen d ds)
  then show ?case by (auto simp: set_first_seen order_less_le)
qed simp

lemma run_from_spec:
  "sorted_wrt (>) (d # ds) \<Longrightarrow>
   (\<forall>i < run_from d ds. d - int i \<in> set (d # ds)) \<and> d - int (run_from d ds) \<notin> set (d # ds)"
proof (induction d ds rule: run_from.induct)
  case (2 d e es)
  show ?case
  proof (cases "d - e = 1")
    case True
    then have IH: "\<forall>i < run_from e es. e - int i \<in> set (e # es)" "e - int (run_from e es) \<notin> set (e # es)"
      using 2 by auto
    have "d - int i \<in> set (d # e # es)" if "i < run_from d (e # es)" for i
    proof (cases i)
      case (Suc j)
      then have "d - int i = e - int j" "j < run_from e es" using True that by auto
      with IH(1) show ?thesis by auto
    qed simp
    moreover have "d - int (run_from d (e # es)) = e - int (run_from e es)" using True by auto
    moreover have "e - int (run_from e es) \<noteq> d" using True by auto
    ultimately show ?thesis using IH(2) by auto
  next
    case False
    then show ?thesis using 2(2) by auto
  qed
qed simp

lemma newest_first_sorted: "sorted_wrt (\<lambda>x y. je_created_at y \<le> je_created_at x) (newest_first es)"
  using sorted_sort_key [of "\<lambda>e. - je_created_at e" es] by (simp add: newest_first_def sorted_map)

lemma entry_dates_descending:
  assumes "mono (as_london_date z)"
  shows "sorted_wrt (\<ge>) (entry_dates z now sid s)"
proof -
  let ?es = "newest_first (filter (\<lambda>e. je_sub_id e = sid \<and> now - streak_lookback_days * us_per_day \<le> je_created_at e) (t_journal s))"
  have "sorted_wrt (\<lambda>x y. je_created_at y \<le> je_created_at x) ?es" by (rule newest_first_sorted)
  then have "sorted_wrt (\<lambda>x y. as_london_date z (je_created_at y) \<le> as_london_date z (je_created_at x)) ?es"
    by (rule sorted_wrt_mono_rel [rotated]) (use assms in \<open>auto dest: monoD\<close>)
  then show ?thesis by (simp add: entry_dates_def sorted_wrt_map)
qed

text \<open>
  C20: The streak of a sub is the number of days in a row, up to today on the London calendar, on
  which she wrote an entry of the last ninety days: on each of these days there is one, on the
  day before the first of them there is none, and the streak is zero just when she has not
  written today.
\<close>

theorem streak_counts_days:
  assumes "mono (as_london_date z)" and "\<forall>e \<in> set (t_journal s). je_created_at e \<le> now"
  shows "(\<forall>i < current_streak_days z now sid s. as_london_date z now - int i \<in> set (entry_dates z now sid s)) \<and>
     as_london_date z now - int (current_streak_days z now sid s) \<notin> set (entry_dates z now sid s) \<and>
     (\<forall>day. day \<in> set (entry_dates z now sid s) \<longleftrightarrow> (\<exists>e \<in> set (t_journal s). je_sub_id e = sid \<and>
        as_london_date z (je_created_at e) = day \<and> now - 90 * us_per_day \<le> je_created_at e))"
proof (intro conjI)
  let ?ds = "entry_dates z now sid s" and ?today = "as_london_date z now"
  have le: "d \<le> ?today" if "d \<in> set ?ds" for d
    using that assms by (auto simp: entry_dates_def newest_first_def dest: monoD)
  have set: "set (first_seen [] ?ds) = set ?ds" by (simp add: set_first_seen)
  have desc: "sorted_wrt (>) (first_seen [] ?ds)"
    by (rule first_seen_descending [OF entry_dates_descending [OF assms(1)]]) simp
  have both: "(\<forall>i < current_streak_days z now sid s. ?today - int i \<in> set ?ds) \<and>
      ?today - int (current_streak_days z now sid s) \<notin> set ?ds"
  proof (cases "first_seen [] ?ds")
    case Nil
    then show ?thesis using set by (simp add: current_streak_days_def)
  next
    case (Cons d ds)
    show ?thesis
    proof (cases "d = ?today")
      case True
      have "(\<forall>i < run_from d ds. d - int i \<in> set (first_seen [] ?ds)) \<and>
          d - int (run_from d ds) \<notin> set (first_seen [] ?ds)"
        unfolding Cons by (rule run_from_spec) (use desc Cons in simp)
      then show ?thesis unfolding set using True Cons by (simp add: current_streak_days_def)
    next
      case False
      have "?today \<notin> set (d # ds)"
        using desc False le [unfolded set [symmetric] Cons, of d] Cons by auto
      then have "?today \<notin> set ?ds" unfolding set [symmetric] Cons .
      with False Cons show ?thesis by (simp add: current_streak_days_def)
    qed
  qed
  then show "\<forall>i < current_streak_days z now sid s. ?today - int i \<in> set ?ds"
    and "?today - int (current_streak_days z now sid s) \<notin> set ?ds" by auto
  show "\<forall>day. day \<in> set ?ds \<longleftrightarrow> (\<exists>e \<in> set (t_journal s). je_sub_id e = sid \<and>
      as_london_date z (je_created_at e) = day \<and> now - 90 * us_per_day \<le> je_created_at e)"
    by (auto simp: entry_dates_def newest_first_def streak_lookback_days_def)
qed

section \<open>Privacy\<close>

text \<open>
  C19: The journal page of a goddess is what it should be: of the entries of her own sub that are not
  private and older than the given instant, the newest ones, newest first, as many as asked for and
  no fewer while there are more. Loading it stamps as read every unread entry the sub
  shares with her, on the page or not, and no private one. The privacy holds for the page only:
  marking a private entry read by its identifier, under the name of any sub of that goddess,
  returns it with its text and stamps its row, and no other, unless it had a stamp.
\<close>

theorem journal_page_hides_private:
  assumes "journal_for_goddess cfg now g sid limit before s = Inr (s', page)"
  shows "\<exists>gid. goddess_of_sub sid s = Inr gid \<and>
       (\<exists>es. page = map (build_journal_out cfg) (take limit es) \<and>
          mset es = filter_mset (\<lambda>e. je_goddess_id e = gid \<and> je_sub_id e = sid \<and> \<not> je_is_private e \<and> older_than before e)
            (mset (t_journal s')) \<and>
          sorted_wrt (\<lambda>a b. je_created_at b \<le> je_created_at a) es) \<and>
       (\<forall>eid e. fetch je_id eid (t_journal s) = Some e \<longrightarrow> fetch je_id eid (t_journal s') =
           Some (if shared_entry gid sid e \<and> je_read_by_goddess_at e = None then e\<lparr>je_read_by_goddess_at := Some now\<rparr> else e)) \<and>
       (\<forall>eid e name other. fetch je_id eid (t_journal s) = Some e \<longrightarrow> je_goddess_id e = gid \<longrightarrow>
           user_by_username name (core s) = Inr (Some other) \<longrightarrow> u_goddess_id other = Some gid \<longrightarrow>
           (\<exists>s2 e'. journal_mark_read cfg now g name eid s = Inr (s2, build_journal_out cfg e') \<and>
              e' = (if je_read_by_goddess_at e = None then e\<lparr>je_read_by_goddess_at := Some now\<rparr> else e) \<and>
              (\<forall>k. fetch je_id k (t_journal s2) = (if k = eid then Some e' else fetch je_id k (t_journal s)))))"
proof -
  obtain gid where gid: "resolve_goddess_id g (core s) = Inr gid" "goddess_of_sub sid s = Inr gid"
      and s': "s' = s\<lparr>t_journal := map (stamp_unread now gid sid) (t_journal s)\<rparr>"
      and page: "page = map (build_journal_out cfg)
        (take limit (newest_first (filter (\<lambda>e. shared_entry gid sid e \<and> older_than before e) (t_journal s'))))"
    using assms
    by (auto simp: journal_for_goddess_def assert_sub_under_goddess_def goddess_of_sub_def res_simps
        list_for_goddess_sub_and_mark_read_def Let_def)
  let ?es = "newest_first (filter (\<lambda>e. shared_entry gid sid e \<and> older_than before e) (t_journal s'))"
  have es: "mset ?es = filter_mset (\<lambda>e. je_goddess_id e = gid \<and> je_sub_id e = sid \<and> \<not> je_is_private e \<and> older_than before e)
      (mset (t_journal s'))"
    by (auto simp: newest_first_def shared_entry_def mset_filter intro: filter_mset_cong)
  have id: "je_id (stamp_unread now gid sid e) = je_id e" for e by (simp add: stamp_unread_def)
  have rows: "fetch je_id eid (t_journal s') = map_option (stamp_unread now gid sid) (fetch je_id eid (t_journal s))" for eid
    by (simp add: s' fetch_map [of je_id, OF id])
  have loaded: "fetch je_id eid (t_journal s') = Some (if shared_entry gid sid e \<and> je_read_by_goddess_at e = None
        then e\<lparr>je_read_by_goddess_at := Some now\<rparr> else e)" if "fetch je_id eid (t_journal s) = Some e" for eid e
    using rows that by (simp add: stamp_unread_def)
  have direct: "\<exists>s2. journal_mark_read cfg now g name eid s = Inr (s2, build_journal_out cfg (stamped now e)) \<and>
      (\<forall>k. fetch je_id k (t_journal s2) = (if k = eid then Some (stamped now e) else fetch je_id k (t_journal s)))"
    if "fetch je_id eid (t_journal s) = Some e" "je_goddess_id e = gid"
       "user_by_username name (core s) = Inr (Some other)" "u_goddess_id other = Some gid" for eid e name other
    using that gid(1) fetch_modify [of je_id "stamped now" _ eid "t_journal s"]
    by (simp add: journal_mark_read_def get_entry_def stamped_def)
  show ?thesis
    by (rule exI [of _ gid], intro conjI exI [of _ ?es] allI impI gid(2) page es newest_first_sorted)
      (use loaded direct [unfolded stamped_def] in blast)+
qed

definition diary :: "string \<Rightarrow> bool \<Rightarrow> uuid \<Rightarrow> datetime \<Rightarrow> journal_entry" where
  "diary body private eid t = (new_entry eid t 12 10
     \<lparr>ji_body = body, ji_mood = JM_good, ji_is_private = private, ji_photo_r2_key = None\<rparr> None None None)"

definition journal_cfg :: journal_config where
  "journal_cfg = \<lparr>jn_bucket = ''journal-attachments'', jn_presign_ttl = 600, jn_uuid_text = (\<lambda>n. replicate n CHR ''i'')\<rparr>"

definition diaries :: store where
  "diaries = (empty_store world)\<lparr>t_journal := [diary ''mine'' True 1 86400000000, diary ''ours'' False 2 172800000000]\<rparr>"

lemma gmt_mono: "mono (as_london_date gmt)"
  by (rule monoI) (simp add: as_london_date_def date_of_def to_wall_def gmt_def us_per_day_def zdiv_mono1)

lemma streak_counts_days_witness: "current_streak_days gmt 180000000000 12 diaries = 2"
proof -
  have past: "\<forall>e \<in> set (t_journal diaries). je_created_at e \<le> 180000000000"
    by (simp add: diaries_def diary_def new_entry_def)
  have days: "set (entry_dates gmt 180000000000 12 diaries) = {1, 2}"
    by (auto simp: entry_dates_def newest_first_def diaries_def diary_def new_entry_def streak_lookback_days_def
        us_per_day_def as_london_date_def date_of_def to_wall_def gmt_def)
  have today: "as_london_date gmt 180000000000 = 2"
    by (simp add: as_london_date_def date_of_def to_wall_def gmt_def us_per_day_def)
  note streak = streak_counts_days [OF gmt_mono past, of 12, unfolded days today]
  let ?n = "current_streak_days gmt 180000000000 12 diaries"
  have "?n \<noteq> 0" "?n \<noteq> 1" using streak by auto
  moreover have "\<not> 2 < ?n"
  proof
    assume "2 < ?n"
    with streak have "(2::int) - int 2 \<in> {1, 2}" by blast
    then show False by simp
  qed
  ultimately show ?thesis by linarith
qed

lemma journal_page_hides_private_witness:
  "\<exists>s' page. journal_for_goddess journal_cfg 200000000000 11 12 20 None diaries = Inr (s', page) \<and>
     (\<exists>s2 out. journal_mark_read journal_cfg 200000000000 11 ''sub'' 1 diaries = Inr (s2, out) \<and> je_body (jo_entry out) = ''mine'')"
proof -
  have w: "resolve_goddess_id 11 (core diaries) = Inr 10" "user_by_id 12 (core diaries) = Some sub_user"
    "user_by_username ''sub'' (core diaries) = Inr (Some sub_user)"
    by (simp_all add: diaries_def world_def resolve_goddess_id_def user_by_id_def user_by_username_def dom_user_def sub_user_def dom_profile_def)
  obtain s' page where p: "journal_for_goddess journal_cfg 200000000000 11 12 20 None diaries = Inr (s', page)"
    using w by (simp add: journal_for_goddess_def assert_sub_under_goddess_def list_for_goddess_sub_and_mark_read_def Let_def)
  have e: "fetch je_id 1 (t_journal diaries) = Some (diary ''mine'' True 1 86400000000)" "goddess_of_sub 12 diaries = Inr 10"
    using w by (simp_all add: goddess_of_sub_def) (simp add: diaries_def diary_def new_entry_def)
  have mine: "je_goddess_id (diary ''mine'' True 1 86400000000) = 10" by (simp add: diary_def new_entry_def)
  from journal_page_hides_private [OF p] e(2)
  have "\<forall>eid e name other. fetch je_id eid (t_journal diaries) = Some e \<longrightarrow> je_goddess_id e = 10 \<longrightarrow>
      user_by_username name (core diaries) = Inr (Some other) \<longrightarrow> u_goddess_id other = Some 10 \<longrightarrow>
      (\<exists>s2. journal_mark_read journal_cfg 200000000000 11 name eid diaries =
         Inr (s2, build_journal_out journal_cfg (stamped 200000000000 e)))"
    unfolding stamped_def by (elim exE conjE) fastforce
  then obtain s2 where "journal_mark_read journal_cfg 200000000000 11 ''sub'' 1 diaries =
      Inr (s2, build_journal_out journal_cfg (stamped 200000000000 (diary ''mine'' True 1 86400000000)))"
    using e(1) mine w(3) sample_users(3) by blast
  with p show ?thesis by (auto simp: build_journal_out_def stamped_def diary_def new_entry_def)
qed

end
