(* ===== verification/Access.thy ===== *)
theory Access
  imports Consent Samples
begin

text \<open>
  What stands before a handler: the access token and its user (\<^verbatim>\<open>core/security.py\<close>,
  \<^verbatim>\<open>dependencies/auth.py\<close>), the porch gate of subs that have not paid the entry tribute
  (\<^verbatim>\<open>dependencies/porch_gate.py\<close>), the impersonation of a user by an admin and the counters of
  rejections (\<^verbatim>\<open>routers/admin.py\<close>, \<^verbatim>\<open>routers/goddess_rate_limits.py\<close>). Signing and parsing
  belong to libraries and are parameters.
\<close>

section \<open>Tokens\<close>

record claims =
  cm_sub :: "string option"
  cm_role :: "user_role option"
  cm_typ :: "string option"
  cm_imp :: "string option"
  cm_exp :: int \<comment> \<open>seconds\<close>

record token_library =
  jwt_decode :: "string \<Rightarrow> claims option" \<comment> \<open>None: expired or not valid\<close>
  parse_uuid :: "string \<Rightarrow> uuid option"
  show_uuid :: "uuid \<Rightarrow> string"

definition decode_access_token :: "token_library \<Rightarrow> string \<Rightarrow> claims res" where
  "decode_access_token t raw =
     require (jwt_decode t raw) (Unauthorized ''invalid token'') (\<lambda>c.
     raise_if (cm_typ c \<noteq> Some ''access'') (Unauthorized ''wrong token type'') (Inr c))"

text \<open>The payload of a new token; without \<open>imp\<close> for a login, with it for an impersonation.\<close>

definition access_claims :: "token_library \<Rightarrow> datetime \<Rightarrow> int \<Rightarrow> user \<Rightarrow> uuid option \<Rightarrow> claims" where
  "access_claims t now minutes u imp =
     \<lparr>cm_sub = Some (show_uuid t (u_id u)), cm_role = Some (u_role u), cm_typ = Some ''access'',
      cm_imp = map_option (show_uuid t) imp, cm_exp = (now + minutes * 60000000) div 1000000\<rparr>"

section \<open>The user of a request\<close>

record http_request =
  hr_scope :: string
  hr_method :: string
  hr_path :: string
  hr_authorization :: "string option"

definition is_bearer :: "string \<Rightarrow> bool" where
  "is_bearer a \<longleftrightarrow> take 7 (map lower_char a) = ''bearer ''"

definition after_space :: "string \<Rightarrow> string" where
  "after_space a = tl (dropWhile (\<lambda>c. c \<noteq> CHR '' '') a)"

record auth_context =
  ax_user :: user
  ax_impersonator :: "user option"

text \<open>A missing \<^verbatim>\<open>sub\<close> (a \<^verbatim>\<open>KeyError\<close>) and a malformed identifier (a \<^verbatim>\<open>ValueError\<close>) both escape as a 500.\<close>

definition get_auth_context :: "token_library \<Rightarrow> string option \<Rightarrow> store \<Rightarrow> auth_context res" where
  "get_auth_context t authorization s =
     require authorization (Unauthorized ''missing bearer token'') (\<lambda>a.
     raise_if (\<not> is_bearer a) (Unauthorized ''missing bearer token'') (
     require (jwt_decode t (after_space a)) (Unauthorized ''invalid access token'') (\<lambda>c.
     raise_if (cm_typ c \<noteq> Some ''access'') (Unauthorized ''invalid access token'') (
     require (Option.bind (cm_sub c) (parse_uuid t)) (ValueError ''sub'') (\<lambda>uid.
     require (user_by_id uid (core s)) (Unauthorized ''user not found'') (\<lambda>u.
     case cm_imp c of
       None \<Rightarrow> Inr \<lparr>ax_user = u, ax_impersonator = None\<rparr>
     | Some i \<Rightarrow>
         if i = [] then Inr \<lparr>ax_user = u, ax_impersonator = None\<rparr>
         else require (parse_uuid t i) (ValueError ''imp'') (\<lambda>iid.
           Inr \<lparr>ax_user = u, ax_impersonator = user_by_id iid (core s)\<rparr>)))))))"

definition require_role :: "user_role list \<Rightarrow> user \<Rightarrow> user res" where
  "require_role roles u = raise_if (u_role u \<notin> set roles) (Forbidden ''role not permitted'') (Inr u)"

section \<open>The porch gate\<close>

definition porch_allowlist :: "(string \<times> string) list" where
  "porch_allowlist =
     [(''GET'', ''/auth/me''), (''POST'', ''/auth/login''), (''POST'', ''/auth/logout''), (''POST'', ''/auth/refresh''),
      (''POST'', ''/auth/password-reset/request''), (''POST'', ''/auth/password-reset/confirm''),
      (''POST'', ''/sub/payments''), (''GET'', ''/health'')]"

definition porch_forbidden :: app_error where
  "porch_forbidden = HTTPException 403 ''account is pending entry tribute''"

definition porch_gate :: "token_library \<Rightarrow> http_request \<Rightarrow> store \<Rightarrow> unit res" where
  "porch_gate t r s =
     (if hr_scope r \<noteq> ''http'' then Inr ()
      else if (hr_method r, hr_path r) \<in> set porch_allowlist then Inr ()
      else case hr_authorization r of None \<Rightarrow> Inr () | Some a \<Rightarrow>
        if \<not> is_bearer a then Inr ()
        else case decode_access_token t (after_space a) of Inl _ \<Rightarrow> Inr () | Inr c \<Rightarrow>
          if cm_imp c \<noteq> None \<and> cm_imp c \<noteq> Some [] then Inr ()
          else case cm_sub c of None \<Rightarrow> Inr () | Some i \<Rightarrow>
            if i = [] then Inr ()
            else case parse_uuid t i of None \<Rightarrow> Inr () | Some uid \<Rightarrow>
              (case user_by_id uid (core s) of None \<Rightarrow> Inr () | Some u \<Rightarrow>
                 raise_if (u_status u = US_pending_entry_tribute) porch_forbidden (Inr ())))"

text \<open>A route with the gate before it, its user, its roles and its handler.\<close>

definition serve ::
  "token_library \<Rightarrow> user_role list \<Rightarrow> (user \<Rightarrow> store \<Rightarrow> 'a res) \<Rightarrow> http_request \<Rightarrow> store \<Rightarrow> 'a res" where
  "serve t roles handler r s =
     attempt (porch_gate t r s) (\<lambda>_.
     attempt (get_auth_context t (hr_authorization r) s) (\<lambda>who.
     attempt (require_role roles (ax_user who)) (\<lambda>u. handler u s)))"

section \<open>Impersonation and counters\<close>

definition impersonate ::
  "token_library \<Rightarrow> datetime \<Rightarrow> int \<Rightarrow> user \<Rightarrow> uuid \<Rightarrow> store \<Rightarrow> (store \<times> claims \<times> int) res" where
  "impersonate t now minutes admin uid s =
     raise_if (u_id admin = uid) (BadRequest ''cannot impersonate yourself'') (
     require (user_by_id uid (core s)) (NotFound ''user not found'') (\<lambda>target.
     raise_if (u_role target = R_admin) (Forbidden ''cannot impersonate another admin'') (
     let row = \<lparr>aa_admin_id = u_id admin, aa_acting_as_user_id = Some (u_id target), aa_action = ''impersonate'',
                aa_entity = Some ''user'', aa_entity_id = Some (u_id target), aa_payload = None,
                aa_created_at = now\<rparr>
     in Inr (s\<lparr>t_admin_actions := t_admin_actions s @ [row]\<rparr>,
             access_claims t now minutes target (Some (u_id admin)), minutes * 60))))"

definition today_start_utc :: "zone \<Rightarrow> datetime \<Rightarrow> datetime" where
  "today_start_utc z now = from_wall z (date_of (to_wall z now) * us_per_day)"

definition count_per_action :: "uuid \<Rightarrow> datetime \<Rightarrow> string \<Rightarrow> store \<Rightarrow> nat" where
  "count_per_action admin start action s =
     length (filter (\<lambda>a. aa_admin_id a = admin \<and> aa_action a = action \<and> start \<le> aa_created_at a) (t_admin_actions s))"

text \<open>\<^verbatim>\<open>payload_json["body"]["action"].astext\<close>.\<close>

definition body_action :: "json option \<Rightarrow> string option" where
  "body_action p =
     (case p of Some (J_obj kvs) \<Rightarrow>
        (case map_of kvs ''body'' of Some (J_obj bs) \<Rightarrow>
           (case map_of bs ''action'' of Some (J_str a) \<Rightarrow> Some a | _ \<Rightarrow> None)
         | _ \<Rightarrow> None)
      | _ \<Rightarrow> None)"

definition count_review_queue_rejects :: "uuid \<Rightarrow> datetime \<Rightarrow> store \<Rightarrow> nat" where
  "count_review_queue_rejects admin start s =
     length (filter (\<lambda>a. aa_admin_id a = admin \<and> aa_action a = ''review_queue_bulk_action'' \<and>
       body_action (aa_payload a) = Some ''reject'' \<and> start \<le> aa_created_at a) (t_admin_actions s))"

record rate_limits =
  gr_payment_rejections_today :: nat
  gr_photo_rejections_today :: nat
  gr_profile_change_rejections_today :: nat
  gr_review_queue_reject_calls_today :: nat
  gr_rejections_threshold :: nat

definition get_rate_limits :: "zone \<Rightarrow> datetime \<Rightarrow> nat \<Rightarrow> user \<Rightarrow> store \<Rightarrow> rate_limits" where
  "get_rate_limits z now threshold u s =
     (let count = (\<lambda>action. count_per_action (u_id u) (today_start_utc z now) action s) in
      \<lparr>gr_payment_rejections_today = count ''payment_rejected'', gr_photo_rejections_today = count ''photo_rejected'',
       gr_profile_change_rejections_today = count ''profile_change_rejected'',
       gr_review_queue_reject_calls_today = count_review_queue_rejects (u_id u) (today_start_utc z now) s, gr_rejections_threshold = threshold\<rparr>)"

section \<open>Nothing but the porch\<close>

text \<open>
  Of a sub that has not paid the entry tribute no handler outside the porch runs, whatever the
  handler does and whatever roles it admits: a request with her own token that reaches a handler
  is on the list of method and path, and any other is answered with 403 before the handler. For
  a user in another state, and for a token an admin drew for the sub, the gate changes nothing.
\<close>

theorem porch_sub_confined:
  assumes "get_auth_context t (hr_authorization r) s = Inr who" "hr_scope r = ''http''"
    and "\<And>a c. hr_authorization r = Some a \<Longrightarrow> jwt_decode t (after_space a) = Some c \<Longrightarrow> cm_sub c \<noteq> Some []"
  shows "(u_status (ax_user who) = US_pending_entry_tribute \<longrightarrow>
            (\<forall>a c. hr_authorization r = Some a \<longrightarrow> jwt_decode t (after_space a) = Some c \<longrightarrow> cm_imp c = None \<longrightarrow>
               (hr_method r, hr_path r) \<notin> set porch_allowlist \<longrightarrow>
               serve t roles handler r s = Inl porch_forbidden)) \<and>
     ((u_status (ax_user who) \<noteq> US_pending_entry_tribute \<or> (hr_method r, hr_path r) \<in> set porch_allowlist \<or>
       (\<exists>a c i. hr_authorization r = Some a \<and> jwt_decode t (after_space a) = Some c \<and> cm_imp c = Some i \<and> i \<noteq> [])) \<longrightarrow>
      serve t roles handler r s = attempt (require_role roles (ax_user who)) (\<lambda>u. handler u s))"
proof -
  obtain a c uid where a: "hr_authorization r = Some a" "is_bearer a" "jwt_decode t (after_space a) = Some c"
      "cm_typ c = Some ''access''" "Option.bind (cm_sub c) (parse_uuid t) = Some uid"
      "user_by_id uid (core s) = Some (ax_user who)"
    using assms(1) by (auto simp: get_auth_context_def res_simps split: option.splits if_splits)
  obtain i where i: "cm_sub c = Some i" "i \<noteq> []" "parse_uuid t i = Some uid"
    using a(5) assms(3) [OF a(1,3)] by (auto simp: bind_eq_Some_conv)
  have gate: "porch_gate t r s =
      (if (hr_method r, hr_path r) \<in> set porch_allowlist \<or> (cm_imp c \<noteq> None \<and> cm_imp c \<noteq> Some []) then Inr ()
       else raise_if (u_status (ax_user who) = US_pending_entry_tribute) porch_forbidden (Inr ()))"
    using a i assms(2) by (auto simp: porch_gate_def decode_access_token_def)
  show ?thesis
    unfolding serve_def gate using assms(1) a(1,3) by (auto simp: raise_if_def)
qed

definition lib :: token_library where
  "lib = \<lparr>jwt_decode = (\<lambda>raw. Some \<lparr>cm_sub = Some raw, cm_role = Some R_sub, cm_typ = Some ''access'', cm_imp = None, cm_exp = 0\<rparr>),
     parse_uuid = (\<lambda>x. Some (length x)), show_uuid = (\<lambda>n. replicate n CHR ''i'')\<rparr>"

definition waiting_sub :: store where
  "waiting_sub = empty_store (world\<lparr>t_users := [dom_user, sub_user\<lparr>u_status := US_pending_entry_tribute\<rparr>]\<rparr>)"

definition her_bearer :: string where
  "her_bearer = ''Bearer '' @ replicate 12 CHR ''x''"

definition porch_call :: "string \<Rightarrow> string \<Rightarrow> http_request" where
  "porch_call m p = \<lparr>hr_scope = ''http'', hr_method = m, hr_path = p, hr_authorization = Some her_bearer\<rparr>"

lemma porch_sub_confined_witness:
  "serve lib [R_sub] (\<lambda>u s. Inr (u_id u)) (porch_call ''GET'' ''/sub/payments'') waiting_sub = Inl porch_forbidden \<and>
   serve lib [R_sub] (\<lambda>u s. Inr (u_id u)) (porch_call ''POST'' ''/sub/payments'') waiting_sub = Inr 12"
proof -
  let ?u = "sub_user\<lparr>u_status := US_pending_entry_tribute\<rparr>"
  have token: "after_space her_bearer = replicate 12 CHR ''x''" by (simp add: after_space_def her_bearer_def)
  have bearer: "is_bearer her_bearer" by code_simp
  have user: "user_by_id 12 (core waiting_sub) = Some ?u" by (simp add: user_by_id_def waiting_sub_def)
  have who: "get_auth_context lib (hr_authorization (porch_call m p)) waiting_sub =
      Inr \<lparr>ax_user = ?u, ax_impersonator = None\<rparr>" for m p
    by (simp add: get_auth_context_def porch_call_def token bearer lib_def user)
  have http: "hr_scope (porch_call m p) = ''http''" and auth: "hr_authorization (porch_call m p) = Some her_bearer" for m p
    by (simp_all add: porch_call_def)
  have sub: "cm_sub c \<noteq> Some []" if "hr_authorization (porch_call m p) = Some a" "jwt_decode lib (after_space a) = Some c" for a c m p
    using that by (auto simp: auth token lib_def)
  have off: "(''GET'', ''/sub/payments'') \<notin> set porch_allowlist" "(''POST'', ''/sub/payments'') \<in> set porch_allowlist"
    by (simp_all add: porch_allowlist_def)
  note confined = porch_sub_confined [OF who http sub, where roles = "[R_sub]" and handler = "\<lambda>u s. Inr (u_id u)"]
  have "serve lib [R_sub] (\<lambda>u s. Inr (u_id u)) (porch_call ''GET'' ''/sub/payments'') waiting_sub = Inl porch_forbidden"
    using confined [of "''GET''" "''/sub/payments''"] off(1) auth token
    by (simp add: lib_def porch_call_def)
  moreover have "serve lib [R_sub] (\<lambda>u s. Inr (u_id u)) (porch_call ''POST'' ''/sub/payments'') waiting_sub = Inr 12"
    using confined [of "''POST''" "''/sub/payments''"] off(2)
    by (simp add: porch_call_def require_role_def)
  ultimately show ?thesis by simp
qed

end
