(* ===== verification/ReviewQueue.thy ===== *)
theory ReviewQueue
  imports Activities "HOL-Library.Product_Lexorder"
begin

text \<open>
  The queue of submitted tasks and ritual occurrences of a goddess and its bulk decision:
  \<^verbatim>\<open>controllers/review_queue_controller.py\<close>, \<^verbatim>\<open>daos/review_queue_dao.py\<close>.
\<close>

section \<open>The queue\<close>

datatype review_kind = RK_ritual_occurrence | RK_task

type_synonym review_ref = "review_kind \<times> uuid"

record review_item =
  rv_kind :: review_kind
  rv_id :: uuid
  rv_sub_id :: uuid
  rv_sub_username :: string
  rv_title :: string
  rv_submitted_at :: datetime
  rv_evidence_r2_key :: "string option"
  rv_note :: "string option"
  rv_points_on_complete :: int

text \<open>A comparison with a missing value is not true; descending order puts missing values first.\<close>

definition before_cursor :: "datetime option \<Rightarrow> datetime option \<Rightarrow> bool" where
  "before_cursor before v = (case before of None \<Rightarrow> True | Some b \<Rightarrow> (case v of None \<Rightarrow> False | Some t \<Rightarrow> t < b))"

definition desc_key :: "datetime option \<Rightarrow> uuid \<Rightarrow> int \<times> int \<times> int" where
  "desc_key v k = (case v of None \<Rightarrow> (0, 0, - int k) | Some t \<Rightarrow> (1, - t, - int k))"

definition list_submitted_occurrences ::
  "uuid \<Rightarrow> datetime option \<Rightarrow> nat \<Rightarrow> db \<Rightarrow> (ritual_occurrence \<times> ritual \<times> user) list" where
  "list_submitted_occurrences gid before limit s =
     take limit (sort_key (\<lambda>(oc, _, _). desc_key (o_completed_at oc) (o_id oc))
       [(oc, r, u). oc \<leftarrow> t_occurrences s, o_goddess_id oc = gid \<and> o_status oc = OS_submitted \<and> before_cursor before (o_completed_at oc),
          r \<leftarrow> t_rituals s, i_id r = o_ritual_id oc, u \<leftarrow> t_users s, u_id u = o_sub_id oc])"

definition list_submitted_tasks :: "uuid \<Rightarrow> datetime option \<Rightarrow> nat \<Rightarrow> db \<Rightarrow> (task \<times> user) list" where
  "list_submitted_tasks gid before limit s =
     take limit (sort_key (\<lambda>(t, _). desc_key (k_submitted_at t) (k_id t))
       [(t, u). t \<leftarrow> t_tasks s, k_goddess_id t = gid \<and> k_status t = TS_submitted \<and> before_cursor before (k_submitted_at t),
          u \<leftarrow> t_users s, u_id u = k_sub_id t])"

definition or_created :: "datetime option \<Rightarrow> datetime \<Rightarrow> datetime" where
  "or_created v created = (case v of Some t \<Rightarrow> t | None \<Rightarrow> created)"

definition occurrence_item :: "ritual_occurrence \<times> ritual \<times> user \<Rightarrow> review_item" where
  "occurrence_item = (\<lambda>(oc, r, u). \<lparr>rv_kind = RK_ritual_occurrence, rv_id = o_id oc, rv_sub_id = u_id u,
     rv_sub_username = u_username u, rv_title = i_title r, rv_submitted_at = or_created (o_completed_at oc) (o_created_at oc),
     rv_evidence_r2_key = o_evidence_r2_key oc, rv_note = o_note oc, rv_points_on_complete = i_points_on_complete r\<rparr>)"

definition task_item :: "task \<times> user \<Rightarrow> review_item" where
  "task_item = (\<lambda>(t, u). \<lparr>rv_kind = RK_task, rv_id = k_id t, rv_sub_id = u_id u, rv_sub_username = u_username u,
     rv_title = k_title t, rv_submitted_at = or_created (k_submitted_at t) (k_created_at t),
     rv_evidence_r2_key = k_evidence_r2_key t, rv_note = k_note t, rv_points_on_complete = k_points_on_complete t\<rparr>)"

definition list_review_queue :: "user \<Rightarrow> nat \<Rightarrow> datetime option \<Rightarrow> db \<Rightarrow> review_item list res" where
  "list_review_queue goddess_user limit before s =
     attempt (resolve_goddess_id (u_id goddess_user) s) (\<lambda>gid.
     Inr (take limit (sort_key (\<lambda>i. - rv_submitted_at i)
       (map occurrence_item (list_submitted_occurrences gid before limit s) @
        map task_item (list_submitted_tasks gid before limit s)))))"

section \<open>The bulk decision\<close>

datatype bulk_choice = BA_approve | BA_reject

text \<open>
  One item. Every exception of the four handlers comes before their first change (a submitted
  occurrence has its ritual, by its foreign key), so a failed item changes nothing.
\<close>

fun dispatch :: "datetime \<Rightarrow> user \<Rightarrow> bulk_choice \<Rightarrow> string option \<Rightarrow> review_ref \<Rightarrow> db \<Rightarrow> db res" where
  "dispatch now u BA_approve reason (RK_ritual_occurrence, k) s =
     attempt (approve_occurrence now u k s) (\<lambda>(s', _). Inr s')"
| "dispatch now u BA_reject reason (RK_ritual_occurrence, k) s =
     attempt (reject_occurrence now u k s) (\<lambda>(s', _). Inr s')"
| "dispatch now u BA_approve reason (RK_task, k) s = attempt (approve_task now u k s) (\<lambda>(s', _). Inr s')"
| "dispatch now u BA_reject reason (RK_task, k) s = attempt (reject_task now u k reason s) (\<lambda>(s', _). Inr s')"

text \<open>The loop: an item that fails is noted with its error and the next one goes on.\<close>

fun bulk_action :: "datetime \<Rightarrow> user \<Rightarrow> bulk_choice \<Rightarrow> string option \<Rightarrow> review_ref list \<Rightarrow> db \<Rightarrow>
    db \<times> review_ref list \<times> (review_ref \<times> app_error) list" where
  "bulk_action now u act reason [] s = (s, [], [])"
| "bulk_action now u act reason (r # rs) s =
     (case dispatch now u act reason r s of
        Inr s1 \<Rightarrow> (let (s', ok, bad) = bulk_action now u act reason rs s1 in (s', r # ok, bad))
      | Inl e \<Rightarrow> (let (s', ok, bad) = bulk_action now u act reason rs s in (s', ok, (r, e) # bad)))"

section \<open>What a decision needs and does\<close>

text \<open>The item waits for a decision of this goddess.\<close>

fun waiting_ref :: "user \<Rightarrow> review_ref \<Rightarrow> db \<Rightarrow> bool" where
  "waiting_ref u (RK_task, k) s = (case owned_task u k s of Inl _ \<Rightarrow> False | Inr t \<Rightarrow> k_status t = TS_submitted)"
| "waiting_ref u (RK_ritual_occurrence, k) s =
     (case owned_occurrence u k s of Inl _ \<Rightarrow> False
      | Inr oc \<Rightarrow> o_status oc = OS_submitted \<and> fetch i_id (o_ritual_id oc) (t_rituals s) \<noteq> None)"

fun decided :: "bulk_choice \<Rightarrow> review_ref \<Rightarrow> db \<Rightarrow> bool" where
  "decided act (RK_task, k) s \<longleftrightarrow>
     task_status_at s k = Some (case act of BA_approve \<Rightarrow> TS_approved | BA_reject \<Rightarrow> TS_rejected)"
| "decided act (RK_ritual_occurrence, k) s \<longleftrightarrow>
     occurrence_status_at s k = Some (case act of BA_approve \<Rightarrow> OS_completed | BA_reject \<Rightarrow> OS_rejected)"

fun row_of :: "review_ref \<Rightarrow> db \<Rightarrow> task option \<times> ritual_occurrence option" where
  "row_of (RK_task, k) s = (fetch k_id k (t_tasks s), None)"
| "row_of (RK_ritual_occurrence, k) s = (None, fetch o_id k (t_occurrences s))"

lemma task_decided:
  assumes "dispatch now u act reason (RK_task, k) s = Inr s'"
  obtains t f where "fetch k_id k (t_tasks s) = Some t" "waiting_ref u (RK_task, k) s" "\<forall>r. k_id (f r) = k_id r"
    "\<forall>r. k_status (f r) = (case act of BA_approve \<Rightarrow> TS_approved | BA_reject \<Rightarrow> TS_rejected)"
    "t_tasks s' = modify k_id k f (t_tasks s)" "t_occurrences s' = t_occurrences s" "t_rituals s' = t_rituals s"
    "t_users s' = t_users s" "t_goddesses s' = t_goddesses s"
proof (cases act)
  case BA_approve
  let ?f = "\<lambda>t::task. t\<lparr>k_status := TS_approved, k_reviewed_at := Some now, k_reviewed_by := Some (u_id u), k_updated_at := now\<rparr>"
  obtain t where t: "owned_task u k s = Inr t" "k_status t = TS_submitted"
      "s' = fst (record_task_complete now (?f t) (update_task_row k ?f s))"
    using assms BA_approve by (auto simp: approve_task_def attempt_eq_Inr raise_if_eq_Inr Let_def case_prod_beta)
  have ft: "fetch k_id k (t_tasks s) = Some t" using t(1) by (simp add: owned_task_Inr)
  show thesis
    by (rule that [of t ?f]) (use t ft in \<open>auto simp: BA_approve record_task_complete_def update_task_row_def\<close>)
next
  case BA_reject
  let ?f = "\<lambda>t::task. t\<lparr>k_status := TS_rejected, k_rejection_reason := reason, k_reviewed_at := Some now,
                k_reviewed_by := Some (u_id u), k_updated_at := now\<rparr>"
  obtain t d where t: "owned_task u k s = Inr t" "k_status t = TS_submitted"
      "apply_penalty now (k_goddess_id t) (k_sub_id t) PT_task_missed ''task_miss'' (Some (k_id t))
         (k_points_on_miss t) None (update_task_row k ?f s) = Inr (s', d)"
    using assms BA_reject by (auto simp: reject_task_def attempt_eq_Inr raise_if_eq_Inr Let_def)
  have ft: "fetch k_id k (t_tasks s) = Some t" using t(1) by (simp add: owned_task_Inr)
  show thesis
    by (rule that [of t ?f]) (use t ft apply_penalty_frame [OF t(3)] in \<open>auto simp: BA_reject update_task_row_def\<close>)
qed

lemma occurrence_decided:
  assumes "dispatch now u act reason (RK_ritual_occurrence, k) s = Inr s'"
  obtains oc f where "fetch o_id k (t_occurrences s) = Some oc" "waiting_ref u (RK_ritual_occurrence, k) s" "\<forall>r. o_id (f r) = o_id r"
    "\<forall>r. o_status (f r) = (case act of BA_approve \<Rightarrow> OS_completed | BA_reject \<Rightarrow> OS_rejected)"
    "t_occurrences s' = modify o_id k f (t_occurrences s)" "t_tasks s' = t_tasks s" "t_rituals s' = t_rituals s"
    "t_users s' = t_users s" "t_goddesses s' = t_goddesses s"
proof -
  let ?f = "reviewed_row (case act of BA_approve \<Rightarrow> OS_completed | BA_reject \<Rightarrow> OS_rejected) (u_id u) now"
  obtain oc r ev where oc: "owned_occurrence u k s = Inr oc" "o_status oc = OS_submitted"
      "fetch i_id (o_ritual_id oc) (t_rituals s) = Some r" "s' = fst (insert_idempotent ev (update_occurrence k ?f s))"
    using assms
    by (cases act) (auto simp: approve_occurrence_def reject_occurrence_def attempt_eq_Inr raise_if_eq_Inr require_eq_Inr
        get_ritual_def Let_def case_prod_beta record_ritual_complete_def record_ritual_miss_def update_occurrence_def)
  have fo: "fetch o_id k (t_occurrences s) = Some oc" using oc(1) by (simp add: owned_occurrence_Inr)
  show thesis
    by (rule that [of oc ?f]) (use oc fo in \<open>auto simp: update_occurrence_def reviewed_row_def split: bulk_choice.splits\<close>)
qed

lemma waiting_frame:
  assumes "t_users s' = t_users s" "t_goddesses s' = t_goddesses s" "t_rituals s' = t_rituals s" "row_of r s' = row_of r s"
  shows "waiting_ref u r s' = waiting_ref u r s"
  using assms resolve_goddess_id_cong [OF assms(1,2), of "u_id u"]
  by (cases r; cases "fst r") (auto simp: owned_task_def owned_occurrence_def get_task_def get_occurrence_def split: sum.split)

text \<open>A decision is possible just for a waiting item; it decides that item and touches no other.\<close>

lemma dispatch_facts:
  assumes "dispatch now u act reason r s = Inr s'"
  shows "waiting_ref u r s" "decided act r s'" "\<not> waiting_ref u r s'"
    "r2 \<noteq> r \<Longrightarrow> row_of r2 s' = row_of r2 s" "r2 \<noteq> r \<Longrightarrow> waiting_ref u r2 s' = waiting_ref u r2 s"
proof -
  obtain kind k where r: "r = (kind, k)" by (cases r)
  have "waiting_ref u r s \<and> decided act r s' \<and> \<not> waiting_ref u r s' \<and>
      (\<forall>r2. r2 \<noteq> r \<longrightarrow> row_of r2 s' = row_of r2 s) \<and> t_users s' = t_users s \<and> t_goddesses s' = t_goddesses s \<and>
      t_rituals s' = t_rituals s"
  proof (cases kind)
    case RK_task
    from assms obtain t f where f: "fetch k_id k (t_tasks s) = Some t" "waiting_ref u (RK_task, k) s" "\<forall>r. k_id (f r) = k_id r"
        "\<forall>r. k_status (f r) = (case act of BA_approve \<Rightarrow> TS_approved | BA_reject \<Rightarrow> TS_rejected)"
        "t_tasks s' = modify k_id k f (t_tasks s)" "t_occurrences s' = t_occurrences s" "t_rituals s' = t_rituals s"
        "t_users s' = t_users s" "t_goddesses s' = t_goddesses s"
      unfolding r RK_task by (rule task_decided)
    have at: "fetch k_id j (t_tasks s') = (if j = k then map_option f (fetch k_id j (t_tasks s)) else fetch k_id j (t_tasks s))" for j
      unfolding f(5) by (rule fetch_modify [where f = f]) (use f(3) in simp)
    have "\<not> waiting_ref u (RK_task, k) s'"
      using at [of k] f(1,4) by (auto simp: owned_task_Inr split: sum.splits bulk_choice.splits)
    moreover have "row_of r2 s' = row_of r2 s" if "r2 \<noteq> r" for r2
      using that at f(6) by (cases r2; cases "fst r2") (auto simp: r RK_task)
    ultimately show ?thesis using f at [of k] by (simp add: r RK_task task_status_at_def)
  next
    case RK_ritual_occurrence
    from assms obtain oc f where f: "fetch o_id k (t_occurrences s) = Some oc" "waiting_ref u (RK_ritual_occurrence, k) s"
        "\<forall>r. o_id (f r) = o_id r"
        "\<forall>r. o_status (f r) = (case act of BA_approve \<Rightarrow> OS_completed | BA_reject \<Rightarrow> OS_rejected)"
        "t_occurrences s' = modify o_id k f (t_occurrences s)" "t_tasks s' = t_tasks s" "t_rituals s' = t_rituals s"
        "t_users s' = t_users s" "t_goddesses s' = t_goddesses s"
      unfolding r RK_ritual_occurrence by (rule occurrence_decided)
    have at: "fetch o_id j (t_occurrences s') =
        (if j = k then map_option f (fetch o_id j (t_occurrences s)) else fetch o_id j (t_occurrences s))" for j
      unfolding f(5) by (rule fetch_modify [where f = f]) (use f(3) in simp)
    have "\<not> waiting_ref u (RK_ritual_occurrence, k) s'"
      using at [of k] f(1,4) by (auto simp: owned_occurrence_Inr split: sum.splits bulk_choice.splits)
    moreover have "row_of r2 s' = row_of r2 s" if "r2 \<noteq> r" for r2
      using that at f(6) by (cases r2; cases "fst r2") (auto simp: r RK_ritual_occurrence)
    ultimately show ?thesis using f at [of k] by (simp add: r RK_ritual_occurrence occurrence_status_at_def)
  qed
  then show "waiting_ref u r s" "decided act r s'" "\<not> waiting_ref u r s'"
    "r2 \<noteq> r \<Longrightarrow> row_of r2 s' = row_of r2 s" "r2 \<noteq> r \<Longrightarrow> waiting_ref u r2 s' = waiting_ref u r2 s"
    using waiting_frame [of s' s r2 u] by blast+
qed

lemma penalty_of_task_posts:
  "\<exists>s' d. apply_penalty now gid sid PT_task_missed ''task_miss'' src dd None s = Inr (s', d)"
  by (auto simp: apply_penalty_def emit_merit_event_def merit_source_kind_for_def split: option.splits prod.splits)

lemma dispatch_possible: "waiting_ref u r s \<Longrightarrow> \<exists>s'. dispatch now u act reason r s = Inr s'"
proof -
  assume w: "waiting_ref u r s"
  obtain kind k where r: "r = (kind, k)" by (cases r)
  show ?thesis
  proof (cases kind)
    case RK_task
    with w r obtain t where t: "owned_task u k s = Inr t" "k_status t = TS_submitted" by (auto split: sum.splits)
    show ?thesis
    proof (cases act)
      case BA_reject
      let ?f = "\<lambda>t::task. t\<lparr>k_status := TS_rejected, k_rejection_reason := reason, k_reviewed_at := Some now,
                k_reviewed_by := Some (u_id u), k_updated_at := now\<rparr>"
      obtain s1 d where "apply_penalty now (k_goddess_id t) (k_sub_id t) PT_task_missed ''task_miss'' (Some (k_id t))
          (k_points_on_miss t) None (update_task_row k ?f s) = Inr (s1, d)"
        using penalty_of_task_posts by blast
      with t show ?thesis by (simp add: r RK_task BA_reject reject_task_def Let_def)
    qed (use t in \<open>simp add: r RK_task approve_task_def Let_def case_prod_beta\<close>)
  next
    case RK_ritual_occurrence
    with w r obtain oc rit where "owned_occurrence u k s = Inr oc" "o_status oc = OS_submitted"
        "fetch i_id (o_ritual_id oc) (t_rituals s) = Some rit" by (auto split: sum.splits)
    then show ?thesis
      by (cases act) (simp_all add: r RK_ritual_occurrence approve_occurrence_def reject_occurrence_def Let_def
          case_prod_beta get_ritual_def update_occurrence_def)
  qed
qed

lemma decided_row: "row_of r s' = row_of r s \<Longrightarrow> decided act r s' = decided act r s"
  by (cases r; cases "fst r") (auto simp: task_status_at_def occurrence_status_at_def)

section \<open>The outcome of a bulk decision\<close>

text \<open>
  C21: A bulk decision answers every item of the list: it succeeds for exactly the items that
  waited for a decision of this goddess, for each of them once even when it is listed twice, and
  fails for every other; the items that succeeded have the status that was asked for and no other
  task or occurrence is touched, so a failed item takes nothing back and leaves nothing behind.
\<close>

theorem bulk_decides_waiting_once:
  assumes "bulk_action now u act reason refs s = (s', ok, bad)"
  shows "set ok = {r \<in> set refs. waiting_ref u r s} \<and> distinct ok \<and>
     length ok + length bad = length refs \<and> set refs = set ok \<union> fst ` set bad \<and>
     (\<forall>r \<in> set ok. decided act r s') \<and> (\<forall>r. r \<notin> set ok \<longrightarrow> row_of r s' = row_of r s)"
  using assms
proof (induction refs arbitrary: s ok bad)
  case Nil
  then show ?case by simp
next
  case (Cons r rs)
  show ?case
  proof (cases "dispatch now u act reason r s")
    case (Inl e)
    then obtain bad' where 1: "bulk_action now u act reason rs s = (s', ok, bad')" "bad = (r, e) # bad'"
      using Cons.prems by (auto split: prod.splits)
    have "\<not> waiting_ref u r s" using dispatch_possible [of u r s now act reason] Inl by auto
    then have same: "{x \<in> set (r # rs). waiting_ref u x s} = {x \<in> set rs. waiting_ref u x s}" by auto
    note ih = Cons.IH [OF 1(1)]
    note ih2 = conjunct2 [OF ih] note ih3 = conjunct2 [OF ih2] note ih4 = conjunct2 [OF ih3] note ih5 = conjunct2 [OF ih4]
    show ?thesis
    proof (intro conjI)
      show "set ok = {x \<in> set (r # rs). waiting_ref u x s}" unfolding same by (rule conjunct1 [OF ih])
      show "length ok + length bad = length (r # rs)" using conjunct1 [OF ih3] by (simp add: 1(2))
      show "set (r # rs) = set ok \<union> fst ` set bad" using conjunct1 [OF ih4] by (simp add: 1(2))
    qed (rule conjunct1 [OF ih2] conjunct1 [OF ih5] conjunct2 [OF ih5])+
  next
    case (Inr s1)
    then obtain ok' where 1: "bulk_action now u act reason rs s1 = (s', ok', bad)" "ok = r # ok'"
      using Cons.prems by (auto split: prod.splits)
    note IH = Cons.IH [OF 1(1)] and d = dispatch_facts [OF Inr]
    have w: "{x \<in> set rs. waiting_ref u x s1} = {x \<in> set rs. waiting_ref u x s} - {r}"
    proof (rule set_eqI)
      show "x \<in> {x \<in> set rs. waiting_ref u x s1} \<longleftrightarrow> x \<in> {x \<in> set rs. waiting_ref u x s} - {r}" for x
        using d(3) d(5) [of x] by (cases "x = r") simp_all
    qed
    note IH2 = conjunct2 [OF IH] note IH3 = conjunct2 [OF IH2] note IH4 = conjunct2 [OF IH3] note IH5 = conjunct2 [OF IH4]
    have ok: "set ok' = {x \<in> set rs. waiting_ref u x s} - {r}" unfolding w [symmetric] by (rule conjunct1 [OF IH])
    then have new: "r \<notin> set ok'" by simp
    have rows: "row_of x s' = row_of x s1" if "x \<notin> set ok'" for x using conjunct2 [OF IH5, rule_format, OF that] .
    show ?thesis
    proof (intro conjI ballI allI impI)
      show "set ok = {x \<in> set (r # rs). waiting_ref u x s}" using ok d(1) by (auto simp: 1(2))
      show "distinct ok" using conjunct1 [OF IH2] new by (simp add: 1(2))
      show "length ok + length bad = length (r # rs)" using conjunct1 [OF IH3] by (simp add: 1(2))
      show "set (r # rs) = set ok \<union> fst ` set bad" using conjunct1 [OF IH4] by (simp add: 1(2))
      show "decided act x s'" if "x \<in> set ok" for x
        using that conjunct1 [OF IH5] decided_row [OF rows [OF new], of act] d(2) by (auto simp: 1(2))
      show "row_of x s' = row_of x s" if "x \<notin> set ok" for x
        using that rows [of x] d(4) [of x] by (simp add: 1(2))
    qed
  qed
qed

lemma bulk_decides_waiting_once_witness:
  "\<exists>s' ok bad. bulk_action 3 dom_user BA_approve None [(RK_task, 500), (RK_task, 500)] (with_task sent_in []) = (s', ok, bad) \<and>
     set ok = {(RK_task, 500)} \<and> length bad = 1 \<and> task_status_at s' 500 = Some TS_approved"
proof -
  obtain s' ok bad where b:
      "bulk_action 3 dom_user BA_approve None [(RK_task, 500), (RK_task, 500)] (with_task sent_in []) = (s', ok, bad)"
    by (metis prod_cases3)
  have w: "waiting_ref dom_user (RK_task, 500) (with_task sent_in [])"
    by (simp add: owned_task_def get_task_def)
  note out = bulk_decides_waiting_once [OF b]
  have ok: "set ok = {(RK_task, 500)}" using w by (auto simp: conjunct1 [OF out])
  have "distinct ok" by (rule conjunct1 [OF conjunct2 [OF out]])
  then have "length ok = 1" using distinct_card [of ok] by (simp add: ok)
  then have one: "length bad = 1" using conjunct1 [OF conjunct2 [OF conjunct2 [OF out]]] by simp
  have "decided BA_approve (RK_task, 500) s'"
    using conjunct1 [OF conjunct2 [OF conjunct2 [OF conjunct2 [OF conjunct2 [OF out]]]]] ok by blast
  then have "task_status_at s' 500 = Some TS_approved" by simp
  with b ok one show ?thesis by blast
qed

end
