(* ===== verification/Gallery.thy ===== *)
theory Gallery
  imports Storage "HOL-Library.List_Lexorder"
begin

text \<open>
  Toys and photos, both shown only with the goddess's approval:
  \<^verbatim>\<open>controllers/toys_controller.py\<close> with \<^verbatim>\<open>daos/toy_item_dao.py\<close>, and
  \<^verbatim>\<open>controllers/photo_controller.py\<close> with \<^verbatim>\<open>daos/sub_photo_dao.py\<close>. Re-encoding an image is a
  library function and a parameter.
\<close>

interpretation toys: keyed_table ty_id "fetch ty_id" insert_row "modify ty_id"
  by (rule list_table)

interpretation photos: keyed_table ph_id "fetch ph_id" insert_row "modify ph_id"
  by (rule list_table)

section \<open>Toys\<close>

fun toy_rank :: "toy_category \<Rightarrow> nat" where
  "toy_rank TC_restraint = 0"
| "toy_rank TC_impact = 1"
| "toy_rank TC_vibrator = 2"
| "toy_rank TC_plug = 3"
| "toy_rank TC_cage = 4"
| "toy_rank TC_gag = 5"
| "toy_rank TC_clothing = 6"
| "toy_rank TC_collar = 7"
| "toy_rank TC_other = 8"

record toy_in =
  yi_category :: toy_category
  yi_name :: string
  yi_description :: "string option"
  yi_photo_r2_key :: "string option"

text \<open>A patch holds the fields that were sent; a field can be sent as null.\<close>

record toy_update =
  yu_category :: "toy_category option"
  yu_name :: "string option"
  yu_description :: "string option option"
  yu_photo_r2_key :: "string option option"

definition toy_by_id :: "uuid \<Rightarrow> store \<Rightarrow> toy_item res" where
  "toy_by_id k s = require (fetch ty_id k (t_toys s)) (NotFound ''toy item not found'') Inr"

text \<open>Ordered by category and name, by the code points of the name.\<close>

definition list_toys_by_sub :: "uuid \<Rightarrow> store \<Rightarrow> toy_item list" where
  "list_toys_by_sub sid s =
     sort_key (\<lambda>t. toy_rank (ty_category t))
       (sort_key (\<lambda>t. map of_char (ty_name t) :: nat list) (filter (\<lambda>t. ty_sub_id t = sid \<and> ty_approved t) (t_toys s)))"

definition list_all_toys_by_sub :: "uuid \<Rightarrow> store \<Rightarrow> toy_item list" where
  "list_all_toys_by_sub sid s =
     sort_key (\<lambda>t. if ty_approved t then 0 else (1::nat))
       (sort_key (\<lambda>t. toy_rank (ty_category t))
         (sort_key (\<lambda>t. map of_char (ty_name t) :: nat list) (filter (\<lambda>t. ty_sub_id t = sid) (t_toys s))))"

definition create_toy ::
  "uuid \<Rightarrow> datetime \<Rightarrow> uuid \<Rightarrow> uuid \<Rightarrow> toy_in \<Rightarrow> toy_proposed_by \<Rightarrow> bool \<Rightarrow> store \<Rightarrow> store \<times> toy_item" where
  "create_toy k now sid gid p who approved s =
     (let row = \<lparr>ty_id = k, ty_sub_id = sid, ty_goddess_id = gid, ty_category = yi_category p, ty_name = yi_name p,
                 ty_description = yi_description p, ty_photo_r2_key = yi_photo_r2_key p, ty_proposed_by = who,
                 ty_approved = approved, ty_created_at = now, ty_updated_at = now\<rparr>
      in (s\<lparr>t_toys := insert_row row (t_toys s)\<rparr>, row))"

definition toy_sub_under_goddess :: "uuid \<Rightarrow> uuid \<Rightarrow> store \<Rightarrow> user res" where
  "toy_sub_under_goddess gid sid s =
     require (user_by_id sid (core s)) (NotFound ''sub not found'') (\<lambda>sub.
     raise_if (u_role sub \<noteq> R_sub) (NotFound ''sub not found'') (
     raise_if (u_goddess_id sub \<noteq> Some gid) (Forbidden ''sub does not belong to this goddess'') (Inr sub)))"

definition toy_owned_by_goddess :: "user \<Rightarrow> uuid \<Rightarrow> store \<Rightarrow> toy_item res" where
  "toy_owned_by_goddess goddess_user k s =
     attempt (resolve_goddess_id (u_id goddess_user) (core s)) (\<lambda>gid.
     attempt (toy_by_id k s) (\<lambda>t.
     raise_if (ty_goddess_id t \<noteq> gid) (Forbidden ''toy item does not belong to this goddess'') (Inr t)))"

definition toys_for_goddess :: "user \<Rightarrow> uuid \<Rightarrow> store \<Rightarrow> toy_item list res" where
  "toys_for_goddess goddess_user sid s =
     attempt (resolve_goddess_id (u_id goddess_user) (core s)) (\<lambda>gid.
     attempt (toy_sub_under_goddess gid sid s) (\<lambda>_. Inr (list_all_toys_by_sub sid s)))"

definition create_toy_as_goddess ::
  "uuid \<Rightarrow> datetime \<Rightarrow> user \<Rightarrow> uuid \<Rightarrow> toy_in \<Rightarrow> store \<Rightarrow> (store \<times> toy_item) res" where
  "create_toy_as_goddess k now goddess_user sid p s =
     attempt (resolve_goddess_id (u_id goddess_user) (core s)) (\<lambda>gid.
     attempt (toy_sub_under_goddess gid sid s) (\<lambda>_. Inr (create_toy k now sid gid p TB_goddess True s)))"

definition patched_toy :: "toy_update \<Rightarrow> datetime \<Rightarrow> toy_item \<Rightarrow> toy_item" where
  "patched_toy p now t =
     t\<lparr>ty_category := override (yu_category p) (ty_category t), ty_name := override (yu_name p) (ty_name t),
       ty_description := override (yu_description p) (ty_description t),
       ty_photo_r2_key := override (yu_photo_r2_key p) (ty_photo_r2_key t), ty_updated_at := now\<rparr>"

definition update_toy_as_goddess ::
  "datetime \<Rightarrow> user \<Rightarrow> uuid \<Rightarrow> toy_update \<Rightarrow> store \<Rightarrow> (store \<times> toy_item) res" where
  "update_toy_as_goddess now goddess_user k p s =
     attempt (toy_owned_by_goddess goddess_user k s) (\<lambda>t.
     if yu_category p = None \<and> yu_name p = None \<and> yu_description p = None \<and> yu_photo_r2_key p = None then Inr (s, t)
     else Inr (s\<lparr>t_toys := modify ty_id k (patched_toy p now) (t_toys s)\<rparr>, patched_toy p now t))"

definition remove_toy :: "uuid \<Rightarrow> store \<Rightarrow> store" where
  "remove_toy k s = s\<lparr>t_toys := filter (\<lambda>t. ty_id t \<noteq> k) (t_toys s)\<rparr>"

definition delete_toy_as_goddess :: "user \<Rightarrow> uuid \<Rightarrow> store \<Rightarrow> store res" where
  "delete_toy_as_goddess goddess_user k s =
     attempt (toy_owned_by_goddess goddess_user k s) (\<lambda>_. Inr (remove_toy k s))"

definition approved_toy :: "datetime \<Rightarrow> toy_item \<Rightarrow> toy_item" where
  "approved_toy now t = t\<lparr>ty_approved := True, ty_updated_at := now\<rparr>"

definition approve_toy_as_goddess :: "datetime \<Rightarrow> user \<Rightarrow> uuid \<Rightarrow> store \<Rightarrow> (store \<times> toy_item) res" where
  "approve_toy_as_goddess now goddess_user k s =
     attempt (toy_owned_by_goddess goddess_user k s) (\<lambda>t.
     raise_if (ty_proposed_by t \<noteq> TB_sub) (BadRequest ''only sub-proposed items require approval'') (
     if ty_approved t then Inr (s, t)
     else Inr (s\<lparr>t_toys := modify ty_id k (approved_toy now) (t_toys s)\<rparr>, approved_toy now t)))"

definition reject_toy_as_goddess :: "user \<Rightarrow> uuid \<Rightarrow> store \<Rightarrow> store res" where
  "reject_toy_as_goddess goddess_user k s =
     attempt (toy_owned_by_goddess goddess_user k s) (\<lambda>t.
     raise_if (ty_proposed_by t \<noteq> TB_sub) (BadRequest ''only sub-proposed items can be rejected'') (
     raise_if (ty_approved t) (Conflict ''item is already approved; delete it instead'') (Inr (remove_toy k s))))"

definition toys_for_sub :: "user \<Rightarrow> store \<Rightarrow> toy_item list res" where
  "toys_for_sub caller s =
     raise_if (u_goddess_id caller = None) (BadRequest ''sub is not linked to a goddess'')
       (Inr (list_toys_by_sub (u_id caller) s))"

definition propose_toy_as_sub :: "uuid \<Rightarrow> datetime \<Rightarrow> user \<Rightarrow> toy_in \<Rightarrow> store \<Rightarrow> (store \<times> toy_item) res" where
  "propose_toy_as_sub k now caller p s =
     require (u_goddess_id caller) (BadRequest ''sub is not linked to a goddess'') (\<lambda>gid.
     Inr (create_toy k now (u_id caller) gid p TB_sub False s))"

section \<open>Photos\<close>

record photo_config =
  pc_bucket :: string
  pc_uuid_text :: "uuid \<Rightarrow> string"
  pc_strip_exif :: "string \<Rightarrow> string \<Rightarrow> string" \<comment> \<open>re-encodes the image of a type without metadata\<close>

definition photo_extensions :: "(string \<times> string) list" where
  "photo_extensions = [(''image/jpeg'', ''jpg''), (''image/png'', ''png''), (''image/webp'', ''webp'')]"

definition max_photo_bytes :: nat where
  "max_photo_bytes = 5 * 1024 * 1024"

definition upload_photo ::
  "photo_config \<Rightarrow> uuid \<Rightarrow> uuid \<Rightarrow> datetime \<Rightarrow> user \<Rightarrow> string \<Rightarrow> string \<Rightarrow> store \<Rightarrow> objects \<Rightarrow>
   (store \<times> objects \<times> sub_photo) res" where
  "upload_photo cfg k fresh now caller bytes mime s os =
     (case map_of photo_extensions mime of
        None \<Rightarrow> Inl (BadRequest ''unsupported MIME type'')
      | Some ext \<Rightarrow>
          raise_if (max_photo_bytes < length bytes) (BadRequest ''file too large'') (
          require (u_goddess_id caller) (Forbidden ''sub has no assigned goddess; cannot upload photo'') (\<lambda>gid.
          let clean = pc_strip_exif cfg mime bytes;
              key = pc_uuid_text cfg gid @ ''/'' @ pc_uuid_text cfg (u_id caller) @ ''/'' @ pc_uuid_text cfg fresh @ ''.'' @ ext;
              row = \<lparr>ph_id = k, ph_sub_id = u_id caller, ph_goddess_id = gid, ph_r2_key = key, ph_mime_type = mime,
                     ph_byte_size = length clean, ph_status = SP_pending, ph_rejection_reason = None,
                     ph_uploaded_at = now, ph_reviewed_at = None, ph_reviewed_by = None\<rparr>
          in Inr (s\<lparr>t_photos := insert_row row (t_photos s)\<rparr>, upload_object now (pc_bucket cfg) key clean mime os, row))))"

definition photo_by_id :: "uuid \<Rightarrow> store \<Rightarrow> sub_photo res" where
  "photo_by_id k s = require (fetch ph_id k (t_photos s)) (NotFound ''sub_photo not found'') Inr"

definition pending_photos_for_goddess :: "uuid \<Rightarrow> nat \<Rightarrow> datetime option \<Rightarrow> store \<Rightarrow> (sub_photo \<times> user) list" where
  "pending_photos_for_goddess gid limit before s =
     take limit (sort_key (\<lambda>(p, _). - ph_uploaded_at p)
       [(p, u). p \<leftarrow> t_photos s, ph_goddess_id p = gid \<and> ph_status p = SP_pending \<and>
                  (case before of None \<Rightarrow> True | Some b \<Rightarrow> ph_uploaded_at p < b),
          u \<leftarrow> t_users (core s), u_id u = ph_sub_id p])"

definition count_pending_review :: "uuid \<Rightarrow> store \<Rightarrow> nat" where
  "count_pending_review gid s = length (filter (\<lambda>p. ph_goddess_id p = gid \<and> ph_status p = SP_pending) (t_photos s))"

definition list_pending_queue :: "uuid \<Rightarrow> nat \<Rightarrow> datetime option \<Rightarrow> store \<Rightarrow> (sub_photo \<times> user) list res" where
  "list_pending_queue caller limit before s =
     attempt (resolve_goddess_id caller (core s)) (\<lambda>gid. Inr (pending_photos_for_goddess gid limit before s))"

definition photo_of_goddess :: "uuid \<Rightarrow> uuid \<Rightarrow> store \<Rightarrow> sub_photo res" where
  "photo_of_goddess caller k s =
     attempt (resolve_goddess_id caller (core s)) (\<lambda>gid.
     attempt (photo_by_id k s) (\<lambda>p.
     raise_if (ph_goddess_id p \<noteq> gid) (Forbidden ''photo does not belong to your sub'') (Inr p)))"

text \<open>The reviewer that is noted is the goddess's profile; a former reason for a rejection stays.\<close>

definition approved_photo :: "datetime \<Rightarrow> uuid \<Rightarrow> sub_photo \<Rightarrow> sub_photo" where
  "approved_photo now gid p =
     (if ph_status p = SP_approved then p
      else p\<lparr>ph_status := SP_approved, ph_reviewed_at := Some now, ph_reviewed_by := Some gid\<rparr>)"

definition rejected_photo :: "datetime \<Rightarrow> uuid \<Rightarrow> string \<Rightarrow> sub_photo \<Rightarrow> sub_photo" where
  "rejected_photo now gid reason p =
     (if ph_status p = SP_rejected then p
      else p\<lparr>ph_status := SP_rejected, ph_reviewed_at := Some now, ph_reviewed_by := Some gid,
             ph_rejection_reason := Some reason\<rparr>)"

definition approve_photo :: "datetime \<Rightarrow> uuid \<Rightarrow> uuid \<Rightarrow> store \<Rightarrow> (store \<times> sub_photo) res" where
  "approve_photo now caller k s =
     attempt (photo_of_goddess caller k s) (\<lambda>p.
     Inr (s\<lparr>t_photos := modify ph_id k (approved_photo now (ph_goddess_id p)) (t_photos s)\<rparr>,
          approved_photo now (ph_goddess_id p) p))"

definition reject_photo :: "datetime \<Rightarrow> uuid \<Rightarrow> uuid \<Rightarrow> string \<Rightarrow> store \<Rightarrow> (store \<times> sub_photo) res" where
  "reject_photo now caller k reason s =
     attempt (photo_of_goddess caller k s) (\<lambda>p.
     Inr (s\<lparr>t_photos := modify ph_id k (rejected_photo now (ph_goddess_id p) reason) (t_photos s)\<rparr>,
          rejected_photo now (ph_goddess_id p) reason p))"

definition top_approved_for_sub :: "uuid \<Rightarrow> store \<Rightarrow> sub_photo option" where
  "top_approved_for_sub sid s =
     (case sort_key (\<lambda>p. case ph_reviewed_at p of None \<Rightarrow> (0, 0) | Some t \<Rightarrow> (1::int, - t))
        (filter (\<lambda>p. ph_sub_id p = sid \<and> ph_status p = SP_approved) (t_photos s)) of
        [] \<Rightarrow> None | p # _ \<Rightarrow> Some p)"

definition top_approved_photo :: "uuid \<Rightarrow> uuid \<Rightarrow> store \<Rightarrow> sub_photo option res" where
  "top_approved_photo sid goddess_user_id s =
     attempt (resolve_goddess_id goddess_user_id (core s)) (\<lambda>gid.
     case top_approved_for_sub sid s of
       None \<Rightarrow> Inr None
     | Some p \<Rightarrow> raise_if (ph_goddess_id p \<noteq> gid) (Forbidden ''photo does not belong to your sub'') (Inr (Some p)))"

section \<open>Approval\<close>

inductive gallery_request :: "store \<Rightarrow> store \<Rightarrow> bool" where
  toy_created: "create_toy_as_goddess k now u sid p s = Inr (s', t) \<Longrightarrow> fetch ty_id k (t_toys s) = None \<Longrightarrow> gallery_request s s'"
| toy_proposed: "propose_toy_as_sub k now u p s = Inr (s', t) \<Longrightarrow> fetch ty_id k (t_toys s) = None \<Longrightarrow> gallery_request s s'"
| toy_updated: "update_toy_as_goddess now u k q s = Inr (s', t) \<Longrightarrow> gallery_request s s'"
| toy_deleted: "delete_toy_as_goddess u k s = Inr s' \<Longrightarrow> gallery_request s s'"
| toy_approved: "approve_toy_as_goddess now u k s = Inr (s', t) \<Longrightarrow> gallery_request s s'"
| toy_rejected: "reject_toy_as_goddess u k s = Inr s' \<Longrightarrow> gallery_request s s'"
| photo_uploaded: "upload_photo cfg k fresh now u bytes mime s os = Inr (s', os', ph) \<Longrightarrow>
    fetch ph_id k (t_photos s) = None \<Longrightarrow> gallery_request s s'"
| photo_approved: "approve_photo now uid k s = Inr (s', ph) \<Longrightarrow> gallery_request s s'"
| photo_rejected: "reject_photo now uid k reason s = Inr (s', ph) \<Longrightarrow> gallery_request s s'"

lemma approved_photo_id [simp]:
  "ph_id (approved_photo now g p) = ph_id p" "ph_id (rejected_photo now g r p) = ph_id p"
  by (simp_all add: approved_photo_def rejected_photo_def)

text \<open>A photo that is decided was reviewed at some time, and a decided photo never waits again.\<close>

definition reviewed_ok :: "sub_photo \<Rightarrow> bool" where
  "reviewed_ok p \<longleftrightarrow> (ph_status p = SP_pending \<longleftrightarrow> ph_reviewed_at p = None) \<and>
     (ph_status p = SP_rejected \<longrightarrow> ph_rejection_reason p \<noteq> None)"

lemma toy_requests_keep_photos:
  "create_toy_as_goddess k now u sid p s = Inr (s', t) \<Longrightarrow> t_photos s' = t_photos s"
  "propose_toy_as_sub k now u p s = Inr (s', t) \<Longrightarrow> t_photos s' = t_photos s"
  "update_toy_as_goddess now u k q s = Inr (s', t) \<Longrightarrow> t_photos s' = t_photos s"
  "delete_toy_as_goddess u k s = Inr s1 \<Longrightarrow> t_photos s1 = t_photos s"
  "approve_toy_as_goddess now u k s = Inr (s', t) \<Longrightarrow> t_photos s' = t_photos s"
  "reject_toy_as_goddess u k s = Inr s1 \<Longrightarrow> t_photos s1 = t_photos s"
       apply (auto simp: create_toy_as_goddess_def create_toy_def res_simps Let_def)[1]
      apply (auto simp: propose_toy_as_sub_def create_toy_def res_simps Let_def)[1]
     apply (auto simp: update_toy_as_goddess_def res_simps split: if_splits)[1]
    apply (auto simp: delete_toy_as_goddess_def remove_toy_def res_simps)[1]
   apply (clarsimp simp: approve_toy_as_goddess_def res_simps split del: if_split)
   apply (rename_tac x, case_tac "ty_approved x"; auto)
  apply (auto simp: reject_toy_as_goddess_def remove_toy_def res_simps)[1]
  done

lemma reviewed_ok_decided:
  "reviewed_ok p \<Longrightarrow> reviewed_ok (approved_photo now g p)" "reviewed_ok p \<Longrightarrow> reviewed_ok (rejected_photo now g r p)"
  by (cases "ph_status p"; simp add: reviewed_ok_def approved_photo_def rejected_photo_def)+

lemma gallery_request_photos:
  assumes "gallery_request s s'"
  obtains (kept) "t_photos s' = t_photos s"
  | (added) row where "t_photos s' = insert_row row (t_photos s)" "reviewed_ok row"
  | (decided) k f where "t_photos s' = modify ph_id k f (t_photos s)" "\<forall>p. reviewed_ok p \<longrightarrow> reviewed_ok (f p)"
  using assms
proof (cases rule: gallery_request.cases)
  case photo_uploaded
  then show thesis using added
    by (auto simp: upload_photo_def res_simps Let_def reviewed_ok_def split: option.splits)
next
  case (photo_approved now uid k ph)
  then show thesis using decided [of k] reviewed_ok_decided(1)
    by (auto simp: approve_photo_def res_simps)
next
  case (photo_rejected now uid k reason ph)
  then show thesis using decided [of k] reviewed_ok_decided(2)
    by (auto simp: reject_photo_def res_simps)
qed (rule kept, erule toy_requests_keep_photos)+

lemma gallery_request_reviewed:
  assumes "gallery_request s s'" "\<forall>p \<in> set (t_photos s). reviewed_ok p"
  shows "\<forall>p \<in> set (t_photos s'). reviewed_ok p"
  using assms(1)
proof (cases rule: gallery_request_photos)
  case (decided k f)
  then show ?thesis using assms(2) by (auto simp: set_modify)
qed (use assms(2) in \<open>simp_all add: insert_row_def\<close>)

lemma gallery_run_reviewed:
  assumes "gallery_request\<^sup>*\<^sup>* s s'" "\<forall>p \<in> set (t_photos s). reviewed_ok p"
  shows "\<forall>p \<in> set (t_photos s'). reviewed_ok p"
  using assms by (induction rule: rtranclp_induct) (auto dest: gallery_request_reviewed)

text \<open>What a sub sees of her toys was approved, by its author or by an approval.\<close>

lemma toys_for_sub_approved:
  "toys_for_sub u s = Inr ts \<Longrightarrow> set ts = {t \<in> set (t_toys s). ty_sub_id t = u_id u \<and> ty_approved t}"
  by (auto simp: toys_for_sub_def res_simps list_toys_by_sub_def)

end
