(* ===== verification/Delivery.thy ===== *)
theory Delivery
  imports Settlement Samples Auth
begin

text \<open>
  Delivery of notifications and the limiter of requests: the inbox
  (\<^verbatim>\<open>controllers/notification_controller.py\<close>, \<^verbatim>\<open>daos/notification_dao.py\<close>), the live queues
  (\<^verbatim>\<open>services/notifications/publisher.py\<close>), web push (\<^verbatim>\<open>services/notifications/push_sender.py\<close>,
  \<^verbatim>\<open>daos/push_subscription_dao.py\<close>), all three joined by \<^verbatim>\<open>services/notifications/notify.py\<close>,
  and \<^verbatim>\<open>core/rate_limit.py\<close>. The answer of a push service is a parameter.
\<close>

section \<open>The limiter\<close>

text \<open>A clock reading is in seconds; the window of a key is its count and its start.\<close>

record rate_result =
  rr_allowed :: bool
  rr_remaining :: int
  rr_retry_after :: "int option"

type_synonym windows = "string \<rightharpoonup> int \<times> rat"

definition check_rate :: "string \<Rightarrow> int \<Rightarrow> int \<Rightarrow> rat \<Rightarrow> windows \<Rightarrow> windows \<times> rate_result" where
  "check_rate k limit window now w =
     (let (count0, start0) = (case w k of None \<Rightarrow> (0, now) | Some cs \<Rightarrow> cs);
          (count, start) = (if of_int window \<le> now - start0 then (0, now) else (count0, start0))
      in if limit \<le> count
         then (w, \<lparr>rr_allowed = False, rr_remaining = 0, rr_retry_after = Some (\<lfloor>of_int window - (now - start)\<rfloor> + 1)\<rparr>)
         else (w(k \<mapsto> (count + 1, start)),
               \<lparr>rr_allowed = True, rr_remaining = limit - (count + 1), rr_retry_after = None\<rparr>))"

text \<open>The variant on a shared server: the arguments are the answers of INCR and TTL, the first output an EXPIRE.\<close>

definition check_shared :: "int \<Rightarrow> int \<Rightarrow> int \<Rightarrow> int \<Rightarrow> int option \<times> rate_result" where
  "check_shared limit window count ttl0 =
     (let (expire, ttl) = (if count = 1 \<or> ttl0 = -1 then (Some window, window) else (None, ttl0));
          remaining = max (limit - count) 0
      in (expire, if limit < count then \<lparr>rr_allowed = False, rr_remaining = 0, rr_retry_after = Some (max ttl 1)\<rparr>
                  else \<lparr>rr_allowed = True, rr_remaining = remaining, rr_retry_after = None\<rparr>))"

text \<open>A sequence of requests, each with its key, and the number of those of one key that pass.\<close>

fun passed :: "string \<Rightarrow> int \<Rightarrow> int \<Rightarrow> windows \<Rightarrow> (string \<times> rat) list \<Rightarrow> nat" where
  "passed k limit window w [] = 0"
| "passed k limit window w ((k', now) # rs) =
     (let (w', res) = check_rate k' limit window now w
      in (if k' = k \<and> rr_allowed res then 1 else 0) + passed k limit window w' rs)"

section \<open>Live queues\<close>

type_synonym event = "string \<times> uuid option" \<comment> \<open>the type of a frame and the id in its data\<close>

text \<open>A queue is named by a number; \<open>hb_subs\<close> holds the queues of a user, in the order of their subscription.\<close>

record hub =
  hb_subs :: "uuid \<rightharpoonup> nat list"
  hb_queue :: "nat \<Rightarrow> event list"

definition queue_capacity :: nat where
  "queue_capacity = 32"

definition put_nowait :: "event \<Rightarrow> event list \<Rightarrow> event list" where
  "put_nowait e q = (if length q < queue_capacity then q @ [e] else q)"

definition hub_publish :: "uuid \<Rightarrow> event \<Rightarrow> hub \<Rightarrow> hub" where
  "hub_publish uid e h =
     fold (\<lambda>q h. h\<lparr>hb_queue := (hb_queue h)(q := put_nowait e (hb_queue h q))\<rparr>)
       (case hb_subs h uid of None \<Rightarrow> [] | Some qs \<Rightarrow> qs) h"

definition subscribe :: "nat \<Rightarrow> uuid \<Rightarrow> hub \<Rightarrow> hub" where
  "subscribe q uid h =
     h\<lparr>hb_subs := (hb_subs h)(uid \<mapsto> (case hb_subs h uid of None \<Rightarrow> [] | Some qs \<Rightarrow> qs) @ [q]),
       hb_queue := (hb_queue h)(q := [])\<rparr>"

definition unsubscribe :: "uuid \<Rightarrow> nat \<Rightarrow> hub \<Rightarrow> hub" where
  "unsubscribe uid q h =
     (case hb_subs h uid of
        None \<Rightarrow> h
      | Some qs \<Rightarrow> if q \<in> set qs
          then h\<lparr>hb_subs := (hb_subs h)(uid := (if remove1 q qs = [] then None else Some (remove1 q qs)))\<rparr>
          else h)"

section \<open>Web push\<close>

record push_subscription =
  pu_id :: uuid
  pu_user_id :: uuid
  pu_endpoint :: string
  pu_p256dh :: string
  pu_auth :: string
  pu_user_agent :: "string option"
  pu_created_at :: datetime

record push_in =
  pn_endpoint :: string
  pn_p256dh :: string
  pn_auth :: string

text \<open>What a push service can answer: accepted, refused with a status when there is a response, or another exception.\<close>

datatype push_answer = Accepted | Refused "int option" | Raised

record push_settings =
  ps_vapid_private_key :: string
  ps_answer :: "push_subscription \<Rightarrow> push_answer"

definition push_send :: "push_settings \<Rightarrow> push_subscription \<Rightarrow> bool option" where
  "push_send cfg sub =
     (if ps_vapid_private_key cfg = [] then Some True
      else case ps_answer cfg sub of
        Accepted \<Rightarrow> Some True
      | Refused st \<Rightarrow> Some (\<not> (st = Some 404 \<or> st = Some 410))
      | Raised \<Rightarrow> None)"

definition push_list_for_user :: "uuid \<Rightarrow> push_subscription list \<Rightarrow> push_subscription list" where
  "push_list_for_user uid ps = sort_key (\<lambda>p. - pu_created_at p) (filter (\<lambda>p. pu_user_id p = uid) ps)"

definition delete_by_endpoint :: "string \<Rightarrow> push_subscription list \<Rightarrow> push_subscription list" where
  "delete_by_endpoint ep ps = filter (\<lambda>p. pu_endpoint p \<noteq> ep) ps"

definition fanout_web_push :: "push_settings \<Rightarrow> uuid \<Rightarrow> push_subscription list \<Rightarrow> push_subscription list" where
  "fanout_web_push cfg uid ps =
     fold (\<lambda>p. delete_by_endpoint (pu_endpoint p))
       (filter (\<lambda>p. push_send cfg p = Some False) (push_list_for_user uid ps)) ps"

text \<open>
  Registering: the endpoint is unique, so a second registration fails on the flush; after the
  rollback the row that is there is bound to the caller. The result keeps its id and its age.
\<close>

definition rebound :: "uuid \<Rightarrow> push_in \<Rightarrow> string option \<Rightarrow> push_subscription \<Rightarrow> push_subscription" where
  "rebound uid p agent r = r\<lparr>pu_user_id := uid, pu_p256dh := pn_p256dh p, pu_auth := pn_auth p, pu_user_agent := agent\<rparr>"

definition register_push ::
  "uuid \<Rightarrow> datetime \<Rightarrow> user \<Rightarrow> push_in \<Rightarrow> string option \<Rightarrow> push_subscription list \<Rightarrow>
   push_subscription list \<times> push_subscription" where
  "register_push k now u p agent ps =
     (case find (\<lambda>r. pu_endpoint r = pn_endpoint p) ps of
        None \<Rightarrow>
          (let row = \<lparr>pu_id = k, pu_user_id = u_id u, pu_endpoint = pn_endpoint p, pu_p256dh = pn_p256dh p,
                      pu_auth = pn_auth p, pu_user_agent = agent, pu_created_at = now\<rparr>
           in (insert_row row ps, row))
      | Some r \<Rightarrow> (modify pu_id (pu_id r) (rebound (u_id u) p agent) ps, rebound (u_id u) p agent r))"

definition delete_push :: "user \<Rightarrow> uuid \<Rightarrow> push_subscription list \<Rightarrow> push_subscription list res" where
  "delete_push u k ps =
     raise_if (filter (\<lambda>p. pu_id p = k \<and> pu_user_id p = u_id u) ps = []) (NotFound ''push subscription not found'')
       (Inr (filter (\<lambda>p. \<not> (pu_id p = k \<and> pu_user_id p = u_id u)) ps))"

section \<open>The inbox\<close>

text \<open>The columns of a notification that only its reader sees extend the row the handlers write.\<close>

record inbox_row = notification +
  in_id :: uuid
  in_actor_user_id :: "uuid option"
  in_title :: string
  in_body :: "string option"
  in_link :: "string option"
  in_read_at :: "datetime option"
  in_created_at :: datetime

record mailroom =
  mr_inbox :: "inbox_row list"
  mr_hub :: hub
  mr_push :: "push_subscription list"

definition deliver ::
  "push_settings \<Rightarrow> uuid \<Rightarrow> datetime \<Rightarrow> uuid \<Rightarrow> notification_type \<Rightarrow> string \<Rightarrow> string option \<Rightarrow> string option \<Rightarrow>
   uuid option \<Rightarrow> int option \<Rightarrow> mailroom \<Rightarrow> mailroom" where
  "deliver cfg k now uid ty title body link ref num m =
     m\<lparr>mr_inbox := mr_inbox m @ [\<lparr>nt_user_id = uid, nt_type = ty, nt_ref = ref, nt_num = num, in_id = k,
         in_actor_user_id = None, in_title = title, in_body = body, in_link = link, in_read_at = None,
         in_created_at = now\<rparr>],
       mr_hub := hub_publish uid (''notification'', ref) (mr_hub m),
       mr_push := fanout_web_push cfg uid (mr_push m)\<rparr>"

definition inbox_list_for_user :: "uuid \<Rightarrow> nat \<Rightarrow> mailroom \<Rightarrow> inbox_row list" where
  "inbox_list_for_user uid limit m =
     take limit (sort_key (\<lambda>n. - in_created_at n) (filter (\<lambda>n. nt_user_id n = uid) (mr_inbox m)))"

definition unread_count :: "uuid \<Rightarrow> mailroom \<Rightarrow> nat" where
  "unread_count uid m = length (filter (\<lambda>n. nt_user_id n = uid \<and> in_read_at n = None) (mr_inbox m))"

record notification_out =
  no_row :: inbox_row
  no_actor_display_name :: "string option"
  no_actor_username :: "string option"

definition actor_name :: "user \<Rightarrow> string" where
  "actor_name a =
     (case [n. Some n \<leftarrow> [u_first_name a, u_last_name a], n \<noteq> []] of
        [] \<Rightarrow> u_username a
      | [n] \<Rightarrow> n
      | n # n' # _ \<Rightarrow> n @ '' '' @ n')"

definition notification_out_of :: "db \<Rightarrow> inbox_row \<Rightarrow> notification_out" where
  "notification_out_of s n =
     (case Option.bind (in_actor_user_id n) (\<lambda>a. fetch u_id a (t_users s)) of
        None \<Rightarrow> \<lparr>no_row = n, no_actor_display_name = None, no_actor_username = None\<rparr>
      | Some a \<Rightarrow> \<lparr>no_row = n, no_actor_display_name = Some (actor_name a), no_actor_username = Some (u_username a)\<rparr>)"

definition list_recent :: "user \<Rightarrow> db \<Rightarrow> mailroom \<Rightarrow> notification_out list \<times> nat" where
  "list_recent u s m =
     (map (notification_out_of s) (inbox_list_for_user (u_id u) 50 m), unread_count (u_id u) m)"

definition read_at_once :: "datetime \<Rightarrow> inbox_row \<Rightarrow> inbox_row" where
  "read_at_once now n = (if in_read_at n = None then n\<lparr>in_read_at := Some now\<rparr> else n)"

definition mark_read :: "datetime \<Rightarrow> user \<Rightarrow> uuid \<Rightarrow> mailroom \<Rightarrow> mailroom" where
  "mark_read now u k m =
     m\<lparr>mr_inbox := map (\<lambda>n. if in_id n = k \<and> nt_user_id n = u_id u then read_at_once now n else n) (mr_inbox m)\<rparr>"

definition mark_all_read :: "datetime \<Rightarrow> user \<Rightarrow> mailroom \<Rightarrow> mailroom" where
  "mark_all_read now u m =
     m\<lparr>mr_inbox := map (\<lambda>n. if nt_user_id n = u_id u then read_at_once now n else n) (mr_inbox m)\<rparr>"

text \<open>\<^verbatim>\<open>routers/goddess_subs_message.py\<close>.\<close>

definition message_body_ok :: "string \<Rightarrow> bool" where
  "message_body_ok b \<longleftrightarrow> 5 \<le> length b \<and> length b \<le> 500"

definition send_message_to_sub ::
  "push_settings \<Rightarrow> uuid \<Rightarrow> datetime \<Rightarrow> user \<Rightarrow> string \<Rightarrow> string \<Rightarrow> db \<Rightarrow> mailroom \<Rightarrow> mailroom res" where
  "send_message_to_sub cfg k now caller name body s m =
     raise_if (\<not> message_body_ok body) (HTTPException 422 ''body'') (
     attempt (user_by_username name s) (\<lambda>r.
     require r (NotFound ''sub not found'') (\<lambda>sub.
     raise_if (u_role sub \<noteq> R_sub) (NotFound ''sub not found'') (
     raise_if (u_goddess_id sub = None \<or> u_goddess_id sub \<noteq> u_goddess_id caller) (Forbidden ''sub does not belong to you'')
       (Inr (deliver cfg k now (u_id sub) NT_goddess_message ''Message from your goddess'' (Some body) None None None m))))))"

section \<open>What the limiter lets through\<close>

lemma check_rate_other [simp]: "k' \<noteq> k \<Longrightarrow> fst (check_rate k' limit window now w) k = w k"
  by (simp add: check_rate_def Let_def split: prod.splits option.splits if_splits)

lemma check_rate_full:
  assumes "w k = Some (c, st)" "now - st < of_int window"
  shows "rr_allowed (snd (check_rate k limit window now w)) \<longleftrightarrow> c < limit"
    and "fst (check_rate k limit window now w) = (if c < limit then w(k \<mapsto> (c + 1, st)) else w)"
  using assms by (simp_all add: check_rate_def Let_def)

lemma check_rate_new:
  assumes "w k = None \<or> (\<exists>c st. w k = Some (c, st) \<and> of_int window \<le> now - st)" "0 < window"
  shows "rr_allowed (snd (check_rate k limit window now w)) \<longleftrightarrow> 0 < limit"
    and "fst (check_rate k limit window now w) = (if 0 < limit then w(k \<mapsto> (1, now)) else w)"
  using assms by (auto simp: check_rate_def Let_def split: if_splits)

lemma passed_step:
  "passed k limit window w ((k', now) # rs) =
     (if k' = k \<and> rr_allowed (snd (check_rate k' limit window now w)) then 1 else 0) +
     passed k limit window (fst (check_rate k' limit window now w)) rs"
  by (simp add: case_prod_beta Let_def)

declare passed.simps(2) [simp del]

lemma floor_shift: "0 < (w::int) \<Longrightarrow> st + of_int w \<le> (now::rat) \<Longrightarrow> \<lfloor>(t - now) / of_int w\<rfloor> + 1 \<le> \<lfloor>(t - st) / of_int w\<rfloor>"
proof -
  assume a: "0 < w" "st + of_int w \<le> now"
  have "(t - now) / of_int w + 1 = (t - now + of_int w) / of_int w" using a by (simp add: add_divide_distrib)
  also have "\<dots> \<le> (t - st) / of_int w" using a by (intro divide_right_mono) auto
  finally show ?thesis by linarith
qed

text \<open>From a window that is running, what is left of it passes, and a full window for each length of time after it.\<close>

lemma passed_from_window:
  assumes "w k = Some (c, st)" "0 \<le> c" "c \<le> limit" "0 < limit" "0 < window"
    and "sorted (map snd rs)" "\<forall>r \<in> set rs. st \<le> snd r \<and> snd r \<le> t" "st \<le> t"
  shows "int (passed k limit window w rs) \<le> limit - c + limit * \<lfloor>(t - st) / of_int window\<rfloor>"
  using assms
proof (induction rs arbitrary: w c st)
  case Nil
  then show ?case by simp
next
  case (Cons r rs)
  obtain k' now where r: "r = (k', now)" by (cases r)
  have nn: "0 \<le> \<lfloor>(t - st) / of_int window\<rfloor>" using Cons.prems(5,8) by simp
  have sort: "sorted (map snd rs)" "\<forall>r \<in> set rs. now \<le> snd r \<and> snd r \<le> t" "st \<le> now" "now \<le> t"
    using Cons.prems(6,7) r by auto
  have later: "\<forall>r \<in> set rs. st \<le> snd r \<and> snd r \<le> t" using Cons.prems(7) by simp
  show ?case
  proof (cases "k' = k")
    case False
    then show ?thesis
      using Cons.IH [of "fst (check_rate k' limit window now w)" c st] Cons.prems(1-5,8) later sort(1) r
      by (simp add: passed_step)
  next
    case same: True
    show ?thesis
    proof (cases "now - st < of_int window")
      case True
      note step = check_rate_full [of w k c st now window limit, OF Cons.prems(1) True]
      show ?thesis
      proof (cases "c < limit")
        case True
        then show ?thesis
          using Cons.IH [of "w(k \<mapsto> (c + 1, st))" "c + 1" st] Cons.prems(2-5,8) later sort(1) r same step
          by (simp add: passed_step fun_upd_same del: fun_upd_apply)
      next
        case False
        then show ?thesis
          using Cons.IH [of w c st] Cons.prems(1-5,8) later sort(1) r same step
          by (simp add: passed_step)
      qed
    next
      case False
      then have old: "of_int window \<le> now - st" by simp
      have fl: "\<lfloor>(t - now) / of_int window\<rfloor> + 1 \<le> \<lfloor>(t - st) / of_int window\<rfloor>"
        using floor_shift [of window st now t] old Cons.prems(5) by simp
      have step: "rr_allowed (snd (check_rate k limit window now w))"
          "fst (check_rate k limit window now w) = w(k \<mapsto> (1, now))"
        using check_rate_new [of w k window now limit] old Cons.prems(1,4,5) by auto
      have "int (passed k limit window (w(k \<mapsto> (1, now))) rs) \<le> limit - 1 + limit * \<lfloor>(t - now) / of_int window\<rfloor>"
        using Cons.IH [of "w(k \<mapsto> (1, now))" 1 now] Cons.prems(4,5) sort
        by (simp add: fun_upd_same del: fun_upd_apply)
      then have "int (passed k limit window w (r # rs)) \<le> limit * (\<lfloor>(t - now) / of_int window\<rfloor> + 1)"
        using r same step by (simp add: passed_step distrib_left del: fun_upd_apply)
      also have "\<dots> \<le> limit * \<lfloor>(t - st) / of_int window\<rfloor>"
        using fl Cons.prems(4) by (intro mult_left_mono) auto
      finally show ?thesis using Cons.prems(3) by simp
    qed
  qed
qed

text \<open>
  Over any run of requests in the order of the clock that spans the times from t0 to t, a key passes at most
  its limit once for the first window and once more for every full window length that goes by.
\<close>

theorem limiter_bound:
  assumes "0 < limit" "0 < window" "sorted (map snd rs)" "\<forall>r \<in> set rs. t0 \<le> snd r \<and> snd r \<le> t" "t0 \<le> t"
  shows "int (passed k limit window Map.empty rs) \<le> limit * (1 + \<lfloor>(t - t0) / of_int window\<rfloor>)"
proof -
  have fresh: "int (passed k limit window w rs) \<le> limit * (1 + \<lfloor>(t - t0) / of_int window\<rfloor>)" if "w k = None" for w
    using that assms(3,4)
  proof (induction rs arbitrary: w)
    case Nil
    then show ?case using assms(1,2,5) by simp
  next
    case (Cons r rs)
    obtain k' now where r: "r = (k', now)" by (cases r)
    have sort: "sorted (map snd rs)" "\<forall>r \<in> set rs. now \<le> snd r \<and> snd r \<le> t" "t0 \<le> now" "now \<le> t"
      using Cons.prems(2,3) r by auto
    show ?case
    proof (cases "k' = k")
      case False
      then show ?thesis
        using Cons.IH [of "fst (check_rate k' limit window now w)"] Cons.prems r by (simp add: passed_step)
    next
      case True
      have step: "rr_allowed (snd (check_rate k limit window now w))"
          "fst (check_rate k limit window now w) = w(k \<mapsto> (1, now))"
        using check_rate_new [of w k window now limit] assms(1,2) Cons.prems(1) by auto
      have "int (passed k limit window (w(k \<mapsto> (1, now))) rs) \<le> limit - 1 + limit * \<lfloor>(t - now) / of_int window\<rfloor>"
        using passed_from_window [of "w(k \<mapsto> (1, now))" k 1 now limit window rs t] assms(1,2) sort
        by (simp add: fun_upd_same del: fun_upd_apply)
      then have "int (passed k limit window w (r # rs)) \<le> limit * (1 + \<lfloor>(t - now) / of_int window\<rfloor>)"
        using r True step by (simp add: passed_step distrib_left del: fun_upd_apply)
      also have "\<dots> \<le> limit * (1 + \<lfloor>(t - t0) / of_int window\<rfloor>)"
        using assms(1,2) sort(3) by (intro mult_left_mono add_left_mono floor_mono divide_right_mono) auto
      finally show ?thesis .
    qed
  qed
  then show ?thesis by simp
qed

lemma limiter_bound_witness:
  "int (passed ''login'' 2 60 Map.empty [(''login'', 0), (''login'', 1), (''other'', 1), (''login'', 2), (''login'', 60)]) \<le> 2 * (1 + \<lfloor>(60::rat) / 60\<rfloor>) \<and>
   passed ''login'' 2 60 Map.empty [(''login'', 0), (''login'', 1), (''other'', 1), (''login'', 2), (''login'', 60)] = 3"
proof
  show "int (passed ''login'' 2 60 Map.empty [(''login'', 0), (''login'', 1), (''other'', 1), (''login'', 2), (''login'', 60)]) \<le> 2 * (1 + \<lfloor>(60::rat) / 60\<rfloor>)"
    using limiter_bound [of 2 60 "[(''login'', 0), (''login'', 1), (''other'', 1), (''login'', 2), (''login'', 60)]" 0 60 "''login''"]
    by simp
  show "passed ''login'' 2 60 Map.empty [(''login'', 0), (''login'', 1), (''other'', 1), (''login'', 2), (''login'', 60)] = 3"
    by (simp add: passed_step check_rate_def Let_def)
qed

section \<open>What a listener receives\<close>

text \<open>A queue is subscribed once, by one user, and is never over its capacity.\<close>

definition hub_ok :: "hub \<Rightarrow> bool" where
  "hub_ok h \<longleftrightarrow> (\<forall>u qs. hb_subs h u = Some qs \<longrightarrow> distinct qs \<and> qs \<noteq> []) \<and>
     (\<forall>u u' qs qs'. hb_subs h u = Some qs \<longrightarrow> hb_subs h u' = Some qs' \<longrightarrow> u \<noteq> u' \<longrightarrow> set qs \<inter> set qs' = {}) \<and>
     (\<forall>q. length (hb_queue h q) \<le> queue_capacity)"

lemma hub_okI:
  assumes "\<And>u qs. hb_subs h u = Some qs \<Longrightarrow> distinct qs" "\<And>u qs. hb_subs h u = Some qs \<Longrightarrow> qs \<noteq> []"
    and "\<And>u u' qs qs' q. hb_subs h u = Some qs \<Longrightarrow> hb_subs h u' = Some qs' \<Longrightarrow> q \<in> set qs \<Longrightarrow> q \<in> set qs' \<Longrightarrow> u = u'"
    and "\<And>q. length (hb_queue h q) \<le> queue_capacity"
  shows "hub_ok h"
  using assms unfolding hub_ok_def by blast

lemma hub_okD:
  assumes "hub_ok h"
  shows "hb_subs h u = Some qs \<Longrightarrow> distinct qs" "hb_subs h u = Some qs \<Longrightarrow> qs \<noteq> []"
    "hb_subs h u = Some qs \<Longrightarrow> hb_subs h u' = Some qs' \<Longrightarrow> q \<in> set qs \<Longrightarrow> q \<in> set qs' \<Longrightarrow> u = u'"
    "length (hb_queue h x) \<le> queue_capacity"
  using assms unfolding hub_ok_def by blast+

lemma put_nowait_length: "length q \<le> queue_capacity \<Longrightarrow> length (put_nowait e q) \<le> queue_capacity"
  by (simp add: put_nowait_def)

lemma take_put: "length q \<le> queue_capacity \<Longrightarrow> take queue_capacity (put_nowait e q @ es) = take queue_capacity (q @ e # es)"
  by (auto simp: put_nowait_def take_Cons')

lemma fold_put:
  "distinct qs \<Longrightarrow> hb_subs (fold (\<lambda>q h. h\<lparr>hb_queue := (hb_queue h)(q := put_nowait e (hb_queue h q))\<rparr>) qs h) = hb_subs h \<and>
     hb_queue (fold (\<lambda>q h. h\<lparr>hb_queue := (hb_queue h)(q := put_nowait e (hb_queue h q))\<rparr>) qs h) x =
       (if x \<in> set qs then put_nowait e (hb_queue h x) else hb_queue h x)"
  by (induction qs arbitrary: h) auto

lemma hub_publish_subs [simp]: "hub_ok h \<Longrightarrow> hb_subs (hub_publish u e h) = hb_subs h"
  using fold_put [of _ e h] by (auto simp: hub_publish_def hub_ok_def split: option.splits)

lemma hub_publish_queue:
  assumes "hub_ok h"
  shows "hb_queue (hub_publish u e h) q =
    (case hb_subs h u of None \<Rightarrow> hb_queue h q
     | Some qs \<Rightarrow> if q \<in> set qs then put_nowait e (hb_queue h q) else hb_queue h q)"
  using assms fold_put [of _ e h q] by (auto simp: hub_publish_def hub_ok_def split: option.splits)

lemma hub_publish_ok:
  assumes "hub_ok h"
  shows "hub_ok (hub_publish u e h)"
proof (rule hub_okI)
  show "length (hb_queue (hub_publish u e h) q) \<le> queue_capacity" for q
    using hub_okD(4) [OF assms, of q] put_nowait_length [of "hb_queue h q" e]
    by (simp add: hub_publish_queue [OF assms] split: option.splits)
qed (simp_all add: hub_publish_subs [OF assms], (rule hub_okD [OF assms]; assumption)+)

lemma subscribe_ok:
  assumes "hub_ok h" "\<forall>v qs. hb_subs h v = Some qs \<longrightarrow> q \<notin> set qs"
  shows "hub_ok (subscribe q u h)"
proof -
  define old where "old = (case hb_subs h u of None \<Rightarrow> [] | Some qs \<Rightarrow> qs)"
  have subs: "hb_subs (subscribe q u h) = (hb_subs h)(u \<mapsto> old @ [q])"
    and queues: "hb_queue (subscribe q u h) = (hb_queue h)(q := [])"
    by (simp_all add: subscribe_def old_def)
  have old: "x \<in> set old \<Longrightarrow> \<exists>qs. hb_subs h u = Some qs \<and> x \<in> set qs" "distinct old" for x
    using hub_okD(1) [OF assms(1), of u] unfolding old_def by (cases "hb_subs h u"; simp)+
  show ?thesis
  proof (rule hub_okI; (unfold subs queues)?)
    show "distinct qs" if "((hb_subs h)(u \<mapsto> old @ [q])) v = Some qs" for v qs
      using that old(2) old(1) [of q] assms(2) hub_okD(1) [OF assms(1), of v] by (auto split: if_splits)
    show "qs \<noteq> []" if "((hb_subs h)(u \<mapsto> old @ [q])) v = Some qs" for v qs
      using that hub_okD(2) [OF assms(1)] by (auto split: if_splits)
    show "v = v'" if "((hb_subs h)(u \<mapsto> old @ [q])) v = Some qs" "((hb_subs h)(u \<mapsto> old @ [q])) v' = Some qs'"
      "x \<in> set qs" "x \<in> set qs'" for v v' qs qs' x
      using that old(1) [of x] assms(2) hub_okD(3) [OF assms(1), of _ _ _ _ x] by (auto split: if_splits)
    show "length (((hb_queue h)(q := [])) x) \<le> queue_capacity" for x
      using hub_okD(4) [OF assms(1)] by simp
  qed
qed

lemma unsubscribe_subs:
  assumes "hb_subs (unsubscribe u q h) v = Some qs"
  obtains qs0 where "hb_subs h v = Some qs0" "qs = qs0 \<or> (qs = remove1 q qs0 \<and> qs \<noteq> [])"
  using assms by (auto simp: unsubscribe_def split: option.splits if_splits)

lemma unsubscribe_queue [simp]: "hb_queue (unsubscribe u q h) = hb_queue h"
  by (simp add: unsubscribe_def split: option.splits)

lemma unsubscribe_ok:
  assumes "hub_ok h"
  shows "hub_ok (unsubscribe u q h)"
proof (rule hub_okI)
  show "distinct qs" "qs \<noteq> []" if "hb_subs (unsubscribe u q h) v = Some qs" for v qs
    using that by (rule unsubscribe_subs; use hub_okD(1,2) [OF assms] in \<open>auto simp: distinct_remove1\<close>)+
  show "v = v'" if a: "hb_subs (unsubscribe u q h) v = Some qs" and b: "hb_subs (unsubscribe u q h) v' = Some qs'"
    and x: "x \<in> set qs" "x \<in> set qs'" for v v' qs qs' x
  proof -
    obtain qs0 where "hb_subs h v = Some qs0" "x \<in> set qs0"
      by (rule unsubscribe_subs [OF a]) (use x(1) in \<open>auto dest: notin_set_remove1\<close>)
    moreover obtain qs1 where "hb_subs h v' = Some qs1" "x \<in> set qs1"
      by (rule unsubscribe_subs [OF b]) (use x(2) in \<open>auto dest: notin_set_remove1\<close>)
    ultimately show ?thesis using hub_okD(3) [OF assms] by blast
  qed
qed (simp add: hub_okD(4) [OF assms])

text \<open>
  A queue holds what was published for its user, in that order and up to its capacity: the
  frames that came while it was full are dropped, and no frame of another user is among them.
\<close>

theorem queue_holds_first_events:
  assumes "hub_ok h" "hb_subs h u = Some qs" "q \<in> set qs"
  shows "hb_queue (fold (\<lambda>(v, e). hub_publish v e) evs h) q =
    take queue_capacity (hb_queue h q @ [e. (v, e) \<leftarrow> evs, v = u])"
  using assms
proof (induction evs arbitrary: h)
  case Nil
  then show ?case by (simp add: hub_ok_def)
next
  case (Cons ve evs)
  obtain v e where ve: "ve = (v, e)" by (cases ve)
  have len: "length (hb_queue h q) \<le> queue_capacity" using Cons.prems(1) by (simp add: hub_ok_def)
  have other: "q \<notin> set qs'" if "hb_subs h v = Some qs'" "v \<noteq> u" for qs'
    using that Cons.prems unfolding hub_ok_def by blast
  have "hb_queue (fold (\<lambda>(v, e). hub_publish v e) evs (hub_publish v e h)) q =
      take queue_capacity (hb_queue (hub_publish v e h) q @ [e. (v, e) \<leftarrow> evs, v = u])"
    using Cons.IH [of "hub_publish v e h"] Cons.prems hub_publish_ok by simp
  also have "hb_queue (hub_publish v e h) q = (if v = u then put_nowait e (hb_queue h q) else hb_queue h q)"
    using hub_publish_queue [OF Cons.prems(1), of v e q] Cons.prems(2,3) other by (auto split: option.splits)
  also have "take queue_capacity ((if v = u then put_nowait e (hb_queue h q) else hb_queue h q) @ [e. (v, e) \<leftarrow> evs, v = u]) =
      take queue_capacity (hb_queue h q @ [e. (v, e) \<leftarrow> ve # evs, v = u])"
    using take_put [OF len, of e "[e. (v, e) \<leftarrow> evs, v = u]"] by (simp add: ve del: take_append)
  finally show ?case by (simp add: ve)
qed

section \<open>Push subscriptions\<close>

lemma fold_delete_endpoints:
  "fold (\<lambda>p. delete_by_endpoint (pu_endpoint p)) gs ps = filter (\<lambda>p. pu_endpoint p \<notin> pu_endpoint ` set gs) ps"
  by (induction gs arbitrary: ps) (auto simp: delete_by_endpoint_def intro!: filter_cong)

text \<open>With distinct endpoints a delivery prunes the receiver's dead subscriptions and nothing else.\<close>

theorem fanout_prunes_gone:
  assumes "distinct (map pu_endpoint ps)"
  shows "fanout_web_push cfg uid ps = filter (\<lambda>p. \<not> (pu_user_id p = uid \<and> push_send cfg p = Some False)) ps"
  unfolding fanout_web_push_def fold_delete_endpoints
proof (rule filter_cong [OF refl])
  fix p assume "p \<in> set ps"
  then have "p = r" if "r \<in> set ps" "pu_endpoint r = pu_endpoint p" for r
    using that assms by (metis distinct_map inj_on_eq_iff)
  then show "(pu_endpoint p \<notin> pu_endpoint ` set (filter (\<lambda>p. push_send cfg p = Some False) (push_list_for_user uid ps))) =
      (\<not> (pu_user_id p = uid \<and> push_send cfg p = Some False))"
    using \<open>p \<in> set ps\<close> by (auto simp: push_list_for_user_def)
qed

lemma modify_endpoints [simp]:
  "map pu_endpoint (modify pu_id k (rebound u p agent) ps) = map pu_endpoint ps"
  by (induction ps) (auto simp: modify_def rebound_def)

theorem register_push_binds:
  assumes "distinct (map pu_endpoint ps)" "register_push k now u p agent ps = (ps', row)"
  shows "distinct (map pu_endpoint ps')" "pu_user_id row = u_id u" "pu_endpoint row = pn_endpoint p"
    "pu_endpoint ` set ps' = insert (pn_endpoint p) (pu_endpoint ` set ps)"
proof -
  have "distinct (map pu_endpoint ps') \<and> pu_user_id row = u_id u \<and> pu_endpoint row = pn_endpoint p \<and>
    pu_endpoint ` set ps' = insert (pn_endpoint p) (pu_endpoint ` set ps)"
  proof (cases "find (\<lambda>r. pu_endpoint r = pn_endpoint p) ps")
    case None
    then have "pn_endpoint p \<notin> pu_endpoint ` set ps" by (auto simp: find_None_iff)
    then show ?thesis using assms None by (auto simp: register_push_def Let_def insert_row_def)
  next
    case (Some r)
    then have "r \<in> set ps" "pu_endpoint r = pn_endpoint p" by (auto simp: find_Some_iff)
    moreover have "ps' = modify pu_id (pu_id r) (rebound (u_id u) p agent) ps" "row = rebound (u_id u) p agent r"
      using Some assms(2) by (auto simp: register_push_def)
    moreover have "pu_endpoint ` set (modify pu_id (pu_id r) (rebound (u_id u) p agent) ps) = pu_endpoint ` set ps"
      by (metis list.set_map modify_endpoints)
    moreover have "insert (pn_endpoint p) (pu_endpoint ` set ps) = pu_endpoint ` set ps"
      using calculation(1,2) by (intro insert_absorb) force
    ultimately show ?thesis
      using assms(1) by (simp add: rebound_def)
  qed
  then show "distinct (map pu_endpoint ps')" "pu_user_id row = u_id u" "pu_endpoint row = pn_endpoint p"
    "pu_endpoint ` set ps' = insert (pn_endpoint p) (pu_endpoint ` set ps)" by blast+
qed

section \<open>Delivery refines the notification of the handlers\<close>

text \<open>The inbox without the columns of its reader is the table that the handlers of the other theories write.\<close>

theorem deliver_refines_notify:
  assumes "map notification.truncate (mr_inbox m) = t_notifications s"
  shows "map notification.truncate (mr_inbox (deliver cfg k now uid ty title body link ref num m)) =
    t_notifications (notify uid ty ref num s)"
  using assms by (simp add: deliver_def notify_def publish_event_def notification.truncate_def)

lemma mark_all_read_clears:
  "unread_count (u_id u) (mark_all_read now u m) = 0"
  "v \<noteq> u_id u \<Longrightarrow> unread_count v (mark_all_read now u m) = unread_count v m"
  by (auto simp: unread_count_def mark_all_read_def read_at_once_def filter_map o_def filter_empty_conv
      intro!: arg_cong [where f = length] filter_cong)

lemma read_once: "in_read_at n = Some t \<Longrightarrow> read_at_once now n = n"
  by (simp add: read_at_once_def)

end
