(* ===== verification/LiveFeed.thy ===== *)
theory LiveFeed
  imports Access Delivery "HOL-Library.Sublist"
begin

text \<open>
  The stream of notifications to a browser: \<^verbatim>\<open>routers/ws.py\<close>. A connection runs three tasks, one
  that reads, one that pings and one that relays the queue of the user; they end together when one
  of them raises or all have returned. The signals a connection meets are steps of a state machine:
  what the client sends, the ends of the pauses of the pinger, what others publish. One clock stands
  for the monotonic clock and the time of day, and the pinger wakes on time.
\<close>

section \<open>A connection\<close>

definition ping_interval :: datetime where
  "ping_interval = 20 * 1000000"

definition pong_timeout :: datetime where
  "pong_timeout = 30 * 1000000"

datatype socket = S_open | S_closed | S_gone \<comment> \<open>closed by the server, left by the client\<close>

datatype task_state = T_running | T_returned

datatype frame = F_ping datetime | F_event event

record conn =
  cn_user :: uuid
  cn_queue :: nat
  cn_socket :: socket
  cn_last_pong :: datetime
  cn_next_wake :: datetime
  cn_disconnected :: bool
  cn_receiver :: task_state
  cn_pinger :: task_state
  cn_relay :: task_state
  cn_finished :: bool
  cn_sent :: "frame list"

type_synonym feed = "conn \<times> hub"

definition ws_open :: "token_library \<Rightarrow> string \<Rightarrow> nat \<Rightarrow> datetime \<Rightarrow> hub \<Rightarrow> feed option" where
  "ws_open t token q now h =
     (case decode_access_token t token of
        Inl _ \<Rightarrow> None
      | Inr c \<Rightarrow>
          (case Option.bind (cm_sub c) (parse_uuid t) of
             None \<Rightarrow> None
           | Some uid \<Rightarrow>
               Some (\<lparr>cn_user = uid, cn_queue = q, cn_socket = S_open, cn_last_pong = now,
                      cn_next_wake = now + ping_interval, cn_disconnected = False, cn_receiver = T_running,
                      cn_pinger = T_running, cn_relay = T_running, cn_finished = False, cn_sent = []\<rparr>,
                     subscribe q uid h)))"

text \<open>The end of the group: every task is over and the queue is given back.\<close>

definition finish :: "feed \<Rightarrow> feed" where
  "finish f =
     (let (c, h) = f in
      (c\<lparr>cn_receiver := T_returned, cn_pinger := T_returned, cn_relay := T_returned, cn_finished := True\<rparr>,
       unsubscribe (cn_user c) (cn_queue c) h))"

definition settle_group :: "feed \<Rightarrow> feed" where
  "settle_group f =
     (let (c, h) = f in
      if cn_receiver c = T_returned \<and> cn_pinger c = T_returned \<and> cn_relay c = T_returned then finish f else f)"

text \<open>Sending on a socket that is not open: after a close of the server it raises; after the client left the library decides.\<close>

definition send_raises :: "bool \<Rightarrow> socket \<Rightarrow> bool" where
  "send_raises gone_raises s = (case s of S_open \<Rightarrow> False | S_closed \<Rightarrow> True | S_gone \<Rightarrow> gone_raises)"

datatype signal =
    Client_sent bool \<comment> \<open>a JSON message, and whether it is a pong\<close>
  | Client_garbage \<comment> \<open>what \<^verbatim>\<open>receive_json\<close> cannot read\<close>
  | Client_left
  | Wake
  | Relay
  | Publish uuid event

text \<open>After a close of the server the receiver still gets the message it waits for; its next call raises and ends the group.\<close>

definition receive :: "signal \<Rightarrow> datetime \<Rightarrow> feed \<Rightarrow> feed" where
  "receive g now f =
     (let (c, h) = f in
      if cn_receiver c \<noteq> T_running then f
      else case g of
        Client_sent pong \<Rightarrow>
          (let c' = (if pong then c\<lparr>cn_last_pong := now\<rparr> else c)
           in if cn_socket c = S_closed then finish (c', h) else (c', h))
      | Client_garbage \<Rightarrow> finish f
      | Client_left \<Rightarrow>
          settle_group (c\<lparr>cn_socket := S_gone, cn_disconnected := True, cn_receiver := T_returned\<rparr>, h)
      | _ \<Rightarrow> f)"

definition wake :: "bool \<Rightarrow> datetime \<Rightarrow> feed \<Rightarrow> feed" where
  "wake gone_raises now f =
     (let (c, h) = f in
      if cn_pinger c \<noteq> T_running then f
      else if now - cn_last_pong c > pong_timeout then
        (if send_raises gone_raises (cn_socket c) then finish f
         else settle_group (c\<lparr>cn_socket := (if cn_socket c = S_open then S_closed else cn_socket c), cn_pinger := T_returned\<rparr>, h))
      else if send_raises gone_raises (cn_socket c) then finish f
      else (c\<lparr>cn_sent := cn_sent c @ [F_ping now], cn_next_wake := now + ping_interval\<rparr>, h))"

definition relay :: "bool \<Rightarrow> feed \<Rightarrow> feed" where
  "relay gone_raises f =
     (let (c, h) = f in
      if cn_relay c \<noteq> T_running then f
      else case hb_queue h (cn_queue c) of
        [] \<Rightarrow> f
      | e # rest \<Rightarrow>
          let h' = h\<lparr>hb_queue := (hb_queue h)(cn_queue c := rest)\<rparr> in
          if send_raises gone_raises (cn_socket c) then finish (c, h')
          else settle_group (c\<lparr>cn_sent := cn_sent c @ [F_event e],
                               cn_relay := (if cn_disconnected c then T_returned else T_running)\<rparr>, h'))"

definition ws_step :: "bool \<Rightarrow> datetime \<Rightarrow> signal \<Rightarrow> feed \<Rightarrow> feed" where
  "ws_step gone_raises now g f =
     (case g of
        Publish v e \<Rightarrow> (fst f, hub_publish v e (snd f))
      | _ \<Rightarrow>
          if cn_finished (fst f) then f
          else (case g of Wake \<Rightarrow> wake gone_raises now f | Relay \<Rightarrow> relay gone_raises f | _ \<Rightarrow> receive g now f))"

fun ws_run :: "bool \<Rightarrow> (datetime \<times> signal) list \<Rightarrow> feed \<Rightarrow> feed" where
  "ws_run gr [] f = f"
| "ws_run gr ((now, g) # rest) f = ws_run gr rest (ws_step gr now g f)"

text \<open>Runs in the order of the clock, in which the pinger is never overslept and wakes at its time only.\<close>

fun timely :: "bool \<Rightarrow> datetime \<Rightarrow> (datetime \<times> signal) list \<Rightarrow> feed \<Rightarrow> bool" where
  "timely gr t [] f = True"
| "timely gr t ((now, g) # rest) f =
     (t \<le> now \<and>
      (cn_pinger (fst f) = T_running \<longrightarrow> now \<le> cn_next_wake (fst f) \<and> (g = Wake \<longrightarrow> now = cn_next_wake (fst f))) \<and>
      timely gr now rest (ws_step gr now g f))"

definition last_time :: "datetime \<Rightarrow> (datetime \<times> signal) list \<Rightarrow> datetime" where
  "last_time t sigs = (if sigs = [] then t else fst (last sigs))"

text \<open>A client that stays silent: only the pinger acts.\<close>

fun silence :: "bool \<Rightarrow> nat \<Rightarrow> feed \<Rightarrow> feed" where
  "silence gr 0 f = f"
| "silence gr (Suc n) f = silence gr n (ws_step gr (cn_next_wake (fst f)) Wake f)"

section \<open>The heartbeat\<close>

lemmas feed_defs = ws_step_def receive_def wake_def relay_def settle_group_def finish_def

definition beat_inv :: "datetime \<Rightarrow> feed \<Rightarrow> bool" where
  "beat_inv t f \<longleftrightarrow>
     (cn_finished (fst f) \<longrightarrow> cn_pinger (fst f) = T_returned) \<and>
     (cn_pinger (fst f) = T_running \<longrightarrow>
        cn_last_pong (fst f) \<le> t \<and> t \<le> cn_next_wake (fst f) \<and>
        cn_next_wake (fst f) \<le> cn_last_pong (fst f) + (pong_timeout + ping_interval))"

lemma beat_inv_open: "ws_open t token q now h = Some f \<Longrightarrow> beat_inv now f"
  by (auto simp: ws_open_def beat_inv_def ping_interval_def pong_timeout_def split: sum.splits option.splits)

lemma beat_inv_step:
  assumes "beat_inv t f" and "t \<le> now"
    and "cn_pinger (fst f) = T_running \<longrightarrow> now \<le> cn_next_wake (fst f) \<and> (g = Wake \<longrightarrow> now = cn_next_wake (fst f))"
  shows "beat_inv now (ws_step gr now g f)"
proof (cases f)
  case (Pair c h)
  show ?thesis
    using assms unfolding Pair
    by (cases g) (auto simp: beat_inv_def feed_defs ping_interval_def pong_timeout_def Let_def split: list.splits)
qed

lemma beat_inv_run:
  "beat_inv t f \<Longrightarrow> timely gr t sigs f \<Longrightarrow> beat_inv (last_time t sigs) (ws_run gr sigs f)"
proof (induction gr sigs f arbitrary: t rule: ws_run.induct)
  case (1 gr f)
  then show ?case by (simp add: last_time_def)
next
  case (2 gr now g rest f)
  have "beat_inv now (ws_step gr now g f)" by (rule beat_inv_step [OF 2(2)]) (use 2(3) in auto)
  from 2(1) [OF this] 2(3) show ?case by (cases rest) (auto simp: last_time_def)
qed

lemma wake_open:
  assumes "cn_pinger c = T_running" "\<not> cn_finished c" "cn_socket c = S_open"
  shows "ws_step gr now Wake (c, h) =
    (if now - cn_last_pong c > pong_timeout then settle_group (c\<lparr>cn_socket := S_closed, cn_pinger := T_returned\<rparr>, h)
     else (c\<lparr>cn_sent := cn_sent c @ [F_ping now], cn_next_wake := now + ping_interval\<rparr>, h))"
  using assms by (simp add: ws_step_def wake_def send_raises_def)

lemma settle_socket [simp]: "cn_socket (fst (settle_group f)) = cn_socket (fst f)"
  by (cases f) (simp add: settle_group_def finish_def)

text \<open>
  C40: a silent client is disconnected. While a connection is being served, its last pong is at
  most 50 seconds old; and when its client stays silent from then on, the server closes it at one
  of the next three pings, more than 30 and at most 50 seconds after that pong.
\<close>

theorem silent_client_closed:
  assumes "ws_open t token q now0 h = Some f0" and "timely gr now0 sigs f0" and "ws_run gr sigs f0 = f"
    and "cn_pinger (fst f) = T_running" and "cn_socket (fst f) = S_open"
  shows "last_time now0 sigs \<le> cn_last_pong (fst f) + 50 * 1000000 \<and>
    (\<exists>n \<le> 2. let g = silence gr n f; wake = cn_next_wake (fst g) in
       cn_last_pong (fst f) + 30 * 1000000 < wake \<and> wake \<le> cn_last_pong (fst f) + 50 * 1000000 \<and>
       cn_socket (fst (ws_step gr wake Wake g)) = S_closed)"
proof -
  obtain c h' where f: "f = (c, h')" by (cases f)
  have inv: "beat_inv (last_time now0 sigs) f"
    using beat_inv_run [OF beat_inv_open [OF assms(1)] assms(2)] by (simp add: assms(3))
  have run: "cn_pinger c = T_running" "\<not> cn_finished c" "cn_socket c = S_open"
    using assms(4,5) inv by (auto simp: f beat_inv_def)
  have bounds: "cn_last_pong c \<le> last_time now0 sigs" "last_time now0 sigs \<le> cn_next_wake c"
    "cn_next_wake c \<le> cn_last_pong c + 50 * 1000000"
    using inv run by (auto simp: f beat_inv_def ping_interval_def pong_timeout_def)
  define d where "d = cn_next_wake c - cn_last_pong c"
  have d: "0 \<le> d" "d \<le> 50 * 1000000" using bounds by (simp_all add: d_def)
  have wake: "cn_next_wake c = cn_last_pong c + d" by (simp add: d_def)
  have "\<exists>n \<le> 2. let g = silence gr n f; wake = cn_next_wake (fst g) in
       cn_last_pong c + 30 * 1000000 < wake \<and> wake \<le> cn_last_pong c + 50 * 1000000 \<and>
       cn_socket (fst (ws_step gr wake Wake g)) = S_closed"
  proof -
    consider "d > 30 * 1000000" | "10 * 1000000 < d" "d \<le> 30 * 1000000" | "d \<le> 10 * 1000000" by linarith
    then show ?thesis
    proof cases
      case 1
      then show ?thesis using d run
        by (intro exI [of _ 0]) (simp add: f wake wake_open pong_timeout_def)
    next
      case 2
      then show ?thesis using d run
        by (intro exI [of _ 1]) (simp add: f wake wake_open pong_timeout_def ping_interval_def)
    next
      case 3
      then show ?thesis using d run
        by (intro exI [of _ 2]) (simp add: f wake wake_open pong_timeout_def ping_interval_def numeral_2_eq_2)
    qed
  qed
  then show ?thesis using bounds by (simp add: f)
qed

definition nobody :: hub where
  "nobody = \<lparr>hb_subs = Map.empty, hb_queue = (\<lambda>_. [])\<rparr>"

definition joined :: feed where
  "joined = the (ws_open lib ''token'' 0 0 nobody)"

lemma joined_open: "ws_open lib ''token'' 0 0 nobody = Some joined"
  by (simp add: joined_def ws_open_def decode_access_token_def lib_def)

lemma silent_client_closed_witness:
  "\<exists>n \<le> 2. let g = silence True n (ws_run True [(15000000, Client_sent True), (20000000, Wake)] joined);
       wake = cn_next_wake (fst g) in
     15000000 + 30 * 1000000 < wake \<and> wake \<le> 15000000 + 50 * 1000000 \<and>
     cn_socket (fst (ws_step True wake Wake g)) = S_closed"
proof -
  let ?sigs = "[(15000000, Client_sent True), (20000000, Wake)]"
  have "timely True 0 ?sigs joined" "cn_pinger (fst (ws_run True ?sigs joined)) = T_running"
    "cn_socket (fst (ws_run True ?sigs joined)) = S_open"
    by code_simp+
  note closed = silent_client_closed [OF joined_open this(1) refl this(2,3)]
  have "cn_last_pong (fst (ws_run True ?sigs joined)) = 15000000" by code_simp
  with closed show ?thesis by simp
qed

section \<open>What is left after a heartbeat timeout\<close>

text \<open>
  A connection that the server has closed: the pinger has returned, but the relay still waits for
  an event of the user, and the queue is still subscribed.
\<close>

definition lingering :: "feed \<Rightarrow> bool" where
  "lingering f \<longleftrightarrow>
     (let (c, h) = f in
      \<not> cn_finished c \<and> cn_socket c \<noteq> S_open \<and> cn_pinger c = T_returned \<and> cn_relay c = T_running \<and>
      hb_queue h (cn_queue c) = [] \<and> hub_ok h \<and> (\<exists>qs. hb_subs h (cn_user c) = Some qs \<and> cn_queue c \<in> set qs))"

definition for_others :: "uuid \<Rightarrow> signal \<Rightarrow> bool" where
  "for_others u g \<longleftrightarrow> g \<noteq> Client_garbage \<and> (\<forall>m. g \<noteq> Client_sent m) \<and> (\<forall>e. g \<noteq> Publish u e)"

lemma settle_who [simp]: "cn_user (fst (settle_group f)) = cn_user (fst f)" "cn_queue (fst (settle_group f)) = cn_queue (fst f)"
  by (cases f; simp add: settle_group_def finish_def)+

lemma finish_who [simp]: "cn_user (fst (finish f)) = cn_user (fst f)" "cn_queue (fst (finish f)) = cn_queue (fst f)"
  by (cases f; simp add: finish_def)+

lemma ws_step_who [simp]:
  "cn_user (fst (ws_step gr now g f)) = cn_user (fst f)" "cn_queue (fst (ws_step gr now g f)) = cn_queue (fst f)"
  by (cases f; cases g; simp add: ws_step_def receive_def wake_def relay_def Let_def split: list.splits)+

lemma lingering_step:
  assumes "lingering f" and "for_others (cn_user (fst f)) g"
  shows "lingering (ws_step gr now g f)" and "cn_user (fst (ws_step gr now g f)) = cn_user (fst f)"
    and "cn_queue (fst (ws_step gr now g f)) = cn_queue (fst f)"
proof -
  obtain c h where f: "f = (c, h)" by (cases f)
  show "cn_user (fst (ws_step gr now g f)) = cn_user (fst f)" "cn_queue (fst (ws_step gr now g f)) = cn_queue (fst f)"
    by simp_all
  show "lingering (ws_step gr now g f)"
  proof (cases g)
    case (Publish v e)
    have "v \<noteq> cn_user c" using assms(2) Publish by (auto simp: f for_others_def)
    then have "cn_queue c \<notin> set qs" if "hb_subs h v = Some qs" for qs
      using assms(1) that hub_okD(3) [of h v qs "cn_user c" _ "cn_queue c"] by (auto simp: f lingering_def)
    then show ?thesis
      using assms(1) Publish hub_publish_ok [of h v e]
      by (auto simp: f lingering_def ws_step_def hub_publish_queue split: option.splits)
  qed (use assms in \<open>auto simp: f lingering_def feed_defs for_others_def\<close>)
qed

text \<open>
  A connection closed by the heartbeat keeps its queue until the next event. As long as
  nothing is published for its user and the client sends nothing, whatever else
  happens, the client leaving included, the group does not end and the queue stays subscribed; the next event for the
  user ends the group and gives the queue back, and is lost.
\<close>

theorem heartbeat_leaves_queue:
  assumes "lingering f" and "\<forall>(now, g) \<in> set sigs. for_others (cn_user (fst f)) g" and "ws_run gr sigs f = (c, h)"
  shows "\<not> cn_finished c \<and> (\<exists>qs. hb_subs h (cn_user (fst f)) = Some qs \<and> cn_queue (fst f) \<in> set qs) \<and>
    (send_raises gr (cn_socket c) \<longrightarrow>
       (let (c', h') = ws_run gr [(t, Publish (cn_user (fst f)) e), (t, Relay)] (c, h) in
        cn_finished c' \<and> cn_sent c' = cn_sent c \<and> (\<forall>qs. hb_subs h' (cn_user (fst f)) = Some qs \<longrightarrow> cn_queue (fst f) \<notin> set qs)))"
proof -
  have run: "lingering (ws_run gr sigs f) \<and> cn_user (fst (ws_run gr sigs f)) = cn_user (fst f) \<and>
      cn_queue (fst (ws_run gr sigs f)) = cn_queue (fst f)"
    using assms(1,2)
  proof (induction gr sigs f rule: ws_run.induct)
    case (2 gr now g rest f)
    have "for_others (cn_user (fst f)) g" using 2(3) by simp
    note s = lingering_step [OF 2(2) this, of gr now]
    show ?case using 2(1) [OF s(1)] 2(3) s(2,3) by simp
  qed simp
  then have l: "lingering (c, h)" and u: "cn_user c = cn_user (fst f)" "cn_queue c = cn_queue (fst f)"
    by (simp_all add: assms(3))
  obtain qs where qs: "hb_subs h (cn_user c) = Some qs" "cn_queue c \<in> set qs" using l by (auto simp: lingering_def)
  have ok: "hub_ok h" and empty: "hb_queue h (cn_queue c) = []" using l by (simp_all add: lingering_def)
  have "distinct qs" using ok qs(1) by (simp add: hub_ok_def)
  moreover have "hb_queue (hub_publish (cn_user c) e h) (cn_queue c) = [e]"
    using qs empty by (simp add: hub_publish_queue [OF ok] put_nowait_def queue_capacity_def)
  ultimately show ?thesis
    using l qs by (auto simp: lingering_def feed_defs u [symmetric] hub_publish_subs [OF ok] unsubscribe_def Let_def
        split: option.splits if_splits)
qed

definition given_up :: feed where
  "given_up = ws_run True [(20000000, Wake), (40000000, Wake)] joined"

lemma given_up_lingering: "lingering given_up"
proof -
  have "hub_ok (subscribe 0 5 nobody)"
    by (rule subscribe_ok) (simp_all add: hub_ok_def nobody_def)
  moreover have "snd given_up = subscribe 0 5 nobody" "fst (snd (0, given_up)) = fst given_up"
    by (simp_all add: given_up_def joined_def ws_open_def decode_access_token_def lib_def feed_defs send_raises_def
        ping_interval_def pong_timeout_def eval_nat_numeral)
  moreover have "cn_socket (fst given_up) = S_closed" "\<not> cn_finished (fst given_up)" "cn_pinger (fst given_up) = T_returned"
    "cn_relay (fst given_up) = T_running" "cn_queue (fst given_up) = 0" "cn_user (fst given_up) = 5"
    by code_simp+
  ultimately show ?thesis
    by (auto simp: lingering_def subscribe_def nobody_def split_beta)
qed

lemma heartbeat_leaves_queue_witness:
  "let (c, h) = ws_run True [(41000000, Client_left), (90000000, Publish 6 (''notification'', None))] given_up in
     \<not> cn_finished c \<and> (\<exists>qs. hb_subs h 5 = Some qs \<and> 0 \<in> set qs) \<and> cn_disconnected c"
proof -
  let ?sigs = "[(41000000, Client_left), (90000000, Publish 6 (''notification'', None))]"
  obtain c h where run: "ws_run True ?sigs given_up = (c, h)" by (cases "ws_run True ?sigs given_up")
  have who: "cn_user (fst given_up) = 5" "cn_queue (fst given_up) = 0" by code_simp+
  have gone: "cn_disconnected (fst (ws_run True ?sigs given_up))" by code_simp
  have "\<forall>(now, g) \<in> set ?sigs. for_others (cn_user (fst given_up)) g" by (simp add: for_others_def who)
  from heartbeat_leaves_queue [OF given_up_lingering this run] gone show ?thesis
    unfolding run who by simp
qed

section \<open>The order of the events\<close>

fun events :: "frame list \<Rightarrow> event list" where
  "events [] = []"
| "events (F_ping t # fs) = events fs"
| "events (F_event e # fs) = e # events fs"

fun published :: "uuid \<Rightarrow> (datetime \<times> signal) list \<Rightarrow> event list" where
  "published u [] = []"
| "published u ((t, Publish v e) # sigs) = (if v = u then e # published u sigs else published u sigs)"
| "published u ((t, g) # sigs) = published u sigs"

lemma events_append [simp]: "events (fs @ gs) = events fs @ events gs"
  by (induction fs rule: events.induct) auto

definition own_queue :: "feed \<Rightarrow> bool" where
  "own_queue f \<longleftrightarrow> hub_ok (snd f) \<and> (\<forall>v qs. hb_subs (snd f) v = Some qs \<and> cn_queue (fst f) \<in> set qs \<longrightarrow> v = cn_user (fst f))"

definition delivered :: "feed \<Rightarrow> event list" where
  "delivered f = events (cn_sent (fst f)) @ hb_queue (snd f) (cn_queue (fst f))"

lemma own_queue_finish: "own_queue (c, h) \<Longrightarrow> own_queue (finish (c, h))"
  using unsubscribe_ok [of h]
  by (auto simp: own_queue_def finish_def elim!: unsubscribe_subs dest: subsetD [OF set_remove1_subset])

lemma delivered_finish [simp]: "delivered (finish f) = delivered f"
  by (cases f) (simp add: delivered_def finish_def)

lemma settle_group_kept:
  "own_queue f \<Longrightarrow> own_queue (settle_group f)" "delivered (settle_group f) = delivered f"
  by (cases f; simp add: settle_group_def own_queue_finish)+

lemma own_queue_cong:
  "cn_user c' = cn_user c \<Longrightarrow> cn_queue c' = cn_queue c \<Longrightarrow> own_queue (c', h) \<longleftrightarrow> own_queue (c, h)"
  by (simp add: own_queue_def)

lemma quiet_updates:
  "own_queue (c\<lparr>cn_last_pong := x\<rparr>, h) \<longleftrightarrow> own_queue (c, h)" "delivered (c\<lparr>cn_last_pong := x\<rparr>, h) = delivered (c, h)"
  "own_queue (c\<lparr>cn_next_wake := x\<rparr>, h) \<longleftrightarrow> own_queue (c, h)" "delivered (c\<lparr>cn_next_wake := x\<rparr>, h) = delivered (c, h)"
  "own_queue (c\<lparr>cn_socket := s\<rparr>, h) \<longleftrightarrow> own_queue (c, h)" "delivered (c\<lparr>cn_socket := s\<rparr>, h) = delivered (c, h)"
  "own_queue (c\<lparr>cn_pinger := r\<rparr>, h) \<longleftrightarrow> own_queue (c, h)" "delivered (c\<lparr>cn_pinger := r\<rparr>, h) = delivered (c, h)"
  "own_queue (c\<lparr>cn_disconnected := b\<rparr>, h) \<longleftrightarrow> own_queue (c, h)" "delivered (c\<lparr>cn_disconnected := b\<rparr>, h) = delivered (c, h)"
  "own_queue (c\<lparr>cn_receiver := r\<rparr>, h) \<longleftrightarrow> own_queue (c, h)" "delivered (c\<lparr>cn_receiver := r\<rparr>, h) = delivered (c, h)"
  "own_queue (c\<lparr>cn_sent := fs @ [F_ping x]\<rparr>, h) \<longleftrightarrow> own_queue (c, h)"
  "delivered (c\<lparr>cn_sent := cn_sent c @ [F_ping x]\<rparr>, h) = delivered (c, h)"
  by (simp_all add: own_queue_def delivered_def)

lemma publish_step:
  assumes "own_queue (c, h)"
  shows "own_queue (c, hub_publish v e h)"
    and "subseq (delivered (c, hub_publish v e h)) (delivered (c, h) @ (if v = cn_user c then [e] else []))"
proof -
  have ok: "hub_ok h" using assms by (simp add: own_queue_def)
  show "own_queue (c, hub_publish v e h)"
    using assms hub_publish_ok [OF ok] by (simp add: own_queue_def hub_publish_subs [OF ok])
  have "hb_queue (hub_publish v e h) (cn_queue c) = hb_queue h (cn_queue c) \<or>
      (v = cn_user c \<and> hb_queue (hub_publish v e h) (cn_queue c) = hb_queue h (cn_queue c) @ [e])"
    using assms by (auto simp: own_queue_def hub_publish_queue [OF ok] put_nowait_def split: option.splits)
  then show "subseq (delivered (c, hub_publish v e h)) (delivered (c, h) @ (if v = cn_user c then [e] else []))"
    by (auto simp: delivered_def subseq_append intro: list_emb_append_mono)
qed

lemma pop_own_queue: "own_queue (c, h) \<Longrightarrow> hb_queue h q = e # rest \<Longrightarrow> own_queue (c, h\<lparr>hb_queue := (hb_queue h)(q := rest)\<rparr>)"
  unfolding own_queue_def hub_ok_def by (auto dest: spec [of _ q])

lemma delivered_step:
  assumes "own_queue f"
  shows "own_queue (ws_step gr now g f)"
    and "subseq (delivered (ws_step gr now g f)) (delivered f @ published (cn_user (fst f)) [(now, g)])"
proof -
  obtain c h where f: "f = (c, h)" by (cases f)
  note own = assms [unfolded f]
  have "own_queue (ws_step gr now g f) \<and>
    subseq (delivered (ws_step gr now g f)) (delivered f @ published (cn_user (fst f)) [(now, g)])"
  proof (cases g)
    case (Publish v e)
    then show ?thesis using publish_step [OF own, of v e] by (auto simp: f ws_step_def split: if_splits)
  next
    case Relay
    show ?thesis
    proof (cases "cn_finished c \<or> cn_relay c \<noteq> T_running \<or> hb_queue h (cn_queue c) = []")
      case True
      then have "ws_step gr now g f = f" by (auto simp: f Relay ws_step_def relay_def)
      then show ?thesis using assms by (simp add: Relay)
    next
      case False
      then obtain e rest where q: "hb_queue h (cn_queue c) = e # rest" by (cases "hb_queue h (cn_queue c)") auto
      define h' where "h' = h\<lparr>hb_queue := (hb_queue h)(cn_queue c := rest)\<rparr>"
      define c' where "c' = c\<lparr>cn_sent := cn_sent c @ [F_event e], cn_relay := (if cn_disconnected c then T_returned else T_running)\<rparr>"
      have step: "ws_step gr now g f = (if send_raises gr (cn_socket c) then finish (c, h') else settle_group (c', h'))"
        using False q by (simp add: f Relay ws_step_def relay_def h'_def c'_def)
      have own': "own_queue (c, h')" "own_queue (c', h')"
        using pop_own_queue [OF own q] own_queue_cong [of c' c h'] by (simp_all add: h'_def c'_def)
      have "subseq (delivered (c, h')) (delivered (c, h))"
        using q by (auto simp: delivered_def h'_def intro!: list_emb_append_mono list_emb_Cons)
      moreover have "delivered (c', h') = delivered (c, h)" using q by (simp add: delivered_def c'_def h'_def)
      ultimately show ?thesis
        using own' own_queue_finish settle_group_kept unfolding step by (simp add: Relay f)
    qed
  next
    case Wake
    then show ?thesis using own own_queue_finish [OF own]
      by (simp add: f ws_step_def wake_def Let_def quiet_updates settle_group_kept)
  next
    case (Client_sent pong)
    define c' where "c' = (if pong then c\<lparr>cn_last_pong := now\<rparr> else c)"
    have kept: "own_queue (c', h)" "delivered (c', h) = delivered (c, h)"
      using own by (simp_all add: c'_def quiet_updates)
    have "ws_step gr now g f = f \<or> ws_step gr now g f = finish (c', h) \<or> ws_step gr now g f = (c', h)"
      by (simp add: f Client_sent ws_step_def receive_def Let_def c'_def)
    then show ?thesis using kept own own_queue_finish [OF kept(1)] by (auto simp: Client_sent f)
  next
    case Client_garbage
    have "ws_step gr now g f = f \<or> ws_step gr now g f = finish (c, h)"
      by (simp add: f Client_garbage ws_step_def receive_def)
    then show ?thesis using own own_queue_finish [OF own] by (auto simp: Client_garbage f)
  next
    case Client_left
    then show ?thesis using own
      by (simp add: f ws_step_def receive_def quiet_updates settle_group_kept)
  qed
  then show "own_queue (ws_step gr now g f)"
    "subseq (delivered (ws_step gr now g f)) (delivered f @ published (cn_user (fst f)) [(now, g)])" by blast+
qed

lemma published_Cons: "published u ((t, g) # sigs) = published u [(t, g)] @ published u sigs"
  by (cases g) auto

lemma delivered_run:
  "own_queue f \<Longrightarrow> subseq (delivered (ws_run gr sigs f)) (delivered f @ published (cn_user (fst f)) sigs)"
proof (induction gr sigs f rule: ws_run.induct)
  case (2 gr now g rest f)
  note s = delivered_step [OF 2(2), of gr now g]
  have "subseq (delivered (ws_run gr ((now, g) # rest) f)) (delivered (ws_step gr now g f) @ published (cn_user (fst f)) rest)"
    using 2(1) [OF s(1)] by simp
  also have "subseq \<dots> ((delivered f @ published (cn_user (fst f)) [(now, g)]) @ published (cn_user (fst f)) rest)"
    by (rule list_emb_append_mono [OF s(2)]) simp
  finally show ?case by (subst published_Cons) simp
qed simp

text \<open>
  The browser gets the user's events in their order. What a connection has sent, pings apart,
  and what waits in its queue are events published for its user since it joined, none twice and in
  the order of their publication; some may be missing, none is another user's.
\<close>

theorem feed_in_order:
  assumes "ws_open t token q now h = Some f0" and "hub_ok h" and "\<forall>v qs. hb_subs h v = Some qs \<longrightarrow> q \<notin> set qs"
    and "ws_run gr sigs f0 = (c, h')"
  shows "subseq (events (cn_sent c) @ hb_queue h' q) (published (cn_user (fst f0)) sigs)"
proof -
  obtain uid where f0: "snd f0 = subscribe q uid h" "cn_user (fst f0) = uid" "cn_queue (fst f0) = q" "cn_sent (fst f0) = []"
    using assms(1) by (auto simp: ws_open_def split: sum.splits option.splits)
  have own: "own_queue f0"
    using subscribe_ok [OF assms(2,3)] assms(3) by (auto simp: own_queue_def f0 subscribe_def split: if_splits)
  have "delivered f0 = []" by (simp add: delivered_def f0 subscribe_def)
  moreover have "cn_queue c = q"
  proof -
    have "cn_queue (fst (ws_run gr sigs f)) = cn_queue (fst f)" for f by (induction gr sigs f rule: ws_run.induct) simp_all
    from this [of f0] show ?thesis by (simp add: assms(4) f0)
  qed
  ultimately show ?thesis using delivered_run [OF own, of gr sigs] by (simp add: assms(4) delivered_def)
qed

lemma feed_in_order_witness:
  "let (c, h') = ws_run True [(1, Publish 5 (''a'', None)), (2, Publish 6 (''b'', None)), (3, Publish 5 (''c'', None)), (4, Relay)] joined in
     subseq (events (cn_sent c) @ hb_queue h' 0) [(''a'', None), (''c'', None)] \<and> events (cn_sent c) = [(''a'', None)]"
proof -
  let ?sigs = "[(1, Publish 5 (''a'', None)), (2, Publish 6 (''b'', None)), (3, Publish 5 (''c'', None)), (4, Relay)]"
  obtain c h' where run: "ws_run True ?sigs joined = (c, h')" by (cases "ws_run True ?sigs joined")
  have "hub_ok nobody" by (simp add: hub_ok_def nobody_def)
  moreover have "\<forall>v qs. hb_subs nobody v = Some qs \<longrightarrow> 0 \<notin> set qs" by (simp add: nobody_def)
  moreover have "published (cn_user (fst joined)) ?sigs = [(''a'', None), (''c'', None)]" by code_simp
  moreover have "events (cn_sent (fst (ws_run True ?sigs joined))) = [(''a'', None)]" by code_simp
  ultimately show ?thesis using feed_in_order [OF joined_open _ _ run] unfolding run by simp
qed

end
