(* ===== verification/AuditTrail.thy ===== *)
theory AuditTrail
  imports Access
begin

text \<open>
  The audit of handlers: \<^verbatim>\<open>decorators/audit.py\<close>. The decorator finds the acting user and the
  session among the keyword arguments of the handler, and after the handler returned adds one
  row with a payload made of the other arguments, in which secrets are masked.
\<close>

section \<open>The arguments of a handler\<close>

text \<open>\<open>A_model\<close> is a body with the document that \<^verbatim>\<open>model_dump(mode="json")\<close> makes of it, \<open>A_plain\<close> a text, number, truth value or none.\<close>

datatype arg =
    A_user user | A_session | A_model json | A_uuid uuid | A_time datetime | A_plain json | A_other

type_synonym kwargs = "(string \<times> arg) list"

definition actor_kwargs :: "string list" where
  "actor_kwargs = [''user'', ''goddess'', ''admin'', ''caller'', ''actor'']"

definition session_kwargs :: "string list" where
  "session_kwargs = [''session'']"

definition redacted_keys :: "string list" where
  "redacted_keys = [''password'', ''password_hash'', ''signature_b64'']"

fun pick_first :: "(arg \<Rightarrow> 'a option) \<Rightarrow> string list \<Rightarrow> kwargs \<Rightarrow> 'a option" where
  "pick_first f [] kws = None"
| "pick_first f (k # ks) kws =
     (case Option.bind (map_of kws k) f of None \<Rightarrow> pick_first f ks kws | Some x \<Rightarrow> Some x)"

fun as_user :: "arg \<Rightarrow> user option" where
  "as_user (A_user u) = Some u"
| "as_user _ = None"

fun as_session :: "arg \<Rightarrow> unit option" where
  "as_session A_session = Some ()"
| "as_session _ = None"

definition pick_actor :: "kwargs \<Rightarrow> user option" where
  "pick_actor kws = pick_first as_user actor_kwargs kws"

definition pick_session :: "kwargs \<Rightarrow> unit option" where
  "pick_session kws = pick_first as_session session_kwargs kws"

text \<open>The \<^verbatim>\<open>id\<close> of what the handler returned: an identifier, a text that may be one, or neither.\<close>

datatype returned_id = Id_uuid uuid | Id_text string | Id_other

definition extract_entity_id :: "token_library \<Rightarrow> returned_id \<Rightarrow> uuid option" where
  "extract_entity_id t r = (case r of Id_uuid k \<Rightarrow> Some k | Id_text x \<Rightarrow> parse_uuid t x | Id_other \<Rightarrow> None)"

section \<open>The payload\<close>

fun redact :: "string list \<Rightarrow> json \<Rightarrow> json" where
  "redact keys (J_obj kvs) = J_obj (map (\<lambda>(k, v). (k, if k \<in> set keys then J_str ''***'' else redact keys v)) kvs)"
| "redact keys (J_list vs) = J_list (map (redact keys) vs)"
| "redact keys J_null = J_null"
| "redact keys (J_bool b) = J_bool b"
| "redact keys (J_num n) = J_num n"
| "redact keys (J_str x) = J_str x"

text \<open>What one argument adds to the payload; \<open>isof\<close> is \<^verbatim>\<open>isoformat\<close>.\<close>

definition payload_entry :: "token_library \<Rightarrow> (datetime \<Rightarrow> string) \<Rightarrow> string \<times> arg \<Rightarrow> (string \<times> json) option" where
  "payload_entry t isof kv =
     (let (key, value) = kv in
      if key \<in> set actor_kwargs \<or> key \<in> set session_kwargs \<or> take 1 key = ''_'' then None
      else if key \<in> set [''ctrl'', ''response'', ''request''] then None
      else if key \<in> set redacted_keys then None
      else case value of
        A_model j \<Rightarrow> Some (key, redact redacted_keys j)
      | A_uuid k \<Rightarrow> Some (key, J_str (show_uuid t k))
      | A_time d \<Rightarrow> Some (key, J_str (isof d))
      | A_plain j \<Rightarrow> Some (key, j)
      | _ \<Rightarrow> None)"

definition build_payload :: "token_library \<Rightarrow> (datetime \<Rightarrow> string) \<Rightarrow> kwargs \<Rightarrow> (string \<times> json) list" where
  "build_payload t isof kws = List.map_filter (payload_entry t isof) kws"

section \<open>The decorator\<close>

text \<open>What happens after the handler committed \<open>s\<close> and returned something with the id \<open>r\<close>.\<close>

definition audited ::
  "token_library \<Rightarrow> (datetime \<Rightarrow> string) \<Rightarrow> datetime \<Rightarrow> string \<Rightarrow> string option \<Rightarrow> kwargs \<Rightarrow> returned_id \<Rightarrow> store \<Rightarrow> store" where
  "audited t isof now kind entity kws r s =
     (case (pick_actor kws, pick_session kws) of
        (Some actor, Some _) \<Rightarrow>
          (let payload = build_payload t isof kws in
           record_action now (u_id actor) kind entity (extract_entity_id t r)
             (if payload = [] then None else Some (J_obj payload)) s)
      | _ \<Rightarrow> s)"

section \<open>No secret in the audit\<close>

text \<open>Under a secret key, at any depth, stands the mask and nothing else.\<close>

fun masked :: "string list \<Rightarrow> json \<Rightarrow> bool" where
  "masked keys (J_obj kvs) \<longleftrightarrow> list_all (\<lambda>(k, v). if k \<in> set keys then v = J_str ''***'' else masked keys v) kvs"
| "masked keys (J_list vs) \<longleftrightarrow> list_all (masked keys) vs"
| "masked keys J_null \<longleftrightarrow> True"
| "masked keys (J_bool b) \<longleftrightarrow> True"
| "masked keys (J_num n) \<longleftrightarrow> True"
| "masked keys (J_str x) \<longleftrightarrow> True"

lemma masked_redact: "masked keys (redact keys j)"
  by (induction keys j rule: redact.induct) (auto simp: list_all_iff)

lemma redact_masked: "masked keys j \<Longrightarrow> redact keys j = j"
proof (induction keys j rule: masked.induct)
  case (1 keys kvs)
  then have "map (\<lambda>(k, v). (k, if k \<in> set keys then J_str ''***'' else redact keys v)) kvs = kvs"
    by (intro map_idI) (force simp: list_all_iff)
  then show ?case by simp
next
  case (2 keys vs)
  then show ?case by (auto simp: list_all_iff intro: map_idI)
qed simp_all

text \<open>Text arguments of a path are texts: a document with keys comes from a body only.\<close>

definition flat :: "arg \<Rightarrow> bool" where
  "flat a \<longleftrightarrow> (case a of A_plain (J_obj _) \<Rightarrow> False | A_plain (J_list _) \<Rightarrow> False | _ \<Rightarrow> True)"

lemma payload_entry_masked:
  assumes "payload_entry t isof (k0, a) = Some (k, j)" "flat a"
  shows "k \<notin> set redacted_keys \<and> masked redacted_keys j"
proof -
  have "k = k0" "k \<notin> set redacted_keys"
    using assms(1) by (auto simp: payload_entry_def Let_def split: if_splits arg.splits)
  moreover have "masked redacted_keys j"
    using assms by (cases a) (auto simp: payload_entry_def Let_def masked_redact flat_def split: if_splits json.splits)
  ultimately show ?thesis by simp
qed

lemma in_map_filter: "x \<in> set (List.map_filter f ys) \<longleftrightarrow> (\<exists>y \<in> set ys. f y = Some x)"
  by (induction ys) (auto simp: map_filter_simps split: option.splits)

lemma build_payload_masked:
  assumes "\<forall>kv \<in> set kws. flat (snd kv)"
  shows "masked redacted_keys (J_obj (build_payload t isof kws))"
proof -
  have "k \<notin> set redacted_keys \<and> masked redacted_keys j" if m: "(k, j) \<in> set (build_payload t isof kws)" for k j
  proof -
    obtain k0 a where "(k0, a) \<in> set kws" "payload_entry t isof (k0, a) = Some (k, j)"
      using m by (auto simp: build_payload_def in_map_filter)
    then show ?thesis using payload_entry_masked [of t isof k0 a k j] assms by force
  qed
  then show ?thesis by (fastforce simp: list_all_iff)
qed

lemma audited_rows:
  assumes "pick_actor kws = Some u" "pick_session kws = Some ()"
  shows "t_admin_actions (audited t isof now kind entity kws r s) = t_admin_actions s @
    [\<lparr>aa_admin_id = u_id u, aa_acting_as_user_id = None, aa_action = kind, aa_entity = entity,
      aa_entity_id = extract_entity_id t r,
      aa_payload = (if build_payload t isof kws = [] then None else Some (J_obj (build_payload t isof kws))),
      aa_created_at = now\<rparr>]"
  using assms by (simp add: audited_def record_action_def Let_def)

lemma audited_frame: "audited t isof now kind entity kws r s = s\<lparr>t_admin_actions := t_admin_actions (audited t isof now kind entity kws r s)\<rparr>"
  by (simp add: audited_def record_action_def Let_def split: option.splits)

end
