(* ===== verification/Routes.thy ===== *)
theory Routes
  imports AuditTrail
begin

text \<open>
  Routes and what happens around their handlers: the decorators and dependencies of the
  functions under \<^verbatim>\<open>routers\<close>. A route has a verb, a path with named parts, a guard (nobody
  in particular, a signed-in user, a user with a role), the feature flag of its router, a
  consent, the name of a rate limit, the status of a success, whether the function commits its
  session, and the kind of its audit row. The table itself is in \<^verbatim>\<open>RouteTable\<close>.
\<close>

section \<open>Routes\<close>

datatype verb = V_GET | V_POST | V_PUT | V_PATCH | V_DELETE

text \<open>The text is the name of the argument that receives the user.\<close>

datatype guard = Open | Signed_in string | Only user_role string

record route =
  rt_verb :: verb
  rt_path :: string
  rt_guard :: guard
  rt_status :: nat
  rt_commits :: bool
  rt_audit :: "(string \<times> string) option"
  rt_medical :: bool
  rt_consent :: "string option"
  rt_limit :: "string option"
  rt_late :: bool \<comment> \<open>the function goes on after its commit and may raise then\<close>

definition route_of :: "verb \<Rightarrow> string \<Rightarrow> guard \<Rightarrow> nat \<Rightarrow> bool \<Rightarrow> (string \<times> string) option \<Rightarrow> route" where
  "route_of verb path g status commits aud =
     \<lparr>rt_verb = verb, rt_path = path, rt_guard = g, rt_status = status, rt_commits = commits, rt_audit = aud,
      rt_medical = False, rt_consent = None, rt_limit = None, rt_late = False\<rparr>"

lemma route_of_simps [simp]:
  "rt_verb (route_of v p g st c a) = v" "rt_path (route_of v p g st c a) = p" "rt_guard (route_of v p g st c a) = g"
  "rt_status (route_of v p g st c a) = st" "rt_commits (route_of v p g st c a) = c" "rt_audit (route_of v p g st c a) = a"
  "rt_late (route_of v p g st c a) = False"
  by (simp_all add: route_of_def)

section \<open>Finding a route\<close>

text \<open>A path is matched part by part: a part in braces stands for any part that is not empty.\<close>

fun segments :: "string \<Rightarrow> string list" where
  "segments [] = [[]]"
| "segments (c # cs) =
     (if c = CHR ''/'' then [] # segments cs
      else case segments cs of [] \<Rightarrow> [[c]] | x # xs \<Rightarrow> (c # x) # xs)"

definition segment_matches :: "string \<Rightarrow> string \<Rightarrow> bool" where
  "segment_matches pat x \<longleftrightarrow> (if take 1 pat = ''{'' then x \<noteq> [] else pat = x)"

definition route_matches :: "verb \<Rightarrow> string \<Rightarrow> route \<Rightarrow> bool" where
  "route_matches verb path rt \<longleftrightarrow>
     rt_verb rt = verb \<and> list_all2 segment_matches (segments (rt_path rt)) (segments path)"

definition find_route :: "verb \<Rightarrow> string \<Rightarrow> route list \<Rightarrow> route option" where
  "find_route verb path rts = find (route_matches verb path) rts"

section \<open>Around the handler\<close>

record web_env =
  we_tokens :: token_library
  we_iso :: "datetime \<Rightarrow> string"
  we_now :: datetime
  we_medical_enabled :: bool
  we_within_limit :: "string \<Rightarrow> bool" \<comment> \<open>the limiter's answer for a named limit and this client\<close>

text \<open>The dependencies of a route, in the order in which they are resolved, and then the limiter.\<close>

definition guard_user :: "web_env \<Rightarrow> guard \<Rightarrow> http_request \<Rightarrow> store \<Rightarrow> user option res" where
  "guard_user env g r s =
     (case g of
        Open \<Rightarrow> Inr None
      | Signed_in _ \<Rightarrow>
          attempt (get_auth_context (we_tokens env) (hr_authorization r) s) (\<lambda>who. Inr (Some (ax_user who)))
      | Only role _ \<Rightarrow>
          attempt (get_auth_context (we_tokens env) (hr_authorization r) s) (\<lambda>who.
          attempt (require_role [role] (ax_user who)) (\<lambda>u. Inr (Some u))))"

definition consent_given :: "string option \<Rightarrow> user option \<Rightarrow> store \<Rightarrow> unit res" where
  "consent_given slug who s =
     (case (slug, who) of (Some g, Some u) \<Rightarrow> require_consent (u_id u) g s | _ \<Rightarrow> Inr ())"

definition admit :: "web_env \<Rightarrow> route \<Rightarrow> http_request \<Rightarrow> store \<Rightarrow> user option res" where
  "admit env rt r s =
     raise_if (rt_medical rt \<and> \<not> we_medical_enabled env) (HTTPException 404 ''Not Found'') (
     attempt (guard_user env (rt_guard rt) r s) (\<lambda>who.
     attempt (consent_given (rt_consent rt) who s) (\<lambda>_.
     raise_if (case rt_limit rt of None \<Rightarrow> False | Some l \<Rightarrow> \<not> we_within_limit env l)
       (HTTPException 429 ''rate limit exceeded, try again later'') (Inr who))))"

definition guard_kwargs :: "guard \<Rightarrow> user option \<Rightarrow> kwargs" where
  "guard_kwargs g who =
     (case (g, who) of (Signed_in a, Some u) \<Rightarrow> [(a, A_user u)] | (Only _ a, Some u) \<Rightarrow> [(a, A_user u)] | _ \<Rightarrow> [])"

text \<open>
  A request: the dependencies, the handler on the state it sees, the commit, the audit row with
  a commit of its own, which is taken to be written. A handler gives the state of its session when it
  returns or raises. Without a commit the session ends in a rollback, so the changes of the
  handler are lost; so are they when it raises, unless it raised after its commit. Only a handler that
  returned is audited.
\<close>

definition run_route ::
  "web_env \<Rightarrow> route \<Rightarrow> kwargs \<Rightarrow> ('a \<Rightarrow> returned_id) \<Rightarrow> (user option \<Rightarrow> store \<Rightarrow> store \<times> 'a res) \<Rightarrow>
   http_request \<Rightarrow> store \<Rightarrow> store \<times> (nat \<times> 'a) res" where
  "run_route env rt args idof handler r s =
     (case admit env rt r s of
        Inl e \<Rightarrow> (s, Inl e)
      | Inr who \<Rightarrow>
          (case handler who s of
             (s1, Inl e) \<Rightarrow> (if rt_late rt then s1 else s, Inl e)
           | (s1, Inr out) \<Rightarrow>
               let s2 = (if rt_commits rt then s1 else s);
                   kws = guard_kwargs (rt_guard rt) who @ (if rt_commits rt then [(''session'', A_session)] else []) @ args
               in (case rt_audit rt of
                     None \<Rightarrow> s2
                   | Some (kind, entity) \<Rightarrow>
                       audited (we_tokens env) (we_iso env) (we_now env) kind (Some entity) kws (idof out) s2,
                   Inr (rt_status rt, out))))"

section \<open>Facts about every route\<close>

lemma guard_user_Only [res_simps]:
  "guard_user env (Only role a) r s = Inr who \<longleftrightarrow>
     (\<exists>c. get_auth_context (we_tokens env) (hr_authorization r) s = Inr c \<and> who = Some (ax_user c) \<and> u_role (ax_user c) = role)"
  by (auto simp: guard_user_def require_role_def res_simps)

lemma guard_user_Signed_in [res_simps]:
  "guard_user env (Signed_in a) r s = Inr who \<longleftrightarrow>
     (\<exists>c. get_auth_context (we_tokens env) (hr_authorization r) s = Inr c \<and> who = Some (ax_user c))"
  by (auto simp: guard_user_def res_simps)

lemma admit_guard: "admit env rt r s = Inr who \<Longrightarrow> guard_user env (rt_guard rt) r s = Inr who"
  by (auto simp: admit_def res_simps)

lemma run_route_handler:
  assumes "run_route env rt args idof handler r s = (s', Inr (status, out))"
  obtains who s1 where "admit env rt r s = Inr who" "handler who s = (s1, Inr out)" "status = rt_status rt"
  using assms by (auto simp: run_route_def Let_def split: sum.splits prod.splits if_splits)

lemma run_route_failed:
  assumes "run_route env rt args idof handler r s = (s', Inl e)"
  shows "s' = s \<or> (rt_late rt \<and> (\<exists>who. handler who s = (s', Inl e)))"
  using assms by (auto simp: run_route_def Let_def split: sum.splits prod.splits if_splits)

text \<open>The user of a token is a row of the user table.\<close>

lemma get_auth_context_user:
  "get_auth_context t a s = Inr c \<Longrightarrow> \<exists>uid. user_by_id uid (core s) = Some (ax_user c)"
  by (auto simp: get_auth_context_def res_simps split: option.splits if_split_asm)
    (metis auth_context.select_convs(1))

text \<open>A route without a commit and without an audit leaves the state alone, whatever its handler does.\<close>

lemma run_route_read_only:
  "\<not> rt_commits rt \<Longrightarrow> \<not> rt_late rt \<Longrightarrow> rt_audit rt = None \<Longrightarrow> fst (run_route env rt args idof handler r s) = s"
  by (auto simp: run_route_def Let_def split: sum.splits prod.splits)

lemma run_route_silent:
  assumes "rt_commits rt" "rt_audit rt = None" "rt_guard rt = Only role a"
    and "run_route env rt args idof handler r s = (s', Inr (status, out))"
  obtains u where "u_role u = role" "handler (Some u) s = (s', Inr out)"
proof -
  obtain who where who: "admit env rt r s = Inr who" "handler who s = (s', Inr out)"
    using assms by (auto simp: run_route_def Let_def split: sum.splits prod.splits if_splits)
  moreover obtain u where "who = Some u" "u_role u = role"
    using admit_guard [OF who(1)] assms(3) by (auto simp: res_simps)
  ultimately show thesis using that by simp
qed

text \<open>An audited route of a role records its user, who is found under the name of the argument.\<close>

lemma pick_actor_guard:
  assumes "a \<in> set actor_kwargs"
    and "\<forall>kv \<in> set args. fst kv \<notin> set actor_kwargs"
  shows "pick_actor ((a, A_user u) # (''session'', A_session) # args) = Some u"
proof -
  let ?kws = "(a, A_user u) # (''session'', A_session) # args"
  have other: "map_of ?kws k = None" if "k \<in> set actor_kwargs" "k \<noteq> a" for k
    using that assms(2) by (auto simp: actor_kwargs_def map_of_eq_None_iff)
  have "pick_first as_user ks ?kws = Some u" if "a \<in> set ks" "set ks \<subseteq> set actor_kwargs" for ks
    using that
  proof (induction ks)
    case (Cons k ks)
    show ?case
    proof (cases "k = a")
      case False
      then show ?thesis using Cons other [of k] by (simp add: bind_eq_None_conv)
    qed simp
  qed simp
  then show ?thesis using assms(1) by (simp add: pick_actor_def)
qed

lemma pick_session_guard:
  "a \<noteq> ''session'' \<Longrightarrow> pick_session ((a, x) # (''session'', A_session) # args) = Some ()"
  by (simp add: pick_session_def session_kwargs_def)

lemma run_route_audited:
  assumes "rt_commits rt" "rt_audit rt = Some (kind, entity)" "rt_guard rt = Only role a" "a \<in> set actor_kwargs"
    and "\<forall>kv \<in> set args. fst kv \<notin> set actor_kwargs"
    and "run_route env rt args idof handler r s = (s', Inr (status, out))"
  obtains u s1 where "u_role u = role" "handler (Some u) s = (s1, Inr out)"
    "s' = s1\<lparr>t_admin_actions := t_admin_actions s'\<rparr>"
    "\<exists>payload. t_admin_actions s' = t_admin_actions s1 @
       [\<lparr>aa_admin_id = u_id u, aa_acting_as_user_id = None, aa_action = kind, aa_entity = Some entity,
         aa_entity_id = extract_entity_id (we_tokens env) (idof out), aa_payload = payload, aa_created_at = we_now env\<rparr>] \<and>
       ((\<forall>kv \<in> set args. flat (snd kv)) \<longrightarrow> (\<forall>j. payload = Some j \<longrightarrow> masked redacted_keys j))"
proof -
  obtain who s1 where who: "admit env rt r s = Inr who" "handler who s = (s1, Inr out)"
      "s' = audited (we_tokens env) (we_iso env) (we_now env) kind (Some entity)
         (guard_kwargs (Only role a) who @ (''session'', A_session) # args) (idof out) s1"
    using assms(1-3,6) by (auto simp: run_route_def Let_def split: sum.splits prod.splits if_splits)
  moreover obtain u where "who = Some u" "u_role u = role"
    using admit_guard [OF who(1)] assms(3) by (auto simp: res_simps)
  ultimately have u: "u_role u = role" "handler (Some u) s = (s1, Inr out)"
      "s' = audited (we_tokens env) (we_iso env) (we_now env) kind (Some entity)
         ((a, A_user u) # (''session'', A_session) # args) (idof out) s1"
    by (simp_all add: guard_kwargs_def)
  let ?kws = "(a, A_user u) # (''session'', A_session) # args"
  have "a \<noteq> ''session''" using assms(4) by (auto simp: actor_kwargs_def)
  then have rows: "t_admin_actions s' = t_admin_actions s1 @
      [\<lparr>aa_admin_id = u_id u, aa_acting_as_user_id = None, aa_action = kind, aa_entity = Some entity,
        aa_entity_id = extract_entity_id (we_tokens env) (idof out),
        aa_payload = (if build_payload (we_tokens env) (we_iso env) ?kws = [] then None
          else Some (J_obj (build_payload (we_tokens env) (we_iso env) ?kws))),
        aa_created_at = we_now env\<rparr>]"
    using u(3) audited_rows [OF pick_actor_guard [OF assms(4,5)] pick_session_guard] by simp
  have "masked redacted_keys (J_obj (build_payload (we_tokens env) (we_iso env) ?kws))" if "\<forall>kv \<in> set args. flat (snd kv)"
    using that by (intro build_payload_masked) (simp add: flat_def)
  then show thesis using that [OF u(1,2)] rows u(3) audited_frame [of "we_tokens env"] by auto
qed

end
