(* ===== verification/RouteTable.thy ===== *)
theory RouteTable
  imports Routes
begin

text \<open>
  The routes of the server, one definition for each function under \<^verbatim>\<open>routers\<close> in the order of the
  files, and the six routes that \<^verbatim>\<open>_register_crud\<close> makes for every table of the administration.
  Left out are \<^verbatim>\<open>debt_contracts.py\<close>, whose imports do not exist, and the websocket. Which
  routes a role reaches, which are audited and which commit is then read off the table.
\<close>

section \<open>The functions\<close>

text \<open>\<^verbatim>\<open>routers/adjustments.py\<close>\<close>

definition buyout_intent_route :: route where
  "buyout_intent_route =
     route_of V_POST ''/sub/debts/{contract_id}/buyout-intent'' (Only R_sub ''user'') 200 False None"

definition surprise_penalty_route :: route where
  "surprise_penalty_route =
     route_of V_POST ''/goddess/debts/{contract_id}/surprise-penalty''
       (Only R_goddess ''user'') 200 True (Some (''surprise_penalty_applied'', ''debt_contract''))"

definition create_adjustment_route :: route where
  "create_adjustment_route =
     route_of V_POST ''/goddess/debts/{contract_id}/adjustments''
       (Only R_goddess ''user'') 201 True (Some (''adjustment_created'', ''contract_adjustment''))"

definition accept_adjustment_route :: route where
  "accept_adjustment_route =
     route_of V_POST ''/sub/adjustments/{adjustment_id}/accept'' (Only R_sub ''user'') 200 True None"

definition refuse_adjustment_route :: route where
  "refuse_adjustment_route =
     route_of V_POST ''/sub/adjustments/{adjustment_id}/refuse'' (Only R_sub ''user'') 200 True None"

definition list_pending_route :: route where
  "list_pending_route =
     route_of V_GET ''/sub/adjustments/pending'' (Only R_sub ''user'') 200 False None"

definition approvals_alias_route :: route where
  "approvals_alias_route =
     route_of V_GET ''/sub/approvals'' (Only R_sub ''user'') 308 False None"

text \<open>\<^verbatim>\<open>routers/admin.py\<close>\<close>

definition impersonate_route :: route where
  "impersonate_route =
     route_of V_POST ''/admin/impersonate/{user_id}'' (Only R_admin ''admin'') 200 True None"

definition list_admin_actions_route :: route where
  "list_admin_actions_route =
     route_of V_GET ''/admin/admin_actions'' (Only R_admin '''') 200 False None"

definition get_admin_action_route :: route where
  "get_admin_action_route =
     route_of V_GET ''/admin/admin_actions/{item_id}'' (Only R_admin '''') 200 False None"

text \<open>\<^verbatim>\<open>routers/admin_cron.py\<close>\<close>

definition dry_run_cron_route :: route where
  "dry_run_cron_route =
     route_of V_POST ''/admin/cron/dry-run'' (Only R_admin ''admin'') 200 True None"

definition apply_cron_route :: route where
  "apply_cron_route =
     route_of V_POST ''/admin/cron/apply'' (Only R_admin ''admin'') 200 True None"

definition list_cron_runs_route :: route where
  "list_cron_runs_route =
     route_of V_GET ''/admin/cron/runs'' (Only R_admin ''admin'') 200 False None"

text \<open>\<^verbatim>\<open>routers/admin_janitor.py\<close>\<close>

definition run_proofs_janitor_route :: route where
  "run_proofs_janitor_route =
     route_of V_POST ''/admin/janitor/proofs'' (Only R_admin ''admin'') 200 True None"

text \<open>\<^verbatim>\<open>routers/auth.py\<close>\<close>

definition login_route :: route where
  "login_route =
     (route_of V_POST ''/auth/login'' Open 200 True None)\<lparr>rt_limit := Some ''rate_limit_login''\<rparr>"

definition refresh_route :: route where
  "refresh_route =
     route_of V_POST ''/auth/refresh'' Open 200 True None"

definition logout_route :: route where
  "logout_route =
     route_of V_POST ''/auth/logout'' Open 204 True None"

definition password_reset_request_route :: route where
  "password_reset_request_route =
     (route_of V_POST ''/auth/password-reset/request'' Open 202 True None)\<lparr>rt_limit := Some ''rate_limit_password_reset''\<rparr>"

definition password_reset_confirm_route :: route where
  "password_reset_confirm_route =
     (route_of V_POST ''/auth/password-reset/confirm'' Open 204 True None)\<lparr>rt_limit := Some ''rate_limit_password_reset''\<rparr>"

definition me_route :: route where
  "me_route =
     route_of V_GET ''/auth/me'' (Signed_in ''ctx'') 200 False None"

text \<open>\<^verbatim>\<open>routers/blacklist.py\<close>\<close>

definition breach_sub_route :: route where
  "breach_sub_route =
     route_of V_POST ''/goddess/subs/{sub_id}/breach''
       (Only R_goddess ''user'') 201 True (Some (''breach_applied'', ''blacklist_entry''))"

definition list_entries_route :: route where
  "list_entries_route =
     route_of V_GET ''/goddess/blacklist'' (Only R_goddess ''user'') 200 False None"

definition forgive_route :: route where
  "forgive_route =
     route_of V_POST ''/goddess/blacklist/{entry_id}/forgive''
       (Only R_goddess ''user'') 200 True (Some (''breach_forgiven'', ''blacklist_entry''))"

text \<open>\<^verbatim>\<open>routers/consent.py\<close>\<close>

definition get_current_consent_route :: route where
  "get_current_consent_route =
     route_of V_GET ''/consent/{slug}'' (Signed_in ''_'') 200 False None"

definition accept_consent_route :: route where
  "accept_consent_route =
     route_of V_POST ''/consent/{slug}/accept'' (Signed_in ''user'') 201 True None"

definition list_my_consents_route :: route where
  "list_my_consents_route =
     route_of V_GET ''/me/consents'' (Signed_in ''user'') 200 False None"

text \<open>\<^verbatim>\<open>routers/dashboards.py\<close>\<close>

definition goddess_dashboard_charts_route :: route where
  "goddess_dashboard_charts_route =
     route_of V_GET ''/goddess/dashboard/charts'' (Only R_goddess ''user'') 200 False None"

definition goddess_dashboard_summary_route :: route where
  "goddess_dashboard_summary_route =
     route_of V_GET ''/goddess/dashboard/summary'' (Only R_goddess ''user'') 200 False None"

definition goddess_dashboard_route :: route where
  "goddess_dashboard_route =
     route_of V_GET ''/goddess/dashboard'' (Only R_goddess ''user'') 200 False None"

definition sub_dashboard_route :: route where
  "sub_dashboard_route =
     route_of V_GET ''/sub/dashboard'' (Only R_sub ''user'') 200 False None"

definition sub_dashboard_summary_route :: route where
  "sub_dashboard_summary_route =
     route_of V_GET ''/sub/dashboard/summary'' (Only R_sub ''user'') 200 False None"

definition sub_planning_route :: route where
  "sub_planning_route =
     route_of V_GET ''/sub/planning'' (Only R_sub ''user'') 200 False None"

text \<open>\<^verbatim>\<open>routers/goddess_photos.py\<close>\<close>

definition list_photo_queue_route :: route where
  "list_photo_queue_route =
     route_of V_GET ''/goddess/photo-queue'' (Only R_goddess ''caller'') 200 False None"

definition get_top_approved_photo_route :: route where
  "get_top_approved_photo_route =
     route_of V_GET ''/goddess/subs/{sub_id}/photos/top'' (Only R_goddess ''caller'') 200 False None"

definition approve_photo_route :: route where
  "approve_photo_route =
     route_of V_POST ''/goddess/photos/{photo_id}/approve''
       (Only R_goddess ''caller'') 200 True (Some (''photo_approved'', ''sub_photo''))"

definition reject_photo_route :: route where
  "reject_photo_route =
     route_of V_POST ''/goddess/photos/{photo_id}/reject''
       (Only R_goddess ''caller'') 200 True (Some (''photo_rejected'', ''sub_photo''))"

text \<open>\<^verbatim>\<open>routers/goddess_profile.py\<close>\<close>

definition get_sub_by_username_route :: route where
  "get_sub_by_username_route =
     route_of V_GET ''/goddess/subs/by-username/{username}'' (Only R_goddess ''goddess'') 200 False None"

definition list_pending_requests_route :: route where
  "list_pending_requests_route =
     route_of V_GET ''/goddess/profile/change-requests'' (Only R_goddess ''goddess'') 200 False None"

definition approve_request_route :: route where
  "approve_request_route =
     route_of V_POST ''/goddess/profile/change-requests/{request_id}/approve''
       (Only R_goddess ''goddess'') 200 True (Some (''profile_change_approved'', ''profile_change_request''))"

definition reject_request_route :: route where
  "reject_request_route =
     route_of V_POST ''/goddess/profile/change-requests/{request_id}/reject''
       (Only R_goddess ''goddess'') 200 True (Some (''profile_change_rejected'', ''profile_change_request''))"

definition set_fee_route :: route where
  "set_fee_route =
     route_of V_POST ''/goddess/profile/change-requests/{request_id}/set-fee''
       (Only R_goddess ''goddess'') 200 True (Some (''profile_change_fee_set'', ''profile_change_request''))"

definition edit_sub_profile_route :: route where
  "edit_sub_profile_route =
     (route_of V_PATCH ''/goddess/subs/{sub_id}/profile''
       (Only R_goddess ''goddess'') 200 True (Some (''sub_profile_edited'', ''user'')))\<lparr>rt_late := True\<rparr>"

definition change_sub_ownership_status_route :: route where
  "change_sub_ownership_status_route =
     route_of V_PATCH ''/goddess/subs/{sub_id}/status''
       (Only R_goddess ''goddess'') 200 True (Some (''sub_ownership_changed'', ''user''))"

definition list_sub_status_events_route :: route where
  "list_sub_status_events_route =
     route_of V_GET ''/goddess/subs/{sub_id}/status-events'' (Only R_goddess ''goddess'') 200 False None"

text \<open>\<^verbatim>\<open>routers/goddess_rate_limits.py\<close>\<close>

definition get_rate_limits_route :: route where
  "get_rate_limits_route =
     route_of V_GET ''/goddess/me/rate-limits'' (Only R_goddess ''user'') 200 False None"

text \<open>\<^verbatim>\<open>routers/goddess_subs_message.py\<close>\<close>

definition send_message_to_sub_route :: route where
  "send_message_to_sub_route =
     route_of V_POST ''/goddess/subs/{username}/message'' (Only R_goddess ''caller'') 200 True None"

text \<open>\<^verbatim>\<open>routers/goddess_views.py\<close>\<close>

definition weekly_payments_route :: route where
  "weekly_payments_route =
     route_of V_GET ''/goddess/payments/weekly'' (Only R_goddess ''user'') 200 False None"

definition week_payments_route :: route where
  "week_payments_route =
     route_of V_GET ''/goddess/payments/weekly/{week_start}'' (Only R_goddess ''user'') 200 False None"

definition late_subs_route :: route where
  "late_subs_route =
     route_of V_GET ''/goddess/subs/late'' (Only R_goddess ''user'') 200 False None"

definition late_contracts_route :: route where
  "late_contracts_route =
     route_of V_GET ''/goddess/contracts/late'' (Only R_goddess ''user'') 200 False None"

definition bulk_apply_late_penalty_route :: route where
  "bulk_apply_late_penalty_route =
     route_of V_POST ''/goddess/contracts/late/apply-penalty''
       (Only R_goddess ''user'') 200 True (Some (''bulk_late_penalty_applied'', ''debt_contract''))"

text \<open>\<^verbatim>\<open>routers/health.py\<close>\<close>

definition health_route :: route where
  "health_route =
     route_of V_GET ''/health'' Open 200 False None"

definition healthz_route :: route where
  "healthz_route =
     route_of V_GET ''/healthz'' Open 200 False None"

text \<open>\<^verbatim>\<open>routers/invitations.py\<close>\<close>

definition create_invitation_route :: route where
  "create_invitation_route =
     route_of V_POST ''/goddess/invitations/''
       (Only R_goddess ''user'') 201 True (Some (''invitation_created'', ''invitation''))"

definition list_invitations_route :: route where
  "list_invitations_route =
     route_of V_GET ''/goddess/invitations/'' (Only R_goddess ''user'') 200 False None"

definition resend_invitation_route :: route where
  "resend_invitation_route =
     route_of V_POST ''/goddess/invitations/{invitation_id}/resend''
       (Only R_goddess ''user'') 204 True (Some (''invitation_resent'', ''invitation''))"

definition preview_invitation_route :: route where
  "preview_invitation_route =
     route_of V_GET ''/goddess/invitations/{invitation_id}/preview'' (Only R_goddess ''user'') 200 False None"

text \<open>\<^verbatim>\<open>routers/journal.py\<close>\<close>

definition create_journal_entry_route :: route where
  "create_journal_entry_route =
     route_of V_POST ''/sub/journal'' (Only R_sub ''user'') 201 True None"

definition list_own_journal_route :: route where
  "list_own_journal_route =
     route_of V_GET ''/sub/journal'' (Only R_sub ''user'') 200 False None"

definition list_sub_journal_for_goddess_route :: route where
  "list_sub_journal_for_goddess_route =
     route_of V_GET ''/goddess/subs/{sub_id}/journal'' (Only R_goddess ''user'') 200 True None"

definition mark_journal_entry_read_route :: route where
  "mark_journal_entry_read_route =
     route_of V_POST ''/goddess/subs/{username}/journal/{entry_id}/read'' (Only R_goddess ''user'') 200 True None"

definition upsert_journal_comment_route :: route where
  "upsert_journal_comment_route =
     route_of V_PATCH ''/goddess/journal/{entry_id}/comment''
       (Only R_goddess ''user'') 200 True (Some (''journal_commented'', ''journal_entry''))"

text \<open>\<^verbatim>\<open>routers/kinks.py\<close>\<close>

definition get_own_kink_matrix_route :: route where
  "get_own_kink_matrix_route =
     route_of V_GET ''/sub/profile/kinks'' (Only R_sub ''user'') 200 False None"

definition upsert_own_kink_rating_route :: route where
  "upsert_own_kink_rating_route =
     route_of V_PUT ''/sub/profile/kinks/{item_id}'' (Only R_sub ''user'') 200 True None"

definition get_kink_overview_for_goddess_route :: route where
  "get_kink_overview_for_goddess_route =
     route_of V_GET ''/goddess/kinks/overview'' (Only R_goddess ''user'') 200 False None"

definition get_sub_kink_matrix_for_goddess_route :: route where
  "get_sub_kink_matrix_for_goddess_route =
     route_of V_GET ''/goddess/subs/{sub_id}/kinks'' (Only R_goddess ''user'') 200 False None"

definition propose_kink_item_route :: route where
  "propose_kink_item_route =
     route_of V_POST ''/sub/profile/kinks/propose'' (Only R_sub ''user'') 201 True None"

definition list_own_kink_proposals_route :: route where
  "list_own_kink_proposals_route =
     route_of V_GET ''/sub/profile/kinks/proposals'' (Only R_sub ''user'') 200 False None"

definition list_goddess_kink_proposals_route :: route where
  "list_goddess_kink_proposals_route =
     route_of V_GET ''/goddess/kinks/proposals'' (Only R_goddess ''user'') 200 False None"

definition approve_kink_proposal_route :: route where
  "approve_kink_proposal_route =
     route_of V_POST ''/goddess/kinks/proposals/{item_id}/approve''
       (Only R_goddess ''user'') 200 True (Some (''kink_proposal_approved'', ''kink_item''))"

definition reject_kink_proposal_route :: route where
  "reject_kink_proposal_route =
     route_of V_POST ''/goddess/kinks/proposals/{item_id}/reject''
       (Only R_goddess ''user'') 204 True (Some (''kink_proposal_rejected'', ''kink_item''))"

text \<open>\<^verbatim>\<open>routers/limits.py\<close>\<close>

definition list_own_limits_route :: route where
  "list_own_limits_route =
     route_of V_GET ''/sub/profile/limits'' (Only R_sub ''user'') 200 False None"

definition create_own_limit_route :: route where
  "create_own_limit_route =
     route_of V_POST ''/sub/profile/limits'' (Only R_sub ''user'') 201 True None"

definition update_own_limit_route :: route where
  "update_own_limit_route =
     route_of V_PATCH ''/sub/profile/limits/{limit_id}'' (Only R_sub ''user'') 200 True None"

definition delete_own_limit_route :: route where
  "delete_own_limit_route =
     route_of V_DELETE ''/sub/profile/limits/{limit_id}'' (Only R_sub ''user'') 204 True None"

definition list_own_triggers_route :: route where
  "list_own_triggers_route =
     route_of V_GET ''/sub/profile/triggers'' (Only R_sub ''user'') 200 False None"

definition create_own_trigger_route :: route where
  "create_own_trigger_route =
     route_of V_POST ''/sub/profile/triggers'' (Only R_sub ''user'') 201 True None"

definition update_own_trigger_route :: route where
  "update_own_trigger_route =
     route_of V_PATCH ''/sub/profile/triggers/{trigger_id}'' (Only R_sub ''user'') 200 True None"

definition delete_own_trigger_route :: route where
  "delete_own_trigger_route =
     route_of V_DELETE ''/sub/profile/triggers/{trigger_id}'' (Only R_sub ''user'') 204 True None"

definition list_sub_limits_for_goddess_route :: route where
  "list_sub_limits_for_goddess_route =
     route_of V_GET ''/goddess/subs/{sub_id}/limits'' (Only R_goddess ''user'') 200 False None"

definition list_sub_triggers_for_goddess_route :: route where
  "list_sub_triggers_for_goddess_route =
     route_of V_GET ''/goddess/subs/{sub_id}/triggers'' (Only R_goddess ''user'') 200 False None"

definition acknowledge_limit_route :: route where
  "acknowledge_limit_route =
     route_of V_POST ''/goddess/subs/{sub_id}/limits/{limit_id}/acknowledge''
       (Only R_goddess ''user'') 200 True (Some (''limit_acknowledged'', ''sub_limit''))"

text \<open>\<^verbatim>\<open>routers/me_preferences.py\<close>\<close>

definition update_preferences_route :: route where
  "update_preferences_route =
     route_of V_PATCH ''/me/preferences'' (Signed_in ''user'') 200 True None"

definition update_profile_route :: route where
  "update_profile_route =
     (route_of V_PATCH ''/me/profile'' (Signed_in ''user'') 200 True None)\<lparr>rt_late := True\<rparr>"

text \<open>\<^verbatim>\<open>routers/merits.py\<close>\<close>

definition get_own_points_balance_route :: route where
  "get_own_points_balance_route =
     route_of V_GET ''/sub/points-balance'' (Only R_sub ''user'') 200 False None"

definition get_sub_points_balance_route :: route where
  "get_sub_points_balance_route =
     route_of V_GET ''/goddess/subs/{sub_id}/points-balance'' (Only R_goddess ''user'') 200 False None"

definition list_merit_events_for_sub_route :: route where
  "list_merit_events_for_sub_route =
     route_of V_GET ''/goddess/subs/{sub_id}/merit-events'' (Only R_goddess ''user'') 200 False None"

definition list_reward_tiers_route :: route where
  "list_reward_tiers_route =
     route_of V_GET ''/goddess/rewards'' (Only R_goddess ''user'') 200 False None"

definition create_reward_tier_route :: route where
  "create_reward_tier_route =
     route_of V_POST ''/goddess/rewards''
       (Only R_goddess ''user'') 201 True (Some (''reward_tier_created'', ''reward_tier''))"

definition update_reward_tier_route :: route where
  "update_reward_tier_route =
     route_of V_PATCH ''/goddess/rewards/{reward_id}''
       (Only R_goddess ''user'') 200 True (Some (''reward_tier_updated'', ''reward_tier''))"

definition delete_reward_tier_route :: route where
  "delete_reward_tier_route =
     route_of V_DELETE ''/goddess/rewards/{reward_id}''
       (Only R_goddess ''user'') 204 True (Some (''reward_tier_deleted'', ''reward_tier''))"

definition list_punishment_tiers_route :: route where
  "list_punishment_tiers_route =
     route_of V_GET ''/goddess/punishments'' (Only R_goddess ''user'') 200 False None"

definition create_punishment_tier_route :: route where
  "create_punishment_tier_route =
     route_of V_POST ''/goddess/punishments''
       (Only R_goddess ''user'') 201 True (Some (''punishment_tier_created'', ''punishment_tier''))"

definition update_punishment_tier_route :: route where
  "update_punishment_tier_route =
     route_of V_PATCH ''/goddess/punishments/{punishment_id}''
       (Only R_goddess ''user'') 200 True (Some (''punishment_tier_updated'', ''punishment_tier''))"

definition delete_punishment_tier_route :: route where
  "delete_punishment_tier_route =
     route_of V_DELETE ''/goddess/punishments/{punishment_id}''
       (Only R_goddess ''user'') 204 True (Some (''punishment_tier_deleted'', ''punishment_tier''))"

definition list_rewards_for_sub_route :: route where
  "list_rewards_for_sub_route =
     route_of V_GET ''/sub/rewards'' (Only R_sub ''user'') 200 False None"

definition redeem_reward_route :: route where
  "redeem_reward_route =
     route_of V_POST ''/sub/rewards/{reward_id}/redeem'' (Only R_sub ''user'') 200 True None"

definition invoke_punishment_route :: route where
  "invoke_punishment_route =
     route_of V_POST ''/goddess/punishments/{punishment_id}/invoke''
       (Only R_goddess ''user'') 201 True (Some (''punishment_invoked'', ''task''))"

text \<open>\<^verbatim>\<open>routers/money_previews.py\<close>\<close>

definition surprise_penalty_preview_route :: route where
  "surprise_penalty_preview_route =
     route_of V_POST ''/goddess/contracts/{slug}/surprise-penalty/preview''
       (Only R_goddess ''user'') 200 False None"

definition surprise_penalty_commit_route :: route where
  "surprise_penalty_commit_route =
     route_of V_POST ''/goddess/contracts/{slug}/surprise-penalty'' (Only R_goddess ''user'') 200 True None"

definition buyout_preview_route :: route where
  "buyout_preview_route =
     route_of V_POST ''/sub/contracts/{slug}/buyout/preview'' (Only R_sub ''user'') 200 False None"

definition breach_preview_route :: route where
  "breach_preview_route =
     route_of V_POST ''/goddess/subs/{username}/breach/preview'' (Only R_goddess ''user'') 200 False None"

text \<open>\<^verbatim>\<open>routers/notifications.py\<close>\<close>

definition list_my_notifications_route :: route where
  "list_my_notifications_route =
     route_of V_GET ''/me/notifications'' (Signed_in ''user'') 200 False None"

definition mark_notification_read_route :: route where
  "mark_notification_read_route =
     route_of V_POST ''/me/notifications/{notification_id}/read'' (Signed_in ''user'') 204 True None"

definition mark_all_notifications_read_route :: route where
  "mark_all_notifications_read_route =
     route_of V_POST ''/me/notifications/read-all'' (Signed_in ''user'') 204 True None"

definition register_push_subscription_route :: route where
  "register_push_subscription_route =
     route_of V_POST ''/me/notifications/subscriptions'' (Signed_in ''user'') 201 True None"

definition list_push_subscriptions_route :: route where
  "list_push_subscriptions_route =
     route_of V_GET ''/me/notifications/subscriptions'' (Signed_in ''user'') 200 False None"

definition delete_push_subscription_route :: route where
  "delete_push_subscription_route =
     route_of V_DELETE ''/me/notifications/subscriptions/{sub_id}'' (Signed_in ''user'') 204 True None"

text \<open>\<^verbatim>\<open>routers/panic.py\<close>\<close>

definition trigger_panic_route :: route where
  "trigger_panic_route =
     route_of V_POST ''/sub/panic'' (Only R_sub ''sub'') 200 True None"

text \<open>\<^verbatim>\<open>routers/payment_methods.py\<close>\<close>

definition list_payment_methods_route :: route where
  "list_payment_methods_route =
     route_of V_GET ''/goddess/payment-methods/'' (Only R_goddess ''user'') 200 False None"

definition create_payment_method_route :: route where
  "create_payment_method_route =
     route_of V_POST ''/goddess/payment-methods/''
       (Only R_goddess ''user'') 201 True (Some (''payment_method_created'', ''payment_method''))"

definition update_payment_method_route :: route where
  "update_payment_method_route =
     route_of V_PATCH ''/goddess/payment-methods/{method_id}''
       (Only R_goddess ''user'') 200 True (Some (''payment_method_updated'', ''payment_method''))"

definition delete_payment_method_route :: route where
  "delete_payment_method_route =
     route_of V_DELETE ''/goddess/payment-methods/{method_id}''
       (Only R_goddess ''user'') 204 True (Some (''payment_method_deleted'', ''payment_method''))"

definition reorder_payment_methods_route :: route where
  "reorder_payment_methods_route =
     route_of V_POST ''/goddess/payment-methods/reorder''
       (Only R_goddess ''user'') 200 True (Some (''payment_methods_reordered'', ''payment_method''))"

text \<open>\<^verbatim>\<open>routers/payments.py\<close>\<close>

definition declare_payment_route :: route where
  "declare_payment_route =
     route_of V_POST ''/sub/payments'' (Only R_sub ''user'') 201 True None"

definition edit_declaration_route :: route where
  "edit_declaration_route =
     route_of V_PATCH ''/sub/payments/{declaration_id}'' (Only R_sub ''user'') 200 True None"

definition cancel_declaration_route :: route where
  "cancel_declaration_route =
     route_of V_DELETE ''/sub/payments/{declaration_id}'' (Only R_sub ''user'') 204 True None"

definition list_my_payments_route :: route where
  "list_my_payments_route =
     route_of V_GET ''/sub/payments'' (Only R_sub ''user'') 200 False None"

definition list_sub_payment_methods_route :: route where
  "list_sub_payment_methods_route =
     route_of V_GET ''/sub/payment-methods'' (Only R_sub ''user'') 200 False None"

definition list_pending_payments_route :: route where
  "list_pending_payments_route =
     route_of V_GET ''/goddess/payments'' (Only R_goddess ''user'') 200 False None"

definition validate_declaration_route :: route where
  "validate_declaration_route =
     route_of V_POST ''/goddess/payments/{declaration_id}/validate''
       (Only R_goddess ''user'') 200 True (Some (''payment_validated'', ''payment_declaration''))"

definition reject_declaration_route :: route where
  "reject_declaration_route =
     route_of V_POST ''/goddess/payments/{declaration_id}/reject''
       (Only R_goddess ''user'') 200 True (Some (''payment_rejected'', ''payment_declaration''))"

definition record_payment_route :: route where
  "record_payment_route =
     route_of V_POST ''/goddess/payments/record''
       (Only R_goddess ''user'') 201 True (Some (''payment_recorded'', ''payment_declaration''))"

definition list_goddess_subs_route :: route where
  "list_goddess_subs_route =
     route_of V_GET ''/goddess/subs'' (Only R_goddess ''user'') 200 False None"

text \<open>\<^verbatim>\<open>routers/penalty_rules.py\<close>\<close>

definition list_penalty_rules_route :: route where
  "list_penalty_rules_route =
     route_of V_GET ''/goddess/penalty-rules'' (Only R_goddess ''user'') 200 False None"

definition create_penalty_rule_route :: route where
  "create_penalty_rule_route =
     route_of V_POST ''/goddess/penalty-rules''
       (Only R_goddess ''user'') 201 True (Some (''penalty_rule_created'', ''penalty_rule''))"

definition update_penalty_rule_route :: route where
  "update_penalty_rule_route =
     route_of V_PATCH ''/goddess/penalty-rules/{rule_id}''
       (Only R_goddess ''user'') 200 True (Some (''penalty_rule_updated'', ''penalty_rule''))"

definition delete_penalty_rule_route :: route where
  "delete_penalty_rule_route =
     route_of V_DELETE ''/goddess/penalty-rules/{rule_id}''
       (Only R_goddess ''user'') 204 True (Some (''penalty_rule_deleted'', ''penalty_rule''))"

text \<open>\<^verbatim>\<open>routers/photo.py\<close>\<close>

definition upload_profile_photo_route :: route where
  "upload_profile_photo_route =
     route_of V_POST ''/profile/photos'' (Only R_sub ''caller'') 201 True None"

text \<open>\<^verbatim>\<open>routers/profile.py\<close>\<close>

definition create_change_request_route :: route where
  "create_change_request_route =
     route_of V_POST ''/sub/profile/change-requests'' (Only R_sub ''sub'') 201 True None"

definition list_my_change_requests_route :: route where
  "list_my_change_requests_route =
     route_of V_GET ''/sub/profile/change-requests'' (Only R_sub ''sub'') 200 False None"

definition update_payment_handle_route :: route where
  "update_payment_handle_route =
     route_of V_PATCH ''/sub/me/payment-handle'' (Only R_sub ''sub'') 200 True None"

definition accept_fee_route :: route where
  "accept_fee_route =
     route_of V_POST ''/sub/profile/change-requests/{request_id}/accept-fee'' (Only R_sub ''sub'') 200 True None"

text \<open>\<^verbatim>\<open>routers/public_invitation.py\<close>\<close>

definition get_invitation_route :: route where
  "get_invitation_route =
     (route_of V_GET ''/invite/{token}'' Open 200 False None)\<lparr>rt_limit := Some ''rate_limit_public_invitation''\<rparr>"

text \<open>\<^verbatim>\<open>routers/reference.py\<close>\<close>

definition list_genders_route :: route where
  "list_genders_route =
     route_of V_GET ''/reference/genders'' (Signed_in ''_user'') 200 False None"

text \<open>\<^verbatim>\<open>routers/review_queue.py\<close>\<close>

definition get_review_queue_route :: route where
  "get_review_queue_route =
     route_of V_GET ''/goddess/review-queue'' (Only R_goddess ''user'') 200 False None"

definition bulk_action_route :: route where
  "bulk_action_route =
     route_of V_POST ''/goddess/review-queue/bulk''
       (Only R_goddess ''user'') 200 True (Some (''review_queue_bulk_action'', ''review_queue''))"

text \<open>\<^verbatim>\<open>routers/rituals.py\<close>\<close>

definition create_ritual_route :: route where
  "create_ritual_route =
     route_of V_POST ''/goddess/subs/{sub_id}/rituals''
       (Only R_goddess ''user'') 201 True (Some (''ritual_created'', ''ritual''))"

definition list_rituals_for_sub_route :: route where
  "list_rituals_for_sub_route =
     route_of V_GET ''/goddess/subs/{sub_id}/rituals'' (Only R_goddess ''user'') 200 False None"

definition list_all_rituals_route :: route where
  "list_all_rituals_route =
     route_of V_GET ''/goddess/rituals'' (Only R_goddess ''user'') 200 False None"

definition update_ritual_route :: route where
  "update_ritual_route =
     route_of V_PATCH ''/goddess/rituals/{ritual_id}''
       (Only R_goddess ''user'') 200 True (Some (''ritual_updated'', ''ritual''))"

definition delete_ritual_route :: route where
  "delete_ritual_route =
     route_of V_DELETE ''/goddess/rituals/{ritual_id}''
       (Only R_goddess ''user'') 204 True (Some (''ritual_deleted'', ''ritual''))"

definition approve_occurrence_route :: route where
  "approve_occurrence_route =
     route_of V_POST ''/goddess/rituals/occurrences/{occurrence_id}/approve''
       (Only R_goddess ''user'') 200 True (Some (''ritual_occurrence_approved'', ''ritual_occurrence''))"

definition reject_occurrence_route :: route where
  "reject_occurrence_route =
     route_of V_POST ''/goddess/rituals/occurrences/{occurrence_id}/reject''
       (Only R_goddess ''user'') 200 True (Some (''ritual_occurrence_rejected'', ''ritual_occurrence''))"

definition list_own_rituals_route :: route where
  "list_own_rituals_route =
     route_of V_GET ''/sub/rituals'' (Only R_sub ''user'') 200 False None"

definition list_today_occurrences_route :: route where
  "list_today_occurrences_route =
     route_of V_GET ''/sub/rituals/today'' (Only R_sub ''user'') 200 False None"

definition complete_occurrence_route :: route where
  "complete_occurrence_route =
     route_of V_POST ''/sub/rituals/occurrences/{occurrence_id}/complete'' (Only R_sub ''user'') 200 True None"

definition submit_occurrence_route :: route where
  "submit_occurrence_route =
     route_of V_POST ''/sub/rituals/occurrences/{occurrence_id}/submit'' (Only R_sub ''user'') 200 True None"

text \<open>\<^verbatim>\<open>routers/rolling.py\<close>\<close>

definition get_rolling_tribute_route :: route where
  "get_rolling_tribute_route =
     route_of V_GET ''/goddess/subs/{sub_id}/rolling/'' (Only R_goddess ''user'') 200 False None"

definition upsert_rolling_tribute_route :: route where
  "upsert_rolling_tribute_route =
     route_of V_PUT ''/goddess/subs/{sub_id}/rolling/''
       (Only R_goddess ''user'') 200 True (Some (''rolling_upserted'', ''rolling_tribute''))"

definition clear_rolling_tribute_route :: route where
  "clear_rolling_tribute_route =
     route_of V_DELETE ''/goddess/subs/{sub_id}/rolling/''
       (Only R_goddess ''user'') 204 True (Some (''rolling_cleared'', ''rolling_tribute''))"

text \<open>\<^verbatim>\<open>routers/safeword.py\<close>\<close>

definition upsert_own_safeword_route :: route where
  "upsert_own_safeword_route =
     route_of V_POST ''/sub/profile/safeword'' (Only R_sub ''user'') 200 True None"

definition get_own_safeword_route :: route where
  "get_own_safeword_route =
     route_of V_GET ''/sub/profile/safeword'' (Only R_sub ''user'') 200 False None"

definition get_sub_safeword_for_goddess_route :: route where
  "get_sub_safeword_for_goddess_route =
     route_of V_GET ''/goddess/subs/{sub_id}/safeword'' (Only R_goddess ''user'') 200 False None"

text \<open>\<^verbatim>\<open>routers/signup.py\<close>\<close>

definition signup_via_invite_route :: route where
  "signup_via_invite_route =
     (route_of V_POST ''/invite/{token}/signup'' Open 201 True None)\<lparr>rt_limit := Some ''rate_limit_signup''\<rparr>"

text \<open>\<^verbatim>\<open>routers/sub_aftercare.py\<close>\<close>

definition get_own_aftercare_route :: route where
  "get_own_aftercare_route =
     route_of V_GET ''/profile/aftercare'' (Only R_sub ''sub'') 200 False None"

definition upsert_own_aftercare_route :: route where
  "upsert_own_aftercare_route =
     route_of V_PUT ''/profile/aftercare'' (Only R_sub ''sub'') 200 True None"

definition get_sub_aftercare_for_goddess_route :: route where
  "get_sub_aftercare_for_goddess_route =
     route_of V_GET ''/goddess/subs/{username}/aftercare'' (Only R_goddess ''goddess'') 200 False None"

definition mark_aftercare_read_route :: route where
  "mark_aftercare_read_route =
     route_of V_POST ''/goddess/subs/{username}/aftercare/read'' (Only R_goddess ''goddess'') 204 True None"

text \<open>\<^verbatim>\<open>routers/sub_medical.py\<close>\<close>

definition get_own_medical_status_route :: route where
  "get_own_medical_status_route =
     (route_of V_GET ''/profile/medical''
       (Only R_sub ''sub'') 200 False None)\<lparr>rt_medical := True, rt_consent := Some ''medical''\<rparr>"

definition upsert_own_medical_route :: route where
  "upsert_own_medical_route =
     (route_of V_PUT ''/profile/medical''
       (Only R_sub ''sub'') 200 True None)\<lparr>rt_medical := True, rt_consent := Some ''medical''\<rparr>"

definition reveal_sub_medical_route :: route where
  "reveal_sub_medical_route =
     (route_of V_GET ''/goddess/subs/{sub_id}/medical''
       (Only R_goddess ''goddess'') 200 True None)\<lparr>rt_medical := True\<rparr>"

text \<open>\<^verbatim>\<open>routers/tasks.py\<close>\<close>

definition create_task_route :: route where
  "create_task_route =
     route_of V_POST ''/goddess/subs/{sub_id}/tasks''
       (Only R_goddess ''user'') 201 True (Some (''task_created'', ''task''))"

definition list_tasks_for_sub_route :: route where
  "list_tasks_for_sub_route =
     route_of V_GET ''/goddess/subs/{sub_id}/tasks'' (Only R_goddess ''user'') 200 False None"

definition update_task_route :: route where
  "update_task_route =
     route_of V_PATCH ''/goddess/tasks/{task_id}''
       (Only R_goddess ''user'') 200 True (Some (''task_updated'', ''task''))"

definition cancel_task_route :: route where
  "cancel_task_route =
     route_of V_POST ''/goddess/tasks/{task_id}/cancel''
       (Only R_goddess ''user'') 200 True (Some (''task_cancelled'', ''task''))"

definition approve_task_route :: route where
  "approve_task_route =
     route_of V_POST ''/goddess/tasks/{task_id}/approve''
       (Only R_goddess ''user'') 200 True (Some (''task_approved'', ''task''))"

definition reject_task_route :: route where
  "reject_task_route =
     route_of V_POST ''/goddess/tasks/{task_id}/reject''
       (Only R_goddess ''user'') 200 True (Some (''task_rejected'', ''task''))"

definition list_own_tasks_route :: route where
  "list_own_tasks_route =
     route_of V_GET ''/sub/tasks'' (Only R_sub ''user'') 200 False None"

definition submit_task_route :: route where
  "submit_task_route =
     route_of V_POST ''/sub/tasks/{task_id}/submit'' (Only R_sub ''user'') 200 True None"

text \<open>\<^verbatim>\<open>routers/toys.py\<close>\<close>

definition list_toys_for_sub_route :: route where
  "list_toys_for_sub_route =
     route_of V_GET ''/goddess/subs/{sub_id}/toys'' (Only R_goddess ''user'') 200 False None"

definition create_toy_for_sub_route :: route where
  "create_toy_for_sub_route =
     route_of V_POST ''/goddess/subs/{sub_id}/toys''
       (Only R_goddess ''user'') 201 True (Some (''toy_created'', ''toy_item''))"

definition update_toy_route :: route where
  "update_toy_route =
     route_of V_PATCH ''/goddess/toys/{toy_id}''
       (Only R_goddess ''user'') 200 True (Some (''toy_updated'', ''toy_item''))"

definition delete_toy_route :: route where
  "delete_toy_route =
     route_of V_DELETE ''/goddess/toys/{toy_id}''
       (Only R_goddess ''user'') 204 True (Some (''toy_deleted'', ''toy_item''))"

definition approve_toy_route :: route where
  "approve_toy_route =
     route_of V_POST ''/goddess/toys/{toy_id}/approve''
       (Only R_goddess ''user'') 200 True (Some (''toy_approved'', ''toy_item''))"

definition reject_toy_route :: route where
  "reject_toy_route =
     route_of V_POST ''/goddess/toys/{toy_id}/reject''
       (Only R_goddess ''user'') 204 True (Some (''toy_rejected'', ''toy_item''))"

definition list_own_toys_route :: route where
  "list_own_toys_route =
     route_of V_GET ''/sub/profile/toys'' (Only R_sub ''user'') 200 False None"

definition propose_own_toy_route :: route where
  "propose_own_toy_route =
     route_of V_POST ''/sub/profile/toys'' (Only R_sub ''user'') 201 True None"

text \<open>\<^verbatim>\<open>routers/tribute_minimum.py\<close>\<close>

definition upsert_tribute_minimum_route :: route where
  "upsert_tribute_minimum_route =
     route_of V_PUT ''/goddess/subs/{sub_id}/tribute-minimum''
       (Only R_goddess ''user'') 200 True (Some (''tribute_minimum_upserted'', ''tribute_minimum''))"

definition get_tribute_minimum_route :: route where
  "get_tribute_minimum_route =
     route_of V_GET ''/goddess/subs/{sub_id}/tribute-minimum'' (Only R_goddess ''user'') 200 False None"

definition delete_tribute_minimum_route :: route where
  "delete_tribute_minimum_route =
     route_of V_DELETE ''/goddess/subs/{sub_id}/tribute-minimum''
       (Only R_goddess ''user'') 204 True (Some (''tribute_minimum_deleted'', ''tribute_minimum''))"

definition get_tribute_gauge_route :: route where
  "get_tribute_gauge_route =
     route_of V_GET ''/goddess/subs/{sub_id}/tribute-minimum/gauge'' (Only R_goddess ''user'') 200 False None"

definition adjustments_routes :: "route list" where
  "adjustments_routes =
     [buyout_intent_route,
      surprise_penalty_route,
      create_adjustment_route,
      accept_adjustment_route,
      refuse_adjustment_route,
      list_pending_route,
      approvals_alias_route]"

definition admin_routes :: "route list" where
  "admin_routes =
     [impersonate_route,
      list_admin_actions_route,
      get_admin_action_route]"

definition admin_cron_routes :: "route list" where
  "admin_cron_routes =
     [dry_run_cron_route,
      apply_cron_route,
      list_cron_runs_route]"

definition admin_janitor_routes :: "route list" where
  "admin_janitor_routes =
     [run_proofs_janitor_route]"

definition auth_routes :: "route list" where
  "auth_routes =
     [login_route,
      refresh_route,
      logout_route,
      password_reset_request_route,
      password_reset_confirm_route,
      me_route]"

definition blacklist_routes :: "route list" where
  "blacklist_routes =
     [breach_sub_route,
      list_entries_route,
      forgive_route]"

definition consent_routes :: "route list" where
  "consent_routes =
     [get_current_consent_route,
      accept_consent_route,
      list_my_consents_route]"

definition dashboards_routes :: "route list" where
  "dashboards_routes =
     [goddess_dashboard_charts_route,
      goddess_dashboard_summary_route,
      goddess_dashboard_route,
      sub_dashboard_route,
      sub_dashboard_summary_route,
      sub_planning_route]"

definition goddess_photos_routes :: "route list" where
  "goddess_photos_routes =
     [list_photo_queue_route,
      get_top_approved_photo_route,
      approve_photo_route,
      reject_photo_route]"

definition goddess_profile_routes :: "route list" where
  "goddess_profile_routes =
     [get_sub_by_username_route,
      list_pending_requests_route,
      approve_request_route,
      reject_request_route,
      set_fee_route,
      edit_sub_profile_route,
      change_sub_ownership_status_route,
      list_sub_status_events_route]"

definition goddess_rate_limits_routes :: "route list" where
  "goddess_rate_limits_routes =
     [get_rate_limits_route]"

definition goddess_subs_message_routes :: "route list" where
  "goddess_subs_message_routes =
     [send_message_to_sub_route]"

definition goddess_views_routes :: "route list" where
  "goddess_views_routes =
     [weekly_payments_route,
      week_payments_route,
      late_subs_route,
      late_contracts_route,
      bulk_apply_late_penalty_route]"

definition health_routes :: "route list" where
  "health_routes =
     [health_route,
      healthz_route]"

definition invitations_routes :: "route list" where
  "invitations_routes =
     [create_invitation_route,
      list_invitations_route,
      resend_invitation_route,
      preview_invitation_route]"

definition journal_routes :: "route list" where
  "journal_routes =
     [create_journal_entry_route,
      list_own_journal_route,
      list_sub_journal_for_goddess_route,
      mark_journal_entry_read_route,
      upsert_journal_comment_route]"

definition kinks_routes :: "route list" where
  "kinks_routes =
     [get_own_kink_matrix_route,
      upsert_own_kink_rating_route,
      get_kink_overview_for_goddess_route,
      get_sub_kink_matrix_for_goddess_route,
      propose_kink_item_route,
      list_own_kink_proposals_route,
      list_goddess_kink_proposals_route,
      approve_kink_proposal_route,
      reject_kink_proposal_route]"

definition limits_routes :: "route list" where
  "limits_routes =
     [list_own_limits_route,
      create_own_limit_route,
      update_own_limit_route,
      delete_own_limit_route,
      list_own_triggers_route,
      create_own_trigger_route,
      update_own_trigger_route,
      delete_own_trigger_route,
      list_sub_limits_for_goddess_route,
      list_sub_triggers_for_goddess_route,
      acknowledge_limit_route]"

definition me_preferences_routes :: "route list" where
  "me_preferences_routes =
     [update_preferences_route,
      update_profile_route]"

definition merits_routes :: "route list" where
  "merits_routes =
     [get_own_points_balance_route,
      get_sub_points_balance_route,
      list_merit_events_for_sub_route,
      list_reward_tiers_route,
      create_reward_tier_route,
      update_reward_tier_route,
      delete_reward_tier_route,
      list_punishment_tiers_route,
      create_punishment_tier_route,
      update_punishment_tier_route,
      delete_punishment_tier_route,
      list_rewards_for_sub_route,
      redeem_reward_route,
      invoke_punishment_route]"

definition money_previews_routes :: "route list" where
  "money_previews_routes =
     [surprise_penalty_preview_route,
      surprise_penalty_commit_route,
      buyout_preview_route,
      breach_preview_route]"

definition notifications_routes :: "route list" where
  "notifications_routes =
     [list_my_notifications_route,
      mark_notification_read_route,
      mark_all_notifications_read_route,
      register_push_subscription_route,
      list_push_subscriptions_route,
      delete_push_subscription_route]"

definition panic_routes :: "route list" where
  "panic_routes =
     [trigger_panic_route]"

definition payment_methods_routes :: "route list" where
  "payment_methods_routes =
     [list_payment_methods_route,
      create_payment_method_route,
      update_payment_method_route,
      delete_payment_method_route,
      reorder_payment_methods_route]"

definition payments_routes :: "route list" where
  "payments_routes =
     [declare_payment_route,
      edit_declaration_route,
      cancel_declaration_route,
      list_my_payments_route,
      list_sub_payment_methods_route,
      list_pending_payments_route,
      validate_declaration_route,
      reject_declaration_route,
      record_payment_route,
      list_goddess_subs_route]"

definition penalty_rules_routes :: "route list" where
  "penalty_rules_routes =
     [list_penalty_rules_route,
      create_penalty_rule_route,
      update_penalty_rule_route,
      delete_penalty_rule_route]"

definition photo_routes :: "route list" where
  "photo_routes =
     [upload_profile_photo_route]"

definition profile_routes :: "route list" where
  "profile_routes =
     [create_change_request_route,
      list_my_change_requests_route,
      update_payment_handle_route,
      accept_fee_route]"

definition public_invitation_routes :: "route list" where
  "public_invitation_routes =
     [get_invitation_route]"

definition reference_routes :: "route list" where
  "reference_routes =
     [list_genders_route]"

definition review_queue_routes :: "route list" where
  "review_queue_routes =
     [get_review_queue_route,
      bulk_action_route]"

definition rituals_routes :: "route list" where
  "rituals_routes =
     [create_ritual_route,
      list_rituals_for_sub_route,
      list_all_rituals_route,
      update_ritual_route,
      delete_ritual_route,
      approve_occurrence_route,
      reject_occurrence_route,
      list_own_rituals_route,
      list_today_occurrences_route,
      complete_occurrence_route,
      submit_occurrence_route]"

definition rolling_routes :: "route list" where
  "rolling_routes =
     [get_rolling_tribute_route,
      upsert_rolling_tribute_route,
      clear_rolling_tribute_route]"

definition safeword_routes :: "route list" where
  "safeword_routes =
     [upsert_own_safeword_route,
      get_own_safeword_route,
      get_sub_safeword_for_goddess_route]"

definition signup_routes :: "route list" where
  "signup_routes =
     [signup_via_invite_route]"

definition sub_aftercare_routes :: "route list" where
  "sub_aftercare_routes =
     [get_own_aftercare_route,
      upsert_own_aftercare_route,
      get_sub_aftercare_for_goddess_route,
      mark_aftercare_read_route]"

definition sub_medical_routes :: "route list" where
  "sub_medical_routes =
     [get_own_medical_status_route,
      upsert_own_medical_route,
      reveal_sub_medical_route]"

definition tasks_routes :: "route list" where
  "tasks_routes =
     [create_task_route,
      list_tasks_for_sub_route,
      update_task_route,
      cancel_task_route,
      approve_task_route,
      reject_task_route,
      list_own_tasks_route,
      submit_task_route]"

definition toys_routes :: "route list" where
  "toys_routes =
     [list_toys_for_sub_route,
      create_toy_for_sub_route,
      update_toy_route,
      delete_toy_route,
      approve_toy_route,
      reject_toy_route,
      list_own_toys_route,
      propose_own_toy_route]"

definition tribute_minimum_routes :: "route list" where
  "tribute_minimum_routes =
     [upsert_tribute_minimum_route,
      get_tribute_minimum_route,
      delete_tribute_minimum_route,
      get_tribute_gauge_route]"

section \<open>The routes of the administration\<close>

definition crud_routes :: "string \<Rightarrow> route list" where
  "crud_routes entity =
     (let table_path = ''/admin/'' @ entity; row_path = ''/admin/'' @ entity @ ''/{item_id}'' in
      [route_of V_GET table_path (Only R_admin '''') 200 False None,
       route_of V_GET row_path (Only R_admin '''') 200 False None,
       (route_of V_PATCH row_path (Only R_admin ''admin'') 200 True None)\<lparr>rt_late := True\<rparr>,
       (route_of V_POST table_path (Only R_admin ''admin'') 201 True None)\<lparr>rt_late := True\<rparr>,
       route_of V_DELETE row_path (Only R_admin ''admin'') 204 True None,
       route_of V_GET (table_path @ ''.csv'') (Only R_admin '''') 200 False None])"

definition crud_entities :: "string list" where
  "crud_entities =
     [''users'', ''goddesses'', ''invitations'', ''payment_methods'', ''payment_declarations'', ''rolling_tributes'',
      ''debt_contracts'', ''blacklist_entries'', ''notifications'', ''debt_events'', ''contract_adjustments'']"

definition all_routes :: "route list" where
  "all_routes =
     adjustments_routes @ admin_routes @ admin_cron_routes @ admin_janitor_routes @
     auth_routes @ blacklist_routes @ consent_routes @ dashboards_routes @
     goddess_photos_routes @ goddess_profile_routes @ goddess_rate_limits_routes @ goddess_subs_message_routes @
     goddess_views_routes @ health_routes @ invitations_routes @ journal_routes @
     kinks_routes @ limits_routes @ me_preferences_routes @ merits_routes @
     money_previews_routes @ notifications_routes @ panic_routes @ payment_methods_routes @
     payments_routes @ penalty_rules_routes @ photo_routes @ profile_routes @
     public_invitation_routes @ reference_routes @ review_queue_routes @ rituals_routes @
     rolling_routes @ safeword_routes @ signup_routes @ sub_aftercare_routes @
     sub_medical_routes @ tasks_routes @ toys_routes @ tribute_minimum_routes @
     concat (map crud_routes crud_entities)"

lemmas route_lists = adjustments_routes_def
  admin_routes_def
  admin_cron_routes_def
  admin_janitor_routes_def
  auth_routes_def
  blacklist_routes_def
  consent_routes_def
  dashboards_routes_def
  goddess_photos_routes_def
  goddess_profile_routes_def
  goddess_rate_limits_routes_def
  goddess_subs_message_routes_def
  goddess_views_routes_def
  health_routes_def
  invitations_routes_def
  journal_routes_def
  kinks_routes_def
  limits_routes_def
  me_preferences_routes_def
  merits_routes_def
  money_previews_routes_def
  notifications_routes_def
  panic_routes_def
  payment_methods_routes_def
  payments_routes_def
  penalty_rules_routes_def
  photo_routes_def
  profile_routes_def
  public_invitation_routes_def
  reference_routes_def
  review_queue_routes_def
  rituals_routes_def
  rolling_routes_def
  safeword_routes_def
  signup_routes_def
  sub_aftercare_routes_def
  sub_medical_routes_def
  tasks_routes_def
  toys_routes_def
  tribute_minimum_routes_def

section \<open>Reading the table\<close>

definition area :: "string \<Rightarrow> string" where
  "area path = takeWhile (\<lambda>c. c \<noteq> CHR ''/'') (drop 1 path)"

text \<open>The guard that the first part of a path calls for.\<close>

definition area_guarded :: "route \<Rightarrow> bool" where
  "area_guarded rt \<longleftrightarrow>
     (let a = area (rt_path rt) in
      if a = ''goddess'' then (case rt_guard rt of Only R_goddess _ \<Rightarrow> True | _ \<Rightarrow> False)
      else if a = ''sub'' \<or> a = ''profile'' then (case rt_guard rt of Only R_sub _ \<Rightarrow> True | _ \<Rightarrow> False)
      else if a = ''admin'' then (case rt_guard rt of Only R_admin _ \<Rightarrow> True | _ \<Rightarrow> False)
      else if a = ''me'' \<or> a = ''consent'' \<or> a = ''reference'' \<or> rt_path rt = ''/auth/me''
        then (case rt_guard rt of Signed_in _ \<Rightarrow> True | _ \<Rightarrow> False)
      else rt_guard rt = Open)"

text \<open>The changes a goddess can make without an audit row of the decorator.\<close>

definition unaudited_routes :: "route list" where
  "unaudited_routes =
     [send_message_to_sub_route, mark_journal_entry_read_route, mark_aftercare_read_route, surprise_penalty_commit_route]"

definition preview_routes :: "route list" where
  "preview_routes = [surprise_penalty_preview_route, breach_preview_route, buyout_preview_route, buyout_intent_route]"

text \<open>The readings that write: a page of the journal stamps it, a reveal of a medical record is logged.\<close>

definition writing_reads :: "route list" where
  "writing_reads = [list_sub_journal_for_goddess_route, reveal_sub_medical_route]"

definition audit_complete :: "route \<Rightarrow> bool" where
  "audit_complete rt \<longleftrightarrow>
     (case rt_audit rt of
        None \<Rightarrow> \<not> (area (rt_path rt) = ''goddess'' \<and> rt_verb rt \<noteq> V_GET) \<or> rt \<in> set unaudited_routes \<or> rt \<in> set preview_routes
      | Some _ \<Rightarrow> rt_commits rt \<and> area (rt_path rt) = ''goddess'' \<and>
          (case rt_guard rt of Only _ a \<Rightarrow> a \<in> set actor_kwargs | _ \<Rightarrow> False))"

definition commits_as_it_should :: "route \<Rightarrow> bool" where
  "commits_as_it_should rt \<longleftrightarrow>
     rt_commits rt = ((rt_verb rt \<noteq> V_GET \<and> rt \<notin> set preview_routes) \<or> rt \<in> set writing_reads)"

text \<open>
  The routes whose function may still raise when it has committed: after the edit of a profile, a
  sub's by the goddess or one's own, the gender is looked up; after a new or changed row of the
  administration, the row is read again and checked against its schema.
\<close>

definition late_routes :: "route list" where
  "late_routes = [edit_sub_profile_route, update_profile_route] @
     concat (map (\<lambda>e. filter (\<lambda>rt. rt_verb rt = V_PATCH \<or> rt_verb rt = V_POST) (crud_routes e)) crud_entities)"

lemma routes_late: "filter rt_late all_routes = late_routes"
  by code_simp

lemma late_routes_commit: "list_all (\<lambda>rt. rt_commits rt \<and> rt_verb rt \<noteq> V_GET) late_routes"
  by code_simp

lemma late_listed:
  assumes "rt \<in> set all_routes" "rt_late rt"
  shows "rt \<in> set late_routes \<and> rt_commits rt \<and> rt_verb rt \<noteq> V_GET"
proof -
  have "rt \<in> set late_routes" unfolding routes_late [symmetric] using assms by simp
  then show ?thesis using late_routes_commit by (simp add: list_all_iff)
qed

lemma routes_guarded: "list_all area_guarded all_routes"
  by code_simp

lemma routes_audited: "list_all audit_complete all_routes"
  by code_simp

lemma routes_commit: "list_all commits_as_it_should all_routes"
  by code_simp

lemma unaudited_no_audit: "rt \<in> set unaudited_routes \<Longrightarrow> rt_audit rt = None"
  by (auto simp: unaudited_routes_def send_message_to_sub_route_def mark_journal_entry_read_route_def
      mark_aftercare_read_route_def surprise_penalty_commit_route_def)

lemmas table_facts = routes_guarded [unfolded list_all_iff] routes_audited [unfolded list_all_iff]
  routes_commit [unfolded list_all_iff]

end
