(* ===== verification/RouteAccess.thy ===== *)
theory RouteAccess
  imports RouteTable Boundaries
begin

text \<open>
  What the table of the routes and the course of a request give together: who reaches which
  handler, and which changes are on record.
\<close>

section \<open>Who reaches which handler\<close>

text \<open>
  C22: The handler of a route only ever runs for whom the path is meant. Below \<^verbatim>\<open>/goddess\<close> it runs for
  a goddess, below \<^verbatim>\<open>/sub\<close> and \<^verbatim>\<open>/profile\<close> for a sub, below \<^verbatim>\<open>/admin\<close> for an admin, below \<^verbatim>\<open>/me\<close>,
  \<^verbatim>\<open>/consent\<close> and \<^verbatim>\<open>/reference\<close> for somebody signed in, each time the user of the token of the
  request; without a user it runs for the invitations, the health checks and the routes of
  \<^verbatim>\<open>/auth\<close> only. This holds whatever the handler does.
\<close>

theorem role_confined:
  assumes "rt \<in> set all_routes" "run_route env rt args idof handler r s = (s', Inr (status, out))"
  shows "\<exists>who s1. handler who s = (s1, Inr out) \<and>
    (\<forall>u. who = Some u \<longrightarrow> (\<exists>c. get_auth_context (we_tokens env) (hr_authorization r) s = Inr c \<and> ax_user c = u)) \<and>
    (area (rt_path rt) = ''goddess'' \<longrightarrow> map_option u_role who = Some R_goddess) \<and>
    (area (rt_path rt) \<in> {''sub'', ''profile''} \<longrightarrow> map_option u_role who = Some R_sub) \<and>
    (area (rt_path rt) = ''admin'' \<longrightarrow> map_option u_role who = Some R_admin) \<and>
    (who = None \<longrightarrow> area (rt_path rt) \<notin> {''goddess'', ''sub'', ''profile'', ''admin'', ''me'', ''consent'', ''reference''} \<and>
       rt_path rt \<noteq> ''/auth/me'')"
proof -
  obtain who s1 where run: "admit env rt r s = Inr who" "handler who s = (s1, Inr out)"
    using assms(2) by (rule run_route_handler)
  have g: "guard_user env (rt_guard rt) r s = Inr who" by (rule admit_guard [OF run(1)])
  have area: "area_guarded rt" using table_facts(1) assms(1) by blast
  show ?thesis
  proof (cases "rt_guard rt")
    case Open
    then have "who = None" using g by (simp add: guard_user_def)
    moreover have "area (rt_path rt) \<notin> {''goddess'', ''sub'', ''profile'', ''admin'', ''me'', ''consent'', ''reference''} \<and>
        rt_path rt \<noteq> ''/auth/me''"
      using area Open by (auto simp: area_guarded_def Let_def split: if_splits)
    ultimately show ?thesis using run(2) by auto
  next
    case (Signed_in a)
    then obtain c where c: "get_auth_context (we_tokens env) (hr_authorization r) s = Inr c" "who = Some (ax_user c)"
      using g by (auto simp: res_simps)
    have "area (rt_path rt) \<notin> {''goddess'', ''sub'', ''profile'', ''admin''}"
      using area Signed_in by (auto simp: area_guarded_def Let_def)
    then show ?thesis using run(2) c by auto
  next
    case (Only role a)
    then obtain c where c: "get_auth_context (we_tokens env) (hr_authorization r) s = Inr c" "who = Some (ax_user c)"
        "u_role (ax_user c) = role"
      using g by (auto simp: res_simps)
    have "(area (rt_path rt) = ''goddess'' \<longrightarrow> role = R_goddess) \<and> (area (rt_path rt) \<in> {''sub'', ''profile''} \<longrightarrow> role = R_sub) \<and>
        (area (rt_path rt) = ''admin'' \<longrightarrow> role = R_admin)"
      using area Only by (cases role) (auto simp: area_guarded_def Let_def split: if_splits)
    then show ?thesis using run(2) c by auto
  qed
qed

text \<open>
  C23: A change that a goddess makes through a route is on record, if the request succeeds. When a route below
  \<^verbatim>\<open>/goddess\<close> that is no reading succeeds, the committed state is the one its handler left plus
  one row of the audit, which names the goddess, the kind of the route and the time and shows no
  secret of the body; the four routes without such a row are listed. A reading commits nothing,
  but for the two readings that stamp or log. A request that ends in an error commits nothing either, but for the
  listed routes that go on after their commit: the edit of a sub's profile by the goddess, the edit of
  the own profile, and new and changed rows of the administration. There the change stays, without a row of
  the decorator.
\<close>

theorem changes_audited:
  assumes "rt \<in> set all_routes" "\<forall>kv \<in> set args. fst kv \<notin> set actor_kwargs \<and> flat (snd kv)"
  shows "(\<forall>s' status out. run_route env rt args idof handler r s = (s', Inr (status, out)) \<longrightarrow>
      area (rt_path rt) = ''goddess'' \<longrightarrow> rt_verb rt \<noteq> V_GET \<longrightarrow> rt \<notin> set preview_routes \<longrightarrow>
      (\<exists>u s1. u_role u = R_goddess \<and> handler (Some u) s = (s1, Inr out) \<and>
         (if rt \<in> set unaudited_routes then s' = s1
          else s' = s1\<lparr>t_admin_actions := t_admin_actions s'\<rparr> \<and>
            (\<exists>kind entity payload. rt_audit rt = Some (kind, entity) \<and> t_admin_actions s' = t_admin_actions s1 @
               [\<lparr>aa_admin_id = u_id u, aa_acting_as_user_id = None, aa_action = kind, aa_entity = Some entity,
                 aa_entity_id = extract_entity_id (we_tokens env) (idof out), aa_payload = payload,
                 aa_created_at = we_now env\<rparr>] \<and>
               (\<forall>j. payload = Some j \<longrightarrow> masked redacted_keys j))))) \<and>
    (rt_verb rt = V_GET \<longrightarrow> rt \<notin> set writing_reads \<longrightarrow> fst (run_route env rt args idof handler r s) = s) \<and>
    (\<forall>s' e. run_route env rt args idof handler r s = (s', Inl e) \<longrightarrow>
       s' = s \<or> (rt \<in> set late_routes \<and> (\<exists>who. handler who s = (s', Inl e))))"
proof (intro conjI allI impI)
  have aud: "audit_complete rt" and com: "commits_as_it_should rt" and area: "area_guarded rt"
    using table_facts assms(1) by blast+
  fix s' status out
  assume run: "run_route env rt args idof handler r s = (s', Inr (status, out))" and path: "area (rt_path rt) = ''goddess''"
    and change: "rt_verb rt \<noteq> V_GET" and real: "rt \<notin> set preview_routes"
  have commits: "rt_commits rt" using com change real by (simp add: commits_as_it_should_def)
  obtain a where guard: "rt_guard rt = Only R_goddess a"
    using area path by (auto simp: area_guarded_def Let_def split: guard.splits user_role.splits)
  show "\<exists>u s1. u_role u = R_goddess \<and> handler (Some u) s = (s1, Inr out) \<and>
         (if rt \<in> set unaudited_routes then s' = s1
          else s' = s1\<lparr>t_admin_actions := t_admin_actions s'\<rparr> \<and>
            (\<exists>kind entity payload. rt_audit rt = Some (kind, entity) \<and> t_admin_actions s' = t_admin_actions s1 @
               [\<lparr>aa_admin_id = u_id u, aa_acting_as_user_id = None, aa_action = kind, aa_entity = Some entity,
                 aa_entity_id = extract_entity_id (we_tokens env) (idof out), aa_payload = payload,
                 aa_created_at = we_now env\<rparr>] \<and>
               (\<forall>j. payload = Some j \<longrightarrow> masked redacted_keys j)))"
  proof (cases "rt_audit rt")
    case None
    then have "rt \<in> set unaudited_routes" using aud change path real by (simp add: audit_complete_def)
    moreover obtain u where "u_role u = R_goddess" "handler (Some u) s = (s', Inr out)"
      by (rule run_route_silent [OF commits None guard run])
    ultimately show ?thesis by auto
  next
    case (Some ke)
    then obtain kind entity where ke: "rt_audit rt = Some (kind, entity)" by (cases ke) auto
    have actor: "a \<in> set actor_kwargs" using aud ke guard by (simp add: audit_complete_def)
    have listed: "rt \<notin> set unaudited_routes" using ke unaudited_no_audit by fastforce
    have plain: "\<forall>kv \<in> set args. fst kv \<notin> set actor_kwargs" "\<forall>kv \<in> set args. flat (snd kv)" using assms(2) by auto
    obtain u s1 where "u_role u = R_goddess" "handler (Some u) s = (s1, Inr out)" "s' = s1\<lparr>t_admin_actions := t_admin_actions s'\<rparr>"
      "\<exists>payload. t_admin_actions s' = t_admin_actions s1 @
         [\<lparr>aa_admin_id = u_id u, aa_acting_as_user_id = None, aa_action = kind, aa_entity = Some entity,
           aa_entity_id = extract_entity_id (we_tokens env) (idof out), aa_payload = payload, aa_created_at = we_now env\<rparr>] \<and>
         ((\<forall>kv \<in> set args. flat (snd kv)) \<longrightarrow> (\<forall>j. payload = Some j \<longrightarrow> masked redacted_keys j))"
      by (rule run_route_audited [OF commits ke guard actor plain(1) run])
    then show ?thesis using listed ke plain(2) by (intro exI [of _ u] exI [of _ s1]) simp
  qed
next
  assume "rt_verb rt = V_GET" "rt \<notin> set writing_reads"
  moreover have "audit_complete rt" "commits_as_it_should rt" using table_facts assms(1) by blast+
  ultimately have "\<not> rt_commits rt" "\<not> rt_late rt" "rt_audit rt = None"
    using late_listed [OF assms(1)] by (auto simp: commits_as_it_should_def audit_complete_def split: option.splits)
  then show "fst (run_route env rt args idof handler r s) = s" by (rule run_route_read_only)
next
  fix s' e
  assume "run_route env rt args idof handler r s = (s', Inl e)"
  then have "s' = s \<or> (rt_late rt \<and> (\<exists>who. handler who s = (s', Inl e)))" by (rule run_route_failed)
  then show "s' = s \<or> (rt \<in> set late_routes \<and> (\<exists>who. handler who s = (s', Inl e)))"
    using late_listed [OF assms(1)] by blast
qed

section \<open>A goddess acknowledges a limit\<close>

definition front :: web_env where
  "front = \<lparr>we_tokens = lib, we_iso = (\<lambda>_. ''now''), we_now = 5, we_medical_enabled = False, we_within_limit = (\<lambda>_. True)\<rparr>"

definition token_call :: "nat \<Rightarrow> http_request" where
  "token_call n = \<lparr>hr_scope = ''http'', hr_method = ''POST'', hr_path = ''/'', hr_authorization = Some (''Bearer '' @ replicate n CHR ''x'')\<rparr>"

definition unseen_limit :: store where
  "unseen_limit = (empty_store world)\<lparr>t_limits := [heights\<lparr>lm_acknowledged_at := None\<rparr>]\<rparr>"

definition acknowledging :: "user option \<Rightarrow> store \<Rightarrow> store \<times> sub_limit res" where
  "acknowledging who s =
     (case require who (RuntimeError ''no user'') (\<lambda>u. acknowledge_limit 5 (u_id u) 12 80 s) of
        Inl e \<Rightarrow> (s, Inl e) | Inr (s1, out) \<Rightarrow> (s1, Inr out))"

lemma token_call_context:
  "get_auth_context lib (hr_authorization (token_call 11)) unseen_limit = Inr \<lparr>ax_user = dom_user, ax_impersonator = None\<rparr>"
proof -
  have "is_bearer (''Bearer '' @ replicate 11 CHR ''x'')" by code_simp
  then show ?thesis
    by (simp add: get_auth_context_def token_call_def after_space_def lib_def unseen_limit_def user_by_id_def)
qed

lemma acknowledging_run:
  "\<exists>s'. run_route front acknowledge_limit_route [] (\<lambda>l. Id_uuid (lm_id l)) acknowledging (token_call 11) unseen_limit =
     (s', Inr (200, acknowledged 5 (heights\<lparr>lm_acknowledged_at := None\<rparr>)))"
proof -
  have "acknowledging (Some dom_user) unseen_limit = (unseen_limit\<lparr>t_limits :=
      modify lm_id 80 (acknowledged 5) (t_limits unseen_limit)\<rparr>, Inr (acknowledged 5 (heights\<lparr>lm_acknowledged_at := None\<rparr>)))"
    by (simp add: acknowledging_def acknowledge_limit_def assert_sub_under_goddess_def own_limit_def get_limit_def limit_at_def
        unseen_limit_def heights_def)
  moreover have "admit front acknowledge_limit_route (token_call 11) unseen_limit = Inr (Some dom_user)"
    using token_call_context
    by (simp add: admit_def acknowledge_limit_route_def route_of_def guard_user_def front_def require_role_def consent_given_def)
  ultimately show ?thesis by (simp add: run_route_def Let_def acknowledge_limit_route_def)
qed

lemma acknowledge_listed: "acknowledge_limit_route \<in> set all_routes"
  by (simp add: all_routes_def limits_routes_def)

lemma acknowledge_area [simp]: "area (rt_path acknowledge_limit_route) = ''goddess''" "rt_verb acknowledge_limit_route = V_POST"
  by (simp_all add: area_def acknowledge_limit_route_def)

lemma role_confined_witness:
  "\<exists>u s1 l. acknowledging (Some u) unseen_limit = (s1, Inr l) \<and> u_role u = R_goddess \<and> lm_acknowledged_at l = Some 5"
proof -
  obtain s' where "run_route front acknowledge_limit_route [] (\<lambda>l. Id_uuid (lm_id l)) acknowledging (token_call 11) unseen_limit =
      (s', Inr (200, acknowledged 5 (heights\<lparr>lm_acknowledged_at := None\<rparr>)))"
    using acknowledging_run by blast
  from role_confined [OF acknowledge_listed this]
  obtain who s1 where "acknowledging who unseen_limit = (s1, Inr (acknowledged 5 (heights\<lparr>lm_acknowledged_at := None\<rparr>)))"
      "map_option u_role who = Some R_goddess"
    by auto
  then show ?thesis by (cases who) (force simp: acknowledged_def)+
qed

lemma changes_audited_witness:
  "\<exists>s' l payload. run_route front acknowledge_limit_route [] (\<lambda>l. Id_uuid (lm_id l)) acknowledging (token_call 11) unseen_limit =
       (s', Inr (200, l)) \<and>
     map aa_action (t_admin_actions s') = [''limit_acknowledged''] \<and> map aa_entity_id (t_admin_actions s') = [Some 80]"
proof -
  let ?run = "run_route front acknowledge_limit_route [] (\<lambda>l. Id_uuid (lm_id l)) acknowledging (token_call 11) unseen_limit"
  obtain s' where run: "?run = (s', Inr (200, acknowledged 5 (heights\<lparr>lm_acknowledged_at := None\<rparr>)))"
    using acknowledging_run by blast
  have off: "acknowledge_limit_route \<notin> set preview_routes" "acknowledge_limit_route \<notin> set unaudited_routes"
    by code_simp+
  have kind: "rt_audit acknowledge_limit_route = Some (''limit_acknowledged'', ''sub_limit'')"
    by (simp add: acknowledge_limit_route_def)
  note result = changes_audited [OF acknowledge_listed, where args = "[]" and env = front and r = "token_call 11" and
      s = unseen_limit and handler = acknowledging and idof = "\<lambda>l. Id_uuid (lm_id l)"]
  have "\<exists>u s1. acknowledging (Some u) unseen_limit = (s1, Inr (acknowledged 5 (heights\<lparr>lm_acknowledged_at := None\<rparr>))) \<and>
      (\<exists>payload. t_admin_actions s' = t_admin_actions s1 @ [\<lparr>aa_admin_id = u_id u, aa_acting_as_user_id = None,
        aa_action = ''limit_acknowledged'', aa_entity = Some ''sub_limit'', aa_entity_id = Some 80, aa_payload = payload,
        aa_created_at = 5\<rparr>])"
    using result [THEN conjunct1, rule_format, OF _ run] off kind
    by (auto simp: front_def extract_entity_id_def acknowledged_def heights_def)
  moreover have "t_admin_actions s1 = []" if "acknowledging (Some u) unseen_limit = (s1, Inr l)" for u s1 l
    using that
    by (auto simp: acknowledging_def acknowledge_limit_def unseen_limit_def res_simps split: if_splits sum.splits prod.splits)
  ultimately show ?thesis using run by fastforce
qed

end
