(* ===== verification/Administration.thy ===== *)
theory Administration
  imports Access Penalty
begin

text \<open>
  The area of the administration: \<^verbatim>\<open>routers/admin.py\<close>. Its handlers are made for eleven tables by
  one function that works by reflection, so a row is here what reflection sees of it: a list of
  column names with their cells. What the database accepts beside NOT NULL columns and foreign
  keys among these tables, password hashing and the tables outside of this area are parameters.
\<close>

section \<open>Tables as reflection sees them\<close>

datatype cell = C_none | C_bool bool | C_num rat | C_str string | C_uuid uuid | C_time datetime | C_doc json

type_synonym row = "(string \<times> cell) list"

text \<open>What a column gets when it is not given: nothing, a new identifier, the time, or a value.\<close>

datatype column_default = D_none | D_id | D_now | D_value cell

record column =
  co_uuid :: bool
  co_nullable :: bool
  co_default :: column_default

record model =
  cr_entity :: string
  cr_columns :: "(string \<times> column) list"
  cr_searchable :: "string list"
  cr_forbidden :: "string list"

definition id_col :: "string \<times> column" where
  "id_col = (''id'', \<lparr>co_uuid = True, co_nullable = False, co_default = D_id\<rparr>)"

definition req :: "string \<Rightarrow> string \<times> column" where
  "req n = (n, \<lparr>co_uuid = False, co_nullable = False, co_default = D_none\<rparr>)"

definition opt :: "string \<Rightarrow> string \<times> column" where
  "opt n = (n, \<lparr>co_uuid = False, co_nullable = True, co_default = D_value C_none\<rparr>)"

definition ref :: "string \<Rightarrow> string \<times> column" where
  "ref n = (n, \<lparr>co_uuid = True, co_nullable = False, co_default = D_none\<rparr>)"

definition opt_ref :: "string \<Rightarrow> string \<times> column" where
  "opt_ref n = (n, \<lparr>co_uuid = True, co_nullable = True, co_default = D_value C_none\<rparr>)"

definition stamp :: "string \<Rightarrow> string \<times> column" where
  "stamp n = (n, \<lparr>co_uuid = False, co_nullable = False, co_default = D_now\<rparr>)"

definition preset :: "string \<Rightarrow> cell \<Rightarrow> string \<times> column" where
  "preset n v = (n, \<lparr>co_uuid = False, co_nullable = False, co_default = D_value v\<rparr>)"

definition default_forbidden :: "string list" where
  "default_forbidden = [''id'', ''created_at'']"

definition users_model :: model where
  "users_model = \<lparr>cr_entity = ''users'',
     cr_columns = [id_col, opt_ref ''goddess_id'', req ''username'', req ''email'', req ''password_hash'', req ''role'',
       preset ''status'' (C_str ''active''), opt ''first_name'', opt ''last_name'', opt ''twitter_handle'', opt ''source_note'',
       preset ''avatar_key'' (C_str ''default''), opt ''payment_handle'', opt ''bio'', preset ''theme_preference'' (C_str ''system''),
       opt ''last_login_at'', opt ''gender'', opt ''pronouns'', opt ''location'', opt ''timezone'', opt ''date_of_birth'',
       opt ''real_name'', stamp ''created_at''],
     cr_searchable = [''username'', ''email'', ''first_name'', ''last_name''],
     cr_forbidden = [''id'', ''password_hash'', ''role'', ''goddess_id'', ''created_at'']\<rparr>"

definition goddesses_model :: model where
  "goddesses_model = \<lparr>cr_entity = ''goddesses'',
     cr_columns = [id_col, req ''display_name'', req ''email'', req ''password_hash'', stamp ''created_at''],
     cr_searchable = [''display_name'', ''email''], cr_forbidden = [''id'', ''password_hash'', ''created_at'']\<rparr>"

definition invitations_model :: model where
  "invitations_model = \<lparr>cr_entity = ''invitations'',
     cr_columns = [id_col, req ''token'', ref ''goddess_id'', req ''entry_tribute_amount'', opt ''note'', req ''expires_at'',
       opt ''used_at'', opt_ref ''used_by_user_id'', stamp ''created_at''],
     cr_searchable = [''token'', ''note''], cr_forbidden = default_forbidden\<rparr>"

definition payment_methods_model :: model where
  "payment_methods_model = \<lparr>cr_entity = ''payment_methods'',
     cr_columns = [id_col, ref ''goddess_id'', req ''name'', req ''type'', req ''handle_or_link'', opt ''note'',
       preset ''enabled'' (C_bool True), preset ''sort_order'' (C_num 0), stamp ''created_at'', stamp ''updated_at''],
     cr_searchable = [''name'', ''handle_or_link'', ''note''], cr_forbidden = default_forbidden\<rparr>"

definition payment_declarations_model :: model where
  "payment_declarations_model = \<lparr>cr_entity = ''payment_declarations'',
     cr_columns = [id_col, ref ''sub_id'', ref ''goddess_id'', ref ''method_id'', req ''amount'', opt ''external_timestamp'',
       opt ''note'', req ''category'', preset ''status'' (C_str ''pending''), opt_ref ''target_id'', ref ''created_by'',
       stamp ''declared_at'', opt ''validated_at'', opt_ref ''validated_by'', opt ''rejection_reason'',
       preset ''source'' (C_str ''sub_declared''), opt ''proof_key''],
     cr_searchable = [''note'', ''rejection_reason''], cr_forbidden = default_forbidden\<rparr>"

definition rolling_tributes_model :: model where
  "rolling_tributes_model = \<lparr>cr_entity = ''rolling_tributes'',
     cr_columns = [id_col, ref ''sub_id'', ref ''goddess_id'', preset ''amount'' (C_num 0), req ''deadline_day'',
       req ''deadline_time'', preset ''late_multiplier_per_day'' (C_num 1), preset ''paused'' (C_bool False), opt ''notes'',
       opt ''last_paid_at'', stamp ''created_at'', stamp ''updated_at''],
     cr_searchable = [''notes''], cr_forbidden = default_forbidden\<rparr>"

text \<open>The columns of a contract are those of the migrations, as in the rest of the development.\<close>

definition debt_contracts_model :: model where
  "debt_contracts_model = \<lparr>cr_entity = ''debt_contracts'',
     cr_columns = [id_col, ref ''sub_id'', ref ''goddess_id'', req ''sub_initiated'', req ''principal'', req ''interest_rate'',
       req ''interest_period'', req ''duration_periods'', req ''payment_frequency'', req ''minimum_payment'',
       req ''late_penalty_severity'', req ''late_penalty_percent'', req ''dom_can_add_surprise_penalty'',
       req ''mid_contract_addition_mode'', req ''exit_amount'', req ''status'', opt_ref ''current_version_id'',
       opt ''signature_b64'', opt ''signed_at'', req ''balance'', preset ''clauses_json'' (C_doc (J_list [])), opt ''review_at'',
       preset ''renewal_policy'' (C_str ''none''), req ''slug'', stamp ''created_at'', stamp ''updated_at''],
     cr_searchable = [], cr_forbidden = default_forbidden\<rparr>"

definition blacklist_entries_model :: model where
  "blacklist_entries_model = \<lparr>cr_entity = ''blacklist_entries'',
     cr_columns = [id_col, ref ''goddess_id'', ref ''sub_id'', opt ''reason'', req ''balance_snapshot'',
       opt ''reinstatement_fee_paid'', stamp ''breached_at'', opt ''forgiven_at'', stamp ''created_at''],
     cr_searchable = [''reason''], cr_forbidden = default_forbidden\<rparr>"

definition notifications_model :: model where
  "notifications_model = \<lparr>cr_entity = ''notifications'',
     cr_columns = [id_col, ref ''user_id'', opt_ref ''actor_user_id'', req ''type'', req ''title'', opt ''body'', opt ''link'',
       opt ''payload'', opt ''read_at'', stamp ''created_at''],
     cr_searchable = [''title'', ''body''], cr_forbidden = default_forbidden\<rparr>"

definition debt_events_model :: model where
  "debt_events_model = \<lparr>cr_entity = ''debt_events'',
     cr_columns = [id_col, ref ''contract_id'', req ''event_type'', req ''amount'', opt ''period_index'', opt ''note'',
       stamp ''created_at''],
     cr_searchable = [''note''], cr_forbidden = default_forbidden\<rparr>"

definition contract_adjustments_model :: model where
  "contract_adjustments_model = \<lparr>cr_entity = ''contract_adjustments'',
     cr_columns = [id_col, ref ''contract_id'', ref ''proposed_by'', opt ''kind'', req ''amount'', opt ''reason'', req ''status'',
       stamp ''created_at'', stamp ''updated_at'', opt ''resolved_at''],
     cr_searchable = [''reason''], cr_forbidden = default_forbidden\<rparr>"

definition crud_models :: "model list" where
  "crud_models =
     [users_model, goddesses_model, invitations_model, payment_methods_model, payment_declarations_model,
      rolling_tributes_model, debt_contracts_model, blacklist_entries_model, notifications_model, debt_events_model,
      contract_adjustments_model]"

section \<open>The state and the database\<close>

record admin_db =
  ad_rows :: "string \<Rightarrow> row list"
  ad_actions :: "admin_action list"
  ad_rest :: db \<comment> \<open>the tables of rules and tiers, of which this area only sees the seed\<close>

record admin_config =
  ac_tokens :: token_library
  ac_hash :: "string \<Rightarrow> string"
  ac_stores :: "model \<Rightarrow> row \<Rightarrow> admin_db \<Rightarrow> row res" \<comment> \<open>the database's types, uniqueness and references: an error, or the row as stored\<close>
  ac_referenced :: "string \<Rightarrow> uuid \<Rightarrow> bool" \<comment> \<open>a table outside of this area forbids to delete the row\<close>
  ac_fresh :: "string \<Rightarrow> uuid" \<comment> \<open>identifiers of the default rules of a new goddess\<close>

definition cell_of :: "row \<Rightarrow> string \<Rightarrow> cell" where
  "cell_of r n = (case map_of r n of None \<Rightarrow> C_none | Some v \<Rightarrow> v)"

definition row_is :: "uuid \<Rightarrow> row \<Rightarrow> bool" where
  "row_is k r \<longleftrightarrow> cell_of r ''id'' = C_uuid k"

definition set_cell :: "string \<Rightarrow> cell \<Rightarrow> row \<Rightarrow> row" where
  "set_cell n v r = map (\<lambda>(m, w). (m, if m = n then v else w)) r"

definition put_rows :: "string \<Rightarrow> row list \<Rightarrow> admin_db \<Rightarrow> admin_db" where
  "put_rows e rs s = s\<lparr>ad_rows := (ad_rows s)(e := rs)\<rparr>"

text \<open>A flush of a new or changed row: NOT NULL columns first, then the rest.\<close>

definition flush_row :: "admin_config \<Rightarrow> model \<Rightarrow> row \<Rightarrow> admin_db \<Rightarrow> row res" where
  "flush_row cfg m r s =
     raise_if (list_ex (\<lambda>(n, c). \<not> co_nullable c \<and> cell_of r n = C_none) (cr_columns m)) (IntegrityError ''not null'')
       (ac_stores cfg m r s)"

datatype on_delete = Cascade | Set_null | Restrict

type_synonym foreign_key = "string \<times> string \<times> string \<times> on_delete" \<comment> \<open>child, column, parent, what a deletion of the parent does\<close>

text \<open>The foreign keys among these tables, one list for each child.\<close>

definition users_keys :: "foreign_key list" where
  "users_keys = [(''users'', ''goddess_id'', ''goddesses'', Restrict)]"

definition invitations_keys :: "foreign_key list" where
  "invitations_keys = [(''invitations'', ''goddess_id'', ''goddesses'', Restrict), (''invitations'', ''used_by_user_id'', ''users'', Set_null)]"

definition payment_methods_keys :: "foreign_key list" where
  "payment_methods_keys = [(''payment_methods'', ''goddess_id'', ''goddesses'', Cascade)]"

definition payment_declarations_keys :: "foreign_key list" where
  "payment_declarations_keys = [(''payment_declarations'', ''sub_id'', ''users'', Restrict), (''payment_declarations'', ''goddess_id'', ''goddesses'', Restrict),
     (''payment_declarations'', ''method_id'', ''payment_methods'', Restrict), (''payment_declarations'', ''created_by'', ''users'', Restrict),
     (''payment_declarations'', ''validated_by'', ''users'', Restrict)]"

definition rolling_tributes_keys :: "foreign_key list" where
  "rolling_tributes_keys = [(''rolling_tributes'', ''sub_id'', ''users'', Cascade), (''rolling_tributes'', ''goddess_id'', ''goddesses'', Cascade)]"

definition debt_contracts_keys :: "foreign_key list" where
  "debt_contracts_keys = [(''debt_contracts'', ''sub_id'', ''users'', Restrict), (''debt_contracts'', ''goddess_id'', ''goddesses'', Restrict)]"

definition blacklist_entries_keys :: "foreign_key list" where
  "blacklist_entries_keys = [(''blacklist_entries'', ''goddess_id'', ''goddesses'', Restrict), (''blacklist_entries'', ''sub_id'', ''users'', Restrict)]"

definition notifications_keys :: "foreign_key list" where
  "notifications_keys = [(''notifications'', ''user_id'', ''users'', Cascade), (''notifications'', ''actor_user_id'', ''users'', Set_null)]"

definition debt_events_keys :: "foreign_key list" where
  "debt_events_keys = [(''debt_events'', ''contract_id'', ''debt_contracts'', Cascade)]"

definition contract_adjustments_keys :: "foreign_key list" where
  "contract_adjustments_keys = [(''contract_adjustments'', ''contract_id'', ''debt_contracts'', Cascade), (''contract_adjustments'', ''proposed_by'', ''users'', Restrict)]"

definition foreign_keys :: "foreign_key list" where
  "foreign_keys =
     users_keys @ invitations_keys @ payment_methods_keys @ payment_declarations_keys @ rolling_tributes_keys @
     debt_contracts_keys @ blacklist_entries_keys @ notifications_keys @ debt_events_keys @ contract_adjustments_keys"

lemmas key_defs = foreign_keys_def users_keys_def invitations_keys_def payment_methods_keys_def payment_declarations_keys_def rolling_tributes_keys_def debt_contracts_keys_def blacklist_entries_keys_def notifications_keys_def debt_events_keys_def contract_adjustments_keys_def

text \<open>The rows of table \<open>e'\<close> that go with the row \<open>k\<close> of table \<open>e\<close>; no table that goes with another has one that goes with it.\<close>

definition goes_with :: "string \<Rightarrow> uuid \<Rightarrow> string \<Rightarrow> row \<Rightarrow> bool" where
  "goes_with e k e' r \<longleftrightarrow> (e' = e \<and> row_is k r) \<or>
     list_ex (\<lambda>(child, col, parent, rule). child = e' \<and> parent = e \<and> rule = Cascade \<and> cell_of r col = C_uuid k) foreign_keys"

definition restricted :: "string \<Rightarrow> uuid \<Rightarrow> admin_db \<Rightarrow> bool" where
  "restricted e k s \<longleftrightarrow>
     list_ex (\<lambda>(child, col, parent, rule). rule = Restrict \<and>
       list_ex (\<lambda>r. list_ex (\<lambda>p. goes_with e k parent p \<and> cell_of p ''id'' = cell_of r col) (ad_rows s parent)) (ad_rows s child))
       foreign_keys"

definition unlink :: "string \<Rightarrow> uuid \<Rightarrow> string \<Rightarrow> row \<Rightarrow> row" where
  "unlink e k e' r =
     map (\<lambda>(n, v). (n, if (e', n, e, Set_null) \<in> set foreign_keys \<and> v = C_uuid k then C_none else v)) r"

text \<open>The audit belongs to its author: it goes with the user, and forgets whom the author stood for.\<close>

definition actions_after_delete :: "string \<Rightarrow> uuid \<Rightarrow> admin_action list \<Rightarrow> admin_action list" where
  "actions_after_delete e k as =
     (if e \<noteq> ''users'' then as
      else map (\<lambda>a. if aa_acting_as_user_id a = Some k then a\<lparr>aa_acting_as_user_id := None\<rparr> else a)
        (filter (\<lambda>a. aa_admin_id a \<noteq> k) as))"

definition delete_row :: "admin_config \<Rightarrow> string \<Rightarrow> uuid \<Rightarrow> admin_db \<Rightarrow> admin_db res" where
  "delete_row cfg e k s =
     raise_if (restricted e k s \<or> ac_referenced cfg e k) (IntegrityError ''foreign key'') (
     Inr \<lparr>ad_rows = (\<lambda>e'. map (unlink e k e') (filter (\<lambda>r. \<not> goes_with e k e' r) (ad_rows s e'))),
          ad_actions = actions_after_delete e k (ad_actions s), ad_rest = ad_rest s\<rparr>)"

section \<open>Helpers of the handlers\<close>

fun json_cell :: "json \<Rightarrow> cell" where
  "json_cell J_null = C_none"
| "json_cell (J_bool b) = C_bool b"
| "json_cell (J_num n) = C_num n"
| "json_cell (J_str x) = C_str x"
| "json_cell (J_list vs) = C_doc (J_list vs)"
| "json_cell (J_obj kvs) = C_doc (J_obj kvs)"

definition safe_payload :: "(string \<times> json) list \<Rightarrow> (string \<times> json) list" where
  "safe_payload body = filter (\<lambda>(k, v). k \<notin> set [''password'', ''password_hash'']) body"

definition coerce_value :: "token_library \<Rightarrow> model \<Rightarrow> string \<Rightarrow> cell \<Rightarrow> cell" where
  "coerce_value t m key v =
     (case map_of (cr_columns m) key of
        None \<Rightarrow> v
      | Some c \<Rightarrow>
          (case v of
             C_str x \<Rightarrow> if co_uuid c then (case parse_uuid t x of Some k \<Rightarrow> C_uuid k | None \<Rightarrow> v) else v
           | _ \<Rightarrow> v))"

definition apply_patch :: "token_library \<Rightarrow> model \<Rightarrow> datetime \<Rightarrow> (string \<times> cell) list \<Rightarrow> row \<Rightarrow> row" where
  "apply_patch t m now patch r =
     (let r1 = fold (\<lambda>(k, v) r. if k \<in> fst ` set (cr_columns m) then set_cell k (coerce_value t m k v) r else r) patch r
      in if ''updated_at'' \<in> fst ` set (cr_columns m) then set_cell ''updated_at'' (C_time now) r1 else r1)"

definition handle_user_password :: "admin_config \<Rightarrow> (string \<times> json) list \<Rightarrow> (string \<times> cell) list" where
  "handle_user_password cfg body =
     (let copy = map (\<lambda>(k, v). (k, json_cell v)) (filter (\<lambda>(k, v). k \<noteq> ''password'') body)
      in case map_of body ''password'' of
           Some (J_str raw) \<Rightarrow> if raw \<noteq> [] then copy @ [(''password_hash'', C_str (ac_hash cfg raw))] else copy
         | _ \<Rightarrow> copy)"

definition check_forbidden :: "(string \<times> json) list \<Rightarrow> string list \<Rightarrow> unit res" where
  "check_forbidden body forbidden =
     raise_if (list_ex (\<lambda>f. f \<in> fst ` set body) forbidden) (BadRequest ''field is not admin-mutable'') (Inr ())"

definition effective :: "admin_config \<Rightarrow> model \<Rightarrow> (string \<times> json) list \<Rightarrow> (string \<times> cell) list" where
  "effective cfg m body =
     (if cr_entity m = ''users'' then handle_user_password cfg body else map (\<lambda>(k, v). (k, json_cell v)) body)"

definition admin_record ::
  "datetime \<Rightarrow> user \<Rightarrow> string \<Rightarrow> string \<Rightarrow> uuid \<Rightarrow> (string \<times> json) list option \<Rightarrow> admin_db \<Rightarrow> admin_db" where
  "admin_record now admin action entity k payload s =
     s\<lparr>ad_actions := ad_actions s @ [\<lparr>aa_admin_id = u_id admin, aa_acting_as_user_id = None, aa_action = action,
        aa_entity = Some entity, aa_entity_id = Some k, aa_payload = map_option J_obj payload, aa_created_at = now\<rparr>]\<rparr>"

section \<open>Reading\<close>

text \<open>
  \<^verbatim>\<open>ILIKE\<close>: the percent sign stands for any text, the underscore for any character, the backslash
  takes the next character as it is. The case of letters beyond ASCII is not modelled.
\<close>

fun like_match :: "string \<Rightarrow> string \<Rightarrow> bool" where
  "like_match [] xs = (xs = [])"
| "like_match (p # ps) xs =
     (if p = CHR ''%'' then like_match ps xs \<or> (case xs of [] \<Rightarrow> False | x # rest \<Rightarrow> like_match (p # ps) rest)
      else if p = CHR ''_'' then (case xs of [] \<Rightarrow> False | x # rest \<Rightarrow> like_match ps rest)
      else if p = CHR 0x5C then
        (case ps of [] \<Rightarrow> False | q # qs \<Rightarrow> (case xs of [] \<Rightarrow> False | x # rest \<Rightarrow> x = q \<and> like_match qs rest))
      else (case xs of [] \<Rightarrow> False | x # rest \<Rightarrow> x = p \<and> like_match ps rest))"

definition ilike :: "string \<Rightarrow> cell \<Rightarrow> bool" where
  "ilike pattern v = (case v of C_str x \<Rightarrow> like_match (map lower_char pattern) (map lower_char x) | _ \<Rightarrow> False)"

definition contains_pattern :: "string \<Rightarrow> string" where
  "contains_pattern q = CHR ''%'' # q @ [CHR ''%'']"

definition search_rows :: "model \<Rightarrow> string option \<Rightarrow> row list \<Rightarrow> row list" where
  "search_rows m q rows =
     (case q of
        None \<Rightarrow> rows
      | Some x \<Rightarrow>
          if x = [] \<or> cr_searchable m = [] then rows
          else filter (\<lambda>r. list_ex (\<lambda>f. ilike (contains_pattern x) (cell_of r f)) (cr_searchable m)) rows)"

definition one_page :: "nat \<Rightarrow> nat \<Rightarrow> 'a list \<Rightarrow> 'a list" where
  "one_page page page_size xs = take page_size (drop ((page - 1) * page_size) xs)"

text \<open>The rows of one page, with the number of all that match.\<close>

definition list_items :: "model \<Rightarrow> string option \<Rightarrow> nat \<Rightarrow> nat \<Rightarrow> admin_db \<Rightarrow> row list \<times> nat" where
  "list_items m q page page_size s =
     (let found = search_rows m q (ad_rows s (cr_entity m)) in (one_page page page_size found, length found))"

definition get_row :: "model \<Rightarrow> uuid \<Rightarrow> admin_db \<Rightarrow> row option" where
  "get_row m k s = find (row_is k) (ad_rows s (cr_entity m))"

definition get_item :: "model \<Rightarrow> uuid \<Rightarrow> admin_db \<Rightarrow> row res" where
  "get_item m k s = require (get_row m k s) (NotFound (cr_entity m @ '' not found'')) Inr"

section \<open>The export\<close>

definition excluded_fields :: "string list" where
  "excluded_fields = [''password_hash'']"

definition export_headers :: "model \<Rightarrow> string list" where
  "export_headers m = filter (\<lambda>n. n \<notin> set excluded_fields) (map fst (cr_columns m))"

definition export_line :: "model \<Rightarrow> row \<Rightarrow> cell list" where
  "export_line m r = map (cell_of r) (export_headers m)"

definition batch_size :: nat where
  "batch_size = 500"

text \<open>The loop of the generator, from an offset on; each chunk is one answer of the database.\<close>

function export_from :: "model \<Rightarrow> row list \<Rightarrow> nat \<Rightarrow> cell list list list" where
  "export_from m table offset =
     (let rows = take batch_size (drop offset table) in
      if rows = [] then []
      else if length rows < batch_size then [map (export_line m) rows]
      else map (export_line m) rows # export_from m table (offset + batch_size))"
  by pat_completeness auto

termination
  by (relation "measure (\<lambda>(m, table, offset). length table - offset)") (auto simp: batch_size_def)

definition export_csv :: "model \<Rightarrow> admin_db \<Rightarrow> string list \<times> cell list list list" where
  "export_csv m s = (export_headers m, export_from m (ad_rows s (cr_entity m)) 0)"

section \<open>Writing\<close>

definition store_row :: "model \<Rightarrow> uuid \<Rightarrow> row \<Rightarrow> admin_db \<Rightarrow> admin_db" where
  "store_row m k r s = put_rows (cr_entity m) (map (\<lambda>x. if row_is k x then r else x) (ad_rows s (cr_entity m))) s"

definition update_item ::
  "admin_config \<Rightarrow> datetime \<Rightarrow> user \<Rightarrow> model \<Rightarrow> uuid \<Rightarrow> (string \<times> json) list \<Rightarrow> admin_db \<Rightarrow> (admin_db \<times> row) res" where
  "update_item cfg now admin m k patch s =
     attempt (check_forbidden patch (cr_forbidden m)) (\<lambda>_.
     require (get_row m k s) (NotFound (cr_entity m @ '' not found'')) (\<lambda>r.
     attempt (flush_row cfg m (apply_patch (ac_tokens cfg) m now (effective cfg m patch) r) s) (\<lambda>r'.
     Inr (admin_record now admin ''admin_update'' (cr_entity m) k (Some (safe_payload patch)) (store_row m k r' s), r'))))"

definition new_row :: "model \<Rightarrow> uuid \<Rightarrow> datetime \<Rightarrow> (string \<times> cell) list \<Rightarrow> row" where
  "new_row m k now known =
     map (\<lambda>(n, c). (n, case map_of known n of
                          Some v \<Rightarrow> v
                        | None \<Rightarrow> (case co_default c of D_none \<Rightarrow> C_none | D_id \<Rightarrow> C_uuid k | D_now \<Rightarrow> C_time now | D_value v \<Rightarrow> v)))
       (cr_columns m)"

definition create_item ::
  "admin_config \<Rightarrow> datetime \<Rightarrow> user \<Rightarrow> model \<Rightarrow> uuid \<Rightarrow> (string \<times> json) list \<Rightarrow> admin_db \<Rightarrow> (admin_db \<times> row) res" where
  "create_item cfg now admin m k body s =
     attempt (check_forbidden body (cr_forbidden m)) (\<lambda>_.
     let known = filter (\<lambda>(n, v). n \<in> fst ` set (cr_columns m)) (effective cfg m body) in
     attempt (flush_row cfg m (new_row m k now known) s) (\<lambda>r.
     raise_if (get_row m k s \<noteq> None) (IntegrityError ''primary key'') (
     let s1 = put_rows (cr_entity m) (insert_row r (ad_rows s (cr_entity m))) s;
         s2 = (if cr_entity m = ''goddesses'' then s1\<lparr>ad_rest := seed_defaults_for_goddess (ac_fresh cfg) now k (ad_rest s1)\<rparr> else s1)
     in Inr (admin_record now admin ''admin_create'' (cr_entity m) k (Some (safe_payload body)) s2, r))))"

definition is_admin_row :: "row \<Rightarrow> bool" where
  "is_admin_row r \<longleftrightarrow> cell_of r ''role'' = C_str ''admin''"

definition admin_count :: "admin_db \<Rightarrow> nat" where
  "admin_count s = length (filter is_admin_row (ad_rows s ''users''))"

definition guarded_statuses :: "string list" where
  "guarded_statuses = [''active'', ''pending_sub'', ''pending_dom'', ''pending_dom_counter'', ''pending_sub_signature'']"

definition open_contracts :: "uuid \<Rightarrow> admin_db \<Rightarrow> nat" where
  "open_contracts k s =
     length (filter (\<lambda>c. cell_of c ''sub_id'' = C_uuid k \<and> cell_of c ''status'' \<in> set (map C_str guarded_statuses))
       (ad_rows s ''debt_contracts''))"

definition delete_guard :: "model \<Rightarrow> uuid \<Rightarrow> row \<Rightarrow> admin_db \<Rightarrow> unit res" where
  "delete_guard m k r s =
     (if cr_entity m = ''users'' then
        raise_if (is_admin_row r \<and> admin_count s \<le> 1) (Conflict ''Cannot delete the last admin.'') (
        raise_if (open_contracts k s > 0) (Conflict ''User has active contract(s). Close them first.'') (Inr ()))
      else Inr ())"

definition delete_item :: "admin_config \<Rightarrow> datetime \<Rightarrow> user \<Rightarrow> model \<Rightarrow> uuid \<Rightarrow> admin_db \<Rightarrow> admin_db res" where
  "delete_item cfg now admin m k s =
     require (get_row m k s) (NotFound (cr_entity m @ '' not found'')) (\<lambda>r.
     attempt (delete_guard m k r s) (\<lambda>_.
     delete_row cfg (cr_entity m) k (admin_record now admin ''admin_delete'' (cr_entity m) k None s)))"

section \<open>The listing of the audit\<close>

record action_filter =
  af_q :: "string option"
  af_kind :: "string option"
  af_actor_id :: "uuid option"
  af_date_from :: "int option" \<comment> \<open>days since the epoch\<close>
  af_date_to :: "int option"

definition action_matches :: "action_filter \<Rightarrow> admin_action \<Rightarrow> bool" where
  "action_matches f a \<longleftrightarrow>
     (case af_q f of None \<Rightarrow> True
      | Some x \<Rightarrow> x = [] \<or> ilike (contains_pattern x) (C_str (aa_action a)) \<or>
          (case aa_entity a of None \<Rightarrow> False | Some e \<Rightarrow> ilike (contains_pattern x) (C_str e))) \<and>
     (case af_kind f of None \<Rightarrow> True | Some x \<Rightarrow> x = [] \<or> aa_action a = x) \<and>
     (case af_actor_id f of None \<Rightarrow> True | Some k \<Rightarrow> aa_admin_id a = k) \<and>
     (case af_date_from f of None \<Rightarrow> True | Some d \<Rightarrow> d * us_per_day \<le> aa_created_at a) \<and>
     (case af_date_to f of None \<Rightarrow> True | Some d \<Rightarrow> aa_created_at a \<le> d * us_per_day + (us_per_day - 1))"

definition list_admin_actions :: "action_filter \<Rightarrow> nat \<Rightarrow> nat \<Rightarrow> admin_db \<Rightarrow> admin_action list \<times> nat" where
  "list_admin_actions f page page_size s =
     (let found = filter (action_matches f) (ad_actions s)
      in (one_page page page_size (sort_key (\<lambda>a. - aa_created_at a) found), length found))"

section \<open>Requests of an admin\<close>

datatype admin_request =
    Update_row model uuid "(string \<times> json) list"
  | Create_row model uuid "(string \<times> json) list"
  | Delete_row model uuid

fun run_admin :: "admin_config \<Rightarrow> datetime \<Rightarrow> user \<Rightarrow> admin_request \<Rightarrow> admin_db \<Rightarrow> admin_db res" where
  "run_admin cfg now admin (Update_row m k patch) s = attempt (update_item cfg now admin m k patch s) (\<lambda>(s', _). Inr s')"
| "run_admin cfg now admin (Create_row m k body) s = attempt (create_item cfg now admin m k body s) (\<lambda>(s', _). Inr s')"
| "run_admin cfg now admin (Delete_row m k) s = delete_item cfg now admin m k s"

fun model_of :: "admin_request \<Rightarrow> model" where
  "model_of (Update_row m k patch) = m"
| "model_of (Create_row m k body) = m"
| "model_of (Delete_row m k) = m"

text \<open>A request that raised is rolled back.\<close>

definition answer_admin :: "admin_config \<Rightarrow> datetime \<Rightarrow> user \<Rightarrow> admin_request \<Rightarrow> admin_db \<Rightarrow> admin_db" where
  "answer_admin cfg now admin rq s = (case run_admin cfg now admin rq s of Inl _ \<Rightarrow> s | Inr s' \<Rightarrow> s')"

inductive admin_reaches :: "admin_config \<Rightarrow> admin_db \<Rightarrow> admin_db \<Rightarrow> bool" for cfg s0 where
  start: "admin_reaches cfg s0 s0"
| step: "admin_reaches cfg s0 s \<Longrightarrow> model_of rq \<in> set crud_models \<Longrightarrow> admin_reaches cfg s0 (answer_admin cfg now admin rq s)"

section \<open>The export returns the table\<close>

declare export_from.simps [simp del]

lemma export_from_concat: "concat (export_from m table offset) = map (export_line m) (drop offset table)"
proof (induction m table offset rule: export_from.induct)
  case (1 m table offset)
  let ?rows = "take batch_size (drop offset table)"
  show ?case
  proof (cases "?rows \<noteq> [] \<and> \<not> length ?rows < batch_size")
    case True
    then have "export_from m table offset = map (export_line m) ?rows # export_from m table (offset + batch_size)"
      by (simp add: export_from.simps [of m table offset] Let_def)
    then have "concat (export_from m table offset) = map (export_line m) (?rows @ drop batch_size (drop offset table))"
      using 1 [OF refl] True by (simp add: add.commute)
    then show ?thesis by (simp only: append_take_drop_id)
  next
    case False
    then show ?thesis
      by (subst export_from.simps) (auto simp: Let_def batch_size_def min_def split: if_splits)
  qed
qed

lemma export_from_chunks: "c \<in> set (export_from m table offset) \<Longrightarrow> c \<noteq> [] \<and> length c \<le> batch_size"
proof (induction m table offset rule: export_from.induct)
  case (1 m table offset)
  from 1(2) show ?case
    by (subst (asm) export_from.simps) (use 1(1) [OF refl] in \<open>auto simp: Let_def split: if_splits\<close>)
qed

text \<open>
  An export holds every row once and no secret. The generator stops, whatever the size of
  the table; its chunks are of one to 500 lines and make up the rows of the table, one line each
  in the order of the table, and the hash of passwords is not among the columns.
\<close>

theorem export_complete:
  "fst (export_csv m s) = filter (\<lambda>n. n \<noteq> ''password_hash'') (map fst (cr_columns m)) \<and>
   concat (snd (export_csv m s)) = map (\<lambda>r. map (cell_of r) (fst (export_csv m s))) (ad_rows s (cr_entity m)) \<and>
   list_all (\<lambda>c. 1 \<le> length c \<and> length c \<le> 500) (snd (export_csv m s))"
  unfolding list_all_iff
proof (intro conjI ballI)
  show "fst (export_csv m s) = filter (\<lambda>n. n \<noteq> ''password_hash'') (map fst (cr_columns m))"
    by (simp add: export_csv_def export_headers_def excluded_fields_def)
  show "concat (snd (export_csv m s)) = map (\<lambda>r. map (cell_of r) (fst (export_csv m s))) (ad_rows s (cr_entity m))"
    by (simp add: export_csv_def export_from_concat export_line_def [abs_def])
  fix c assume "c \<in> set (snd (export_csv m s))"
  then have "c \<noteq> [] \<and> length c \<le> batch_size" by (intro export_from_chunks) (simp add: export_csv_def)
  then show "1 \<le> length c" "length c \<le> 500" by (auto simp: batch_size_def Suc_le_eq)
qed

section \<open>The search\<close>

definition plain_char :: "char \<Rightarrow> bool" where
  "plain_char c \<longleftrightarrow> c \<notin> set [CHR ''%'', CHR ''_'', CHR 0x5C]"

lemma like_match_plain:
  "list_all plain_char ps \<Longrightarrow> like_match (ps @ [CHR ''%'']) xs \<longleftrightarrow> (\<exists>vs. xs = ps @ vs)"
proof (induction ps arbitrary: xs)
  case Nil
  have "like_match [CHR ''%''] xs" by (induction xs) auto
  then show ?case by simp
next
  case (Cons p ps)
  then show ?case by (cases xs) (auto simp: plain_char_def)
qed

lemma like_match_contains:
  "list_all plain_char q \<Longrightarrow> like_match (contains_pattern q) xs \<longleftrightarrow> (\<exists>us vs. xs = us @ q @ vs)"
proof (induction xs)
  case Nil
  then show ?case using like_match_plain [of q "[]"] by (auto simp: contains_pattern_def)
next
  case (Cons x xs)
  have "like_match (contains_pattern q) (x # xs) \<longleftrightarrow> (\<exists>vs. x # xs = q @ vs) \<or> (\<exists>us vs. xs = us @ q @ vs)"
    using Cons like_match_plain [of q "x # xs"] by (simp add: contains_pattern_def)
  also have "\<dots> \<longleftrightarrow> (\<exists>us vs. x # xs = us @ q @ vs)"
    by (metis (no_types, lifting) append_Cons append_Nil append_eq_Cons_conv)
  finally show ?case .
qed

lemma lower_plain [simp]: "plain_char (lower_char c) \<longleftrightarrow> plain_char c"
proof (cases "65 \<le> (of_char c :: nat) \<and> (of_char c :: nat) \<le> 90")
  case True
  then have l: "(of_char (lower_char c) :: nat) = of_char c + 32" by (simp add: lower_char_def Let_def)
  have "d \<noteq> c" if "of_char d = (n :: nat)" "\<not> (65 \<le> n \<and> n \<le> 90)" for d n using that True by auto
  note upper = this [OF refl]
  have "d \<noteq> lower_char c" if "of_char d = (n :: nat)" "n < 97" for d n using that True l by auto
  note lower = this [OF refl]
  show ?thesis
    using upper [of "CHR ''%''"] lower [of "CHR ''%''"] upper [of "CHR ''_''"] lower [of "CHR ''_''"]
      upper [of "CHR 0x5C"] lower [of "CHR 0x5C"]
    by (auto simp: plain_char_def)
qed (auto simp: lower_char_def Let_def)

definition has_text :: "string \<Rightarrow> cell \<Rightarrow> bool" where
  "has_text q v \<longleftrightarrow> (\<exists>x us vs. v = C_str x \<and> map lower_char x = us @ map lower_char q @ vs)"

lemma lower_contains: "map lower_char (contains_pattern q) = contains_pattern (map lower_char q)"
  by (simp add: contains_pattern_def lower_char_def)

lemma ilike_contains: "list_all plain_char q \<Longrightarrow> ilike (contains_pattern q) v \<longleftrightarrow> has_text q v"
  by (auto simp: ilike_def has_text_def lower_contains like_match_contains list.pred_map comp_def split: cell.splits)

text \<open>
  The search finds the rows that hold the text. A search for a text without the special
  characters of the pattern language answers, page by page, exactly the rows in which one of
  the searchable columns contains the text, whatever the case, and their number.
\<close>

theorem search_is_containment:
  assumes "q \<noteq> []" and "list_all plain_char q" and "cr_searchable m \<noteq> []"
  shows "list_items m (Some q) page page_size s =
    (let found = filter (\<lambda>r. \<exists>f \<in> set (cr_searchable m). has_text q (cell_of r f)) (ad_rows s (cr_entity m))
     in (take page_size (drop ((page - 1) * page_size) found), length found))"
  using assms by (simp add: list_items_def search_rows_def one_page_def list_ex_iff ilike_contains)

lemma search_is_containment_witness:
  "list_items goddesses_model (Some ''MEAN'') 1 50
     \<lparr>ad_rows = (\<lambda>e. [[(''display_name'', C_str ''Mistress Meanmal''), (''email'', C_str ''a'')],
        [(''display_name'', C_str ''Someone''), (''email'', C_none)]]), ad_actions = [], ad_rest = empty_db\<rparr> =
   ([[(''display_name'', C_str ''Mistress Meanmal''), (''email'', C_str ''a'')]], 1)"
  (is "list_items _ _ _ _ ?s = _")
proof -
  have "has_text ''MEAN'' (C_str ''Mistress Meanmal'')"
    unfolding has_text_def
    by (intro exI [of _ "''Mistress Meanmal''"] exI [of _ "''mistress ''"] exI [of _ "''mal''"]) code_simp
  moreover have "\<not> ilike (contains_pattern ''MEAN'') (C_str ''a'')" "\<not> ilike (contains_pattern ''MEAN'') (C_str ''Someone'')"
    "\<not> ilike (contains_pattern ''MEAN'') C_none"
    by code_simp+
  then have "\<not> has_text ''MEAN'' (C_str ''a'')" "\<not> has_text ''MEAN'' (C_str ''Someone'')" "\<not> has_text ''MEAN'' C_none"
    by (simp_all add: ilike_contains plain_char_def)
  ultimately show ?thesis
    using search_is_containment [of "''MEAN''" goddesses_model 1 50 ?s]
    by (simp add: plain_char_def goddesses_model_def cell_of_def)
qed

section \<open>Rows stay of their model\<close>

text \<open>
  What the code relies on of the database: it answers a row with the columns of the row it was
  given, keeps what is null and what is an identifier, and an update leaves a cell that the
  update does not change.
\<close>

definition database_keeps :: "admin_config \<Rightarrow> bool" where
  "database_keeps cfg \<longleftrightarrow>
     (\<forall>m r s r'. ac_stores cfg m r s = Inr r' \<longrightarrow>
        map fst r' = map fst r \<and>
        (\<forall>n. cell_of r' n = C_none \<longleftrightarrow> cell_of r n = C_none) \<and>
        (\<forall>n k. cell_of r n = C_uuid k \<longrightarrow> cell_of r' n = C_uuid k) \<and>
        (\<forall>r0 n. r0 \<in> set (ad_rows s (cr_entity m)) \<and> cell_of r0 ''id'' = cell_of r ''id'' \<and> cell_of r n = cell_of r0 n \<longrightarrow>
           cell_of r' n = cell_of r0 n))"

definition row_typed :: "model \<Rightarrow> row \<Rightarrow> bool" where
  "row_typed m r \<longleftrightarrow>
     map fst r = map fst (cr_columns m) \<and>
     (case cell_of r ''id'' of C_uuid k \<Rightarrow> True | _ \<Rightarrow> False) \<and>
     list_all (\<lambda>(n, c). co_nullable c \<or> cell_of r n \<noteq> C_none) (cr_columns m)"

definition table_typed :: "model \<Rightarrow> row list \<Rightarrow> bool" where
  "table_typed m rows \<longleftrightarrow> list_all (row_typed m) rows \<and> distinct (map (\<lambda>r. cell_of r ''id'') rows)"

definition admin_db_typed :: "admin_db \<Rightarrow> bool" where
  "admin_db_typed s \<longleftrightarrow> list_all (\<lambda>m. table_typed m (ad_rows s (cr_entity m))) crud_models"

definition model_ok :: "model \<Rightarrow> bool" where
  "model_ok m \<longleftrightarrow> distinct (map fst (cr_columns m)) \<and> map_of (cr_columns m) ''id'' = Some (snd id_col) \<and>
     ''id'' \<in> set (cr_forbidden m) \<and> ''created_at'' \<in> set (cr_forbidden m) \<and>
     list_all (\<lambda>(child, col, parent, rule). rule = Set_null \<and> child = cr_entity m \<longrightarrow>
       (case map_of (cr_columns m) col of None \<Rightarrow> True | Some c \<Rightarrow> co_nullable c)) foreign_keys"

lemma models_ok: "m \<in> set crud_models \<Longrightarrow> model_ok m"
proof -
  have "list_all model_ok crud_models" by code_simp
  then show "m \<in> set crud_models \<Longrightarrow> model_ok m" by (simp add: list_all_iff)
qed

lemma entities_distinct: "distinct (map cr_entity crud_models)"
  by code_simp

lemma same_entity: "m \<in> set crud_models \<Longrightarrow> m' \<in> set crud_models \<Longrightarrow> cr_entity m = cr_entity m' \<Longrightarrow> m = m'"
  using entities_distinct by (auto simp: distinct_map dest: inj_onD)

lemma cell_of_map_default:
  "n \<in> fst ` set cs \<Longrightarrow> cell_of (map (\<lambda>(n, c). (n, f n c)) cs) n = f n (the (map_of cs n))"
  by (induction cs) (auto simp: cell_of_def)

lemma set_cell_fst [simp]: "map fst (set_cell n v r) = map fst r"
  by (induction r) (auto simp: set_cell_def)

lemma set_cell_other [simp]: "n' \<noteq> n \<Longrightarrow> cell_of (set_cell n v r) n' = cell_of r n'"
  by (induction r) (auto simp: set_cell_def cell_of_def)

lemma patch_fold_fst:
  "map fst (fold (\<lambda>(k, v) r. if k \<in> A then set_cell k (f k v) r else r) patch r) = map fst r"
  by (induction patch arbitrary: r) auto

lemma patch_fold_other:
  "n \<notin> fst ` set patch \<Longrightarrow> cell_of (fold (\<lambda>(k, v) r. if k \<in> A then set_cell k (f k v) r else r) patch r) n = cell_of r n"
  by (induction patch arbitrary: r) auto

lemma apply_patch_fst: "map fst (apply_patch t m now patch r) = map fst r"
  by (simp add: apply_patch_def Let_def patch_fold_fst)

lemma apply_patch_other:
  "n \<notin> fst ` set patch \<Longrightarrow> n \<noteq> ''updated_at'' \<Longrightarrow> cell_of (apply_patch t m now patch r) n = cell_of r n"
  by (simp add: apply_patch_def Let_def patch_fold_other)

lemma effective_keys:
  "n \<in> fst ` set (effective cfg m body) \<Longrightarrow> n \<in> fst ` set body \<or> (n = ''password_hash'' \<and> cr_entity m = ''users'')"
  by (auto simp: effective_def handle_user_password_def Let_def intro: rev_image_eqI split: if_splits option.splits json.splits)

lemma check_forbidden_Inr: "check_forbidden body fs = Inr u \<longleftrightarrow> set fs \<inter> fst ` set body = {}"
  by (auto simp: check_forbidden_def list_ex_iff res_simps)

text \<open>A request that passed the first check leaves the forbidden columns; the hash of a password is the exception.\<close>

lemma forbidden_kept:
  assumes "check_forbidden body (cr_forbidden m) = Inr u" and "n \<in> set (cr_forbidden m)" and "n \<noteq> ''password_hash''"
  shows "n \<notin> fst ` set (effective cfg m body)"
  using assms effective_keys [of n cfg m body] by (auto simp: check_forbidden_Inr)

lemma get_row_SomeD: "get_row m k s = Some r \<Longrightarrow> r \<in> set (ad_rows s (cr_entity m)) \<and> cell_of r ''id'' = C_uuid k"
  by (auto simp: get_row_def row_is_def find_Some_iff)

lemma flush_row_Inr:
  assumes "flush_row cfg m r s = Inr r'" and "database_keeps cfg"
  shows "ac_stores cfg m r s = Inr r'" and "map fst r' = map fst r"
    and "list_all (\<lambda>(n, c). co_nullable c \<or> cell_of r' n \<noteq> C_none) (cr_columns m)"
    and "cell_of r n = C_uuid k \<Longrightarrow> cell_of r' n = C_uuid k"
    and "r0 \<in> set (ad_rows s (cr_entity m)) \<Longrightarrow> cell_of r0 ''id'' = cell_of r ''id'' \<Longrightarrow>
      cell_of r n = cell_of r0 n \<Longrightarrow> cell_of r' n = cell_of r0 n"
proof -
  from assms(1) show st: "ac_stores cfg m r s = Inr r'" by (simp add: flush_row_def res_simps)
  note laws = assms(2) [unfolded database_keeps_def, rule_format, OF st]
  show "map fst r' = map fst r" using laws by blast
  show "list_all (\<lambda>(n, c). co_nullable c \<or> cell_of r' n \<noteq> C_none) (cr_columns m)"
    using assms(1) laws by (auto simp: flush_row_def res_simps list_ex_iff list_all_iff)
  show "cell_of r n = C_uuid k \<Longrightarrow> cell_of r' n = C_uuid k" using laws by blast
  show "r0 \<in> set (ad_rows s (cr_entity m)) \<Longrightarrow> cell_of r0 ''id'' = cell_of r ''id'' \<Longrightarrow>
      cell_of r n = cell_of r0 n \<Longrightarrow> cell_of r' n = cell_of r0 n"
    using laws by blast
qed

lemma typed_put:
  "admin_db_typed s \<Longrightarrow> m \<in> set crud_models \<Longrightarrow> table_typed m rows \<Longrightarrow>
   ad_rows s' = (ad_rows s)(cr_entity m := rows) \<Longrightarrow> admin_db_typed s'"
  by (auto simp: admin_db_typed_def list_all_iff dest: same_entity)

lemma typed_table: "admin_db_typed s \<Longrightarrow> m \<in> set crud_models \<Longrightarrow> table_typed m (ad_rows s (cr_entity m))"
  by (simp add: admin_db_typed_def list_all_iff)

text \<open>An update stores one row, which keeps the columns that are forbidden.\<close>

lemma update_item_Inr:
  assumes upd: "update_item cfg now admin m k patch s = Inr (s', r')" and db: "database_keeps cfg"
    and m: "m \<in> set crud_models"
  obtains r where "get_row m k s = Some r"
    and "ad_rows s' = (ad_rows s)(cr_entity m := map (\<lambda>x. if row_is k x then r' else x) (ad_rows s (cr_entity m)))"
    and "map fst r' = map fst r"
    and "list_all (\<lambda>(n, c). co_nullable c \<or> cell_of r' n \<noteq> C_none) (cr_columns m)"
    and "\<forall>n \<in> set (cr_forbidden m). n \<noteq> ''password_hash'' \<and> n \<noteq> ''updated_at'' \<longrightarrow> cell_of r' n = cell_of r n"
proof -
  from upd obtain u r where ok: "check_forbidden patch (cr_forbidden m) = Inr u" and r: "get_row m k s = Some r"
    and fl: "flush_row cfg m (apply_patch (ac_tokens cfg) m now (effective cfg m patch) r) s = Inr r'"
    and s': "ad_rows s' = (ad_rows s)(cr_entity m := map (\<lambda>x. if row_is k x then r' else x) (ad_rows s (cr_entity m)))"
    by (auto simp: update_item_def res_simps admin_record_def store_row_def put_rows_def)
  note f = flush_row_Inr [OF fl db]
  have kept: "cell_of (apply_patch (ac_tokens cfg) m now (effective cfg m patch) r) n = cell_of r n"
    if "n \<in> set (cr_forbidden m)" "n \<noteq> ''password_hash''" "n \<noteq> ''updated_at''" for n
    using that forbidden_kept [OF ok] by (intro apply_patch_other)
  have "''id'' \<in> set (cr_forbidden m)" using models_ok [OF m] by (simp add: model_ok_def)
  note i = kept [OF this, simplified]
  show thesis
  proof (rule that [OF r s'])
    show "map fst r' = map fst r" using f(2) by (simp add: apply_patch_fst)
    show "list_all (\<lambda>(n, c). co_nullable c \<or> cell_of r' n \<noteq> C_none) (cr_columns m)" by (rule f(3))
    show "\<forall>n \<in> set (cr_forbidden m). n \<noteq> ''password_hash'' \<and> n \<noteq> ''updated_at'' \<longrightarrow> cell_of r' n = cell_of r n"
      using f(5) get_row_SomeD [OF r] i kept by simp
  qed
qed

lemma typed_replace:
  assumes "table_typed m rows" and "row_typed m r'" and "cell_of r' ''id'' = C_uuid k"
  shows "table_typed m (map (\<lambda>x. if row_is k x then r' else x) rows)"
proof -
  have e: "map (\<lambda>r. cell_of r ''id'') (map (\<lambda>x. if row_is k x then r' else x) rows) = map (\<lambda>r. cell_of r ''id'') rows"
    using assms(3) by (auto simp: row_is_def)
  show ?thesis using assms(1,2) unfolding table_typed_def e by (auto simp: list_all_iff)
qed

lemma update_item_typed:
  assumes "update_item cfg now admin m k patch s = Inr (s', r')" "database_keeps cfg" "m \<in> set crud_models" "admin_db_typed s"
  shows "admin_db_typed s'"
proof -
  obtain r where r: "get_row m k s = Some r"
    and s': "ad_rows s' = (ad_rows s)(cr_entity m := map (\<lambda>x. if row_is k x then r' else x) (ad_rows s (cr_entity m)))"
    and cols: "map fst r' = map fst r"
    and nn: "list_all (\<lambda>(n, c). co_nullable c \<or> cell_of r' n \<noteq> C_none) (cr_columns m)"
    and kept: "\<forall>n \<in> set (cr_forbidden m). n \<noteq> ''password_hash'' \<and> n \<noteq> ''updated_at'' \<longrightarrow> cell_of r' n = cell_of r n"
    by (rule update_item_Inr [OF assms(1-3)])
  have i: "cell_of r' ''id'' = C_uuid k"
    using kept models_ok [OF assms(3)] get_row_SomeD [OF r] by (simp add: model_ok_def)
  have t: "table_typed m (ad_rows s (cr_entity m))" by (rule typed_table [OF assms(4,3)])
  then have "row_typed m r" using get_row_SomeD [OF r] by (simp add: table_typed_def list_all_iff)
  then have "row_typed m r'" using cols nn i by (simp add: row_typed_def)
  from typed_put [OF assms(4,3) typed_replace [OF t this i] s'] show ?thesis .
qed

text \<open>A creation appends one row, of which the forbidden columns have their defaults.\<close>

lemma new_row_fst: "map fst (new_row m k now known) = map fst (cr_columns m)"
  by (simp add: new_row_def comp_def case_prod_beta)

lemma new_row_default:
  assumes "map_of (cr_columns m) n = Some c" and "n \<notin> fst ` set known"
  shows "cell_of (new_row m k now known) n =
    (case co_default c of D_none \<Rightarrow> C_none | D_id \<Rightarrow> C_uuid k | D_now \<Rightarrow> C_time now | D_value v \<Rightarrow> v)"
proof -
  have "n \<in> fst ` set (cr_columns m)" using assms(1) by (metis map_of_SomeD fst_conv image_eqI)
  moreover have "map_of known n = None" using assms(2) by (simp add: map_of_eq_None_iff)
  ultimately show ?thesis using assms(1) by (simp add: new_row_def cell_of_map_default)
qed

lemma create_item_Inr:
  assumes crt: "create_item cfg now admin m k body s = Inr (s', r')" and db: "database_keeps cfg"
    and m: "m \<in> set crud_models"
  shows "get_row m k s = None"
    and "ad_rows s' = (ad_rows s)(cr_entity m := ad_rows s (cr_entity m) @ [r'])"
    and "row_typed m r'" and "cell_of r' ''id'' = C_uuid k"
proof -
  let ?known = "filter (\<lambda>(n, v). n \<in> fst ` set (cr_columns m)) (effective cfg m body)"
  from crt obtain u where ok: "check_forbidden body (cr_forbidden m) = Inr u" and new: "get_row m k s = None"
    and fl: "flush_row cfg m (new_row m k now ?known) s = Inr r'"
    and s': "ad_rows s' = (ad_rows s)(cr_entity m := ad_rows s (cr_entity m) @ [r'])"
    by (auto simp: create_item_def res_simps admin_record_def put_rows_def insert_row_def Let_def)
  note f = flush_row_Inr [OF fl db]
  have "''id'' \<notin> fst ` set (effective cfg m body)"
    using models_ok [OF m] by (intro forbidden_kept [OF ok]) (auto simp: model_ok_def)
  then have "''id'' \<notin> fst ` set ?known" by auto
  then have "cell_of (new_row m k now ?known) ''id'' = C_uuid k"
    using models_ok [OF m] by (simp add: new_row_default model_ok_def id_col_def)
  then show i: "cell_of r' ''id'' = C_uuid k" by (rule f(4))
  show "row_typed m r'" using f(2,3) i by (simp add: row_typed_def new_row_fst)
  show "get_row m k s = None" by (rule new)
  show "ad_rows s' = (ad_rows s)(cr_entity m := ad_rows s (cr_entity m) @ [r'])" by (rule s')
qed

lemma create_item_typed:
  assumes "create_item cfg now admin m k body s = Inr (s', r')" "database_keeps cfg" "m \<in> set crud_models" "admin_db_typed s"
  shows "admin_db_typed s'"
proof -
  note c = create_item_Inr [OF assms(1-3)]
  have "table_typed m (ad_rows s (cr_entity m) @ [r'])"
    using typed_table [OF assms(4,3)] c(1,3,4)
    by (auto simp: table_typed_def get_row_def find_None_iff row_is_def)
  from typed_put [OF assms(4,3) this c(2)] show ?thesis .
qed

text \<open>A deletion leaves rows that it may have unlinked, in columns that may be null.\<close>

lemma unlink_fst [simp]: "map fst (unlink e k e' r) = map fst r"
  by (induction r) (auto simp: unlink_def)

lemma unlink_cell:
  "cell_of (unlink e k e' r) n = (if (e', n, e, Set_null) \<in> set foreign_keys \<and> cell_of r n = C_uuid k then C_none else cell_of r n)"
  by (induction r) (auto simp: unlink_def cell_of_def)

lemma unlink_typed:
  assumes "m \<in> set crud_models" and "row_typed m r"
  shows "row_typed m (unlink e k (cr_entity m) r)" and "cell_of (unlink e k (cr_entity m) r) ''id'' = cell_of r ''id''"
proof -
  have mo: "model_ok m" by (rule models_ok [OF assms(1)])
  have nul: "co_nullable c" if "(cr_entity m, n, e, Set_null) \<in> set foreign_keys" "(n, c) \<in> set (cr_columns m)" for n c
    using mo that by (fastforce simp: model_ok_def list_all_iff)
  have "''id'' \<notin> {n. (cr_entity m, n, e, Set_null) \<in> set foreign_keys}"
    using nul [of "''id''" "snd id_col"] mo by (auto simp: model_ok_def id_col_def dest: map_of_SomeD)
  then show i: "cell_of (unlink e k (cr_entity m) r) ''id'' = cell_of r ''id''" by (simp add: unlink_cell)
  have "co_nullable c \<or> cell_of (unlink e k (cr_entity m) r) n \<noteq> C_none" if nc: "(n, c) \<in> set (cr_columns m)" for n c
    using assms(2) nul [OF _ nc] nc by (auto simp: row_typed_def unlink_cell list_all_iff)
  then show "row_typed m (unlink e k (cr_entity m) r)"
    using assms(2) by (auto simp: row_typed_def i list_all_iff)
qed

lemma delete_item_Inr:
  assumes "delete_item cfg now admin m k s = Inr s'"
  shows "ad_rows s' = (\<lambda>e'. map (unlink (cr_entity m) k e') (filter (\<lambda>r. \<not> goes_with (cr_entity m) k e' r) (ad_rows s e')))"
    and "\<exists>r. get_row m k s = Some r \<and> delete_guard m k r s = Inr ()"
  using assms by (auto simp: delete_item_def delete_row_def res_simps admin_record_def)

lemma delete_item_typed:
  assumes "delete_item cfg now admin m k s = Inr s'" "admin_db_typed s"
  shows "admin_db_typed s'"
proof -
  have "table_typed m' (ad_rows s' (cr_entity m'))" if m': "m' \<in> set crud_models" for m'
  proof -
    let ?rows = "filter (\<lambda>r. \<not> goes_with (cr_entity m) k (cr_entity m') r) (ad_rows s (cr_entity m'))"
    have t: "table_typed m' (ad_rows s (cr_entity m'))" by (rule typed_table [OF assms(2) m'])
    then have rows: "\<forall>r \<in> set ?rows. row_typed m' r" "distinct (map (\<lambda>r. cell_of r ''id'') ?rows)"
      by (auto simp: table_typed_def list_all_iff intro: distinct_map_filter)
    have e: "map (\<lambda>r. cell_of r ''id'') (map (unlink (cr_entity m) k (cr_entity m')) ?rows) = map (\<lambda>r. cell_of r ''id'') ?rows"
      using rows(1) unlink_typed(2) [OF m'] by simp
    show ?thesis
      using rows unlink_typed(1) [OF m'] unfolding table_typed_def delete_item_Inr(1) [OF assms(1)] e
      by (auto simp: list_all_iff)
  qed
  then show ?thesis by (simp add: admin_db_typed_def list_all_iff)
qed

section \<open>What requests of admins keep\<close>

lemma run_admin_typed:
  assumes "run_admin cfg now admin rq s = Inr s'" "database_keeps cfg" "model_of rq \<in> set crud_models" "admin_db_typed s"
  shows "admin_db_typed s'"
  using assms
  by (cases rq) (auto simp: res_simps dest: update_item_typed create_item_typed delete_item_typed)

lemma answer_admin_cases:
  obtains "answer_admin cfg now admin rq s = s"
  | "run_admin cfg now admin rq s = Inr (answer_admin cfg now admin rq s)"
  by (cases "run_admin cfg now admin rq s") (auto simp: answer_admin_def)

text \<open>
  C25: the rows of the eleven tables stay of their model. After any sequence of requests of
  admins, accepted or refused, each row has exactly the columns of its model, its identifier is a
  UUID that no other row of the table has, and no column that must not be null is null; given a
  database that keeps what it stores.
\<close>

theorem admin_rows_typed:
  assumes "admin_reaches cfg s0 s" and "database_keeps cfg" and "admin_db_typed s0"
  shows "admin_db_typed s"
  using assms(1)
proof induction
  case start
  show ?case by (rule assms(3))
next
  case (step s rq now admin)
  show ?case
  proof (cases rule: answer_admin_cases [of cfg now admin rq s])
    case 1
    then show ?thesis using step.IH by simp
  next
    case 2
    from run_admin_typed [OF this assms(2) step.hyps(2) step.IH] show ?thesis .
  qed
qed

text \<open>The rows of users: no request of an admin adds one, and one that stays keeps what is forbidden.\<close>

lemma required_unset:
  assumes "map_of (cr_columns m) n = Some c" "co_default c = D_none" "\<not> co_nullable c"
    and "n \<notin> fst ` set (effective cfg m body)"
  shows "flush_row cfg m (new_row m k now (filter (\<lambda>(n, v). n \<in> fst ` set (cr_columns m)) (effective cfg m body))) s =
    Inl (IntegrityError ''not null'')"
proof -
  let ?known = "filter (\<lambda>(n, v). n \<in> fst ` set (cr_columns m)) (effective cfg m body)"
  have "n \<notin> fst ` set ?known" using assms(4) by auto
  then have "cell_of (new_row m k now ?known) n = C_none" using assms(1,2) by (simp add: new_row_default)
  then have "list_ex (\<lambda>(n, c). \<not> co_nullable c \<and> cell_of (new_row m k now ?known) n = C_none) (cr_columns m)"
    using assms(1,3) by (auto simp: list_ex_iff dest!: map_of_SomeD intro!: bexI [of _ "(n, c)"])
  then show ?thesis by (simp add: flush_row_def)
qed

lemma no_new_user:
  assumes "check_forbidden body (cr_forbidden users_model) = Inr u"
  shows "create_item cfg now admin users_model k body s = Inl (IntegrityError ''not null'')"
proof -
  have "''role'' \<notin> fst ` set (effective cfg users_model body)"
    by (rule forbidden_kept [OF assms]) (simp_all add: users_model_def)
  moreover have "map_of (cr_columns users_model) ''role'' = Some (snd (req ''role''))" by code_simp
  ultimately show ?thesis
    using assms required_unset [of users_model "''role''"] by (simp add: create_item_def Let_def req_def)
qed

lemma no_new_goddess:
  assumes "check_forbidden body (cr_forbidden goddesses_model) = Inr u"
  shows "create_item cfg now admin goddesses_model k body s = Inl (IntegrityError ''not null'')"
proof -
  have "''password_hash'' \<notin> fst ` set (effective cfg goddesses_model body)"
    using assms effective_keys [of "''password_hash''" cfg goddesses_model body]
    by (auto simp: check_forbidden_Inr goddesses_model_def)
  moreover have "map_of (cr_columns goddesses_model) ''password_hash'' = Some (snd (req ''password_hash''))" by code_simp
  ultimately show ?thesis
    using assms required_unset [of goddesses_model "''password_hash''"] by (simp add: create_item_def Let_def req_def)
qed

text \<open>
  The administration creates no account. The two creations that would make a user or a
  goddess always end in an error: the columns that a new account must have are among those that
  a body must not name. With a forbidden field the answer is the refusal of the body, without
  one it is the refusal of the database.
\<close>

theorem admin_creates_no_account:
  assumes "m = users_model \<or> m = goddesses_model"
  shows "create_item cfg now admin m k body s =
    Inl (if \<exists>n \<in> set (cr_forbidden m). n \<in> fst ` set body then BadRequest ''field is not admin-mutable''
         else IntegrityError ''not null'')"
proof (cases "\<exists>n \<in> set (cr_forbidden m). n \<in> fst ` set body")
  case True
  then show ?thesis by (simp add: create_item_def check_forbidden_def list_ex_iff)
next
  case False
  then have "check_forbidden body (cr_forbidden m) = Inr ()" by (auto simp: check_forbidden_Inr)
  then show ?thesis using assms False no_new_user no_new_goddess by auto
qed

lemma no_users_cascade: "goes_with e k ''users'' r \<longleftrightarrow> e = ''users'' \<and> row_is k r"
  by (auto simp: goes_with_def key_defs)

lemma no_users_unlink: "unlink e k ''users'' r = r"
proof -
  have "(''users'', n, e, Set_null) \<notin> set foreign_keys" for n by (auto simp: key_defs)
  then show ?thesis by (induction r) (auto simp: unlink_def)
qed

lemma users_model_entity: "m \<in> set crud_models \<Longrightarrow> cr_entity m = ''users'' \<Longrightarrow> m = users_model"
  by (rule same_entity) (simp_all add: crud_models_def users_model_def)

text \<open>The table of the users after an accepted request: the same, with one row changed, or without one row.\<close>

lemma users_after:
  assumes run: "run_admin cfg now admin rq s = Inr s'" and db: "database_keeps cfg" and m: "model_of rq \<in> set crud_models"
  obtains "ad_rows s' ''users'' = ad_rows s ''users''"
  | k r r' where "get_row users_model k s = Some r"
      and "ad_rows s' ''users'' = map (\<lambda>x. if row_is k x then r' else x) (ad_rows s ''users'')"
      and "\<forall>n \<in> {''id'', ''role'', ''goddess_id'', ''created_at''}. cell_of r' n = cell_of r n"
  | k r where "get_row users_model k s = Some r" and "delete_guard users_model k r s = Inr ()"
      and "ad_rows s' ''users'' = filter (\<lambda>x. \<not> row_is k x) (ad_rows s ''users'')"
proof (cases rq)
  case (Update_row m k patch)
  then obtain r' where upd: "update_item cfg now admin m k patch s = Inr (s', r')" using run by (auto simp: res_simps)
  have m': "m \<in> set crud_models" using m Update_row by simp
  obtain r where r: "get_row m k s = Some r"
    and s': "ad_rows s' = (ad_rows s)(cr_entity m := map (\<lambda>x. if row_is k x then r' else x) (ad_rows s (cr_entity m)))"
    and kept: "\<forall>n \<in> set (cr_forbidden m). n \<noteq> ''password_hash'' \<and> n \<noteq> ''updated_at'' \<longrightarrow> cell_of r' n = cell_of r n"
    by (rule update_item_Inr [OF upd db m'])
  show thesis
  proof (cases "cr_entity m = ''users''")
    case True
    then have mu: "m = users_model" using m' users_model_entity by simp
    show thesis using r s' kept that(2) [of k r r'] unfolding mu by (simp add: users_model_def)
  qed (use s' that(1) in simp)
next
  case (Create_row m k body)
  then obtain r' where crt: "create_item cfg now admin m k body s = Inr (s', r')" using run by (auto simp: res_simps)
  have m': "m \<in> set crud_models" using m Create_row by simp
  have "cr_entity m \<noteq> ''users''"
    using crt users_model_entity [OF m'] no_new_user [of body]
    by (cases "check_forbidden body (cr_forbidden m)") (auto simp: create_item_def)
  then show thesis using create_item_Inr(2) [OF crt db m'] that(1) by simp
next
  case (Delete_row m k)
  then have del: "delete_item cfg now admin m k s = Inr s'" using run by simp
  obtain r where r: "get_row m k s = Some r" "delete_guard m k r s = Inr ()" using delete_item_Inr(2) [OF del] by blast
  show thesis
  proof (cases "cr_entity m = ''users''")
    case True
    then have mu: "m = users_model" using m Delete_row users_model_entity by simp
    have "ad_rows s' ''users'' = filter (\<lambda>x. \<not> row_is k x) (ad_rows s ''users'')"
      using delete_item_Inr(1) [OF del] True by (simp add: no_users_cascade no_users_unlink map_idI)
    then show thesis using r that(3) unfolding mu by blast
  next
    case False
    then show thesis using delete_item_Inr(1) [OF del] that(1) by (simp add: no_users_cascade no_users_unlink map_idI)
  qed
qed

lemma the_row:
  assumes "table_typed m rows" and "r \<in> set rows" and "cell_of r ''id'' = C_uuid k"
  shows "filter (row_is k) rows = [r]"
proof -
  have "filter (\<lambda>x. cell_of x ''id'' = cell_of r ''id'') xs = [r]"
    if "distinct (map (\<lambda>r. cell_of r ''id'') xs)" "r \<in> set xs" for xs
    using that by (induction xs) (auto simp: image_iff filter_empty_conv)
  then show ?thesis using assms by (simp add: table_typed_def row_is_def [abs_def])
qed

lemma users_row_unique:
  assumes "admin_db_typed s" and "get_row users_model k s = Some r" and "x \<in> set (ad_rows s ''users'')" and "row_is k x"
  shows "x = r"
proof -
  have t: "table_typed users_model (ad_rows s ''users'')"
    using typed_table [OF assms(1), of users_model] by (simp add: crud_models_def users_model_def)
  have "r \<in> set (ad_rows s ''users'')" "cell_of r ''id'' = C_uuid k"
    using get_row_SomeD [OF assms(2)] by (simp_all add: users_model_def)
  then have "filter (row_is k) (ad_rows s ''users'') = [r]" by (rule the_row [OF t])
  moreover have "x \<in> set (filter (row_is k) (ad_rows s ''users''))" using assms(3,4) by simp
  ultimately show ?thesis by simp
qed

lemma admins_survive:
  assumes "run_admin cfg now admin rq s = Inr s'" "database_keeps cfg" "model_of rq \<in> set crud_models" "admin_db_typed s"
    and "0 < admin_count s"
  shows "0 < admin_count s'"
proof (cases rule: users_after [OF assms(1-3)])
  case 1
  then show ?thesis using assms(5) by (simp add: admin_count_def)
next
  case (2 k r r')
  have "is_admin_row (if row_is k x then r' else x) = is_admin_row x" if "x \<in> set (ad_rows s ''users'')" for x
    using users_row_unique [OF assms(4) 2(1) that] 2(3) by (auto simp: is_admin_row_def)
  then show ?thesis using assms(5) 2(2) by (auto simp: admin_count_def filter_map comp_def cong: filter_cong)
next
  case (3 k r)
  let ?us = "ad_rows s ''users''"
  have r: "r \<in> set ?us" using get_row_SomeD [OF 3(1)] by (simp add: users_model_def)
  have count: "length (filter is_admin_row us) =
      length (filter is_admin_row (filter (\<lambda>x. \<not> row_is k x) us)) + length (filter is_admin_row (filter (row_is k) us))" for us
    by (induction us) auto
  have split: "admin_count s = length (filter is_admin_row (filter (\<lambda>x. \<not> row_is k x) ?us)) + length (filter is_admin_row (filter (row_is k) ?us))"
    unfolding admin_count_def by (rule count)
  have "filter (row_is k) ?us = [r]"
    using typed_table [OF assms(4), of users_model] get_row_SomeD [OF 3(1)]
    by (intro the_row [of users_model]) (simp_all add: crud_models_def users_model_def)
  then have "0 < length (filter is_admin_row (filter (\<lambda>x. \<not> row_is k x) ?us))"
    using split assms(5) 3(2) by (auto simp: delete_guard_def res_simps users_model_def split: if_splits)
  then show ?thesis using 3(3) by (simp add: admin_count_def)
qed

text \<open>
  C24: the last admin stays. Whatever sequence of requests of admins reaches a state from a
  well-formed one with an admin, deletions of users by themselves included, an admin is left.
\<close>

theorem an_admin_remains:
  assumes "admin_reaches cfg s0 s" and "database_keeps cfg" and "admin_db_typed s0" and "0 < admin_count s0"
  shows "0 < admin_count s"
proof -
  have "admin_db_typed s \<and> 0 < admin_count s"
    using assms(1)
  proof induction
    case start
    show ?case using assms(3,4) by simp
  next
    case (step s rq now admin)
    show ?case
    proof (cases rule: answer_admin_cases [of cfg now admin rq s])
      case 1
      then show ?thesis using step.IH by simp
    next
      case 2
      show ?thesis
        using run_admin_typed [OF 2 assms(2) step.hyps(2)] admins_survive [OF 2 assms(2) step.hyps(2)] step.IH by simp
    qed
  qed
  then show ?thesis by blast
qed

text \<open>
  The administration raises nobody. Each user of a state that requests of admins reach was
  a user of the first state, under the same identifier, with the same role, the same goddess and
  the same time of creation.
\<close>

theorem no_role_changes:
  assumes "admin_reaches cfg s0 s" and "database_keeps cfg" and "r' \<in> set (ad_rows s ''users'')"
  shows "\<exists>r \<in> set (ad_rows s0 ''users''). \<forall>n \<in> {''id'', ''role'', ''goddess_id'', ''created_at''}. cell_of r' n = cell_of r n"
  using assms(1,3)
proof (induction arbitrary: r')
  case start
  then show ?case by blast
next
  case (step s rq now admin)
  show ?case
  proof (cases rule: answer_admin_cases [of cfg now admin rq s])
    case 1
    then show ?thesis using step by simp
  next
    case 2
    have "\<exists>x \<in> set (ad_rows s ''users''). \<forall>n \<in> {''id'', ''role'', ''goddess_id'', ''created_at''}. cell_of r' n = cell_of x n"
    proof (cases rule: users_after [OF 2 assms(2) step.hyps(2)])
      case (2 k r rn)
      then have "r \<in> set (ad_rows s ''users'')" using get_row_SomeD [OF 2(1)] by (simp add: users_model_def)
      then show ?thesis using 2 step.prems by (auto split: if_splits)
    qed (use step.prems in auto)
    then obtain x where x: "x \<in> set (ad_rows s ''users'')"
      and e: "\<forall>n \<in> {''id'', ''role'', ''goddess_id'', ''created_at''}. cell_of r' n = cell_of x n" by blast
    show ?thesis using step.IH [OF x] e by simp
  qed
qed

section \<open>The tables a request reaches\<close>

text \<open>The table of the request, and those whose foreign keys into it cascade or are set to null.\<close>

definition edit_reaches :: "string \<Rightarrow> string \<Rightarrow> bool" where
  "edit_reaches e e' \<longleftrightarrow>
     e' = e \<or> list_ex (\<lambda>(child, col, parent, rule). child = e' \<and> parent = e \<and> rule \<noteq> Restrict) foreign_keys"

lemma money_reached:
  "edit_reaches e ''debt_contracts'' \<longleftrightarrow> e = ''debt_contracts''"
  "edit_reaches e ''debt_events'' \<longleftrightarrow> e \<in> {''debt_contracts'', ''debt_events''}"
  "edit_reaches e ''contract_adjustments'' \<longleftrightarrow> e \<in> {''debt_contracts'', ''contract_adjustments''}"
  "edit_reaches e ''payment_declarations'' \<longleftrightarrow> e = ''payment_declarations''"
  unfolding edit_reaches_def key_defs by auto

lemma put_rows_spares: "e' \<noteq> e \<Longrightarrow> ad_rows (put_rows e rs s) e' = ad_rows s e'"
  by (simp add: put_rows_def)

lemma delete_row_spares:
  assumes "delete_row cfg e k s = Inr s'" "\<not> edit_reaches e e'"
  shows "ad_rows s' e' = ad_rows s e'"
proof -
  have "\<not> goes_with e k e' r" for r
    using assms(2) by (auto simp: goes_with_def edit_reaches_def list_ex_iff)
  moreover have "(e', n, e, Set_null) \<notin> set foreign_keys" for n
    using assms(2) by (auto simp: edit_reaches_def list_ex_iff)
  then have "unlink e k e' = id" by (intro ext) (simp add: unlink_def)
  ultimately show ?thesis using assms(1) by (auto simp: delete_row_def res_simps)
qed

text \<open>
  A request of the editor changes the rows of its own table and of the tables that
  it reaches only: contracts change by requests on contracts, ledger events and adjustments by requests on
  them or on contracts, payments by requests on payments.
\<close>

theorem admin_edits_spare:
  assumes "run_admin cfg now admin rq s = Inr s'" "\<not> edit_reaches (cr_entity (model_of rq)) e"
  shows "ad_rows s' e = ad_rows s e"
proof -
  have e: "e \<noteq> cr_entity (model_of rq)" using assms(2) by (auto simp: edit_reaches_def)
  show ?thesis
  proof (cases rq)
    case (Update_row m k patch)
    then show ?thesis using assms(1) e
      by (auto simp: update_item_def res_simps admin_record_def store_row_def put_rows_def)
  next
    case (Create_row m k body)
    then show ?thesis using assms(1) e
      by (auto simp: create_item_def res_simps Let_def admin_record_def put_rows_def)
  next
    case (Delete_row m k)
    then obtain s0 where "delete_row cfg (cr_entity m) k s0 = Inr s'" "ad_rows s0 = ad_rows s"
      using assms(1) by (auto simp: delete_item_def res_simps admin_record_def)
    then show ?thesis using delete_row_spares assms(2) Delete_row by simp
  qed
qed

section \<open>The audit of the administration\<close>

text \<open>What the audit is to hold of a request: who, what, on which row, with which fields, when.\<close>

definition audit_entry :: "string \<Rightarrow> model \<Rightarrow> uuid \<Rightarrow> (string \<times> json) list option \<Rightarrow> datetime \<Rightarrow> user \<Rightarrow> admin_action" where
  "audit_entry action m k body now admin =
     \<lparr>aa_admin_id = u_id admin, aa_acting_as_user_id = None, aa_action = action, aa_entity = Some (cr_entity m),
      aa_entity_id = Some k,
      aa_payload = map_option (\<lambda>kvs. J_obj (filter (\<lambda>(n, v). n \<noteq> ''password'' \<and> n \<noteq> ''password_hash'') kvs)) body,
      aa_created_at = now\<rparr>"

fun entry_of :: "datetime \<Rightarrow> user \<Rightarrow> admin_request \<Rightarrow> admin_action" where
  "entry_of now admin (Update_row m k patch) = audit_entry ''admin_update'' m k (Some patch) now admin"
| "entry_of now admin (Create_row m k body) = audit_entry ''admin_create'' m k (Some body) now admin"
| "entry_of now admin (Delete_row m k) = audit_entry ''admin_delete'' m k None now admin"

type_synonym timed_request = "datetime \<times> user \<times> admin_request"

definition answer_all :: "admin_config \<Rightarrow> timed_request list \<Rightarrow> admin_db \<Rightarrow> admin_db" where
  "answer_all cfg rqs s = fold (\<lambda>(now, admin, rq). answer_admin cfg now admin rq) rqs s"

text \<open>One entry for each request that was accepted, in their order.\<close>

fun accepted_entries :: "admin_config \<Rightarrow> timed_request list \<Rightarrow> admin_db \<Rightarrow> admin_action list" where
  "accepted_entries cfg [] s = []"
| "accepted_entries cfg ((now, admin, rq) # rqs) s =
     (case run_admin cfg now admin rq s of
        Inl e \<Rightarrow> accepted_entries cfg rqs s
      | Inr s' \<Rightarrow> entry_of now admin rq # accepted_entries cfg rqs s')"

definition deletes_account :: "uuid \<Rightarrow> admin_action \<Rightarrow> bool" where
  "deletes_account k a \<longleftrightarrow>
     aa_action a = ''admin_delete'' \<and> aa_entity a = Some ''users'' \<and> aa_entity_id a = Some k"

text \<open>The actions of an admin, but for the users they stood for, whom the audit may forget.\<close>

definition actions_by :: "uuid \<Rightarrow> admin_action list \<Rightarrow> admin_action list" where
  "actions_by k as = map (\<lambda>a. a\<lparr>aa_acting_as_user_id := None\<rparr>) (filter (\<lambda>a. aa_admin_id a = k) as)"

lemma actions_by_append: "actions_by k (as @ bs) = actions_by k as @ actions_by k bs"
  by (simp add: actions_by_def)

lemma actions_by_entry:
  "actions_by k (entry_of now admin rq # as) =
     (if u_id admin = k then entry_of now admin rq # actions_by k as else actions_by k as)"
  by (cases rq) (simp_all add: actions_by_def audit_entry_def)

lemma actions_by_deleted: "e \<noteq> ''users'' \<or> k' \<noteq> k \<Longrightarrow> actions_by k (actions_after_delete e k' as) = actions_by k as"
  by (induction as) (auto simp: actions_by_def actions_after_delete_def)

fun forgets :: "admin_request \<Rightarrow> admin_action list \<Rightarrow> admin_action list" where
  "forgets (Delete_row m k) as = actions_after_delete (cr_entity m) k as"
| "forgets (Update_row m k patch) as = as"
| "forgets (Create_row m k body) as = as"

lemma run_admin_actions:
  assumes "run_admin cfg now admin rq s = Inr s'"
  shows "ad_actions s' = forgets rq (ad_actions s @ [entry_of now admin rq])"
proof (cases rq)
  case (Delete_row m k)
  then show ?thesis using assms
    by (auto simp: delete_item_def delete_row_def res_simps admin_record_def audit_entry_def)
qed (use assms in \<open>auto simp: update_item_def create_item_def res_simps Let_def admin_record_def store_row_def
    put_rows_def audit_entry_def safe_payload_def\<close>)

lemma run_admin_audit:
  assumes "run_admin cfg now admin rq s = Inr s'" "\<not> deletes_account k (entry_of now admin rq)"
  shows "actions_by k (ad_actions s') = actions_by k (ad_actions s) @ actions_by k [entry_of now admin rq]"
  unfolding run_admin_actions [OF assms(1)]
  using assms(2)
  by (cases rq) (auto simp: actions_by_append deletes_account_def audit_entry_def actions_by_deleted)

text \<open>
  C26: every accepted request is in the audit. After any sequence of requests of admins, the
  actions of an admin are those from before and then, in their order, one for each accepted
  request of that admin: the name of the operation, the table, the identifier of the row, the fields that were sent
  without password and hash, and the time. Refused requests leave nothing. This holds of an admin
  whose account none of the accepted requests deleted: the deletion of a user takes with it the actions of
  that user, its own entry included when it is the admin's own account.
\<close>

theorem admin_requests_audited:
  assumes "list_all (\<lambda>a. \<not> deletes_account k a) (accepted_entries cfg rqs s)"
  shows "actions_by k (ad_actions (answer_all cfg rqs s)) =
    actions_by k (ad_actions s) @ filter (\<lambda>a. aa_admin_id a = k) (accepted_entries cfg rqs s)"
  using assms
proof (induction rqs arbitrary: s)
  case Nil
  then show ?case by (simp add: answer_all_def)
next
  case (Cons r rqs)
  obtain now admin rq where r: "r = (now, admin, rq)" by (cases r) auto
  have k: "aa_admin_id (entry_of now admin rq) = u_id admin" by (cases rq) (simp_all add: audit_entry_def)
  show ?case
  proof (cases "run_admin cfg now admin rq s")
    case (Inl e)
    then show ?thesis using Cons by (simp add: r answer_all_def answer_admin_def)
  next
    case (Inr s')
    then have "actions_by k (ad_actions (answer_all cfg rqs s')) =
        actions_by k (ad_actions s') @ filter (\<lambda>a. aa_admin_id a = k) (accepted_entries cfg rqs s')"
      using Cons.prems by (intro Cons.IH) (simp add: r)
    moreover have "\<not> deletes_account k (entry_of now admin rq)" using Cons.prems Inr by (simp add: r)
    note run_admin_audit [OF Inr this]
    ultimately show ?thesis
      using Inr k by (simp add: r answer_all_def answer_admin_def actions_by_entry) (simp add: actions_by_def)
  qed
qed

text \<open>The deletion of an account leaves no action of it, and no trace of itself when it was the own account.\<close>

lemma deletion_takes_the_audit:
  assumes "run_admin cfg now admin (Delete_row m k) s = Inr s'" "cr_entity m = ''users''"
  shows "actions_by k (ad_actions s') = []"
  using run_admin_actions [OF assms(1)] assms(2)
  by (auto simp: actions_after_delete_def actions_by_def filter_empty_conv)

section \<open>A small administration\<close>

definition admin_sample :: admin_config where
  "admin_sample = \<lparr>ac_tokens = lib, ac_hash = rev, ac_stores = (\<lambda>m r s. Inr r), ac_referenced = (\<lambda>e k. False), ac_fresh = length\<rparr>"

definition admin_world :: admin_db where
  "admin_world = \<lparr>ad_rows = (\<lambda>e. if e = ''users'' then
       [new_row users_model 1 0 [(''username'', C_str ''root''), (''email'', C_str ''r''), (''password_hash'', C_str ''h''), (''role'', C_str ''admin'')],
        new_row users_model 2 0 [(''username'', C_str ''s''), (''email'', C_str ''s''), (''password_hash'', C_str ''h''), (''role'', C_str ''sub'')]]
     else []), ad_actions = [], ad_rest = empty_db\<rparr>"

definition root :: user where
  "root = dom_user\<lparr>u_id := 1, u_role := R_admin\<rparr>"

lemma admin_sample_keeps: "database_keeps admin_sample"
  by (auto simp: database_keeps_def admin_sample_def)

lemma admin_world_typed: "admin_db_typed admin_world"
  by code_simp

lemma users_model_crud: "users_model \<in> set crud_models"
  by (simp add: crud_models_def)

text \<open>A sub gets a new name and password; then the only admin is to be deleted, which is refused.\<close>

definition renamed :: admin_db where
  "renamed =
     answer_admin admin_sample 9 root (Delete_row users_model 1)
       (answer_admin admin_sample 5 root (Update_row users_model 2 [(''username'', J_str ''slave''), (''password'', J_str ''abc'')]) admin_world)"

lemma renamed_reached: "admin_reaches admin_sample admin_world renamed"
  unfolding renamed_def by (intro admin_reaches.intros) (simp_all add: users_model_crud)

lemma renamed_rows:
  "map (\<lambda>r. map (cell_of r) [''id'', ''username'', ''password_hash'', ''role'']) (ad_rows renamed ''users'') =
   [[C_uuid 1, C_str ''root'', C_str ''h'', C_str ''admin''], [C_uuid 2, C_str ''slave'', C_str ''cba'', C_str ''sub'']]"
  by code_simp

lemma admin_rows_typed_witness:
  "admin_reaches admin_sample admin_world renamed \<and> renamed \<noteq> admin_world \<and> admin_db_typed renamed"
proof -
  have "renamed \<noteq> admin_world"
  proof
    assume "renamed = admin_world"
    then have "length (ad_actions renamed) = length (ad_actions admin_world)" by simp
    then show False by code_simp
  qed
  then show ?thesis
    using renamed_reached admin_rows_typed [OF renamed_reached admin_sample_keeps admin_world_typed] by blast
qed

lemma admin_creates_no_account_witness:
  "create_item admin_sample 5 root goddesses_model 7 [(''display_name'', J_str ''D''), (''email'', J_str ''d''), (''password'', J_str ''abc'')]
     admin_world = Inl (IntegrityError ''not null'')"
  by (subst admin_creates_no_account) (simp_all add: goddesses_model_def)

lemma an_admin_remains_witness: "0 < admin_count renamed"
proof (rule an_admin_remains [OF renamed_reached admin_sample_keeps admin_world_typed])
  show "0 < admin_count admin_world" by code_simp
qed

lemma no_role_changes_witness:
  "\<exists>r \<in> set (ad_rows admin_world ''users'').
     \<forall>n \<in> {''id'', ''role'', ''goddess_id'', ''created_at''}. cell_of (ad_rows renamed ''users'' ! 1) n = cell_of r n"
proof (rule no_role_changes [OF renamed_reached admin_sample_keeps])
  have "length (ad_rows renamed ''users'') = 2" using arg_cong [OF renamed_rows, of length] by simp
  then show "ad_rows renamed ''users'' ! 1 \<in> set (ad_rows renamed ''users'')" by simp
qed

text \<open>The run above: the change is in the audit of the admin, the refused deletion is not.\<close>

lemma admin_requests_audited_witness:
  "actions_by 1 (ad_actions renamed) =
     [\<lparr>aa_admin_id = 1, aa_acting_as_user_id = None, aa_action = ''admin_update'', aa_entity = Some ''users'',
       aa_entity_id = Some 2, aa_payload = Some (J_obj [(''username'', J_str ''slave'')]), aa_created_at = 5\<rparr>]"
proof -
  let ?rqs = "[(5, root, Update_row users_model 2 [(''username'', J_str ''slave''), (''password'', J_str ''abc'')]),
    (9, root, Delete_row users_model 1)]"
  have entries: "accepted_entries admin_sample ?rqs admin_world =
      [\<lparr>aa_admin_id = 1, aa_acting_as_user_id = None, aa_action = ''admin_update'', aa_entity = Some ''users'',
        aa_entity_id = Some 2, aa_payload = Some (J_obj [(''username'', J_str ''slave'')]), aa_created_at = 5\<rparr>]"
    by code_simp
  have renamed: "renamed = answer_all admin_sample ?rqs admin_world" by (simp add: renamed_def answer_all_def)
  have start: "actions_by 1 (ad_actions admin_world) = []" by (simp add: admin_world_def actions_by_def)
  have "list_all (\<lambda>a. \<not> deletes_account 1 a) (accepted_entries admin_sample ?rqs admin_world)"
    unfolding entries by (simp add: deletes_account_def)
  from admin_requests_audited [OF this] show ?thesis
    unfolding renamed start entries by simp
qed

text \<open>
  The editor knows no life cycle: an admin makes a closed contract active again, and files a
  payment under a period.
\<close>

definition closed_row :: row where
  "closed_row = new_row debt_contracts_model 5 0
     ((''sub_id'', C_uuid 2) # (''goddess_id'', C_uuid 3) # (''status'', C_str ''closed'') #
      map (\<lambda>n. (n, C_num 1)) [''sub_initiated'', ''principal'', ''interest_rate'', ''interest_period'', ''duration_periods'',
        ''payment_frequency'', ''minimum_payment'', ''late_penalty_severity'', ''late_penalty_percent'',
        ''dom_can_add_surprise_penalty'', ''mid_contract_addition_mode'', ''exit_amount'', ''balance'', ''slug''])"

definition closed_books :: admin_db where
  "closed_books = put_rows ''debt_contracts'' [closed_row] admin_world"

lemma admin_reopens:
  "map (\<lambda>r. (cell_of r ''id'', cell_of r ''status''))
     (ad_rows (answer_admin admin_sample 9 root (Update_row debt_contracts_model 5 [(''status'', J_str ''active'')]) closed_books)
       ''debt_contracts'') = [(C_uuid 5, C_str ''active'')]"
  by code_simp

lemma admin_files_under_period:
  "map (\<lambda>r. map (cell_of r) [''event_type'', ''period_index''])
     (ad_rows (answer_admin admin_sample 9 root (Create_row debt_events_model 7 [(''contract_id'', J_str ''c''),
        (''event_type'', J_str ''payment_applied''), (''amount'', J_num 10), (''period_index'', J_num 1)]) closed_books)
       ''debt_events'') = [[C_str ''payment_applied'', C_num 1]]"
  by code_simp

end
