(* ===== verification/Overview.thy ===== *)
theory Overview
  imports Charts Journal Gallery Profiles
begin

text \<open>
  The start pages of subs and goddesses in full, from the parts of the other theories: what a sub
  sees of payments and plans (\<^verbatim>\<open>controllers/dashboard/controller.py\<close>), the counters of both welcome
  pages (\<^verbatim>\<open>controllers/sub_dashboard_summary_controller.py\<close>,
  \<^verbatim>\<open>controllers/dashboard_summary_controller.py\<close>). Then what these pages owe each other: the
  loops of a plan end, and the counters are the lengths of the lists.
\<close>

section \<open>The overview of a sub\<close>

record contract_summary =
  su_id :: uuid
  su_principal :: rat
  su_balance :: rat
  su_progress_percent :: rat
  su_status :: contract_status
  su_next_period_due_at :: "datetime option"

definition contract_summary_of :: "zone \<Rightarrow> datetime \<Rightarrow> debt_contract \<Rightarrow> contract_summary" where
  "contract_summary_of z now c =
     \<lparr>su_id = c_id c, su_principal = principal c, su_balance = c_balance c,
      su_progress_percent = progress_percent (principal c) (c_balance c), su_status = c_status c,
      su_next_period_due_at = next_period_due z c now\<rparr>"

record sub_dashboard =
  sd_amount_due_this_week :: rat
  sd_is_late :: bool
  sd_active_contracts :: "contract_summary list"
  sd_recent_payments :: "payment_out list"
  sd_total_sent :: rat

definition rolling_runs :: "rolling_tribute option \<Rightarrow> bool" where
  "rolling_runs r = (case r of None \<Rightarrow> False | Some x \<Rightarrow> \<not> r_paused x \<and> r_amount x > 0)"

definition late_days_of :: "(uuid \<times> int) list \<Rightarrow> uuid \<Rightarrow> int" where
  "late_days_of late_map k = (case map_of late_map k of None \<Rightarrow> 0 | Some n \<Rightarrow> n)"

definition amount_due_this_week :: "zone \<Rightarrow> datetime \<Rightarrow> rolling_tribute option \<Rightarrow> debt_contract list \<Rightarrow> rat" where
  "amount_due_this_week z now r active =
     foldl (\<lambda>t c. if payment_frequency c = PF_weekly then ctx (t + minimum_payment c) else t)
       (if rolling_runs r then ctx (0 + amount_due z (the r) now) else 0) active"

definition sub_overview :: "zone \<Rightarrow> user \<Rightarrow> datetime \<Rightarrow> db \<Rightarrow> sub_dashboard res" where
  "sub_overview z u now s =
     raise_if (u_role u \<noteq> R_sub) (BadRequest ''user is not a sub'') (
     attempt (rolling_for_sub (u_id u) s) (\<lambda>r.
     let active = filter (\<lambda>c. c_sub_id c = u_id u \<and> c_status c = CS_active) (t_contracts s);
         late_map = contracts_late_map z active now s
     in attempt (out_all (declarations_for_sub (u_id u) 10 s) s) (\<lambda>recent.
        Inr \<lparr>sd_amount_due_this_week = amount_due_this_week z now r active,
             sd_is_late = ((rolling_runs r \<and> days_late z (the r) now > 0) \<or>
               list_ex (\<lambda>c. late_days_of late_map (c_id c) > 0) active),
             sd_active_contracts = map (contract_summary_of z now) active,
             sd_recent_payments = recent,
             sd_total_sent = sum_validated (\<lambda>d. d_sub_id d = u_id u) s\<rparr>)))"

section \<open>The plan of a sub\<close>

record planning_out =
  pl_upcoming :: "upcoming list"
  pl_weekly_history :: "(int \<times> rat) list"
  pl_total_paid_all_time :: rat
  pl_total_paid_this_month :: rat
  pl_rolling_remaining_this_month :: rat

text \<open>\<open>None\<close> stands for a loop over due dates that does not end.\<close>

definition sub_planning :: "zone \<Rightarrow> user \<Rightarrow> datetime \<Rightarrow> db \<Rightarrow> planning_out option res" where
  "sub_planning z u now s =
     raise_if (u_role u \<noteq> R_sub) (BadRequest ''user is not a sub'') (
     let today = as_london_date z now in
     attempt (build_upcoming z (u_id u) now s) (\<lambda>upcoming.
     attempt (rolling_remaining_this_month z (u_id u) now s) (\<lambda>remaining.
     Inr (Option.bind upcoming (\<lambda>ups. Option.bind remaining (\<lambda>rest.
       Some \<lparr>pl_upcoming = ups, pl_weekly_history = weekly_history (u_id u) today s,
             pl_total_paid_all_time = sum_validated (\<lambda>d. d_sub_id d = u_id u) s,
             pl_total_paid_this_month = sum_validated_this_month (u_id u) today s,
             pl_rolling_remaining_this_month = rest\<rparr>))))))"

section \<open>The counters of the welcome pages\<close>

record summary_out =
  sm_pending_approvals_count :: nat
  sm_next_payment :: "(rat \<times> datetime) option"
  sm_late_rolling_amount :: rat
  sm_late_contract_amount :: rat
  sm_today_rituals_count :: nat
  sm_today_open_tasks_count :: nat
  sm_journal_streak_days :: nat

definition sub_summary :: "zone \<Rightarrow> user \<Rightarrow> datetime \<Rightarrow> store \<Rightarrow> summary_out res" where
  "sub_summary z u now s =
     attempt (rolling_for_sub (u_id u) (core s)) (\<lambda>r.
     let active = active_contracts_for_sub (u_id u) (core s)
     in Inr \<lparr>sm_pending_approvals_count = count_pending_adjustments (u_id u) (core s),
             sm_next_payment = compute_next_payment z r active now,
             sm_late_rolling_amount =
               (case r of Some x \<Rightarrow> if rolling_is_late z now x then amount_due z x now else 0 | None \<Rightarrow> 0),
             sm_late_contract_amount = late_contract_amount z active now (core s),
             sm_today_rituals_count = count_today_for_sub (u_id u) (as_london_date z now) (core s),
             sm_today_open_tasks_count = count_open_or_submitted (u_id u) (core s),
             sm_journal_streak_days = current_streak_days z now (u_id u) s\<rparr>)"

record dashboard_summary =
  ds_counts :: goddess_summary
  ds_subs_paused :: nat
  ds_photo_queue_count :: nat
  ds_profile_change_requests_count :: nat

definition goddess_summary_full :: "zone \<Rightarrow> user \<Rightarrow> datetime \<Rightarrow> store \<Rightarrow> dashboard_summary res" where
  "goddess_summary_full z goddess_user now s =
     attempt (resolve_goddess_id (u_id goddess_user) (core s)) (\<lambda>gid.
     attempt (summary z goddess_user now (core s)) (\<lambda>counts.
     Inr \<lparr>ds_counts = counts, ds_subs_paused = 0, ds_photo_queue_count = count_pending_review gid s,
          ds_profile_change_requests_count = count_pending_requests (map u_id (list_active_subs gid (core s))) s\<rparr>))"

section \<open>The loops of a plan end\<close>

lemma london_step:
  assumes "london_like z" and "2 \<le> step"
  shows "as_london_date z t + 1 \<le> as_london_date z (t + days step)"
proof -
  have "to_wall z t + days 1 \<le> to_wall z (t + days step)"
    using assms by (simp add: to_wall_def london_like_def days_def us_per_day_def us_per_hour_def) (smt (verit))
  from date_of_mono [OF this] show ?thesis by (simp add: as_london_date_def date_of_add_days)
qed

lemma london_steps:
  assumes "london_like z" and "2 \<le> step"
  shows "as_london_date z t \<le> as_london_date z (t + days (step * int k))"
proof (induction k arbitrary: t)
  case (Suc k)
  have e: "t + days (step * int (Suc k)) = (t + days step) + days (step * int k)"
    by (simp add: days_def algebra_simps)
  show ?case unfolding e using Suc [of "t + days step"] london_step [OF assms, of t] by linarith
qed (simp add: days_def)

text \<open>The dates of the loop: each step from the cursor on that falls between today and the horizon, in order.\<close>

lemma due_dates_complete:
  assumes z: "london_like z" and step: "2 \<le> step"
  shows "\<exists>ds. due_dates z step today horizon cursor = Some ds \<and> sorted_wrt (<) ds \<and>
    set ds = {d. \<exists>k. d = as_london_date z (cursor + days (step * int k)) \<and> today \<le> d \<and> d \<le> horizon}"
proof (induction "nat (horizon + 1 - as_london_date z cursor)" arbitrary: cursor rule: less_induct)
  case less
  let ?d = "as_london_date z cursor"
  let ?dates = "\<lambda>c. {d. \<exists>k. d = as_london_date z (c + days (step * int k)) \<and> today \<le> d \<and> d \<le> horizon}"
  show ?case
  proof (cases "?d \<le> horizon")
    case True
    have next_date: "?d + 1 \<le> as_london_date z (cursor + days step)" by (rule london_step [OF z step])
    then obtain ds where ds: "due_dates z step today horizon (cursor + days step) = Some ds" "sorted_wrt (<) ds"
      "set ds = ?dates (cursor + days step)"
      using less [of "cursor + days step"] True by auto
    have later: "?d < d" if "d \<in> set ds" for d
    proof -
      obtain k where "d = as_london_date z (cursor + days step + days (step * int k))" using \<open>d \<in> set ds\<close> unfolding ds(3) by blast
      then show ?thesis using next_date london_steps [OF z step, of "cursor + days step" k] by linarith
    qed
    have split: "?dates cursor = (if today \<le> ?d then {?d} else {}) \<union> ?dates (cursor + days step)"
    proof -
      have shift: "cursor + days (step * int (Suc k)) = cursor + days step + days (step * int k)" for k
        by (simp add: days_def algebra_simps)
      have "(\<exists>k. d = as_london_date z (cursor + days (step * int k))) \<longleftrightarrow>
        d = ?d \<or> (\<exists>k. d = as_london_date z (cursor + days step + days (step * int k)))" for d
        unfolding shift [symmetric] by (metis add.right_neutral days_def mult_zero_left mult_zero_right not0_implies_Suc of_nat_0)
      then show ?thesis using True by auto
    qed
    have "due_dates z step today horizon cursor = Some (if today \<le> ?d then ?d # ds else ds)"
      using ds(1) True by (subst due_dates.simps) simp
    moreover have "sorted_wrt (<) (if today \<le> ?d then ?d # ds else ds)" using ds(2) later by simp
    moreover have "set (if today \<le> ?d then ?d # ds else ds) = ?dates cursor" unfolding split ds(3) [symmetric] by simp
    ultimately show ?thesis by blast
  next
    case False
    then have "due_dates z step today horizon cursor = Some []" by (subst due_dates.simps) simp
    moreover have "\<not> as_london_date z (cursor + days (step * int k)) \<le> horizon" for k
      using False london_steps [OF z step, of cursor k] by linarith
    then have "?dates cursor = {}" by auto
    ultimately show ?thesis by simp
  qed
qed

lemma due_dates_window:
  assumes "london_like z" and "2 \<le> step"
  obtains ds where "due_dates z step today horizon cursor = Some ds" and "set ds \<subseteq> {today..horizon}"
proof -
  obtain ds where ds: "due_dates z step today horizon cursor = Some ds"
    "set ds = {d. \<exists>k. d = as_london_date z (cursor + days (step * int k)) \<and> today \<le> d \<and> d \<le> horizon}"
    using due_dates_complete [OF assms] by blast
  have "set ds \<subseteq> {today..horizon}" unfolding ds(2) by auto
  then show thesis by (rule that [OF ds(1)])
qed

lemma period_length_two: "2 \<le> period_length_days f"
  by (cases f) (simp_all add: period_length_days_def)

lemma contracts_upcoming_returns:
  assumes z: "london_like z"
  shows "\<exists>ys. contracts_upcoming z now cs = Some ys \<and>
    (\<forall>y \<in> set ys. as_london_date z now \<le> up_date y \<and> up_date y \<le> as_london_date z now + 30)"
proof (induction cs)
  case (Cons c cs)
  then obtain ys where ys: "contracts_upcoming z now cs = Some ys"
    "\<forall>y \<in> set ys. as_london_date z now \<le> up_date y \<and> up_date y \<le> as_london_date z now + 30" by blast
  show ?case
  proof (cases "next_period_due z c now")
    case (Some due)
    obtain ds where "due_dates z (period_length_days (payment_frequency c)) (as_london_date z now) (as_london_date z now + 30) due = Some ds"
      "set ds \<subseteq> {as_london_date z now..as_london_date z now + 30}"
      by (rule due_dates_window [OF z period_length_two])
    then show ?thesis using ys Some by auto
  qed (use ys in simp)
qed simp

lemma rolling_upcoming_returns:
  assumes z: "london_like z"
  shows "\<exists>xs. rolling_upcoming z now r = Some xs \<and>
    (\<forall>x \<in> set xs. as_london_date z now \<le> up_date x \<and> up_date x \<le> as_london_date z now + 30)"
proof (cases r)
  case (Some x)
  obtain ds where "due_dates z 7 (as_london_date z now) (as_london_date z now + 30) (current_cycle_deadline z x now) = Some ds"
    "set ds \<subseteq> {as_london_date z now..as_london_date z now + 30}"
    by (rule due_dates_window [OF z, of 7]) simp
  then show ?thesis using Some by (auto simp: rolling_upcoming_def)
qed (simp add: rolling_upcoming_def)

text \<open>
  C39: the plan of a sub is always computed. Under the offsets of London every loop over
  due dates ends, so a plan is the refusal of a request or a page whose payments are in the order of
  their dates and fall within the thirty days from today.
\<close>

theorem planning_returns:
  assumes "london_like z" and "sub_planning z u now s = Inr page"
  shows "\<exists>p. page = Some p \<and> sorted (map up_date (pl_upcoming p)) \<and>
    (\<forall>i \<in> set (pl_upcoming p). as_london_date z now \<le> up_date i \<and> up_date i \<le> as_london_date z now + 30)"
proof -
  obtain up rest where up: "build_upcoming z (u_id u) now s = Inr up"
    and rest: "rolling_remaining_this_month z (u_id u) now s = Inr rest"
    and page: "page = Option.bind up (\<lambda>ups. Option.bind rest (\<lambda>r.
       Some \<lparr>pl_upcoming = ups, pl_weekly_history = weekly_history (u_id u) (as_london_date z now) s,
             pl_total_paid_all_time = sum_validated (\<lambda>d. d_sub_id d = u_id u) s,
             pl_total_paid_this_month = sum_validated_this_month (u_id u) (as_london_date z now) s,
             pl_rolling_remaining_this_month = r\<rparr>))"
    using assms(2) by (auto simp: sub_planning_def res_simps Let_def)
  obtain r where "up = Option.bind (rolling_upcoming z now r) (\<lambda>xs.
      Option.bind (contracts_upcoming z now (filter (\<lambda>c. c_sub_id c = u_id u \<and> c_status c = CS_active \<and> c_signed_at c \<noteq> None) (t_contracts s)))
        (\<lambda>ys. Some (sort_key up_date (xs @ ys))))"
    using up by (auto simp: build_upcoming_def res_simps Let_def)
  moreover obtain xs where "rolling_upcoming z now r = Some xs"
    "\<forall>x \<in> set xs. as_london_date z now \<le> up_date x \<and> up_date x \<le> as_london_date z now + 30"
    using rolling_upcoming_returns [OF assms(1), of now r] by blast
  moreover obtain ys where "contracts_upcoming z now (filter (\<lambda>c. c_sub_id c = u_id u \<and> c_status c = CS_active \<and> c_signed_at c \<noteq> None) (t_contracts s)) = Some ys"
    "\<forall>y \<in> set ys. as_london_date z now \<le> up_date y \<and> up_date y \<le> as_london_date z now + 30"
    using contracts_upcoming_returns [OF assms(1)] by blast
  ultimately have xs: "up = Some (sort_key up_date (xs @ ys))"
    "\<forall>x \<in> set (xs @ ys). as_london_date z now \<le> up_date x \<and> up_date x \<le> as_london_date z now + 30"
    by auto
  obtain r' where "rest = Some r'"
  proof -
    have "rest \<noteq> None"
    proof
      assume "rest = None"
      then obtain x where "due_dates z 7 (as_london_date z now) (month_end (as_london_date z now) - 1) (current_cycle_deadline z x now) = None"
        using rest by (auto simp: rolling_remaining_this_month_def res_simps split: option.splits if_splits)
      then show False
        using due_dates_complete [OF assms(1), of 7 "as_london_date z now" "month_end (as_london_date z now) - 1" "current_cycle_deadline z x now"]
        by simp
    qed
    then show thesis using that by blast
  qed
  then show ?thesis using xs by (auto simp: page)
qed

definition weekly_tribute :: rolling_tribute where
  "weekly_tribute = \<lparr>r_id = 40, r_sub_id = 12, r_goddess_id = 10, r_amount = 25, r_deadline_day = DD_fri,
     r_deadline_time = 43200000000, r_late_multiplier_per_day = 1, r_paused = False, r_notes = None,
     r_last_paid_at = None, r_created_at = 0, r_updated_at = 0\<rparr>"

lemma planning_returns_witness:
  "\<exists>p. sub_planning gmt sub_user 0 (world\<lparr>t_rollings := [weekly_tribute]\<rparr>) = Inr (Some p) \<and>
     sorted (map up_date (pl_upcoming p)) \<and> (\<forall>i \<in> set (pl_upcoming p). 0 \<le> up_date i \<and> up_date i \<le> 30)"
proof -
  let ?s = "world\<lparr>t_rollings := [weekly_tribute]\<rparr>"
  have "rolling_for_sub 12 ?s = Inr (Some weekly_tribute)" by (simp add: rolling_for_sub_def weekly_tribute_def)
  then obtain page where page: "sub_planning gmt sub_user 0 ?s = Inr page"
    by (simp add: sub_planning_def sub_user_def build_upcoming_def rolling_remaining_this_month_def Let_def)
  have "as_london_date gmt 0 = 0" by code_simp
  with planning_returns [OF london_like_examples(1) page] page show ?thesis by auto
qed

section \<open>The counters are the lengths of the lists\<close>

lemma length_map_filter: "length (List.map_filter f xs) = length (filter (\<lambda>x. f x \<noteq> None) xs)"
  by (induction xs) (auto simp: List.map_filter_simps)

lemma fetch_member: "k \<in> key ` set t \<Longrightarrow> \<exists>r. fetch key k t = Some r"
  by (induction t) auto

text \<open>
  The summary counts what the lists show. The two counters of late tributes and late contracts
  on the welcome page of the goddess are the lengths of the two lists that open from them,
  at the same instant.
\<close>

theorem late_counts_agree:
  assumes "summary z g now s = Inr c" and "late_subs z g now s = Inr subs" and "late_contracts z lower g now s = Inr contracts"
  shows "gs_late_rolling_count c = length subs \<and> gs_late_contract_count c = length contracts"
proof -
  obtain gid where gid: "resolve_goddess_id (u_id g) s = Inr gid" using assms(1) by (auto simp: summary_def res_simps)
  let ?subs = "list_active_subs gid s"
  let ?rel = "relevant_contracts gid (map u_id ?subs) s"
  let ?paid = "paid_period_indices (map c_id ?rel) s"
  have c: "gs_late_rolling_count c = count_late_rolling z ?subs now s"
    "gs_late_contract_count c = count_late_contracts z gid (map u_id ?subs) now s"
    using assms(1) gid by (auto simp: summary_def Let_def)
  have subs: "length subs = length (filter (rolling_is_late z now) (rollings_for_subs (map u_id ?subs) s))"
  proof -
    have "\<forall>r \<in> set (rollings_for_subs (map u_id ?subs) s). \<exists>u. fetch u_id (r_sub_id r) ?subs = Some u"
      by (intro ballI fetch_member) (auto simp: rollings_for_subs_def)
    then show ?thesis
      using assms(2) gid
      by (auto simp: late_subs_def Let_def length_map_filter rolling_is_late_def split: option.splits
          intro!: arg_cong [where f = length] filter_cong) fastforce+
  qed
  have contracts: "length contracts = length (filter (\<lambda>c. case period_start z c now of None \<Rightarrow> False
      | Some p \<Rightarrow> \<not> date_of now - date_of p \<le> 0 \<and> current_period_index z c now \<notin> set (?paid (c_id c))) ?rel)"
  proof -
    have "\<forall>c \<in> set ?rel. \<exists>u. fetch u_id (c_sub_id c) ?subs = Some u"
      by (intro ballI fetch_member) (auto simp: relevant_contracts_def)
    then show ?thesis
      using assms(3) gid
      by (auto simp: late_contracts_def Let_def length_map_filter split: option.splits
          intro!: arg_cong [where f = length] filter_cong) fastforce+
  qed
  show ?thesis
    by (simp add: c subs contracts count_late_rolling_def count_late_contracts_def Let_def)
qed

lemma late_counts_agree_witness:
  "\<exists>c subs contracts. summary gmt dom_user (days 10) (world\<lparr>t_rollings := [weekly_tribute]\<rparr>) = Inr c \<and>
     late_subs gmt dom_user (days 10) (world\<lparr>t_rollings := [weekly_tribute]\<rparr>) = Inr subs \<and>
     late_contracts gmt (map of_char) dom_user (days 10) (world\<lparr>t_rollings := [weekly_tribute]\<rparr>) = Inr contracts \<and>
     gs_late_rolling_count c = 1 \<and> length subs = 1 \<and> gs_late_contract_count c = length contracts"
proof -
  let ?s = "world\<lparr>t_rollings := [weekly_tribute]\<rparr>"
  have gid: "resolve_goddess_id 11 ?s = Inr 10" by code_simp
  obtain c where c: "summary gmt dom_user (days 10) ?s = Inr c" by (simp add: summary_def gid dom_user_def Let_def)
  obtain subs where subs: "late_subs gmt dom_user (days 10) ?s = Inr subs" by (simp add: late_subs_def gid dom_user_def Let_def)
  obtain contracts where contracts: "late_contracts gmt (map of_char) dom_user (days 10) ?s = Inr contracts"
    by (simp add: late_contracts_def gid dom_user_def Let_def)
  have "count_late_rolling gmt (list_active_subs 10 ?s) (days 10) ?s = 1" by code_simp
  then have "gs_late_rolling_count c = 1" using c by (auto simp: summary_def gid dom_user_def Let_def)
  then show ?thesis using late_counts_agree [OF c subs contracts] c subs contracts by auto
qed

end
