(* ===== verification/Browser.thy ===== *)
theory Browser
  imports Access Profiles
begin

text \<open>
  What lies between a browser and the controllers: the settings that are derived from others
  (\<^verbatim>\<open>core/config.py\<close>), the cookie of the session and the routes of \<^verbatim>\<open>routers/auth.py\<close>, the preferences of
  \<^verbatim>\<open>routers/me_preferences.py\<close>, the gender taxonomy (\<^verbatim>\<open>daos/gender_taxonomy_dao.py\<close>), the envelope of errors
  (\<^verbatim>\<open>core/exception_handlers.py\<close>) and the headers of every response (\<^verbatim>\<open>middleware\<close>).
\<close>

section \<open>Settings\<close>

datatype app_env = Env_dev | Env_test | Env_staging | Env_prod

record settings =
  st_app_env :: app_env
  st_jwt_refresh_ttl_days :: int
  st_refresh_cookie_name :: string
  st_refresh_cookie_domain :: string
  st_samesite_override :: string
  st_secure_override :: string
  st_cors_origins :: string

definition is_prod :: "settings \<Rightarrow> bool" where
  "is_prod st \<longleftrightarrow> st_app_env st = Env_prod"

text \<open>\<^verbatim>\<open>str.split(",")\<close>, then \<^verbatim>\<open>strip\<close>; empty parts are left out.\<close>

fun split_comma :: "string \<Rightarrow> string \<Rightarrow> string list" where
  "split_comma part [] = [part]"
| "split_comma part (c # cs) = (if c = CHR '','' then part # split_comma [] cs else split_comma (part @ [c]) cs)"

definition cors_origins_list :: "settings \<Rightarrow> string list" where
  "cors_origins_list st = filter (\<lambda>o'. o' \<noteq> []) (map (strip_by is_space) (split_comma [] (st_cors_origins st)))"

definition refresh_cookie_secure :: "settings \<Rightarrow> bool" where
  "refresh_cookie_secure st = (if st_secure_override st \<noteq> [] then st_secure_override st = ''true'' else is_prod st)"

definition refresh_cookie_samesite :: "settings \<Rightarrow> string" where
  "refresh_cookie_samesite st =
     (if st_samesite_override st \<noteq> [] then st_samesite_override st else if is_prod st then ''strict'' else ''lax'')"

definition security_hsts_enabled :: "settings \<Rightarrow> bool" where
  "security_hsts_enabled st = is_prod st"

section \<open>The cookie of the session\<close>

record cookie =
  ck_key :: string
  ck_value :: string
  ck_httponly :: bool
  ck_secure :: bool
  ck_samesite :: string
  ck_max_age :: int
  ck_path :: string
  ck_domain :: "string option"

definition set_refresh_cookie :: "settings \<Rightarrow> string \<Rightarrow> cookie" where
  "set_refresh_cookie st token =
     \<lparr>ck_key = st_refresh_cookie_name st, ck_value = token, ck_httponly = True, ck_secure = refresh_cookie_secure st,
      ck_samesite = refresh_cookie_samesite st, ck_max_age = st_jwt_refresh_ttl_days st * 86400, ck_path = ''/'',
      ck_domain = (if st_refresh_cookie_domain st = [] then None else Some (st_refresh_cookie_domain st))\<rparr>"

text \<open>\<^verbatim>\<open>delete_cookie\<close> sets an empty value that has expired, with the defaults of the framework.\<close>

definition clear_refresh_cookie :: "settings \<Rightarrow> cookie" where
  "clear_refresh_cookie st =
     \<lparr>ck_key = st_refresh_cookie_name st, ck_value = [], ck_httponly = False, ck_secure = False, ck_samesite = ''lax'',
      ck_max_age = 0, ck_path = ''/'',
      ck_domain = (if st_refresh_cookie_domain st = [] then None else Some (st_refresh_cookie_domain st))\<rparr>"

definition resolve_refresh_token :: "string option \<Rightarrow> string \<Rightarrow> string res" where
  "resolve_refresh_token cookie_token body_token =
     (let token = (case cookie_token of None \<Rightarrow> body_token | Some t \<Rightarrow> if t = [] then body_token else t)
      in raise_if (token = []) (HTTPException 401 ''missing refresh token'') (Inr token))"

section \<open>The routes of the session\<close>

record session_out =
  so_user_id :: uuid
  so_role :: user_role
  so_body_refresh_token :: string
  so_cookie :: cookie

definition session_answer :: "settings \<Rightarrow> token_pair \<Rightarrow> session_out" where
  "session_answer st p =
     \<lparr>so_user_id = tp_user_id p, so_role = tp_role p, so_body_refresh_token = [],
      so_cookie = set_refresh_cookie st (tp_refresh_token p)\<rparr>"

definition web_login ::
  "settings \<Rightarrow> hashing \<Rightarrow> datetime \<Rightarrow> string \<Rightarrow> string \<Rightarrow> string \<Rightarrow> db \<Rightarrow> (db \<times> session_out) res" where
  "web_login st h now raw email password s =
     attempt (login h now raw email password s) (\<lambda>(s', p). Inr (s', session_answer st p))"

definition web_refresh ::
  "settings \<Rightarrow> hashing \<Rightarrow> datetime \<Rightarrow> string \<Rightarrow> string option \<Rightarrow> string \<Rightarrow> db \<Rightarrow> (db \<times> session_out) res" where
  "web_refresh st h now new_raw cookie_token body_token s =
     attempt (resolve_refresh_token cookie_token body_token) (\<lambda>raw.
     attempt (refresh h now new_raw raw s) (\<lambda>(s', p). Inr (s', session_answer st p)))"

text \<open>
  The cookie is cleared on the response object that the framework has handed in, but another response is
  returned; the framework merges the headers of the first only into an answer it builds itself. The second
  component is what the handler sets, the third what is sent.
\<close>

definition web_logout ::
  "settings \<Rightarrow> hashing \<Rightarrow> datetime \<Rightarrow> string option \<Rightarrow> string \<Rightarrow> db \<Rightarrow> (db \<times> cookie \<times> cookie option) res" where
  "web_logout st h now cookie_token body_token s =
     (let raw = (case cookie_token of None \<Rightarrow> body_token | Some t \<Rightarrow> if t = [] then body_token else t)
      in attempt (if raw \<noteq> [] then logout h now raw s else Inr s) (\<lambda>s'. Inr (s', clear_refresh_cookie st, None)))"

section \<open>The gender taxonomy and the account as the client sees it\<close>

record gender_taxonomy =
  gx_id :: uuid
  gx_slug :: string
  gx_label :: string
  gx_description :: "string option"
  gx_sort_order :: int

definition list_genders :: "gender_taxonomy list \<Rightarrow> gender_taxonomy list" where
  "list_genders gs = sort_key gx_sort_order gs"

definition gender_by_id :: "uuid \<Rightarrow> gender_taxonomy list \<Rightarrow> gender_taxonomy res" where
  "gender_by_id k gs = require (fetch gx_id k gs) (NotFound ''gender taxonomy entry not found'') Inr"

definition gender_by_slug :: "string \<Rightarrow> gender_taxonomy list \<Rightarrow> gender_taxonomy option res" where
  "gender_by_slug slug gs = scalar_one_or_none (filter (\<lambda>g. gx_slug g = slug) gs)"

definition resolve_gender_taxonomy :: "user \<Rightarrow> gender_taxonomy list \<Rightarrow> store \<Rightarrow> gender_taxonomy option res" where
  "resolve_gender_taxonomy u gs s =
     (if u_role u \<noteq> R_sub then Inr None
      else attempt (get_profile (u_id u) s) (\<lambda>p.
        case sp_gender_id p of None \<Rightarrow> Inr None | Some k \<Rightarrow> attempt (gender_by_id k gs) (\<lambda>g. Inr (Some g))))"

definition web_display_name :: "user \<Rightarrow> string" where
  "web_display_name u = (if name_parts u \<noteq> [] then join_space (name_parts u) else u_username u)"

text \<open>The row itself stands for the fields that are copied, all but the hash of the password and the last sign-in.\<close>

record user_out =
  uo_user :: user
  uo_display_name :: string
  uo_impersonator :: "(uuid \<times> string) option"
  uo_entry_tribute_amount :: "rat option"
  uo_gender_taxonomy :: "gender_taxonomy option"

definition user_out_of :: "user \<Rightarrow> user option \<Rightarrow> rat option \<Rightarrow> gender_taxonomy option \<Rightarrow> user_out" where
  "user_out_of u imp amount g =
     \<lparr>uo_user = u, uo_display_name = web_display_name u,
      uo_impersonator = map_option (\<lambda>i. (u_id i, web_display_name i)) imp,
      uo_entry_tribute_amount = amount, uo_gender_taxonomy = g\<rparr>"

definition web_me :: "auth_context \<Rightarrow> gender_taxonomy list \<Rightarrow> store \<Rightarrow> user_out res" where
  "web_me c gs s =
     attempt (if u_status (ax_user c) = US_pending_entry_tribute then get_entry_tribute_amount (u_id (ax_user c)) (core s) else Inr None)
       (\<lambda>amount.
     attempt (resolve_gender_taxonomy (ax_user c) gs s) (\<lambda>g.
     Inr (user_out_of (ax_user c) (ax_impersonator c) amount g)))"

definition coerce_theme :: "string \<Rightarrow> string" where
  "coerce_theme v = (if v \<in> set [''system'', ''dark'', ''light''] then v else ''system'')"

section \<open>The envelope of errors\<close>

text \<open>
  The handlers that are registered: one for each class and one for the base class. What is not an
  error of the application has the answer of the framework: \<^verbatim>\<open>HTTPException\<close> its own status, all else 500.
\<close>

datatype envelope =
    Env_error int string string \<comment> \<open>status, the name of the class, the message\<close>
  | Env_transition string string "string list"
  | Env_framework int

fun envelope_of :: "app_error \<Rightarrow> envelope" where
  "envelope_of (BadRequest m) = Env_error 400 ''BadRequest'' m"
| "envelope_of (NotFound m) = Env_error 404 ''NotFound'' m"
| "envelope_of (Conflict m) = Env_error 409 ''Conflict'' m"
| "envelope_of (Unauthorized m) = Env_error 401 ''Unauthorized'' m"
| "envelope_of (Forbidden m) = Env_error 403 ''Forbidden'' m"
| "envelope_of (PayloadTooLarge m) = Env_error 413 ''PayloadTooLarge'' m"
| "envelope_of (UnsupportedMediaType m) = Env_error 415 ''UnsupportedMediaType'' m"
| "envelope_of (Validation m) = Env_error 422 ''Validation'' m"
| "envelope_of (IllegalTransition a b allowed) = Env_transition a b allowed"
| "envelope_of (AppError m) = Env_error 500 ''AppError'' m"
| "envelope_of (HTTPException n m) = Env_framework n"
| "envelope_of (ConsentRequired x) = Env_framework 428"
| "envelope_of _ = Env_framework 500"

fun envelope_status :: "envelope \<Rightarrow> int" where
  "envelope_status (Env_error n k m) = n"
| "envelope_status (Env_transition a b allowed) = 422"
| "envelope_status (Env_framework n) = n"

text \<open>The status of the envelope is the one of the class.\<close>

lemma envelope_status_code: "envelope_status (envelope_of e) = status_code e"
  by (cases e) simp_all

section \<open>The headers of a response\<close>

text \<open>Names of headers are compared without regard to case, as the headers of the framework do.\<close>

type_synonym headers = "(string \<times> string) list"

definition same_name :: "string \<Rightarrow> string \<Rightarrow> bool" where
  "same_name a b \<longleftrightarrow> map lower_char a = map lower_char b"

definition set_default :: "string \<Rightarrow> string \<Rightarrow> headers \<Rightarrow> headers" where
  "set_default k v hs = (if list_ex (\<lambda>(k', _). same_name k' k) hs then hs else hs @ [(k, v)])"

definition quoted :: "string \<Rightarrow> string" where
  "quoted w = [CHR 0x27] @ w @ [CHR 0x27]"

definition default_csp :: string where
  "default_csp =
     ''default-src '' @ quoted ''self'' @ ''; '' @
     ''img-src '' @ quoted ''self'' @ '' data: blob: https:; '' @
     ''style-src '' @ quoted ''self'' @ '' '' @ quoted ''unsafe-inline'' @ ''; '' @
     ''script-src '' @ quoted ''self'' @ ''; '' @
     ''font-src '' @ quoted ''self'' @ '' data:; '' @
     ''connect-src '' @ quoted ''self'' @ '' ws: wss: http: https:; '' @
     ''frame-ancestors '' @ quoted ''none'' @ ''; '' @
     ''base-uri '' @ quoted ''self'' @ ''; '' @
     ''form-action '' @ quoted ''self''"

definition security_headers :: "bool \<Rightarrow> string \<Rightarrow> headers \<Rightarrow> headers" where
  "security_headers enable_hsts csp hs =
     (let h1 = fold (\<lambda>(k, v). set_default k v)
            [(''X-Content-Type-Options'', ''nosniff''), (''X-Frame-Options'', ''DENY''),
             (''Referrer-Policy'', ''strict-origin-when-cross-origin''),
             (''Permissions-Policy'', ''camera=(), microphone=(), geolocation=(), interest-cohort=()''),
             (''Content-Security-Policy'', csp)] hs
      in if enable_hsts then set_default ''Strict-Transport-Security'' ''max-age=31536000; includeSubDomains'' h1 else h1)"

definition request_id_header :: "(string \<Rightarrow> string option) \<Rightarrow> string \<Rightarrow> headers \<Rightarrow> headers" where
  "request_id_header request_headers fresh hs =
     (let rid = (case request_headers ''X-Request-ID'' of None \<Rightarrow> fresh | Some r \<Rightarrow> if r = [] then fresh else r)
      in filter (\<lambda>(k, v). \<not> same_name k ''X-Request-ID'') hs @ [(''X-Request-ID'', rid)])"

text \<open>What a handler has set is kept, and afterwards each of the names is there.\<close>

lemma set_default_keeps: "set hs \<subseteq> set (set_default k v hs)"
  by (auto simp: set_default_def)

lemma set_default_has: "list_ex (\<lambda>(k', _). same_name k' k) (set_default k v hs)"
  by (auto simp: set_default_def same_name_def list_ex_iff)

lemma set_defaults_keep: "set hs \<subseteq> set (fold (\<lambda>(k, v). set_default k v) ds hs)"
proof (induction ds arbitrary: hs)
  case (Cons d ds)
  obtain k v where "d = (k, v)" by (cases d)
  then show ?case using subset_trans [OF set_default_keeps Cons.IH] by simp
qed simp

lemma set_defaults_have:
  assumes "(k, v) \<in> set ds"
  shows "list_ex (\<lambda>(k', _). same_name k' k) (fold (\<lambda>(k, v). set_default k v) ds hs)"
proof -
  obtain us vs where ds: "ds = us @ (k, v) # vs" using split_list [OF assms] by blast
  let ?mid = "set_default k v (fold (\<lambda>(k, v). set_default k v) us hs)"
  have "list_ex (\<lambda>(k', _). same_name k' k) ?mid" by (rule set_default_has)
  then show ?thesis using set_defaults_keep [of ?mid vs] unfolding ds by (auto simp: list_ex_iff)
qed

lemma security_headers_keep: "set hs \<subseteq> set (security_headers hsts csp hs)"
  unfolding security_headers_def Let_def
  by (cases hsts) (simp_all only: if_True if_False set_defaults_keep subset_trans [OF set_defaults_keep set_default_keeps])

section \<open>A refresh token is used once\<close>

datatype session_request =
    Rq_login string string string \<comment> \<open>the new token, email, password\<close>
  | Rq_refresh string "string option" string \<comment> \<open>the new token, cookie, body\<close>
  | Rq_logout "string option" string
  | Rq_reset_request string string
  | Rq_reset_confirm string string

definition session_run :: "settings \<Rightarrow> hashing \<Rightarrow> datetime \<Rightarrow> session_request \<Rightarrow> db \<Rightarrow> db res" where
  "session_run st h now rq s =
     (case rq of
        Rq_login raw email password \<Rightarrow> attempt (web_login st h now raw email password s) (\<lambda>(s', _). Inr s')
      | Rq_refresh new_raw c b \<Rightarrow> attempt (web_refresh st h now new_raw c b s) (\<lambda>(s', _). Inr s')
      | Rq_logout c b \<Rightarrow> attempt (web_logout st h now c b s) (\<lambda>(s', _). Inr s')
      | Rq_reset_request raw email \<Rightarrow> request_password_reset h now raw email s
      | Rq_reset_confirm token pw \<Rightarrow> confirm_password_reset h now token pw s)"

definition session_step :: "settings \<Rightarrow> hashing \<Rightarrow> datetime \<times> session_request \<Rightarrow> db \<Rightarrow> db" where
  "session_step st h e s = (case session_run st h (fst e) (snd e) s of Inl _ \<Rightarrow> s | Inr s' \<Rightarrow> s')"

definition tokens_unique :: "db \<Rightarrow> bool" where
  "tokens_unique s \<longleftrightarrow> distinct (map rt_token_hash (t_refresh_tokens s))"

definition spent :: "string \<Rightarrow> db \<Rightarrow> bool" where
  "spent th s \<longleftrightarrow> list_ex (\<lambda>t. rt_token_hash t = th \<and> rt_revoked_at t \<noteq> None) (t_refresh_tokens s)"

definition tokens_kept :: "db \<Rightarrow> db \<Rightarrow> bool" where
  "tokens_kept s s' \<longleftrightarrow> (tokens_unique s \<longrightarrow> tokens_unique s') \<and> (\<forall>th. spent th s \<longrightarrow> spent th s')"

named_theorems kept_intros \<open>operations that leave spent tokens spent\<close>

lemma tokens_kept_refl [kept_intros]: "t_refresh_tokens s' = t_refresh_tokens s \<Longrightarrow> tokens_kept s s'"
  by (simp add: tokens_kept_def tokens_unique_def spent_def)

lemma tokens_kept_trans: "tokens_kept s s1 \<Longrightarrow> tokens_kept s1 s2 \<Longrightarrow> tokens_kept s s2"
  by (simp add: tokens_kept_def)

lemma update_user_tokens [simp]: "t_refresh_tokens (update_user k f s) = t_refresh_tokens s"
  by (simp add: update_user_def)

lemma create_token_kept [kept_intros]:
  assumes "create_refresh_token h now uid raw s = Inr s'"
  shows "tokens_kept s s'"
  using assms by (fastforce simp: create_refresh_token_def res_simps tokens_kept_def tokens_unique_def spent_def list_ex_iff)

lemma revoke_kept [kept_intros]: "tokens_kept s (revoke th now s)"
proof -
  have "map rt_token_hash (t_refresh_tokens (revoke th now s)) = map rt_token_hash (t_refresh_tokens s)"
    by (simp add: revoke_def modify_def)
  moreover have "spent k (revoke th now s)" if "spent k s" for k
  proof -
    from that obtain t where t: "t \<in> set (t_refresh_tokens s)" "rt_token_hash t = k" "rt_revoked_at t \<noteq> None"
      by (auto simp: spent_def list_ex_iff)
    let ?t = "if rt_token_hash t = th then t\<lparr>rt_revoked_at := Some now\<rparr> else t"
    have "?t \<in> set (t_refresh_tokens (revoke th now s))" using t(1) by (auto simp: revoke_def modify_def)
    moreover have "rt_token_hash ?t = k \<and> rt_revoked_at ?t \<noteq> None" using t by simp
    ultimately show ?thesis unfolding spent_def list_ex_iff by blast
  qed
  ultimately show ?thesis by (simp only: tokens_kept_def tokens_unique_def) blast
qed

lemma revoke_all_kept [kept_intros]: "tokens_kept s (revoke_all_refresh_for_user uid now s)"
proof -
  have "map rt_token_hash (t_refresh_tokens (revoke_all_refresh_for_user uid now s)) = map rt_token_hash (t_refresh_tokens s)"
    by (simp add: revoke_all_refresh_for_user_def)
  moreover have "spent th (revoke_all_refresh_for_user uid now s)" if "spent th s" for th
    using that by (fastforce simp: spent_def revoke_all_refresh_for_user_def list_ex_iff)
  ultimately show ?thesis by (simp only: tokens_kept_def tokens_unique_def) blast
qed

lemma tokens_kept_cong: "t_refresh_tokens s1 = t_refresh_tokens s \<Longrightarrow> t_refresh_tokens s3 = t_refresh_tokens s2 \<Longrightarrow>
    tokens_kept s1 s2 \<Longrightarrow> tokens_kept s s3"
  by (simp add: tokens_kept_def tokens_unique_def spent_def)

lemma login_kept:
  assumes "login h now raw email password s = Inr (s', p)"
  shows "tokens_kept s s'"
proof -
  obtain user :: user and s2 where created: "create_refresh_token h now (u_id user) raw
        (case snd (verify_password_with_rehash h password (u_password_hash user)) of
           None \<Rightarrow> s
         | Some k \<Rightarrow> update_user (u_id user) (\<lambda>u. u\<lparr>u_password_hash := k\<rparr>) s) = Inr s2"
    and s': "update_user (u_id user) (\<lambda>u. u\<lparr>u_last_login_at := Some now\<rparr>) s2 = s'"
    using assms by (simp add: login_def res_simps Let_def split_beta) blast
  show ?thesis
    by (rule tokens_kept_cong [OF _ _ create_token_kept [OF created]]) (simp_all flip: s' split: option.splits)
qed

lemma refresh_parts:
  assumes "refresh h now new_raw raw s = Inr (s', p)"
  obtains uid where "create_refresh_token h now uid new_raw (revoke (hash_token h raw) now s) = Inr s'"
    and "\<exists>rt \<in> set (t_refresh_tokens s). rt_token_hash rt = hash_token h raw"
proof -
  obtain rt where found: "refresh_by_hash (hash_token h raw) s = Inr (Some rt)"
    using assms by (auto simp: refresh_def res_simps split: option.splits)
  then have "filter (\<lambda>t. rt_token_hash t = hash_token h raw) (t_refresh_tokens s) = [rt]"
    by (simp add: refresh_by_hash_def scalar_one_or_none_Some)
  then have "rt \<in> set (filter (\<lambda>t. rt_token_hash t = hash_token h raw) (t_refresh_tokens s))" by simp
  then have "\<exists>rt \<in> set (t_refresh_tokens s). rt_token_hash rt = hash_token h raw" by auto
  then show ?thesis using that assms found by (auto simp: refresh_def res_simps Let_def)
qed

lemma revoke_spends:
  assumes "\<exists>rt \<in> set (t_refresh_tokens s). rt_token_hash rt = th"
  shows "spent th (revoke th now s)"
proof -
  from assms obtain rt where rt: "rt \<in> set (t_refresh_tokens s)" "rt_token_hash rt = th" by blast
  then have "rt\<lparr>rt_revoked_at := Some now\<rparr> \<in> set (t_refresh_tokens (revoke th now s))"
    by (force simp: revoke_def modify_def)
  then show ?thesis using rt(2) unfolding spent_def list_ex_iff by (intro bexI) auto
qed

lemma spent_kept: "tokens_kept s s' \<Longrightarrow> spent th s \<Longrightarrow> spent th s'"
  by (simp add: tokens_kept_def)

lemma unique_kept: "tokens_kept s s' \<Longrightarrow> tokens_unique s \<Longrightarrow> tokens_unique s'"
  by (simp add: tokens_kept_def)

lemma refresh_kept:
  assumes "refresh h now new_raw raw s = Inr (s', p)"
  shows "tokens_kept s s'" and "spent (hash_token h raw) s'"
proof -
  obtain uid where created: "create_refresh_token h now uid new_raw (revoke (hash_token h raw) now s) = Inr s'"
    and known: "\<exists>rt \<in> set (t_refresh_tokens s). rt_token_hash rt = hash_token h raw"
    by (rule refresh_parts [OF assms])
  show "tokens_kept s s'" by (rule tokens_kept_trans [OF revoke_kept create_token_kept [OF created]])
  show "spent (hash_token h raw) s'"
    by (rule spent_kept [OF create_token_kept [OF created] revoke_spends [OF known]])
qed

lemma logout_kept: "logout h now raw s = Inr s' \<Longrightarrow> tokens_kept s s'"
  by (auto simp: logout_def res_simps intro: kept_intros split: option.splits if_splits)

lemma reset_request_kept: "request_password_reset h now raw email s = Inr s' \<Longrightarrow> tokens_kept s s'"
  by (auto simp: request_password_reset_def create_reset_token_def res_simps intro!: tokens_kept_refl split: option.splits)

lemma consume_reset_tokens: "consume_reset_token h now raw s = Inr (s', r) \<Longrightarrow> t_refresh_tokens s' = t_refresh_tokens s"
  by (auto simp: consume_reset_token_def res_simps split: option.splits if_splits)

lemma reset_confirm_kept:
  assumes "confirm_password_reset h now token pw s = Inr s'"
  shows "tokens_kept s s'"
proof -
  obtain s1 r and user :: user where consumed: "consume_reset_token h now token s = Inr (s1, r)"
    and s': "revoke_all_refresh_for_user (u_id user) now
          (update_user (u_id user) (\<lambda>u. u\<lparr>u_password_hash := hash_password h pw\<rparr>) s1) = s'"
    using assms by (simp add: confirm_password_reset_def res_simps Let_def split_paired_Ex) blast
  show ?thesis
    unfolding s' [symmetric] by (rule tokens_kept_trans [OF tokens_kept_refl revoke_all_kept])
      (simp add: consume_reset_tokens [OF consumed])
qed

lemma session_step_kept: "tokens_kept s (session_step st h e s)"
proof (cases "session_run st h (fst e) (snd e) s")
  case (Inl x)
  then show ?thesis by (simp add: session_step_def tokens_kept_refl)
next
  case (Inr s')
  then have "tokens_kept s s'"
    by (auto simp: session_run_def web_login_def web_refresh_def web_logout_def res_simps Let_def
        intro: login_kept refresh_kept(1) logout_kept reset_request_kept reset_confirm_kept tokens_kept_refl
        split: session_request.splits prod.splits if_splits)
  then show ?thesis by (simp add: session_step_def Inr)
qed

lemma session_fold_kept: "tokens_kept s (fold (session_step st h) es s)"
proof (induction es arbitrary: s)
  case Nil
  show ?case by (simp add: tokens_kept_refl)
next
  case (Cons e es)
  show ?case using tokens_kept_trans [OF session_step_kept Cons.IH] by simp
qed

lemma spent_filter:
  assumes "tokens_unique s" and "spent th s"
  shows "\<exists>rt. filter (\<lambda>t. rt_token_hash t = th) (t_refresh_tokens s) = [rt] \<and> rt_revoked_at rt \<noteq> None"
proof -
  from assms(2) obtain rt where rt: "rt \<in> set (t_refresh_tokens s)" "rt_token_hash rt = th" "rt_revoked_at rt \<noteq> None"
    by (auto simp: spent_def list_ex_iff)
  obtain ys zs where split: "t_refresh_tokens s = ys @ rt # zs" using rt(1) by (meson split_list)
  then have fresh: "th \<notin> rt_token_hash ` set (ys @ zs)" using assms(1) rt(2) by (auto simp: tokens_unique_def)
  then have "\<forall>t \<in> set (ys @ zs). rt_token_hash t \<noteq> th" by (metis image_eqI)
  then have "filter (\<lambda>t. rt_token_hash t = th) ys = []" "filter (\<lambda>t. rt_token_hash t = th) zs = []"
    by (simp_all add: filter_empty_conv)
  then show ?thesis using rt(2,3) by (simp add: split)
qed

text \<open>C29: A refresh token buys one session.  Once a refresh with a token has succeeded, then whatever
sign-ins, refreshes, sign-outs and password resets follow, at whatever instants and by whomever, the
same token is refused as invalid or revoked, in the cookie as in the body.\<close>

theorem refresh_token_single_use:
  assumes "tokens_unique s" and "raw \<noteq> []"
    and "web_refresh st h now new_raw (Some raw) body s = Inr (s', out)"
  shows "web_refresh st h later newer_raw (Some raw) body' (fold (session_step st h) es s') =
      Inl (Unauthorized ''invalid or revoked refresh token'') \<and>
    web_refresh st h later newer_raw None raw (fold (session_step st h) es s') =
      Inl (Unauthorized ''invalid or revoked refresh token'')"
proof -
  obtain p where ok: "refresh h now new_raw raw s = Inr (s', p)"
    using assms(2,3) by (auto simp: web_refresh_def resolve_refresh_token_def res_simps split: prod.splits)
  let ?t = "fold (session_step st h) es s'"
  have "tokens_unique ?t"
    by (rule unique_kept [OF session_fold_kept unique_kept [OF refresh_kept(1) [OF ok] assms(1)]])
  moreover have "spent (hash_token h raw) ?t"
    by (rule spent_kept [OF session_fold_kept refresh_kept(2) [OF ok]])
  ultimately obtain rt where "filter (\<lambda>t. rt_token_hash t = hash_token h raw) (t_refresh_tokens ?t) = [rt]"
      "rt_revoked_at rt \<noteq> None" using spent_filter by blast
  then have "refresh h later newer_raw raw ?t = Inl (Unauthorized ''invalid or revoked refresh token'')"
    by (simp add: refresh_def refresh_by_hash_def raise_if_def)
  then show ?thesis
    using assms(2) by (simp add: web_refresh_def resolve_refresh_token_def)
qed

definition plain_hashing :: hashing where
  "plain_hashing = \<lparr>hash_token = (\<lambda>t. t), prepare_password = (\<lambda>t. t), argon_hash = (\<lambda>t. t),
     argon_verify = (\<lambda>k t. if k = t then V_match else V_mismatch), needs_rehash = (\<lambda>_. False)\<rparr>"

definition sample_settings :: settings where
  "sample_settings = \<lparr>st_app_env = Env_prod, st_jwt_refresh_ttl_days = 30, st_refresh_cookie_name = ''r'',
     st_refresh_cookie_domain = [], st_samesite_override = [], st_secure_override = [], st_cors_origins = []\<rparr>"

definition token_world :: db where
  "token_world = world\<lparr>t_refresh_tokens := [\<lparr>rt_user_id = 12, rt_token_hash = ''a'', rt_expires_at = 1000, rt_revoked_at = None\<rparr>]\<rparr>"

lemma refresh_token_single_use_witness:
  "\<exists>s' out. web_refresh sample_settings plain_hashing 5 ''b'' (Some ''a'') [] token_world = Inr (s', out) \<and>
     (let t = fold (session_step sample_settings plain_hashing) [(6, Rq_refresh ''c'' None ''b''), (7, Rq_logout (Some ''c'') [])] s'
      in web_refresh sample_settings plain_hashing 8 ''d'' (Some ''a'') [] t = Inl (Unauthorized ''invalid or revoked refresh token'') \<and>
         web_refresh sample_settings plain_hashing 8 ''d'' None ''a'' t = Inl (Unauthorized ''invalid or revoked refresh token''))"
proof -
  have "tokens_unique token_world" by (simp add: tokens_unique_def token_world_def)
  moreover obtain s' out where ok: "web_refresh sample_settings plain_hashing 5 ''b'' (Some ''a'') [] token_world = Inr (s', out)"
    by (simp add: web_refresh_def resolve_refresh_token_def refresh_def refresh_by_hash_def token_world_def plain_hashing_def
        user_by_id_def world_def revoke_def modify_def create_refresh_token_def fetch_def raise_if_def)
  ultimately have "(let t = fold (session_step sample_settings plain_hashing) [(6, Rq_refresh ''c'' None ''b''), (7, Rq_logout (Some ''c'') [])] s'
      in web_refresh sample_settings plain_hashing 8 ''d'' (Some ''a'') [] t = Inl (Unauthorized ''invalid or revoked refresh token'') \<and>
         web_refresh sample_settings plain_hashing 8 ''d'' None ''a'' t = Inl (Unauthorized ''invalid or revoked refresh token''))"
    unfolding Let_def by (intro refresh_token_single_use) simp_all
  then show ?thesis using ok by blast
qed

end
