(* ===== verification/Gregorian.thy ===== *)
theory Gregorian
  imports Calendar
begin

text \<open>
  That the two conversions of the calendar are inverse to each other: every day number has one year,
  month and day that \<open>date_number\<close> takes back to it, and the order of days is the order of their
  year, month and day. The computations of months in the code are compared by these facts.
\<close>

definition month_length :: "int \<Rightarrow> int \<Rightarrow> int" where
  "month_length y m = days_in_month m + (if m = 2 \<and> is_leap y then 1 else 0)"

definition valid_date :: "int \<Rightarrow> int \<Rightarrow> int \<Rightarrow> bool" where
  "valid_date y m d \<longleftrightarrow> 1 \<le> m \<and> m \<le> 12 \<and> 1 \<le> d \<and> d \<le> month_length y m"

section \<open>From a day of the year to month and day\<close>

definition month_day :: "bool \<Rightarrow> int \<Rightarrow> int \<times> int" where
  "month_day leap n =
     (let month = (n + 50) div 32;
          preceding = days_before_month month + (if month > 2 \<and> leap then 1 else 0)
      in if preceding > n
         then (month - 1, n - (preceding - (days_in_month (month - 1) + (if month - 1 = 2 \<and> leap then 1 else 0))) + 1)
         else (month, n - preceding + 1))"

definition month_day_ok :: "bool \<Rightarrow> int \<Rightarrow> bool" where
  "month_day_ok leap n =
     (case month_day leap n of (m, d) \<Rightarrow> 1 \<le> m \<and> m \<le> 12 \<and> 1 \<le> d \<and>
        d \<le> days_in_month m + (if m = 2 \<and> leap then 1 else 0) \<and>
        days_before_month m + (if m > 2 \<and> leap then 1 else 0) + d - 1 = n)"

lemma month_day_table: "list_all (month_day_ok False) [0..364]" "list_all (month_day_ok True) [0..365]"
  by code_simp+

lemma month_day_correct:
  assumes "0 \<le> n" and "n \<le> (if leap then 365 else 364)"
  shows "month_day_ok leap n"
  using assms month_day_table by (cases leap) (auto simp: list_all_iff)

section \<open>The parts of a year\<close>

lemma div_parts:
  fixes b q r k :: int
  assumes "b = k * q + r" "0 \<le> r" "r < k"
  shows "b div k = q" and "b mod k = r"
  using assms by simp_all

lemma succ_mod:
  fixes b k :: int
  assumes "0 < k"
  shows "(b + 1) mod k = 0 \<longleftrightarrow> b mod k = k - 1"
proof -
  have e: "(b + 1) mod k = (b mod k + 1) mod k" by (simp add: mod_simps)
  have range: "0 \<le> b mod k" "b mod k < k" using assms by simp_all
  show ?thesis
  proof (cases "b mod k = k - 1")
    case False
    then have "(b mod k + 1) mod k = b mod k + 1" using range by (intro mod_pos_pos_trivial) linarith+
    then show ?thesis using e False range by linarith
  qed (simp add: e)
qed

lemma year_parts:
  fixes a e c f :: int
  assumes "b = 400 * a + 100 * e + 4 * c + f" "0 \<le> e" "e \<le> 3" "0 \<le> c" "c \<le> 24" "0 \<le> f" "f \<le> 3"
  shows "b div 4 = 100 * a + 25 * e + c" "b div 100 = 4 * a + e" "b div 400 = a"
    "is_leap (b + 1) \<longleftrightarrow> f = 3 \<and> (c \<noteq> 24 \<or> e = 3)"
proof -
  have b: "b = 4 * (100 * a + 25 * e + c) + f" "b = 100 * (4 * a + e) + (4 * c + f)"
    "b = 400 * a + (100 * e + 4 * c + f)" using assms(1) by simp_all
  show "b div 4 = 100 * a + 25 * e + c" by (rule div_parts [OF b(1)]) (use assms in linarith)+
  show "b div 100 = 4 * a + e" by (rule div_parts [OF b(2)]) (use assms in linarith)+
  show "b div 400 = a" by (rule div_parts [OF b(3)]) (use assms in linarith)+
  have "b mod 4 = f" by (rule div_parts [OF b(1)]) (use assms in linarith)+
  then have m4: "(b + 1) mod 4 = 0 \<longleftrightarrow> f = 3" using succ_mod [of 4 b] by simp
  have "b mod 100 = 4 * c + f" by (rule div_parts [OF b(2)]) (use assms in linarith)+
  then have m100: "(b + 1) mod 100 = 0 \<longleftrightarrow> c = 24 \<and> f = 3" using succ_mod [of 100 b] assms(4-7) by (simp, linarith)
  have "b mod 400 = 100 * e + 4 * c + f" by (rule div_parts [OF b(3)]) (use assms in linarith)+
  then have m400: "(b + 1) mod 400 = 0 \<longleftrightarrow> e = 3 \<and> c = 24 \<and> f = 3" using succ_mod [of 400 b] assms(2-7) by (simp, linarith)
  show "is_leap (b + 1) \<longleftrightarrow> f = 3 \<and> (c \<noteq> 24 \<or> e = 3)" unfolding is_leap_def m4 m100 m400 by blast
qed

lemma date_number_parts:
  fixes a e c f :: int
  assumes "y = 400 * a + 100 * e + 4 * c + f + 1" "0 \<le> e" "e \<le> 3" "0 \<le> c" "c \<le> 24" "0 \<le> f" "f \<le> 3"
  shows "date_number y m d = 146097 * a + 36524 * e + 1461 * c + 365 * f +
    days_before_month m + (if m > 2 \<and> f = 3 \<and> (c \<noteq> 24 \<or> e = 3) then 1 else 0) + d - 719163"
proof -
  let ?b = "400 * a + 100 * e + 4 * c + f"
  note parts = year_parts [OF refl assms(2-7), of a]
  have y: "y - 1 = ?b" and leap: "is_leap y \<longleftrightarrow> f = 3 \<and> (c \<noteq> 24 \<or> e = 3)" using assms(1) parts(4) by simp_all
  show ?thesis unfolding date_number_def Let_def y parts(1-3) leap by (simp add: algebra_simps)
qed

section \<open>Every day has its date\<close>

lemma date_number_ymd:
  assumes "ymd n = (y, m, d)"
  shows "valid_date y m d \<and> date_number y m d = n"
proof -
  define n0 where "n0 = n + 719162"
  define a where "a = n0 div 146097"
  define r400 where "r400 = n0 mod 146097"
  define e where "e = r400 div 36524"
  define r100 where "r100 = r400 mod 36524"
  define c where "c = r100 div 1461"
  define r4 where "r4 = r100 mod 1461"
  define f where "f = r4 div 365"
  define k where "k = r4 mod 365"
  have n0: "n0 = 146097 * a + r400" "0 \<le> r400" "r400 < 146097" by (simp_all add: a_def r400_def)
  have r400: "r400 = 36524 * e + r100" "0 \<le> r100" "r100 < 36524" by (simp_all add: e_def r100_def)
  have r100: "r100 = 1461 * c + r4" "0 \<le> r4" "r4 < 1461" by (simp_all add: c_def r4_def)
  have r4: "r4 = 365 * f + k" "0 \<le> k" "k < 365" by (simp_all add: f_def k_def)
  have e: "0 \<le> e" "e \<le> 4" using n0 r400 by linarith+
  have c: "0 \<le> c" "c \<le> 24" using r400 r100 by linarith+
  have f: "0 \<le> f" "f \<le> 4" using r100 r4 by linarith+
  let ?year = "a * 400 + 1 + e * 100 + c * 4 + f"
  have ymd: "ymd n = (if f = 4 \<or> e = 4 then (?year - 1, 12, 31)
      else (?year, month_day (f = 3 \<and> (c \<noteq> 24 \<or> e = 3)) k))"
    unfolding ymd_def n0_def [symmetric] a_def [symmetric] r400_def [symmetric] e_def [symmetric]
      r100_def [symmetric] c_def [symmetric] r4_def [symmetric] f_def [symmetric] k_def [symmetric] Let_def month_day_def
    by auto
  consider "e = 4" | "e \<noteq> 4" "f = 4" | "e \<noteq> 4" "f \<noteq> 4" by blast
  then show ?thesis
  proof cases
    case 1
    then have "r100 = 0" using n0 r400 by linarith
    then have zero: "c = 0" "r4 = 0" "f = 0" "k = 0" using r100 r4 c f by linarith+
    have y: "y = 400 * a + 100 * 3 + 4 * 24 + 3 + 1" "m = 12" "d = 31" using assms ymd 1 zero by simp_all
    have "date_number y 12 31 = n"
      using date_number_parts [OF y(1), of 12 31] n0 r400 1 zero \<open>r100 = 0\<close>
      by (simp add: n0_def days_before_month_def)
    then show ?thesis by (simp add: y valid_date_def month_length_def days_in_month_def)
  next
    case 2
    then have "k = 0" "c \<noteq> 24 \<or> e = 3" using r4 r100 r400 n0 c e by linarith+
    have y: "y = 400 * a + 100 * e + 4 * c + 3 + 1" "m = 12" "d = 31" using assms ymd 2 by simp_all
    have "date_number y 12 31 = n"
      using date_number_parts [OF y(1), of 12 31] n0 r400 r100 r4 2 e c \<open>k = 0\<close> \<open>c \<noteq> 24 \<or> e = 3\<close>
      by (simp add: n0_def days_before_month_def)
    then show ?thesis by (simp add: y valid_date_def month_length_def days_in_month_def)
  next
    case 3
    then have y: "y = 400 * a + 100 * e + 4 * c + f + 1" and md: "month_day (f = 3 \<and> (c \<noteq> 24 \<or> e = 3)) k = (m, d)"
      using assms ymd by simp_all
    define leap where "leap = (f = 3 \<and> (c \<noteq> 24 \<or> e = 3))"
    have "month_day_ok leap k" by (rule month_day_correct) (use r4 in auto)
    moreover have "month_day leap k = (m, d)" using md by (simp only: leap_def)
    moreover have "is_leap y \<longleftrightarrow> leap"
      using year_parts(4) [OF refl, of e c f a] 3 e c f y by (simp add: leap_def)
    moreover have "date_number y m d = 146097 * a + 36524 * e + 1461 * c + 365 * f +
        days_before_month m + (if m > 2 \<and> leap then 1 else 0) + d - 719163"
      using date_number_parts [OF y] 3 e c f by (simp only: leap_def)
    moreover have "n = 146097 * a + 36524 * e + 1461 * c + 365 * f + k - 719162"
      using n0(1) r400(1) r100(1) r4(1) by (simp add: n0_def)
    ultimately show ?thesis by (simp add: month_day_ok_def valid_date_def month_length_def)
  qed
qed

section \<open>The order of days\<close>

text \<open>Months are counted from the year 0; each begins when the one before it has ended.\<close>

definition month_start :: "int \<Rightarrow> int" where
  "month_start k = date_number (k div 12) (k mod 12 + 1) 1"

lemma month_cases:
  fixes m :: int
  assumes "1 \<le> m" "m \<le> 12"
  shows "m = 1 \<or> m = 2 \<or> m = 3 \<or> m = 4 \<or> m = 5 \<or> m = 6 \<or> m = 7 \<or> m = 8 \<or> m = 9 \<or> m = 10 \<or> m = 11 \<or> m = 12"
  using assms by arith

lemma month_length_range:
  assumes "1 \<le> m" "m \<le> 12"
  shows "28 \<le> month_length y m \<and> month_length y m \<le> 31"
  using month_cases [OF assms] by (elim disjE) (simp_all add: month_length_def days_in_month_def)

lemma next_month:
  assumes "1 \<le> m" "m \<le> 11"
  shows "date_number y (m + 1) 1 = date_number y m 1 + month_length y m"
  using month_cases [OF assms(1) order_trans [OF assms(2)]] assms
  by (simp, elim disjE) (simp_all add: date_number_def Let_def month_length_def days_in_month_def days_before_month_def)

lemma next_year: "date_number (y + 1) 1 1 = date_number y 12 1 + month_length y 12"
proof -
  define b where "b = y - 1"
  define a where "a = b div 400"
  define r400 where "r400 = b mod 400"
  define e where "e = r400 div 100"
  define r100 where "r100 = r400 mod 100"
  define c where "c = r100 div 4"
  define f where "f = r100 mod 4"
  have r: "b = 400 * a + r400" "r400 = 100 * e + r100" "r100 = 4 * c + f"
    by (simp_all add: a_def r400_def e_def r100_def c_def f_def)
  have bound: "0 \<le> r400" "r400 < 400" "0 \<le> r100" "r100 < 100" "0 \<le> f" "f < 4"
    by (simp_all add: r400_def r100_def f_def)
  have b: "b = 400 * a + 100 * e + 4 * c + f" using r by linarith
  have range: "0 \<le> e" "e \<le> 3" "0 \<le> c" "c \<le> 24" "0 \<le> f" "f \<le> 3" using r bound by linarith+
  note parts = year_parts [OF b range]
  have "(b + 1) div 4 = b div 4 + (if f = 3 then 1 else 0)"
  proof (cases "f = 3")
    case True
    then have "b + 1 = 4 * (100 * a + 25 * e + c + 1) + 0" using b by simp
    from div_parts(1) [OF this] show ?thesis using True parts(1) by simp
  next
    case False
    have "b + 1 = 4 * (100 * a + 25 * e + c) + (f + 1)" using b by simp
    from div_parts(1) [OF this] show ?thesis using False range parts(1) by simp
  qed
  moreover have "(b + 1) div 100 = b div 100 + (if f = 3 \<and> c = 24 then 1 else 0)"
  proof (cases "f = 3 \<and> c = 24")
    case True
    then have "b + 1 = 100 * (4 * a + e + 1) + 0" using b by simp
    from div_parts(1) [OF this] show ?thesis using True parts(2) by simp
  next
    case False
    have "b + 1 = 100 * (4 * a + e) + (4 * c + f + 1)" using b by simp
    from div_parts(1) [OF this] False range parts(2) show ?thesis by auto
  qed
  moreover have "(b + 1) div 400 = b div 400 + (if f = 3 \<and> c = 24 \<and> e = 3 then 1 else 0)"
  proof (cases "f = 3 \<and> c = 24 \<and> e = 3")
    case True
    then have "b + 1 = 400 * (a + 1) + 0" using b by simp
    from div_parts(1) [OF this] show ?thesis using True parts(3) by simp
  next
    case False
    have "b + 1 = 400 * a + (100 * e + 4 * c + f + 1)" using b by simp
    from div_parts(1) [OF this] False range parts(3) show ?thesis by auto
  qed
  ultimately have quot: "y div 4 - y div 100 + y div 400 = b div 4 - b div 100 + b div 400 +
      (if is_leap y then 1 else 0)"
    using parts(4) by (simp add: b_def)
  have "date_number (y + 1) 1 1 = y * 365 + y div 4 - y div 100 + y div 400 + 1 - 719163"
    by (simp add: date_number_def days_before_month_def)
  moreover have "date_number y 12 1 = b * 365 + b div 4 - b div 100 + b div 400 + 334 +
      (if is_leap y then 1 else 0) + 1 - 719163"
    by (simp add: date_number_def Let_def days_before_month_def b_def)
  moreover have "month_length y 12 = 31" by (simp add: month_length_def days_in_month_def)
  ultimately show ?thesis using quot b_def by (simp split: if_splits)
qed

lemma month_start_next: "month_start (k + 1) = month_start k + month_length (k div 12) (k mod 12 + 1)"
proof -
  have k: "k = 12 * (k div 12) + k mod 12" by simp
  have range: "0 \<le> k mod 12" "k mod 12 < 12" by simp_all
  show ?thesis
  proof (cases "k mod 12 = 11")
    case True
    then have "k + 1 = 12 * (k div 12 + 1) + 0" using k by (simp add: algebra_simps)
    from div_parts [OF this] show ?thesis using True next_year [of "k div 12"] by (simp add: month_start_def)
  next
    case False
    have "k + 1 = 12 * (k div 12) + (k mod 12 + 1)" by simp
    moreover have "0 \<le> k mod 12 + 1" "k mod 12 + 1 < 12" using False range by linarith+
    ultimately have "(k + 1) div 12 = k div 12" "(k + 1) mod 12 = k mod 12 + 1" by (rule div_parts)+
    moreover have "1 \<le> k mod 12 + 1" "k mod 12 + 1 \<le> 11" using False range by linarith+
    ultimately show ?thesis using next_month [of "k mod 12 + 1" "k div 12"] unfolding month_start_def by simp
  qed
qed

lemma month_start_less: "month_start k < month_start (k + 1)"
proof -
  have "1 \<le> k mod 12 + 1" "k mod 12 + 1 \<le> 12" using pos_mod_bound [of 12 k] pos_mod_sign [of 12 k] by linarith+
  then show ?thesis using month_length_range [of "k mod 12 + 1" "k div 12"] unfolding month_start_next by linarith
qed

lemma month_start_mono: "month_start k \<le> month_start (k + int n)"
proof (induction n)
  case (Suc n)
  then show ?case using month_start_less [of "k + int n"] by (simp add: algebra_simps)
qed simp

lemma month_start_le: "j \<le> k \<Longrightarrow> month_start j \<le> month_start k"
  using month_start_mono [of j "nat (k - j)"] by simp

lemma in_month:
  assumes "valid_date y m d"
  shows "date_number y m d = month_start (12 * y + m - 1) + d - 1"
    and "date_number y m d < month_start (12 * y + m - 1 + 1)"
proof -
  have m: "1 \<le> m" "m \<le> 12" and d: "d \<le> month_length y m" using assms by (simp_all add: valid_date_def)
  have e: "12 * y + m - 1 = 12 * y + (m - 1)" by simp
  have "(12 * y + m - 1) div 12 = y" by (rule div_parts(1) [OF e]) (use m in linarith)+
  moreover have "(12 * y + m - 1) mod 12 = m - 1" by (rule div_parts(2) [OF e]) (use m in linarith)+
  ultimately have k: "(12 * y + m - 1) div 12 = y" "(12 * y + m - 1) mod 12 + 1 = m" by simp_all
  show n: "date_number y m d = month_start (12 * y + m - 1) + d - 1"
    unfolding month_start_def k by (simp add: date_number_def Let_def)
  show "date_number y m d < month_start (12 * y + m - 1 + 1)"
    unfolding month_start_next k n using d by linarith
qed

text \<open>Days are in the order of their months and, within a month, of their numbers.\<close>

lemma date_order:
  assumes "valid_date y m d" and "valid_date y' m' d'"
  shows "date_number y m d \<le> date_number y' m' d' \<longleftrightarrow>
    12 * y + m < 12 * y' + m' \<or> 12 * y + m = 12 * y' + m' \<and> d \<le> d'"
proof -
  let ?k = "12 * y + m - 1" and ?k' = "12 * y' + m' - 1"
  have d: "1 \<le> d" "1 \<le> d'" using assms by (simp_all add: valid_date_def)
  consider "?k < ?k'" | "?k = ?k'" | "?k' < ?k" by linarith
  then show ?thesis
  proof cases
    case 1
    then have "month_start (?k + 1) \<le> month_start ?k'" by (intro month_start_le) linarith
    then show ?thesis using 1 in_month [OF assms(1)] in_month(1) [OF assms(2)] d by linarith
  next
    case 2
    then have "month_start ?k = month_start ?k'" by simp
    then show ?thesis using 2 in_month(1) [OF assms(1)] in_month(1) [OF assms(2)] by linarith
  next
    case 3
    then have "month_start (?k' + 1) \<le> month_start ?k" by (intro month_start_le) linarith
    then show ?thesis using 3 in_month [OF assms(2)] in_month(1) [OF assms(1)] d by linarith
  qed
qed

lemma valid_same:
  assumes "valid_date y m d" "valid_date y' m' d'" "12 * y + m = 12 * y' + m'"
  shows "y = y' \<and> m = m'"
  using assms by (simp add: valid_date_def) presburger

lemma ymd_date_number:
  assumes "valid_date y m d"
  shows "ymd (date_number y m d) = (y, m, d)"
proof -
  obtain y' m' d' where ymd: "ymd (date_number y m d) = (y', m', d')" by (cases "ymd (date_number y m d)") auto
  have same: "valid_date y' m' d'" "date_number y' m' d' = date_number y m d" using date_number_ymd [OF ymd] by simp_all
  have "12 * y + m = 12 * y' + m' \<and> d = d'"
    using date_order [OF assms same(1)] date_order [OF same(1) assms] same(2) by linarith
  then show ?thesis using valid_same [OF assms same(1)] ymd by simp
qed

lemma valid_ymd: "valid_date (year_of n) (month_of n) (day_of n)"
  using date_number_ymd [of n "year_of n" "month_of n" "day_of n"]
  by (simp add: year_of_def month_of_def day_of_def)

lemma date_number_of: "date_number (year_of n) (month_of n) (day_of n) = n"
  using date_number_ymd [of n "year_of n" "month_of n" "day_of n"]
  by (simp add: year_of_def month_of_def day_of_def)

end
