(* ===== verification/Deed.thy ===== *)
theory Deed
  imports Samples Gregorian Texts
begin

text \<open>
  What is printed on the deed of a contract (\<^verbatim>\<open>services/pdf/generator.py\<close>): amounts, dates and the
  schedule of payments. Texts are the bytes of UTF-8, so the pound sign and the dash are more than
  one character. The template and the rendering of the page are not part of the model: the
  file is a parameter, a function of the printed data. The amounts read back as they were, and the dates of the
  schedule are those on which the periods of the contract end.
\<close>

section \<open>Numbers\<close>

definition digit :: "nat \<Rightarrow> char" where
  "digit n = ''0123456789'' ! (n mod 10)"

fun decimal_text :: "nat \<Rightarrow> string" where
  "decimal_text n = (if n < 10 then [digit n] else decimal_text (n div 10) @ [digit n])"

declare decimal_text.simps [simp del]

text \<open>\<^verbatim>\<open>n\<close> digits with leading zeros.\<close>

fun padded :: "nat \<Rightarrow> nat \<Rightarrow> string" where
  "padded 0 n = []"
| "padded (Suc k) n = padded k (n div 10) @ [digit n]"

text \<open>The format \<^verbatim>\<open>{n:,}\<close>.\<close>

fun grouped :: "nat \<Rightarrow> string" where
  "grouped n = (if n < 1000 then decimal_text n else grouped (n div 1000) @ '','' @ padded 3 (n mod 1000))"

declare grouped.simps [simp del]

definition pound :: string where
  "pound = [CHR 0xC2, CHR 0xA3]"

definition quantize_or_raise :: "nat \<Rightarrow> rat \<Rightarrow> rat res" where
  "quantize_or_raise n x = (let q = quantize_up n x in raise_if (\<bar>q\<bar> \<ge> 10 ^ (28 - n)) InvalidOperation (Inr q))"

definition fmt_money :: "rat option \<Rightarrow> string res" where
  "fmt_money value =
     (case value of
        None \<Rightarrow> Inr (pound @ ''0.00'')
      | Some x \<Rightarrow>
          attempt (quantize_or_raise 2 x) (\<lambda>d.
          let sign = (if d < 0 then ''-'' else []); pence = nat \<lfloor>\<bar>d\<bar> * 100\<rfloor>
          in Inr (sign @ pound @ grouped (pence div 100) @ ''.'' @ padded 2 (pence mod 100))))"

text \<open>\<^verbatim>\<open>str\<close> of a decimal with \<open>n\<close> places, and the percentages of the deed.\<close>

definition fixed_text :: "nat \<Rightarrow> rat \<Rightarrow> string" where
  "fixed_text n d =
     (let units = nat \<lfloor>\<bar>d\<bar> * 10 ^ n\<rfloor>
      in (if d < 0 then ''-'' else []) @ decimal_text (units div 10 ^ n) @ ''.'' @ padded n (units mod 10 ^ n))"

definition percent_text :: "nat \<Rightarrow> rat \<Rightarrow> string res" where
  "percent_text n r = attempt (quantize_or_raise n (ctx (r * 100))) (\<lambda>q. Inr (fixed_text n q))"

section \<open>Dates\<close>

definition month_name :: "int \<Rightarrow> string" where
  "month_name m =
     [''Jan'', ''Feb'', ''Mar'', ''Apr'', ''May'', ''Jun'', ''Jul'', ''Aug'', ''Sep'', ''Oct'', ''Nov'', ''Dec''] ! nat (m - 1)"

definition fmt_date :: "int \<Rightarrow> string" where
  "fmt_date d = padded 2 (nat (day_of d)) @ '' '' @ month_name (month_of d) @ '' '' @ decimal_text (nat (year_of d))"

definition fmt_dt :: "zone \<Rightarrow> datetime option \<Rightarrow> string" where
  "fmt_dt z t =
     (case t of
        None \<Rightarrow> [CHR 0xE2, CHR 0x80, CHR 0x94]
      | Some u \<Rightarrow>
          let w = to_wall z u; clock = w mod us_per_day
          in fmt_date (date_of w) @ '' '' @ padded 2 (nat (clock div us_per_hour)) @ '':'' @
             padded 2 (nat (clock mod us_per_hour div 60000000)))"

definition days_in_month_of :: "int \<Rightarrow> int \<Rightarrow> int" where
  "days_in_month_of year month = (if month = 12 then 31 else day_of (date_number year (month + 1) 1 - 1))"

definition period_due_date :: "int \<Rightarrow> int \<Rightarrow> payment_frequency \<Rightarrow> int" where
  "period_due_date start period_index freq =
     (if freq = PF_weekly then start + 7 * period_index
      else if freq = PF_biweekly then start + 7 * (period_index * 2)
      else
        let month = month_of start + period_index;
            year = year_of start + (month - 1) div 12;
            month = (month - 1) mod 12 + 1
        in date_number year month (min (day_of start) (days_in_month_of year month)))"

section \<open>The schedule\<close>

record schedule_row =
  sw_period :: string
  sw_due_date :: string
  sw_amount_due :: string
  sw_interest :: string
  sw_running_balance :: string

definition schedule_row_of :: "rat \<Rightarrow> int \<Rightarrow> payment_frequency \<Rightarrow> sim_row \<Rightarrow> schedule_row res" where
  "schedule_row_of r start freq entry =
     (let before = row_before entry in
      raise_if (ctx (1 + r) = 0) InvalidOperation (
      attempt (quantize_or_raise 2 (ctx (before / ctx (1 + r)))) (\<lambda>prev_balance.
      attempt (quantize_or_raise 2 (ctx (before - prev_balance))) (\<lambda>interest.
      attempt (fmt_money (Some (row_payment entry))) (\<lambda>amount_due.
      attempt (fmt_money (Some interest)) (\<lambda>interest_text.
      attempt (fmt_money (Some (row_end entry))) (\<lambda>running_balance.
      Inr \<lparr>sw_period = decimal_text (nat (row_period entry)),
           sw_due_date = fmt_date (period_due_date start (row_period entry) freq),
           sw_amount_due = amount_due, sw_interest = interest_text, sw_running_balance = running_balance\<rparr>)))))))"

fun all_rows :: "('a \<Rightarrow> 'b res) \<Rightarrow> 'a list \<Rightarrow> 'b list res" where
  "all_rows f [] = Inr []"
| "all_rows f (x # xs) = attempt (f x) (\<lambda>y. attempt (all_rows f xs) (\<lambda>ys. Inr (y # ys)))"

definition build_schedule_rows ::
  "zone \<Rightarrow> (rat \<Rightarrow> rat) \<Rightarrow> datetime \<Rightarrow> debt_contract \<Rightarrow> datetime option \<Rightarrow> schedule_row list res" where
  "build_schedule_rows z aer now c signed_at =
     attempt (simulate aer c) (\<lambda>sim.
     let start = as_london_date z (case signed_at of Some t \<Rightarrow> t | None \<Rightarrow> now)
     in all_rows (schedule_row_of (period_rate aer c) start (payment_frequency c)) sim)"

section \<open>The printed data\<close>

definition upper_char :: "char \<Rightarrow> char" where
  "upper_char c = (let n = of_char c :: nat in if 97 \<le> n \<and> n \<le> 122 then char_of (n - 32) else c)"

definition short_id :: "uuid \<Rightarrow> string" where
  "short_id u = take 8 (map upper_char (uuid_text u))"

definition frequency_label :: "payment_frequency \<Rightarrow> string" where
  "frequency_label f = (case f of PF_weekly \<Rightarrow> ''weekly'' | PF_biweekly \<Rightarrow> ''biweekly'' | PF_monthly \<Rightarrow> ''monthly'')"

definition severity_label :: "late_penalty_severity \<Rightarrow> string" where
  "severity_label v = (case v of LP_light \<Rightarrow> ''light'' | LP_medium \<Rightarrow> ''medium'' | LP_severe \<Rightarrow> ''severe'')"

definition sub_full_name :: "user \<Rightarrow> string" where
  "sub_full_name u =
     (let first = strip_by is_space (case u_first_name u of None \<Rightarrow> [] | Some n \<Rightarrow> n);
          last_name = strip_by is_space (case u_last_name u of None \<Rightarrow> [] | Some n \<Rightarrow> n);
          full = strip_by is_space (first @ '' '' @ last_name)
      in if full = [] then u_username u else full)"

text \<open>The row of the goddess is modelled without her address, which is an argument; the contract itself is
  handed to the template too.\<close>

record deed =
  dx_contract :: debt_contract
  dx_short_id :: string
  dx_goddess_display_name :: string
  dx_goddess_email :: string
  dx_sub_username :: string
  dx_sub_first_name :: string
  dx_sub_last_name :: string
  dx_sub_full_name :: string
  dx_sub_id_prefix :: string
  dx_principal :: string
  dx_minimum_payment :: string
  dx_exit_amount :: string
  dx_interest_rate_pct :: string
  dx_penalty_pct :: string
  dx_frequency_label :: string
  dx_interest_period_label :: string
  dx_duration_periods :: int
  dx_late_penalty_severity :: string
  dx_created_at :: string
  dx_signed_at :: "string option"
  dx_generated_at :: string
  dx_schedule_rows :: "schedule_row list"
  dx_signature :: "string option"
  dx_goddess_signature :: "string option"
  dx_draft :: bool

definition build_context ::
  "zone \<Rightarrow> (rat \<Rightarrow> rat) \<Rightarrow> datetime \<Rightarrow> string \<Rightarrow> debt_contract \<Rightarrow> goddess \<Rightarrow> user \<Rightarrow> string option \<Rightarrow> string option \<Rightarrow>
   datetime option \<Rightarrow> bool \<Rightarrow> deed res" where
  "build_context z aer now email c g u signature goddess_signature signed_at draft =
     attempt (percent_text 4 (interest_rate c)) (\<lambda>rate_pct.
     attempt (percent_text 2 (late_penalty_percent c)) (\<lambda>penalty_pct.
     attempt (fmt_money (Some (principal c))) (\<lambda>principal_fmt.
     attempt (fmt_money (Some (minimum_payment c))) (\<lambda>minimum_fmt.
     attempt (fmt_money (Some (exit_amount c))) (\<lambda>exit_fmt.
     attempt (build_schedule_rows z aer now c signed_at) (\<lambda>rows.
     Inr \<lparr>dx_contract = c, dx_short_id = short_id (c_id c),
          dx_goddess_display_name = g_display_name g, dx_goddess_email = email,
          dx_sub_username = u_username u,
          dx_sub_first_name = (case u_first_name u of None \<Rightarrow> [] | Some n \<Rightarrow> n),
          dx_sub_last_name = (case u_last_name u of None \<Rightarrow> [] | Some n \<Rightarrow> n),
          dx_sub_full_name = sub_full_name u, dx_sub_id_prefix = short_id (u_id u),
          dx_principal = principal_fmt, dx_minimum_payment = minimum_fmt, dx_exit_amount = exit_fmt,
          dx_interest_rate_pct = rate_pct, dx_penalty_pct = penalty_pct,
          dx_frequency_label = frequency_label (payment_frequency c),
          dx_interest_period_label = (case interest_period c of IP_monthly \<Rightarrow> ''monthly'' | IP_yearly \<Rightarrow> ''yearly''),
          dx_duration_periods = duration_periods c,
          dx_late_penalty_severity = severity_label (late_penalty_severity c),
          dx_created_at = fmt_dt z (Some (c_created_at c)),
          dx_signed_at = map_option (\<lambda>t. fmt_dt z (Some t)) signed_at,
          dx_generated_at = fmt_dt z (Some now), dx_schedule_rows = rows,
          dx_signature = signature, dx_goddess_signature = goddess_signature, dx_draft = draft\<rparr>))))))"

text \<open>The rendering of the file and its hash are parameters.\<close>

definition generate_deed ::
  "(deed \<Rightarrow> string) \<Rightarrow> (string \<Rightarrow> string) \<Rightarrow> zone \<Rightarrow> (rat \<Rightarrow> rat) \<Rightarrow> datetime \<Rightarrow> string \<Rightarrow> debt_contract \<Rightarrow> goddess \<Rightarrow>
   user \<Rightarrow> string option \<Rightarrow> datetime option \<Rightarrow> string option \<Rightarrow> bool \<Rightarrow> (string \<times> string) res" where
  "generate_deed pdf sha256 z aer now email c g u signature signed_at goddess_signature draft =
     attempt (build_context z aer now email c g u signature goddess_signature signed_at draft) (\<lambda>x.
     Inr (pdf x, sha256 (pdf x)))"

definition generate_contract_pdf_bytes ::
  "(deed \<Rightarrow> string) \<Rightarrow> (string \<Rightarrow> string) \<Rightarrow> zone \<Rightarrow> (rat \<Rightarrow> rat) \<Rightarrow> (goddess \<Rightarrow> string) \<Rightarrow> datetime \<Rightarrow> user \<Rightarrow> uuid \<Rightarrow>
   bool \<Rightarrow> db \<Rightarrow> string res" where
  "generate_contract_pdf_bytes pdf sha256 z aer email_of now viewer cid draft s =
     attempt (contract_or_404 cid s) (\<lambda>contract.
     attempt (assert_viewer_can_see viewer contract s) (\<lambda>_.
     require (fetch g_id (c_goddess_id contract) (t_goddesses s)) (NotFound ''goddess profile not found for this contract'') (\<lambda>g.
     require (user_by_id (c_sub_id contract) s) (NotFound ''sub user not found for this contract'') (\<lambda>u.
     attempt (generate_deed pdf sha256 z aer now (email_of g) contract g u (c_signature_b64 contract)
        (c_signed_at contract) None draft) (\<lambda>(bytes, _). Inr bytes)))))"

section \<open>Amounts read back\<close>

text \<open>A reader of amounts: the digits of a text as a number of pence, whatever is between them.\<close>

definition digit_value :: "char \<Rightarrow> nat option" where
  "digit_value c = (let n = of_char c in if 48 \<le> n \<and> n \<le> 57 then Some (n - 48) else None)"

definition read_digits :: "nat \<Rightarrow> string \<Rightarrow> nat" where
  "read_digits acc t = fold (\<lambda>c v. case digit_value c of Some k \<Rightarrow> 10 * v + k | None \<Rightarrow> v) t acc"

definition read_money :: "string \<Rightarrow> rat" where
  "read_money t = (let v = of_nat (read_digits 0 t) / 100 in if take 1 t = ''-'' then - v else v)"

lemma read_digits_simps [simp]:
  "read_digits a [] = a" "read_digits a (s @ t) = read_digits (read_digits a s) t"
  "read_digits a (c # t) = read_digits (case digit_value c of Some k \<Rightarrow> 10 * a + k | None \<Rightarrow> a) t"
  by (simp_all add: read_digits_def)

lemma digit_value_digit [simp]: "digit_value (digit n) = Some (n mod 10)"
proof -
  have "n mod 10 = 0 \<or> n mod 10 = 1 \<or> n mod 10 = 2 \<or> n mod 10 = 3 \<or> n mod 10 = 4 \<or> n mod 10 = 5 \<or>
    n mod 10 = 6 \<or> n mod 10 = 7 \<or> n mod 10 = 8 \<or> n mod 10 = 9" by presburger
  then show ?thesis by (elim disjE) (simp_all add: digit_def digit_value_def)
qed

lemma read_padded [simp]: "read_digits a (padded k n) = a * 10 ^ k + n mod 10 ^ k"
proof (induction k arbitrary: n)
  case (Suc k)
  have "n mod 10 ^ Suc k = 10 * (n div 10 mod 10 ^ k) + n mod 10" by (simp add: mod_mult2_eq)
  then show ?case by (simp add: Suc)
qed simp

lemma read_decimal [simp]: "read_digits 0 (decimal_text n) = n"
proof (induction n rule: decimal_text.induct)
  case (1 n)
  then show ?case by (subst decimal_text.simps) (auto split: option.splits)
qed

lemma read_grouped [simp]: "read_digits 0 (grouped n) = n"
proof (induction n rule: grouped.induct)
  case (1 n)
  have "digit_value CHR '','' = None" by (simp add: digit_value_def)
  with 1 show ?case by (subst grouped.simps) (auto simp: mult.commute)
qed

text \<open>Where the separators stand: the point before the pence, and a comma before every three digits of the pounds.\<close>

lemma padded_length [simp]: "length (padded k n) = k"
  by (induction k arbitrary: n) simp_all

lemma digit_no_comma [simp]: "digit n \<noteq> CHR '',''" "CHR '','' \<noteq> digit n"
proof -
  show "digit n \<noteq> CHR '',''"
  proof
    assume "digit n = CHR '',''"
    then have "digit_value (CHR '','') = Some (n mod 10)" using digit_value_digit [of n] by simp
    then show False by (simp add: digit_value_def)
  qed
  then show "CHR '','' \<noteq> digit n" by metis
qed

lemma padded_no_comma [simp]: "CHR '','' \<notin> set (padded k n)"
  by (induction k arbitrary: n) simp_all

lemma decimal_no_comma [simp]: "CHR '','' \<notin> set (decimal_text n)"
  by (induction n rule: decimal_text.induct) (subst decimal_text.simps, simp)

lemma decimal_length: "n < 10 ^ Suc k \<Longrightarrow> length (decimal_text n) \<le> Suc k"
proof (induction k arbitrary: n)
  case 0
  then show ?case by (subst decimal_text.simps) simp
next
  case (Suc k)
  then have "length (decimal_text (n div 10)) \<le> Suc k" by (intro Suc.IH) (simp add: less_mult_imp_div_less)
  then show ?case by (subst decimal_text.simps) simp
qed

lemma grouped_commas: "i < length (grouped n) \<Longrightarrow> rev (grouped n) ! i = CHR '','' \<longleftrightarrow> i mod 4 = 3"
proof (induction n arbitrary: i rule: grouped.induct)
  case (1 n)
  show ?case
  proof (cases "n < 1000")
    case True
    then have g: "grouped n = decimal_text n" by (subst grouped.simps) simp
    have "i < 3" using 1(2) decimal_length [of n 2] True g by simp
    moreover have "rev (decimal_text n) ! i \<in> set (decimal_text n)"
      using 1(2) g nth_mem [of i "rev (decimal_text n)"] by simp
    then have "rev (decimal_text n) ! i \<noteq> CHR '',''" using decimal_no_comma [of n] by (intro notI) simp
    ultimately show ?thesis using g by simp
  next
    case False
    let ?p = "padded 3 (n mod 1000)"
    have g: "grouped n = grouped (n div 1000) @ '','' @ ?p" using False by (subst grouped.simps) simp
    then have rev: "rev (grouped n) = rev ?p @ CHR '','' # rev (grouped (n div 1000))"
      and len: "length (grouped n) = length (grouped (n div 1000)) + 4" by simp_all
    consider "i < 3" | "i = 3" | j where "i = j + 4"
      using le_Suc_ex [of 4 i] by (cases "i < 3"; cases "i = 3") auto
    then show ?thesis
    proof cases
      case 1
      then have "rev ?p ! i \<in> set ?p" using nth_mem [of i "rev ?p"] by simp
      then have "rev ?p ! i \<noteq> CHR '',''" using padded_no_comma [of 3 "n mod 1000"] by (intro notI) simp
      then show ?thesis using 1 by (simp add: rev nth_append)
    next
      case 2
      then show ?thesis by (simp add: rev nth_append)
    next
      case (3 j)
      have "rev (grouped n) ! i = rev (grouped (n div 1000)) ! j" by (simp add: rev 3 nth_append)
      moreover have "j < length (grouped (n div 1000))" using 1(2) len 3 by simp
      ultimately show ?thesis using 1(1) [OF False] 3 by simp
    qed
  qed
qed

definition separated :: "string \<Rightarrow> bool" where
  "separated t \<longleftrightarrow>
     (\<exists>sign pounds pence. sign \<in> {[], ''-''} \<and> t = sign @ pound @ pounds @ ''.'' @ pence \<and>
        length pence = 2 \<and> (\<forall>i < length pounds. rev pounds ! i = CHR '','' \<longleftrightarrow> i mod 4 = 3))"

lemma money_separated: "separated (sign @ pound @ grouped n @ ''.'' @ padded 2 k)"
  if "sign = [] \<or> sign = ''-''"
  unfolding separated_def using that grouped_commas [of _ n]
  by (intro exI [of _ sign] exI [of _ "grouped n"] exI [of _ "padded 2 k"]) simp

text \<open>C36: The amounts of the deed read back: the digits of a printed amount, with its sign, are
the amount rounded to pence, so two amounts print the same only if they agree in pence. The sign
comes first, then the pound sign, the pounds with a comma before every three digits from the
right and nowhere else, the point and two digits of pence.\<close>

theorem money_reads_back:
  assumes "fmt_money (Some x) = Inr t"
  shows "read_money t = quantize_up 2 x \<and> separated t"
proof -
  define d where "d = quantize_up 2 x"
  define pence where "pence = nat \<lfloor>\<bar>d\<bar> * 100\<rfloor>"
  have t: "t = (if d < 0 then ''-'' else []) @ pound @ grouped (pence div 100) @ ''.'' @ padded 2 (pence mod 100)"
    using assms by (auto simp: fmt_money_def quantize_or_raise_def Let_def res_simps d_def pence_def)
  have "\<bar>d\<bar> * 100 = of_int \<bar>round_half_up (x * 100)\<bar>" by (simp add: d_def quantize_up_def abs_mult)
  then have "of_nat pence = \<bar>d\<bar> * 100" by (simp add: pence_def)
  have other: "digit_value CHR ''-'' = None" "digit_value CHR ''.'' = None"
    "digit_value CHR 0xC2 = None" "digit_value CHR 0xA3 = None" by (simp_all add: digit_value_def)
  have "read_digits 0 t = pence" by (simp add: t pound_def other)
  moreover have "take 1 t = ''-'' \<longleftrightarrow> d < 0" by (simp add: t pound_def)
  ultimately have "read_money t = d"
    using \<open>of_nat pence = \<bar>d\<bar> * 100\<close> by (simp add: read_money_def Let_def d_def [symmetric])
  moreover have "separated t" unfolding t by (rule money_separated) simp
  ultimately show ?thesis by (simp add: d_def)
qed

lemma money_reads_back_witness:
  "fmt_money (Some (- (246979 / 200))) = Inr (''-'' @ pound @ ''1,234.90'') \<and>
   read_money (''-'' @ pound @ ''1,234.90'') = - (12349 / 10)"
proof -
  have q: "quantize_up 2 (- (246979 / 200)) = - (12349 / 10)" by (simp add: quantize_up_def round_half_up_def)
  have "grouped 1 = ''1''" by (subst grouped.simps, subst decimal_text.simps) (simp add: digit_def)
  then have g: "grouped 1234 = ''1,234''" by (subst grouped.simps) (simp add: digit_def numeral_3_eq_3)
  have p: "padded 2 90 = ''90''" by (simp add: digit_def numeral_2_eq_2)
  have t: "fmt_money (Some (- (246979 / 200))) = Inr (''-'' @ pound @ ''1,234.90'')"
    by (simp add: fmt_money_def quantize_or_raise_def q g p Let_def)
  show ?thesis using money_reads_back [OF t] t q by simp
qed

section \<open>The dates of the schedule\<close>

lemma days_in_month_of_eq:
  assumes "1 \<le> m" "m \<le> 12"
  shows "days_in_month_of y m = month_length y m"
proof (cases "m = 12")
  case True
  then show ?thesis by (simp add: days_in_month_of_def month_length_def days_in_month_def)
next
  case False
  have "valid_date y m (month_length y m)" using assms month_length_range [OF assms, of y] by (simp add: valid_date_def)
  then have "day_of (date_number y m (month_length y m)) = month_length y m" by (simp add: day_of_def ymd_date_number)
  moreover have "date_number y (m + 1) 1 - 1 = date_number y m (month_length y m)"
    using next_month [of m y] assms False by (simp add: date_number_def Let_def)
  ultimately show ?thesis using False by (simp add: days_in_month_of_def)
qed

text \<open>The month of a due date and its day, which is the day of the start or the last of the month.\<close>

lemma monthly_due:
  obtains y m d where "period_due_date start k PF_monthly = date_number y m d" and "valid_date y m d"
    and "12 * y + m = 12 * year_of start + month_of start + k" and "d \<le> day_of start"
    and "day_of start \<le> 28 \<longrightarrow> d = day_of start"
proof -
  define month where "month = month_of start + k"
  define y where "y = year_of start + (month - 1) div 12"
  define m where "m = (month - 1) mod 12 + 1"
  have m: "1 \<le> m" "m \<le> 12" using pos_mod_bound [of 12 "month - 1"] pos_mod_sign [of 12 "month - 1"] by (simp_all add: m_def)
  have sum: "12 * y + m = 12 * year_of start + month_of start + k"
    using div_mult_mod_eq [of "month - 1" 12] by (simp add: y_def m_def month_def)
  have start: "1 \<le> day_of start" using valid_ymd [of start] by (simp add: valid_date_def)
  have due: "period_due_date start k PF_monthly = date_number y m (min (day_of start) (month_length y m))"
    by (simp add: period_due_date_def Let_def month_def [symmetric] y_def [symmetric] m_def [symmetric] days_in_month_of_eq [OF m])
  have range: "28 \<le> month_length y m" using month_length_range [OF m] by simp
  show thesis
    by (rule that [OF due _ sum]) (use m start range in \<open>auto simp: valid_date_def min_def\<close>)
qed

text \<open>C35: The deed and the ledger agree on the periods. The date that the schedule of a signed contract
prints for the payment \<open>k\<close> is in the past or today whenever \<open>k\<close> periods have passed for the
ledger, and the converse holds for weekly and biweekly payments and for contracts signed up to the
28th of a month.\<close>

theorem schedule_dates_are_periods:
  assumes "c_signed_at c = Some t" and "1 \<le> k"
  shows "(k \<le> current_period_index z c now \<longrightarrow>
      period_due_date (as_london_date z t) k (payment_frequency c) \<le> as_london_date z now) \<and>
    (payment_frequency c \<noteq> PF_monthly \<or> day_of (as_london_date z t) \<le> 28 \<longrightarrow>
      period_due_date (as_london_date z t) k (payment_frequency c) \<le> as_london_date z now \<longrightarrow>
      k \<le> current_period_index z c now)"
proof -
  let ?s = "as_london_date z t" and ?n = "as_london_date z now"
  show ?thesis
  proof (cases "payment_frequency c")
    case PF_weekly
    have "k \<le> (?n - ?s) div 7 \<longleftrightarrow> ?s + 7 * k \<le> ?n" by linarith
    then show ?thesis using assms PF_weekly by (auto simp: current_period_index_def period_due_date_def Let_def)
  next
    case PF_biweekly
    have "k \<le> (?n - ?s) div 14 \<longleftrightarrow> ?s + 14 * k \<le> ?n" by linarith
    then show ?thesis using assms PF_biweekly by (auto simp: current_period_index_def period_due_date_def Let_def)
  next
    case PF_monthly
    let ?months = "(year_of ?n - year_of ?s) * 12 + (month_of ?n - month_of ?s)"
    obtain y m d where due: "period_due_date ?s k PF_monthly = date_number y m d" "valid_date y m d"
      "12 * y + m = 12 * year_of ?s + month_of ?s + k" "d \<le> day_of ?s" "day_of ?s \<le> 28 \<longrightarrow> d = day_of ?s"
      by (rule monthly_due [of ?s k])
    have le_n: "period_due_date ?s k PF_monthly \<le> ?n \<longleftrightarrow> k < ?months \<or> k = ?months \<and> d \<le> day_of ?n"
      using date_order [OF due(2) valid_ymd [of ?n]] due(3) unfolding due(1) date_number_of by auto
    have s_n: "?s \<le> ?n \<longleftrightarrow> 0 < ?months \<or> 0 = ?months \<and> day_of ?s \<le> day_of ?n"
      using date_order [OF valid_ymd [of ?s] valid_ymd [of ?n]] unfolding date_number_of by auto
    have index: "current_period_index z c now =
        (if ?n \<le> ?s then 0 else max 0 (if day_of ?n < day_of ?s then ?months - 1 else ?months))"
      using assms(1) PF_monthly by (simp add: current_period_index_def Let_def)
    show ?thesis using assms(2) due(4,5) s_n unfolding index PF_monthly le_n by auto
  qed
qed

lemma signed_monthly [simp]: "payment_frequency signed_row = PF_monthly" "payment_frequency (signed_row\<lparr>c_signed_at := x\<rparr>) = PF_monthly"
  by (simp_all add: signed_row_def proposed_row_def new_contract_def sample_terms_def terms.defs)

lemma schedule_dates_are_periods_witness:
  "period_due_date 0 3 PF_monthly \<le> as_london_date gmt (days 90) \<longleftrightarrow> 3 \<le> current_period_index gmt signed_row (days 90)"
proof -
  have start: "as_london_date gmt 5 = 0" "day_of 0 \<le> 28" by code_simp+
  then show ?thesis using schedule_dates_are_periods [of signed_row 5 3 gmt "days 90"] start by simp blast
qed

text \<open>Beyond the 28th the ledger lags: of a contract signed on the 31st of January the deed asks for the first payment on the
28th of February, a day on which the first period has not passed.\<close>

lemma last_days_lag:
  "period_due_date 30 1 PF_monthly = 58"
  "current_period_index gmt (signed_row\<lparr>c_signed_at := Some (days 30)\<rparr>) (days 58) = 0"
  by (code_simp, simp add: current_period_index_def, code_simp)

text \<open>The pages count months of thirty days: a year after a signature on the first of January the deed asks for the
next payment on the first of February, the pages for it on the 26th of January.\<close>

lemma pages_run_ahead:
  "period_due_date 0 13 PF_monthly = 396"
  "map_option (as_london_date gmt) (next_period_due gmt signed_row (days 365)) = Some 390"
proof -
  show "period_due_date 0 13 PF_monthly = 396" by code_simp
  have "current_period_index gmt signed_row (days 365) = 12"
    by (simp add: current_period_index_def) code_simp
  then show "map_option (as_london_date gmt) (next_period_due gmt signed_row (days 365)) = Some 390"
    by (simp add: next_period_due_def period_start_def period_length_days_def) code_simp
qed

end
