(* ===== verification/Catalogue.thy ===== *)
theory Catalogue
  imports Kinks
begin

text \<open>
  The seed of the global catalogue (\<^verbatim>\<open>seeds/kinks.py\<close>, \<^verbatim>\<open>upsert_by_slug\<close> of both DAOs). The two lists of
  the file are data, arguments here; the documentation calls the seed idempotent, and it is: on any
  lists whose slugs are distinct, a second run leaves every row as it is but for the time stamp.
\<close>

record category_spec =
  cs_slug :: string
  cs_label :: string
  cs_safety_flag :: bool
  cs_sort_order :: int

record item_spec =
  is_category :: string
  is_slug :: string
  is_label :: string
  is_description :: "string option"
  is_safety_flag :: bool

definition refreshed_item ::
  "datetime \<Rightarrow> uuid \<Rightarrow> string \<Rightarrow> string option \<Rightarrow> bool \<Rightarrow> bool \<Rightarrow> bool \<Rightarrow> kink_item \<Rightarrow> kink_item" where
  "refreshed_item now cid label description flag custom approved i =
     i\<lparr>ki_category_id := cid, ki_label := label, ki_description := description, ki_safety_flag := flag,
       ki_is_custom := custom, ki_approved := approved, ki_updated_at := now\<rparr>"

text \<open>The foreign key of the category is checked when the row is flushed.\<close>

definition upsert_item_by_slug ::
  "uuid \<Rightarrow> datetime \<Rightarrow> string \<Rightarrow> uuid option \<Rightarrow> uuid \<Rightarrow> string \<Rightarrow> string option \<Rightarrow> bool \<Rightarrow> bool \<Rightarrow> uuid option \<Rightarrow> bool \<Rightarrow>
   store \<Rightarrow> store res" where
  "upsert_item_by_slug iid now slug goddess_id cid label description flag custom proposed_by approved s =
     attempt (scalar_one_or_none (filter (\<lambda>i. ki_slug i = slug \<and> ki_goddess_id i = goddess_id) (t_kinks s))) (\<lambda>row.
     raise_if (list_all (\<lambda>c. kc_id c \<noteq> cid) (t_categories s)) (IntegrityError ''kink_item_category_id_fkey'') (
     Inr (case row of
        None \<Rightarrow> s\<lparr>t_kinks := insert_row \<lparr>ki_id = iid, ki_category_id = cid, ki_goddess_id = goddess_id, ki_slug = slug,
                  ki_label = label, ki_description = description, ki_safety_flag = flag, ki_is_custom = custom,
                  ki_proposed_by = proposed_by, ki_approved = approved, ki_created_at = now, ki_updated_at = now\<rparr> (t_kinks s)\<rparr>
      | Some i \<Rightarrow> s\<lparr>t_kinks := modify ki_id (ki_id i)
                  (refreshed_item now cid label description flag custom approved) (t_kinks s)\<rparr>)))"

fun seed_categories :: "(string \<Rightarrow> uuid) \<Rightarrow> datetime \<Rightarrow> category_spec list \<Rightarrow> store \<Rightarrow> store res" where
  "seed_categories fresh now [] s = Inr s"
| "seed_categories fresh now (c # cs) s =
     attempt (upsert_category_by_slug (fresh (cs_slug c)) now (cs_slug c) (cs_label c) (cs_safety_flag c) (cs_sort_order c) s)
       (seed_categories fresh now cs)"

text \<open>\<^verbatim>\<open>category_map[spec["category"]]\<close>: the rows of the categories just seeded.\<close>

fun seed_items :: "(string \<Rightarrow> uuid) \<Rightarrow> datetime \<Rightarrow> string list \<Rightarrow> item_spec list \<Rightarrow> store \<Rightarrow> store res" where
  "seed_items fresh now seeded [] s = Inr s"
| "seed_items fresh now seeded (i # is) s =
     raise_if (is_category i \<notin> set seeded) (KeyError (is_category i)) (
     attempt (category_by_slug (is_category i) s) (\<lambda>cat.
     attempt (upsert_item_by_slug (fresh (is_slug i)) now (is_slug i) None (kc_id cat) (is_label i) (is_description i)
         (is_safety_flag i) False None True s)
       (seed_items fresh now seeded is)))"

definition seed_kinks ::
  "(string \<Rightarrow> uuid) \<Rightarrow> (string \<Rightarrow> uuid) \<Rightarrow> datetime \<Rightarrow> category_spec list \<Rightarrow> item_spec list \<Rightarrow> store \<Rightarrow> store res" where
  "seed_kinks fresh_category fresh_item now categories items s =
     attempt (seed_categories fresh_category now categories s)
       (seed_items fresh_item now (map cs_slug categories) items)"

section \<open>Upserts into a table\<close>

text \<open>
  What both upserts are: a row is found by its key and overwritten, or added. The interface asks that
  writing keeps key and identifier, that a written or new row agrees with its specification and that writing a
  row that agrees changes nothing in its view, the row without its time stamp.
\<close>

definition upsert_row ::
  "('r \<Rightarrow> 'k) \<Rightarrow> ('r \<Rightarrow> uuid) \<Rightarrow> ('p \<Rightarrow> 'k) \<Rightarrow> (datetime \<Rightarrow> 'p \<Rightarrow> 'r \<Rightarrow> 'r) \<Rightarrow> (uuid \<Rightarrow> datetime \<Rightarrow> 'p \<Rightarrow> 'r) \<Rightarrow>
   uuid \<Rightarrow> datetime \<Rightarrow> 'p \<Rightarrow> 'r list \<Rightarrow> 'r list res" where
  "upsert_row key ident spec_key rewrite_row new i now p t =
     attempt (scalar_one_or_none (filter (\<lambda>r. key r = spec_key p) t)) (\<lambda>row.
     Inr (case row of None \<Rightarrow> t @ [new i now p] | Some r \<Rightarrow> modify ident (ident r) (rewrite_row now p) t))"

fun upsert_all ::
  "(datetime \<Rightarrow> 'p \<Rightarrow> 'r list \<Rightarrow> 'r list res) \<Rightarrow> datetime \<Rightarrow> 'p list \<Rightarrow> 'r list \<Rightarrow> 'r list res" where
  "upsert_all upsert now [] t = Inr t"
| "upsert_all upsert now (p # ps) t = attempt (upsert now p t) (upsert_all upsert now ps)"

locale upserts =
  fixes key :: "'r \<Rightarrow> 'k" and ident :: "'r \<Rightarrow> uuid" and spec_key :: "'p \<Rightarrow> 'k"
    and rewrite_row :: "datetime \<Rightarrow> 'p \<Rightarrow> 'r \<Rightarrow> 'r" and new :: "uuid \<Rightarrow> datetime \<Rightarrow> 'p \<Rightarrow> 'r"
    and agrees :: "'p \<Rightarrow> 'r \<Rightarrow> bool" and view :: "'r \<Rightarrow> 'v"
  assumes written: "ident (rewrite_row now p r) = ident r" "key (rewrite_row now p r) = key r" "agrees p (rewrite_row now p r)"
    and fresh: "ident (new i now p) = i" "key (new i now p) = spec_key p" "agrees p (new i now p)"
    and unchanged: "agrees p r \<Longrightarrow> view (rewrite_row now p r) = view r"
    and seen: "view r = view r' \<Longrightarrow> key r = key r' \<and> ident r = ident r' \<and> (agrees p r \<longleftrightarrow> agrees p r')"
begin

definition rows_ok :: "'r list \<Rightarrow> bool" where
  "rows_ok t \<longleftrightarrow> distinct (map ident t) \<and> distinct (map key t)"

definition holds :: "'p \<Rightarrow> 'r list \<Rightarrow> bool" where
  "holds p t \<longleftrightarrow> (\<exists>r \<in> set t. key r = spec_key p \<and> agrees p r)"

abbreviation upsert :: "('p \<Rightarrow> uuid) \<Rightarrow> datetime \<Rightarrow> 'p \<Rightarrow> 'r list \<Rightarrow> 'r list res" where
  "upsert draw now p t \<equiv> upsert_row key ident spec_key rewrite_row new (draw p) now p t"

lemma found_cases:
  assumes "rows_ok t"
  obtains "\<forall>r \<in> set t. key r \<noteq> spec_key p" "upsert draw now p t = Inr (t @ [new (draw p) now p])"
  | r where "r \<in> set t" "key r = spec_key p" "upsert draw now p t = Inr (modify ident (ident r) (rewrite_row now p) t)"
proof (cases "\<exists>r \<in> set t. key r = spec_key p")
  case False
  then have "filter (\<lambda>r. key r = spec_key p) t = []" by (simp add: filter_empty_conv)
  then show ?thesis using that(1) False by (simp add: upsert_row_def)
next
  case True
  then obtain r where r: "r \<in> set t" "key r = spec_key p" by blast
  then obtain us vs where t: "t = us @ r # vs" using split_list by fast
  have "spec_key p \<notin> key ` set (us @ vs)" using assms r(2) by (auto simp: rows_ok_def t)
  then have "filter (\<lambda>r. key r = spec_key p) us = []" "filter (\<lambda>r. key r = spec_key p) vs = []"
    by (force simp: filter_empty_conv)+
  then have "filter (\<lambda>r. key r = spec_key p) t = [r]" using r(2) by (simp add: t)
  then show ?thesis using that(2) r by (simp add: upsert_row_def)
qed

lemma modify_one:
  assumes "rows_ok t" "r \<in> set t"
  shows "x \<in> set (modify ident (ident r) f t) \<longleftrightarrow> x = f r \<or> x \<in> set t \<and> x \<noteq> r"
proof -
  have "ident y = ident r \<longleftrightarrow> y = r" if "y \<in> set t" for y
    using assms that by (auto simp: rows_ok_def distinct_map inj_on_def)
  then show ?thesis using assms(2) by (auto simp: modify_def)
qed

lemma modify_ok:
  assumes "rows_ok t"
  shows "rows_ok (modify ident k (rewrite_row now p) t)"
proof -
  have "map ident (modify ident k (rewrite_row now p) t) = map ident t" "map key (modify ident k (rewrite_row now p) t) = map key t"
    by (simp_all add: modify_def written)
  then show ?thesis using assms by (simp only: rows_ok_def)
qed

lemma upsert_facts:
  assumes "rows_ok t" and "draw p \<notin> ident ` set t"
  shows "\<exists>t'. upsert draw now p t = Inr t' \<and> rows_ok t' \<and> holds p t' \<and> ident ` set t' \<subseteq> insert (draw p) (ident ` set t) \<and>
    (\<forall>q. spec_key q \<noteq> spec_key p \<longrightarrow> holds q t \<longrightarrow> holds q t')"
proof (cases rule: found_cases [OF assms(1), of p draw now])
  case 1
  have "rows_ok (t @ [new (draw p) now p])" using assms 1(1) by (auto simp: rows_ok_def fresh)
  then show ?thesis using 1(2) by (auto simp: holds_def fresh)
next
  case (2 r)
  let ?t = "modify ident (ident r) (rewrite_row now p) t"
  note mem = modify_one [OF assms(1) 2(1), of _ "rewrite_row now p"]
  have "rewrite_row now p r \<in> set ?t" "key (rewrite_row now p r) = spec_key p" "agrees p (rewrite_row now p r)"
    using 2(2) by (simp_all add: mem written)
  then have "holds p ?t" unfolding holds_def by blast
  moreover have "ident ` set ?t \<subseteq> ident ` set t" using 2(1) by (auto simp: mem written)
  moreover have "holds q ?t" if q: "spec_key q \<noteq> spec_key p" "holds q t" for q
  proof -
    obtain x where "x \<in> set t" "key x = spec_key q" "agrees q x" using q(2) by (auto simp: holds_def)
    moreover from this have "x \<in> set ?t" using 2(2) q(1) by (auto simp: mem)
    ultimately show ?thesis unfolding holds_def by blast
  qed
  ultimately show ?thesis using 2(3) modify_ok [OF assms(1)] by blast
qed

lemma upsert_again:
  assumes "rows_ok t" and "holds p t"
  shows "\<exists>t'. upsert draw now p t = Inr t' \<and> map view t' = map view t"
proof (cases rule: found_cases [OF assms(1), of p draw now])
  case 1
  then show ?thesis using assms(2) by (auto simp: holds_def)
next
  case (2 r)
  have "agrees p r" using assms 2(1,2) by (auto simp: holds_def rows_ok_def distinct_map inj_on_def)
  moreover have "x = r" if "x \<in> set t" "ident x = ident r" for x
    using assms(1) 2(1) that by (auto simp: rows_ok_def distinct_map inj_on_def)
  ultimately have "view (if ident x = ident r then rewrite_row now p x else x) = view x" if "x \<in> set t" for x
    using that unchanged [of p r now] by auto
  then have "map view (modify ident (ident r) (rewrite_row now p) t) = map view t" by (simp add: modify_def)
  then show ?thesis using 2(3) by blast
qed

lemma same_view:
  assumes "map view t' = map view t"
  shows "rows_ok t' = rows_ok t" and "holds p t' = holds p t"
proof -
  have all: "list_all2 (\<lambda>r r'. view r = view r') t' t"
    using assms by (simp add: list_all2_conv_all_nth) (metis length_map nth_map)
  have "map ident t' = map ident t" "map key t' = map key t"
    using all by (induction rule: list_all2_induct) (auto dest: seen)
  then show "rows_ok t' = rows_ok t" by (simp only: rows_ok_def)
  show "holds p t' = holds p t"
    using all by (induction rule: list_all2_induct) (auto simp: holds_def dest: seen)
qed

text \<open>A run over distinct specifications, and one over specifications that hold already.\<close>

lemma upsert_all_facts:
  assumes "rows_ok t" "distinct (map spec_key ps)" "inj_on draw (set ps)" "draw ` set ps \<inter> ident ` set t = {}"
  shows "\<exists>t'. upsert_all (upsert draw) now ps t = Inr t' \<and> rows_ok t' \<and> (\<forall>p \<in> set ps. holds p t') \<and>
    (\<forall>q. spec_key q \<notin> spec_key ` set ps \<longrightarrow> holds q t \<longrightarrow> holds q t')"
  using assms
proof (induction ps arbitrary: t)
  case (Cons p ps)
  obtain u where u: "upsert draw now p t = Inr u" "rows_ok u" "holds p u" "ident ` set u \<subseteq> insert (draw p) (ident ` set t)"
    "\<forall>q. spec_key q \<noteq> spec_key p \<longrightarrow> holds q t \<longrightarrow> holds q u"
    using upsert_facts [of t draw p now] Cons.prems by auto
  have "draw p \<notin> draw ` set ps" using Cons.prems(2,3) by (auto simp: inj_on_def)
  then have "draw ` set ps \<inter> insert (draw p) (ident ` set t) = {}" using Cons.prems(4) by auto
  then have "draw ` set ps \<inter> ident ` set u = {}" using u(4) by blast
  then obtain t' where "upsert_all (upsert draw) now ps u = Inr t'" "rows_ok t'" "\<forall>p \<in> set ps. holds p t'"
    "\<forall>q. spec_key q \<notin> spec_key ` set ps \<longrightarrow> holds q u \<longrightarrow> holds q t'"
    using Cons.IH [of u] u(2) Cons.prems(2,3) by auto
  then show ?case using u Cons.prems(2) by auto
qed simp

lemma upsert_all_again:
  assumes "rows_ok t" "\<forall>p \<in> set ps. holds p t"
  shows "\<exists>t'. upsert_all (upsert draw) now ps t = Inr t' \<and> map view t' = map view t"
  using assms
proof (induction ps arbitrary: t)
  case (Cons p ps)
  obtain u where u: "upsert draw now p t = Inr u" "map view u = map view t"
    using upsert_again [of t p draw now] Cons.prems by auto
  show ?case using Cons.IH [of u] Cons.prems u same_view [OF u(2)] by auto
qed simp

end

section \<open>The two tables of the catalogue\<close>

definition written_category :: "datetime \<Rightarrow> category_spec \<Rightarrow> kink_category \<Rightarrow> kink_category" where
  "written_category now p c =
     c\<lparr>kc_label := cs_label p, kc_safety_flag := cs_safety_flag p, kc_sort_order := cs_sort_order p, kc_updated_at := now\<rparr>"

definition new_category :: "uuid \<Rightarrow> datetime \<Rightarrow> category_spec \<Rightarrow> kink_category" where
  "new_category i now p =
     \<lparr>kc_id = i, kc_slug = cs_slug p, kc_label = cs_label p, kc_safety_flag = cs_safety_flag p,
      kc_sort_order = cs_sort_order p, kc_updated_at = now\<rparr>"

definition category_agrees :: "category_spec \<Rightarrow> kink_category \<Rightarrow> bool" where
  "category_agrees p c \<longleftrightarrow> kc_label c = cs_label p \<and> kc_safety_flag c = cs_safety_flag p \<and> kc_sort_order c = cs_sort_order p"

definition untimed_category :: "kink_category \<Rightarrow> kink_category" where
  "untimed_category c = c\<lparr>kc_updated_at := 0\<rparr>"

type_synonym placed_item = "item_spec \<times> uuid"

definition item_key :: "kink_item \<Rightarrow> string \<times> uuid option" where
  "item_key i = (ki_slug i, ki_goddess_id i)"

definition placed_key :: "placed_item \<Rightarrow> string \<times> uuid option" where
  "placed_key p = (is_slug (fst p), None)"

definition written_item :: "datetime \<Rightarrow> placed_item \<Rightarrow> kink_item \<Rightarrow> kink_item" where
  "written_item now p =
     refreshed_item now (snd p) (is_label (fst p)) (is_description (fst p)) (is_safety_flag (fst p)) False True"

definition new_item :: "uuid \<Rightarrow> datetime \<Rightarrow> placed_item \<Rightarrow> kink_item" where
  "new_item i now p =
     \<lparr>ki_id = i, ki_category_id = snd p, ki_goddess_id = None, ki_slug = is_slug (fst p), ki_label = is_label (fst p),
      ki_description = is_description (fst p), ki_safety_flag = is_safety_flag (fst p), ki_is_custom = False,
      ki_proposed_by = None, ki_approved = True, ki_created_at = now, ki_updated_at = now\<rparr>"

definition item_agrees :: "placed_item \<Rightarrow> kink_item \<Rightarrow> bool" where
  "item_agrees p i \<longleftrightarrow> ki_category_id i = snd p \<and> ki_label i = is_label (fst p) \<and> ki_description i = is_description (fst p) \<and>
     ki_safety_flag i = is_safety_flag (fst p) \<and> \<not> ki_is_custom i \<and> ki_approved i"

definition untimed_item :: "kink_item \<Rightarrow> kink_item" where
  "untimed_item i = i\<lparr>ki_updated_at := 0\<rparr>"

lemma untimed_category_eq:
  "untimed_category c = untimed_category d \<longleftrightarrow> kc_id c = kc_id d \<and> kc_slug c = kc_slug d \<and> kc_label c = kc_label d \<and>
    kc_safety_flag c = kc_safety_flag d \<and> kc_sort_order c = kc_sort_order d"
  by (cases c; cases d) (simp add: untimed_category_def)

lemma untimed_item_eq:
  "untimed_item i = untimed_item j \<longleftrightarrow> ki_id i = ki_id j \<and> ki_category_id i = ki_category_id j \<and>
    ki_goddess_id i = ki_goddess_id j \<and> ki_slug i = ki_slug j \<and> ki_label i = ki_label j \<and> ki_description i = ki_description j \<and>
    ki_safety_flag i = ki_safety_flag j \<and> ki_is_custom i = ki_is_custom j \<and> ki_proposed_by i = ki_proposed_by j \<and>
    ki_approved i = ki_approved j \<and> ki_created_at i = ki_created_at j"
  by (cases i; cases j) (simp add: untimed_item_def)

interpretation categories: upserts kc_slug kc_id cs_slug written_category new_category category_agrees untimed_category
  by unfold_locales (auto simp: written_category_def new_category_def category_agrees_def untimed_category_eq)

interpretation items: upserts item_key ki_id placed_key written_item new_item item_agrees untimed_item
  by unfold_locales
    (auto simp: written_item_def refreshed_item_def new_item_def item_agrees_def untimed_item_eq item_key_def placed_key_def)

lemma seed_categories_upserts:
  "seed_categories fresh now cs s =
     attempt (upsert_all (categories.upsert (\<lambda>p. fresh (cs_slug p))) now cs (t_categories s)) (\<lambda>t. Inr (s\<lparr>t_categories := t\<rparr>))"
proof (induction cs arbitrary: s)
  case (Cons c cs)
  have step: "upsert_category_by_slug (fresh (cs_slug c)) now (cs_slug c) (cs_label c) (cs_safety_flag c) (cs_sort_order c) s =
      attempt (categories.upsert (\<lambda>p. fresh (cs_slug p)) now c (t_categories s)) (\<lambda>t. Inr (s\<lparr>t_categories := t\<rparr>))"
    by (auto simp: upsert_category_by_slug_def upsert_row_def attempt_def insert_row_def written_category_def [abs_def]
        new_category_def split: sum.splits option.splits)
  show ?case
    by (cases "categories.upsert (\<lambda>p. fresh (cs_slug p)) now c (t_categories s)") (simp_all add: step Cons)
qed simp

text \<open>Every item beside the identifier of its category.\<close>

definition placed :: "store \<Rightarrow> item_spec \<Rightarrow> placed_item" where
  "placed s i = (i, case category_by_slug (is_category i) s of Inr c \<Rightarrow> kc_id c | Inl _ \<Rightarrow> 0)"

definition placeable :: "string list \<Rightarrow> store \<Rightarrow> item_spec \<Rightarrow> bool" where
  "placeable seeded s i \<longleftrightarrow> is_category i \<in> set seeded \<and> (\<exists>c. category_by_slug (is_category i) s = Inr c)"

lemma category_by_slug_eq: "category_by_slug slug s = Inr c \<longleftrightarrow> filter (\<lambda>c. kc_slug c = slug) (t_categories s) = [c]"
  by (auto simp: category_by_slug_def res_simps scalar_one_or_none_Some)

lemma category_by_slug_row:
  assumes "category_by_slug slug s = Inr c"
  shows "c \<in> set (t_categories s) \<and> kc_slug c = slug"
proof -
  have "c \<in> set (filter (\<lambda>c. kc_slug c = slug) (t_categories s))"
    using assms unfolding category_by_slug_eq by (metis list.set_intros(1))
  then show ?thesis by simp
qed

lemma seed_items_upserts:
  assumes "\<forall>i \<in> set is. placeable seeded s i"
  shows "seed_items fresh now seeded is s =
     attempt (upsert_all (items.upsert (\<lambda>p. fresh (is_slug (fst p)))) now (map (placed s) is) (t_kinks s)) (\<lambda>t. Inr (s\<lparr>t_kinks := t\<rparr>))"
  using assms
proof (induction "is" arbitrary: s)
  case (Cons i is')
  obtain c where c: "category_by_slug (is_category i) s = Inr c" "is_category i \<in> set seeded"
    using Cons.prems by (auto simp: placeable_def)
  have place: "placed (s\<lparr>t_kinks := t\<rparr>) = placed s" "placeable seeded (s\<lparr>t_kinks := t\<rparr>) = placeable seeded s" for t
    by (auto simp: placed_def placeable_def category_by_slug_def)
  have row: "\<not> list_all (\<lambda>d. kc_id d \<noteq> kc_id c) (t_categories s)"
    using category_by_slug_row [OF c(1)] by (auto simp: list_all_iff)
  have step: "upsert_item_by_slug (fresh (is_slug i)) now (is_slug i) None (kc_id c) (is_label i) (is_description i)
         (is_safety_flag i) False None True s =
      attempt (items.upsert (\<lambda>p. fresh (is_slug (fst p))) now (placed s i) (t_kinks s)) (\<lambda>t. Inr (s\<lparr>t_kinks := t\<rparr>))"
    using row c by (auto simp: upsert_item_by_slug_def upsert_row_def attempt_def insert_row_def written_item_def
        new_item_def placed_def item_key_def placed_key_def raise_if_def split: sum.splits option.splits)
  show ?case
    using Cons.IH [of "s\<lparr>t_kinks := t\<rparr>" for t] Cons.prems c
    by (cases "items.upsert (\<lambda>p. fresh (is_slug (fst p))) now (placed s i) (t_kinks s)") (simp_all add: step place)
qed simp

lemma seed_items_placeable:
  "seed_items fresh now seeded is s = Inr s' \<Longrightarrow> \<forall>i \<in> set is. placeable seeded s i"
proof (induction "is" arbitrary: s)
  case (Cons i is')
  obtain c s1 where c: "is_category i \<in> set seeded" "category_by_slug (is_category i) s = Inr c"
    and s1: "upsert_item_by_slug (fresh (is_slug i)) now (is_slug i) None (kc_id c) (is_label i) (is_description i)
         (is_safety_flag i) False None True s = Inr s1" and rest: "seed_items fresh now seeded is' s1 = Inr s'"
    using Cons.prems by (auto simp: res_simps)
  have "t_categories s1 = t_categories s"
    using s1 by (auto simp: upsert_item_by_slug_def res_simps split: option.splits)
  then have "placeable seeded s1 = placeable seeded s" by (auto simp: placeable_def category_by_slug_eq)
  then show ?case using Cons.IH [OF rest] c by (auto simp: placeable_def)
qed simp

lemma placed_same:
  assumes "map untimed_category (t_categories s') = map untimed_category (t_categories s)" "placeable seeded s i"
  shows "placeable seeded s' i" and "placed s' i = placed s i"
proof -
  let ?f = "filter (\<lambda>c. kc_slug c = is_category i)"
  have "list_all2 (\<lambda>c d. untimed_category c = untimed_category d) (t_categories s') (t_categories s)"
    using assms(1) by (simp add: list_all2_conv_all_nth) (metis length_map nth_map)
  then have "list_all2 (\<lambda>c d. untimed_category c = untimed_category d) (?f (t_categories s')) (?f (t_categories s))"
    by (induction rule: list_all2_induct) (auto simp: untimed_category_eq)
  moreover obtain c where c: "?f (t_categories s) = [c]" "is_category i \<in> set seeded"
    using assms(2) by (auto simp: placeable_def category_by_slug_eq)
  ultimately obtain d where d: "?f (t_categories s') = [d]" "untimed_category d = untimed_category c"
    by (auto simp: list_all2_Cons2)
  have "category_by_slug (is_category i) s = Inr c" "category_by_slug (is_category i) s' = Inr d"
    by (simp_all add: category_by_slug_eq c d)
  then show "placeable seeded s' i" "placed s' i = placed s i"
    using c(2) d(2) by (simp_all add: placeable_def placed_def untimed_category_eq)
qed

section \<open>The seed is idempotent\<close>

definition category_seeded :: "category_spec \<Rightarrow> store \<Rightarrow> bool" where
  "category_seeded p s = list_ex (\<lambda>c. kc_slug c = cs_slug p \<and> category_agrees p c) (t_categories s)"

definition item_seeded :: "item_spec \<Rightarrow> store \<Rightarrow> bool" where
  "item_seeded i s = list_ex (\<lambda>k. item_key k = (is_slug i, None) \<and> item_agrees (placed s i) k) (t_kinks s)"

text \<open>C38: The seed of the catalogue may run at every start. After a run each category and item of the lists is there,
with the content of the lists and in its category; a second run, with whatever identifiers and at whatever
instant, succeeds and changes nothing but time stamps.\<close>

theorem seed_idempotent:
  assumes "distinct (map kc_id (t_categories s))" "distinct (map kc_slug (t_categories s))"
    and "distinct (map ki_id (t_kinks s))" "distinct (map item_key (t_kinks s))"
    and "distinct (map cs_slug categories)" "distinct (map is_slug items)"
    and "distinct (map kc_id (t_categories s) @ map (\<lambda>p. fc (cs_slug p)) categories)"
    and "distinct (map ki_id (t_kinks s) @ map (\<lambda>i. fi (is_slug i)) items)"
    and "seed_kinks fc fi now categories items s = Inr s1"
  shows "list_all (\<lambda>p. category_seeded p s1) categories \<and> list_all (\<lambda>i. item_seeded i s1) items \<and>
    (\<exists>cs ks. seed_kinks fc' fi' later categories items s1 = Inr (s1\<lparr>t_categories := cs, t_kinks := ks\<rparr>) \<and>
       map untimed_category cs = map untimed_category (t_categories s1) \<and> map untimed_item ks = map untimed_item (t_kinks s1))"
proof -
  let ?seeded = "map cs_slug categories"
  obtain s0 where s0: "seed_categories fc now categories s = Inr s0" "seed_items fi now ?seeded items s0 = Inr s1"
    using assms(9) by (auto simp: seed_kinks_def res_simps)
  have "categories.rows_ok (t_categories s)" using assms(1,2) by (simp add: categories.rows_ok_def)
  moreover have "(\<lambda>p. fc (cs_slug p)) ` set categories \<inter> kc_id ` set (t_categories s) = {}" using assms(7) by auto
  moreover have "inj_on (\<lambda>p. fc (cs_slug p)) (set categories)" using assms(7) by (simp add: distinct_map)
  ultimately obtain cs0 where cs0: "s0 = s\<lparr>t_categories := cs0\<rparr>" "categories.rows_ok cs0" "\<forall>p \<in> set categories. categories.holds p cs0"
    using categories.upsert_all_facts [of "t_categories s" categories "\<lambda>p. fc (cs_slug p)" now] assms(5) s0(1)
    by (auto simp: seed_categories_upserts)
  have place: "\<forall>i \<in> set items. placeable ?seeded s0 i" by (rule seed_items_placeable [OF s0(2)])
  have keys: "map placed_key (map (placed s0) items) = map (\<lambda>i. (is_slug i, None)) items"
    by (simp add: placed_key_def placed_def)
  have "items.rows_ok (t_kinks s0)" using assms(3,4) by (simp add: items.rows_ok_def cs0(1))
  moreover have "distinct (map placed_key (map (placed s0) items))"
    unfolding keys using assms(6) by (auto simp: distinct_map inj_on_def)
  moreover have "inj_on (\<lambda>p. fi (is_slug (fst p))) (set (map (placed s0) items))"
    using assms(8) by (auto simp: distinct_map inj_on_def placed_def)
  moreover have "(\<lambda>p. fi (is_slug (fst p))) ` set (map (placed s0) items) \<inter> ki_id ` set (t_kinks s0) = {}"
    using assms(8) by (simp add: cs0(1) placed_def image_image Int_commute)
  ultimately obtain ks0 where ks0: "s1 = s0\<lparr>t_kinks := ks0\<rparr>" "items.rows_ok ks0" "\<forall>i \<in> set items. items.holds (placed s0 i) ks0"
    using items.upsert_all_facts [of "t_kinks s0" "map (placed s0) items" "\<lambda>p. fi (is_slug (fst p))" now] s0(2)
    by (auto simp: seed_items_upserts [OF place])
  have placed1: "placed s1 = placed s0" by (auto simp: ks0(1) placed_def category_by_slug_def)
  have "t_categories s1 = cs0" "t_kinks s1 = ks0" by (simp_all add: ks0(1) cs0(1))
  then have seeded: "list_all (\<lambda>p. category_seeded p s1) categories" "list_all (\<lambda>i. item_seeded i s1) items"
    using cs0(3) ks0(3) by (auto simp: list_all_iff list_ex_iff category_seeded_def item_seeded_def categories.holds_def
        items.holds_def placed1) (auto simp: placed_key_def placed_def)
  obtain cs where cs: "upsert_all (categories.upsert (\<lambda>p. fc' (cs_slug p))) later categories cs0 = Inr cs"
    "map untimed_category cs = map untimed_category cs0"
    using categories.upsert_all_again [OF cs0(2,3), of "\<lambda>p. fc' (cs_slug p)" later] by auto
  let ?s2 = "s1\<lparr>t_categories := cs\<rparr>"
  have "placeable ?seeded ?s2 i \<and> placed ?s2 i = placed s0 i" if "i \<in> set items" for i
    using placed_same [of ?s2 s0 ?seeded i] place that cs(2) by (simp add: cs0(1))
  then have place2: "\<forall>i \<in> set items. placeable ?seeded ?s2 i" and same: "map (placed ?s2) items = map (placed s0) items" by auto
  obtain ks where ks: "upsert_all (items.upsert (\<lambda>p. fi' (is_slug (fst p)))) later (map (placed s0) items) ks0 = Inr ks"
    "map untimed_item ks = map untimed_item ks0"
    using items.upsert_all_again [of ks0 "map (placed s0) items" "\<lambda>p. fi' (is_slug (fst p))" later] ks0(2,3) by auto
  have "seed_kinks fc' fi' later categories items s1 = Inr (s1\<lparr>t_categories := cs, t_kinks := ks\<rparr>)"
    using cs(1) ks(1) \<open>t_categories s1 = cs0\<close> \<open>t_kinks s1 = ks0\<close>
    by (simp add: seed_kinks_def seed_categories_upserts seed_items_upserts [OF place2] same)
  then show ?thesis using seeded cs(2) ks(2) \<open>t_categories s1 = cs0\<close> \<open>t_kinks s1 = ks0\<close> by blast
qed

definition bondage :: category_spec where
  "bondage = \<lparr>cs_slug = ''bondage'', cs_label = ''Bondage and restraints'', cs_safety_flag = False, cs_sort_order = 0\<rparr>"

definition impact :: category_spec where
  "impact = \<lparr>cs_slug = ''impact'', cs_label = ''Impact'', cs_safety_flag = False, cs_sort_order = 1\<rparr>"

definition rope_spec :: item_spec where
  "rope_spec = \<lparr>is_category = ''bondage'', is_slug = ''rope'', is_label = ''Rope'', is_description = Some ''Ties'', is_safety_flag = False\<rparr>"

definition paddle_spec :: item_spec where
  "paddle_spec = \<lparr>is_category = ''impact'', is_slug = ''paddle'', is_label = ''Paddle'', is_description = None, is_safety_flag = True\<rparr>"

lemma seed_idempotent_witness:
  "\<exists>s1 cs ks. seed_kinks (\<lambda>n. 70 + length n) (\<lambda>n. 80 + length n) 5 [bondage, impact] [rope_spec, paddle_spec] catalogue = Inr s1 \<and>
     list_all (\<lambda>i. item_seeded i s1) [rope_spec, paddle_spec] \<and>
     seed_kinks (\<lambda>n. 0) (\<lambda>n. 0) 9 [bondage, impact] [rope_spec, paddle_spec] s1 = Inr (s1\<lparr>t_categories := cs, t_kinks := ks\<rparr>) \<and>
     map untimed_item ks = map untimed_item (t_kinks s1)"
proof -
  let ?cs = "[bondage, impact]" and ?is = "[rope_spec, paddle_spec]"
  let ?fc = "\<lambda>n :: string. 70 + length n" and ?fi = "\<lambda>n :: string. 80 + length n"
  note defs = bondage_def impact_def rope_spec_def paddle_spec_def
  have tables: "t_kinks catalogue = [rope]" "map kc_id (t_categories catalogue) = [60]"
    "map kc_slug (t_categories catalogue) = [''bondage'']"
    by (simp_all add: catalogue_def)
  obtain s1 where s1: "seed_kinks ?fc ?fi 5 ?cs ?is catalogue = Inr s1"
    by (simp add: seed_kinks_def upsert_category_by_slug_def upsert_item_by_slug_def category_by_slug_def defs
        catalogue_def rope_def insert_row_def modify_def refreshed_item_def)
  have "distinct (map kc_id (t_categories catalogue))" "distinct (map kc_slug (t_categories catalogue))"
    "distinct (map ki_id (t_kinks catalogue))" "distinct (map item_key (t_kinks catalogue))"
    "distinct (map cs_slug ?cs)" "distinct (map is_slug ?is)"
    "distinct (map kc_id (t_categories catalogue) @ map (\<lambda>p. ?fc (cs_slug p)) ?cs)"
    "distinct (map ki_id (t_kinks catalogue) @ map (\<lambda>i. ?fi (is_slug i)) ?is)"
    unfolding tables by (simp_all add: rope_def defs)
  from seed_idempotent [OF this s1, of "\<lambda>_. 0" "\<lambda>_. 0" 9] s1 show ?thesis by blast
qed

end
