(* ===== verification/Worker.thy ===== *)
theory Worker
  imports DailyRun Storage Rituals
begin

text \<open>
  The scheduled jobs (\<^verbatim>\<open>workers/daily_cron.py\<close>): the daily run, the two passes over the rituals, reminders and
  renewals, and the janitor of proofs, each in a session of its own, with their times on the clock of
  London. The scheduler is a library; it starts a job when the clock shows its time and logs the exception of
  a job that fails. What the jobs of a day do together to the rituals is shown here.
\<close>

section \<open>The jobs\<close>

datatype job = Job_daily | Job_seed | Job_missed | Job_contracts | Job_janitor

record scheduled_job =
  sj_id :: string
  sj_hour :: int
  sj_minute :: int
  sj_job :: job

definition start_scheduler :: "scheduled_job list" where
  "start_scheduler =
     [\<lparr>sj_id = ''daily_08_uk'', sj_hour = 8, sj_minute = 0, sj_job = Job_daily\<rparr>,
      \<lparr>sj_id = ''seed_ritual_occurrences_job'', sj_hour = 0, sj_minute = 0, sj_job = Job_seed\<rparr>,
      \<lparr>sj_id = ''mark_missed_ritual_occurrences_job'', sj_hour = 23, sj_minute = 59, sj_job = Job_missed\<rparr>,
      \<lparr>sj_id = ''contract_09_job'', sj_hour = 9, sj_minute = 0, sj_job = Job_contracts\<rparr>,
      \<lparr>sj_id = ''proof_janitor_job'', sj_hour = 3, sj_minute = 0, sj_job = Job_janitor\<rparr>]"

definition london_today :: "zone \<Rightarrow> datetime \<Rightarrow> int" where
  "london_today z now = as_london_date z now"

text \<open>What the library and the settings provide, and what a job draws.\<close>

record worker_env =
  we_zone :: zone
  we_aer :: "rat \<Rightarrow> rat"
  we_add_months :: "datetime \<Rightarrow> int \<Rightarrow> datetime"
  we_janitor :: janitor_config

record job_draw =
  jd_cron :: cron_draw
  jd_clock :: run_clock
  jd_run_id :: uuid
  jd_fresh :: "uuid \<Rightarrow> uuid"
  jd_clone :: "uuid \<Rightarrow> clone_draw"

definition run_once :: "worker_env \<Rightarrow> job_draw \<Rightarrow> db \<Rightarrow> db" where
  "run_once w d s = fst (run_daily (we_zone w) (we_aer w) (jd_cron d) (jd_clock d) (jd_run_id d) False None s)"

definition seed_ritual_occurrences_job :: "worker_env \<Rightarrow> job_draw \<Rightarrow> datetime \<Rightarrow> db \<Rightarrow> db" where
  "seed_ritual_occurrences_job w d now s =
     fst (seed_occurrences_for_today (we_zone w) (jd_fresh d) now (london_today (we_zone w) now) s)"

definition mark_missed_ritual_occurrences_job :: "worker_env \<Rightarrow> datetime \<Rightarrow> db \<Rightarrow> db res" where
  "mark_missed_ritual_occurrences_job w now s =
     attempt (mark_missed_for_today now (london_today (we_zone w) now) s) (\<lambda>(s1, _). Inr s1)"

definition run_contract_09_job :: "worker_env \<Rightarrow> job_draw \<Rightarrow> datetime \<Rightarrow> db \<Rightarrow> db res" where
  "run_contract_09_job w d now s =
     attempt (run_review_reminders (we_zone w) now s) (\<lambda>(s1, _).
     attempt (run_auto_extend_renewals (we_add_months w) (jd_clone d) now s1) (\<lambda>(s2, _). Inr s2))"

definition proof_janitor_job :: "worker_env \<Rightarrow> datetime \<Rightarrow> db \<Rightarrow> objects \<Rightarrow> objects" where
  "proof_janitor_job w now s os = fst (run_proof_janitor (we_janitor w) False now s os)"

text \<open>A failed job has not committed.\<close>

definition run_job :: "worker_env \<Rightarrow> job_draw \<Rightarrow> datetime \<Rightarrow> job \<Rightarrow> db \<times> objects \<Rightarrow> db \<times> objects" where
  "run_job w d now j st =
     (let (s, os) = st; kept = (\<lambda>r. case r of Inl _ \<Rightarrow> s | Inr s' \<Rightarrow> s')
      in case j of
           Job_daily \<Rightarrow> (run_once w d s, os)
         | Job_seed \<Rightarrow> (seed_ritual_occurrences_job w d now s, os)
         | Job_missed \<Rightarrow> (kept (mark_missed_ritual_occurrences_job w now s), os)
         | Job_contracts \<Rightarrow> (kept (run_contract_09_job w d now s), os)
         | Job_janitor \<Rightarrow> (s, proof_janitor_job w now s os))"

section \<open>What the jobs do to the rituals\<close>

definition slot :: "ritual_occurrence \<Rightarrow> uuid \<times> int" where
  "slot oc = (o_ritual_id oc, o_date oc)"

definition slots :: "db \<Rightarrow> (uuid \<times> int) list" where
  "slots s = map slot (t_occurrences s)"

text \<open>No slot is lost or filled twice, and the rituals stay.\<close>

definition slots_kept :: "db \<Rightarrow> db \<Rightarrow> bool" where
  "slots_kept s s' \<longleftrightarrow> t_rituals s' = t_rituals s \<and> set (slots s) \<subseteq> set (slots s') \<and>
     (distinct (slots s) \<longrightarrow> distinct (slots s'))"

lemma slots_kept_same: "t_rituals s' = t_rituals s \<Longrightarrow> t_occurrences s' = t_occurrences s \<Longrightarrow> slots_kept s s'"
  by (simp add: slots_kept_def slots_def)

lemma slots_kept_trans: "slots_kept s s1 \<Longrightarrow> slots_kept s1 s2 \<Longrightarrow> slots_kept s s2"
  by (auto simp: slots_kept_def)

interpretation ritual_part: run_frame "\<lambda>s. (t_rituals s, t_occurrences s)"
  by unfold_locales
    (auto simp: apply_event_eq_Inr set_balance_def apply_penalty_def res_simps emit_merit_event_def insert_idempotent_def
      log_event_def split: option.splits if_splits)

lemma run_once_slots: "slots_kept s (run_once w d s)"
  using ritual_part.savepoint [of "we_zone w" "we_aer w" "jd_cron d" "rc_now (jd_clock d)"
      "create_started (jd_run_id d) (rc_started (jd_clock d)) False None s"]
  by (intro slots_kept_same) (simp_all add: run_once_def run_daily_def Let_def finish_run_def close_savepoint_def create_started_def)

lemma bulk_create_slots:
  assumes "bulk_create_for_date rows s = (s', n)"
  shows "slots_kept s s' \<and> slot ` set rows \<subseteq> set (slots s')"
  using assms
proof (induction rows s arbitrary: s' n rule: bulk_create_for_date.induct)
  case (1 s)
  then show ?case by (simp add: slots_kept_def)
next
  case (2 row rows s)
  show ?case
  proof (cases "list_ex (\<lambda>oc. o_ritual_id oc = o_ritual_id row \<and> o_date oc = o_date row) (t_occurrences s)")
    case True
    then obtain oc where "oc \<in> set (t_occurrences s)" "slot oc = slot row" by (auto simp: list_ex_iff slot_def)
    then have "slot row \<in> set (slots s)" unfolding slots_def by (metis image_eqI set_map)
    then show ?thesis using 2 True by (auto simp: slots_kept_def)
  next
    case False
    let ?s = "s\<lparr>t_occurrences := insert_row row (t_occurrences s)\<rparr>"
    have new: "slot row \<notin> set (slots s)" using False by (auto simp: list_ex_iff slots_def slot_def)
    have slots: "slots ?s = slots s @ [slot row]" by (simp add: slots_def insert_row_def)
    obtain k where "bulk_create_for_date rows ?s = (s', k)" using 2(3) False by (auto split: prod.splits)
    then have "slots_kept ?s s' \<and> slot ` set rows \<subseteq> set (slots s')" using "2.IH"(2) False by blast
    then show ?thesis using new by (auto simp: slots_kept_def slots)
  qed
qed

lemma seed_slots:
  assumes "s' = seed_ritual_occurrences_job w d now s"
  shows "slots_kept s s'"
    and "\<And>r. r \<in> set (t_rituals s) \<Longrightarrow> \<not> i_paused r \<Longrightarrow> ritual_fires_on (we_zone w) r (london_today (we_zone w) now) \<Longrightarrow>
      (i_id r, london_today (we_zone w) now) \<in> set (slots s')"
proof -
  let ?rows = "map (\<lambda>r. row_for (jd_fresh d) now r (london_today (we_zone w) now))
    (filter (\<lambda>r. ritual_fires_on (we_zone w) r (london_today (we_zone w) now)) (active_rituals_for_date None s))"
  obtain n where "bulk_create_for_date ?rows s = (s', n)"
    using assms unfolding seed_ritual_occurrences_job_def seed_occurrences_for_today_def by (metis fst_conv surj_pair)
  from bulk_create_slots [OF this] have kept: "slots_kept s s'" and rows: "slot ` set ?rows \<subseteq> set (slots s')" by simp_all
  show "slots_kept s s'" by (rule kept)
  fix r assume "r \<in> set (t_rituals s)" "\<not> i_paused r" "ritual_fires_on (we_zone w) r (london_today (we_zone w) now)"
  then have "slot (row_for (jd_fresh d) now r (london_today (we_zone w) now)) \<in> slot ` set ?rows"
    by (auto simp: active_rituals_for_date_def)
  then show "(i_id r, london_today (we_zone w) now) \<in> set (slots s')"
    using rows by (auto simp: slot_def row_for_def)
qed

lemma penalize_missed_slots:
  "penalize_missed now xs s = Inr s' \<Longrightarrow> t_rituals s' = t_rituals s \<and> t_occurrences s' = t_occurrences s"
proof (induction now xs s rule: penalize_missed.induct)
  case (2 now oid sid gid points rest s)
  then show ?case by (auto simp: res_simps dest: apply_penalty_frame)
qed simp

lemma missed_slots:
  assumes "mark_missed_ritual_occurrences_job w now s = Inr s'"
  shows "slots_kept s s'" and "list_all (\<lambda>oc. o_date oc = london_today (we_zone w) now \<longrightarrow> o_status oc \<noteq> OS_pending) (t_occurrences s')"
proof -
  let ?hit = "\<lambda>oc. o_date oc = london_today (we_zone w) now \<and> o_status oc = OS_pending"
  let ?t = "map (\<lambda>oc. if ?hit oc then oc\<lparr>o_status := OS_missed\<rparr> else oc) (t_occurrences s)"
  have s': "t_rituals s' = t_rituals s" "t_occurrences s' = ?t"
    using assms by (auto simp: mark_missed_ritual_occurrences_job_def mark_missed_for_today_def mark_missed_by_date_def
        res_simps Let_def dest: penalize_missed_slots)
  have "slots s' = slots s" by (simp add: slots_def s' slot_def)
  then show "slots_kept s s'" by (simp add: slots_kept_def s')
  show "list_all (\<lambda>oc. o_date oc = london_today (we_zone w) now \<longrightarrow> o_status oc \<noteq> OS_pending) (t_occurrences s')"
    unfolding s' list.pred_map by (simp add: list_all_iff)
qed

lemma remind_each_slots:
  "remind_each cs n s = Inr (s', k) \<Longrightarrow> t_rituals s' = t_rituals s \<and> t_occurrences s' = t_occurrences s"
proof (induction cs arbitrary: n s)
  case (Cons c cs)
  then show ?case by (fastforce simp: res_simps split: if_splits option.splits)
qed simp

lemma clone_contract_slots:
  "clone_contract am d c u s = Inr s' \<Longrightarrow> t_rituals s' = t_rituals s \<and> t_occurrences s' = t_occurrences s"
  by (auto simp: clone_contract_def create_contract_def create_version_def save_contract_def append_audit_def res_simps Let_def)

lemma renew_each_slots:
  "renew_each am d cs n s = Inr (s', k) \<Longrightarrow> t_rituals s' = t_rituals s \<and> t_occurrences s' = t_occurrences s"
proof (induction cs arbitrary: n s)
  case (Cons c cs)
  then show ?case by (fastforce simp: res_simps dest: clone_contract_slots split: if_splits option.splits)
qed simp

lemma contract_job_slots: "run_contract_09_job w d now s = Inr s' \<Longrightarrow> slots_kept s s'"
  by (rule slots_kept_same)
    (auto simp: run_contract_09_job_def run_review_reminders_def run_auto_extend_renewals_def res_simps
      dest!: remind_each_slots renew_each_slots)

lemma run_job_slots: "slots_kept (fst st) (fst (run_job w d now j st))"
proof -
  obtain s os where "st = (s, os)" by (cases st)
  then show ?thesis
    by (cases j) (auto simp: run_job_def Let_def slots_kept_same run_once_slots seed_slots(1) [OF refl]
        intro: missed_slots(1) contract_job_slots split: sum.splits)
qed

lemma no_hit: "x \<notin> set xs \<Longrightarrow> filter (\<lambda>k. k = x) xs = []"
  by (auto simp: filter_empty_conv)

lemma one_hit: "x \<in> set xs \<Longrightarrow> distinct xs \<Longrightarrow> length (filter (\<lambda>k. k = x) xs) = 1"
  by (induction xs) (auto simp: no_hit)

definition run_jobs :: "worker_env \<Rightarrow> (job_draw \<times> datetime \<times> job) list \<Rightarrow> db \<times> objects \<Rightarrow> db \<times> objects" where
  "run_jobs w js st = fold (\<lambda>(d, now, j). run_job w d now j) js st"

lemma run_jobs_slots: "slots_kept (fst st) (fst (run_jobs w js st))"
proof (induction js arbitrary: st)
  case Nil
  show ?case by (simp add: run_jobs_def slots_kept_same)
next
  case (Cons e js)
  obtain d now j where "e = (d, now, j)" by (cases e)
  then show ?case using slots_kept_trans [OF run_job_slots Cons.IH] by (simp add: run_jobs_def)
qed

text \<open>C37: The jobs of a day close the day. If the seeding and, later on the same London day, the marking have run, with
any other jobs between them, then every ritual that was active and fires on that day has exactly one
occurrence of the day, and none of the day is left pending.\<close>

theorem day_is_closed:
  assumes "distinct (slots s)" and "london_today (we_zone w) t0 = today" and "london_today (we_zone w) t1 = today"
    and "run_jobs w js (run_job w d t0 Job_seed (s, os)) = (s1, os1)"
    and "mark_missed_ritual_occurrences_job w t1 s1 = Inr s2"
  shows "list_all (\<lambda>r. \<not> i_paused r \<longrightarrow> ritual_fires_on (we_zone w) r today \<longrightarrow>
      length (filter (\<lambda>oc. o_ritual_id oc = i_id r \<and> o_date oc = today) (t_occurrences s2)) = 1) (t_rituals s) \<and>
    list_all (\<lambda>oc. o_date oc = today \<longrightarrow> o_status oc \<noteq> OS_pending) (t_occurrences s2)"
proof -
  define s0 where "s0 = seed_ritual_occurrences_job w d t0 s"
  have "slots_kept s0 s1" using run_jobs_slots [of "(s0, os)" w js] assms(4) by (simp add: run_job_def s0_def)
  then have kept: "slots_kept s s2" "slots_kept s0 s2"
    using slots_kept_trans seed_slots(1) [OF s0_def] missed_slots(1) [OF assms(5)] by blast+
  have "length (filter (\<lambda>oc. o_ritual_id oc = i_id r \<and> o_date oc = today) (t_occurrences s2)) = 1"
    if r: "r \<in> set (t_rituals s)" "\<not> i_paused r" "ritual_fires_on (we_zone w) r today" for r
  proof -
    have "(i_id r, today) \<in> set (slots s2)" using seed_slots(2) [OF s0_def] r assms(2) kept(2) by (auto simp: slots_kept_def)
    moreover have "distinct (slots s2)" using kept(1) assms(1) by (simp add: slots_kept_def)
    ultimately have "length (filter (\<lambda>k. k = (i_id r, today)) (slots s2)) = 1"
      by (rule one_hit)
    then show ?thesis by (simp add: slots_def filter_map slot_def comp_def)
  qed
  then show ?thesis using missed_slots(2) [OF assms(5)] assms(3) by (auto simp: list_all_iff)
qed

definition evening_ritual :: ritual where
  "evening_ritual = \<lparr>i_id = 70, i_sub_id = 12, i_goddess_id = 10, i_title = ''line'', i_description = None,
     i_frequency = RF_daily, i_custom_days_bitmask = None, i_deadline_time = None, i_points_on_complete = 1,
     i_points_on_miss = -5, i_requires_proof = False, i_paused = False, i_created_at = 0, i_updated_at = 0\<rparr>"

definition sample_worker :: worker_env where
  "sample_worker = \<lparr>we_zone = gmt, we_aer = (\<lambda>x. x), we_add_months = (\<lambda>t n. t), we_janitor = proofs_cfg\<rparr>"

definition evening_world :: db where
  "evening_world = world\<lparr>t_rituals := [evening_ritual]\<rparr>"

lemma evening_today: "0 \<le> t \<Longrightarrow> t < us_per_day \<Longrightarrow> london_today (we_zone sample_worker) t = 0"
  by (simp add: london_today_def as_london_date_def sample_worker_def gmt_def to_wall_def us_per_day_def date_of_def)

lemma evening_seeded:
  "\<exists>o1. o_ritual_id o1 = 70 \<and> o_sub_id o1 = 12 \<and> o_goddess_id o1 = 10 \<and> o_date o1 = 0 \<and> o_status o1 = OS_pending \<and>
     seed_ritual_occurrences_job sample_worker d 0 evening_world = evening_world\<lparr>t_occurrences := [o1]\<rparr>"
proof -
  have none: "t_occurrences world = []" by (simp add: world_def empty_db_def)
  show ?thesis
    by (rule exI [of _ "row_for (jd_fresh d) 0 evening_ritual 0"])
      (simp add: seed_ritual_occurrences_job_def evening_today us_per_day_def seed_occurrences_for_today_def
        evening_world_def active_rituals_for_date_def evening_ritual_def ritual_fires_on_def insert_row_def none row_for_def)
qed

lemma evening_contracts:
  "run_job sample_worker d now Job_contracts (evening_world\<lparr>t_occurrences := os\<rparr>, obs) =
     (evening_world\<lparr>t_occurrences := os\<rparr>, obs)"
  by (simp add: run_job_def run_contract_09_job_def run_review_reminders_def run_auto_extend_renewals_def evening_world_def
      due_for_reminder_def due_for_renewal_def)

lemma evening_marked:
  assumes "o_ritual_id o1 = 70" "o_sub_id o1 = 12" "o_goddess_id o1 = 10" "o_date o1 = 0" "o_status o1 = OS_pending"
  shows "\<exists>s2. mark_missed_ritual_occurrences_job sample_worker 86340000000 (evening_world\<lparr>t_occurrences := [o1]\<rparr>) = Inr s2"
proof -
  have "find_matching_rule 10 12 PT_ritual_missed None s = None" if "t_rules s = []" for s
    using that by (simp add: find_matching_rule_def find_best_def first_row_def)
  then show ?thesis using assms
    by (simp add: mark_missed_ritual_occurrences_job_def evening_today us_per_day_def mark_missed_for_today_def
        pending_with_points_def mark_missed_by_date_def evening_world_def evening_ritual_def apply_penalty_def
        emit_merit_event_def merit_source_kind_for_def split: prod.splits)
qed

lemma day_is_closed_witness:
  "\<forall>d. \<exists>s1 os1 s2.
     run_jobs sample_worker [(d, 10800000000, Job_janitor), (d, 32400000000, Job_contracts)]
       (run_job sample_worker d 0 Job_seed (evening_world, [])) = (s1, os1) \<and>
     mark_missed_ritual_occurrences_job sample_worker 86340000000 s1 = Inr s2 \<and>
     length (filter (\<lambda>oc. o_ritual_id oc = 70 \<and> o_date oc = 0) (t_occurrences s2)) = 1"
proof
  fix d
  obtain o1 where o1: "o_ritual_id o1 = 70" "o_sub_id o1 = 12" "o_goddess_id o1 = 10" "o_date o1 = 0" "o_status o1 = OS_pending"
    and seeded: "seed_ritual_occurrences_job sample_worker d 0 evening_world = evening_world\<lparr>t_occurrences := [o1]\<rparr>"
    using evening_seeded by blast
  let ?s1 = "evening_world\<lparr>t_occurrences := [o1]\<rparr>"
  obtain s2 where s2: "mark_missed_ritual_occurrences_job sample_worker 86340000000 ?s1 = Inr s2"
    using evening_marked [OF o1] by blast
  have run: "run_jobs sample_worker [(d, 10800000000, Job_janitor), (d, 32400000000, Job_contracts)]
      (run_job sample_worker d 0 Job_seed (evening_world, [])) = (?s1, proof_janitor_job sample_worker 10800000000 ?s1 [])"
    by (simp add: run_jobs_def evening_contracts run_job_def [of _ _ _ Job_seed] run_job_def [of _ _ _ Job_janitor] seeded)
  have "t_occurrences world = []" by (simp add: world_def empty_db_def)
  then have "distinct (slots evening_world)" by (simp add: slots_def evening_world_def)
  from day_is_closed [OF this _ _ run s2, of 0] show "\<exists>s1 os1 s2.
     run_jobs sample_worker [(d, 10800000000, Job_janitor), (d, 32400000000, Job_contracts)]
       (run_job sample_worker d 0 Job_seed (evening_world, [])) = (s1, os1) \<and>
     mark_missed_ritual_occurrences_job sample_worker 86340000000 s1 = Inr s2 \<and>
     length (filter (\<lambda>oc. o_ritual_id oc = 70 \<and> o_date oc = 0) (t_occurrences s2)) = 1"
    using run s2 by (simp add: evening_today us_per_day_def evening_world_def evening_ritual_def ritual_fires_on_def)
qed

end
