(* ===== verification/Proofs.thy ===== *)
theory Proofs
  imports System Storage
begin

text \<open>
  Proofs of payments (\<^verbatim>\<open>controllers/payment/proof.py\<close>, \<^verbatim>\<open>routers/payments.py\<close> and the part of
  \<^verbatim>\<open>controllers/payment/controller.py\<close> that talks to the object store): the checks of an upload, the
  key of its object, and the declaration with its proof. Pillow is a parameter, a function that may
  raise. What a sub uploaded stays in the store as it was, whatever is requested later on and however
  often the janitor runs, as long as no admin edits or deletes payments.
\<close>

section \<open>The upload\<close>

definition ext_map :: "(string \<times> string) list" where
  "ext_map = [(''image/jpeg'', ''jpg''), (''image/png'', ''png''), (''image/webp'', ''webp'')]"

definition allowed_proof_mimes :: "string list" where
  "allowed_proof_mimes = [''image/jpeg'', ''image/png'', ''image/webp'']"

definition max_proof_bytes :: nat where
  "max_proof_bytes = 5 * 1024 * 1024"

definition build_proof_key :: "uuid \<Rightarrow> uuid \<Rightarrow> uuid \<Rightarrow> string \<Rightarrow> string res" where
  "build_proof_key goddess_id sub_id declaration_id mime =
     require (map_of ext_map mime) (KeyError mime) (\<lambda>ext.
     Inr (uuid_text goddess_id @ ''/'' @ uuid_text sub_id @ ''/'' @ uuid_text declaration_id @ ''.'' @ ext))"

text \<open>The bucket of the proofs and the re-encoding of an image, \<open>None\<close> when Pillow cannot open it.\<close>

record proof_config =
  pf_bucket :: string
  pf_reencode :: "string \<Rightarrow> string option"

definition strip_exif_if_jpeg :: "proof_config \<Rightarrow> string \<Rightarrow> string \<Rightarrow> string res" where
  "strip_exif_if_jpeg cfg raw mime =
     (if mime \<noteq> ''image/jpeg'' then Inr raw
      else require (pf_reencode cfg raw) (OSError ''cannot identify image file'') Inr)"

text \<open>What is checked before the upload; the handler of the tables checks the same.\<close>

definition declare_checks :: "user \<Rightarrow> declare_in \<Rightarrow> db \<Rightarrow> uuid res" where
  "declare_checks caller p s =
     attempt (check_category_for_sub caller (di_category p)) (\<lambda>_.
     attempt (if di_category p = PC_rolling then check_rolling_active (u_id caller) s else Inr ()) (\<lambda>_.
     require (u_goddess_id caller) (BadRequest ''sub is not linked to a goddess'') (\<lambda>goddess_id.
     attempt (get_method_for_goddess goddess_id (di_method_id p) s) (\<lambda>_. Inr goddess_id))))"

text \<open>The object is uploaded before the row is written, and stays when the row is refused.\<close>

definition declare_with_proof ::
  "proof_config \<Rightarrow> uuid \<Rightarrow> datetime \<Rightarrow> user \<Rightarrow> declare_in \<Rightarrow> string \<Rightarrow> string \<Rightarrow> db \<Rightarrow> objects \<Rightarrow>
   (db \<times> payment_out) res \<times> objects" where
  "declare_with_proof cfg did now caller p proof_bytes proof_mime s os =
     (case attempt (declare_checks caller p s) (\<lambda>goddess_id.
           attempt (strip_exif_if_jpeg cfg proof_bytes proof_mime) (\<lambda>clean_bytes.
           attempt (build_proof_key goddess_id (u_id caller) did proof_mime) (\<lambda>proof_key.
           Inr (clean_bytes, proof_key)))) of
        Inl e \<Rightarrow> (Inl e, os)
      | Inr (clean_bytes, proof_key) \<Rightarrow>
          (declare_as_sub did now proof_key caller p s,
           upload_object now (pf_bucket cfg) proof_key clean_bytes proof_mime os))"

text \<open>\<^verbatim>\<open>Decimal(amount)\<close> of the form's text is a function of the library, \<open>None\<close> when it raises.\<close>

definition declare_payment ::
  "proof_config \<Rightarrow> (string \<Rightarrow> rat option) \<Rightarrow> uuid \<Rightarrow> datetime \<Rightarrow> user \<Rightarrow> string \<Rightarrow> declare_in \<Rightarrow> string \<Rightarrow> string \<Rightarrow> db \<Rightarrow>
   objects \<Rightarrow> (db \<times> payment_out) res \<times> objects" where
  "declare_payment cfg decimal did now user amount form raw mime s os =
     (if mime \<notin> set allowed_proof_mimes then (Inl (UnsupportedMediaType ''unsupported proof MIME type''), os)
      else if max_proof_bytes < length raw then (Inl (PayloadTooLarge ''proof file too large''), os)
      else case decimal amount of
        None \<Rightarrow> (Inl (Validation ''amount is not a valid decimal''), os)
      | Some x \<Rightarrow>
          let body = form\<lparr>di_amount := x\<rparr>
          in if \<not> declare_in_valid body then (Inl (Validation ''invalid body''), os)
             else declare_with_proof cfg did now user body raw mime s os)"

text \<open>The link to a proof, for ten minutes.\<close>

definition proof_presigned_url :: "proof_config \<Rightarrow> payment_declaration \<Rightarrow> (string \<times> string \<times> nat) option" where
  "proof_presigned_url cfg d = map_option (\<lambda>k. generate_presigned_url (pf_bucket cfg) k 600) (d_proof_key d)"

text \<open>The subs a goddess can record a payment for.\<close>

definition list_payment_subs :: "user \<Rightarrow> db \<Rightarrow> (user \<times> string) list res" where
  "list_payment_subs owner s =
     attempt (resolve_goddess_id (u_id owner) s) (\<lambda>gid.
     Inr (map (\<lambda>u. (u, display_name u)) (filter (\<lambda>u. u_goddess_id u = Some gid \<and> u_role u = R_sub) (t_users s))))"

section \<open>Keys\<close>

lemma hex_length [simp]: "length (hex k n) = k"
  by (induction k n rule: hex.induct) simp_all

lemma hex_digit_inj: "hex_digit m = hex_digit n \<Longrightarrow> m mod 16 = n mod 16"
proof -
  assume eq: "hex_digit m = hex_digit n"
  define ds where "ds = ''0123456789abcdef''"
  have digit: "hex_digit i = ds ! (i mod 16)" for i by (simp only: hex_digit_def ds_def)
  have "distinct ds" unfolding ds_def by simp
  moreover have "length ds = 16" unfolding ds_def by simp
  moreover have "ds ! (m mod 16) = ds ! (n mod 16)" using eq by (simp only: digit)
  ultimately show ?thesis using nth_eq_iff_index_eq [of ds "m mod 16" "n mod 16"] by simp
qed

lemma hex_inj: "hex k m = hex k n \<Longrightarrow> m mod 16 ^ k = n mod 16 ^ k"
proof (induction k arbitrary: m n)
  case (Suc k)
  then have "hex k (m div 16) = hex k (n div 16)" "hex_digit m = hex_digit n" by simp_all
  then have "m div 16 mod 16 ^ k = n div 16 mod 16 ^ k" "m mod 16 = n mod 16"
    using Suc.IH hex_digit_inj by blast+
  then show ?case by (simp add: mod_mult2_eq)
qed simp

text \<open>A uuid has 128 bits.\<close>

definition uuid_bits :: "uuid \<Rightarrow> bool" where
  "uuid_bits u \<longleftrightarrow> u < 2 ^ 128"

lemma uuid_text_length [simp]: "length (uuid_text u) = 36"
  by (simp add: uuid_text_def Let_def)

lemma uuid_groups:
  fixes h :: string
  shows "h = take 8 h @ take 4 (drop 8 h) @ take 4 (drop 12 h) @ take 4 (drop 16 h) @ drop 20 h"
proof -
  have "take 4 (drop 16 h) @ drop 20 h = drop 16 h" using append_take_drop_id [of 4 "drop 16 h"] by simp
  moreover have "take 4 (drop 12 h) @ drop 16 h = drop 12 h" using append_take_drop_id [of 4 "drop 12 h"] by simp
  moreover have "take 4 (drop 8 h) @ drop 12 h = drop 8 h" using append_take_drop_id [of 4 "drop 8 h"] by simp
  ultimately show ?thesis by (simp only: append_take_drop_id)
qed

lemma uuid_text_inj:
  assumes "uuid_text u = uuid_text v" "uuid_bits u" "uuid_bits v"
  shows "u = v"
proof -
  have "take 8 (hex 32 u) = take 8 (hex 32 v) \<and> take 4 (drop 8 (hex 32 u)) = take 4 (drop 8 (hex 32 v)) \<and>
    take 4 (drop 12 (hex 32 u)) = take 4 (drop 12 (hex 32 v)) \<and> take 4 (drop 16 (hex 32 u)) = take 4 (drop 16 (hex 32 v)) \<and>
    drop 20 (hex 32 u) = drop 20 (hex 32 v)"
    using assms(1) by (simp add: uuid_text_def Let_def)
  then have "hex 32 u = hex 32 v" using uuid_groups [of "hex 32 u"] uuid_groups [of "hex 32 v"] by presburger
  then have "u mod 16 ^ 32 = v mod 16 ^ 32" by (rule hex_inj)
  then show ?thesis using assms(2,3) by (simp add: uuid_bits_def)
qed

lemma proof_key_inj:
  assumes "build_proof_key g s d m = Inr k" "build_proof_key g' s' d' m' = Inr k" "uuid_bits d" "uuid_bits d'"
  shows "d = d'"
proof -
  obtain e e' where "k = uuid_text g @ ''/'' @ uuid_text s @ ''/'' @ uuid_text d @ ''.'' @ e"
      "k = uuid_text g' @ ''/'' @ uuid_text s' @ ''/'' @ uuid_text d' @ ''.'' @ e'"
    using assms(1,2) by (auto simp: build_proof_key_def res_simps)
  then have "uuid_text d = uuid_text d'" by simp
  then show ?thesis using assms(3,4) by (rule uuid_text_inj)
qed

section \<open>The tables and the store together\<close>

text \<open>
  The steps: a declaration with its upload, whether the row is written or refused after it; any request
  of the money system and whatever else changes the database, edits of the entities \<open>es\<close> by an admin included;
  a run of the janitor; and whatever happens in other buckets. A new identifier is not in use.
\<close>

definition one_object_per_key :: "objects \<Rightarrow> bool" where
  "one_object_per_key os = distinct (map (\<lambda>ob. (ob_bucket ob, ob_key ob)) os)"

inductive books_step ::
  "proof_config \<Rightarrow> janitor_config \<Rightarrow> string set \<Rightarrow> db \<times> objects \<Rightarrow> db \<times> objects \<Rightarrow> bool"
  for cfg :: proof_config and jc :: janitor_config and es :: "string set" where
  declared: "declare_payment cfg decimal did now u amount form raw mime s os = (Inr (s', out), os') \<Longrightarrow>
     uuid_bits did \<Longrightarrow> declaration_at did s = None \<Longrightarrow> books_step cfg jc es (s, os) (s', os')"
| refused: "declare_payment cfg decimal did now u amount form raw mime s os = (Inl e, os') \<Longrightarrow>
     uuid_bits did \<Longrightarrow> declaration_at did s = None \<Longrightarrow> books_step cfg jc es (s, os) (s, os')"
| requested: "program_step es s s' \<Longrightarrow> books_step cfg jc es (s, os) (s', os)"
| cleaned: "run_proof_janitor jc dry now s os = (os', counts) \<Longrightarrow> books_step cfg jc es (s, os) (s, os')"
| elsewhere: "filter (\<lambda>ob. ob_bucket ob = pf_bucket cfg) os' = filter (\<lambda>ob. ob_bucket ob = pf_bucket cfg) os \<Longrightarrow>
     one_object_per_key os' \<Longrightarrow> books_step cfg jc es (s, os) (s, os')"

lemma payment_step_keeps_proof:
  assumes "payment_step s s'" "declaration_at k s = Some d"
  shows "\<exists>d'. declaration_at k s' = Some d' \<and> d_proof_key d' = d_proof_key d"
  using assms(1)
proof (cases rule: payment_step.cases)
  case quiet
  then show ?thesis using assms(2) by (simp add: declaration_at_def)
next
  case (declared e)
  then show ?thesis using assms(2) declaration_at_insert [OF declared(1,3), of k] by auto
next
  case (recorded e)
  then show ?thesis using assms(2) declaration_at_insert [OF recorded(1,3), of k] by auto
next
  case (changed did e f)
  then show ?thesis using assms(2) declaration_at_modify [OF changed(3,5), of k] by auto
next
  case (settled did e f)
  then show ?thesis using assms(2) declaration_at_modify [OF settled(3,5), of k] by auto
qed

lemma upload_set:
  "set (upload_object now b k body ct os) =
     insert \<lparr>ob_bucket = b, ob_key = k, ob_body = body, ob_content_type = ct, ob_last_modified = now\<rparr>
       {ob \<in> set os. \<not> (ob_bucket ob = b \<and> ob_key ob = k)}"
  by (auto simp: upload_object_def delete_object_def same_object_def)

lemma one_object_deleted: "one_object_per_key os \<Longrightarrow> one_object_per_key (delete_object b k os)"
  by (simp add: one_object_per_key_def delete_object_def distinct_map_filter)

lemma one_object_uploaded: "one_object_per_key os \<Longrightarrow> one_object_per_key (upload_object now b k body ct os)"
  using one_object_deleted [of os b k]
  by (auto simp: one_object_per_key_def upload_object_def delete_object_def same_object_def)

lemma one_object_cleaned: "one_object_per_key os \<Longrightarrow> one_object_per_key (fold (delete_object b) ks os)"
  by (induction ks arbitrary: os) (simp_all add: one_object_deleted)

text \<open>An upload writes under the key of its own declaration, or not at all.\<close>

lemma declare_payment_cases:
  assumes "declare_payment cfg decimal did now u amount form raw mime s os = (r, os')"
  obtains e where "r = Inl e" "os' = os"
  | g clean key p where "mime \<in> set allowed_proof_mimes" "length raw \<le> max_proof_bytes"
    "strip_exif_if_jpeg cfg raw mime = Inr clean" "build_proof_key g (u_id u) did mime = Inr key"
    "r = declare_as_sub did now key u p s" "os' = upload_object now (pf_bucket cfg) key clean mime os"
  using assms unfolding declare_payment_def declare_with_proof_def Let_def
  by (auto simp: res_simps split: if_splits option.splits sum.splits prod.splits)

definition proof_kept :: "proof_config \<Rightarrow> uuid \<Rightarrow> stored_object \<Rightarrow> db \<times> objects \<Rightarrow> bool" where
  "proof_kept cfg did ob st \<longleftrightarrow> uuid_bits did \<and> one_object_per_key (snd st) \<and> ob \<in> set (snd st) \<and> ob_bucket ob = pf_bucket cfg \<and>
     (\<exists>g u m. build_proof_key g u did m = Inr (ob_key ob)) \<and>
     (\<exists>d. declaration_at did (fst st) = Some d \<and> d_proof_key d = Some (ob_key ob))"

lemma kept_upload:
  assumes "proof_kept cfg did ob (s, os)" and "declare_payment cfg decimal did' now u amount form raw mime s os = (r, os')"
    and "uuid_bits did'" and "declaration_at did' s = None"
  shows "one_object_per_key os' \<and> ob \<in> set os'"
  using assms(2)
proof (cases rule: declare_payment_cases)
  case 1
  then show ?thesis using assms(1) by (simp add: proof_kept_def)
next
  case (2 g clean key p)
  have "did' \<noteq> did" using assms(1,4) by (auto simp: proof_kept_def)
  then have "key \<noteq> ob_key ob" using assms(1,3) 2(4) proof_key_inj unfolding proof_kept_def by blast
  then show ?thesis using assms(1) by (simp add: 2(6) upload_set one_object_uploaded proof_kept_def)
qed

lemma kept_cleaned:
  assumes "proof_kept cfg did ob (s, os)" and "run_proof_janitor jc dry now s os = (os', counts)"
  shows "one_object_per_key os' \<and> ob \<in> set os'"
proof -
  obtain d where d: "d \<in> set (t_declarations s)" "d_proof_key d = Some (ob_key ob)"
    using assms(1) by (auto simp: proof_kept_def declaration_at_def dest: fetch_SomeD)
  have "ob_key ob \<noteq> []" using assms(1) by (auto simp: proof_kept_def build_proof_key_def res_simps)
  have one: "one_object_per_key os" "ob \<in> set os" using assms(1) by (simp_all add: proof_kept_def)
  obtain os2 out2 where real: "run_proof_janitor jc False now s os = (os2, out2)" by fastforce
  obtain os3 out3 where dry: "run_proof_janitor jc True now s os = (os3, out3)" by fastforce
  from janitor_keeps_proofs [OF real dry] one d \<open>ob_key ob \<noteq> []\<close>
  have "ob \<in> set os2" "os3 = os" unfolding one_object_per_key_def by blast+
  moreover have "one_object_per_key os2" using real one(1) by (auto simp: run_proof_janitor_def Let_def one_object_cleaned)
  ultimately show ?thesis using real dry one assms(2) by (cases dry) auto
qed

lemma kept_step:
  assumes "books_step cfg jc es st st'" "proof_kept cfg did ob st" "''payment_declarations'' \<notin> es"
  shows "proof_kept cfg did ob st'"
proof -
  obtain s os where st: "st = (s, os)" by (cases st)
  have base: "uuid_bits did" "ob_bucket ob = pf_bucket cfg" "\<exists>g u m. build_proof_key g u did m = Inr (ob_key ob)"
    "\<exists>d. declaration_at did s = Some d \<and> d_proof_key d = Some (ob_key ob)" "one_object_per_key os" "ob \<in> set os"
    using assms(2) by (auto simp: proof_kept_def st)
  have row: "\<exists>d. declaration_at did s' = Some d \<and> d_proof_key d = Some (ob_key ob)" if "payment_step s s'" for s'
    using payment_step_keeps_proof [OF that] base(4) by fastforce
  have up: "one_object_per_key os' \<and> ob \<in> set os'"
    if "declare_payment cfg decimal k now u amount form raw mime s os = (r, os')" "uuid_bits k" "declaration_at k s = None"
    for decimal k now u amount form raw mime r os'
    using kept_upload [OF assms(2) [unfolded st] that] .
  show ?thesis using assms(1) unfolding st
  proof cases
    case (declared decimal k now u amount form raw mime s' out os')
    from declared(2) obtain key p where "declare_as_sub k now key u p s = Inr (s', out)"
      by (cases rule: declare_payment_cases) auto
    from row [OF declare_step [OF this declared(4)]] up [OF declared(2-4)] base show ?thesis
      by (simp add: proof_kept_def declared(1))
  next
    case (refused decimal k now u amount form raw mime e os')
    then show ?thesis using up [OF refused(2-4)] base by (simp add: proof_kept_def)
  next
    case (requested s')
    then show ?thesis using row [OF program_payment_step [OF _ assms(3)]] base by (simp add: proof_kept_def)
  next
    case (cleaned dry now os' counts)
    then show ?thesis using kept_cleaned [OF assms(2) [unfolded st]] base by (simp add: proof_kept_def)
  next
    case (elsewhere os')
    have "ob \<in> set (filter (\<lambda>ob. ob_bucket ob = pf_bucket cfg) os')" unfolding elsewhere(2) using base by simp
    then have "ob \<in> set os'" by simp
    then show ?thesis using elsewhere(1,3) base by (simp add: proof_kept_def)
  qed
qed

lemma kept_run: "(books_step cfg jc es)\<^sup>*\<^sup>* st st' \<Longrightarrow> ''payment_declarations'' \<notin> es \<Longrightarrow>
   proof_kept cfg did ob st \<Longrightarrow> proof_kept cfg did ob st'"
  by (induction rule: rtranclp_induct) (auto intro: kept_step)

lemma stored_proof_key [simp]:
  "d_proof_key (stored_declaration d) = d_proof_key d"
  "d_proof_key (declared_row did now key sid gid p) = Some key"
  by (simp_all add: stored_declaration_def declared_row_def)

lemma declared_key:
  assumes "declare_as_sub did now key u p s = Inr (s', out)" "declaration_at did s = None"
  shows "\<exists>d. declaration_at did s' = Some d \<and> d_proof_key d = Some key"
proof -
  obtain d where "t_declarations s' = insert_row d (t_declarations s)" "d_id d = did" "d_proof_key d = Some key"
    using assms(1) by (auto simp: declare_as_sub_def res_simps Let_def)
  then show ?thesis using declaration_at_insert [of d s s' did] assms(2) by simp
qed

text \<open>C32: What a sub uploads with a payment stays. After a declaration that was accepted, in every later state of the
tables and the store, whatever requests, further uploads, failed ones included, runs of the janitor and
other changes of the database come between, but for edits of payments by an admin (who may drop the key, and with it
the object), the declaration names an object in the bucket of the proofs, which has the bytes that were uploaded, re-encoded
if they were a JPEG, under their type, and the link of the declaration is for that object.\<close>

theorem proofs_stay:
  assumes "declare_payment cfg decimal did now u amount form raw mime s os = (Inr (s1, out), os1)"
    and "uuid_bits did" and "declaration_at did s = None" and "one_object_per_key os"
    and "(books_step cfg jc es)\<^sup>*\<^sup>* (s1, os1) (s2, os2)" and "''payment_declarations'' \<notin> es"
  shows "\<exists>d ob. declaration_at did s2 = Some d \<and> ob \<in> set os2 \<and>
     proof_presigned_url cfg d = Some (ob_bucket ob, ob_key ob, 600) \<and> ob_bucket ob = pf_bucket cfg \<and>
     strip_exif_if_jpeg cfg raw mime = Inr (ob_body ob) \<and> ob_content_type ob = mime \<and>
     mime \<in> set allowed_proof_mimes \<and> length raw \<le> max_proof_bytes"
  using assms(1)
proof (cases rule: declare_payment_cases)
  case (2 g clean key p)
  let ?ob = "\<lparr>ob_bucket = pf_bucket cfg, ob_key = key, ob_body = clean, ob_content_type = mime, ob_last_modified = now\<rparr>"
  have "declare_as_sub did now key u p s = Inr (s1, out)" using 2(5) by simp
  from declared_key [OF this assms(3)] have "proof_kept cfg did ?ob (s1, os1)"
    using assms(2,4) 2(4) by (auto simp: proof_kept_def 2(6) upload_set one_object_uploaded)
  from kept_run [OF assms(5,6) this] obtain d where "declaration_at did s2 = Some d" "d_proof_key d = Some key" "?ob \<in> set os2"
    by (auto simp: proof_kept_def)
  then show ?thesis using 2 by (intro exI [of _ d] exI [of _ ?ob]) (simp add: proof_presigned_url_def generate_presigned_url_def)
qed simp

definition proofs_bucket :: proof_config where
  "proofs_bucket = \<lparr>pf_bucket = ''payment-proofs'', pf_reencode = Some\<rparr>"

definition tribute_form :: declare_in where
  "tribute_form = \<lparr>di_amount = 0, di_method_id = 30, di_category = PC_tribute,
     di_external_timestamp = None, di_note = None, di_target_id = None\<rparr>"

definition thirty :: "string \<Rightarrow> rat option" where
  "thirty t = (if t = ''30.00'' then Some 30 else None)"

lemma sample_key: "\<exists>key. build_proof_key g u d ''image/png'' = Inr key"
  by (simp add: build_proof_key_def ext_map_def)

lemma sample_declaration:
  "\<exists>s1 out os1. declare_payment proofs_bucket thirty 300 5 sub_user ''30.00'' tribute_form ''pixels'' ''image/png'' world [] =
     (Inr (s1, out), os1)"
proof -
  obtain key where key: "build_proof_key 10 12 300 ''image/png'' = Inr key" using sample_key by blast
  let ?p = "tribute_form\<lparr>di_amount := 30\<rparr>"
  have "declare_in_valid ?p" by (simp add: declare_in_valid_def amount_valid_def tribute_form_def places_def)
  moreover have "declare_checks sub_user ?p world = Inr 10"
    by (simp add: declare_checks_def tribute_form_def check_category_for_sub_def)
  moreover have "\<exists>s1 out. declare_as_sub 300 5 key sub_user ?p world = Inr (s1, out)"
    by (simp add: declare_as_sub_def tribute_form_def check_category_for_sub_def create_declaration_def payment_to_out_def
        load_allocation_def resolve_goddess_user_id_def declared_row_def stored_declaration_def Let_def)
  ultimately show ?thesis using key
    by (auto simp: declare_payment_def thirty_def allowed_proof_mimes_def max_proof_bytes_def declare_with_proof_def
        strip_exif_if_jpeg_def)
qed

lemma proofs_stay_witness:
  "\<exists>s1 out os1 os2 counts d ob. declare_payment proofs_bucket thirty 300 5 sub_user ''30.00'' tribute_form ''pixels'' ''image/png'' world [] =
     (Inr (s1, out), os1) \<and> run_proof_janitor proofs_cfg False 1000000000000 s1 os1 = (os2, counts) \<and>
     declaration_at 300 s1 = Some d \<and> ob \<in> set os2 \<and> d_proof_key d = Some (ob_key ob) \<and> ob_body ob = ''pixels''"
proof -
  obtain s1 out os1 where declared: "declare_payment proofs_bucket thirty 300 5 sub_user ''30.00'' tribute_form ''pixels''
      ''image/png'' world [] = (Inr (s1, out), os1)"
    using sample_declaration by blast
  obtain os2 counts where cleaned: "run_proof_janitor proofs_cfg False 1000000000000 s1 os1 = (os2, counts)" by fastforce
  have "(books_step proofs_bucket proofs_cfg {''users''})\<^sup>*\<^sup>* (s1, os1) (s1, os2)"
    using books_step.cleaned [OF cleaned] by blast
  moreover have "declaration_at 300 world = None" "uuid_bits 300" "one_object_per_key []"
    by (simp_all add: declaration_at_def uuid_bits_def one_object_per_key_def)
  ultimately show ?thesis
    using proofs_stay [OF declared, of proofs_cfg "{''users''}" s1 os2] declared cleaned
    by (auto simp: strip_exif_if_jpeg_def proof_presigned_url_def generate_presigned_url_def)
qed

text \<open>
  An admin who empties the key of a payment, or deletes the payment, gives its object to the janitor:
  once old enough it is deleted.
\<close>

definition keyless :: "db \<Rightarrow> db" where
  "keyless s = s\<lparr>t_declarations := map (\<lambda>d. d\<lparr>d_proof_key := None\<rparr>) (t_declarations s)\<rparr>"

lemma keyless_edit: "spares {''payment_declarations''} s (keyless s)"
  by (simp add: spares_def keyless_def)

lemma keyless_proof_deleted:
  assumes "run_proof_janitor jc False now (keyless s) os = (os', out)" "one_object_per_key os"
    and "ob_bucket ob = jc_bucket jc" "ob_last_modified ob + jc_grace_hours jc * us_per_grace_hour \<le> now"
    and "\<not> js_batch_capped out"
  shows "ob \<notin> set os'"
proof -
  obtain os2 out2 where dry: "run_proof_janitor jc True now (keyless s) os = (os2, out2)" by fastforce
  have "\<not> (\<exists>d \<in> set (t_declarations (keyless s)). d_proof_key d = Some (ob_key ob))" by (auto simp: keyless_def)
  with janitor_keeps_proofs [OF assms(1) dry assms(2) [unfolded one_object_per_key_def]] assms(3-5)
  show ?thesis by blast
qed

end
