(* ===== verification/Amounts.thy ===== *)
theory Amounts
  imports Proofs Profiles Outcomes
begin

text \<open>
  The amounts that request bodies admit (\<^verbatim>\<open>schemas/adjustment.py\<close>, \<^verbatim>\<open>schemas/money_previews.py\<close>,
  \<^verbatim>\<open>schemas/blacklist.py\<close>, \<^verbatim>\<open>schemas/profile.py\<close>, beside those of the payments) against the columns
  that store them: \<^verbatim>\<open>Numeric(12, 2)\<close> for a declaration, \<^verbatim>\<open>Numeric(12, 4)\<close> for an event of the ledger.
\<close>

section \<open>Bodies\<close>

definition adjustment_in_valid :: "rat \<Rightarrow> bool" where
  "adjustment_in_valid amount \<longleftrightarrow> amount_valid amount"

definition surprise_preview_valid :: "rat \<Rightarrow> bool" where
  "surprise_preview_valid amount_gbp \<longleftrightarrow> amount_valid amount_gbp \<and> amount_gbp \<le> 100000"

definition surprise_commit_valid :: "rat \<Rightarrow> string \<Rightarrow> bool" where
  "surprise_commit_valid amount_gbp reason \<longleftrightarrow>
     amount_valid amount_gbp \<and> amount_gbp \<le> 100000 \<and> 5 \<le> length reason \<and> length reason \<le> 500"

definition breach_preview_valid :: "string \<Rightarrow> bool" where
  "breach_preview_valid reason \<longleftrightarrow> length reason \<le> 500"

definition forgive_in_valid :: "rat \<Rightarrow> bool" where
  "forgive_in_valid fee \<longleftrightarrow> 0 \<le> fee \<and> places 2 fee \<and> fee < 10 ^ 10"

definition set_fee_in_valid :: "rat \<Rightarrow> bool" where
  "set_fee_in_valid fee \<longleftrightarrow> 0 < fee"

section \<open>Columns\<close>

lemma amount_valid_column: "amount_valid a \<Longrightarrow> numeric_column 2 a = a \<and> \<bar>a\<bar> < 10 ^ 10"
  by (simp add: amount_valid_def)

text \<open>What the column of the ledger takes.\<close>

lemma ledger_column:
  assumes "\<bar>numeric_column 4 x\<bar> < 10 ^ 8"
  shows "x < 10 ^ 8"
proof (rule ccontr)
  assume "\<not> x < 10 ^ 8"
  then have "quantize_up 4 (10 ^ 8) \<le> numeric_column 4 x" by (simp add: numeric_column_def quantize_up_mono)
  moreover have "quantize_up 4 (10 ^ 8) = 10 ^ 8" by (rule quantize_id) (simp add: places_def)
  ultimately show False using assms by simp
qed

lemma posted_below:
  assumes "apply_event_and_recompute ev s = Inr r"
  shows "e_amount ev < 10 ^ 8"
  using assms ledger_column [of "e_amount ev"] by (auto simp: apply_event_and_recompute_def add_event_def res_simps)

lemma settled_below:
  assumes "settle eid now d sid actor s = Inr s'" and "d_category d \<in> insert PC_buyout (set debt_payment_categories)"
  shows "d_amount d < 10 ^ 8"
proof -
  obtain s3 s4 where st: "(if d_category d \<in> set debt_payment_categories then apply_debt_payment eid now d sid s3 else Inr s3) = Inr s4"
      "(if d_category d = PC_buyout then apply_buyout eid now d sid actor s4 else Inr s4) = Inr s'"
    using assms(1) by (rule settle_stages)
  show ?thesis
  proof (cases "d_category d = PC_buyout")
    case True
    then have "apply_buyout eid now d sid actor s4 = Inr s'" using st(2) by simp
    then show ?thesis unfolding apply_buyout_def attempt_eq_Inr by (auto dest: posted_below)
  next
    case False
    then have "apply_debt_payment eid now d sid s3 = Inr s4" using st(1) assms(2) by simp
    then show ?thesis unfolding apply_debt_payment_def attempt_eq_Inr by (auto dest: posted_below)
  qed
qed

text \<open>C33: The amounts of payments and the columns. The body of a declaration admits only amounts that its column stores as
they were sent, and never fails on; but the ledger takes amounts below a hundred million only. So a payment of a
debt or a buyout that was validated, or recorded by the goddess, is below that, however large it could be declared;
the body that commits a surprise penalty admits only amounts that the ledger stores as they were sent. This is said of
these two bodies, and not of every body with an amount: the lemmas \<^verbatim>\<open>tribute_of_nothing\<close> and \<^verbatim>\<open>fee_of_nothing\<close>
below show two that admit what their column rounds to nothing.\<close>

theorem amounts_and_columns:
  "(declare_in_valid p \<longrightarrow> create_declaration (declared_row did now key sid gid p) s =
      Inr (s\<lparr>t_declarations := insert_row (declared_row did now key sid gid p) (t_declarations s)\<rparr>)) \<and>
   (validate eid now u did recat s = Inr (s1, out1) \<longrightarrow> declaration_at did s = Some d \<longrightarrow>
      (case recat of Some c \<Rightarrow> c | None \<Rightarrow> d_category d) \<in> insert PC_buyout (set debt_payment_categories) \<longrightarrow>
      d_amount d < 10 ^ 8) \<and>
   (record_as_goddess did eid now u rp s = Inr (s2, out2) \<longrightarrow>
      di_category rp \<in> insert PC_buyout (set debt_payment_categories) \<longrightarrow> di_amount rp < 10 ^ 8) \<and>
   (surprise_commit_valid a why \<longrightarrow> add_event (new_event eid now cid ty a None note) s =
      Inr (s\<lparr>t_events := t_events s @ [new_event eid now cid ty a None note]\<rparr>))"
proof (intro conjI impI)
  assume "declare_in_valid p"
  then have "stored_declaration (declared_row did now key sid gid p) = declared_row did now key sid gid p"
      "numeric_column 2 (di_amount p) = di_amount p" "\<bar>di_amount p\<bar> < 10 ^ 10"
    using amount_valid_column by (auto simp: declare_in_valid_def stored_declaration_def declared_row_def)
  then show "create_declaration (declared_row did now key sid gid p) s =
      Inr (s\<lparr>t_declarations := insert_row (declared_row did now key sid gid p) (t_declarations s)\<rparr>)"
    by (simp add: create_declaration_def) (simp add: declared_row_def)
next
  assume v: "validate eid now u did recat s = Inr (s1, out1)" "declaration_at did s = Some d"
    "(case recat of Some c \<Rightarrow> c | None \<Rightarrow> d_category d) \<in> insert PC_buyout (set debt_payment_categories)"
  from v(1) show "d_amount d < 10 ^ 8"
  proof (rule validate_cases)
    fix d0 cat sub s2
    assume at: "declaration_at did s = Some d0" "cat = (case recat of Some c \<Rightarrow> c | None \<Rightarrow> d_category d0)"
      and settled: "settle eid now (validated_row (u_id u) now cat d0) (u_id sub) (u_id u)
        (save_declaration did (validated_row (u_id u) now cat) s) = Inr s2"
    have "d0 = d" using at(1) v(2) by simp
    then have "cat \<in> insert PC_buyout (set debt_payment_categories)" using at(2) v(3) by (simp only: \<open>d0 = d\<close>)
    then show ?thesis using settled_below [OF settled] \<open>d0 = d\<close> by simp
  qed
next
  assume "record_as_goddess did eid now u rp s = Inr (s2, out2)"
    and cat: "di_category rp \<in> insert PC_buyout (set debt_payment_categories)"
  then obtain sid gid c s4 where settled: "settle eid now (recorded_row did now (u_id u) sid gid rp) sid (u_id u) c = Inr s4"
    unfolding record_as_goddess_def Let_def by (auto simp: res_simps)
  from settled_below [OF this] cat show "di_amount rp < 10 ^ 8" by simp
next
  assume v: "surprise_commit_valid a why"
  then have "numeric_column 4 a = a" "\<bar>a\<bar> < 10 ^ 8"
    using places_mono [of 2 a 4] by (simp_all add: surprise_commit_valid_def amount_valid_def)
  then show "add_event (new_event eid now cid ty a None note) s =
      Inr (s\<lparr>t_events := t_events s @ [new_event eid now cid ty a None note]\<rparr>)"
    by (simp add: add_event_def period_bound_clash_def stored_event_def new_event_def)
qed

lemma amounts_and_columns_witness:
  "\<exists>s1 out1 out2. validate 400 9 dom_user 300 None (waiting PC_debt_payment (Some 100) signed) = Inr (s1, out1) \<and>
     d_amount (waiting_row PC_debt_payment (Some 100)) < 10 ^ 8 \<and>
     record_as_goddess 300 400 9 dom_user sample_payment signed = Inr (paid, out2) \<and> di_amount sample_payment < 10 ^ 8 \<and>
     add_event (new_event 400 9 100 ET_surprise_penalty 50 None None) signed =
       Inr (signed\<lparr>t_events := t_events signed @ [new_event 400 9 100 ET_surprise_penalty 50 None None]\<rparr>) \<and>
     (\<exists>s2. create_declaration (declared_row 300 5 ''key'' 12 10 (tribute_form\<lparr>di_amount := 30\<rparr>)) world = Inr s2)"
proof -
  let ?s = "waiting PC_debt_payment (Some 100) signed"
  obtain s1 out1 where v: "validate 400 9 dom_user 300 None ?s = Inr (s1, out1)" using payment_sample by blast
  obtain out2 where r: "record_as_goddess 300 400 9 dom_user sample_payment signed = Inr (paid, out2)" using pay_sample by blast
  have debt: "PC_debt_payment \<in> insert PC_buyout (set debt_payment_categories)" by (simp add: debt_payment_categories_def)
  have "declare_in_valid (tribute_form\<lparr>di_amount := 30\<rparr>)"
    by (simp add: declare_in_valid_def amount_valid_def tribute_form_def places_def)
  from amounts_and_columns [THEN conjunct1, rule_format, OF this]
  have create: "\<exists>s2. create_declaration (declared_row 300 5 ''key'' 12 10 (tribute_form\<lparr>di_amount := 30\<rparr>)) world = Inr s2"
    by blast
  have "surprise_commit_valid 50 ''late again''" by (simp add: surprise_commit_valid_def amount_valid_def places_def)
  from amounts_and_columns [THEN conjunct2, THEN conjunct2, THEN conjunct2, rule_format, OF this]
  have post: "add_event (new_event 400 9 100 ET_surprise_penalty 50 None None) signed =
      Inr (signed\<lparr>t_events := t_events signed @ [new_event 400 9 100 ET_surprise_penalty 50 None None]\<rparr>)"
    by simp
  have "d_amount (waiting_row PC_debt_payment (Some 100)) < 10 ^ 8"
    using amounts_and_columns [THEN conjunct2, THEN conjunct1, rule_format, OF v waiting_at] debt by simp
  moreover have "di_amount sample_payment < 10 ^ 8"
    using amounts_and_columns [THEN conjunct2, THEN conjunct2, THEN conjunct1, rule_format, OF r] debt by simp
  ultimately show ?thesis using v r post create by blast
qed

text \<open>A declaration of a hundred million is accepted, and can never be validated as the payment of a debt.\<close>

lemma hundred_million:
  "declare_in_valid (tribute_form\<lparr>di_amount := 100000000, di_category := PC_debt_payment\<rparr>)"
  by (simp add: declare_in_valid_def amount_valid_def tribute_form_def places_def)

text \<open>The other bodies of adjustments admit more than the ledger takes.\<close>

lemma surprise_below:
  assumes "surprise_penalty z now eid u cid a r s = Inr (s', v)"
  shows "a < 10 ^ 8"
  using assms unfolding surprise_penalty_def Let_def by (auto simp: res_simps dest: posted_below simp del: apply_event_eq_Inr)

lemma surprise_too_large:
  "adjustment_in_valid 100000000 \<and> (\<forall>r. surprise_penalty z now eid u cid 100000000 why s \<noteq> Inr r)"
  using surprise_below [of z now eid u cid 100000000 why s] by (auto simp: adjustment_in_valid_def amount_valid_def places_def)

text \<open>Two bodies bound no places: a weekly tribute and a fee of a tenth of a penny are accepted and stored as
nothing.\<close>

lemma stored_as_nothing: "numeric_column 2 (1 / 1000) = 0"
  by (simp add: numeric_column_def quantize_up_def round_half_up_def)

lemma tribute_of_nothing:
  assumes "upsert_rolling rid now sid gid (p\<lparr>rin_amount := 1 / 1000\<rparr>) s = Inr (s', x)"
  shows "r_amount x = 0"
  using assms by (auto simp: upsert_rolling_def res_simps Let_def stored_as_nothing split: option.splits)

lemma fee_of_nothing:
  assumes "set_fee rid u (1 / 1000) s = Inr (s', r)"
  shows "set_fee_in_valid (1 / 1000) \<and> s' = save_change_request rid (fee_request 0) s"
  using assms by (auto simp: set_fee_def res_simps stored_as_nothing set_fee_in_valid_def)

end
