(* ===== verification/AdminRuns.thy ===== *)
theory AdminRuns
  imports DailyRun Storage
begin

text \<open>
  The daily run in the hands of an admin (\<^verbatim>\<open>routers/admin_cron.py\<close>): preview, application and the list of
  runs, each with its record in the audit. A run is applied only by the admin who has previewed it
  just before.
\<close>

section \<open>Requests\<close>

text \<open>Of the errors of a run its row keeps the number.\<close>

record cron_run_out =
  co_run_id :: uuid
  co_started_at :: datetime
  co_finished_at :: "datetime option"
  co_dry_run :: bool
  co_summary :: "(string \<times> int) list"
  co_n_errors :: nat
  co_duration_ms :: "int option"

definition run_to_out :: "cron_run \<Rightarrow> cron_run_out" where
  "run_to_out r =
     \<lparr>co_run_id = cr_id r, co_started_at = cr_started_at r, co_finished_at = cr_finished_at r,
      co_dry_run = cr_dry_run r, co_summary = cr_summary r, co_n_errors = cr_n_errors r, co_duration_ms = cr_duration_ms r\<rparr>"

definition write_audit :: "datetime \<Rightarrow> user \<Rightarrow> string \<Rightarrow> uuid \<Rightarrow> store \<Rightarrow> store" where
  "write_audit now admin kind run_id s = record_action now (u_id admin) kind (Some ''cron_run'') (Some run_id) None s"

text \<open>The row of the run is read again when it is finished (\<^verbatim>\<open>scalar_one\<close>, \<^verbatim>\<open>NoResultFound\<close>).\<close>

definition run_and_audit ::
  "zone \<Rightarrow> (rat \<Rightarrow> rat) \<Rightarrow> cron_draw \<Rightarrow> run_clock \<Rightarrow> uuid \<Rightarrow> bool \<Rightarrow> datetime \<Rightarrow> user \<Rightarrow> store \<Rightarrow> (store \<times> cron_run_out) res" where
  "run_and_audit z aer d clock rid dry_run now admin s =
     (let (c, errs) = run_daily z aer d clock rid dry_run (Some (u_id admin)) (core s)
      in require (get_run rid c) (RuntimeError ''NoResultFound'') (\<lambda>r.
         Inr (write_audit now admin ''cron_run'' rid (s\<lparr>core := c\<rparr>), run_to_out r)))"

definition dry_run_cron ::
  "zone \<Rightarrow> (rat \<Rightarrow> rat) \<Rightarrow> cron_draw \<Rightarrow> run_clock \<Rightarrow> uuid \<Rightarrow> datetime \<Rightarrow> user \<Rightarrow> store \<Rightarrow> (store \<times> cron_run_out) res" where
  "dry_run_cron z aer d clock rid now admin s =
     raise_if (u_role admin \<noteq> R_admin) (Forbidden ''role not permitted'') (
     run_and_audit z aer d clock rid True now admin s)"

text \<open>\<open>t\<close> is the time at which the preview is looked up.\<close>

definition apply_cron ::
  "zone \<Rightarrow> (rat \<Rightarrow> rat) \<Rightarrow> cron_draw \<Rightarrow> run_clock \<Rightarrow> uuid \<Rightarrow> datetime \<Rightarrow> datetime \<Rightarrow> user \<Rightarrow> uuid \<Rightarrow> store \<Rightarrow>
   (store \<times> cron_run_out) res" where
  "apply_cron z aer d clock rid t now admin last_dry_run_id s =
     raise_if (u_role admin \<noteq> R_admin) (Forbidden ''role not permitted'') (
     attempt (validate_apply_preconditions t last_dry_run_id (u_id admin) (core s)) (\<lambda>_.
     run_and_audit z aer d clock rid False now admin s))"

definition list_cron_runs :: "nat \<Rightarrow> user \<Rightarrow> store \<Rightarrow> cron_run_out list res" where
  "list_cron_runs limit admin s =
     raise_if (u_role admin \<noteq> R_admin) (Forbidden ''role not permitted'') (
     raise_if (limit < 1 \<or> 200 < limit) (Validation ''limit'') (
     Inr (map run_to_out (list_recent_runs limit (core s)))))"

section \<open>Records of runs\<close>

lemma run_daily_runs:
  assumes "run_daily z aer d clock rid dry_run by_user s = (s', errs)"
  shows "\<exists>summary. t_cron_runs s' = modify cr_id rid (finished_row (rc_finished clock) summary (length errs))
    (t_cron_runs (create_started rid (rc_started clock) dry_run by_user s))"
proof -
  let ?s1 = "create_started rid (rc_started clock) dry_run by_user s"
  have "t_cron_runs (close_savepoint dry_run ?s1 (daily_savepoint z aer d (rc_now clock) ?s1)) = t_cron_runs ?s1"
    using runs.savepoint by (simp add: close_savepoint_def)
  then show ?thesis using assms by (auto simp: run_daily_def Let_def finish_run_def)
qed

lemma run_daily_get_run:
  assumes "run_daily z aer d clock rid dry_run by_user s = (s', errs)" and "get_run rid s = None"
  shows "\<exists>r. get_run rid s' = Some r \<and> cr_id r = rid \<and> cr_started_at r = rc_started clock \<and>
      cr_finished_at r = Some (rc_finished clock) \<and> cr_dry_run r = dry_run \<and> cr_triggered_by_user_id r = by_user"
    and "k \<noteq> rid \<Longrightarrow> get_run k s' = get_run k s"
  using run_daily_runs [OF assms(1)] assms(2)
  by (auto simp: get_run_def create_started_def fetch_modify insert_row_def fetch_append finished_row_def
      split: option.splits)

lemma run_and_audit_outcome:
  assumes "run_and_audit z aer d clock rid dry_run now admin s = Inr (s', out)" and "get_run rid (core s) = None"
  shows "\<exists>r. get_run rid (core s') = Some r \<and> out = run_to_out r \<and> cr_id r = rid \<and> cr_dry_run r = dry_run \<and>
      cr_triggered_by_user_id r = Some (u_id admin) \<and> cr_started_at r = rc_started clock"
    and "k \<noteq> rid \<Longrightarrow> get_run k (core s') = get_run k (core s)"
    and "s' = write_audit now admin ''cron_run'' rid (s\<lparr>core := core s'\<rparr>)"
proof -
  obtain c errs where run: "run_daily z aer d clock rid dry_run (Some (u_id admin)) (core s) = (c, errs)" by fastforce
  have s': "s' = write_audit now admin ''cron_run'' rid (s\<lparr>core := c\<rparr>)" "core s' = c"
    "\<exists>r. get_run rid c = Some r \<and> out = run_to_out r"
    using assms(1) run by (auto simp: run_and_audit_def res_simps write_audit_def record_action_def)
  show "\<exists>r. get_run rid (core s') = Some r \<and> out = run_to_out r \<and> cr_id r = rid \<and> cr_dry_run r = dry_run \<and>
      cr_triggered_by_user_id r = Some (u_id admin) \<and> cr_started_at r = rc_started clock"
    using run_daily_get_run(1) [OF run assms(2)] s'(2,3) by auto
  show "k \<noteq> rid \<Longrightarrow> get_run k (core s') = get_run k (core s)"
    using run_daily_get_run(2) [OF run assms(2)] s'(2) by simp
  show "s' = write_audit now admin ''cron_run'' rid (s\<lparr>core := core s'\<rparr>)" using s'(1,2) by simp
qed

text \<open>C34: A run is applied only after a look at it. If an admin's request to apply the daily run succeeds, there is a
preview, made by the same admin and begun at most five minutes before; the new run is on record as a real one of that
admin, all older runs are on record as they were, and the audit has one more row, which names admin and run. A preview
is on record in the same way and leaves the books as they are.\<close>

theorem applied_after_preview:
  assumes "get_run rid (core s) = None"
  shows "(apply_cron z aer d clock rid t now admin preview s = Inr (s', out) \<longrightarrow>
     u_role admin = R_admin \<and>
     (\<exists>p. get_run preview (core s) = Some p \<and> cr_dry_run p \<and> cr_triggered_by_user_id p = Some (u_id admin) \<and>
        t \<le> cr_started_at p + 300 * 1000000 \<and> get_run preview (core s') = Some p) \<and>
     (\<exists>r. get_run rid (core s') = Some r \<and> out = run_to_out r \<and> \<not> cr_dry_run r \<and>
        cr_triggered_by_user_id r = Some (u_id admin)) \<and>
     (\<exists>a. t_admin_actions s' = t_admin_actions s @ [a] \<and> aa_admin_id a = u_id admin \<and> aa_entity_id a = Some rid)) \<and>
   (dry_run_cron z aer d clock rid now admin s = Inr (s2, out2) \<longrightarrow>
     u_role admin = R_admin \<and> books (core s2) = books (core s) \<and>
     (\<exists>r. get_run rid (core s2) = Some r \<and> out2 = run_to_out r \<and> cr_dry_run r \<and> cr_started_at r = rc_started clock \<and>
        cr_triggered_by_user_id r = Some (u_id admin)) \<and>
     (\<exists>a. t_admin_actions s2 = t_admin_actions s @ [a] \<and> aa_admin_id a = u_id admin \<and> aa_entity_id a = Some rid))"
proof -
  have audit: "\<exists>a. t_admin_actions s3 = t_admin_actions s @ [a] \<and> aa_admin_id a = u_id admin \<and> aa_entity_id a = Some rid"
    if "s3 = write_audit now admin ''cron_run'' rid (s\<lparr>core := core s3\<rparr>)" for s3
    by (subst that) (simp add: write_audit_def record_action_def)
  have "u_role admin = R_admin \<and>
     (\<exists>p. get_run preview (core s) = Some p \<and> cr_dry_run p \<and> cr_triggered_by_user_id p = Some (u_id admin) \<and>
        t \<le> cr_started_at p + 300 * 1000000 \<and> get_run preview (core s') = Some p) \<and>
     (\<exists>r. get_run rid (core s') = Some r \<and> out = run_to_out r \<and> \<not> cr_dry_run r \<and>
        cr_triggered_by_user_id r = Some (u_id admin)) \<and>
     (\<exists>a. t_admin_actions s' = t_admin_actions s @ [a] \<and> aa_admin_id a = u_id admin \<and> aa_entity_id a = Some rid)"
    if ap: "apply_cron z aer d clock rid t now admin preview s = Inr (s', out)"
  proof -
    obtain p where p: "u_role admin = R_admin" "get_run preview (core s) = Some p" "cr_dry_run p"
      "cr_triggered_by_user_id p = Some (u_id admin)" "t \<le> cr_started_at p + 300 * 1000000"
      and run: "run_and_audit z aer d clock rid False now admin s = Inr (s', out)"
      using ap by (auto simp: apply_cron_def validate_apply_preconditions_def res_simps)
    have "preview \<noteq> rid" using p(2) assms by auto
    with p run_and_audit_outcome [OF run assms] audit [of s'] show ?thesis by auto
  qed
  moreover have "u_role admin = R_admin \<and> books (core s2) = books (core s) \<and>
     (\<exists>r. get_run rid (core s2) = Some r \<and> out2 = run_to_out r \<and> cr_dry_run r \<and> cr_started_at r = rc_started clock \<and>
        cr_triggered_by_user_id r = Some (u_id admin)) \<and>
     (\<exists>a. t_admin_actions s2 = t_admin_actions s @ [a] \<and> aa_admin_id a = u_id admin \<and> aa_entity_id a = Some rid)"
    if dr: "dry_run_cron z aer d clock rid now admin s = Inr (s2, out2)"
  proof -
    have admin: "u_role admin = R_admin" and run: "run_and_audit z aer d clock rid True now admin s = Inr (s2, out2)"
      using dr by (auto simp: dry_run_cron_def res_simps)
    obtain c errs where "run_daily z aer d clock rid True (Some (u_id admin)) (core s) = (c, errs)" by fastforce
    with run have "books (core s2) = books (core s)"
      using run_daily_books by (auto simp: run_and_audit_def res_simps write_audit_def record_action_def)
    with admin run_and_audit_outcome [OF run assms] audit [of s2] show ?thesis by auto
  qed
  ultimately show ?thesis by blast
qed

lemma run_and_audit_returns:
  "get_run rid (core s) = None \<Longrightarrow> \<exists>s' out. run_and_audit z aer d clock rid dry_run now admin s = Inr (s', out)"
proof -
  assume none: "get_run rid (core s) = None"
  obtain c errs where run: "run_daily z aer d clock rid dry_run (Some (u_id admin)) (core s) = (c, errs)" by fastforce
  show ?thesis using run_daily_get_run(1) [OF run none] run by (auto simp: run_and_audit_def)
qed

definition the_admin :: user where
  "the_admin = dom_user\<lparr>u_role := R_admin\<rparr>"

text \<open>A preview of a run in which a flush fails, and its application two seconds later.\<close>

lemma applied_after_preview_witness:
  "\<exists>s1 out1 s2 out2.
     dry_run_cron gmt (\<lambda>r. r) sample_draw sample_clock 500 (days 61) the_admin (empty_store clashing) = Inr (s1, out1) \<and>
     apply_cron gmt (\<lambda>r. r) sample_draw sample_clock 501 (days 61 + 2000000) (days 61) the_admin 500 s1 = Inr (s2, out2) \<and>
     books (core s1) = books clashing \<and> (\<exists>r. get_run 501 (core s2) = Some r \<and> \<not> cr_dry_run r)"
proof -
  have admin: "u_role the_admin = R_admin" "u_id the_admin = 11" by (simp_all add: the_admin_def)
  have none: "get_run 500 (core (empty_store clashing)) = None" "get_run 501 (core (empty_store clashing)) = None"
    by (simp_all add: get_run_def empty_store_def)
  obtain s1 out1 where run1: "run_and_audit gmt (\<lambda>r. r) sample_draw sample_clock 500 True (days 61) the_admin
      (empty_store clashing) = Inr (s1, out1)"
    using run_and_audit_returns [OF none(1)] by blast
  have dry: "dry_run_cron gmt (\<lambda>r. r) sample_draw sample_clock 500 (days 61) the_admin (empty_store clashing) = Inr (s1, out1)"
    using run1 admin by (simp add: dry_run_cron_def)
  note look = applied_after_preview [OF none(1), THEN conjunct2, rule_format, OF dry]
  obtain p where p: "get_run 500 (core s1) = Some p" "cr_dry_run p" "cr_triggered_by_user_id p = Some 11"
    "cr_started_at p = days 61"
    using look admin by (auto simp: sample_clock_def)
  have none1: "get_run 501 (core s1) = None" using run_and_audit_outcome(2) [OF run1 none(1), of 501] none(2) by simp
  obtain s2 out2 where run2: "run_and_audit gmt (\<lambda>r. r) sample_draw sample_clock 501 False (days 61) the_admin s1 = Inr (s2, out2)"
    using run_and_audit_returns [OF none1] by blast
  have ap: "apply_cron gmt (\<lambda>r. r) sample_draw sample_clock 501 (days 61 + 2000000) (days 61) the_admin 500 s1 = Inr (s2, out2)"
    using run2 p admin by (simp add: apply_cron_def validate_apply_preconditions_def)
  show ?thesis
    using dry ap look applied_after_preview [OF none1, THEN conjunct1, rule_format, OF ap] by (auto simp: empty_store_def)
qed

end
