(* ===== verification/Accounts.thy ===== *)
theory Accounts
  imports Browser People
begin

text \<open>
  The pages of an account: the user's own preferences and identity (\<^verbatim>\<open>routers/me_preferences.py\<close>) and a sub's
  page for the goddess (\<^verbatim>\<open>routers/goddess_profile.py\<close>). These routes commit before they look up the label
  of the gender, so their result is the state that is kept and, apart from it, the answer.
\<close>

section \<open>Own pages\<close>

text \<open>The body is one of three words; another value that the row has is shown as \<^verbatim>\<open>system\<close>.\<close>

definition update_preferences :: "string \<Rightarrow> user \<Rightarrow> store \<Rightarrow> (store \<times> string) res" where
  "update_preferences theme user s =
     raise_if (theme \<notin> set [''system'', ''dark'', ''light'']) (Validation ''theme_preference'') (
     Inr (update_theme_preference user theme s, coerce_theme theme))"

definition page_of :: "uuid \<Rightarrow> gender_taxonomy list \<Rightarrow> store \<Rightarrow> user_out res" where
  "page_of uid gs s =
     require (user_by_id uid (core s)) (NotFound ''user not found'') (\<lambda>u.
     attempt (resolve_gender_taxonomy u gs s) (\<lambda>g. Inr (user_out_of u None None g)))"

text \<open>When a request for the change of the name was made, the route returns a dictionary, on which the framework raises
  \<^verbatim>\<open>ResponseValidationError\<close>.\<close>

definition update_profile ::
  "uuid \<Rightarrow> datetime \<Rightarrow> gender_taxonomy list \<Rightarrow> user \<Rightarrow> identity_in \<Rightarrow> store \<Rightarrow> store \<times> user_out res" where
  "update_profile rid now gs user p s =
     (case update_identity rid now user p s of
        Inl e \<Rightarrow> (s, Inl e)
      | Inr (s1, Some change_req) \<Rightarrow> (s1, Inl (RuntimeError ''ResponseValidationError''))
      | Inr (s1, None) \<Rightarrow> (s1, page_of (u_id user) gs s1))"

section \<open>A sub's page\<close>

definition get_sub_by_username :: "user \<Rightarrow> string \<Rightarrow> store \<Rightarrow> user res" where
  "get_sub_by_username owner username s =
     attempt (resolve_goddess_id (u_id owner) (core s)) (\<lambda>gid.
     attempt (user_by_username username (core s)) (\<lambda>r.
     require r (NotFound ''sub not found'') (\<lambda>sub.
     raise_if (u_role sub \<noteq> R_sub) (NotFound ''sub not found'') (
     raise_if (u_goddess_id sub \<noteq> Some gid) (Forbidden ''sub does not belong to this goddess'') (Inr sub)))))"

definition sub_page :: "gender_taxonomy list \<Rightarrow> user \<Rightarrow> string \<Rightarrow> store \<Rightarrow> user_out res" where
  "sub_page gs owner username s =
     attempt (get_sub_by_username owner username s) (\<lambda>sub.
     attempt (resolve_gender_taxonomy sub gs s) (\<lambda>g. Inr (user_out_of sub None None g)))"

definition edit_sub_profile ::
  "gender_taxonomy list \<Rightarrow> user \<Rightarrow> uuid \<Rightarrow> string option \<Rightarrow> string option \<Rightarrow> avatar_key option \<Rightarrow> store \<Rightarrow> store \<times> user_out res" where
  "edit_sub_profile gs owner sid new_first new_last avatar s =
     (case goddess_edit_sub owner sid new_first new_last avatar s of
        Inl e \<Rightarrow> (s, Inl e)
      | Inr s1 \<Rightarrow> (s1, page_of sid gs s1))"

section \<open>Errors after the commit\<close>

text \<open>A user who has a name and sends another one gets an error, yet the request for it is on record and the other
fields are written.\<close>

lemma name_change_answered_by_error:
  assumes "u_real_name user = Some old" "id_real_name p = Some new_name" "old \<noteq> new_name" "id_gender_id p = None"
  shows "update_profile rid now gs user p s =
    ((create_change_request (pending_request rid now (u_id user) (name_request (Some new_name))) s)\<lparr>
       core := update_user (u_id user) (identity_user p False) (core s)\<rparr>, Inl (RuntimeError ''ResponseValidationError''))"
  using assms by (simp add: update_profile_def update_identity_def create_change_request_def Let_def)

text \<open>An edit of a sub without a row in \<^verbatim>\<open>sub_profile\<close> is kept, and the answer says that something was not found.\<close>

lemma edit_kept_without_profile:
  assumes "goddess_edit_sub owner sid f l a s = Inr s1" "profile_of sid s = None"
    and "user_by_id sid (core s1) = Some u" "u_role u = R_sub"
  shows "edit_sub_profile gs owner sid f l a s = (s1, Inl (NotFound ''sub_profile not found for user''))"
proof -
  have "profile_of sid s1 = None" using assms(1,2) by (auto simp: goddess_edit_sub_def res_simps profile_of_def)
  moreover have "u_id u = sid" using assms(3) by (auto simp: user_by_id_def dest: fetch_SomeD)
  ultimately show ?thesis
    using assms by (simp add: edit_sub_profile_def page_of_def resolve_gender_taxonomy_def get_profile_def)
qed

text \<open>What the page shows after an edit is what was written.\<close>

lemma edit_shown:
  assumes "edit_sub_profile gs owner sid (Some f) l a s = (s1, Inr page)"
  shows "u_first_name (uo_user page) = Some f \<and> user_by_id sid (core s1) = Some (uo_user page)"
proof -
  have edit: "goddess_edit_sub owner sid (Some f) l a s = Inr s1" and page: "page_of sid gs s1 = Inr page"
    using assms by (auto simp: edit_sub_profile_def split: sum.splits)
  have "user_by_id sid (core s1) = Some (uo_user page)" using page by (auto simp: page_of_def res_simps user_out_of_def)
  moreover have "u_first_name u = Some f" if "user_by_id sid (core s1) = Some u" for u
    using edit that by (auto simp: goddess_edit_sub_def res_simps user_by_id_def update_user_def fetch_modify)
  ultimately show ?thesis by blast
qed

end
