(* ===== verification/AdminRows.thy ===== *)
theory AdminRows
  imports Administration
begin

text \<open>
  What the area of the administration answers: \<^verbatim>\<open>schemas/admin.py\<close> and the last step of the handlers of
  \<^verbatim>\<open>routers/admin.py\<close>, which validates every row against the schema of its table. The handlers of
  \<open>Administration\<close> are composed with that step. A row that the schema refuses ends the request after the
  commit, so a page that holds such a row can no longer be read.
\<close>

section \<open>Schemas\<close>

text \<open>
  The annotated types. Dates and times of the day are cells of times, numbers with a point and decimals are
  amounts; a column of JSON holds any value, a dictionary in a schema only objects.
\<close>

datatype kind =
  K_uuid | K_text | K_choice "string list" | K_flag | K_amount | K_count | K_when | K_object | K_json

record field =
  fd_kind :: kind
  fd_nullable :: bool
  fd_default :: "cell option" \<comment> \<open>none: the field is required\<close>

type_synonym schema = "(string \<times> field) list"

definition needed :: "string \<Rightarrow> kind \<Rightarrow> string \<times> field" where
  "needed n k = (n, \<lparr>fd_kind = k, fd_nullable = False, fd_default = None\<rparr>)"

definition nullable :: "string \<Rightarrow> kind \<Rightarrow> string \<times> field" where
  "nullable n k = (n, \<lparr>fd_kind = k, fd_nullable = True, fd_default = Some C_none\<rparr>)"

text \<open>The members of the enumerations; those of contracts are the types of the migrations.\<close>

definition user_role_values :: "string list" where
  "user_role_values = [''admin'', ''goddess'', ''sub'']"

definition user_status_values :: "string list" where
  "user_status_values = [''pending_entry_tribute'', ''active'', ''blacklisted'', ''deleted'']"

definition avatar_key_values :: "string list" where
  "avatar_key_values = [''default'', ''pink_1'', ''pink_2'', ''pink_3'', ''pink_4'', ''dark_1'', ''dark_2'',
     ''dark_3'', ''accent_1'', ''accent_2'']"

definition payment_method_type_values :: "string list" where
  "payment_method_type_values = [''throne'', ''paypal'', ''cashapp'', ''venmo'', ''revolut'', ''amazon'',
     ''wishtender'', ''tipfunder'', ''onlyfans'', ''loyalfans'', ''premium_chat'', ''sentbio'', ''sumeria'', ''btc'',
     ''eth'', ''bank'', ''other'']"

definition declaration_source_values :: "string list" where
  "declaration_source_values = [''sub_declared'', ''goddess_recorded'', ''ingested'']"

definition payment_category_values :: "string list" where
  "payment_category_values = [''entry'', ''rolling'', ''weekly_debt'', ''debt_payment'', ''buyout'', ''tribute'',
     ''profile_change_fee'', ''wishlist'']"

definition payment_status_values :: "string list" where
  "payment_status_values = [''pending'', ''validated'', ''rejected'', ''cancelled'']"

definition deadline_day_values :: "string list" where
  "deadline_day_values = [''mon'', ''tue'', ''wed'', ''thu'', ''fri'', ''sat'', ''sun'']"

definition notification_type_values :: "string list" where
  "notification_type_values = [''invitation_claimed'', ''payment_pending'', ''payment_validated'',
     ''payment_rejected'', ''rolling_reminder'', ''rolling_late'', ''contract_proposed'', ''contract_countered'',
     ''contract_counter_accepted'', ''contract_counter_rejected'', ''contract_signed'',
     ''contract_needs_resignature'', ''contract_period_interest'', ''contract_late_penalty'',
     ''contract_surprise_penalty'', ''contract_adjustment_proposed'', ''contract_adjustment_accepted'',
     ''contract_adjustment_refused'', ''contract_buyout_requested'', ''contract_buyout_paid'', ''contract_breached'',
     ''contract_forgiven'', ''journal_comment'', ''wishlist_fulfilled'', ''sub_panic'', ''review_reminder'',
     ''contract_renewed'', ''goddess_message'']"

definition event_type_values :: "string list" where
  "event_type_values = [''period_interest'', ''late_penalty'', ''payment_applied'', ''adjustment'',
     ''surprise_penalty'', ''buyout_paid'']"

definition adjustment_status_values :: "string list" where
  "adjustment_status_values = [''applied'', ''pending_sub_approval'', ''accepted'', ''refused'']"

definition interest_period_values :: "string list" where
  "interest_period_values = [''monthly'', ''yearly'']"

definition payment_frequency_values :: "string list" where
  "payment_frequency_values = [''weekly'', ''biweekly'', ''monthly'']"

definition late_penalty_severity_values :: "string list" where
  "late_penalty_severity_values = [''light'', ''medium'', ''severe'']"

definition mid_contract_addition_mode_values :: "string list" where
  "mid_contract_addition_mode_values = [''disabled'', ''dom_controlled'', ''sub_approval_required'']"

definition debt_contract_status_values :: "string list" where
  "debt_contract_status_values = [''pending_sub'', ''pending_dom'', ''pending_dom_counter'',
     ''pending_sub_signature'', ''active'', ''closed'', ''breached'', ''completed'', ''cancelled_by_dom'']"

text \<open>The schemas of the rows.\<close>

definition users_fields :: schema where
  "users_fields = [needed ''id'' K_uuid, nullable ''goddess_id'' K_uuid, needed ''username'' K_text,
     needed ''email'' K_text, needed ''password_hash'' K_text, needed ''role'' (K_choice user_role_values),
     needed ''status'' (K_choice user_status_values), nullable ''first_name'' K_text, nullable ''last_name'' K_text,
     nullable ''twitter_handle'' K_text, nullable ''source_note'' K_text,
     (''avatar_key'', \<lparr>fd_kind = (K_choice avatar_key_values), fd_nullable = False, fd_default = Some (C_str ''default'')\<rparr>),
     nullable ''bio'' K_text, needed ''theme_preference'' K_text, nullable ''last_login_at'' K_when,
     needed ''created_at'' K_when]"

definition goddesses_fields :: schema where
  "goddesses_fields = [needed ''id'' K_uuid, needed ''display_name'' K_text, needed ''email'' K_text,
     needed ''password_hash'' K_text, needed ''created_at'' K_when]"

definition invitations_fields :: schema where
  "invitations_fields = [needed ''id'' K_uuid, needed ''token'' K_text, needed ''goddess_id'' K_uuid,
     needed ''entry_tribute_amount'' K_amount, nullable ''note'' K_text, needed ''expires_at'' K_when,
     nullable ''used_at'' K_when, nullable ''used_by_user_id'' K_uuid, needed ''created_at'' K_when]"

definition payment_methods_fields :: schema where
  "payment_methods_fields = [needed ''id'' K_uuid, needed ''goddess_id'' K_uuid, needed ''name'' K_text,
     needed ''type'' (K_choice payment_method_type_values), needed ''handle_or_link'' K_text,
     nullable ''note'' K_text, needed ''enabled'' K_flag, needed ''sort_order'' K_count,
     needed ''created_at'' K_when, needed ''updated_at'' K_when]"

definition payment_declarations_fields :: schema where
  "payment_declarations_fields = [needed ''id'' K_uuid, needed ''sub_id'' K_uuid, needed ''goddess_id'' K_uuid,
     needed ''method_id'' K_uuid, needed ''amount'' K_amount, nullable ''external_timestamp'' K_when,
     nullable ''note'' K_text, needed ''category'' (K_choice payment_category_values),
     needed ''status'' (K_choice payment_status_values), nullable ''target_id'' K_uuid, needed ''created_by'' K_uuid,
     needed ''declared_at'' K_when, nullable ''validated_at'' K_when, nullable ''validated_by'' K_uuid,
     nullable ''rejection_reason'' K_text, needed ''source'' (K_choice declaration_source_values)]"

definition rolling_tributes_fields :: schema where
  "rolling_tributes_fields = [needed ''id'' K_uuid, needed ''sub_id'' K_uuid, needed ''goddess_id'' K_uuid,
     needed ''amount'' K_amount, needed ''deadline_day'' (K_choice deadline_day_values),
     needed ''deadline_time'' K_when, needed ''late_multiplier_per_day'' K_count, needed ''paused'' K_flag,
     nullable ''notes'' K_text, nullable ''last_paid_at'' K_when, needed ''created_at'' K_when,
     needed ''updated_at'' K_when]"

definition debt_contracts_fields :: schema where
  "debt_contracts_fields = [needed ''id'' K_uuid, needed ''sub_id'' K_uuid, needed ''goddess_id'' K_uuid,
     needed ''sub_initiated'' K_flag, needed ''principal'' K_amount, needed ''interest_rate'' K_amount,
     needed ''interest_period'' (K_choice interest_period_values), needed ''duration_periods'' K_count,
     needed ''payment_frequency'' (K_choice payment_frequency_values), needed ''minimum_payment'' K_amount,
     needed ''late_penalty_severity'' (K_choice late_penalty_severity_values),
     needed ''late_penalty_percent'' K_amount, needed ''dom_can_add_surprise_penalty'' K_flag,
     needed ''mid_contract_addition_mode'' (K_choice mid_contract_addition_mode_values),
     needed ''exit_amount'' K_amount, needed ''status'' (K_choice debt_contract_status_values),
     nullable ''current_version_id'' K_uuid, nullable ''signed_at'' K_when, needed ''balance'' K_amount,
     needed ''created_at'' K_when, needed ''updated_at'' K_when]"

definition blacklist_entries_fields :: schema where
  "blacklist_entries_fields = [needed ''id'' K_uuid, needed ''goddess_id'' K_uuid, needed ''sub_id'' K_uuid,
     nullable ''reason'' K_text, needed ''balance_snapshot'' K_amount, nullable ''reinstatement_fee_paid'' K_amount,
     needed ''breached_at'' K_when, nullable ''forgiven_at'' K_when, needed ''created_at'' K_when]"

definition notifications_fields :: schema where
  "notifications_fields = [needed ''id'' K_uuid, needed ''user_id'' K_uuid,
     needed ''type'' (K_choice notification_type_values), needed ''title'' K_text, nullable ''body'' K_text,
     nullable ''link'' K_text, nullable ''payload'' K_object, nullable ''read_at'' K_when,
     needed ''created_at'' K_when]"

definition debt_events_fields :: schema where
  "debt_events_fields = [needed ''id'' K_uuid, needed ''contract_id'' K_uuid,
     needed ''event_type'' (K_choice event_type_values), needed ''amount'' K_amount,
     nullable ''period_index'' K_count, nullable ''note'' K_text, needed ''created_at'' K_when]"

definition contract_adjustments_fields :: schema where
  "contract_adjustments_fields = [needed ''id'' K_uuid, needed ''contract_id'' K_uuid, needed ''proposed_by'' K_uuid,
     needed ''amount'' K_amount, nullable ''reason'' K_text, needed ''status'' (K_choice adjustment_status_values),
     needed ''created_at'' K_when, needed ''updated_at'' K_when, nullable ''resolved_at'' K_when]"

definition admin_actions_fields :: schema where
  "admin_actions_fields = [needed ''id'' K_uuid, needed ''admin_id'' K_uuid, nullable ''acting_as_user_id'' K_uuid,
     needed ''action'' K_text, nullable ''entity'' K_text, nullable ''entity_id'' K_uuid,
     nullable ''payload_json'' K_object, needed ''created_at'' K_when]"

section \<open>Columns\<close>

text \<open>The types of the columns, those of contracts from the migrations.\<close>

definition users_types :: "(string \<times> kind) list" where
  "users_types = [(''id'', K_uuid), (''goddess_id'', K_uuid), (''username'', K_text), (''email'', K_text),
     (''password_hash'', K_text), (''role'', (K_choice user_role_values)),
     (''status'', (K_choice user_status_values)), (''first_name'', K_text), (''last_name'', K_text),
     (''twitter_handle'', K_text), (''source_note'', K_text), (''avatar_key'', (K_choice avatar_key_values)),
     (''payment_handle'', K_text), (''bio'', K_text), (''theme_preference'', K_text), (''last_login_at'', K_when),
     (''gender'', K_text), (''pronouns'', K_text), (''location'', K_text), (''timezone'', K_text),
     (''date_of_birth'', K_when), (''real_name'', K_text), (''created_at'', K_when)]"

definition goddesses_types :: "(string \<times> kind) list" where
  "goddesses_types = [(''id'', K_uuid), (''display_name'', K_text), (''email'', K_text), (''password_hash'', K_text),
     (''created_at'', K_when)]"

definition invitations_types :: "(string \<times> kind) list" where
  "invitations_types = [(''id'', K_uuid), (''token'', K_text), (''goddess_id'', K_uuid),
     (''entry_tribute_amount'', K_amount), (''note'', K_text), (''expires_at'', K_when), (''used_at'', K_when),
     (''used_by_user_id'', K_uuid), (''created_at'', K_when)]"

definition payment_methods_types :: "(string \<times> kind) list" where
  "payment_methods_types = [(''id'', K_uuid), (''goddess_id'', K_uuid), (''name'', K_text),
     (''type'', (K_choice payment_method_type_values)), (''handle_or_link'', K_text), (''note'', K_text),
     (''enabled'', K_flag), (''sort_order'', K_count), (''created_at'', K_when), (''updated_at'', K_when)]"

definition payment_declarations_types :: "(string \<times> kind) list" where
  "payment_declarations_types = [(''id'', K_uuid), (''sub_id'', K_uuid), (''goddess_id'', K_uuid),
     (''method_id'', K_uuid), (''amount'', K_amount), (''external_timestamp'', K_when), (''note'', K_text),
     (''category'', (K_choice payment_category_values)), (''status'', (K_choice payment_status_values)),
     (''target_id'', K_uuid), (''created_by'', K_uuid), (''declared_at'', K_when), (''validated_at'', K_when),
     (''validated_by'', K_uuid), (''rejection_reason'', K_text), (''source'', (K_choice declaration_source_values)),
     (''proof_key'', K_text)]"

definition rolling_tributes_types :: "(string \<times> kind) list" where
  "rolling_tributes_types = [(''id'', K_uuid), (''sub_id'', K_uuid), (''goddess_id'', K_uuid),
     (''amount'', K_amount), (''deadline_day'', (K_choice deadline_day_values)), (''deadline_time'', K_when),
     (''late_multiplier_per_day'', K_count), (''paused'', K_flag), (''notes'', K_text), (''last_paid_at'', K_when),
     (''created_at'', K_when), (''updated_at'', K_when)]"

definition debt_contracts_types :: "(string \<times> kind) list" where
  "debt_contracts_types = [(''id'', K_uuid), (''sub_id'', K_uuid), (''goddess_id'', K_uuid),
     (''sub_initiated'', K_flag), (''principal'', K_amount), (''interest_rate'', K_amount),
     (''interest_period'', (K_choice interest_period_values)), (''duration_periods'', K_count),
     (''payment_frequency'', (K_choice payment_frequency_values)), (''minimum_payment'', K_amount),
     (''late_penalty_severity'', (K_choice late_penalty_severity_values)), (''late_penalty_percent'', K_amount),
     (''dom_can_add_surprise_penalty'', K_flag),
     (''mid_contract_addition_mode'', (K_choice mid_contract_addition_mode_values)), (''exit_amount'', K_amount),
     (''status'', (K_choice debt_contract_status_values)), (''current_version_id'', K_uuid), (''signed_at'', K_when),
     (''balance'', K_amount), (''created_at'', K_when), (''updated_at'', K_when), (''signature_b64'', K_text),
     (''clauses_json'', K_json), (''review_at'', K_when), (''renewal_policy'', K_text), (''slug'', K_text)]"

definition blacklist_entries_types :: "(string \<times> kind) list" where
  "blacklist_entries_types = [(''id'', K_uuid), (''goddess_id'', K_uuid), (''sub_id'', K_uuid), (''reason'', K_text),
     (''balance_snapshot'', K_amount), (''reinstatement_fee_paid'', K_amount), (''breached_at'', K_when),
     (''forgiven_at'', K_when), (''created_at'', K_when)]"

definition notifications_types :: "(string \<times> kind) list" where
  "notifications_types = [(''id'', K_uuid), (''user_id'', K_uuid), (''actor_user_id'', K_uuid),
     (''type'', (K_choice notification_type_values)), (''title'', K_text), (''body'', K_text), (''link'', K_text),
     (''payload'', K_json), (''read_at'', K_when), (''created_at'', K_when)]"

definition debt_events_types :: "(string \<times> kind) list" where
  "debt_events_types = [(''id'', K_uuid), (''contract_id'', K_uuid), (''event_type'', (K_choice event_type_values)),
     (''amount'', K_amount), (''period_index'', K_count), (''note'', K_text), (''created_at'', K_when)]"

definition contract_adjustments_types :: "(string \<times> kind) list" where
  "contract_adjustments_types = [(''id'', K_uuid), (''contract_id'', K_uuid), (''proposed_by'', K_uuid),
     (''kind'', K_text), (''amount'', K_amount), (''reason'', K_text),
     (''status'', (K_choice adjustment_status_values)), (''created_at'', K_when), (''updated_at'', K_when),
     (''resolved_at'', K_when)]"

definition admin_actions_types :: "(string \<times> kind) list" where
  "admin_actions_types = [(''id'', K_uuid), (''admin_id'', K_uuid), (''acting_as_user_id'', K_uuid),
     (''action'', K_text), (''entity'', K_text), (''entity_id'', K_uuid), (''payload_json'', K_json),
     (''created_at'', K_when)]"

text \<open>The audit is a table like the others, which is only read.\<close>

definition admin_actions_model :: model where
  "admin_actions_model = \<lparr>cr_entity = ''admin_actions'',
     cr_columns = [id_col, ref ''admin_id'', opt_ref ''acting_as_user_id'', req ''action'', opt ''entity'', opt_ref ''entity_id'',
       opt ''payload_json'', stamp ''created_at''],
     cr_searchable = [''action'', ''entity''], cr_forbidden = []\<rparr>"

definition action_row :: "uuid \<Rightarrow> admin_action \<Rightarrow> row" where
  "action_row k a =
     [(''id'', C_uuid k), (''admin_id'', C_uuid (aa_admin_id a)),
      (''acting_as_user_id'', case aa_acting_as_user_id a of None \<Rightarrow> C_none | Some u \<Rightarrow> C_uuid u),
      (''action'', C_str (aa_action a)), (''entity'', case aa_entity a of None \<Rightarrow> C_none | Some e \<Rightarrow> C_str e),
      (''entity_id'', case aa_entity_id a of None \<Rightarrow> C_none | Some e \<Rightarrow> C_uuid e),
      (''payload_json'', case aa_payload a of None \<Rightarrow> C_none | Some p \<Rightarrow> json_cell p),
      (''created_at'', C_time (aa_created_at a))]"

text \<open>The registrations: the schema of each table, and beside it the types of its columns.\<close>

definition row_schemas :: "(string \<times> schema) list" where
  "row_schemas =
     [(''users'', users_fields), (''goddesses'', goddesses_fields), (''invitations'', invitations_fields),
      (''payment_methods'', payment_methods_fields), (''payment_declarations'', payment_declarations_fields),
      (''rolling_tributes'', rolling_tributes_fields), (''debt_contracts'', debt_contracts_fields),
      (''blacklist_entries'', blacklist_entries_fields), (''notifications'', notifications_fields),
      (''debt_events'', debt_events_fields), (''contract_adjustments'', contract_adjustments_fields),
      (''admin_actions'', admin_actions_fields)]"

definition row_types :: "(string \<times> (string \<times> kind) list) list" where
  "row_types =
     [(''users'', users_types), (''goddesses'', goddesses_types), (''invitations'', invitations_types),
      (''payment_methods'', payment_methods_types), (''payment_declarations'', payment_declarations_types),
      (''rolling_tributes'', rolling_tributes_types), (''debt_contracts'', debt_contracts_types),
      (''blacklist_entries'', blacklist_entries_types), (''notifications'', notifications_types),
      (''debt_events'', debt_events_types), (''contract_adjustments'', contract_adjustments_types),
      (''admin_actions'', admin_actions_types)]"

definition schema_of :: "model \<Rightarrow> schema" where
  "schema_of m = (case map_of row_schemas (cr_entity m) of None \<Rightarrow> [] | Some sch \<Rightarrow> sch)"

definition types_of :: "model \<Rightarrow> (string \<times> kind) list" where
  "types_of m = (case map_of row_types (cr_entity m) of None \<Rightarrow> [] | Some ts \<Rightarrow> ts)"

section \<open>Validation\<close>

text \<open>
  Identifiers and times of a row are turned into text first and are read back from it, which changes
  neither. What \<^verbatim>\<open>pydantic\<close> would make of a cell of another type is not needed: rows come from the database.
\<close>

definition fits :: "kind \<Rightarrow> cell \<Rightarrow> bool" where
  "fits k v \<longleftrightarrow>
     (case (k, v) of
        (K_uuid, C_uuid _) \<Rightarrow> True
      | (K_text, C_str _) \<Rightarrow> True
      | (K_choice vs, C_str x) \<Rightarrow> x \<in> set vs
      | (K_flag, C_bool _) \<Rightarrow> True
      | (K_amount, C_num _) \<Rightarrow> True
      | (K_count, C_num q) \<Rightarrow> of_int \<lfloor>q\<rfloor> = q
      | (K_when, C_time _) \<Rightarrow> True
      | (K_object, C_doc (J_obj _)) \<Rightarrow> True
      | (K_json, _) \<Rightarrow> v \<noteq> C_none
      | _ \<Rightarrow> False)"

definition validate_field :: "row \<Rightarrow> string \<times> field \<Rightarrow> (string \<times> cell) res" where
  "validate_field r nf =
     (let (n, f) = nf in
      case map_of r n of
        None \<Rightarrow> (case fd_default f of None \<Rightarrow> Inl (ValueError ''Field required'') | Some v \<Rightarrow> Inr (n, v))
      | Some v \<Rightarrow>
          raise_if (\<not> (if v = C_none then fd_nullable f else fits (fd_kind f) v)) (ValueError ''Input should be valid'')
            (Inr (n, v)))"

fun validate_fields :: "row \<Rightarrow> schema \<Rightarrow> row res" where
  "validate_fields r [] = Inr []"
| "validate_fields r (nf # sch) =
     attempt (validate_field r nf) (\<lambda>x. attempt (validate_fields r sch) (\<lambda>xs. Inr (x # xs)))"

definition model_validate :: "model \<Rightarrow> row \<Rightarrow> row res" where
  "model_validate m r = validate_fields r (schema_of m)"

fun model_validate_all :: "model \<Rightarrow> row list \<Rightarrow> row list res" where
  "model_validate_all m [] = Inr []"
| "model_validate_all m (r # rs) =
     attempt (model_validate m r) (\<lambda>x. attempt (model_validate_all m rs) (\<lambda>xs. Inr (x # xs)))"

section \<open>The handlers with their answers\<close>

record admin_list_out =
  lo_items :: "row list"
  lo_total :: nat
  lo_page :: nat
  lo_page_size :: nat

definition list_answer :: "model \<Rightarrow> string option \<Rightarrow> nat \<Rightarrow> nat \<Rightarrow> admin_db \<Rightarrow> admin_list_out res" where
  "list_answer m q page page_size s =
     (let (rows, total) = list_items m q page page_size s in
      attempt (model_validate_all m rows) (\<lambda>items.
      Inr \<lparr>lo_items = items, lo_total = total, lo_page = page, lo_page_size = page_size\<rparr>))"

definition get_answer :: "model \<Rightarrow> uuid \<Rightarrow> admin_db \<Rightarrow> row res" where
  "get_answer m k s = attempt (get_item m k s) (model_validate m)"

text \<open>A change is committed before its answer is made.\<close>

definition update_answer ::
  "admin_config \<Rightarrow> datetime \<Rightarrow> user \<Rightarrow> model \<Rightarrow> uuid \<Rightarrow> (string \<times> json) list \<Rightarrow> admin_db \<Rightarrow> admin_db \<times> row res" where
  "update_answer cfg now admin m k patch s =
     (case update_item cfg now admin m k patch s of Inl e \<Rightarrow> (s, Inl e) | Inr (s', r) \<Rightarrow> (s', model_validate m r))"

definition create_answer ::
  "admin_config \<Rightarrow> datetime \<Rightarrow> user \<Rightarrow> model \<Rightarrow> uuid \<Rightarrow> (string \<times> json) list \<Rightarrow> admin_db \<Rightarrow> admin_db \<times> row res" where
  "create_answer cfg now admin m k body s =
     (case create_item cfg now admin m k body s of Inl e \<Rightarrow> (s, Inl e) | Inr (s', r) \<Rightarrow> (s', model_validate m r))"

definition action_answer :: "uuid \<Rightarrow> admin_action \<Rightarrow> row res" where
  "action_answer k a = model_validate admin_actions_model (action_row k a)"

section \<open>Which rows are answered\<close>

definition holds_types :: "model \<Rightarrow> row \<Rightarrow> bool" where
  "holds_types m r \<longleftrightarrow> list_all (\<lambda>(n, k). cell_of r n = C_none \<or> fits k (cell_of r n)) (types_of m)"

definition document_ok :: "cell \<Rightarrow> bool" where
  "document_ok v \<longleftrightarrow> v = C_none \<or> fits K_object v"

definition payload_ok :: "model \<Rightarrow> row \<Rightarrow> bool" where
  "payload_ok m r \<longleftrightarrow> list_all (\<lambda>(n, f). fd_kind f = K_object \<longrightarrow> document_ok (cell_of r n)) (schema_of m)"

text \<open>A schema suits its table: its fields are columns of the same type, null where the columns may be null.\<close>

definition suits :: "model \<Rightarrow> bool" where
  "suits m \<longleftrightarrow> list_all (\<lambda>(n, f).
     (case map_of (cr_columns m) n of None \<Rightarrow> False | Some c \<Rightarrow> fd_nullable f = co_nullable c) \<and>
     (case map_of (types_of m) n of None \<Rightarrow> False | Some k \<Rightarrow> k = (if fd_kind f = K_object then K_json else fd_kind f)) \<and>
     (fd_kind f = K_object \<longrightarrow> fd_nullable f)) (schema_of m)"

lemma schemas_suit: "m \<in> set (admin_actions_model # crud_models) \<Longrightarrow> suits m"
proof -
  have "list_all suits (admin_actions_model # crud_models)" by code_simp
  then show "m \<in> set (admin_actions_model # crud_models) \<Longrightarrow> suits m" by (simp only: list_all_iff)
qed

definition shown :: "model \<Rightarrow> row \<Rightarrow> row" where
  "shown m r = map (\<lambda>(n, f). (n, cell_of r n)) (schema_of m)"

abbreviation refused :: app_error where
  "refused \<equiv> ValueError ''Input should be valid''"

lemma fits_none [simp]: "\<not> fits k C_none"
  by (cases k) (simp_all add: fits_def)

lemma fits_object: "fits K_json v \<longleftrightarrow> v \<noteq> C_none"
  by (simp add: fits_def)

text \<open>One field of a row of the database: only a document can be refused.\<close>

lemma validate_field_stored:
  assumes "suits m" "row_typed m r" "holds_types m r" and f: "(n, f) \<in> set (schema_of m)"
  shows "validate_field r (n, f) =
    (if fd_kind f = K_object \<longrightarrow> document_ok (cell_of r n) then Inr (n, cell_of r n) else Inl refused)"
proof -
  from assms(1) f obtain c k where c: "map_of (cr_columns m) n = Some c" "fd_nullable f = co_nullable c"
    and k: "map_of (types_of m) n = Some k" "k = (if fd_kind f = K_object then K_json else fd_kind f)"
    and null: "fd_kind f = K_object \<longrightarrow> fd_nullable f"
    using bspec [OF assms(1) [unfolded suits_def list_all_iff] f]
    by (cases "map_of (cr_columns m) n"; cases "map_of (types_of m) n") simp_all
  have "n \<in> fst ` set (cr_columns m)" using c(1) by (force dest: map_of_SomeD)
  then have "n \<in> fst ` set r" using assms(2) by (metis row_typed_def list.set_map)
  then obtain v where v: "map_of r n = Some v" by (cases "map_of r n") (auto simp: map_of_eq_None_iff)
  then have cell: "cell_of r n = v" by (simp add: cell_of_def)
  have "co_nullable c \<or> v \<noteq> C_none"
    using assms(2) map_of_SomeD [OF c(1)] cell by (auto simp: row_typed_def list_all_iff)
  moreover have "v = C_none \<or> fits k v"
    using assms(3) map_of_SomeD [OF k(1)] cell by (auto simp: holds_types_def list_all_iff)
  ultimately show ?thesis
    using v cell c(2) k(2) null
    by (cases "fd_kind f = K_object") (auto simp: validate_field_def raise_if_def document_ok_def)
qed

lemma validate_fields_stored:
  assumes "suits m" "row_typed m r" "holds_types m r" and "set sch \<subseteq> set (schema_of m)"
  shows "validate_fields r sch =
    (if list_all (\<lambda>(n, f). fd_kind f = K_object \<longrightarrow> document_ok (cell_of r n)) sch
     then Inr (map (\<lambda>(n, f). (n, cell_of r n)) sch) else Inl refused)"
  using assms(4)
proof (induction sch)
  case (Cons nf sch)
  then show ?case using validate_field_stored [OF assms(1-3), of "fst nf" "snd nf"] by (cases nf) simp
qed simp

lemma model_validate_stored:
  assumes "m \<in> set (admin_actions_model # crud_models)" "row_typed m r" "holds_types m r"
  shows "model_validate m r = (if payload_ok m r then Inr (shown m r) else Inl refused)"
  using validate_fields_stored [OF schemas_suit [OF assms(1)] assms(2,3), of "schema_of m"]
  by (simp add: model_validate_def payload_ok_def shown_def)

lemma model_validate_all_stored:
  assumes "m \<in> set (admin_actions_model # crud_models)" "list_all (\<lambda>r. row_typed m r \<and> holds_types m r) rs"
  shows "model_validate_all m rs = (if list_all (payload_ok m) rs then Inr (map (shown m) rs) else Inl refused)"
  using assms(2) by (induction rs) (simp_all add: model_validate_stored [OF assms(1)])

lemma payload_of_notifications:
  assumes "m \<in> set crud_models"
  shows "payload_ok m r \<longleftrightarrow> (cr_entity m = ''notifications'' \<longrightarrow> document_ok (cell_of r ''payload''))"
proof -
  have "list_all (\<lambda>m. map fst (filter (\<lambda>(n, f). fd_kind f = K_object) (schema_of m)) =
      (if cr_entity m = ''notifications'' then [''payload''] else [])) crud_models" by code_simp
  then have "map fst (filter (\<lambda>(n, f). fd_kind f = K_object) (schema_of m)) =
      (if cr_entity m = ''notifications'' then [''payload''] else [])"
    using assms by (simp only: list_all_iff)
  moreover have "payload_ok m r \<longleftrightarrow> list_all (\<lambda>n. document_ok (cell_of r n)) (map fst (filter (\<lambda>(n, f). fd_kind f = K_object) (schema_of m)))"
    by (auto simp: payload_ok_def list_all_iff)
  ultimately show ?thesis by simp
qed

lemma page_rows: "set (fst (list_items m q page page_size s)) \<subseteq> set (ad_rows s (cr_entity m))"
  by (auto simp: list_items_def Let_def one_page_def search_rows_def dest!: in_set_takeD in_set_dropD split: option.splits if_splits)

definition types_kept :: "admin_db \<Rightarrow> bool" where
  "types_kept s \<longleftrightarrow> list_all (\<lambda>m. list_all (holds_types m) (ad_rows s (cr_entity m))) crud_models"

lemma list_answer_stored:
  assumes "m \<in> set crud_models" and "admin_db_typed s" and "types_kept s"
    and "list_items m q page page_size s = (rows, found)"
  shows "list_answer m q page page_size s =
    (if list_all (payload_ok m) rows
     then Inr \<lparr>lo_items = map (shown m) rows, lo_total = found, lo_page = page, lo_page_size = page_size\<rparr>
     else Inl refused)"
proof -
  have "set rows \<subseteq> set (ad_rows s (cr_entity m))" using page_rows [of m q page page_size s] assms(4) by simp
  then have "list_all (\<lambda>r. row_typed m r \<and> holds_types m r) rows"
    using typed_table [OF assms(2,1)] assms(1,3) by (auto simp: table_typed_def types_kept_def list_all_iff)
  with assms(1) have "model_validate_all m rows = (if list_all (payload_ok m) rows then Inr (map (shown m) rows) else Inl refused)"
    by (intro model_validate_all_stored) simp_all
  then show ?thesis by (simp add: list_answer_def assms(4))
qed

text \<open>C28: What a page of the administration shows. In a database whose rows have the columns and types of their tables a page
answers every row that was found, with the fields of the schema and their stored values, or it fails: just when it
holds a notification whose payload is a document that is no object. For the other tables it never fails.\<close>

theorem pages_answered:
  assumes "m \<in> set crud_models" and "admin_db_typed s" and "types_kept s"
    and "list_items m q page page_size s = (rows, found)"
  shows "list_answer m q page page_size s =
    (if cr_entity m = ''notifications'' \<longrightarrow> list_all (\<lambda>r. document_ok (cell_of r ''payload'')) rows
     then Inr \<lparr>lo_items = map (shown m) rows, lo_total = found, lo_page = page, lo_page_size = page_size\<rparr>
     else Inl (ValueError ''Input should be valid''))"
proof -
  have "list_all (payload_ok m) rows \<longleftrightarrow>
      (cr_entity m = ''notifications'' \<longrightarrow> list_all (\<lambda>r. document_ok (cell_of r ''payload'')) rows)"
    using payload_of_notifications [OF assms(1)] by (auto simp: list_all_iff)
  then show ?thesis using list_answer_stored [OF assms] by simp
qed

text \<open>What the answers leave out, and the hash they show.\<close>

lemma columns_not_shown:
  "map (\<lambda>m. (cr_entity m, filter (\<lambda>n. n \<notin> fst ` set (schema_of m)) (map fst (cr_columns m)))) crud_models =
    [(''users'', [''payment_handle'', ''gender'', ''pronouns'', ''location'', ''timezone'', ''date_of_birth'', ''real_name'']),
     (''goddesses'', []), (''invitations'', []), (''payment_methods'', []), (''payment_declarations'', [''proof_key'']),
     (''rolling_tributes'', []),
     (''debt_contracts'', [''signature_b64'', ''clauses_json'', ''review_at'', ''renewal_policy'', ''slug'']),
     (''blacklist_entries'', []), (''notifications'', [''actor_user_id'']), (''debt_events'', []),
     (''contract_adjustments'', [''kind''])]"
  by code_simp

lemma password_hash_shown: "list_all (\<lambda>m. ''password_hash'' \<in> fst ` set (schema_of m)) [users_model, goddesses_model]"
  by code_simp

text \<open>The rows the administration itself writes to the audit are always answered.\<close>

lemma own_actions_answered:
  "\<exists>out. action_answer k \<lparr>aa_admin_id = a, aa_acting_as_user_id = None, aa_action = x, aa_entity = Some e, aa_entity_id = Some i,
     aa_payload = map_option J_obj p, aa_created_at = t\<rparr> = Inr out"
  by (cases p) (simp_all add: action_answer_def model_validate_def schema_of_def admin_actions_model_def row_schemas_def
      admin_actions_fields_def action_row_def needed_def nullable_def validate_field_def fits_def raise_if_def)

section \<open>A payload that is a list\<close>

text \<open>
  A patch of a notification may set the payload to a list; the column takes it. The change is committed,
  its answer fails, and so does every later page with the row.
\<close>

lemma list_payload_stays:
  assumes "database_keeps cfg" and "admin_db_typed s" and "types_kept s'"
    and "update_item cfg now admin notifications_model k [(''payload'', J_list vs)] s = Inr (s', r)"
    and "cell_of r ''payload'' = C_doc (J_list vs)" and "holds_types notifications_model r"
  shows "update_answer cfg now admin notifications_model k [(''payload'', J_list vs)] s = (s', Inl refused) \<and>
    get_answer notifications_model k s' = Inl refused \<and>
    (length (ad_rows s' ''notifications'') \<le> page_size \<longrightarrow> list_answer notifications_model None 1 page_size s' = Inl refused)"
proof -
  have m: "notifications_model \<in> set crud_models" by (simp add: crud_models_def)
  have e: "cr_entity notifications_model = ''notifications''" by (simp add: notifications_model_def)
  have typed: "admin_db_typed s'" by (rule update_item_typed [OF assms(4,1) m assms(2)])
  obtain r0 where r0: "get_row notifications_model k s = Some r0"
    and s': "ad_rows s' = (ad_rows s)(''notifications'' := map (\<lambda>x. if row_is k x then r else x) (ad_rows s ''notifications''))"
    and kept: "\<forall>n \<in> set (cr_forbidden notifications_model). n \<noteq> ''password_hash'' \<and> n \<noteq> ''updated_at'' \<longrightarrow> cell_of r n = cell_of r0 n"
    by (rule update_item_Inr [OF assms(4,1) m, unfolded e])
  have "cell_of r ''id'' = cell_of r0 ''id''" using kept by (simp add: notifications_model_def default_forbidden_def)
  then have id: "cell_of r ''id'' = C_uuid k" using get_row_SomeD [OF r0] by simp
  have mem: "r0 \<in> set (ad_rows s ''notifications'')" "row_is k r0" using get_row_SomeD [OF r0] by (simp_all add: e row_is_def)
  then have in': "r \<in> set (ad_rows s' ''notifications'')" by (force simp: s')
  have found: "get_row notifications_model k s' = Some r"
  proof -
    obtain x where x: "get_row notifications_model k s' = Some x"
      using in' id by (cases "get_row notifications_model k s'") (auto simp: get_row_def e find_None_iff row_is_def)
    then have "x \<in> set (ad_rows s' ''notifications'')" "row_is k x" using get_row_SomeD [OF x] by (simp_all add: e row_is_def)
    then have "x = r" by (auto simp: s' split: if_splits)
    then show ?thesis using x by simp
  qed
  have "row_typed notifications_model r" using typed_table [OF typed m] in' by (simp add: table_typed_def list_all_iff e)
  then have bad: "model_validate notifications_model r = Inl refused"
    using model_validate_stored [of notifications_model r] m assms(5,6) payload_of_notifications [OF m, of r]
    by (simp add: e document_ok_def fits_def)
  have nobject: "\<not> document_ok (cell_of r ''payload'')" using assms(5) by (simp add: document_ok_def fits_def)
  have "list_answer notifications_model None 1 page_size s' = Inl refused" if "length (ad_rows s' ''notifications'') \<le> page_size"
  proof -
    have rows: "list_items notifications_model None 1 page_size s' = (ad_rows s' ''notifications'', length (ad_rows s' ''notifications''))"
      using that by (simp add: list_items_def search_rows_def one_page_def e Let_def)
    have "\<not> list_all (\<lambda>r. document_ok (cell_of r ''payload'')) (ad_rows s' ''notifications'')"
      using in' nobject by (auto simp: list_all_iff)
    then show ?thesis
      using list_answer_stored [OF m typed assms(3) rows] payload_of_notifications [OF m] by (simp add: e list_all_iff)
  qed
  then show ?thesis using assms(4) bad found by (simp add: update_answer_def get_answer_def get_item_def)
qed

definition noticed :: admin_db where
  "noticed = put_rows ''notifications'' [new_row notifications_model 5 0
     [(''user_id'', C_uuid 2), (''type'', C_str ''sub_panic''), (''title'', C_str ''t'')]] admin_world"

lemma list_payload_example:
  "(case update_answer admin_sample 9 root notifications_model 5 [(''payload'', J_list [])] noticed of (s', answer) \<Rightarrow>
      answer = Inl refused \<and> get_answer notifications_model 5 s' = Inl refused \<and>
      list_answer notifications_model None 1 50 s' = Inl refused)"
  by code_simp

lemma pages_answered_witness:
  "\<exists>out. list_answer notifications_model None 1 50 noticed = Inr out \<and> lo_total out = 1 \<and>
     map (\<lambda>r. cell_of r ''title'') (lo_items out) = [C_str ''t'']"
proof -
  have rows: "list_items notifications_model None 1 50 noticed = (ad_rows noticed ''notifications'', 1)" by code_simp
  have "admin_db_typed noticed" by code_simp
  moreover have "types_kept noticed" by code_simp
  moreover have "notifications_model \<in> set crud_models" by (simp add: crud_models_def)
  moreover have "list_all (\<lambda>r. document_ok (cell_of r ''payload'')) (ad_rows noticed ''notifications'')" by code_simp
  moreover have "map (\<lambda>r. cell_of r ''title'') (map (shown notifications_model) (ad_rows noticed ''notifications'')) = [C_str ''t'']"
    by code_simp
  ultimately show ?thesis using pages_answered [OF _ _ _ rows] by simp
qed

end
