(* ===== verification/Welcome.thy ===== *)
theory Welcome
  imports Browser
begin

text \<open>
  What the sessions of \<open>Auth\<close> leave out: the mails (\<^verbatim>\<open>services/email\<close> and the places that send them in
  \<^verbatim>\<open>controllers/auth_controller.py\<close> and \<^verbatim>\<open>controllers/invitation_controller.py\<close>) and what follows
  from a mail. The templates and the transport are parameters; a mail that cannot be sent ends the request, so
  nothing of it is kept. A mail of a reset leads to a sign-in, and an invitation makes one account.
\<close>

section \<open>Mails\<close>

record mail =
  ml_to :: string
  ml_subject :: string
  ml_html :: string

record mail_settings =
  ms_email_driver :: string
  ms_mail_from :: string
  ms_resend_api_key :: string
  ms_smtp_host :: string
  ms_smtp_port :: int
  ms_public_base_url :: string

datatype email_service =
    ResendEmailService string string \<comment> \<open>the key and the sender\<close>
  | SmtpEmailService string int string \<comment> \<open>host, port, sender\<close>

definition get_email_service :: "mail_settings \<Rightarrow> email_service" where
  "get_email_service m =
     (if ms_email_driver m = ''resend'' then ResendEmailService (ms_resend_api_key m) (ms_mail_from m)
      else SmtpEmailService (ms_smtp_host m) (ms_smtp_port m) (ms_mail_from m))"

text \<open>The transport answers with an error or takes the mail.\<close>

type_synonym transport = "email_service \<Rightarrow> mail \<Rightarrow> app_error option"

definition send_mail :: "transport \<Rightarrow> email_service \<Rightarrow> mail \<Rightarrow> mail list \<Rightarrow> mail list res" where
  "send_mail deliver e m sent =
     raise_if (case e of ResendEmailService api_key _ \<Rightarrow> api_key = [] | SmtpEmailService _ _ _ \<Rightarrow> False)
       (AppError ''RESEND_API_KEY is not configured'') (
     case deliver e m of Some err \<Rightarrow> Inl err | None \<Rightarrow> Inr (sent @ [m]))"

text \<open>A template by its name and the values of its variables.\<close>

type_synonym templates = "string \<Rightarrow> (string \<times> string) list \<Rightarrow> string"

definition reset_mail :: "templates \<Rightarrow> mail_settings \<Rightarrow> string \<Rightarrow> user \<Rightarrow> mail" where
  "reset_mail render_template m raw user =
     \<lparr>ml_to = u_email user, ml_subject = ''Reset your password'',
      ml_html = render_template ''password_reset.html''
        [(''reset_url'', ms_public_base_url m @ ''/reset-password?token='' @ raw)]\<rparr>"

definition mail_password_reset ::
  "templates \<Rightarrow> transport \<Rightarrow> mail_settings \<Rightarrow> hashing \<Rightarrow> datetime \<Rightarrow> string \<Rightarrow> string \<Rightarrow> db \<Rightarrow> mail list \<Rightarrow>
   (db \<times> mail list) res" where
  "mail_password_reset render_template deliver m h now raw email s sent =
     attempt (user_by_email email s) (\<lambda>r.
     case r of
       None \<Rightarrow> Inr (s, sent)
     | Some user \<Rightarrow>
         attempt (create_reset_token h now (u_id user) raw s) (\<lambda>s1.
         attempt (send_mail deliver (get_email_service m) (reset_mail render_template m raw user) sent) (\<lambda>sent'.
         Inr (s1, sent'))))"

definition build_url :: "mail_settings \<Rightarrow> string \<Rightarrow> string" where
  "build_url m token = ms_public_base_url m @ ''/invite/'' @ token"

record invitation_out =
  io_invitation :: invitation
  io_url :: string
  io_status :: invitation_status

definition invitation_out_of :: "mail_settings \<Rightarrow> datetime \<Rightarrow> invitation \<Rightarrow> user_status option \<Rightarrow> invitation_out" where
  "invitation_out_of m now i linked =
     \<lparr>io_invitation = i, io_url = build_url m (n_token i), io_status = derive_status now i linked\<rparr>"

definition invite_mail :: "templates \<Rightarrow> mail_settings \<Rightarrow> goddess \<Rightarrow> invitation \<Rightarrow> string \<Rightarrow> mail" where
  "invite_mail render_template m g i recipient =
     \<lparr>ml_to = recipient, ml_subject = ''You have been invited'',
      ml_html = render_template ''invite.html''
        [(''goddess_name'', g_display_name g), (''invite_url'', build_url m (n_token i))]\<rparr>"

definition goddess_profile_of :: "uuid \<Rightarrow> db \<Rightarrow> goddess res" where
  "goddess_profile_of uid s =
     attempt (resolve_goddess_id uid s) (\<lambda>gid.
     require (fetch g_id gid (t_goddesses s)) (Forbidden ''goddess profile not found for this user'') Inr)"

definition mail_invitation ::
  "templates \<Rightarrow> transport \<Rightarrow> mail_settings \<Rightarrow> datetime \<Rightarrow> uuid \<Rightarrow> uuid \<Rightarrow> string \<Rightarrow> db \<Rightarrow> mail list \<Rightarrow> mail list res" where
  "mail_invitation render_template deliver m now goddess_user_id nid recipient s sent =
     attempt (goddess_profile_of goddess_user_id s) (\<lambda>g.
     attempt (resend_invitation now goddess_user_id nid s) (\<lambda>i.
     send_mail deliver (get_email_service m) (invite_mail render_template m g i recipient) sent))"

text \<open>The preview shows the mail without its recipient, of an invitation in any status.\<close>

definition preview_invitation ::
  "templates \<Rightarrow> mail_settings \<Rightarrow> uuid \<Rightarrow> uuid \<Rightarrow> db \<Rightarrow> (string \<times> string) res" where
  "preview_invitation render_template m goddess_user_id nid s =
     attempt (goddess_profile_of goddess_user_id s) (\<lambda>g.
     attempt (invitation_for_goddess nid (g_id g) s) (\<lambda>r.
     require r (NotFound ''invitation not found'') (\<lambda>i.
     let x = invite_mail render_template m g i [] in Inr (ml_subject x, ml_html x))))"

section \<open>A reset by mail\<close>

definition verifies :: "hashing \<Rightarrow> bool" where
  "verifies h \<longleftrightarrow> (\<forall>p. argon_verify h (argon_hash h p) p = V_match)"

lemma filter_modify:
  "(\<And>r. P (f r) = P r) \<Longrightarrow> filter P (modify key k f t) = modify key k f (filter P t)"
  by (induction t) (simp_all add: modify_def)

lemma reset_token_consumed:
  assumes "create_reset_token h now uid raw s = Inr s1" and "later \<le> now + reset_ttl_minutes * us_per_minute"
  shows "\<exists>row ts. consume_reset_token h later raw s1 = Inr (s1\<lparr>t_reset_tokens := ts\<rparr>, Some row) \<and> pr_user_id row = uid \<and>
    (\<forall>t s2. t_reset_tokens s2 = ts \<longrightarrow> consume_reset_token h t raw s2 = Inr (s2, None))"
proof -
  let ?n = "\<lparr>pr_user_id = uid, pr_token_hash = hash_token h raw,
          pr_expires_at = now + reset_ttl_minutes * us_per_minute, pr_used_at = None\<rparr>"
  have s1: "s1 = s\<lparr>t_reset_tokens := t_reset_tokens s @ [?n]\<rparr>"
    and none: "filter (\<lambda>t. pr_token_hash t = hash_token h raw) (t_reset_tokens s) = []"
    using assms(1) by (auto simp: create_reset_token_def res_simps list_ex_iff filter_empty_conv)
  let ?ts = "modify pr_token_hash (hash_token h raw) (\<lambda>t. t\<lparr>pr_used_at := Some later\<rparr>) (t_reset_tokens s1)"
  have "filter (\<lambda>t. pr_token_hash t = hash_token h raw) ?ts = [?n\<lparr>pr_used_at := Some later\<rparr>]"
    by (subst filter_modify) (simp_all add: s1 none modify_def)
  then have again: "consume_reset_token h t raw s2 = Inr (s2, None)" if "t_reset_tokens s2 = ?ts" for t s2
    unfolding consume_reset_token_def that by simp
  have "consume_reset_token h later raw s1 = Inr (s1\<lparr>t_reset_tokens := ?ts\<rparr>, Some (?n\<lparr>pr_used_at := Some later\<rparr>))"
    using assms(2) none by (simp add: consume_reset_token_def s1)
  then show ?thesis using again by (intro exI [of _ "?n\<lparr>pr_used_at := Some later\<rparr>"] exI [of _ ?ts]) simp
qed

lemma login_after_change:
  assumes "verifies h" and "user_by_email email s = Inr (Some user)" and "u_status user \<notin> {US_blacklisted, US_deleted}"
    and "u_password_hash user = hash_password h password" and "hash_token h raw \<notin> rt_token_hash ` set (t_refresh_tokens s)"
  shows "\<exists>s' pair. login h now raw email password s = Inr (s', pair) \<and> tp_user_id pair = u_id user"
proof -
  obtain new_hash where "verify_password_with_rehash h password (u_password_hash user) = (True, new_hash)"
    using assms(1,4) by (cases "needs_rehash h (u_password_hash user)")
      (simp_all add: verify_password_with_rehash_def hash_password_def verifies_def)
  moreover have "list_all (\<lambda>t. rt_token_hash t \<noteq> hash_token h raw) (t_refresh_tokens s)"
    unfolding list_all_iff using assms(5) by (metis imageI)
  ultimately show ?thesis using assms(2,3)
    by (auto simp: list_all_iff login_def create_refresh_token_def Let_def list_ex_iff update_user_def raise_if_def split: option.splits)
qed

text \<open>C30: A reset by mail ends in a sign-in. When the request for a reset succeeds for a known address, one mail went out, to the
address of the account, with the link that holds the token; within the hour the token sets a new password, once, and
closes all sessions of the account; with the new password the user can then sign in, unless the account is blocked.\<close>

theorem reset_by_mail:
  assumes "verifies h" and "user_by_email email s = Inr (Some user)" and "distinct (map u_id (t_users s))"
    and "mail_password_reset render_template deliver m h now raw email s sent = Inr (s1, sent1)"
    and "later \<le> now + 60 * us_per_minute" and "u_status user \<notin> {US_blacklisted, US_deleted}"
    and "hash_token h fresh \<notin> rt_token_hash ` set (t_refresh_tokens s)"
  shows "sent1 = sent @ [reset_mail render_template m raw user] \<and>
    (\<exists>s2. confirm_password_reset h later raw password s1 = Inr s2 \<and>
       confirm_password_reset h t raw other s2 = Inl (BadRequest ''invalid, used, or expired reset token'') \<and>
       list_all (\<lambda>rt. rt_user_id rt = u_id user \<longrightarrow> rt_revoked_at rt \<noteq> None) (t_refresh_tokens s2) \<and>
       (\<exists>s3 pair. login h t fresh email password s2 = Inr (s3, pair) \<and> tp_user_id pair = u_id user))"
proof -
  have create: "create_reset_token h now (u_id user) raw s = Inr s1"
    and mail: "sent1 = sent @ [reset_mail render_template m raw user]"
    using assms(2,4) by (auto simp: mail_password_reset_def res_simps send_mail_def split: option.splits)
  have s1: "t_users s1 = t_users s" "t_refresh_tokens s1 = t_refresh_tokens s"
    using create by (auto simp: create_reset_token_def res_simps)
  obtain row ts where used: "consume_reset_token h later raw s1 = Inr (s1\<lparr>t_reset_tokens := ts\<rparr>, Some row)" "pr_user_id row = u_id user"
    and again: "\<And>t s2. t_reset_tokens s2 = ts \<Longrightarrow> consume_reset_token h t raw s2 = Inr (s2, None)"
    using reset_token_consumed [OF create, of later] assms(5) unfolding reset_ttl_minutes_def by blast
  have only: "filter (\<lambda>u. u_email u = email) (t_users s) = [user]"
    using assms(2) by (simp add: user_by_email_def scalar_one_or_none_Some)
  then have "user \<in> set (filter (\<lambda>u. u_email u = email) (t_users s))" by simp
  then have "user \<in> set (t_users s)" by simp
  then have found: "user_by_id (u_id user) (s1\<lparr>t_reset_tokens := ts\<rparr>) = Some user"
    using assms(3) by (simp add: user_by_id_def s1 fetch_distinct)
  let ?f = "\<lambda>u. u\<lparr>u_password_hash := hash_password h password\<rparr>"
  let ?s2 = "revoke_all_refresh_for_user (u_id user) later (update_user (u_id user) ?f (s1\<lparr>t_reset_tokens := ts\<rparr>))"
  have confirm: "confirm_password_reset h later raw password s1 = Inr ?s2"
    using used found by (simp add: confirm_password_reset_def Let_def)
  have s2: "t_reset_tokens ?s2 = ts" "t_users ?s2 = modify u_id (u_id user) ?f (t_users s)"
    "t_refresh_tokens ?s2 = map (\<lambda>t. if rt_user_id t = u_id user \<and> rt_revoked_at t = None
          then t\<lparr>rt_revoked_at := Some later\<rparr> else t) (t_refresh_tokens s)"
    by (simp_all add: revoke_all_refresh_for_user_def update_user_def s1)
  have "filter (\<lambda>u. u_email u = email) (modify u_id (u_id user) ?f (t_users s)) = [?f user]"
    by (subst filter_modify) (simp_all add: only)
  then have new: "user_by_email email ?s2 = Inr (Some (?f user))" by (simp add: user_by_email_def s2)
  have "hash_token h fresh \<notin> rt_token_hash ` set (t_refresh_tokens ?s2)" using assms(7) by (auto simp: s2 image_iff)
  from login_after_change [OF assms(1) new _ _ this, of password t] assms(6)
  have login: "\<exists>s3 pair. login h t fresh email password ?s2 = Inr (s3, pair) \<and> tp_user_id pair = u_id user" by simp
  have "list_all (\<lambda>rt. rt_user_id rt = u_id user \<longrightarrow> rt_revoked_at rt \<noteq> None) (t_refresh_tokens ?s2)"
    unfolding s2 list.pred_map by (simp add: list_all_iff)
  moreover have "confirm_password_reset h t raw other ?s2 = Inl (BadRequest ''invalid, used, or expired reset token'')"
    by (simp add: confirm_password_reset_def again [OF s2(1)])
  ultimately show ?thesis using mail confirm login by blast
qed

definition smtp_settings :: mail_settings where
  "smtp_settings = \<lparr>ms_email_driver = ''smtp'', ms_mail_from = ''m'', ms_resend_api_key = [], ms_smtp_host = ''h'',
     ms_smtp_port = 25, ms_public_base_url = ''u''\<rparr>"

definition plain_page :: templates where
  "plain_page name values = name @ concat (map snd values)"

lemma plain_verifies: "verifies plain_hashing"
  by (simp add: verifies_def plain_hashing_def)

lemma reset_by_mail_witness:
  "\<exists>s1 s2 s3 pair. mail_password_reset plain_page (\<lambda>_ _. None) smtp_settings plain_hashing 5 ''r'' ''s'' token_world [] =
       Inr (s1, [reset_mail plain_page smtp_settings ''r'' sub_user]) \<and>
     confirm_password_reset plain_hashing 60 ''r'' ''secret'' s1 = Inr s2 \<and>
     login plain_hashing 70 ''new'' ''s'' ''secret'' s2 = Inr (s3, pair) \<and> tp_user_id pair = 12"
proof -
  have sub: "user_by_email ''s'' token_world = Inr (Some sub_user)"
    by (simp add: user_by_email_def token_world_def dom_user_def sub_user_def)
  have "t_reset_tokens token_world = []" by (simp add: token_world_def world_def empty_db_def)
  then have "\<exists>s1. create_reset_token plain_hashing 5 12 ''r'' token_world = Inr s1" by (simp add: create_reset_token_def)
  with sub obtain s1 where mail: "mail_password_reset plain_page (\<lambda>_ _. None) smtp_settings plain_hashing 5 ''r'' ''s'' token_world [] =
      Inr (s1, [reset_mail plain_page smtp_settings ''r'' sub_user])"
    by (auto simp: mail_password_reset_def send_mail_def get_email_service_def smtp_settings_def)
  have "distinct (map u_id (t_users token_world))" "u_status sub_user \<notin> {US_blacklisted, US_deleted}"
    "60 \<le> 5 + 60 * us_per_minute"
    "hash_token plain_hashing ''new'' \<notin> rt_token_hash ` set (t_refresh_tokens token_world)"
    by (simp_all add: token_world_def us_per_minute_def plain_hashing_def)
  from reset_by_mail [OF plain_verifies sub this(1) mail this(3,2,4)] mail show ?thesis by fastforce
qed

section \<open>An invitation\<close>

lemma invitation_by_token_cases:
  assumes "invitation_by_token token s = Some (i, g)"
  shows "i \<in> set (t_invitations s) \<and> n_token i = token \<and> g_id g = n_goddess_id i"
proof -
  define found where "found = [(i, g). i \<leftarrow> t_invitations s, n_token i = token, g \<leftarrow> t_goddesses s, g_id g = n_goddess_id i]"
  have "(case found of [] \<Rightarrow> None | row # _ \<Rightarrow> Some row) = Some (i, g)"
    using assms unfolding invitation_by_token_def found_def .
  then have "(i, g) \<in> set found" by (cases found) simp_all
  then show ?thesis by (auto simp: found_def)
qed

lemma invitation_marked:
  assumes "\<And>j. n_token (f j) = n_token j \<and> n_goddess_id (f j) = n_goddess_id j"
    and "t_invitations s' = map f (t_invitations s)" and "t_goddesses s' = t_goddesses s"
  shows "invitation_by_token token s' = map_option (\<lambda>(i, g). (f i, g)) (invitation_by_token token s)"
proof -
  have rows: "[(i, g). i \<leftarrow> map f is, n_token i = token, g \<leftarrow> gs, g_id g = n_goddess_id i] =
      map (\<lambda>(i, g). (f i, g)) [(i, g). i \<leftarrow> is, n_token i = token, g \<leftarrow> gs, g_id g = n_goddess_id i]" for "is" gs
    using assms(1) by (induction "is") (auto simp: map_concat comp_def intro!: arg_cong [of _ _ concat])
  define found where "found = [(i, g). i \<leftarrow> t_invitations s, n_token i = token, g \<leftarrow> t_goddesses s, g_id g = n_goddess_id i]"
  have "invitation_by_token token s' = (case map (\<lambda>(i, g). (f i, g)) found of [] \<Rightarrow> None | row # _ \<Rightarrow> Some row)"
    unfolding invitation_by_token_def assms(2,3) found_def rows ..
  moreover have "invitation_by_token token s = (case found of [] \<Rightarrow> None | row # _ \<Rightarrow> Some row)"
    unfolding invitation_by_token_def found_def ..
  ultimately show ?thesis by (cases found) simp_all
qed

lemma consume_outcome:
  assumes "consume h uid now raw token p s = Inr (s1, pair)"
  obtains i g u where "invitation_by_token token s = Some (i, g)" "now \<le> n_expires_at i"
    "t_invitations s1 = modify n_id (n_id i) (\<lambda>i. i\<lparr>n_used_at := Some now, n_used_by_user_id := Some uid\<rparr>) (t_invitations s)"
    "t_goddesses s1 = t_goddesses s" "t_users s1 = t_users s @ [u]" "u_id u = uid" "u_role u = R_sub"
    "u_status u = US_pending_entry_tribute" "u_goddess_id u = Some (g_id g)"
  using assms
  by (auto simp: consume_def open_invitation_def res_simps create_user_def Let_def create_refresh_token_def consume_invitation_def
      insert_row_def not_less split: prod.splits)

text \<open>C31: An invitation makes one account. A signup that succeeds has used an invitation that had not expired; there is then
a sub of the goddess who invited, with the chosen identifier, who waits for the entry tribute of the amount of that
invitation and has a profile of a free sub; and no signup with the same token succeeds afterwards.\<close>

theorem invitation_makes_one_account:
  assumes "signup_with_profile h uid now raw token p s = Inr (s1, pair)" and "user_by_id uid (core s) = None"
    and "profile_of uid s = None" and "list_all (\<lambda>i. n_used_by_user_id i \<noteq> Some uid) (t_invitations (core s))"
    and "distinct (map n_id (t_invitations (core s)))"
  shows "\<exists>i g u prof. invitation_by_token token (core s) = Some (i, g) \<and> now \<le> n_expires_at i \<and>
     user_by_id uid (core s1) = Some u \<and> u_role u = R_sub \<and> u_status u = US_pending_entry_tribute \<and>
     u_goddess_id u = Some (n_goddess_id i) \<and> get_profile uid s1 = Inr prof \<and> sp_ownership_status prof = OW_free \<and>
     get_entry_tribute_amount uid (core s1) = Inr (Some (n_entry_tribute_amount i)) \<and>
     signup_with_profile h2 uid2 later raw2 token p2 s1 \<in>
       {Inl (Conflict ''invitation has expired''), Inl (Conflict ''invitation has already been used'')}"
proof -
  obtain c where c: "consume h uid now raw token p (core s) = Inr (c, pair)"
    "s1 = s\<lparr>core := c, t_profiles := insert_row ((default_profile now uid)\<lparr>sp_gender_id := su_gender_id p\<rparr>) (t_profiles s)\<rparr>"
    using assms(1) by (auto simp: signup_with_profile_def res_simps Let_def)
  let ?used = "\<lambda>i. i\<lparr>n_used_at := Some now, n_used_by_user_id := Some uid\<rparr>"
  from c(1) show ?thesis
  proof (rule consume_outcome)
    fix i g u
    assume by_token: "invitation_by_token token (core s) = Some (i, g)" and "now \<le> n_expires_at i"
      and table: "t_invitations c = modify n_id (n_id i) ?used (t_invitations (core s))" and "t_goddesses c = t_goddesses (core s)"
      and users: "t_users c = t_users (core s) @ [u]" "u_id u = uid"
      and sub: "u_role u = R_sub" "u_status u = US_pending_entry_tribute" "u_goddess_id u = Some (g_id g)"
    note i = invitation_by_token_cases [OF by_token]
    have "invitation_by_token token c = Some (?used i, g)"
      using invitation_marked [of "\<lambda>j. if n_id j = n_id i then ?used j else j" c "core s" token] table by_token
        \<open>t_goddesses c = t_goddesses (core s)\<close> by (simp add: modify_def)
    then have again: "signup_with_profile h2 uid2 later raw2 token p2 s1 \<in>
       {Inl (Conflict ''invitation has expired''), Inl (Conflict ''invitation has already been used'')}"
      by (simp add: signup_with_profile_def consume_def open_invitation_def raise_if_def c(2))
    have marked: "filter (\<lambda>j. n_used_by_user_id j = Some uid) (modify n_id (n_id i) ?used t) =
        map ?used (filter (\<lambda>j. n_id j = n_id i) t)" if "list_all (\<lambda>j. n_used_by_user_id j \<noteq> Some uid) t" for t
      using that by (induction t) auto
    have single: "filter (\<lambda>j. n_id j = n_id i) t = [i]" if "i \<in> set t" "distinct (map n_id t)" for t
      using that by (induction t) (auto simp: filter_empty_conv image_iff)
    have "filter (\<lambda>j. n_used_by_user_id j = Some uid) (t_invitations c) = [?used i]"
      unfolding table marked [OF assms(4)] using single [OF _ assms(5)] i by simp
    then have amount: "get_entry_tribute_amount uid c = Inr (Some (n_entry_tribute_amount i))"
      by (simp add: get_entry_tribute_amount_def invitation_used_by_def)
    have "user_by_id uid c = Some u" using assms(2) users by (simp add: user_by_id_def fetch_append)
    moreover have "get_profile uid s1 = Inr ((default_profile now uid)\<lparr>sp_gender_id := su_gender_id p\<rparr>)"
      using assms(3) by (simp add: get_profile_def profile_of_def c(2) insert_row_def fetch_append default_profile_def)
    ultimately show ?thesis
      using by_token \<open>now \<le> n_expires_at i\<close> sub i amount again by (auto simp: c(2) default_profile_def)
  qed
qed

definition the_invitation :: invitation where
  "the_invitation = \<lparr>n_id = 60, n_token = ''tok'', n_goddess_id = 10, n_entry_tribute_amount = 50, n_note = None,
     n_expires_at = 1000, n_used_at = None, n_used_by_user_id = None, n_created_at = 0\<rparr>"

definition the_signup :: signup where
  "the_signup = \<lparr>su_email = ''e'', su_password = ''long secret'', su_username = ''new'', su_first_name = None,
     su_last_name = None, su_gender = None, su_pronouns = None, su_location = None, su_timezone = ''UTC'',
     su_date_of_birth = 0, su_real_name = None, su_gender_id = None\<rparr>"

definition invited :: store where
  "invited = empty_store (world\<lparr>t_invitations := [the_invitation]\<rparr>)"

lemma invitation_makes_one_account_witness:
  "\<exists>s1 pair. signup_with_profile plain_hashing 20 900 ''r'' ''tok'' the_signup invited = Inr (s1, pair) \<and>
     get_entry_tribute_amount 20 (core s1) = Inr (Some 50) \<and>
     signup_with_profile plain_hashing 21 950 ''q'' ''tok'' the_signup s1 \<in>
       {Inl (Conflict ''invitation has expired''), Inl (Conflict ''invitation has already been used'')}"
proof -
  have by_token: "invitation_by_token ''tok'' (core invited) = Some (the_invitation, dom_profile)"
    by (simp add: invitation_by_token_def invited_def the_invitation_def world_def)
  then have "\<exists>r. signup_with_profile plain_hashing 20 900 ''r'' ''tok'' the_signup invited = Inr r"
    by (simp add: signup_with_profile_def consume_def open_invitation_def raise_if_def user_by_email_def user_by_username_def
        create_user_def consume_invitation_def create_refresh_token_def Let_def invited_def the_invitation_def the_signup_def
        world_def empty_db_def dom_user_def sub_user_def insert_row_def plain_hashing_def)
  then obtain s1 pair where run: "signup_with_profile plain_hashing 20 900 ''r'' ''tok'' the_signup invited = Inr (s1, pair)" by auto
  have "user_by_id 20 (core invited) = None" "profile_of 20 invited = None"
    "list_all (\<lambda>i. n_used_by_user_id i \<noteq> Some 20) (t_invitations (core invited))"
    "distinct (map n_id (t_invitations (core invited)))"
    by (simp_all add: invited_def user_by_id_def profile_of_def world_def the_invitation_def)
  from invitation_makes_one_account [OF run this, of plain_hashing 21 950 "''q''" the_signup] by_token run show ?thesis
    by (auto simp: the_invitation_def)
qed

end
