(* ===== verification/Patches.thy ===== *)
theory Patches
  imports AdminRows
begin

text \<open>
  Partial updates and null. Seven handlers read a body in which every field is optional, keep the fields that
  were sent (\<^verbatim>\<open>model_dump(exclude_unset=True)\<close>) and write them into the row with \<^verbatim>\<open>setattr\<close>. The records of
  \<open>Tasks\<close>, \<open>Rituals\<close>, \<open>Penalty\<close>, \<open>Methods\<close> and \<open>Gallery\<close> know a null only where it clears a text; here a body
  is what was sent, cell by cell, and the row meets the columns of its table. Who may change the row and in which
  status is decided before, by the handlers of those theories.
\<close>

section \<open>Bodies\<close>

record patch_field =
  pf_kind :: kind
  pf_limit :: "cell \<Rightarrow> bool"

type_synonym patch_schema = "(string \<times> patch_field) list"

type_synonym fields = "(string \<times> cell) list"

definition optional :: "string \<Rightarrow> kind \<Rightarrow> (cell \<Rightarrow> bool) \<Rightarrow> string \<times> patch_field" where
  "optional n k limit = (n, \<lparr>pf_kind = k, pf_limit = limit\<rparr>)"

definition unlimited :: "cell \<Rightarrow> bool" where
  "unlimited v = True"

definition length_within :: "nat \<Rightarrow> nat \<Rightarrow> cell \<Rightarrow> bool" where
  "length_within a b v = (case v of C_str x \<Rightarrow> a \<le> length x \<and> length x \<le> b | _ \<Rightarrow> True)"

definition number_with :: "(rat \<Rightarrow> bool) \<Rightarrow> cell \<Rightarrow> bool" where
  "number_with p v = (case v of C_num q \<Rightarrow> p q | _ \<Rightarrow> True)"

definition task_patch :: patch_schema where
  "task_patch =
     [optional ''title'' K_text (length_within 1 200), optional ''description'' K_text unlimited,
      optional ''due_at'' K_when unlimited, optional ''points_on_complete'' K_count unlimited,
      optional ''points_on_miss'' K_count unlimited]"

definition ritual_patch :: patch_schema where
  "ritual_patch =
     [optional ''title'' K_text (length_within 1 200), optional ''description'' K_text unlimited,
      optional ''frequency'' (K_choice [''daily'', ''weekly'', ''custom'']) unlimited,
      optional ''custom_days_bitmask'' K_count (number_with (\<lambda>q. 1 \<le> q \<and> q \<le> 127)),
      optional ''deadline_time'' K_when unlimited, optional ''points_on_complete'' K_count unlimited,
      optional ''points_on_miss'' K_count unlimited, optional ''requires_proof'' K_flag unlimited,
      optional ''paused'' K_flag unlimited]"

definition reward_tier_patch :: patch_schema where
  "reward_tier_patch =
     [optional ''name'' K_text (length_within 1 200), optional ''description'' K_text unlimited,
      optional ''cost'' K_count (number_with (\<lambda>q. 0 < q)), optional ''active'' K_flag unlimited]"

definition punishment_tier_patch :: patch_schema where
  "punishment_tier_patch =
     [optional ''name'' K_text (length_within 1 200), optional ''description'' K_text unlimited,
      optional ''default_points_penalty'' K_count (number_with (\<lambda>q. q \<le> 0)), optional ''active'' K_flag unlimited]"

definition penalty_triggers :: "string list" where
  "penalty_triggers = [''contract_missed'', ''ritual_missed'', ''rolling_late'', ''task_missed'']"

definition penalty_actions :: "string list" where
  "penalty_actions = [''notify_only'', ''apply_points'', ''apply_fee'']"

definition penalty_rule_patch :: patch_schema where
  "penalty_rule_patch =
     [optional ''sub_id'' K_uuid unlimited, optional ''trigger'' (K_choice penalty_triggers) unlimited,
      optional ''action'' (K_choice penalty_actions) unlimited, optional ''points_delta'' K_count unlimited,
      optional ''fee_amount'' K_amount (number_with (\<lambda>q. places 2 q \<and> \<bar>q\<bar> < 10 ^ 10)),
      optional ''name'' K_text unlimited,
      optional ''fee_percent'' K_amount (number_with (\<lambda>q. places 2 q \<and> \<bar>q\<bar> < 10 ^ 3)),
      optional ''min_days_late'' K_count (number_with (\<lambda>q. 0 \<le> q)),
      optional ''cooldown_hours'' K_count (number_with (\<lambda>q. 0 \<le> q)), optional ''active'' K_flag unlimited]"

definition payment_method_patch :: patch_schema where
  "payment_method_patch =
     [optional ''name'' K_text (length_within 1 200), optional ''type'' (K_choice payment_method_type_values) unlimited,
      optional ''handle_or_link'' K_text (length_within 1 500), optional ''note'' K_text unlimited,
      optional ''enabled'' K_flag unlimited]"

definition toy_categories :: "string list" where
  "toy_categories =
     [''restraint'', ''impact'', ''vibrator'', ''plug'', ''cage'', ''gag'', ''clothing'', ''collar'', ''other'']"

definition toy_patch :: patch_schema where
  "toy_patch =
     [optional ''category'' (K_choice toy_categories) unlimited, optional ''name'' K_text (length_within 1 200),
      optional ''description'' K_text unlimited, optional ''photo_r2_key'' K_text unlimited]"

text \<open>The fields that were sent, in the order of the schema; a body that does not suit is refused by the framework.\<close>

definition admitted :: "patch_field \<Rightarrow> cell \<Rightarrow> bool" where
  "admitted f v \<longleftrightarrow> v = C_none \<or> fits (pf_kind f) v \<and> pf_limit f v"

definition model_dump_unset :: "patch_schema \<Rightarrow> fields \<Rightarrow> fields res" where
  "model_dump_unset sch body =
     raise_if (list_ex (\<lambda>(n, f). case map_of body n of None \<Rightarrow> False | Some v \<Rightarrow> \<not> admitted f v) sch)
       (HTTPException 422 ''Unprocessable Entity'') (
     Inr (List.map_filter (\<lambda>(n, f). map_option (Pair n) (map_of body n)) sch))"

section \<open>Tables\<close>

text \<open>
  Columns with their type and whether they may be null; the check constraint; what the controller asks of the
  fields alone, and whether it returns at once when no field was sent.
\<close>

record patched_table =
  pt_schema :: patch_schema
  pt_columns :: "(string \<times> kind \<times> bool) list"
  pt_stamps :: "string list" \<comment> \<open>the columns of type \<^verbatim>\<open>TIMESTAMP WITHOUT TIME ZONE\<close> that a body can set\<close>
  pt_check :: "row \<Rightarrow> bool"
  pt_guard :: "fields \<Rightarrow> app_error option"
  pt_returns_early :: bool

definition no_check :: "row \<Rightarrow> bool" where
  "no_check r = True"

definition no_guard :: "fields \<Rightarrow> app_error option" where
  "no_guard fs = None"

definition task_table :: patched_table where
  "task_table = \<lparr>pt_schema = task_patch,
     pt_columns = [(''id'', K_uuid, False), (''sub_id'', K_uuid, False), (''goddess_id'', K_uuid, False), (''title'', K_text, False),
       (''description'', K_text, True), (''due_at'', K_when, True), (''points_on_complete'', K_count, False),
       (''points_on_miss'', K_count, False), (''status'', K_choice [''open'', ''submitted'', ''approved'', ''rejected'', ''cancelled''], False),
       (''evidence_r2_key'', K_text, True), (''note'', K_text, True), (''rejection_reason'', K_text, True), (''submitted_at'', K_when, True),
       (''reviewed_at'', K_when, True), (''reviewed_by'', K_uuid, True), (''created_at'', K_when, False), (''updated_at'', K_when, False)],
     pt_stamps = [''due_at''], pt_check = no_check, pt_guard = no_guard, pt_returns_early = True\<rparr>"

definition ritual_table :: patched_table where
  "ritual_table = \<lparr>pt_schema = ritual_patch,
     pt_columns = [(''id'', K_uuid, False), (''sub_id'', K_uuid, False), (''goddess_id'', K_uuid, False), (''title'', K_text, False),
       (''description'', K_text, True), (''frequency'', K_choice [''daily'', ''weekly'', ''custom''], False),
       (''custom_days_bitmask'', K_count, True), (''deadline_time'', K_when, True), (''points_on_complete'', K_count, False),
       (''points_on_miss'', K_count, False), (''requires_proof'', K_flag, False), (''paused'', K_flag, False),
       (''created_at'', K_when, False), (''updated_at'', K_when, False)],
     pt_stamps = [], pt_check = no_check, pt_guard = no_guard, pt_returns_early = True\<rparr>"

definition reward_tier_table :: patched_table where
  "reward_tier_table = \<lparr>pt_schema = reward_tier_patch,
     pt_columns = [(''id'', K_uuid, False), (''goddess_id'', K_uuid, False), (''name'', K_text, False), (''description'', K_text, True),
       (''cost'', K_count, False), (''active'', K_flag, False), (''created_at'', K_when, False), (''updated_at'', K_when, False)],
     pt_stamps = [], pt_check = (\<lambda>r. number_with (\<lambda>q. 0 < q) (cell_of r ''cost'')), pt_guard = no_guard, pt_returns_early = True\<rparr>"

definition punishment_tier_table :: patched_table where
  "punishment_tier_table = \<lparr>pt_schema = punishment_tier_patch,
     pt_columns = [(''id'', K_uuid, False), (''goddess_id'', K_uuid, False), (''name'', K_text, False), (''description'', K_text, True),
       (''default_points_penalty'', K_count, False), (''active'', K_flag, False), (''created_at'', K_when, False),
       (''updated_at'', K_when, False)],
     pt_stamps = [], pt_check = (\<lambda>r. number_with (\<lambda>q. q \<le> 0) (cell_of r ''default_points_penalty'')), pt_guard = no_guard, pt_returns_early = True\<rparr>"

definition percent_range :: "cell \<Rightarrow> bool" where
  "percent_range = number_with (\<lambda>q. 0 \<le> q \<and> q \<le> 100)"

definition percent_guard :: "fields \<Rightarrow> app_error option" where
  "percent_guard fs =
     (case map_of fs ''fee_percent'' of
        Some v \<Rightarrow> if percent_range v then None else Some (Validation ''fee_percent must be between 0 and 100'')
      | None \<Rightarrow> None)"

definition penalty_rule_table :: patched_table where
  "penalty_rule_table = \<lparr>pt_schema = penalty_rule_patch,
     pt_columns = [(''id'', K_uuid, False), (''goddess_id'', K_uuid, False), (''sub_id'', K_uuid, True),
       (''trigger'', K_choice penalty_triggers, False), (''action'', K_choice penalty_actions, False), (''points_delta'', K_count, False),
       (''fee_amount'', K_amount, True), (''name'', K_text, True), (''fee_percent'', K_amount, True), (''min_days_late'', K_count, True),
       (''cooldown_hours'', K_count, False), (''active'', K_flag, False), (''created_at'', K_when, False), (''updated_at'', K_when, False)],
     pt_stamps = [], pt_check = (\<lambda>r. percent_range (cell_of r ''fee_percent'')), pt_guard = percent_guard, pt_returns_early = True\<rparr>"

definition payment_method_table :: patched_table where
  "payment_method_table = \<lparr>pt_schema = payment_method_patch,
     pt_columns = [(''id'', K_uuid, False), (''goddess_id'', K_uuid, False), (''name'', K_text, False),
       (''type'', K_choice payment_method_type_values, False), (''handle_or_link'', K_text, False), (''note'', K_text, True),
       (''enabled'', K_flag, False), (''sort_order'', K_count, False), (''created_at'', K_when, False), (''updated_at'', K_when, False)],
     pt_stamps = [], pt_check = no_check, pt_guard = no_guard, pt_returns_early = False\<rparr>"

definition toy_table :: patched_table where
  "toy_table = \<lparr>pt_schema = toy_patch,
     pt_columns = [(''id'', K_uuid, False), (''sub_id'', K_uuid, False), (''goddess_id'', K_uuid, False),
       (''category'', K_choice toy_categories, False), (''name'', K_text, False), (''description'', K_text, True),
       (''photo_r2_key'', K_text, True), (''proposed_by'', K_choice [''sub'', ''goddess''], False), (''approved'', K_flag, False),
       (''lock_code_enc'', K_text, True), (''created_at'', K_when, False), (''updated_at'', K_when, False)],
     pt_stamps = [], pt_check = no_check, pt_guard = no_guard, pt_returns_early = True\<rparr>"

definition patched_tables :: "patched_table list" where
  "patched_tables =
     [task_table, ritual_table, reward_tier_table, punishment_tier_table, penalty_rule_table, payment_method_table, toy_table]"

section \<open>The update of a row\<close>

text \<open>
  What the driver and the server refuse of a value before the statement runs: an integer of more than
  32 bits, a text with a NUL character, and an instant with an offset for a column without a time zone.
  \<open>offsets\<close> names the fields whose time was sent with an offset; a column of type \<^verbatim>\<open>TIME\<close> drops it.
\<close>

definition int4 :: "cell \<Rightarrow> bool" where
  "int4 = number_with (\<lambda>q. - (2 ^ 31) \<le> q \<and> q < 2 ^ 31)"

definition has_nul :: "cell \<Rightarrow> bool" where
  "has_nul v = (case v of C_str x \<Rightarrow> CHR 0x00 \<in> set x | _ \<Rightarrow> False)"

definition refused_cell :: "kind \<Rightarrow> cell \<Rightarrow> bool" where
  "refused_cell k v \<longleftrightarrow> (k = K_count \<and> \<not> int4 v) \<or> has_nul v"

definition sends_offset :: "patched_table \<Rightarrow> string list \<Rightarrow> fields \<Rightarrow> bool" where
  "sends_offset t offsets fs = list_ex (\<lambda>(n, v). n \<in> set (pt_stamps t) \<and> n \<in> set offsets \<and> v \<noteq> C_none) fs"

definition flush_patched :: "patched_table \<Rightarrow> string list \<Rightarrow> fields \<Rightarrow> row \<Rightarrow> row res" where
  "flush_patched t offsets fs r =
     raise_if (sends_offset t offsets fs \<or> list_ex (\<lambda>(n, k, _). refused_cell k (cell_of r n)) (pt_columns t))
       (DataError ''parameter'') (
     raise_if (list_ex (\<lambda>(n, _, null). \<not> null \<and> cell_of r n = C_none) (pt_columns t)) (IntegrityError ''not null'') (
     raise_if (\<not> pt_check t r) (IntegrityError ''check'') (Inr r)))"

definition patch_row :: "patched_table \<Rightarrow> datetime \<Rightarrow> fields \<Rightarrow> string list \<Rightarrow> row \<Rightarrow> row res" where
  "patch_row t now body offsets r =
     attempt (model_dump_unset (pt_schema t) body) (\<lambda>fs.
     case pt_guard t fs of
       Some e \<Rightarrow> Inl e
     | None \<Rightarrow>
         if pt_returns_early t \<and> fs = [] then Inr r
         else flush_patched t offsets fs (set_cell ''updated_at'' (C_time now) (fold (\<lambda>(n, v). set_cell n v) fs r)))"

section \<open>What a patch does\<close>








lemma none_limits [simp]: "number_with p C_none" "int4 C_none" "percent_range C_none" "int4 (C_time t)"
    "\<not> refused_cell k C_none" "\<not> refused_cell k (C_time t)"
  by (simp_all add: number_with_def int4_def percent_range_def refused_cell_def has_nul_def)

















text \<open>The columns for which null is admitted by the schema and refused by the table.\<close>

lemma nulls_that_fail:
  "map (\<lambda>t. filter (\<lambda>n. map_option snd (map_of (pt_columns t) n) = Some False) (map fst (pt_schema t))) patched_tables =
    [[''title'', ''points_on_complete'', ''points_on_miss''],
     [''title'', ''frequency'', ''points_on_complete'', ''points_on_miss'', ''requires_proof'', ''paused''],
     [''name'', ''cost'', ''active''], [''name'', ''default_points_penalty'', ''active''],
     [''trigger'', ''action'', ''points_delta'', ''cooldown_hours'', ''active''],
     [''name'', ''type'', ''handle_or_link'', ''enabled''], [''category'', ''name'']]"
  by code_simp



text \<open>A deadline that was sent with an offset ends in an error, without one it is stored.\<close>

definition task_row :: row where
  "task_row =
     [(''id'', C_uuid 5), (''sub_id'', C_uuid 12), (''goddess_id'', C_uuid 10), (''title'', C_str ''essay''), (''description'', C_none),
      (''due_at'', C_none), (''points_on_complete'', C_num 10), (''points_on_miss'', C_num 0), (''status'', C_str ''open''),
      (''evidence_r2_key'', C_none), (''note'', C_none), (''rejection_reason'', C_none), (''submitted_at'', C_none),
      (''reviewed_at'', C_none), (''reviewed_by'', C_none), (''created_at'', C_time 0), (''updated_at'', C_time 0)]"

lemma deadline_with_offset:
  "patch_row task_table 7 [(''due_at'', C_time 9)] [''due_at''] task_row = Inl (DataError ''parameter'')"
  "map_sum id (\<lambda>r. cell_of r ''due_at'') (patch_row task_table 7 [(''due_at'', C_time 9)] [] task_row) = Inr (C_time 9)"
  by code_simp+

end
