(* ===== verification/Spec2Isabelle.thy ===== *)
theory Spec2Isabelle
  imports System Outcomes DailyRun Activities People Dashboard Charts Boundaries Medical Kinks Journal Access
    ReviewQueue Gallery Delivery LiveFeed RouteAccess Administration Overview Browser
    Deed Catalogue Worker Proofs Amounts AdminRuns Accounts AdminRows Welcome
    Patches
begin

text \<open>
  A verification development for the server of the debt tracker (\<^verbatim>\<open>src/server\<close>), a FastAPI program
  in Python over a PostgreSQL database. A goddess invites subs, agrees on contracts with them,
  receives payments, gives tasks and rituals and sees their records; an admin looks after the
  tables. All paths below are relative to \<^verbatim>\<open>src/server\<close>.

  \<^bold>\<open>How the program is modelled.\<close> A request is a function from the state to an error or a new state and
  an answer (\<open>res\<close>, \<open>attempt\<close>, \<open>raise_if\<close>, \<open>require\<close> of theory \<open>Prelude\<close>): most routes commit after
  the controller has returned, so an error leaves the state as it was; the routes that go on after their commit,
  and so may keep a change beside an error, are listed (\<open>late_routes\<close> of \<open>RouteTable\<close>). The state is a record of
  tables, a table the list of its rows in the order of insertion. New identifiers, the time and
  everything that is not code of the repository are arguments: hashing, access tokens, ciphers, the
  zone data of London, calendar arithmetic of \<^verbatim>\<open>dateutil\<close>, the object store, push services and the
  database beside the constraints that the code relies on. Amounts are rationals with the rounding
  of \<^verbatim>\<open>Decimal\<close> and of the columns written out; times are microseconds in UTC; integers of Python
  are \<open>int\<close>.

  \<^bold>\<open>The base.\<close> \<open>Prelude\<close>: errors (\<^verbatim>\<open>core/exceptions.py\<close>), combinators, keyed tables and the two
  interfaces of the development, \<open>keyed_table\<close> (lookup after insertion and change) and \<open>lifecycle\<close> (a
  status moves along permitted edges only); two more have their place in \<open>DailyRun\<close> (\<open>run_frame\<close>: a part of the
  state no step of the daily run touches) and \<open>Catalogue\<close> (\<open>upserts\<close>: rows written by their key). \<open>Decimals\<close>: the arithmetic of \<^verbatim>\<open>Decimal\<close> with 28 digits.
  \<open>Calendar\<close>: dates and wall clocks, with the inverse conversions of dates in \<open>Gregorian\<close>. \<open>Schema\<close>: the rows of the money side (\<^verbatim>\<open>models\<close>), where contracts
  follow the migrations because \<^verbatim>\<open>models/debt.py\<close> does not declare them. \<open>Personal\<close>: the rows of the
  personal side and the audit. \<open>Texts\<close>: placeholders, labels and slugs. \<open>Samples\<close>: small worlds
  for the closed examples.

  \<^bold>\<open>The money side.\<close> \<open>Ledger\<close> (\<^verbatim>\<open>utils/ledger.py\<close>), \<open>Finance\<close> (\<^verbatim>\<open>utils/finance.py\<close>: projection and buyout),
  \<open>Periods\<close> (\<^verbatim>\<open>utils/periods.py\<close>, \<^verbatim>\<open>utils/rolling.py\<close>), \<open>Users\<close>, \<open>Methods\<close> (payment methods), \<open>Clauses\<close>,
  \<open>Contracts\<close>, \<open>Negotiation\<close> and \<open>Additions\<close> (\<^verbatim>\<open>controllers/debt\<close>), \<open>Payments\<close> (\<^verbatim>\<open>controllers/payment\<close>,
  \<^verbatim>\<open>controllers/rolling_controller.py\<close>), \<open>Penalty\<close> (rules, merits, engine), \<open>Tasks\<close>, \<open>Rituals\<close>,
  \<open>Tribute\<close>, \<open>Blacklist\<close>, \<open>LatePenalty\<close>, \<open>Auth\<close> (sessions and invitations), \<open>Cron\<close> (the daily run) and
  \<open>Dashboard\<close> with \<open>Charts\<close> and \<open>Overview\<close> (what the pages show; the counters agree with the lists, the
  loops over due dates end). Over them: \<open>Machine\<close> gives the contract and its
  ledger as an abstract machine, \<open>Settlement\<close> and \<open>Declarations\<close> the machine of payments,
  \<open>Conformance\<close> shows that handlers are runs of the machines, \<open>Passes\<close> the same of the composed passes (the whole daily run
  with its savepoint, the bulk late penalty, renewals), and \<open>System\<close> puts the requests of all
  actors into one step relation: balances are replays of the ledger, terminal contracts stay
  so, decided payments stay decided. A run of the program (\<open>program_run\<close>) interleaves these requests with any
  other change of the database that spares the money tables. The editor of the administration (\<^verbatim>\<open>routers/admin.py\<close>) does not
  spare them: it writes contracts, events, adjustments and payments without their rules. So each property of a run
  has as parameter the tables that the editor writes, and says which of them it has to leave alone;
  \<open>Administration\<close> shows which tables an edit reaches, and by examples what an edit can break. \<open>Outcomes\<close> and \<open>DailyRun\<close> hold the outcomes of single requests and of the
  daily run, \<open>Activities\<close> the credits of tasks and rituals. \<open>Deed\<close> is the printed contract
  (\<^verbatim>\<open>services/pdf/generator.py\<close>): amounts read back, and the dates of its schedule are those on which the
  periods of the ledger end, up to the last days of a month. \<open>Worker\<close> has the scheduled jobs (\<^verbatim>\<open>workers/daily_cron.py\<close>)
  and what the jobs of one day do to the rituals, \<open>AdminRuns\<close> the same run by an admin (\<^verbatim>\<open>routers/admin_cron.py\<close>).
  \<open>Proofs\<close> joins the money system, the object store and the janitor: the proof of a declared payment
  stays as it was uploaded, unless an admin edits the payment. \<open>Amounts\<close> sets the amounts that bodies admit against the columns.

  \<^bold>\<open>The personal side.\<close> \<open>Profiles\<close> and \<open>People\<close> (profiles, change requests, status, panic), \<open>Accounts\<close> (the pages of an account, with what is
  kept when the answer is an error), \<open>Consent\<close>,
  \<open>Boundaries\<close> (limits and triggers), \<open>Kinks\<close> with the seed of their \<open>Catalogue\<close> (\<^verbatim>\<open>seeds/kinks.py\<close>, over any lists), \<open>Medical\<close> (envelope encryption, medical records,
  aftercare), \<open>Storage\<close> (objects and the janitor), \<open>Journal\<close>, \<open>Gallery\<close> (toys and photos) and
  \<open>ReviewQueue\<close>; each after the controller and the DAOs of that name. A status, a rating, an acknowledgement and
  a record read back as they were written; private entries stay private on the page.

  \<^bold>\<open>The edge.\<close> \<open>Delivery\<close>: inbox, live queues, web push and the limiter. \<open>LiveFeed\<close>: a connection of
  \<^verbatim>\<open>routers/ws.py\<close> as a state machine over the hub of \<open>Delivery\<close>; its three tasks act on signals, a
  run is timely when the pinger wakes at its time. \<open>Access\<close>: access tokens, the user of a request,
  the gate of waiting subs, impersonation, the limits of a day. \<open>AuditTrail\<close>: the decorator of \<^verbatim>\<open>decorators/audit.py\<close>.
  \<open>Routes\<close>: what runs around a handler (dependencies, consent, limiter, commit, audit row).
  \<open>RouteTable\<close>: the 182 routes of \<^verbatim>\<open>routers\<close> and those that \<^verbatim>\<open>routers/admin.py\<close> makes for
  eleven tables, one definition for each, and what they have in common. \<open>RouteAccess\<close>: from the
  table and the course of a request, who reaches which handler and which changes are on record.
  \<open>Administration\<close>: the generic handlers of \<^verbatim>\<open>routers/admin.py\<close> on rows as reflection sees them,
  \<open>AdminRows\<close> their answers (\<^verbatim>\<open>schemas/admin.py\<close>): which rows can be shown, and with which fields,
  \<open>Patches\<close> the partial updates of seven tables, with nulls, integers, NUL characters and instants with an offset as they are sent,
  against the columns and the driver.
  \<open>Browser\<close>: the settings derived from others (\<^verbatim>\<open>core/config.py\<close>), the cookie and the routes of a session
  (\<^verbatim>\<open>routers/auth.py\<close>), the envelope of errors (\<^verbatim>\<open>core/exception_handlers.py\<close>) and the headers that
  \<^verbatim>\<open>middleware\<close> adds; a refresh token buys one session. \<open>Welcome\<close>: the mails (\<^verbatim>\<open>services/email\<close>) with what follows from them; a
  reset by mail leads to a sign-in, and an invitation makes one account.

  \<^bold>\<open>Loops and bounds.\<close> The projection of a contract is a loop with the code's own limit of periods, and its
  termination without the warning is a theorem. The batches of an export and the pattern
  matching of the search end by a measure. No definition needs fuel.

  \<^bold>\<open>Assumptions with a name.\<close> \<open>london_like\<close> (the zone has the offsets of London), the round trip of
  the cipher, \<open>hub_ok\<close> (a queue is subscribed once, by one user), \<open>database_keeps\<close> (the database
  stores a row as it was given up to the types of its columns). Each theorem with a hypothesis has a
  witness beside it, at a concrete state.

  \<^bold>\<open>Not modelled.\<close> The parsing of bodies and the shape of most answers, which the framework derives from the
  schemas; the template and the rendering of PDF files; the templates of mails and their transport; the start
  of the application and its database engine (\<^verbatim>\<open>main.py\<close>, \<^verbatim>\<open>core/db.py\<close>); migrations, demonstration data, the
  literal lists of \<^verbatim>\<open>seeds/kinks.py\<close> and scripts; the clock of the scheduler, a library (nothing in the program starts it);
  \<^verbatim>\<open>routers/debt_contracts.py\<close>, which does
  not import (its controller is modelled). Bodies and links of notifications are left out.
  Concurrent requests are serial here, as each runs in a transaction of its own; the two places
  that handle a race by a unique constraint have that constraint.
\<close>

end
